(* ===== verification/Transition.thy ===== *)
theory Transition
  imports Main
begin

text \<open>
  State machines and their proof rules.  \<open>reaches init move s\<close> says that \<open>s\<close> is reached from
  an initial state by moves; the locales state what an invariant and a monotone relation of
  a machine have to provide and what they give.
\<close>

inductive reaches :: "('s \<Rightarrow> bool) \<Rightarrow> ('s \<Rightarrow> 's \<Rightarrow> bool) \<Rightarrow> 's \<Rightarrow> bool"
  for init :: "'s \<Rightarrow> bool" and move :: "'s \<Rightarrow> 's \<Rightarrow> bool" where
  reaches_init: "init s \<Longrightarrow> reaches init move s"
| reaches_move: "reaches init move s \<Longrightarrow> move s s' \<Longrightarrow> reaches init move s'"

lemma reaches_moves: "move\<^sup>*\<^sup>* s s' \<Longrightarrow> reaches init move s \<Longrightarrow> reaches init move s'"
  by (induction rule: rtranclp_induct) (auto intro: reaches_move)

text \<open>
  An invariant may rest on an invariant \<open>known\<close> that is already established: its step case
  may use it before and after the move.
\<close>

locale invariant =
  fixes init :: "'s \<Rightarrow> bool" and move :: "'s \<Rightarrow> 's \<Rightarrow> bool"
    and known :: "'s \<Rightarrow> bool" and inv :: "'s \<Rightarrow> bool"
  assumes known_reachable: "reaches init move s \<Longrightarrow> known s"
    and inv_init: "init s \<Longrightarrow> inv s"
    and inv_move: "known s \<Longrightarrow> inv s \<Longrightarrow> move s s' \<Longrightarrow> inv s'"
begin

lemma reachable_inv: "reaches init move s \<Longrightarrow> inv s"
  by (induction rule: reaches.induct) (auto intro: inv_init inv_move known_reachable)

lemma reachable_both: "reaches init move s \<Longrightarrow> known s \<and> inv s"
  by (simp add: known_reachable reachable_inv)

lemma run_inv: "reaches init move s \<Longrightarrow> move\<^sup>*\<^sup>* s s' \<Longrightarrow> inv s'"
  by (blast intro: reachable_inv reaches_moves)

end

text \<open>A relation that every move of a reachable state establishes and that composes.\<close>

locale monotone_relation =
  fixes init :: "'s \<Rightarrow> bool" and move :: "'s \<Rightarrow> 's \<Rightarrow> bool"
    and known :: "'s \<Rightarrow> bool" and rel :: "'s \<Rightarrow> 's \<Rightarrow> bool"
  assumes known_before: "reaches init move s \<Longrightarrow> known s"
    and rel_refl: "rel s s"
    and rel_trans: "rel s s' \<Longrightarrow> rel s' s'' \<Longrightarrow> rel s s''"
    and rel_move: "known s \<Longrightarrow> move s s' \<Longrightarrow> rel s s'"
begin

lemma run_rel: "move\<^sup>*\<^sup>* s s' \<Longrightarrow> reaches init move s \<Longrightarrow> rel s s'"
proof (induction rule: rtranclp_induct)
  case base
  show ?case by (rule rel_refl)
next
  case (step t u)
  then have "known t" by (blast intro: known_before reaches_moves)
  with step show ?case by (blast intro: rel_trans rel_move)
qed

end

end
