(* ===== verification/Prelude.thy ===== *)
theory Prelude
  imports Main
begin

text \<open>
  The generic layer of the development: the result type of a service call, the row
  operations of the in-memory repositories and the lemmas about them that every
  component shares.

  A service method of the code either returns or raises.  It becomes a function into
  \<open>'e + 'a\<close>: \<open>Inl e\<close> is the raised exception, \<open>Inr x\<close> the returned value.  The method
  body is a chain of \<open>attempt\<close>, \<open>guard\<close> and \<open>present\<close>, in the order of the code.
\<close>

named_theorems result_simps \<open>when a chain of checks succeeds, and with what\<close>
named_theorems frame_simps \<open>which tables an operation leaves alone\<close>

subsection \<open>Results\<close>

definition attempt :: "'e + 'a \<Rightarrow> ('a \<Rightarrow> 'e + 'b) \<Rightarrow> 'e + 'b" where
  "attempt r f = (case r of Inl e \<Rightarrow> Inl e | Inr x \<Rightarrow> f x)"

definition guard :: "bool \<Rightarrow> 'e \<Rightarrow> 'e + unit" where
  "guard b e = (if b then Inr () else Inl e)"

definition present :: "'a option \<Rightarrow> 'e \<Rightarrow> 'e + 'a" where
  "present x e = (case x of None \<Rightarrow> Inl e | Some y \<Rightarrow> Inr y)"

fun traverse :: "('a \<Rightarrow> 'e + 'b) \<Rightarrow> 'a list \<Rightarrow> 'e + 'b list" where
  "traverse f [] = Inr []"
| "traverse f (x # xs) = attempt (f x) (\<lambda>y. attempt (traverse f xs) (\<lambda>ys. Inr (y # ys)))"

fun fold_result :: "('a \<Rightarrow> 's \<Rightarrow> 'e + 's) \<Rightarrow> 'a list \<Rightarrow> 's \<Rightarrow> 'e + 's" where
  "fold_result f [] s = Inr s"
| "fold_result f (x # xs) s = attempt (f x s) (fold_result f xs)"

lemma attempt_simps [simp]:
  "attempt (Inl e) f = Inl e"
  "attempt (Inr x) f = f x"
  by (simp_all add: attempt_def)

lemma attempt_Inr [result_simps]: "attempt r f = Inr y \<longleftrightarrow> (\<exists>x. r = Inr x \<and> f x = Inr y)"
  by (cases r) simp_all

lemma attempt_Inl [result_simps]:
  "attempt r f = Inl e \<longleftrightarrow> r = Inl e \<or> (\<exists>x. r = Inr x \<and> f x = Inl e)"
  by (cases r) simp_all

lemma guard_simps [simp]:
  "guard True e = Inr ()"
  "guard False e = Inl e"
  by (simp_all add: guard_def)

lemma guard_Inr [result_simps]: "guard b e = Inr u \<longleftrightarrow> b"
  by (simp add: guard_def)

lemma guard_Inl [result_simps]: "guard b e = Inl e' \<longleftrightarrow> \<not> b \<and> e' = e"
  by (auto simp: guard_def)

lemma present_simps [simp]:
  "present None e = Inl e"
  "present (Some x) e = Inr x"
  by (simp_all add: present_def)

lemma present_Inr [result_simps]: "present x e = Inr y \<longleftrightarrow> x = Some y"
  by (cases x) simp_all

lemma present_Inl [result_simps]: "present x e = Inl e' \<longleftrightarrow> x = None \<and> e' = e"
  by (cases x) auto

text \<open>
  Elimination rules for a handler that returned: they take the chain of checks and bindings
  apart and leave one equation per \<open>let\<close>, which is not substituted.
\<close>

lemma attempt_pairE:
  "attempt r (\<lambda>(x, z). f x z) = Inr y \<Longrightarrow>
     (\<And>x z. r = Inr (x, z) \<Longrightarrow> f x z = Inr y \<Longrightarrow> P) \<Longrightarrow> P"
  by (auto simp: attempt_Inr)

lemma attempt_InrE: "attempt r f = Inr y \<Longrightarrow> (\<And>x. r = Inr x \<Longrightarrow> f x = Inr y \<Longrightarrow> P) \<Longrightarrow> P"
  by (auto simp: attempt_Inr)

lemma guard_InrE: "guard b e = Inr u \<Longrightarrow> (b \<Longrightarrow> P) \<Longrightarrow> P"
  by (simp add: guard_Inr)

lemma present_InrE: "present x e = Inr y \<Longrightarrow> (x = Some y \<Longrightarrow> P) \<Longrightarrow> P"
  by (simp add: present_Inr)

lemma let_pairE:
  "(let (x, z) = t in f x z) = y \<Longrightarrow> (\<And>x z. x = fst t \<Longrightarrow> z = snd t \<Longrightarrow> f x z = y \<Longrightarrow> P) \<Longrightarrow> P"
  by (simp add: Let_def split_beta)

lemma letE: "Let t f = y \<Longrightarrow> (\<And>x. x = t \<Longrightarrow> f x = y \<Longrightarrow> P) \<Longrightarrow> P"
  by (simp add: Let_def)

lemma if_InrE:
  "(if c then x else y) = Inr z \<Longrightarrow> (c \<Longrightarrow> x = Inr z \<Longrightarrow> P) \<Longrightarrow> (\<not> c \<Longrightarrow> y = Inr z \<Longrightarrow> P) \<Longrightarrow> P"
  by (cases c) simp_all

lemma prod_InrE:
  "(case p of (x, z) \<Rightarrow> f x z) = Inr y \<Longrightarrow> (\<And>x z. p = (x, z) \<Longrightarrow> f x z = Inr y \<Longrightarrow> P) \<Longrightarrow> P"
  by (cases p) simp

lemma Inr_pairE: "Inr (a, b) = Inr (c, d) \<Longrightarrow> (c = a \<Longrightarrow> d = b \<Longrightarrow> P) \<Longrightarrow> P"
  by simp

lemmas result_elims = attempt_pairE attempt_InrE guard_InrE present_InrE let_pairE letE if_InrE
  prod_InrE Inr_pairE

lemma traverse_InrD: "traverse f xs = Inr ys \<Longrightarrow> list_all2 (\<lambda>x y. f x = Inr y) xs ys"
  by (induction xs arbitrary: ys) (auto simp: result_simps)

lemma traverse_Inr_iff: "traverse f xs = Inr ys \<longleftrightarrow> list_all2 (\<lambda>x y. f x = Inr y) xs ys"
  by (induction xs arbitrary: ys) (auto simp: result_simps list_all2_Cons1)

lemma fold_result_invariant:
  assumes "fold_result f xs s = Inr s'" and "P s"
    and "\<And>x s s'. x \<in> set xs \<Longrightarrow> P s \<Longrightarrow> f x s = Inr s' \<Longrightarrow> P s'"
  shows "P s'"
  using assms
proof (induction xs arbitrary: s)
  case Nil
  then show ?case by simp
next
  case (Cons x xs)
  then obtain t where t: "f x s = Inr t" "fold_result f xs t = Inr s'"
    by (auto simp: result_simps)
  have "P t" using Cons.prems(2) Cons.prems(3) t(1) by (meson list.set_intros(1))
  moreover have "\<And>y s s'. y \<in> set xs \<Longrightarrow> P s \<Longrightarrow> f y s = Inr s' \<Longrightarrow> P s'"
    using Cons.prems(3) by (meson list.set_intros(2))
  ultimately show ?case using Cons.IH[OF t(2)] by blast
qed

subsection \<open>Rows\<close>

text \<open>
  A table is the list of its rows in insertion order, as the lists of the in-memory
  repositories are.  \<open>find_row\<close> is \<open>next((row for row in rows if row.id == key), None)\<close>;
  \<open>update_rows\<close> is the effect of assigning to the attributes of a loaded row, which the
  session writes back as \<open>UPDATE ... WHERE id = key\<close>.
\<close>

definition find_row :: "('r \<Rightarrow> 'k) \<Rightarrow> 'k \<Rightarrow> 'r list \<Rightarrow> 'r option" where
  "find_row key k rows = find (\<lambda>r. key r = k) rows"

definition update_rows :: "('r \<Rightarrow> 'k) \<Rightarrow> 'k \<Rightarrow> ('r \<Rightarrow> 'r) \<Rightarrow> 'r list \<Rightarrow> 'r list" where
  "update_rows key k f rows = map (\<lambda>r. if key r = k then f r else r) rows"

lemma find_SomeD: "find P xs = Some x \<Longrightarrow> x \<in> set xs \<and> P x"
  by (auto simp: find_Some_iff)

lemma find_append: "find P (xs @ ys) = (case find P xs of None \<Rightarrow> find P ys | Some x \<Rightarrow> Some x)"
  by (induction xs) auto

lemma find_map: "find P (map f xs) = map_option f (find (P \<circ> f) xs)"
  by (induction xs) auto

lemma find_row_SomeD: "find_row key k rows = Some r \<Longrightarrow> r \<in> set rows \<and> key r = k"
  by (auto simp: find_row_def dest: find_SomeD)

lemma find_row_None_iff: "find_row key k rows = None \<longleftrightarrow> k \<notin> key ` set rows"
  by (auto simp: find_row_def find_None_iff)

lemma find_row_unique:
  assumes "distinct (map key rows)" and "r \<in> set rows"
  shows "find_row key (key r) rows = Some r"
  using assms by (induction rows) (auto simp: find_row_def)

lemma distinct_key_eqD:
  "distinct (map key rows) \<Longrightarrow> r \<in> set rows \<Longrightarrow> r' \<in> set rows \<Longrightarrow> key r = key r' \<Longrightarrow> r = r'"
  by (metis find_row_unique option.inject)

lemma update_rows_Nil [simp]: "update_rows key k f [] = []"
  by (simp add: update_rows_def)

lemma update_rows_append [simp]:
  "update_rows key k f (xs @ ys) = update_rows key k f xs @ update_rows key k f ys"
  by (simp add: update_rows_def)

lemma set_update_rows:
  "r \<in> set (update_rows key k f rows) \<longleftrightarrow>
     (\<exists>q \<in> set rows. r = (if key q = k then f q else q))"
  by (induction rows) (auto simp: update_rows_def)

lemma map_update_rows:
  "(\<And>r. key r = k \<Longrightarrow> g (f r) = g r) \<Longrightarrow> map g (update_rows key k f rows) = map g rows"
  by (auto simp: update_rows_def)

lemma keys_update_rows [simp]:
  "(\<And>r. key (f r) = key r) \<Longrightarrow> map key (update_rows key k f rows) = map key rows"
  by (rule map_update_rows) simp

lemma find_row_update_same:
  assumes "\<And>r. key (f r) = key r"
  shows "find_row key k (update_rows key k f rows) = map_option f (find_row key k rows)"
  using assms by (induction rows) (auto simp: find_row_def update_rows_def)

lemma find_row_update_other:
  assumes "\<And>r. key (f r) = key r" and "k \<noteq> k'"
  shows "find_row key k (update_rows key k' f rows) = find_row key k rows"
  using assms by (induction rows) (auto simp: find_row_def update_rows_def)

lemma filter_update_rows:
  assumes "\<And>r. key r = k \<Longrightarrow> P (f r) = P r"
  shows "filter P (update_rows key k f rows) = update_rows key k f (filter P rows)"
  using assms by (induction rows) (auto simp: update_rows_def)

text \<open>Row contracts: what a provider of rows promises to its clients.\<close>

locale row_store =
  fixes key :: "'r \<Rightarrow> 'k"
    and rows :: "'s \<Rightarrow> 'r list"
    and get :: "'k \<Rightarrow> 's \<Rightarrow> 'r option"
    and add :: "'r \<Rightarrow> 's \<Rightarrow> 's"
    and save :: "'k \<Rightarrow> ('r \<Rightarrow> 'r) \<Rightarrow> 's \<Rightarrow> 's"
  assumes get_rows: "get k s = find_row key k (rows s)"
    and rows_add: "rows (add r s) = rows s @ [r]"
    and rows_save: "rows (save k f s) = update_rows key k f (rows s)"
begin

lemma get_SomeD: "get k s = Some r \<Longrightarrow> r \<in> set (rows s) \<and> key r = k"
  unfolding get_rows by (rule find_row_SomeD)

lemma get_None_iff: "get k s = None \<longleftrightarrow> k \<notin> key ` set (rows s)"
  unfolding get_rows by (rule find_row_None_iff)

lemma get_member: "distinct (map key (rows s)) \<Longrightarrow> r \<in> set (rows s) \<Longrightarrow> get (key r) s = Some r"
  unfolding get_rows by (rule find_row_unique)

lemma get_add_new: "get (key r) s = None \<Longrightarrow> get (key r) (add r s) = Some r"
  by (simp add: get_rows rows_add find_row_def find_append)

lemma get_add_old: "get k s = Some q \<Longrightarrow> get k (add r s) = Some q"
  by (simp add: get_rows rows_add find_row_def find_append)

lemma get_add_other: "key r \<noteq> k \<Longrightarrow> get k (add r s) = get k s"
  by (simp add: get_rows rows_add find_row_def find_append split: option.splits)

lemma get_save_same: "(\<And>r. key (f r) = key r) \<Longrightarrow> get k (save k f s) = map_option f (get k s)"
  unfolding get_rows rows_save by (rule find_row_update_same)

lemma get_save_other:
  "(\<And>r. key (f r) = key r) \<Longrightarrow> k \<noteq> k' \<Longrightarrow> get k (save k' f s) = get k s"
  unfolding get_rows rows_save by (rule find_row_update_other)

lemma distinct_add:
  "distinct (map key (rows s)) \<Longrightarrow> get (key r) s = None \<Longrightarrow> distinct (map key (rows (add r s)))"
  by (auto simp: rows_add get_None_iff)

lemma distinct_save:
  "(\<And>r. key (f r) = key r) \<Longrightarrow> distinct (map key (rows s)) \<Longrightarrow>
     distinct (map key (rows (save k f s)))"
  by (simp add: rows_save)

end

subsection \<open>Lists\<close>

text \<open>Python's slice \<open>xs[a:b]\<close> with its treatment of negative bounds.\<close>

definition slice_bound :: "nat \<Rightarrow> int \<Rightarrow> nat" where
  "slice_bound n i = nat (if i < 0 then max 0 (int n + i) else min (int n) i)"

definition py_slice :: "'a list \<Rightarrow> int \<Rightarrow> int \<Rightarrow> 'a list" where
  "py_slice xs a b =
     (let n = length xs; i = slice_bound n a; j = slice_bound n b in take (j - i) (drop i xs))"

text \<open>\<open>sorted(xs, key=...)\<close> is stable, also with \<open>reverse=True\<close>.\<close>

definition sorted_desc :: "('a \<Rightarrow> 'k::linorder) \<Rightarrow> 'a list \<Rightarrow> 'a list" where
  "sorted_desc key xs = rev (sort_key key (rev xs))"

lemma set_sorted_desc [simp]: "set (sorted_desc key xs) = set xs"
  by (simp add: sorted_desc_def)

lemma length_sorted_desc [simp]: "length (sorted_desc key xs) = length xs"
  by (simp add: sorted_desc_def)

lemma sort_key_Nil_iff [simp]: "sort_key key xs = [] \<longleftrightarrow> xs = []"
  by (metis length_0_conv length_sort)

lemma set_py_slice: "set (py_slice xs a b) \<subseteq> set xs"
  unfolding py_slice_def Let_def by (meson order_trans set_drop_subset set_take_subset)

text \<open>\<open>list(dict.fromkeys(xs))\<close>: the first occurrence of each element, in order.\<close>

fun dedup_from :: "'a list \<Rightarrow> 'a list \<Rightarrow> 'a list" where
  "dedup_from seen [] = []"
| "dedup_from seen (x # xs) =
     (if x \<in> set seen then dedup_from seen xs else x # dedup_from (x # seen) xs)"

definition dedup :: "'a list \<Rightarrow> 'a list" where
  "dedup xs = dedup_from [] xs"

lemma set_dedup_from: "set (dedup_from seen xs) = set xs - set seen"
  by (induction xs arbitrary: seen) auto

lemma distinct_dedup_from: "distinct (dedup_from seen xs)"
  by (induction xs arbitrary: seen) (auto simp: set_dedup_from)

lemma set_dedup [simp]: "set (dedup xs) = set xs"
  by (simp add: dedup_def set_dedup_from)

lemma distinct_dedup [simp]: "distinct (dedup xs)"
  by (simp add: dedup_def distinct_dedup_from)

lemma dedup_Nil_iff [simp]: "dedup xs = [] \<longleftrightarrow> xs = []"
  by (metis set_dedup set_empty)

lemma sum_list_map_cong_set:
  "(\<And>x. x \<in> set xs \<Longrightarrow> f x = g x) \<Longrightarrow> sum_list (map f xs) = sum_list (map g xs)"
  by (metis map_eq_conv)

end
