(* ===== verification/PyText.thy ===== *)
theory PyText
  imports Prelude "HOL-Library.Sublist"
begin

text \<open>
  The string operations of Python that the services use: \<open>strip\<close>, \<open>lower\<close>,
  \<open>startswith\<close>, \<open>removeprefix\<close>, \<open>int(...)\<close>, \<open>rsplit(sep, maxsplit=1)[1]\<close> and the
  format \<open>{n:0wd}\<close>, with the round trip between numbering and parsing a document number.
  A string is its UTF-8 bytes; \<open>strip\<close> and \<open>lower\<close> act on the ASCII characters.
\<close>

subsection \<open>Trimming and case\<close>

definition is_space :: "char \<Rightarrow> bool" where
  "is_space c = (let n = (of_char c :: nat) in n = 32 \<or> (9 \<le> n \<and> n \<le> 13) \<or> (28 \<le> n \<and> n \<le> 31))"

definition strip :: "string \<Rightarrow> string" where
  "strip s = rev (dropWhile is_space (rev (dropWhile is_space s)))"

definition lower :: "string \<Rightarrow> string" where
  "lower s = map (\<lambda>c. let n = (of_char c :: nat) in
     if 65 \<le> n \<and> n \<le> 90 then char_of (n + 32) else c) s"

definition starts_with :: "string \<Rightarrow> string \<Rightarrow> bool" where
  "starts_with s p = prefix p s"

definition remove_prefix :: "string \<Rightarrow> string \<Rightarrow> string" where
  "remove_prefix s p = (if prefix p s then drop (length p) s else s)"

text \<open>\<open>cleaned = value.strip(); return cleaned or None\<close> on an optional text.\<close>

definition clean_optional_text :: "string option \<Rightarrow> string option" where
  "clean_optional_text v =
     (case v of None \<Rightarrow> None
      | Some s \<Rightarrow> (let cleaned = strip s in if cleaned = [] then None else Some cleaned))"

lemma strip_Nil [simp]: "strip [] = []"
  by (simp add: strip_def)

lemma strip_idem: "strip (strip s) = strip s"
proof -
  define t where "t = dropWhile is_space s"
  define u where "u = dropWhile is_space (rev t)"
  have u_hd: "u = [] \<or> \<not> is_space (hd u)"
    unfolding u_def by (metis hd_dropWhile)
  have t_hd: "t = [] \<or> \<not> is_space (hd t)"
    unfolding t_def by (metis hd_dropWhile)
  have "rev u = [] \<or> \<not> is_space (hd (rev u))"
  proof (cases "u = []")
    case False
    obtain v where "rev t = v @ u" using u_def by (metis takeWhile_dropWhile_id)
    then have t: "t = rev u @ rev v" by (metis rev_append rev_rev_ident)
    with False have "t \<noteq> []" and "hd t = hd (rev u)" by simp_all
    with t_hd show ?thesis by simp
  qed simp
  then have "dropWhile is_space (rev u) = rev u" by (cases "rev u") auto
  moreover have "dropWhile is_space u = u" using u_hd by (cases u) auto
  ultimately show ?thesis by (simp add: strip_def t_def[symmetric] u_def[symmetric])
qed

lemma clean_optional_text_idem: "clean_optional_text (clean_optional_text v) = clean_optional_text v"
  by (auto simp: clean_optional_text_def Let_def strip_idem split: option.splits)

lemma clean_optional_text_nonempty: "clean_optional_text v = Some s \<Longrightarrow> s \<noteq> [] \<and> strip s = s"
  by (auto simp: clean_optional_text_def Let_def strip_idem split: option.splits if_splits)

subsection \<open>Integers as text\<close>

definition is_digit :: "char \<Rightarrow> bool" where
  "is_digit c = (let n = (of_char c :: nat) in 48 \<le> n \<and> n \<le> 57)"

definition digit_value :: "char \<Rightarrow> int" where
  "digit_value c = int (of_char c) - 48"

definition digit_char :: "nat \<Rightarrow> char" where
  "digit_char n = char_of (48 + n)"

text \<open>The digits after the first one; a single underscore may separate two digits.\<close>

fun parse_digits :: "int \<Rightarrow> string \<Rightarrow> int option" where
  "parse_digits acc [] = Some acc"
| "parse_digits acc (c # cs) =
     (if is_digit c then parse_digits (10 * acc + digit_value c) cs
      else if c = CHR ''_'' then
        (case cs of [] \<Rightarrow> None
         | d # ds \<Rightarrow> if is_digit d then parse_digits (10 * acc + digit_value d) ds else None)
      else None)"

definition parse_natural :: "string \<Rightarrow> int option" where
  "parse_natural s =
     (case s of [] \<Rightarrow> None
      | c # cs \<Rightarrow> if is_digit c then parse_digits (digit_value c) cs else None)"

text \<open>\<open>int(s)\<close>: \<open>None\<close> is \<open>ValueError\<close>.\<close>

definition py_int :: "string \<Rightarrow> int option" where
  "py_int s =
     (case strip s of [] \<Rightarrow> None
      | c # cs \<Rightarrow>
          if c = CHR ''-'' then map_option uminus (parse_natural cs)
          else if c = CHR ''+'' then parse_natural cs
          else parse_natural (c # cs))"

fun show_nat :: "nat \<Rightarrow> string" where
  "show_nat n = (if n < 10 then [digit_char n] else show_nat (n div 10) @ [digit_char (n mod 10)])"

declare show_nat.simps [simp del]

definition zero_pad :: "nat \<Rightarrow> string \<Rightarrow> string" where
  "zero_pad w s = replicate (w - length s) CHR ''0'' @ s"

text \<open>\<open>f"{n:0wd}"\<close>.\<close>

definition format_padded :: "nat \<Rightarrow> int \<Rightarrow> string" where
  "format_padded w n =
     (if n < 0 then CHR ''-'' # zero_pad (w - 1) (show_nat (nat (- n)))
      else zero_pad w (show_nat (nat n)))"

lemma digit_char_digit: "n < 10 \<Longrightarrow> is_digit (digit_char n)"
  by (simp add: is_digit_def digit_char_def)

lemma digit_char_value: "n < 10 \<Longrightarrow> digit_value (digit_char n) = int n"
  by (simp add: digit_value_def digit_char_def)

lemma show_nat_digits: "\<forall>c \<in> set (show_nat n). is_digit c"
proof (induction n rule: show_nat.induct)
  case (1 n)
  then show ?case
    by (cases "n < 10") (auto simp: show_nat.simps [of n] digit_char_digit)
qed

lemma show_nat_nonempty [simp]: "show_nat n \<noteq> []"
  by (subst show_nat.simps) simp

lemma parse_digits_append:
  "\<forall>c \<in> set xs. is_digit c \<Longrightarrow> parse_digits acc xs = Some m \<Longrightarrow>
     parse_digits acc (xs @ ys) = parse_digits m ys"
  by (induction xs arbitrary: acc) auto

lemma parse_natural_snoc:
  assumes "\<forall>c \<in> set xs. is_digit c" and "parse_natural xs = Some m" and "is_digit d"
  shows "parse_natural (xs @ [d]) = Some (10 * m + digit_value d)"
  using assms by (cases xs) (auto simp: parse_natural_def parse_digits_append)

lemma parse_show_nat: "parse_natural (show_nat n) = Some (int n)"
proof (induction n rule: show_nat.induct)
  case (1 n)
  show ?case
  proof (cases "n < 10")
    case True
    then show ?thesis
      by (simp add: show_nat.simps [of n] parse_natural_def digit_char_digit digit_char_value)
  next
    case False
    have "parse_natural (show_nat (n div 10) @ [digit_char (n mod 10)]) =
        Some (10 * int (n div 10) + digit_value (digit_char (n mod 10)))"
      using 1 False by (intro parse_natural_snoc show_nat_digits) (auto simp: digit_char_digit)
    also have "10 * int (n div 10) + digit_value (digit_char (n mod 10)) = int n"
      by (simp add: digit_char_value) presburger
    finally show ?thesis using False by (simp add: show_nat.simps [of n])
  qed
qed

lemma parse_natural_zero: "xs \<noteq> [] \<Longrightarrow> \<forall>c \<in> set xs. is_digit c \<Longrightarrow>
    parse_natural (CHR ''0'' # xs) = parse_natural xs"
  by (cases xs) (auto simp: parse_natural_def is_digit_def digit_value_def)

lemma parse_natural_zeros: "xs \<noteq> [] \<Longrightarrow> \<forall>c \<in> set xs. is_digit c \<Longrightarrow>
    parse_natural (replicate k CHR ''0'' @ xs) = parse_natural xs"
proof (induction k)
  case (Suc k)
  have "\<forall>c \<in> set (replicate k CHR ''0'' @ xs). is_digit c"
    using Suc.prems by (auto simp: is_digit_def)
  with Suc show ?case by (simp add: parse_natural_zero)
qed simp

lemma zero_pad_digits: "\<forall>c \<in> set s. is_digit c \<Longrightarrow> \<forall>c \<in> set (zero_pad w s). is_digit c"
  by (auto simp: zero_pad_def is_digit_def)

lemma format_padded_digits: "0 \<le> n \<Longrightarrow> \<forall>c \<in> set (format_padded w n). is_digit c"
  using show_nat_digits [of "nat n"] by (auto simp: format_padded_def dest: zero_pad_digits)

lemma format_padded_nonempty [simp]: "format_padded w n \<noteq> []"
  by (simp add: format_padded_def zero_pad_def)

lemma digit_not_space: "is_digit c \<Longrightarrow> \<not> is_space c"
  by (auto simp: is_digit_def is_space_def Let_def)

lemma strip_digits: "\<forall>c \<in> set s. is_digit c \<Longrightarrow> strip s = s"
proof -
  assume d: "\<forall>c \<in> set s. is_digit c"
  have drop: "\<And>t. \<forall>c \<in> set t. is_digit c \<Longrightarrow> dropWhile is_space t = t"
    by (metis digit_not_space dropWhile_eq_self_iff hd_in_set)
  show ?thesis using d drop [of s] drop [of "rev s"] by (simp add: strip_def)
qed

lemma py_int_digits: "\<forall>c \<in> set s. is_digit c \<Longrightarrow> py_int s = parse_natural s"
proof (cases s)
  case (Cons c cs)
  assume d: "\<forall>c \<in> set s. is_digit c"
  with Cons have "is_digit c" by simp
  then have "c \<noteq> CHR ''-''" and "c \<noteq> CHR ''+''" by (auto simp: is_digit_def)
  with Cons d show ?thesis by (simp add: py_int_def strip_digits)
qed (simp add: py_int_def parse_natural_def)

lemma py_int_format_padded:
  assumes "0 \<le> n"
  shows "py_int (format_padded w n) = Some n"
proof -
  have "parse_natural (format_padded w n) = Some n"
    using assms parse_natural_zeros [of "show_nat (nat n)"] show_nat_digits [of "nat n"]
    by (simp add: format_padded_def zero_pad_def parse_show_nat)
  with py_int_digits [OF format_padded_digits [OF assms]] show ?thesis by simp
qed

subsection \<open>Document numbers\<close>

text \<open>
  \<open>s.rsplit(sep, maxsplit=1)[1]\<close>: the text after the last occurrence of the separator;
  \<open>None\<close> is the \<open>IndexError\<close> of a text that does not contain it.
\<close>

fun after_last :: "string \<Rightarrow> string \<Rightarrow> string option" where
  "after_last sep [] = None"
| "after_last sep (c # cs) =
     (case after_last sep cs of
        Some t \<Rightarrow> Some t
      | None \<Rightarrow> if prefix sep (c # cs) then Some (drop (length sep) (c # cs)) else None)"

text \<open>
  One round of the loop \<open>for number in numbers: try: sequence = int(...) except ...: continue\<close>
  followed by \<open>max_sequence = max(max_sequence, sequence)\<close>.
\<close>

fun max_sequence_from :: "(string \<Rightarrow> int option) \<Rightarrow> int \<Rightarrow> string list \<Rightarrow> int" where
  "max_sequence_from parse m [] = m"
| "max_sequence_from parse m (x # xs) =
     max_sequence_from parse (case parse x of None \<Rightarrow> m | Some k \<Rightarrow> max m k) xs"

lemma after_last_append: "after_last sep s = Some t \<Longrightarrow> after_last sep (p @ s) = Some t"
  by (induction p) auto

lemma after_last_other:
  "\<forall>c \<in> set s. c \<noteq> hd sep \<Longrightarrow> sep \<noteq> [] \<Longrightarrow> after_last sep s = None"
  by (induction s) (auto simp: neq_Nil_conv)

lemma max_sequence_from_ge: "m \<le> max_sequence_from parse m xs"
proof (induction xs arbitrary: m)
  case (Cons x xs)
  have "m \<le> (case parse x of None \<Rightarrow> m | Some k \<Rightarrow> max m k)" by (simp split: option.split)
  also note Cons.IH
  finally show ?case by simp
qed simp

lemma max_sequence_from_upper:
  "x \<in> set xs \<Longrightarrow> parse x = Some k \<Longrightarrow> k \<le> max_sequence_from parse m xs"
proof (induction xs arbitrary: m)
  case (Cons y ys)
  show ?case
  proof (cases "x = y")
    case True
    with Cons.prems max_sequence_from_ge [of "max m k" parse ys] show ?thesis by simp
  next
    case False
    with Cons show ?thesis by simp
  qed
qed simp

text \<open>
  The contract of a numbering scheme: a base and a positive sequence give a number, the
  sequence can be read back from it, and the next sequence is above every issued one.
\<close>

locale numbering =
  fixes number :: "string \<Rightarrow> int \<Rightarrow> string"
    and sequence_of :: "string \<Rightarrow> int option"
    and next_sequence :: "string list \<Rightarrow> int"
  assumes sequence_number: "0 < n \<Longrightarrow> sequence_of (number base n) = Some n"
    and number_base: "number base n = number base' n \<Longrightarrow> base = base'"
    and next_sequence_positive: "0 < next_sequence xs"
    and next_sequence_above: "x \<in> set xs \<Longrightarrow> sequence_of x = Some k \<Longrightarrow> k < next_sequence xs"
begin

lemma number_inject:
  assumes "0 < n" and "0 < m" and "number base n = number base' m"
  shows "base = base' \<and> n = m"
proof -
  have "n = m"
    using sequence_number [OF assms(1), of base] sequence_number [OF assms(2), of base'] assms(3)
    by simp
  with number_base assms(3) show ?thesis by blast
qed

lemma next_number_fresh: "number base (next_sequence xs) \<notin> set xs"
proof
  assume "number base (next_sequence xs) \<in> set xs"
  moreover have "sequence_of (number base (next_sequence xs)) = Some (next_sequence xs)"
    by (rule sequence_number [OF next_sequence_positive])
  ultimately show False using next_sequence_above by blast
qed

lemma distinct_issue: "distinct xs \<Longrightarrow> distinct (xs @ [number base (next_sequence xs)])"
  by (simp add: next_number_fresh)

end

end
