(* ===== verification/PyValues.thy ===== *)
theory PyValues
  imports PyText "HOL-Library.Char_ord" "HOL-Library.List_Lexorder" "HOL-Library.Product_Lexorder"
begin

text \<open>
  The values the services compute with: identifiers, instants, calendar dates with their
  order and ordinal, amounts of money (\<open>Numeric(15, 2)\<close> columns, counted in cents) with
  the quantisation of an incoming \<open>Decimal\<close>, the JSON-like values of payloads, and the
  exceptions of \<open>app/core/exceptions.py\<close>.
\<close>

type_synonym uuid = nat
type_synonym datetime = int
type_synonym money = int

subsection \<open>Dates\<close>

datatype date = Date (year: int) (month: int) (day: int)

instantiation date :: linorder
begin

definition less_eq_date :: "date \<Rightarrow> date \<Rightarrow> bool" where
  "less_eq_date a b \<longleftrightarrow> (year a, month a, day a) \<le> (year b, month b, day b)"

definition less_date :: "date \<Rightarrow> date \<Rightarrow> bool" where
  "less_date a b \<longleftrightarrow> (year a, month a, day a) < (year b, month b, day b)"

instance
proof
  fix x y z :: date
  show "x < y \<longleftrightarrow> x \<le> y \<and> \<not> y \<le> x"
    unfolding less_date_def less_eq_date_def by (rule less_le_not_le)
  show "x \<le> x" by (simp add: less_eq_date_def)
  show "x \<le> y \<Longrightarrow> y \<le> z \<Longrightarrow> x \<le> z"
    unfolding less_eq_date_def by (rule order_trans)
  show "x \<le> y \<Longrightarrow> y \<le> x \<Longrightarrow> x = y"
    unfolding less_eq_date_def by (cases x; cases y) (drule (1) antisym, simp)
  show "x \<le> y \<or> y \<le> x"
    unfolding less_eq_date_def by (rule linear)
qed

end

definition is_leap :: "int \<Rightarrow> bool" where
  "is_leap y = (y mod 4 = 0 \<and> (y mod 100 \<noteq> 0 \<or> y mod 400 = 0))"

definition days_before_year :: "int \<Rightarrow> int" where
  "days_before_year y = (let p = y - 1 in p * 365 + p div 4 - p div 100 + p div 400)"

definition days_in_month :: "int \<Rightarrow> int \<Rightarrow> int" where
  "days_in_month y m =
     (if m = 2 then (if is_leap y then 29 else 28)
      else if m \<in> {4, 6, 9, 11} then 30 else 31)"

definition days_before_month :: "int \<Rightarrow> int \<Rightarrow> int" where
  "days_before_month y m =
     (if m = 1 then 0 else if m = 2 then 31 else
      (if m = 3 then 59 else if m = 4 then 90 else if m = 5 then 120 else if m = 6 then 151
       else if m = 7 then 181 else if m = 8 then 212 else if m = 9 then 243
       else if m = 10 then 273 else if m = 11 then 304 else 334)
      + (if is_leap y then 1 else 0))"

text \<open>\<open>date.toordinal()\<close>; \<open>(a - b).days\<close> is the difference of the ordinals.\<close>

definition to_ordinal :: "date \<Rightarrow> int" where
  "to_ordinal d = days_before_year (year d) + days_before_month (year d) (month d) + day d"

definition days_between :: "date \<Rightarrow> date \<Rightarrow> int" where
  "days_between a b = to_ordinal a - to_ordinal b"

definition valid_date :: "date \<Rightarrow> bool" where
  "valid_date d \<longleftrightarrow> 1 \<le> year d \<and> 1 \<le> month d \<and> month d \<le> 12 \<and>
     1 \<le> day d \<and> day d \<le> days_in_month (year d) (month d)"

lemma div_pred:
  fixes y c :: int
  assumes "0 < c"
  shows "y div c = (y - 1) div c + (if y mod c = 0 then 1 else 0)"
proof (cases "y mod c = 0")
  case True
  then have "y = c * (y div c)" by (metis add.right_neutral mult_div_mod_eq)
  moreover have "c * (y div c - 1) + (c - 1) = c * (y div c) - 1" by (simp add: algebra_simps)
  ultimately have "y - 1 = c * (y div c - 1) + (c - 1)" by linarith
  then have "(y - 1) div c = y div c - 1"
    by (rule int_div_pos_eq) (use assms in simp_all)
  with True show ?thesis by simp
next
  case False
  have "y - 1 = c * (y div c) + (y mod c - 1)" by simp
  moreover have "0 \<le> y mod c - 1" and "y mod c - 1 < c"
    using False assms pos_mod_sign [of c y] pos_mod_bound [of c y] by linarith+
  ultimately have "(y - 1) div c = y div c" by (rule int_div_pos_eq)
  with False show ?thesis by simp
qed

lemma days_before_year_Suc:
  "days_before_year (y + 1) = days_before_year y + (if is_leap y then 366 else 365)"
proof -
  have "(100 :: int) dvd 400" and "(4 :: int) dvd 100" by simp_all
  then have i: "y mod 400 = 0 \<longrightarrow> y mod 100 = 0" "y mod 100 = 0 \<longrightarrow> y mod 4 = 0"
    by (metis dvd_trans mod_eq_0_iff_dvd)+
  have gen: "\<And>p q r a b c. (r \<longrightarrow> q) \<Longrightarrow> (q \<longrightarrow> p) \<Longrightarrow>
      y * 365 + (a + (if p then 1 else 0)) - (b + (if q then 1 else 0)) + (c + (if r then 1 else 0)) =
      (y - 1) * 365 + a - b + c + (if p \<and> (\<not> q \<or> r) then 366 else (365 :: int))"
    subgoal for p q r a b c by (cases p; cases q; cases r) simp_all
    done
  have key: "y * 365 + ((y - 1) div 4 + (if y mod 4 = 0 then 1 else 0))
      - ((y - 1) div 100 + (if y mod 100 = 0 then 1 else 0))
      + ((y - 1) div 400 + (if y mod 400 = 0 then 1 else 0)) =
      (y - 1) * 365 + (y - 1) div 4 - (y - 1) div 100 + (y - 1) div 400 +
      (if y mod 4 = 0 \<and> (\<not> y mod 100 = 0 \<or> y mod 400 = 0) then 366 else 365)"
    by (rule gen [OF i])
  have d: "y div 4 = (y - 1) div 4 + (if y mod 4 = 0 then 1 else 0)"
    "y div 100 = (y - 1) div 100 + (if y mod 100 = 0 then 1 else 0)"
    "y div 400 = (y - 1) div 400 + (if y mod 400 = 0 then 1 else 0)"
    by (rule div_pred, simp)+
  have "days_before_year (y + 1) = y * 365 + y div 4 - y div 100 + y div 400"
    unfolding days_before_year_def Let_def add_diff_cancel_right' by (rule refl)
  also have "\<dots> = days_before_year y + (if is_leap y then 366 else 365)"
    unfolding days_before_year_def Let_def is_leap_def d by (rule key)
  finally show ?thesis .
qed

lemma days_before_year_mono: "y \<le> z \<Longrightarrow> days_before_year y \<le> days_before_year z"
proof (induction z rule: int_ge_induct)
  case (step z)
  then show ?case by (simp add: days_before_year_Suc split: if_splits)
qed simp

lemma month_cases:
  fixes m :: int
  assumes "1 \<le> m" and "m \<le> 12"
  shows "m \<in> {1, 2, 3, 4, 5, 6, 7, 8, 9, 10, 11, 12}"
proof -
  have e: "[1..12] = [1, 2, 3, 4, 5, 6, 7, 8, 9, 10, 11, 12 :: int]" by (simp add: upto_rec1)
  have "m \<in> set [1..12]" using assms by (simp only: set_upto atLeastAtMost_iff)
  then show ?thesis unfolding e by simp
qed

lemma days_before_month_Suc:
  assumes "1 \<le> m" and "m \<le> 11"
  shows "days_before_month y (m + 1) = days_before_month y m + days_in_month y m"
  using month_cases [of m] assms by (auto simp: days_before_month_def days_in_month_def)

lemma days_before_month_mono:
  assumes "m \<le> n" and "1 \<le> m" and "n \<le> 12"
  shows "days_before_month y m \<le> days_before_month y n"
  using assms
proof (induction n rule: int_ge_induct)
  case (step n)
  have "0 \<le> days_in_month y n" by (simp add: days_in_month_def)
  with step show ?case using days_before_month_Suc [of n y] by simp
qed simp

lemma days_in_year:
  assumes "valid_date d"
  shows "1 \<le> days_before_month (year d) (month d) + day d"
    and "days_before_month (year d) (month d) + day d \<le> (if is_leap (year d) then 366 else 365)"
proof -
  let ?y = "year d" and ?m = "month d"
  have m: "1 \<le> ?m" "?m \<le> 12" and d: "1 \<le> day d" "day d \<le> days_in_month ?y ?m"
    using assms by (auto simp: valid_date_def)
  have first: "days_before_month ?y 1 = 0"
    and last: "days_before_month ?y 12 = (if is_leap ?y then 335 else 334)"
    by (simp_all add: days_before_month_def)
  show "1 \<le> days_before_month ?y ?m + day d"
    using days_before_month_mono [of 1 ?m ?y] m d first by simp
  show "days_before_month ?y ?m + day d \<le> (if is_leap ?y then 366 else 365)"
  proof (cases "?m = 12")
    case True
    then show ?thesis using d last by (simp add: days_in_month_def)
  next
    case False
    then show ?thesis
      using days_before_month_mono [of "?m + 1" 12 ?y] days_before_month_Suc [of ?m ?y] m d last
      by (simp split: if_splits)
  qed
qed

lemma days_before_month_less:
  assumes "valid_date a" and "valid_date b" and "year a = year b" and "month a < month b"
  shows "days_before_month (year a) (month a) + day a < days_before_month (year b) (month b) + day b"
proof -
  have m: "1 \<le> month a" "month a \<le> 11" "month b \<le> 12"
    using assms by (auto simp: valid_date_def)
  have "days_before_month (year a) (month a) + day a \<le> days_before_month (year a) (month a + 1)"
    using assms(1) m by (simp add: days_before_month_Suc valid_date_def)
  also have "\<dots> \<le> days_before_month (year a) (month b)"
    using assms(4) m by (intro days_before_month_mono) auto
  also have "\<dots> < days_before_month (year b) (month b) + day b"
    using assms(2,3) by (simp add: valid_date_def)
  finally show ?thesis .
qed

lemma to_ordinal_less:
  assumes "valid_date a" and "valid_date b" and "a < b"
  shows "to_ordinal a < to_ordinal b"
proof -
  consider "year a < year b"
    | "year a = year b" "month a < month b"
    | "year a = year b" "month a = month b" "day a < day b"
    using assms(3) unfolding less_date_def less_prod_def by fastforce
  then show ?thesis
  proof cases
    case 1
    have "to_ordinal a \<le> days_before_year (year a + 1)"
      using days_in_year(2) [OF assms(1)] by (simp add: to_ordinal_def days_before_year_Suc)
    also have "\<dots> \<le> days_before_year (year b)" using 1 by (intro days_before_year_mono) simp
    also have "\<dots> < to_ordinal b"
      using days_in_year(1) [OF assms(2)] by (simp add: to_ordinal_def)
    finally show ?thesis .
  next
    case 2
    then show ?thesis using days_before_month_less [OF assms(1,2)] by (simp add: to_ordinal_def)
  next
    case 3
    then show ?thesis by (simp add: to_ordinal_def)
  qed
qed

subsection \<open>Money\<close>

text \<open>
  An incoming finite \<open>Decimal\<close> is its coefficient and exponent.  \<open>quantize(Decimal("0.01"))\<close>
  rounds half to even in the default context and raises \<open>InvalidOperation\<close> when the result
  needs more than 28 digits.
\<close>

datatype decimal = Dec (coefficient: int) (exponent: int)

definition div_half_even :: "int \<Rightarrow> int \<Rightarrow> int" where
  "div_half_even a b =
     (let q = a div b; r = a mod b in
      if 2 * r < b then q else if 2 * r > b then q + 1 else if even q then q else q + 1)"

definition quantize_cents :: "decimal \<Rightarrow> int" where
  "quantize_cents d =
     (if - 2 \<le> exponent d then coefficient d * 10 ^ nat (exponent d + 2)
      else div_half_even (coefficient d) (10 ^ nat (- exponent d - 2)))"

lemma div_half_even_error:
  assumes "0 < b"
  shows "\<bar>2 * (div_half_even a b * b - a)\<bar> \<le> b"
proof -
  have "a div b * b = a - a mod b" by (simp add: minus_mod_eq_div_mult)
  moreover from this have "(a div b + 1) * b = a - a mod b + b" by (simp add: algebra_simps)
  moreover have "0 \<le> a mod b" and "a mod b < b" using assms by simp_all
  ultimately show ?thesis
    unfolding div_half_even_def Let_def by (auto simp del: minus_mod_eq_div_mult)
qed

lemma div_half_even_exact: "0 < b \<Longrightarrow> div_half_even (k * b) b = k"
  by (simp add: div_half_even_def)

subsection \<open>Values of payloads and error data\<close>

datatype pyval =
    PNone
  | PBool bool
  | PInt int
  | PStr string
  | PUuid uuid
  | PMoney money
  | PDate date
  | PTime datetime
  | PList "pyval list"
  | PDict "(string \<times> pyval) list"

type_synonym payload = "(string \<times> pyval) list"

subsection \<open>Exceptions\<close>

text \<open>
  The exceptions of \<open>app/core/exceptions.py\<close>, one constructor per class, and the
  four others that can leave them: a \<open>ValueError\<close> of \<open>int(...)\<close>, the error of an
  archive or file that cannot be read (\<open>RuntimeError\<close>), the
  \<open>decimal.InvalidOperation\<close> of \<open>quantize\<close> and the \<open>IntegrityError\<close> of a commit
  that stores NULL in a column that is not nullable.  Messages that are Chinese in the
  source are given in English.
\<close>

datatype py_error =
    AuthenticationError string
  | AccountLocked int
  | PermissionDenied
  | SelfReviewDenied
  | ValidationFailed string payload
  | PasswordStrength string
  | InFlightProjectsBlockDisable int
  | DepartmentHasActiveUsers int
  | ResourceNotFound string
  | ResourceConflict string
  | BusinessError int string payload
  | ValueError string
  | RuntimeError string
  | InvalidOperation
  | IntegrityError string

fun error_code :: "py_error \<Rightarrow> int" where
  "error_code (AuthenticationError _) = 1001"
| "error_code (AccountLocked _) = 1002"
| "error_code PermissionDenied = 1003"
| "error_code SelfReviewDenied = 1010"
| "error_code (ValidationFailed _ _) = 2003"
| "error_code (PasswordStrength _) = 2004"
| "error_code (InFlightProjectsBlockDisable _) = 3010"
| "error_code (DepartmentHasActiveUsers _) = 3003"
| "error_code (ResourceNotFound _) = 4001"
| "error_code (ResourceConflict _) = 4002"
| "error_code (BusinessError code _ _) = code"
| "error_code _ = 0"

definition to_money :: "decimal \<Rightarrow> py_error + money" where
  "to_money d = (let c = quantize_cents d in if \<bar>c\<bar> < 10 ^ 28 then Inr c else Inl InvalidOperation)"

end
