(* ===== verification/Domain.thy ===== *)
theory Domain
  imports PyValues
begin

text \<open>
  The data model (\<open>app/models\<close>): the status and role enumerations with their stored
  values, one record per table, and the database as the record of all tables.  A record
  field carries the column's name behind a prefix for its table (\<open>sp_status\<close> is
  \<open>SubProject.status\<close>).  Columns that no modelled operation reads (password hashes,
  relationship attributes, the time stamps of rows whose age nothing asks for) are left out.
\<close>

subsection \<open>Enumerations\<close>

datatype user_role = admin | dept_manager | finance_manager | proj_leader | proj_member

datatype user_status = active | disabled | password_reset_required

datatype main_project_status =
  pending_review | reviewing | rejected | not_started | in_progress | completed | closed

datatype project_review_decision = approve | reject

datatype sub_project_status =
  pending_review | reviewing | rejected | not_started | in_progress | completed | closed
  | terminated

datatype member_role = proj_leader | proj_member

datatype phase_status = waiting | in_progress | completed | revoked

datatype procurement_type = inquiry | bidding | single_source

datatype doc_requirement = required | conditional | optional

datatype workflow_status = draft | published | archived

datatype step_status = not_started | in_progress | completed

datatype payment_type = normal | reversal

datatype revoke_status = pending | approved | rejected

datatype handover_status =
  pending_candidate | candidate_rejected | pending_review | review_rejected | approved | forced

datatype task_status = not_started | in_progress | overdue | completed

datatype scan_status = pending | clean | infected | failed

datatype delivery_mode = real_time | daily_digest

datatype channel = in_app | email | wework | dingtalk

fun role_value :: "user_role \<Rightarrow> string" where
  "role_value user_role.admin = ''admin''"
| "role_value user_role.dept_manager = ''dept_manager''"
| "role_value user_role.finance_manager = ''finance_manager''"
| "role_value user_role.proj_leader = ''proj_leader''"
| "role_value user_role.proj_member = ''proj_member''"

fun user_status_value :: "user_status \<Rightarrow> string" where
  "user_status_value user_status.active = ''active''"
| "user_status_value user_status.disabled = ''disabled''"
| "user_status_value user_status.password_reset_required = ''password_reset_required''"

fun main_status_value :: "main_project_status \<Rightarrow> string" where
  "main_status_value main_project_status.pending_review = ''pending_review''"
| "main_status_value main_project_status.reviewing = ''reviewing''"
| "main_status_value main_project_status.rejected = ''rejected''"
| "main_status_value main_project_status.not_started = ''not_started''"
| "main_status_value main_project_status.in_progress = ''in_progress''"
| "main_status_value main_project_status.completed = ''completed''"
| "main_status_value main_project_status.closed = ''closed''"

fun decision_value :: "project_review_decision \<Rightarrow> string" where
  "decision_value project_review_decision.approve = ''approve''"
| "decision_value project_review_decision.reject = ''reject''"

fun sub_status_value :: "sub_project_status \<Rightarrow> string" where
  "sub_status_value sub_project_status.pending_review = ''pending_review''"
| "sub_status_value sub_project_status.reviewing = ''reviewing''"
| "sub_status_value sub_project_status.rejected = ''rejected''"
| "sub_status_value sub_project_status.not_started = ''not_started''"
| "sub_status_value sub_project_status.in_progress = ''in_progress''"
| "sub_status_value sub_project_status.completed = ''completed''"
| "sub_status_value sub_project_status.closed = ''closed''"
| "sub_status_value sub_project_status.terminated = ''terminated''"

text \<open>
  \<open>MainProjectStatus(value)\<close> on the value of a sub project status: the same value, and a
  \<open>ValueError\<close> (\<open>None\<close>) for \<open>terminated\<close>, which the main project enumeration lacks.
\<close>

fun main_status_of_sub :: "sub_project_status \<Rightarrow> main_project_status option" where
  "main_status_of_sub sub_project_status.pending_review = Some main_project_status.pending_review"
| "main_status_of_sub sub_project_status.reviewing = Some main_project_status.reviewing"
| "main_status_of_sub sub_project_status.rejected = Some main_project_status.rejected"
| "main_status_of_sub sub_project_status.not_started = Some main_project_status.not_started"
| "main_status_of_sub sub_project_status.in_progress = Some main_project_status.in_progress"
| "main_status_of_sub sub_project_status.completed = Some main_project_status.completed"
| "main_status_of_sub sub_project_status.closed = Some main_project_status.closed"
| "main_status_of_sub sub_project_status.terminated = None"

fun member_role_value :: "member_role \<Rightarrow> string" where
  "member_role_value member_role.proj_leader = ''proj_leader''"
| "member_role_value member_role.proj_member = ''proj_member''"

fun phase_status_value :: "phase_status \<Rightarrow> string" where
  "phase_status_value phase_status.waiting = ''waiting''"
| "phase_status_value phase_status.in_progress = ''in_progress''"
| "phase_status_value phase_status.completed = ''completed''"
| "phase_status_value phase_status.revoked = ''revoked''"

fun revoke_status_value :: "revoke_status \<Rightarrow> string" where
  "revoke_status_value revoke_status.pending = ''pending''"
| "revoke_status_value revoke_status.approved = ''approved''"
| "revoke_status_value revoke_status.rejected = ''rejected''"

fun handover_status_value :: "handover_status \<Rightarrow> string" where
  "handover_status_value handover_status.pending_candidate = ''pending_candidate''"
| "handover_status_value handover_status.candidate_rejected = ''candidate_rejected''"
| "handover_status_value handover_status.pending_review = ''pending_review''"
| "handover_status_value handover_status.review_rejected = ''review_rejected''"
| "handover_status_value handover_status.approved = ''approved''"
| "handover_status_value handover_status.forced = ''forced''"

subsection \<open>Rows\<close>

record user =
  u_id :: uuid
  u_username :: string
  u_role :: user_role
  u_dept_id :: "uuid option"
  u_status :: user_status
  u_timezone :: string

record main_project =
  mp_id :: uuid
  mp_project_no :: string
  mp_name :: string
  mp_dept_id :: uuid
  mp_status :: main_project_status
  mp_total_budget :: money
  mp_expected_finish_date :: date
  mp_spent_amount :: money
  mp_remark :: "string option"
  mp_closed_at :: "datetime option"
  mp_creator_id :: "uuid option"
  mp_project_type_id :: "uuid option"
  mp_created_at :: datetime
  mp_updated_at :: datetime

record project_review =
  rev_id :: uuid
  rev_main_project_id :: "uuid option"
  rev_sub_project_id :: "uuid option"
  rev_reviewer_id :: uuid
  rev_decision :: project_review_decision
  rev_from_status :: main_project_status
  rev_to_status :: main_project_status
  rev_comment :: "string option"
  rev_modified_fields :: payload
  rev_admin_override :: bool
  rev_reviewed_at :: datetime

record sub_project =
  sp_id :: uuid
  sp_project_no :: string
  sp_name :: string
  sp_main_project_id :: uuid
  sp_dept_id :: uuid
  sp_budget :: money
  sp_manager_id :: uuid
  sp_creator_id :: "uuid option"
  sp_status :: sub_project_status
  sp_plan_end_date :: "date option"
  sp_actual_end_date :: "date option"
  sp_spent_amount :: money
  sp_remark :: "string option"
  sp_closed_at :: "datetime option"
  sp_workflow_version_id :: "uuid option"
  sp_created_at :: datetime
  sp_updated_at :: datetime

record sub_project_member =
  mem_id :: uuid
  mem_sub_project_id :: uuid
  mem_user_id :: uuid
  mem_role :: member_role
  mem_joined_at :: datetime
  mem_updated_at :: datetime

record sub_project_handover =
  ho_id :: uuid
  ho_sub_project_id :: uuid
  ho_from_user_id :: uuid
  ho_to_user_id :: uuid
  ho_reason :: string
  ho_operator_id :: uuid
  ho_operated_at :: datetime

record phase =
  ph_id :: uuid
  ph_sub_project_id :: uuid
  ph_phase_no :: int
  ph_code :: string
  ph_name :: string
  ph_status :: phase_status
  ph_enter_at :: "datetime option"
  ph_finish_at :: "datetime option"
  ph_procurement_type :: "procurement_type option"
  ph_created_at :: datetime
  ph_updated_at :: datetime

record phase_doc_template =
  pdt_phase_no :: int
  pdt_doc_type :: string
  pdt_requirement :: doc_requirement
  pdt_qty_rule :: string
  pdt_procurement_type :: "procurement_type option"
  pdt_is_active :: bool

record phase_history =
  hist_id :: uuid
  hist_phase_id :: uuid
  hist_from_status :: phase_status
  hist_to_status :: phase_status
  hist_changed_by_id :: uuid
  hist_changed_at :: datetime
  hist_note :: string

record document =
  doc_id :: uuid
  doc_no :: uuid
  doc_sub_project_id :: uuid
  doc_phase_id :: uuid
  doc_acceptance_step_id :: "uuid option"
  doc_doc_type :: string
  doc_file_name :: string
  doc_display_name :: string
  doc_file_path :: string
  doc_file_size :: int
  doc_version :: int
  doc_is_latest :: bool
  doc_is_deleted :: bool
  doc_scan_status :: scan_status
  doc_scan_result :: "string option"
  doc_scanned_at :: "datetime option"
  doc_uploader_id :: uuid
  doc_created_at :: datetime
  doc_updated_at :: datetime

record acceptance_step =
  step_id :: uuid
  step_phase_id :: uuid
  step_step_no :: int
  step_step_name :: string
  step_responsible_id :: uuid
  step_plan_date :: "date option"
  step_description :: "string option"
  step_step_status :: step_status
  step_completed_at :: "datetime option"
  step_updated_at :: datetime

record payment =
  pay_id :: uuid
  pay_payment_no :: string
  pay_sub_project_id :: uuid
  pay_amount :: money
  pay_payment_date :: date
  pay_remark :: "string option"
  pay_payment_type :: payment_type
  pay_reverses_payment_id :: "uuid option"
  pay_operator_id :: uuid
  pay_created_at :: datetime

record payment_voucher =
  pv_id :: uuid
  pv_payment_id :: uuid
  pv_document_id :: uuid

record revoke_request =
  rr_id :: uuid
  rr_phase_id :: uuid
  rr_sub_project_id :: uuid
  rr_requester_id :: uuid
  rr_reason :: string
  rr_keep_documents :: bool
  rr_status :: revoke_status
  rr_reviewer_id :: "uuid option"
  rr_review_comment :: "string option"
  rr_reviewed_at :: "datetime option"
  rr_created_at :: datetime
  rr_updated_at :: datetime

record handover_request =
  hr_id :: uuid
  hr_from_user_id :: uuid
  hr_to_user_id :: uuid
  hr_reason :: string
  hr_status :: handover_status
  hr_candidate_comment :: "string option"
  hr_candidate_responded_at :: "datetime option"
  hr_reviewer_id :: "uuid option"
  hr_review_comment :: "string option"
  hr_reviewed_at :: "datetime option"
  hr_forced_by_id :: "uuid option"
  hr_forced_at :: "datetime option"
  hr_created_at :: datetime
  hr_updated_at :: datetime

record handover_request_project =
  hrp_id :: uuid
  hrp_request_id :: uuid
  hrp_sub_project_id :: uuid

record task_executor =
  ex_id :: uuid
  ex_task_id :: uuid
  ex_user_id :: uuid
  ex_plan_end_date :: date
  ex_actual_end_date :: "date option"
  ex_status :: task_status
  ex_updated_at :: datetime

record task =
  task_id :: uuid
  task_task_no :: string
  task_sub_project_id :: uuid
  task_phase_id :: uuid
  task_name :: string
  task_plan_end_date :: date
  task_status :: task_status
  task_created_at :: datetime
  task_updated_at :: datetime

text \<open>
  A phase definition of a workflow version, as \<open>WorkflowPhaseDefinition.model_dump()\<close>
  stores it: every stored definition has passed that schema.
\<close>

record required_document =
  rd_doc_type :: string
  rd_requirement :: doc_requirement
  rd_qty_rule :: string
  rd_procurement_type :: "procurement_type option"

record phase_definition =
  pd_key :: string
  pd_name :: string
  pd_order :: int
  pd_required_documents :: "required_document list"

record workflow_template =
  wt_id :: uuid
  wt_project_type_id :: uuid
  wt_name :: string
  wt_description :: "string option"
  wt_status :: workflow_status
  wt_created_by_id :: "uuid option"
  wt_created_at :: datetime

record workflow_version =
  wv_id :: uuid
  wv_template_id :: uuid
  wv_version_no :: int
  wv_status :: workflow_status
  wv_phase_definitions :: "phase_definition list"
  wv_published_at :: "datetime option"

record project_type =
  pt_id :: uuid
  pt_code :: string
  pt_name :: string
  pt_description :: "string option"
  pt_is_builtin :: bool
  pt_is_active :: bool

end
