(* ===== verification/Database.thy ===== *)
theory Database
  imports Domain
begin

text \<open>
  The database state shared by the services, the environment of one request (its clock,
  the services it is wired with, its audit context), the audit queue, and the repository
  queries more than one service uses, after the in-memory repositories.

  One table serves all the repositories here, as one PostgreSQL table does behind the
  SQLAlchemy repositories.  \<open>uuid4()\<close> is a supply of unused identifiers: the state counts
  the ones drawn so far.
\<close>

subsection \<open>State\<close>

text \<open>The formatted key \<open>scenario:receiver:source:date\<close>, kept as the tuple it is built from.\<close>

type_synonym dedup_key = "string \<times> uuid \<times> uuid \<times> date"

record stored_preference =
  pref_enabled :: bool
  pref_delivery_mode :: delivery_mode
  pref_channels :: "(channel \<times> bool) list option"

record notification =
  nt_id :: uuid
  nt_receiver_id :: uuid
  nt_scenario :: string
  nt_source_id :: uuid
  nt_payload :: payload
  nt_dedup_key :: dedup_key
  nt_delivery_mode :: delivery_mode
  nt_digest_sent_at :: "datetime option"
  nt_read_at :: "datetime option"
  nt_created_at :: datetime
  nt_updated_at :: datetime

record channel_message =
  msg_channel :: channel
  msg_receiver_id :: uuid
  msg_scenario :: string
  msg_source_id :: uuid
  msg_payload :: payload
  msg_dedup_key :: dedup_key

text \<open>\<open>to_audit_state\<close> encodes the row it is given; the encoding is kept as the row.\<close>

datatype audit_state =
    NoState
  | MainState main_project
  | SubState sub_project
  | MemberState sub_project_member
  | DictState payload

record audit_entry =
  ae_actor_id :: "uuid option"
  ae_action :: string
  ae_target_type :: string
  ae_target_id :: uuid
  ae_before_state :: audit_state
  ae_after_state :: audit_state
  ae_ip_address :: "string option"
  ae_user_agent :: "string option"
  ae_extra :: payload
  ae_request_id :: "string option"

record database =
  users :: "user list"
  project_types :: "project_type list"
  workflow_templates :: "workflow_template list"
  workflow_versions :: "workflow_version list"
  main_projects :: "main_project list"
  sub_projects :: "sub_project list"
  members :: "sub_project_member list"
  handovers :: "sub_project_handover list"
  reviews :: "project_review list"
  phases :: "phase list"
  phase_doc_templates :: "phase_doc_template list"
  histories :: "phase_history list"
  documents :: "document list"
  acceptance_steps :: "acceptance_step list"
  payments :: "payment list"
  payment_vouchers :: "payment_voucher list"
  revoke_requests :: "revoke_request list"
  handover_requests :: "handover_request list"
  request_projects :: "handover_request_project list"
  tasks :: "task list"
  executors :: "task_executor list"
  notifications :: "notification list"
  preferences :: "uuid \<times> string \<Rightarrow> stored_preference option"
  outbox :: "channel_message list"
  audit_log :: "audit_entry list"
  main_sequence :: int
  sub_sequences :: "uuid \<Rightarrow> int option"
  next_uuid :: uuid

record audit_context =
  ctx_actor_id :: "uuid option"
  ctx_ip_address :: "string option"
  ctx_user_agent :: "string option"
  ctx_request_id :: "string option"

text \<open>
  What one request sees: \<open>datetime.now(UTC)\<close>, the injected \<open>today_provider\<close> and business
  date, whether a notification service and an audit writer are wired in, and the external
  channels of the notification service.
\<close>

record env =
  clock :: datetime
  today :: date
  business_date :: date
  notifier :: bool
  channels :: "channel list"
  auditing :: bool
  audit_ctx :: "audit_context option"

definition empty_database :: database where
  "empty_database = \<lparr> users = [], project_types = [], workflow_templates = [],
     workflow_versions = [], main_projects = [], sub_projects = [], members = [],
     handovers = [], reviews = [], phases = [], phase_doc_templates = [], histories = [],
     documents = [], acceptance_steps = [], payments = [], payment_vouchers = [],
     revoke_requests = [], handover_requests = [], request_projects = [], tasks = [],
     executors = [], notifications = [], preferences = (\<lambda>_. None), outbox = [],
     audit_log = [], main_sequence = 1, sub_sequences = (\<lambda>_. None), next_uuid = 0 \<rparr>"

definition uuid4 :: "database \<Rightarrow> uuid \<times> database" where
  "uuid4 db = (next_uuid db, db\<lparr>next_uuid := Suc (next_uuid db)\<rparr>)"

subsection \<open>The audit queue\<close>

definition to_audit_context :: "env \<Rightarrow> user \<Rightarrow> audit_context" where
  "to_audit_context e actor =
     (case audit_ctx e of Some c \<Rightarrow> c
      | None \<Rightarrow> \<lparr> ctx_actor_id = Some (u_id actor), ctx_ip_address = None,
                  ctx_user_agent = None, ctx_request_id = None \<rparr>)"

definition enqueue_audit :: "audit_entry \<Rightarrow> database \<Rightarrow> database" where
  "enqueue_audit entry db = db\<lparr>audit_log := audit_log db @ [entry]\<rparr>"

text \<open>
  The common body of the services' \<open>_record_audit\<close> methods: nothing without a writer,
  else one entry; \<open>context.actor_id or actor.id\<close> is the acting user.
\<close>

definition record_audit ::
  "env \<Rightarrow> user \<Rightarrow> string \<Rightarrow> string \<Rightarrow> uuid \<Rightarrow> audit_state \<Rightarrow> audit_state \<Rightarrow> payload
     \<Rightarrow> database \<Rightarrow> database" where
  "record_audit e actor action target_type target_id old_state new_state extra db =
     (if \<not> auditing e then db
      else let c = to_audit_context e actor in
        enqueue_audit
          \<lparr> ae_actor_id = (case ctx_actor_id c of Some i \<Rightarrow> Some i | None \<Rightarrow> Some (u_id actor)),
            ae_action = action, ae_target_type = target_type, ae_target_id = target_id,
            ae_before_state = old_state, ae_after_state = new_state,
            ae_ip_address = ctx_ip_address c, ae_user_agent = ctx_user_agent c,
            ae_extra = extra, ae_request_id = ctx_request_id c \<rparr> db)"

text \<open>
  The variant of the document, revoke and handover services, which store \<open>context.actor_id\<close>
  as it is; the default context sets it to the acting user.
\<close>

definition record_context_audit ::
  "env \<Rightarrow> user \<Rightarrow> string \<Rightarrow> string \<Rightarrow> uuid \<Rightarrow> audit_state \<Rightarrow> audit_state \<Rightarrow> payload
     \<Rightarrow> database \<Rightarrow> database" where
  "record_context_audit e actor action target_type target_id old_state new_state extra db =
     (if \<not> auditing e then db
      else let c = to_audit_context e actor in
        enqueue_audit
          \<lparr> ae_actor_id = ctx_actor_id c, ae_action = action, ae_target_type = target_type,
            ae_target_id = target_id, ae_before_state = old_state, ae_after_state = new_state,
            ae_ip_address = ctx_ip_address c, ae_user_agent = ctx_user_agent c,
            ae_extra = extra, ae_request_id = ctx_request_id c \<rparr> db)"

subsection \<open>Repository operations\<close>

definition get_user :: "uuid \<Rightarrow> database \<Rightarrow> user option" where
  "get_user k db = find_row u_id k (users db)"

definition get_main_project :: "uuid \<Rightarrow> database \<Rightarrow> main_project option" where
  "get_main_project k db = find_row mp_id k (main_projects db)"

definition add_main_project :: "main_project \<Rightarrow> database \<Rightarrow> database" where
  "add_main_project p db = db\<lparr>main_projects := main_projects db @ [p]\<rparr>"

definition save_main_project ::
  "uuid \<Rightarrow> (main_project \<Rightarrow> main_project) \<Rightarrow> database \<Rightarrow> database" where
  "save_main_project k f db = db\<lparr>main_projects := update_rows mp_id k f (main_projects db)\<rparr>"

definition get_sub_project :: "uuid \<Rightarrow> database \<Rightarrow> sub_project option" where
  "get_sub_project k db = find_row sp_id k (sub_projects db)"

definition add_sub_project :: "sub_project \<Rightarrow> database \<Rightarrow> database" where
  "add_sub_project p db = db\<lparr>sub_projects := sub_projects db @ [p]\<rparr>"

definition save_sub_project ::
  "uuid \<Rightarrow> (sub_project \<Rightarrow> sub_project) \<Rightarrow> database \<Rightarrow> database" where
  "save_sub_project k f db = db\<lparr>sub_projects := update_rows sp_id k f (sub_projects db)\<rparr>"

definition get_phase :: "uuid \<Rightarrow> database \<Rightarrow> phase option" where
  "get_phase k db = find_row ph_id k (phases db)"

definition add_phase :: "phase \<Rightarrow> database \<Rightarrow> database" where
  "add_phase p db = db\<lparr>phases := phases db @ [p]\<rparr>"

definition save_phase :: "uuid \<Rightarrow> (phase \<Rightarrow> phase) \<Rightarrow> database \<Rightarrow> database" where
  "save_phase k f db = db\<lparr>phases := update_rows ph_id k f (phases db)\<rparr>"

definition list_phases :: "uuid \<Rightarrow> database \<Rightarrow> phase list" where
  "list_phases sid db = sort_key ph_phase_no (filter (\<lambda>p. ph_sub_project_id p = sid) (phases db))"

definition add_history :: "phase_history \<Rightarrow> database \<Rightarrow> database" where
  "add_history h db = db\<lparr>histories := histories db @ [h]\<rparr>"

definition get_member :: "uuid \<Rightarrow> uuid \<Rightarrow> database \<Rightarrow> sub_project_member option" where
  "get_member sid uid db =
     find (\<lambda>m. mem_sub_project_id m = sid \<and> mem_user_id m = uid) (members db)"

definition add_member :: "sub_project_member \<Rightarrow> database \<Rightarrow> database" where
  "add_member m db = db\<lparr>members := members db @ [m]\<rparr>"

definition save_member ::
  "uuid \<Rightarrow> (sub_project_member \<Rightarrow> sub_project_member) \<Rightarrow> database \<Rightarrow> database" where
  "save_member k f db = db\<lparr>members := update_rows mem_id k f (members db)\<rparr>"

definition delete_member :: "sub_project_member \<Rightarrow> database \<Rightarrow> database" where
  "delete_member m db = db\<lparr>members := filter (\<lambda>r. mem_id r \<noteq> mem_id m) (members db)\<rparr>"

definition add_review :: "project_review \<Rightarrow> database \<Rightarrow> database" where
  "add_review r db = db\<lparr>reviews := reviews db @ [r]\<rparr>"

definition add_handover :: "sub_project_handover \<Rightarrow> database \<Rightarrow> database" where
  "add_handover h db = db\<lparr>handovers := handovers db @ [h]\<rparr>"

definition get_workflow_version :: "uuid \<Rightarrow> database \<Rightarrow> workflow_version option" where
  "get_workflow_version k db = find_row wv_id k (workflow_versions db)"

definition list_active_user_ids_by_role ::
  "user_role \<Rightarrow> uuid option \<Rightarrow> uuid option \<Rightarrow> database \<Rightarrow> uuid list" where
  "list_active_user_ids_by_role role excluding dept db =
     map u_id (filter (\<lambda>u. u_role u = role \<and> u_status u = user_status.active
        \<and> excluding \<noteq> Some (u_id u) \<and> (dept = None \<or> u_dept_id u = dept)) (users db))"

lemmas repository_defs =
  add_main_project_def save_main_project_def add_sub_project_def save_sub_project_def
  add_phase_def save_phase_def add_history_def add_member_def save_member_def
  delete_member_def add_review_def add_handover_def uuid4_def

interpretation main_rows: row_store mp_id main_projects get_main_project add_main_project
    save_main_project
  by unfold_locales (simp_all add: get_main_project_def add_main_project_def save_main_project_def)

interpretation sub_rows: row_store sp_id sub_projects get_sub_project add_sub_project
    save_sub_project
  by unfold_locales (simp_all add: get_sub_project_def add_sub_project_def save_sub_project_def)

interpretation phase_rows: row_store ph_id phases get_phase add_phase save_phase
  by unfold_locales (simp_all add: get_phase_def add_phase_def save_phase_def)

subsection \<open>Write sets\<close>

text \<open>
  Which tables an operation writes.  \<open>writes W a b\<close> says that \<open>b\<close> differs from \<open>a\<close> at most in
  the tables \<open>W\<close> (and in the supply of identifiers); every operation has a lemma
  \<open><operation>_writes\<close> that names its write set, and an invariant over other tables is
  preserved by rewriting with \<open>writes_iff\<close>.
\<close>

datatype table =
    Users | ProjectTypes | Templates | Versions | Mains | Subs | Members | Handovers
    | Reviews | Phases | DocTemplates | Histories | Documents | Steps | Payments
    | Vouchers | Revokes | HandoverRequests | RequestProjects | Tasks | Executors
    | Notifications | Preferences | Outbox | Audit | MainSequence | SubSequences

fun unchanged :: "table \<Rightarrow> database \<Rightarrow> database \<Rightarrow> bool" where
  "unchanged Users a b = (users b = users a)"
| "unchanged ProjectTypes a b = (project_types b = project_types a)"
| "unchanged Templates a b = (workflow_templates b = workflow_templates a)"
| "unchanged Versions a b = (workflow_versions b = workflow_versions a)"
| "unchanged Mains a b = (main_projects b = main_projects a)"
| "unchanged Subs a b = (sub_projects b = sub_projects a)"
| "unchanged Members a b = (members b = members a)"
| "unchanged Handovers a b = (handovers b = handovers a)"
| "unchanged Reviews a b = (reviews b = reviews a)"
| "unchanged Phases a b = (phases b = phases a)"
| "unchanged DocTemplates a b = (phase_doc_templates b = phase_doc_templates a)"
| "unchanged Histories a b = (histories b = histories a)"
| "unchanged Documents a b = (documents b = documents a)"
| "unchanged Steps a b = (acceptance_steps b = acceptance_steps a)"
| "unchanged Payments a b = (payments b = payments a)"
| "unchanged Vouchers a b = (payment_vouchers b = payment_vouchers a)"
| "unchanged Revokes a b = (revoke_requests b = revoke_requests a)"
| "unchanged HandoverRequests a b = (handover_requests b = handover_requests a)"
| "unchanged RequestProjects a b = (request_projects b = request_projects a)"
| "unchanged Tasks a b = (tasks b = tasks a)"
| "unchanged Executors a b = (executors b = executors a)"
| "unchanged Notifications a b = (notifications b = notifications a)"
| "unchanged Preferences a b = (preferences b = preferences a)"
| "unchanged Outbox a b = (outbox b = outbox a)"
| "unchanged Audit a b = (audit_log b = audit_log a)"
| "unchanged MainSequence a b = (main_sequence b = main_sequence a)"
| "unchanged SubSequences a b = (sub_sequences b = sub_sequences a)"

definition writes :: "table set \<Rightarrow> database \<Rightarrow> database \<Rightarrow> bool" where
  "writes W a b \<longleftrightarrow> (\<forall>t. t \<notin> W \<longrightarrow> unchanged t a b)"

lemma writes_iff:
  "writes W a b \<longleftrightarrow>
    (Users \<notin> W \<longrightarrow> users b = users a) \<and>
    (ProjectTypes \<notin> W \<longrightarrow> project_types b = project_types a) \<and>
    (Templates \<notin> W \<longrightarrow> workflow_templates b = workflow_templates a) \<and>
    (Versions \<notin> W \<longrightarrow> workflow_versions b = workflow_versions a) \<and>
    (Mains \<notin> W \<longrightarrow> main_projects b = main_projects a) \<and>
    (Subs \<notin> W \<longrightarrow> sub_projects b = sub_projects a) \<and>
    (Members \<notin> W \<longrightarrow> members b = members a) \<and>
    (Handovers \<notin> W \<longrightarrow> handovers b = handovers a) \<and>
    (Reviews \<notin> W \<longrightarrow> reviews b = reviews a) \<and>
    (Phases \<notin> W \<longrightarrow> phases b = phases a) \<and>
    (DocTemplates \<notin> W \<longrightarrow> phase_doc_templates b = phase_doc_templates a) \<and>
    (Histories \<notin> W \<longrightarrow> histories b = histories a) \<and>
    (Documents \<notin> W \<longrightarrow> documents b = documents a) \<and>
    (Steps \<notin> W \<longrightarrow> acceptance_steps b = acceptance_steps a) \<and>
    (Payments \<notin> W \<longrightarrow> payments b = payments a) \<and>
    (Vouchers \<notin> W \<longrightarrow> payment_vouchers b = payment_vouchers a) \<and>
    (Revokes \<notin> W \<longrightarrow> revoke_requests b = revoke_requests a) \<and>
    (HandoverRequests \<notin> W \<longrightarrow> handover_requests b = handover_requests a) \<and>
    (RequestProjects \<notin> W \<longrightarrow> request_projects b = request_projects a) \<and>
    (Tasks \<notin> W \<longrightarrow> tasks b = tasks a) \<and>
    (Executors \<notin> W \<longrightarrow> executors b = executors a) \<and>
    (Notifications \<notin> W \<longrightarrow> notifications b = notifications a) \<and>
    (Preferences \<notin> W \<longrightarrow> preferences b = preferences a) \<and>
    (Outbox \<notin> W \<longrightarrow> outbox b = outbox a) \<and>
    (Audit \<notin> W \<longrightarrow> audit_log b = audit_log a) \<and>
    (MainSequence \<notin> W \<longrightarrow> main_sequence b = main_sequence a) \<and>
    (SubSequences \<notin> W \<longrightarrow> sub_sequences b = sub_sequences a)"
  unfolding writes_def
proof (intro iffI allI impI, goal_cases)
  case 1
  then show ?case by (metis unchanged.simps)
next
  case (2 t)
  then show ?case by (cases t) simp_all
qed

lemma writes_refl: "writes W a a"
  by (simp add: writes_iff)

lemma writes_trans: "writes W a b \<Longrightarrow> writes W b c \<Longrightarrow> writes W a c"
  unfolding writes_iff by presburger

text \<open>Identifiers: distinct in a table, and below the supply.\<close>

definition fresh_ids :: "('r \<Rightarrow> uuid) \<Rightarrow> 'r list \<Rightarrow> uuid \<Rightarrow> bool" where
  "fresh_ids key rows n \<longleftrightarrow> distinct (map key rows) \<and> (\<forall>r \<in> set rows. key r < n)"

lemma fresh_ids_Nil [simp]: "fresh_ids key [] n"
  by (simp add: fresh_ids_def)

lemma fresh_ids_mono: "fresh_ids key rows n \<Longrightarrow> n \<le> n' \<Longrightarrow> fresh_ids key rows n'"
  unfolding fresh_ids_def by (meson order_less_le_trans)

lemma fresh_ids_append:
  "fresh_ids key rows n \<Longrightarrow> n \<le> key r \<Longrightarrow> key r < n' \<Longrightarrow> fresh_ids key (rows @ [r]) n'"
  unfolding fresh_ids_def by fastforce

lemma fresh_ids_update_rows [simp]:
  assumes "\<And>r. key (f r) = key r"
  shows "fresh_ids key (update_rows key k f rows) n = fresh_ids key rows n"
proof -
  have ids: "fresh_ids key rs n \<longleftrightarrow> distinct (map key rs) \<and> list_all (\<lambda>i. i < n) (map key rs)" for rs
    by (auto simp: fresh_ids_def list_all_iff)
  have "map key (update_rows key k f rows) = map key rows"
    by (rule keys_update_rows) (rule assms)
  then show ?thesis unfolding ids by (simp only:)
qed

lemma fresh_ids_filter: "fresh_ids key rows n \<Longrightarrow> fresh_ids key (filter P rows) n"
  unfolding fresh_ids_def by (auto simp: distinct_map_filter)

lemma fresh_ids_find: "fresh_ids key rows n \<Longrightarrow> n \<le> k \<Longrightarrow> find_row key k rows = None"
  unfolding fresh_ids_def find_row_None_iff by auto

subsection \<open>Frame of the audit queue\<close>

text \<open>The simplifier looks only at the database of a call, not at the entry it records.\<close>

lemma record_audit_weak_cong [cong]:
  "db = db' \<Longrightarrow> record_audit e actor act tt ti b a x db = record_audit e actor act tt ti b a x db'"
  by simp

lemma record_context_audit_weak_cong [cong]:
  "db = db' \<Longrightarrow>
     record_context_audit e actor act tt ti b a x db = record_context_audit e actor act tt ti b a x db'"
  by simp

lemma record_audit_frame [simp, frame_simps]:
  "users (record_audit e actor act tt ti b a x db) = users db"
  "project_types (record_audit e actor act tt ti b a x db) = project_types db"
  "workflow_templates (record_audit e actor act tt ti b a x db) = workflow_templates db"
  "workflow_versions (record_audit e actor act tt ti b a x db) = workflow_versions db"
  "main_projects (record_audit e actor act tt ti b a x db) = main_projects db"
  "sub_projects (record_audit e actor act tt ti b a x db) = sub_projects db"
  "members (record_audit e actor act tt ti b a x db) = members db"
  "handovers (record_audit e actor act tt ti b a x db) = handovers db"
  "reviews (record_audit e actor act tt ti b a x db) = reviews db"
  "phases (record_audit e actor act tt ti b a x db) = phases db"
  "phase_doc_templates (record_audit e actor act tt ti b a x db) = phase_doc_templates db"
  "histories (record_audit e actor act tt ti b a x db) = histories db"
  "documents (record_audit e actor act tt ti b a x db) = documents db"
  "acceptance_steps (record_audit e actor act tt ti b a x db) = acceptance_steps db"
  "payments (record_audit e actor act tt ti b a x db) = payments db"
  "payment_vouchers (record_audit e actor act tt ti b a x db) = payment_vouchers db"
  "revoke_requests (record_audit e actor act tt ti b a x db) = revoke_requests db"
  "handover_requests (record_audit e actor act tt ti b a x db) = handover_requests db"
  "request_projects (record_audit e actor act tt ti b a x db) = request_projects db"
  "tasks (record_audit e actor act tt ti b a x db) = tasks db"
  "executors (record_audit e actor act tt ti b a x db) = executors db"
  "notifications (record_audit e actor act tt ti b a x db) = notifications db"
  "preferences (record_audit e actor act tt ti b a x db) = preferences db"
  "outbox (record_audit e actor act tt ti b a x db) = outbox db"
  "main_sequence (record_audit e actor act tt ti b a x db) = main_sequence db"
  "sub_sequences (record_audit e actor act tt ti b a x db) = sub_sequences db"
  "next_uuid (record_audit e actor act tt ti b a x db) = next_uuid db"
  by (simp_all add: record_audit_def enqueue_audit_def Let_def)

lemma record_context_audit_frame [simp, frame_simps]:
  "users (record_context_audit e actor act tt ti b a x db) = users db"
  "project_types (record_context_audit e actor act tt ti b a x db) = project_types db"
  "workflow_templates (record_context_audit e actor act tt ti b a x db) = workflow_templates db"
  "workflow_versions (record_context_audit e actor act tt ti b a x db) = workflow_versions db"
  "main_projects (record_context_audit e actor act tt ti b a x db) = main_projects db"
  "sub_projects (record_context_audit e actor act tt ti b a x db) = sub_projects db"
  "members (record_context_audit e actor act tt ti b a x db) = members db"
  "handovers (record_context_audit e actor act tt ti b a x db) = handovers db"
  "reviews (record_context_audit e actor act tt ti b a x db) = reviews db"
  "phases (record_context_audit e actor act tt ti b a x db) = phases db"
  "phase_doc_templates (record_context_audit e actor act tt ti b a x db) = phase_doc_templates db"
  "histories (record_context_audit e actor act tt ti b a x db) = histories db"
  "documents (record_context_audit e actor act tt ti b a x db) = documents db"
  "acceptance_steps (record_context_audit e actor act tt ti b a x db) = acceptance_steps db"
  "payments (record_context_audit e actor act tt ti b a x db) = payments db"
  "payment_vouchers (record_context_audit e actor act tt ti b a x db) = payment_vouchers db"
  "revoke_requests (record_context_audit e actor act tt ti b a x db) = revoke_requests db"
  "handover_requests (record_context_audit e actor act tt ti b a x db) = handover_requests db"
  "request_projects (record_context_audit e actor act tt ti b a x db) = request_projects db"
  "tasks (record_context_audit e actor act tt ti b a x db) = tasks db"
  "executors (record_context_audit e actor act tt ti b a x db) = executors db"
  "notifications (record_context_audit e actor act tt ti b a x db) = notifications db"
  "preferences (record_context_audit e actor act tt ti b a x db) = preferences db"
  "outbox (record_context_audit e actor act tt ti b a x db) = outbox db"
  "main_sequence (record_context_audit e actor act tt ti b a x db) = main_sequence db"
  "sub_sequences (record_context_audit e actor act tt ti b a x db) = sub_sequences db"
  "next_uuid (record_context_audit e actor act tt ti b a x db) = next_uuid db"
  by (simp_all add: record_context_audit_def enqueue_audit_def Let_def)

subsection \<open>What an operation leaves behind\<close>

text \<open>
  \<open>yields P r\<close> says that the database an operation returns, if it returns, satisfies \<open>P\<close>.
  The rules below follow the shape of a handler, one for each construct; with the facts about
  the repository operations for a particular \<open>P\<close> they prove \<open>yields P (operation ...)\<close> by
  structural application.  \<open>evolves W a\<close> is the \<open>P\<close> of the write sets.
\<close>

definition yields :: "(database \<Rightarrow> bool) \<Rightarrow> py_error + ('x \<times> database) \<Rightarrow> bool" where
  "yields P r \<longleftrightarrow> (\<forall>x b. r = Inr (x, b) \<longrightarrow> P b)"

definition evolves :: "table set \<Rightarrow> database \<Rightarrow> database \<Rightarrow> bool" where
  "evolves W a b \<longleftrightarrow> writes W a b \<and> next_uuid a \<le> next_uuid b"

lemma yieldsD: "yields P r \<Longrightarrow> r = Inr (x, b) \<Longrightarrow> P b"
  by (simp add: yields_def)

lemma yields_Inr: "P b \<Longrightarrow> yields P (Inr (x, b))"
  by (simp add: yields_def)

lemma yields_Inl: "yields P (Inl e)"
  by (simp add: yields_def)

lemma yields_bind:
  "yields P r \<Longrightarrow> (\<And>x d. r = Inr (x, d) \<Longrightarrow> P d \<Longrightarrow> yields P (f x d)) \<Longrightarrow>
     yields P (attempt r (\<lambda>(x, d). f x d))"
  by (cases r) (auto simp: yields_def)

lemma yields_attempt: "(\<And>x. r = Inr x \<Longrightarrow> yields P (f x)) \<Longrightarrow> yields P (attempt r f)"
  by (cases r) (simp_all add: yields_def)

lemma yields_prod: "(\<And>x y. p = (x, y) \<Longrightarrow> yields P (f x y)) \<Longrightarrow> yields P (case_prod f p)"
  by (cases p) simp

lemma yields_if:
  "(c \<Longrightarrow> yields P x) \<Longrightarrow> (\<not> c \<Longrightarrow> yields P y) \<Longrightarrow> yields P (if c then x else y)"
  by simp

lemma yields_option:
  "(x = None \<Longrightarrow> yields P n) \<Longrightarrow> (\<And>y. x = Some y \<Longrightarrow> yields P (s y)) \<Longrightarrow>
     yields P (case x of None \<Rightarrow> n | Some y \<Rightarrow> s y)"
  by (cases x) simp_all

lemma yields_let_database: "P t \<Longrightarrow> (\<And>d. P d \<Longrightarrow> d = t \<Longrightarrow> yields P (f d)) \<Longrightarrow> yields P (Let t f)"
  by (simp add: Let_def)

lemma yields_let_pair:
  "P (snd t) \<Longrightarrow> (\<And>x d. P d \<Longrightarrow> x = fst t \<Longrightarrow> d = snd t \<Longrightarrow> yields P (f x d)) \<Longrightarrow>
     yields P (let (x, d) = t in f x d)"
  by (simp add: Let_def split_beta)

lemma yields_let_triple:
  "P (snd (snd t)) \<Longrightarrow>
     (\<And>x y d. P d \<Longrightarrow> x = fst t \<Longrightarrow> y = fst (snd t) \<Longrightarrow> d = snd (snd t) \<Longrightarrow> yields P (f x y d)) \<Longrightarrow>
     yields P (let (x, y, d) = t in f x y d)"
  by (simp add: Let_def split_beta)

lemma yields_let: "(\<And>x. x = t \<Longrightarrow> yields P (f x)) \<Longrightarrow> yields P (Let t f)"
  by (simp add: Let_def)

lemmas yields_rules = yields_Inr yields_Inl yields_let_pair yields_let_triple yields_let_database
  yields_let yields_bind yields_attempt yields_prod yields_if yields_option

text \<open>The same for an expression of the database inside a handler.\<close>

lemma holds_if: "(c \<Longrightarrow> P x) \<Longrightarrow> (\<not> c \<Longrightarrow> P y) \<Longrightarrow> P (if c then x else y)"
  for P :: "database \<Rightarrow> bool"
  by simp

lemma holds_option:
  "(x = None \<Longrightarrow> P n) \<Longrightarrow> (\<And>y. x = Some y \<Longrightarrow> P (s y)) \<Longrightarrow>
     P (case x of None \<Rightarrow> n | Some y \<Rightarrow> s y)"
  for P :: "database \<Rightarrow> bool"
  by (cases x) simp_all

lemma holds_let_database: "P t \<Longrightarrow> (\<And>d. P d \<Longrightarrow> P (f d)) \<Longrightarrow> P (Let t f)"
  for P :: "database \<Rightarrow> bool"
  by (simp add: Let_def)

lemma holds_let_pair:
  "P (snd t) \<Longrightarrow> (\<And>x d. P d \<Longrightarrow> x = fst t \<Longrightarrow> P (f x d)) \<Longrightarrow> P (let (x, d) = t in f x d)"
  for P :: "database \<Rightarrow> bool"
  by (simp add: Let_def split_beta)


named_theorems evolve_rules \<open>repository operations and helpers stay in a write set\<close>

lemma evolves_refl: "evolves W a a"
  by (simp add: evolves_def writes_refl)

lemma evolves_trans: "evolves V b c \<Longrightarrow> V \<subseteq> W \<Longrightarrow> evolves W a b \<Longrightarrow> evolves W a c"
proof -
  assume c: "evolves V b c" "V \<subseteq> W" "evolves W a b"
  then have "writes W b c" by (auto simp: evolves_def writes_def)
  with c show ?thesis by (auto simp: evolves_def intro: writes_trans)
qed

lemma evolves_iff: "evolves W a b \<longleftrightarrow> writes W a b \<and> next_uuid a \<le> next_uuid b"
  by (rule evolves_def)

lemma holds_let: "(\<And>x. P (f x)) \<Longrightarrow> P (Let t f)"
  for P :: "database \<Rightarrow> bool"
  by (simp add: Let_def)

lemma holds_snd_if: "(c \<Longrightarrow> P (snd x)) \<Longrightarrow> (\<not> c \<Longrightarrow> P (snd y)) \<Longrightarrow> P (snd (if c then x else y))"
  by simp

lemma holds_snd_pair: "P y \<Longrightarrow> P (snd (x, y))"
  by simp

lemmas evolves_control [evolve_rules] = evolves_refl
  holds_let [where P = "evolves W a" for W a]
  holds_snd_if [where P = "evolves W a" for W a]
  holds_snd_pair [where P = "evolves W a" for W a]
  holds_let_pair [where P = "evolves W a" for W a]
  holds_let_database [where P = "evolves W a" for W a]
  holds_if [where P = "evolves W a" for W a]
  holds_option [where P = "evolves W a" for W a]

lemma uuid4_simps [simp]:
  "fst (uuid4 db) = next_uuid db"
  "snd (uuid4 db) = db\<lparr>next_uuid := Suc (next_uuid db)\<rparr>"
  by (simp_all add: uuid4_def)

lemma evolves_uuid4 [evolve_rules]: "evolves W a b \<Longrightarrow> evolves W a (snd (uuid4 b))"
  by (simp add: evolves_def writes_iff)

lemma evolves_repository [evolve_rules]:
  "Mains \<in> W \<Longrightarrow> evolves W a b \<Longrightarrow> evolves W a (add_main_project m b)"
  "Mains \<in> W \<Longrightarrow> evolves W a b \<Longrightarrow> evolves W a (save_main_project k fm b)"
  "Subs \<in> W \<Longrightarrow> evolves W a b \<Longrightarrow> evolves W a (add_sub_project s b)"
  "Subs \<in> W \<Longrightarrow> evolves W a b \<Longrightarrow> evolves W a (save_sub_project k fs b)"
  "Phases \<in> W \<Longrightarrow> evolves W a b \<Longrightarrow> evolves W a (add_phase p b)"
  "Phases \<in> W \<Longrightarrow> evolves W a b \<Longrightarrow> evolves W a (save_phase k fp b)"
  "Histories \<in> W \<Longrightarrow> evolves W a b \<Longrightarrow> evolves W a (add_history h b)"
  "Members \<in> W \<Longrightarrow> evolves W a b \<Longrightarrow> evolves W a (add_member mb b)"
  "Members \<in> W \<Longrightarrow> evolves W a b \<Longrightarrow> evolves W a (save_member k fmb b)"
  "Members \<in> W \<Longrightarrow> evolves W a b \<Longrightarrow> evolves W a (delete_member mb b)"
  "Reviews \<in> W \<Longrightarrow> evolves W a b \<Longrightarrow> evolves W a (add_review r b)"
  "Handovers \<in> W \<Longrightarrow> evolves W a b \<Longrightarrow> evolves W a (add_handover ho b)"
  by (simp_all add: evolves_def writes_iff repository_defs)

lemma evolves_audit [evolve_rules]:
  "Audit \<in> W \<Longrightarrow> evolves W a b \<Longrightarrow> evolves W a (record_audit e actor act tt ti bf af x b)"
  "Audit \<in> W \<Longrightarrow> evolves W a b \<Longrightarrow> evolves W a (record_context_audit e actor act tt ti bf af x b)"
  by (simp_all add: evolves_def writes_iff)

end
