(* ===== verification/Notifications.thy ===== *)
theory Notifications
  imports Database
begin

text \<open>
  The notification service (\<open>app/services/notifications.py\<close> and
  \<open>notification_channels.py\<close>): preferences per receiver and scenario, \<open>send\<close> with its
  deduplication by business date, the external channels it hands messages to, and the
  reading side.  A message handed to an external channel is recorded in the outbox; what
  the channel does with it is not part of this theory.  The daily digest is not modelled.
\<close>

subsection \<open>Preferences\<close>

definition default_notification_channels :: "channel \<Rightarrow> bool" where
  "default_notification_channels c = (c = channel.in_app)"

definition normalize_channel_settings ::
  "(channel \<times> bool) list option \<Rightarrow> bool \<Rightarrow> channel \<Rightarrow> bool" where
  "normalize_channel_settings settings in_app_default =
     (let normalized = default_notification_channels(channel.in_app := in_app_default) in
      case settings of None \<Rightarrow> normalized
      | Some cs \<Rightarrow> fold (\<lambda>(c, enabled) f. f(c := enabled)) cs normalized)"

definition channel_enabled :: "stored_preference \<Rightarrow> channel \<Rightarrow> bool" where
  "channel_enabled p c = normalize_channel_settings (pref_channels p) (pref_enabled p) c"

definition default_preference :: stored_preference where
  "default_preference =
     \<lparr> pref_enabled = True, pref_delivery_mode = delivery_mode.real_time, pref_channels = None \<rparr>"

definition preference_of :: "string \<Rightarrow> database \<Rightarrow> uuid \<Rightarrow> stored_preference" where
  "preference_of scenario db receiver =
     (case preferences db (receiver, scenario) of Some p \<Rightarrow> p | None \<Rightarrow> default_preference)"

definition has_enabled_channel :: "env \<Rightarrow> stored_preference \<Rightarrow> bool" where
  "has_enabled_channel e p =
     (channel_enabled p channel.in_app \<or> (\<exists>c \<in> set (channels e). channel_enabled p c))"

subsection \<open>Sending\<close>

definition build_dedup_key :: "string \<Rightarrow> uuid \<Rightarrow> uuid \<Rightarrow> date \<Rightarrow> dedup_key" where
  "build_dedup_key scenario receiver source_id on_date = (scenario, receiver, source_id, on_date)"

definition existing_dedup_keys :: "dedup_key list \<Rightarrow> database \<Rightarrow> dedup_key set" where
  "existing_dedup_keys requested db = set (map nt_dedup_key (notifications db)) \<inter> set requested"

definition new_notification ::
  "env \<Rightarrow> string \<Rightarrow> uuid \<Rightarrow> payload \<Rightarrow> delivery_mode \<Rightarrow> uuid \<Rightarrow> uuid \<Rightarrow> notification" where
  "new_notification e scenario source_id payload mode receiver new_id =
     \<lparr> nt_id = new_id, nt_receiver_id = receiver, nt_scenario = scenario,
       nt_source_id = source_id, nt_payload = payload,
       nt_dedup_key = build_dedup_key scenario receiver source_id (business_date e),
       nt_delivery_mode = mode, nt_digest_sent_at = None, nt_read_at = None,
       nt_created_at = clock e, nt_updated_at = clock e \<rparr>"

definition add_many :: "notification list \<Rightarrow> database \<Rightarrow> database" where
  "add_many ns db =
     db\<lparr>notifications := notifications db @ ns, next_uuid := next_uuid db + length ns\<rparr>"

text \<open>The messages of \<open>_send_external_channels\<close>, in the order they are sent.\<close>

definition external_messages ::
  "env \<Rightarrow> string \<Rightarrow> uuid \<Rightarrow> payload \<Rightarrow> (uuid \<times> dedup_key) list \<Rightarrow> database
     \<Rightarrow> channel_message list" where
  "external_messages e scenario source_id payload fresh db =
     concat (map (\<lambda>(receiver, key).
       map (\<lambda>c. \<lparr> msg_channel = c, msg_receiver_id = receiver, msg_scenario = scenario,
                  msg_source_id = source_id, msg_payload = payload, msg_dedup_key = key \<rparr>)
         (filter (channel_enabled (preference_of scenario db receiver)) (channels e))) fresh)"

definition send ::
  "env \<Rightarrow> string \<Rightarrow> uuid list \<Rightarrow> uuid \<Rightarrow> payload \<Rightarrow> database \<Rightarrow> notification list \<times> database" where
  "send e scenario receivers source_id payload db =
     (let receiver_ids = filter (\<lambda>r. has_enabled_channel e (preference_of scenario db r))
            (dedup receivers);
          keyed = map (\<lambda>r. (r, build_dedup_key scenario r source_id (business_date e))) receiver_ids;
          existing = existing_dedup_keys (map snd keyed) db;
          fresh = filter (\<lambda>(r, key). key \<notin> existing) keyed;
          in_app = filter (\<lambda>(r, key). channel_enabled (preference_of scenario db r) channel.in_app)
            fresh;
          created = map (\<lambda>((r, key), i). new_notification e scenario source_id payload
              (pref_delivery_mode (preference_of scenario db r)) r i)
            (zip in_app [next_uuid db ..< next_uuid db + length in_app]);
          db' = add_many created db
      in (created, db'\<lparr>outbox := outbox db'
            @ external_messages e scenario source_id payload fresh db\<rparr>))"

text \<open>
  The services' \<open>_send_notification\<close> helpers: nothing without a notification service,
  else \<open>send\<close>.
\<close>

definition notify ::
  "env \<Rightarrow> string \<Rightarrow> uuid list \<Rightarrow> uuid \<Rightarrow> payload \<Rightarrow> database \<Rightarrow> database" where
  "notify e scenario receivers source_id payload db =
     (if notifier e then snd (send e scenario receivers source_id payload db) else db)"

subsection \<open>Reading\<close>

definition validate_page :: "int \<Rightarrow> int \<Rightarrow> py_error + unit" where
  "validate_page page page_size =
     attempt (guard (1 \<le> page) (ValidationFailed ''Page must be greater than or equal to 1'' []))
       (\<lambda>_. guard (1 \<le> page_size \<and> page_size \<le> 100)
          (ValidationFailed ''Page size must be between 1 and 100'' []))"

definition is_real_time_for :: "uuid \<Rightarrow> notification \<Rightarrow> bool" where
  "is_real_time_for receiver n =
     (nt_receiver_id n = receiver \<and> nt_delivery_mode n = delivery_mode.real_time)"

definition list_unread_for_update :: "uuid \<Rightarrow> database \<Rightarrow> notification list" where
  "list_unread_for_update receiver db =
     filter (\<lambda>n. is_real_time_for receiver n \<and> nt_read_at n = None) (notifications db)"

definition unread_count :: "user \<Rightarrow> database \<Rightarrow> nat" where
  "unread_count actor db = length (list_unread_for_update (u_id actor) db)"

definition list_notifications ::
  "user \<Rightarrow> bool option \<Rightarrow> int \<Rightarrow> int \<Rightarrow> database \<Rightarrow> py_error + (notification list \<times> nat)" where
  "list_notifications actor unread page page_size db =
     attempt (validate_page page page_size) (\<lambda>_.
       let mine = filter (is_real_time_for (u_id actor)) (notifications db);
           shown = (case unread of None \<Rightarrow> mine
             | Some True \<Rightarrow> filter (\<lambda>n. nt_read_at n = None) mine
             | Some False \<Rightarrow> filter (\<lambda>n. nt_read_at n \<noteq> None) mine);
           ordered = sorted_desc nt_created_at shown;
           start = (page - 1) * page_size
       in Inr (py_slice ordered start (start + page_size), length ordered))"

definition mark_read ::
  "env \<Rightarrow> user \<Rightarrow> uuid \<Rightarrow> database \<Rightarrow> py_error + (notification \<times> database)" where
  "mark_read e actor notification_id db =
     attempt (present (find_row nt_id notification_id (notifications db))
        (ResourceNotFound ''Notification does not exist'')) (\<lambda>n.
     attempt (guard (nt_receiver_id n = u_id actor)
        (ResourceNotFound ''Notification does not exist'')) (\<lambda>_.
     if nt_read_at n = None
     then (let stamp = (\<lambda>m. m\<lparr>nt_read_at := Some (clock e), nt_updated_at := clock e\<rparr>)
           in Inr (stamp n, db\<lparr>notifications :=
                 update_rows nt_id notification_id stamp (notifications db)\<rparr>))
     else Inr (n, db)))"

definition mark_all_read :: "env \<Rightarrow> user \<Rightarrow> database \<Rightarrow> nat \<times> database" where
  "mark_all_read e actor db =
     (let unread = list_unread_for_update (u_id actor) db in
      if unread = [] then (0, db)
      else (length unread, db\<lparr>notifications := map (\<lambda>n.
          if is_real_time_for (u_id actor) n \<and> nt_read_at n = None
          then n\<lparr>nt_read_at := Some (clock e), nt_updated_at := clock e\<rparr> else n)
        (notifications db)\<rparr>))"

subsection \<open>Frame\<close>

lemma send_frame [simp, frame_simps]:
  "users (snd (send e sc rs src p db)) = users db"
  "project_types (snd (send e sc rs src p db)) = project_types db"
  "workflow_templates (snd (send e sc rs src p db)) = workflow_templates db"
  "workflow_versions (snd (send e sc rs src p db)) = workflow_versions db"
  "main_projects (snd (send e sc rs src p db)) = main_projects db"
  "sub_projects (snd (send e sc rs src p db)) = sub_projects db"
  "members (snd (send e sc rs src p db)) = members db"
  "handovers (snd (send e sc rs src p db)) = handovers db"
  "reviews (snd (send e sc rs src p db)) = reviews db"
  "phases (snd (send e sc rs src p db)) = phases db"
  "phase_doc_templates (snd (send e sc rs src p db)) = phase_doc_templates db"
  "histories (snd (send e sc rs src p db)) = histories db"
  "documents (snd (send e sc rs src p db)) = documents db"
  "acceptance_steps (snd (send e sc rs src p db)) = acceptance_steps db"
  "payments (snd (send e sc rs src p db)) = payments db"
  "payment_vouchers (snd (send e sc rs src p db)) = payment_vouchers db"
  "revoke_requests (snd (send e sc rs src p db)) = revoke_requests db"
  "handover_requests (snd (send e sc rs src p db)) = handover_requests db"
  "request_projects (snd (send e sc rs src p db)) = request_projects db"
  "tasks (snd (send e sc rs src p db)) = tasks db"
  "executors (snd (send e sc rs src p db)) = executors db"
  "preferences (snd (send e sc rs src p db)) = preferences db"
  "audit_log (snd (send e sc rs src p db)) = audit_log db"
  "main_sequence (snd (send e sc rs src p db)) = main_sequence db"
  "sub_sequences (snd (send e sc rs src p db)) = sub_sequences db"
  by (simp_all add: send_def add_many_def Let_def)

lemma send_next_uuid: "next_uuid db \<le> next_uuid (snd (send e sc rs src p db))"
  by (simp add: send_def add_many_def Let_def)

lemma notify_weak_cong [cong]: "db = db' \<Longrightarrow> notify e sc rs src p db = notify e sc rs src p db'"
  by simp

lemma notify_frame [simp, frame_simps]:
  "users (notify e sc rs src p db) = users db"
  "project_types (notify e sc rs src p db) = project_types db"
  "workflow_templates (notify e sc rs src p db) = workflow_templates db"
  "workflow_versions (notify e sc rs src p db) = workflow_versions db"
  "main_projects (notify e sc rs src p db) = main_projects db"
  "sub_projects (notify e sc rs src p db) = sub_projects db"
  "members (notify e sc rs src p db) = members db"
  "handovers (notify e sc rs src p db) = handovers db"
  "reviews (notify e sc rs src p db) = reviews db"
  "phases (notify e sc rs src p db) = phases db"
  "phase_doc_templates (notify e sc rs src p db) = phase_doc_templates db"
  "histories (notify e sc rs src p db) = histories db"
  "documents (notify e sc rs src p db) = documents db"
  "acceptance_steps (notify e sc rs src p db) = acceptance_steps db"
  "payments (notify e sc rs src p db) = payments db"
  "payment_vouchers (notify e sc rs src p db) = payment_vouchers db"
  "revoke_requests (notify e sc rs src p db) = revoke_requests db"
  "handover_requests (notify e sc rs src p db) = handover_requests db"
  "request_projects (notify e sc rs src p db) = request_projects db"
  "tasks (notify e sc rs src p db) = tasks db"
  "executors (notify e sc rs src p db) = executors db"
  "preferences (notify e sc rs src p db) = preferences db"
  "audit_log (notify e sc rs src p db) = audit_log db"
  "main_sequence (notify e sc rs src p db) = main_sequence db"
  "sub_sequences (notify e sc rs src p db) = sub_sequences db"
  by (simp_all add: notify_def)

lemma notify_next_uuid: "next_uuid db \<le> next_uuid (notify e sc rs src p db)"
  by (simp add: notify_def send_next_uuid)

lemma notify_next_uuid_le: "n \<le> next_uuid db \<Longrightarrow> n \<le> next_uuid (notify e sc rs src p db)"
  using notify_next_uuid order_trans by blast

lemma evolves_send [evolve_rules]:
  "Notifications \<in> W \<Longrightarrow> Outbox \<in> W \<Longrightarrow> evolves W a b \<Longrightarrow>
     evolves W a (snd (send e sc rs src p b))"
  by (rule evolves_trans [where b = b and V = "{Notifications, Outbox}"])
    (simp_all add: evolves_def writes_iff send_next_uuid)

lemma evolves_notify [evolve_rules]:
  "Notifications \<in> W \<Longrightarrow> Outbox \<in> W \<Longrightarrow> evolves W a b \<Longrightarrow>
     evolves W a (notify e sc rs src p b)"
  by (rule evolves_trans [where b = b and V = "{Notifications, Outbox}"])
    (simp_all add: evolves_def writes_iff notify_next_uuid)

subsection \<open>Deduplication\<close>

lemma preference_of_send [simp]:
  "preference_of scenario (snd (send e sc rs src p db)) = preference_of scenario db"
  by (rule ext) (simp add: preference_of_def)

definition dedup_keys_distinct :: "database \<Rightarrow> bool" where
  "dedup_keys_distinct db = distinct (map nt_dedup_key (notifications db))"

lemma notifications_send:
  "notifications (snd (send e sc rs src p db)) = notifications db @ fst (send e sc rs src p db)"
  by (simp add: send_def Let_def add_many_def)

definition in_app_targets ::
  "env \<Rightarrow> string \<Rightarrow> uuid list \<Rightarrow> uuid \<Rightarrow> database \<Rightarrow> uuid list" where
  "in_app_targets e sc rs src db = filter (\<lambda>r.
     channel_enabled (preference_of sc db r) channel.in_app \<and>
     build_dedup_key sc r src (business_date e) \<notin> set (map nt_dedup_key (notifications db)))
     (dedup rs)"

lemma map_zip_fst:
  "length xs \<le> length ys \<Longrightarrow> map (\<lambda>(x, y). f x) (zip xs ys) = map f xs"
proof (induction xs arbitrary: ys)
  case (Cons x xs)
  then show ?case by (cases ys) auto
qed simp

lemma send_targets:
  "\<exists>ids. length ids = length (in_app_targets e sc rs src db) \<and>
     fst (send e sc rs src p db) =
       map (\<lambda>(r, i). new_notification e sc src p (pref_delivery_mode (preference_of sc db r)) r i)
         (zip (in_app_targets e sc rs src db) ids)"
proof -
  let ?pref = "preference_of sc db" and ?key = "\<lambda>r. build_dedup_key sc r src (business_date e)"
  let ?receivers = "filter (\<lambda>r. has_enabled_channel e (?pref r)) (dedup rs)"
  let ?keyed = "map (\<lambda>r. (r, ?key r)) ?receivers"
  let ?existing = "existing_dedup_keys (map snd ?keyed) db"
  let ?in_app = "filter (\<lambda>(r, k). channel_enabled (?pref r) channel.in_app)
      (filter (\<lambda>(r, k). k \<notin> ?existing) ?keyed)"
  let ?ids = "[next_uuid db ..< next_uuid db + length ?in_app]"
  have ex: "?key r \<in> ?existing \<longleftrightarrow> ?key r \<in> set (map nt_dedup_key (notifications db))"
    if "r \<in> set ?receivers" for r
    using that by (auto simp: existing_dedup_keys_def)
  have "?in_app = map (\<lambda>r. (r, ?key r)) (filter (\<lambda>r. channel_enabled (?pref r) channel.in_app)
      (filter (\<lambda>r. ?key r \<notin> ?existing) ?receivers))"
    by (simp only: filter_map o_def prod.case)
  also have "filter (\<lambda>r. ?key r \<notin> ?existing) ?receivers =
      filter (\<lambda>r. ?key r \<notin> set (map nt_dedup_key (notifications db))) ?receivers"
    using ex by (intro filter_cong) auto
  also have "filter (\<lambda>r. channel_enabled (?pref r) channel.in_app)
      (filter (\<lambda>r. ?key r \<notin> set (map nt_dedup_key (notifications db))) ?receivers) =
      in_app_targets e sc rs src db"
    unfolding in_app_targets_def filter_filter
    by (intro filter_cong) (auto simp: has_enabled_channel_def)
  finally have in_app: "?in_app = map (\<lambda>r. (r, ?key r)) (in_app_targets e sc rs src db)" .
  have len: "length ?ids = length (in_app_targets e sc rs src db)"
    unfolding length_upt add_diff_cancel_left' using arg_cong [OF in_app, of length]
    by (simp only: length_map)
  have "fst (send e sc rs src p db) = map (\<lambda>((r, k), i). new_notification e sc src p
      (pref_delivery_mode (?pref r)) r i) (zip ?in_app ?ids)"
    by (simp add: send_def Let_def)
  also have "\<dots> = map (\<lambda>(r, i). new_notification e sc src p
      (pref_delivery_mode (?pref r)) r i) (zip (in_app_targets e sc rs src db) ?ids)"
    unfolding in_app by (simp add: zip_map1 split_def)
  finally show ?thesis using len by blast
qed

lemma send_receivers: "map nt_receiver_id (fst (send e sc rs src p db)) = in_app_targets e sc rs src db"
  using send_targets [of e sc rs src db p]
  by (auto simp: new_notification_def split_def o_def)

lemma send_keys:
  "map nt_dedup_key (fst (send e sc rs src p db)) =
     map (\<lambda>r. build_dedup_key sc r src (business_date e)) (in_app_targets e sc rs src db)"
proof -
  have "map nt_dedup_key (fst (send e sc rs src p db)) =
      map (\<lambda>n. build_dedup_key sc (nt_receiver_id n) src (business_date e))
        (fst (send e sc rs src p db))"
    using send_targets [of e sc rs src db p] by (auto simp: new_notification_def)
  also have "\<dots> = map (\<lambda>r. build_dedup_key sc r src (business_date e))
      (map nt_receiver_id (fst (send e sc rs src p db)))"
    by simp
  finally show ?thesis unfolding send_receivers .
qed

lemma dedup_keys_distinct_send:
  assumes "dedup_keys_distinct db"
  shows "dedup_keys_distinct (snd (send e sc rs src p db))"
proof -
  have "distinct (map (\<lambda>r. build_dedup_key sc r src (business_date e)) (in_app_targets e sc rs src db))"
    by (auto simp: distinct_map in_app_targets_def build_dedup_key_def inj_on_def)
  with assms show ?thesis
    by (auto simp: dedup_keys_distinct_def notifications_send send_keys in_app_targets_def)
qed

lemma dedup_keys_distinct_notify:
  "dedup_keys_distinct db \<Longrightarrow> dedup_keys_distinct (notify e sc rs src p db)"
  by (simp add: notify_def dedup_keys_distinct_send)

lemma resend_targets:
  "business_date e' = business_date e \<Longrightarrow>
     in_app_targets e' sc rs' src (snd (send e sc rs src p db)) =
     filter (\<lambda>r. r \<notin> set rs) (in_app_targets e' sc rs' src db)"
proof -
  assume "business_date e' = business_date e"
  moreover have "set (map nt_dedup_key (notifications (snd (send e sc rs src p db)))) =
      set (map nt_dedup_key (notifications db)) \<union>
      (\<lambda>r. build_dedup_key sc r src (business_date e)) ` set (in_app_targets e sc rs src db)"
    unfolding notifications_send map_append set_append send_keys by (simp only: set_map)
  ultimately show ?thesis
    unfolding in_app_targets_def [of e' sc rs'] preference_of_send filter_filter
    by (intro filter_cong) (auto simp: in_app_targets_def build_dedup_key_def)
qed

subsection \<open>Unread notifications\<close>

lemma unread_after_mark_all:
  "list_unread_for_update r (snd (mark_all_read e actor db)) =
     (if r = u_id actor then [] else list_unread_for_update r db)"
proof -
  let ?stamp = "\<lambda>n. if is_real_time_for (u_id actor) n \<and> nt_read_at n = None
      then n\<lparr>nt_read_at := Some (clock e), nt_updated_at := clock e\<rparr> else n"
  let ?unread = "\<lambda>n. is_real_time_for r n \<and> nt_read_at n = None"
  have "filter ?unread (map ?stamp ns) = (if r = u_id actor then [] else filter ?unread ns)" for ns
  proof (cases "r = u_id actor")
    case True
    then have "\<not> ?unread (?stamp n)" for n by (cases "?unread n") (auto simp: is_real_time_for_def)
    with True show ?thesis unfolding filter_map o_def by simp
  next
    case False
    then have "?unread (?stamp n) = ?unread n" and "?unread n \<Longrightarrow> ?stamp n = n" for n
      by (auto simp: is_real_time_for_def)
    then have "map ?stamp (filter (?unread \<circ> ?stamp) ns) = filter ?unread ns"
      by (intro map_idI [THEN trans] filter_cong) (auto simp only: o_def set_filter mem_Collect_eq)
    with False show ?thesis unfolding filter_map by simp
  qed
  note stamped = this
  show ?thesis
  proof (cases "list_unread_for_update (u_id actor) db = []")
    case True
    then show ?thesis by (simp add: mark_all_read_def)
  next
    case False
    then have "list_unread_for_update r (snd (mark_all_read e actor db)) =
        filter ?unread (map ?stamp (notifications db))"
      by (simp add: mark_all_read_def Let_def list_unread_for_update_def [of r])
    then show ?thesis by (simp only: stamped list_unread_for_update_def)
  qed
qed

end
