(* ===== verification/MainProjects.thy ===== *)
theory MainProjects
  imports Notifications
begin

text \<open>
  Main projects (\<open>app/services/main_projects.py\<close>): creation, editing after a rejection,
  submission, review with field corrections, closing, and the progress funnel.

  A request that raises is not committed, so its database is the one it started from: a
  handler returns the new database only with \<open>Inr\<close>.
\<close>

subsection \<open>Repository\<close>

definition view_all_project_roles :: "user_role set" where
  "view_all_project_roles = {user_role.admin, user_role.dept_manager, user_role.finance_manager,
     user_role.proj_leader, user_role.proj_member}"

definition list_main_projects :: "int \<Rightarrow> int \<Rightarrow> database \<Rightarrow> main_project list \<times> nat" where
  "list_main_projects page page_size db =
     (let ordered = sorted_desc mp_created_at (main_projects db);
          start = (page - 1) * page_size
      in (py_slice ordered start (start + page_size), length ordered))"

definition next_project_sequence :: "database \<Rightarrow> int \<times> database" where
  "next_project_sequence db =
     (main_sequence db, db\<lparr>main_sequence := main_sequence db + 1\<rparr>)"

definition count_open_sub_projects :: "uuid \<Rightarrow> database \<Rightarrow> nat" where
  "count_open_sub_projects main_id db =
     length (filter (\<lambda>s. sp_main_project_id s = main_id \<and> sp_status s \<notin>
        {sub_project_status.completed, sub_project_status.closed, sub_project_status.terminated})
        (sub_projects db))"

definition list_sub_projects_by_main_project :: "uuid \<Rightarrow> database \<Rightarrow> sub_project list" where
  "list_sub_projects_by_main_project main_id db =
     sort_key sp_project_no (filter (\<lambda>s. sp_main_project_id s = main_id) (sub_projects db))"

definition list_phases_by_sub_project_ids :: "uuid list \<Rightarrow> database \<Rightarrow> phase list" where
  "list_phases_by_sub_project_ids ids db =
     sort_key (\<lambda>p. (ph_sub_project_id p, ph_phase_no p))
       (filter (\<lambda>p. ph_sub_project_id p \<in> set ids) (phases db))"

subsection \<open>Checks\<close>

definition get_existing_project :: "uuid \<Rightarrow> database \<Rightarrow> py_error + main_project" where
  "get_existing_project k db =
     present (get_main_project k db) (ResourceNotFound ''Main project does not exist'')"

definition invalid_main_status :: "main_project_status \<Rightarrow> string \<Rightarrow> py_error" where
  "invalid_main_status s message =
     BusinessError 3003 message [(''status'', PStr (main_status_value s))]"

definition ensure_view_all :: "user \<Rightarrow> py_error + unit" where
  "ensure_view_all actor = guard (u_role actor \<in> view_all_project_roles) PermissionDenied"

definition format_project_no :: "env \<Rightarrow> int \<Rightarrow> string" where
  "format_project_no e sequence =
     ''Z-'' @ format_padded 1 (year (today e)) @ ''-'' @ format_padded 4 sequence"

subsection \<open>Reading\<close>

definition list_projects ::
  "user \<Rightarrow> int \<Rightarrow> int \<Rightarrow> database \<Rightarrow> py_error + (main_project list \<times> nat)" where
  "list_projects actor page page_size db =
     attempt (ensure_view_all actor) (\<lambda>_. Inr (list_main_projects page page_size db))"

definition get_project :: "user \<Rightarrow> uuid \<Rightarrow> database \<Rightarrow> py_error + main_project" where
  "get_project actor project_id db =
     attempt (ensure_view_all actor) (\<lambda>_. get_existing_project project_id db)"

text \<open>The phase definitions shown by the funnel; the Chinese labels are UTF-8 bytes.\<close>

definition main_phase_definitions :: "(int \<times> string \<times> string) list" where
  "main_phase_definitions = [
     (1, ''initiation'', [CHR 0xE7, CHR 0xAB, CHR 0x8B, CHR 0xE9, CHR 0xA1, CHR 0xB9]),
     (2, ''procurement'', [CHR 0xE9, CHR 0x87, CHR 0x87, CHR 0xE8, CHR 0xB4, CHR 0xAD]),
     (3, ''contract'', [CHR 0xE5, CHR 0x90, CHR 0x88, CHR 0xE5, CHR 0x90, CHR 0x8C]),
     (4, ''acceptance'', [CHR 0xE9, CHR 0xAA, CHR 0x8C, CHR 0xE6, CHR 0x94, CHR 0xB6]),
     (5, ''payment'', [CHR 0xE4, CHR 0xBB, CHR 0x98, CHR 0xE6, CHR 0xAC, CHR 0xBE]),
     (6, ''post_review'', [CHR 0xE5, CHR 0x90, CHR 0x8E, CHR 0xE8, CHR 0xAF, CHR 0x84,
        CHR 0xE4, CHR 0xBB, CHR 0xB7])]"

record funnel_sub_project =
  fs_id :: uuid
  fs_project_no :: string
  fs_name :: string
  fs_status :: sub_project_status
  fs_phase_status :: phase_status

record funnel_item =
  fi_phase_no :: int
  fi_code :: string
  fi_name :: string
  fi_count :: nat
  fi_sub_projects :: "funnel_sub_project list"

text \<open>\<open>indexed[sub_project_id][phase_no] = phase\<close>: a later phase replaces an earlier one.\<close>

definition index_phases_by_sub_project :: "phase list \<Rightarrow> uuid \<times> int \<Rightarrow> phase option" where
  "index_phases_by_sub_project ps =
     fold (\<lambda>p m. m((ph_sub_project_id p, ph_phase_no p) \<mapsto> p)) ps Map.empty"

definition build_funnel_item ::
  "int \<times> string \<times> string \<Rightarrow> sub_project list \<Rightarrow> (uuid \<times> int \<Rightarrow> phase option) \<Rightarrow> funnel_item" where
  "build_funnel_item definition subs index =
     (case definition of (no, code, name) \<Rightarrow>
       let drill = map (\<lambda>s. \<lparr> fs_id = sp_id s, fs_project_no = sp_project_no s,
              fs_name = sp_name s, fs_status = sp_status s,
              fs_phase_status = phase_status.in_progress \<rparr>)
            (filter (\<lambda>s. \<exists>p. index (sp_id s, no) = Some p \<and> ph_status p = phase_status.in_progress)
              subs)
       in \<lparr> fi_phase_no = no, fi_code = code, fi_name = name, fi_count = length drill,
            fi_sub_projects = drill \<rparr>)"

definition get_progress_funnel ::
  "user \<Rightarrow> uuid \<Rightarrow> database \<Rightarrow> py_error + (nat \<times> funnel_item list)" where
  "get_progress_funnel actor project_id db =
     attempt (ensure_view_all actor) (\<lambda>_.
     attempt (get_existing_project project_id db) (\<lambda>_.
     let subs = list_sub_projects_by_main_project project_id db;
         index = index_phases_by_sub_project
           (list_phases_by_sub_project_ids (map sp_id subs) db)
     in Inr (length subs, map (\<lambda>d. build_funnel_item d subs index) main_phase_definitions)))"

subsection \<open>Creating and editing\<close>

record main_project_create =
  mpc_name :: string
  mpc_dept_id :: uuid
  mpc_total_budget :: money
  mpc_expected_finish_date :: date
  mpc_remark :: "string option"

definition create_project ::
  "env \<Rightarrow> user \<Rightarrow> main_project_create \<Rightarrow> database \<Rightarrow> py_error + (main_project \<times> database)" where
  "create_project e actor payload db =
     attempt (guard (u_role actor = user_role.dept_manager) PermissionDenied) (\<lambda>_.
     let (sequence, db) = next_project_sequence db;
         (new_id, db) = uuid4 db;
         project = \<lparr> mp_id = new_id, mp_project_no = format_project_no e sequence,
           mp_name = mpc_name payload, mp_dept_id = mpc_dept_id payload,
           mp_status = main_project_status.pending_review,
           mp_total_budget = mpc_total_budget payload,
           mp_expected_finish_date = mpc_expected_finish_date payload,
           mp_spent_amount = 0, mp_remark = mpc_remark payload, mp_closed_at = None,
           mp_creator_id = Some (u_id actor), mp_project_type_id = None,
           mp_created_at = clock e, mp_updated_at = clock e \<rparr>
     in Inr (project, add_main_project project db))"

text \<open>
  An update payload: \<open>None\<close> is a field that is absent or null; \<open>remark\<close> is nullable, so
  it also says whether it is among \<open>model_fields_set\<close> (the outer option).
\<close>

record main_project_update =
  mpu_name :: "string option"
  mpu_dept_id :: "uuid option"
  mpu_total_budget :: "money option"
  mpu_expected_finish_date :: "date option"
  mpu_remark :: "string option option"

definition apply_project_update :: "main_project_update \<Rightarrow> main_project \<Rightarrow> main_project" where
  "apply_project_update u p =
     p\<lparr> mp_name := case_option (mp_name p) id (mpu_name u),
        mp_dept_id := case_option (mp_dept_id p) id (mpu_dept_id u),
        mp_total_budget := case_option (mp_total_budget p) id (mpu_total_budget u),
        mp_expected_finish_date :=
          case_option (mp_expected_finish_date p) id (mpu_expected_finish_date u),
        mp_remark := case_option (mp_remark p) id (mpu_remark u) \<rparr>"

definition update_project ::
  "user \<Rightarrow> uuid \<Rightarrow> main_project_update \<Rightarrow> database \<Rightarrow> py_error + (main_project \<times> database)" where
  "update_project actor project_id payload db =
     attempt (get_existing_project project_id db) (\<lambda>project.
     attempt (guard (mp_creator_id project = Some (u_id actor)) PermissionDenied) (\<lambda>_.
     attempt (guard (mp_status project = main_project_status.rejected)
        (invalid_main_status (mp_status project) ''Status does not allow editing'')) (\<lambda>_.
     Inr (apply_project_update payload project,
          save_main_project project_id (apply_project_update payload) db))))"

subsection \<open>Submission and review\<close>

definition submit_project ::
  "env \<Rightarrow> user \<Rightarrow> uuid \<Rightarrow> database \<Rightarrow> py_error + (main_project \<times> database)" where
  "submit_project e actor project_id db =
     attempt (get_existing_project project_id db) (\<lambda>project.
     attempt (guard (mp_creator_id project = Some (u_id actor)) PermissionDenied) (\<lambda>_.
     attempt (guard (mp_status project \<in> {main_project_status.pending_review,
          main_project_status.rejected})
        (invalid_main_status (mp_status project) ''Status does not allow submission'')) (\<lambda>_.
     let after = project\<lparr>mp_status := main_project_status.pending_review\<rparr>;
         db = save_main_project project_id
           (\<lambda>p. p\<lparr>mp_status := main_project_status.pending_review\<rparr>) db;
         receivers = list_active_user_ids_by_role user_role.dept_manager (Some (u_id actor)) None db;
         db = notify e ''project_pending_review'' receivers project_id
           [(''project_no'', PStr (mp_project_no project)), (''project_name'', PStr (mp_name project))] db
     in Inr (after, record_audit e actor ''main_project.submit'' ''main_project'' project_id
              (MainState project) (MainState after) [] db))))"

text \<open>
  The corrections a reviewer may send along: the outer option is membership in
  \<open>model_fields_set\<close>, the inner one JSON null.  Assigning null to a column that is not
  nullable makes the commit fail.
\<close>

record main_project_review_update =
  mru_name :: "string option option"
  mru_dept_id :: "uuid option option"
  mru_total_budget :: "money option option"
  mru_expected_finish_date :: "date option option"
  mru_remark :: "string option option"

definition review_field ::
  "string \<Rightarrow> ('a \<Rightarrow> pyval) \<Rightarrow> 'a option option \<Rightarrow> 'a \<Rightarrow> py_error + ('a \<times> payload)" where
  "review_field field encode new old =
     (case new of
        None \<Rightarrow> Inr (old, [])
      | Some None \<Rightarrow> Inl (IntegrityError field)
      | Some (Some v) \<Rightarrow> if v = old then Inr (old, [])
          else Inr (v, [(field, PDict [(''before'', encode old), (''after'', encode v)])]))"

definition encode_optional_text :: "string option \<Rightarrow> pyval" where
  "encode_optional_text t = case_option PNone PStr t"

definition apply_review_updates ::
  "main_project_review_update option \<Rightarrow> main_project \<Rightarrow> py_error + (main_project \<times> payload)" where
  "apply_review_updates updates p =
     (case updates of None \<Rightarrow> Inr (p, [])
      | Some u \<Rightarrow>
        attempt (review_field ''name'' PStr (mru_name u) (mp_name p)) (\<lambda>(name, m1).
        attempt (review_field ''dept_id'' PUuid (mru_dept_id u) (mp_dept_id p)) (\<lambda>(dept, m2).
        attempt (review_field ''total_budget'' PMoney (mru_total_budget u) (mp_total_budget p))
          (\<lambda>(budget, m3).
        attempt (review_field ''expected_finish_date'' PDate (mru_expected_finish_date u)
          (mp_expected_finish_date p)) (\<lambda>(finish, m4).
        attempt (review_field ''remark'' encode_optional_text (map_option Some (mru_remark u))
          (mp_remark p)) (\<lambda>(remark, m5).
        Inr (p\<lparr> mp_name := name, mp_dept_id := dept, mp_total_budget := budget,
                mp_expected_finish_date := finish, mp_remark := remark \<rparr>,
             m1 @ m2 @ m3 @ m4 @ m5)))))))"

record main_review_request =
  mrr_decision :: project_review_decision
  mrr_review_comment :: "string option"
  mrr_updates :: "main_project_review_update option"

definition review_project ::
  "env \<Rightarrow> user \<Rightarrow> uuid \<Rightarrow> main_review_request \<Rightarrow> database
     \<Rightarrow> py_error + (main_project \<times> database)" where
  "review_project e actor project_id payload db =
     attempt (guard (u_role actor \<in> {user_role.admin, user_role.dept_manager}) PermissionDenied) (\<lambda>_.
     attempt (get_existing_project project_id db) (\<lambda>project.
     attempt (guard (\<not> (mp_creator_id project = Some (u_id actor) \<and> u_role actor \<noteq> user_role.admin \<and>
          list_active_user_ids_by_role user_role.dept_manager (Some (u_id actor)) None db \<noteq> []))
        SelfReviewDenied) (\<lambda>_.
     attempt (guard (mp_status project = main_project_status.pending_review)
        (invalid_main_status (mp_status project) ''Status does not allow review'')) (\<lambda>_.
     attempt (apply_review_updates (mrr_updates payload) project) (\<lambda>(edited, modified).
     let new_status = (if mrr_decision payload = project_review_decision.approve
            then main_project_status.not_started else main_project_status.rejected);
         after = edited\<lparr>mp_status := new_status\<rparr>;
         db = save_main_project project_id (\<lambda>_. after) db;
         (review_id, db) = uuid4 db;
         db = add_review \<lparr> rev_id = review_id, rev_main_project_id = Some project_id,
           rev_sub_project_id = None, rev_reviewer_id = u_id actor,
           rev_decision = mrr_decision payload, rev_from_status = mp_status project,
           rev_to_status = new_status, rev_comment = mrr_review_comment payload,
           rev_modified_fields = modified, rev_admin_override = (u_role actor = user_role.admin),
           rev_reviewed_at = clock e \<rparr> db;
         db = (case mp_creator_id after of None \<Rightarrow> db
           | Some creator \<Rightarrow> notify e ''project_review_result'' [creator] project_id
               [(''project_no'', PStr (mp_project_no after)), (''project_name'', PStr (mp_name after)),
                (''decision'', PStr (decision_value (mrr_decision payload))),
                (''review_comment'', encode_optional_text (mrr_review_comment payload))] db)
     in Inr (after, record_audit e actor ''main_project.review'' ''main_project'' project_id
              (MainState project) (MainState after)
              [(''admin_override'', PBool (u_role actor = user_role.admin)),
               (''decision'', PStr (decision_value (mrr_decision payload))),
               (''modified_fields'', PDict modified)] db))))))"

subsection \<open>Closing\<close>

definition close_project ::
  "env \<Rightarrow> user \<Rightarrow> uuid \<Rightarrow> database \<Rightarrow> py_error + (main_project \<times> database)" where
  "close_project e actor project_id db =
     attempt (guard (u_role actor = user_role.dept_manager) PermissionDenied) (\<lambda>_.
     attempt (get_existing_project project_id db) (\<lambda>project.
     if mp_status project = main_project_status.closed
     then (if mp_closed_at project = None
           then Inr (project\<lparr>mp_closed_at := Some (clock e)\<rparr>,
                     save_main_project project_id (\<lambda>p. p\<lparr>mp_closed_at := Some (clock e)\<rparr>) db)
           else Inr (project, db))
     else
       attempt (guard (mp_status project \<in> {main_project_status.not_started,
            main_project_status.in_progress})
          (invalid_main_status (mp_status project) ''Status does not allow closing'')) (\<lambda>_.
       attempt (guard (count_open_sub_projects project_id db = 0)
          (BusinessError 3003 ''Open sub projects remain''
             [(''open_sub_project_count'', PInt (int (count_open_sub_projects project_id db)))])) (\<lambda>_.
       let close = (\<lambda>p. p\<lparr>mp_status := main_project_status.closed,
              mp_closed_at := Some (clock e), mp_updated_at := clock e\<rparr>)
       in Inr (close project, save_main_project project_id close db)))))"

subsection \<open>Write sets\<close>

lemma next_project_sequence_evolves [evolve_rules]:
  "MainSequence \<in> W \<Longrightarrow> evolves W a db \<Longrightarrow>
     evolves W a (snd (next_project_sequence db))"
  by (simp add: next_project_sequence_def evolves_def writes_iff)

lemma create_project_writes:
  "yields (evolves {Mains, MainSequence} db) (create_project e actor payload db)"
  unfolding create_project_def
  by (assumption | rule yields_rules evolve_rules | (simp; fail))+

lemma update_project_writes:
  "yields (evolves {Mains} db) (update_project actor k payload db)"
  unfolding update_project_def
  by (assumption | rule yields_rules evolve_rules | (simp; fail))+

lemma submit_project_writes:
  "yields (evolves {Mains, Notifications, Outbox, Audit} db) (submit_project e actor k db)"
  unfolding submit_project_def
  by (assumption | rule yields_rules evolve_rules | (simp; fail))+

lemma review_project_writes:
  "yields (evolves {Mains, Reviews, Notifications, Outbox, Audit} db) (review_project e actor k payload db)"
  unfolding review_project_def
  by (assumption | rule yields_rules evolve_rules | (simp; fail))+

lemma close_project_writes:
  "yields (evolves {Mains, Audit} db) (close_project e actor k db)"
  unfolding close_project_def
  by (assumption | rule yields_rules evolve_rules | (simp; fail))+

subsection \<open>Effects\<close>

text \<open>
  What each operation does to the tables, as facts about the tables after a successful call.
\<close>

lemma create_project_effect:
  assumes "create_project e actor payload db = Inr (r, db')"
  shows "main_projects db' = main_projects db @ [r] \<and> mp_id r = next_uuid db \<and>
    next_uuid db' = Suc (next_uuid db) \<and> mp_spent_amount r = 0 \<and>
    mp_status r = main_project_status.pending_review \<and>
    mp_project_no r = format_project_no e (main_sequence db) \<and>
    main_sequence db' = main_sequence db + 1"
  using assms unfolding create_project_def next_project_sequence_def
  by (elim result_elims) (simp add: repository_defs)

lemma update_project_effect:
  assumes "update_project actor k payload db = Inr (r, db')"
  shows "\<exists>p. get_main_project k db = Some p \<and> mp_status p = main_project_status.rejected \<and>
    mp_creator_id p = Some (u_id actor) \<and>
    main_projects db' = update_rows mp_id k (apply_project_update payload) (main_projects db)"
  using assms unfolding update_project_def get_existing_project_def
  by (elim result_elims) (simp add: repository_defs)

lemma submit_project_effect:
  assumes "submit_project e actor k db = Inr (r, db')"
  shows "\<exists>p. get_main_project k db = Some p \<and>
    mp_status p \<in> {main_project_status.pending_review, main_project_status.rejected} \<and>
    main_projects db' = update_rows mp_id k
      (\<lambda>p. p\<lparr>mp_status := main_project_status.pending_review\<rparr>) (main_projects db)"
  using assms unfolding submit_project_def get_existing_project_def
  by (elim result_elims) (simp (no_asm_simp) add: repository_defs, fast)

lemma apply_review_updates_keeps:
  assumes "apply_review_updates us p = Inr (q, m)"
  shows "mp_id q = mp_id p \<and> mp_spent_amount q = mp_spent_amount p \<and>
    mp_project_no q = mp_project_no p \<and> mp_status q = mp_status p"
  using assms unfolding apply_review_updates_def
  by (cases us) (auto elim!: result_elims)

lemma review_project_effect:
  assumes "review_project e actor k payload db = Inr (r, db')"
  shows "\<exists>p. get_main_project k db = Some p \<and> mp_status p = main_project_status.pending_review \<and>
    main_projects db' = update_rows mp_id k (\<lambda>_. r) (main_projects db) \<and>
    mp_id r = mp_id p \<and> mp_spent_amount r = mp_spent_amount p \<and>
    mp_project_no r = mp_project_no p \<and>
    mp_status r = (if mrr_decision payload = project_review_decision.approve
      then main_project_status.not_started else main_project_status.rejected)"
  using assms unfolding review_project_def get_existing_project_def
  by (elim result_elims)
    (rule exI, intro conjI, assumption, assumption,
     simp_all (no_asm_simp) add: repository_defs apply_review_updates_keeps split: option.split)

lemma close_project_effect:
  assumes "close_project e actor k db = Inr (r, db')"
  shows "\<exists>p. get_main_project k db = Some p \<and> u_role actor = user_role.dept_manager \<and>
    (if mp_status p = main_project_status.closed
     then main_projects db' = main_projects db \<or> main_projects db' =
       update_rows mp_id k (\<lambda>p. p\<lparr>mp_closed_at := Some (clock e)\<rparr>) (main_projects db)
     else mp_status p \<in> {main_project_status.not_started, main_project_status.in_progress} \<and>
       count_open_sub_projects k db = 0 \<and>
       main_projects db' = update_rows mp_id k (\<lambda>p. p\<lparr>mp_status := main_project_status.closed,
         mp_closed_at := Some (clock e), mp_updated_at := clock e\<rparr>) (main_projects db))"
  using assms unfolding close_project_def get_existing_project_def
  by (elim result_elims) (auto simp: repository_defs)

end
