(* ===== verification/SubProjects.thy ===== *)
theory SubProjects
  imports MainProjects
begin

text \<open>
  Sub projects (\<open>app/services/sub_projects.py\<close>): membership, handover of the manager,
  creation under an open main project, editing after a rejection, submission, review with
  the over-budget confirmation and the creation of the phases, closing and termination.
\<close>

subsection \<open>Constants\<close>

definition open_main_project_statuses :: "main_project_status set" where
  "open_main_project_statuses = {main_project_status.not_started, main_project_status.in_progress}"

definition approved_sub_project_statuses :: "sub_project_status set" where
  "approved_sub_project_statuses = {sub_project_status.not_started, sub_project_status.in_progress,
     sub_project_status.completed, sub_project_status.closed}"

definition active_handover_statuses :: "sub_project_status set" where
  "active_handover_statuses = {sub_project_status.not_started, sub_project_status.in_progress,
     sub_project_status.completed}"

definition locked_member_change_statuses :: "sub_project_status set" where
  "locked_member_change_statuses = {sub_project_status.completed, sub_project_status.closed,
     sub_project_status.terminated}"

definition view_all_sub_project_roles :: "user_role set" where
  "view_all_sub_project_roles = {user_role.admin, user_role.dept_manager,
     user_role.finance_manager, user_role.proj_leader, user_role.proj_member}"

subsection \<open>Repository\<close>

definition has_member :: "uuid \<Rightarrow> uuid \<Rightarrow> database \<Rightarrow> bool" where
  "has_member sid uid db =
     (\<exists>m \<in> set (members db). mem_sub_project_id m = sid \<and> mem_user_id m = uid)"

definition repo_list_sub_projects ::
  "user \<Rightarrow> int \<Rightarrow> int \<Rightarrow> database \<Rightarrow> sub_project list \<times> nat" where
  "repo_list_sub_projects actor page page_size db =
     (let filtered = (if u_role actor \<in> view_all_sub_project_roles then sub_projects db
            else filter (\<lambda>s. sp_manager_id s = u_id actor \<or> has_member (sp_id s) (u_id actor) db)
              (sub_projects db));
          ordered = sorted_desc sp_created_at filtered;
          start = (page - 1) * page_size
      in (py_slice ordered start (start + page_size), length ordered))"

definition list_members :: "uuid \<Rightarrow> database \<Rightarrow> sub_project_member list" where
  "list_members sid db =
     sort_key (\<lambda>m. (member_role_value (mem_role m), mem_joined_at m))
       (filter (\<lambda>m. mem_sub_project_id m = sid) (members db))"

definition repo_list_active_for_leader :: "uuid \<Rightarrow> database \<Rightarrow> sub_project list" where
  "repo_list_active_for_leader uid db =
     sorted_desc sp_created_at (filter (\<lambda>s. sp_manager_id s = uid
        \<and> sp_status s \<in> active_handover_statuses) (sub_projects db))"

definition repo_list_handovers ::
  "int \<Rightarrow> int \<Rightarrow> uuid option \<Rightarrow> uuid option \<Rightarrow> uuid option \<Rightarrow> database
     \<Rightarrow> sub_project_handover list \<times> nat" where
  "repo_list_handovers page page_size sid from_id to_id db =
     (let filtered = filter (\<lambda>h. (sid = None \<or> sid = Some (ho_sub_project_id h))
             \<and> (from_id = None \<or> from_id = Some (ho_from_user_id h))
             \<and> (to_id = None \<or> to_id = Some (ho_to_user_id h))) (handovers db);
          ordered = sorted_desc ho_operated_at filtered;
          start = (page - 1) * page_size
      in (py_slice ordered start (start + page_size), length ordered))"

definition next_sub_project_sequence :: "uuid \<Rightarrow> database \<Rightarrow> int \<times> database" where
  "next_sub_project_sequence main_id db =
     (let sequence = (case sub_sequences db main_id of None \<Rightarrow> 1 | Some n \<Rightarrow> n)
      in (sequence, db\<lparr>sub_sequences := (sub_sequences db)(main_id \<mapsto> sequence + 1)\<rparr>))"

definition sum_approved_budget :: "uuid \<Rightarrow> uuid \<Rightarrow> database \<Rightarrow> money" where
  "sum_approved_budget main_id excluding db =
     sum_list (map sp_budget (filter (\<lambda>s. sp_main_project_id s = main_id \<and> sp_id s \<noteq> excluding
        \<and> sp_status s \<in> approved_sub_project_statuses) (sub_projects db)))"

definition phase_completion_counts :: "uuid \<Rightarrow> database \<Rightarrow> nat \<times> nat" where
  "phase_completion_counts sid db =
     (let ps = filter (\<lambda>p. ph_sub_project_id p = sid) (phases db)
      in (length ps, length (filter (\<lambda>p. ph_status p \<noteq> phase_status.completed) ps)))"

text \<open>
  \<open>version.template\<close> is the template the version's foreign key names; the newest published
  version comes first: the greatest publication time, then version number, then name.
\<close>

definition get_default_workflow_version :: "uuid \<Rightarrow> database \<Rightarrow> workflow_version option" where
  "get_default_workflow_version type_id db =
     (let template_of = (\<lambda>v. find_row wt_id (wv_template_id v) (workflow_templates db));
          candidates = filter (\<lambda>v. wv_status v = workflow_status.published \<and>
             (case template_of v of None \<Rightarrow> False
              | Some t \<Rightarrow> wt_status t = workflow_status.published \<and> wt_project_type_id t = type_id))
             (workflow_versions db);
          ordered = sorted_desc (\<lambda>v.
             (case wv_published_at v of None \<Rightarrow> (False, 0) | Some t \<Rightarrow> (True, t),
              wv_version_no v,
              case template_of v of None \<Rightarrow> [] | Some t \<Rightarrow> wt_name t)) candidates
      in (case ordered of [] \<Rightarrow> None | v # _ \<Rightarrow> Some v))"

subsection \<open>Checks\<close>

definition get_existing_sub_project :: "uuid \<Rightarrow> database \<Rightarrow> py_error + sub_project" where
  "get_existing_sub_project k db =
     present (get_sub_project k db) (ResourceNotFound ''Sub project does not exist'')"

definition invalid_sub_status :: "string \<Rightarrow> string \<Rightarrow> py_error" where
  "invalid_sub_status status message = BusinessError 3003 message [(''status'', PStr status)]"

definition ensure_visible :: "user_role set \<Rightarrow> user \<Rightarrow> sub_project \<Rightarrow> database \<Rightarrow> py_error + unit" where
  "ensure_visible view_all_roles actor s db =
     (if u_role actor \<in> view_all_roles \<or> sp_manager_id s = u_id actor then Inr ()
      else guard (get_member (sp_id s) (u_id actor) db \<noteq> None) PermissionDenied)"

definition ensure_project_leader :: "user \<Rightarrow> sub_project \<Rightarrow> py_error + unit" where
  "ensure_project_leader actor s =
     guard (u_role actor = user_role.proj_leader \<and> sp_manager_id s = u_id actor) PermissionDenied"

definition ensure_member_changes_allowed :: "sub_project \<Rightarrow> py_error + unit" where
  "ensure_member_changes_allowed s =
     guard (sp_status s \<notin> locked_member_change_statuses)
       (invalid_sub_status (sub_status_value (sp_status s)) ''Members of a finished sub project are locked'')"

subsection \<open>Reading\<close>

definition list_sub_projects :: "user \<Rightarrow> int \<Rightarrow> int \<Rightarrow> database \<Rightarrow> sub_project list \<times> nat" where
  "list_sub_projects actor page page_size db = repo_list_sub_projects actor page page_size db"

definition get_sub_project_for :: "user \<Rightarrow> uuid \<Rightarrow> database \<Rightarrow> py_error + sub_project" where
  "get_sub_project_for actor sid db =
     attempt (get_existing_sub_project sid db) (\<lambda>s.
     attempt (ensure_visible view_all_sub_project_roles actor s db) (\<lambda>_. Inr s))"

definition list_sub_project_members ::
  "user \<Rightarrow> uuid \<Rightarrow> database \<Rightarrow> py_error + sub_project_member list" where
  "list_sub_project_members actor sid db =
     attempt (get_existing_sub_project sid db) (\<lambda>s.
     attempt (ensure_visible view_all_sub_project_roles actor s db) (\<lambda>_.
     Inr (list_members (sp_id s) db)))"

definition list_active_sub_projects_for_leader ::
  "user \<Rightarrow> uuid \<Rightarrow> database \<Rightarrow> py_error + sub_project list" where
  "list_active_sub_projects_for_leader actor uid db =
     attempt (guard (u_role actor = user_role.admin) PermissionDenied) (\<lambda>_.
     Inr (repo_list_active_for_leader uid db))"

definition list_sub_project_handovers ::
  "user \<Rightarrow> int \<Rightarrow> int \<Rightarrow> uuid option \<Rightarrow> uuid option \<Rightarrow> uuid option \<Rightarrow> database
     \<Rightarrow> py_error + (sub_project_handover list \<times> nat)" where
  "list_sub_project_handovers actor page page_size sid from_id to_id db =
     attempt (guard (u_role actor = user_role.admin) PermissionDenied) (\<lambda>_.
     Inr (repo_list_handovers page page_size sid from_id to_id db))"

subsection \<open>Members\<close>

definition record_member_audit ::
  "env \<Rightarrow> user \<Rightarrow> string \<Rightarrow> sub_project_member \<Rightarrow> audit_state \<Rightarrow> audit_state \<Rightarrow> database \<Rightarrow> database" where
  "record_member_audit e actor action member old_state new_state db =
     record_audit e actor action ''sub_project_member'' (mem_id member) old_state new_state
       [(''sub_project_id'', PUuid (mem_sub_project_id member))] db"

definition add_sub_project_member ::
  "env \<Rightarrow> user \<Rightarrow> uuid \<Rightarrow> uuid \<Rightarrow> database \<Rightarrow> py_error + (sub_project_member \<times> database)" where
  "add_sub_project_member e actor sid uid db =
     attempt (get_existing_sub_project sid db) (\<lambda>s.
     attempt (ensure_project_leader actor s) (\<lambda>_.
     attempt (ensure_member_changes_allowed s) (\<lambda>_.
     attempt (present (get_user uid db) (ResourceNotFound ''User does not exist'')) (\<lambda>u.
     attempt (guard (u_status u = user_status.active \<and> u_role u = user_role.proj_member)
        (BusinessError 3003 ''Only active project members can be added''
           [(''status'', PStr (user_status_value (u_status u))),
            (''role'', PStr (role_value (u_role u)))])) (\<lambda>_.
     attempt (guard (get_member (sp_id s) uid db = None)
        (ResourceConflict ''Member already exists'')) (\<lambda>_.
     let (new_id, db) = uuid4 db;
         member = \<lparr> mem_id = new_id, mem_sub_project_id = sp_id s, mem_user_id = uid,
           mem_role = member_role.proj_member, mem_joined_at = clock e, mem_updated_at = clock e \<rparr>;
         db = add_member member db
     in Inr (member, record_member_audit e actor ''sub_project_member.add'' member NoState
              (MemberState member) db)))))))"

definition remove_sub_project_member ::
  "env \<Rightarrow> user \<Rightarrow> uuid \<Rightarrow> uuid \<Rightarrow> database \<Rightarrow> py_error + (sub_project_member \<times> database)" where
  "remove_sub_project_member e actor sid uid db =
     attempt (get_existing_sub_project sid db) (\<lambda>s.
     attempt (ensure_project_leader actor s) (\<lambda>_.
     attempt (ensure_member_changes_allowed s) (\<lambda>_.
     attempt (present (get_member (sp_id s) uid db)
        (ResourceNotFound ''Membership does not exist'')) (\<lambda>member.
     attempt (guard (\<not> (mem_user_id member = u_id actor \<or> mem_role member = member_role.proj_leader))
        (BusinessError 3003 ''The sub project leader cannot be removed''
           [(''user_id'', PUuid uid)])) (\<lambda>_.
     let db = delete_member member db
     in Inr (member, record_member_audit e actor ''sub_project_member.remove'' member
              (MemberState member) NoState db))))))"

subsection \<open>Handover by an administrator\<close>

definition upsert_handover_members ::
  "env \<Rightarrow> uuid \<Rightarrow> uuid \<Rightarrow> uuid \<Rightarrow> database \<Rightarrow> database" where
  "upsert_handover_members e sid old_manager new_manager db =
     (let db = (case get_member sid old_manager db of None \<Rightarrow> db
            | Some m \<Rightarrow> save_member (mem_id m) (\<lambda>r. r\<lparr>mem_role := member_role.proj_member\<rparr>) db)
      in case get_member sid new_manager db of
           Some m \<Rightarrow> save_member (mem_id m) (\<lambda>r. r\<lparr>mem_role := member_role.proj_leader\<rparr>) db
         | None \<Rightarrow>
            (let (new_id, db) = uuid4 db in
             add_member \<lparr> mem_id = new_id, mem_sub_project_id = sid, mem_user_id = new_manager,
               mem_role = member_role.proj_leader, mem_joined_at = clock e,
               mem_updated_at = clock e \<rparr> db))"

definition active_member_ids :: "uuid \<Rightarrow> database \<Rightarrow> uuid list" where
  "active_member_ids sid db =
     map mem_user_id (filter (\<lambda>m. case get_user (mem_user_id m) db of None \<Rightarrow> False
        | Some u \<Rightarrow> u_status u \<noteq> user_status.disabled) (list_members sid db))"

definition handover_sub_project ::
  "env \<Rightarrow> user \<Rightarrow> uuid \<Rightarrow> uuid \<Rightarrow> string \<Rightarrow> uuid option \<Rightarrow> database
     \<Rightarrow> py_error + (sub_project \<times> database)" where
  "handover_sub_project e actor sid to_user_id reason expected_from db =
     attempt (guard (u_role actor = user_role.admin) PermissionDenied) (\<lambda>_.
     attempt (get_existing_sub_project sid db) (\<lambda>s.
     attempt (guard (sp_status s \<in> active_handover_statuses)
        (invalid_sub_status (sub_status_value (sp_status s)) ''Status does not allow handover'')) (\<lambda>_.
     attempt (guard (\<not> (expected_from \<noteq> None \<and> expected_from \<noteq> Some (sp_manager_id s)))
        (BusinessError 3003 ''Current manager does not match''
           [(''sub_project_id'', PUuid sid),
            (''expected_from_user_id'', case_option PNone PUuid expected_from),
            (''actual_manager_id'', PUuid (sp_manager_id s))])) (\<lambda>_.
     attempt (guard (to_user_id \<noteq> sp_manager_id s)
        (BusinessError 3003 ''New manager is the current manager''
           [(''to_user_id'', PUuid to_user_id)])) (\<lambda>_.
     attempt (present (get_user to_user_id db) (ResourceNotFound ''New manager does not exist'')) (\<lambda>to_user.
     attempt (guard (u_role to_user = user_role.proj_leader \<and> u_status to_user = user_status.active)
        (BusinessError 3003 ''New manager must be an active project leader''
           [(''status'', PStr (user_status_value (u_status to_user))),
            (''role'', PStr (role_value (u_role to_user)))])) (\<lambda>_.
     let from_user = get_user (sp_manager_id s) db;
         old_manager = sp_manager_id s;
         after = s\<lparr>sp_manager_id := u_id to_user\<rparr>;
         db = save_sub_project sid (\<lambda>r. r\<lparr>sp_manager_id := u_id to_user\<rparr>) db;
         db = upsert_handover_members e sid old_manager (u_id to_user) db;
         (handover_id, db) = uuid4 db;
         db = add_handover \<lparr> ho_id = handover_id, ho_sub_project_id = sid,
           ho_from_user_id = old_manager, ho_to_user_id = u_id to_user, ho_reason = reason,
           ho_operator_id = u_id actor, ho_operated_at = clock e \<rparr> db;
         receivers = (case from_user of
             Some f \<Rightarrow> if u_status f \<noteq> user_status.disabled then [u_id f] else [] | None \<Rightarrow> [])
           @ u_id to_user # active_member_ids sid db;
         change = [(''from_user_id'', PUuid old_manager), (''to_user_id'', PUuid (u_id to_user)),
           (''reason'', PStr reason)];
         db = notify e ''handover_completed'' receivers sid
           ([(''project_no'', PStr (sp_project_no s)), (''project_name'', PStr (sp_name s))] @ change) db
     in Inr (after, record_audit e actor ''sub_project.handover'' ''sub_project'' sid
              (SubState s) (SubState after) change db))))))))"

record batch_handover_item =
  bhi_sub_project_id :: uuid
  bhi_to_user_id :: uuid
  bhi_reason :: string

text \<open>
  The batch commits each handover before it starts the next: an error leaves the earlier
  ones in the database, so the database is returned beside the result.
\<close>

fun batch_handover_items ::
  "env \<Rightarrow> user \<Rightarrow> uuid \<Rightarrow> batch_handover_item list \<Rightarrow> database
     \<Rightarrow> (py_error + sub_project list) \<times> database" where
  "batch_handover_items e actor from_id [] db = (Inr [], db)"
| "batch_handover_items e actor from_id (item # items) db =
     (case handover_sub_project e actor (bhi_sub_project_id item) (bhi_to_user_id item)
        (bhi_reason item) (Some from_id) db of
        Inl err \<Rightarrow> (Inl err, db)
      | Inr (s, db1) \<Rightarrow>
          (case batch_handover_items e actor from_id items db1 of
             (Inl err, db2) \<Rightarrow> (Inl err, db2)
           | (Inr ss, db2) \<Rightarrow> (Inr (s # ss), db2)))"

definition batch_handover_sub_projects ::
  "env \<Rightarrow> user \<Rightarrow> uuid \<Rightarrow> batch_handover_item list \<Rightarrow> database
     \<Rightarrow> (py_error + sub_project list) \<times> database" where
  "batch_handover_sub_projects e actor from_id items db =
     (if u_role actor \<noteq> user_role.admin then (Inl PermissionDenied, db)
      else batch_handover_items e actor from_id items db)"

subsection \<open>Creating and editing\<close>

record sub_project_create =
  spc_name :: string
  spc_main_project_id :: uuid
  spc_dept_id :: uuid
  spc_budget :: money
  spc_plan_end_date :: "date option"
  spc_workflow_version_id :: "uuid option"
  spc_remark :: "string option"

definition choose_workflow_version ::
  "sub_project_create \<Rightarrow> main_project \<Rightarrow> database \<Rightarrow> py_error + uuid option" where
  "choose_workflow_version payload main db =
     (case spc_workflow_version_id payload of
        Some vid \<Rightarrow>
          attempt (present (get_workflow_version vid db)
             (ResourceNotFound ''Workflow version does not exist'')) (\<lambda>v.
          attempt (guard (wv_status v = workflow_status.published)
             (ResourceConflict ''Workflow version is not published'')) (\<lambda>_. Inr (Some vid)))
      | None \<Rightarrow>
          (case mp_project_type_id main of
             None \<Rightarrow> Inr None
           | Some type_id \<Rightarrow>
               attempt (present (get_default_workflow_version type_id db)
                 (ResourceNotFound ''Project type has no published workflow version''))
                 (\<lambda>v. Inr (Some (wv_id v)))))"

definition format_sub_project_no :: "string \<Rightarrow> int \<Rightarrow> string" where
  "format_sub_project_no main_no sequence = main_no @ ''-ZX-'' @ format_padded 3 sequence"

definition create_sub_project ::
  "env \<Rightarrow> user \<Rightarrow> sub_project_create \<Rightarrow> database \<Rightarrow> py_error + (sub_project \<times> database)" where
  "create_sub_project e actor payload db =
     attempt (get_existing_project (spc_main_project_id payload) db) (\<lambda>main.
     attempt (guard (mp_status main \<in> open_main_project_statuses)
        (invalid_sub_status (main_status_value (mp_status main))
           ''Main project status does not allow sub projects'')) (\<lambda>_.
     attempt (choose_workflow_version payload main db) (\<lambda>version_id.
     let (sequence, db) = next_sub_project_sequence (mp_id main) db;
         (new_id, db) = uuid4 db;
         s = \<lparr> sp_id = new_id, sp_project_no = format_sub_project_no (mp_project_no main) sequence,
           sp_name = spc_name payload, sp_main_project_id = mp_id main,
           sp_dept_id = spc_dept_id payload, sp_budget = spc_budget payload,
           sp_manager_id = u_id actor, sp_creator_id = Some (u_id actor),
           sp_status = sub_project_status.pending_review,
           sp_plan_end_date = spc_plan_end_date payload, sp_actual_end_date = None,
           sp_spent_amount = 0, sp_remark = spc_remark payload, sp_closed_at = None,
           sp_workflow_version_id = version_id, sp_created_at = clock e, sp_updated_at = clock e \<rparr>;
         db = add_sub_project s db;
         (member_id, db) = uuid4 db;
         db = add_member \<lparr> mem_id = member_id, mem_sub_project_id = new_id,
           mem_user_id = u_id actor, mem_role = member_role.proj_leader,
           mem_joined_at = clock e, mem_updated_at = clock e \<rparr> db
     in Inr (s, db))))"

record sub_project_update =
  spu_name :: "string option"
  spu_dept_id :: "uuid option"
  spu_budget :: "money option"
  spu_plan_end_date :: "date option option"
  spu_remark :: "string option option"

definition apply_sub_project_update :: "sub_project_update \<Rightarrow> sub_project \<Rightarrow> sub_project" where
  "apply_sub_project_update u s =
     s\<lparr> sp_name := case_option (sp_name s) id (spu_name u),
        sp_dept_id := case_option (sp_dept_id s) id (spu_dept_id u),
        sp_budget := case_option (sp_budget s) id (spu_budget u),
        sp_plan_end_date := case_option (sp_plan_end_date s) id (spu_plan_end_date u),
        sp_remark := case_option (sp_remark s) id (spu_remark u) \<rparr>"

definition update_sub_project ::
  "user \<Rightarrow> uuid \<Rightarrow> sub_project_update \<Rightarrow> database \<Rightarrow> py_error + (sub_project \<times> database)" where
  "update_sub_project actor sid payload db =
     attempt (get_existing_sub_project sid db) (\<lambda>s.
     attempt (guard (sp_creator_id s = Some (u_id actor)) PermissionDenied) (\<lambda>_.
     attempt (guard (sp_status s = sub_project_status.rejected)
        (invalid_sub_status (sub_status_value (sp_status s)) ''Status does not allow editing'')) (\<lambda>_.
     Inr (apply_sub_project_update payload s,
          save_sub_project sid (apply_sub_project_update payload) db))))"

definition submit_sub_project ::
  "env \<Rightarrow> user \<Rightarrow> uuid \<Rightarrow> database \<Rightarrow> py_error + (sub_project \<times> database)" where
  "submit_sub_project e actor sid db =
     attempt (get_existing_sub_project sid db) (\<lambda>s.
     attempt (guard (sp_creator_id s = Some (u_id actor)) PermissionDenied) (\<lambda>_.
     attempt (guard (sp_status s \<in> {sub_project_status.pending_review, sub_project_status.rejected})
        (invalid_sub_status (sub_status_value (sp_status s)) ''Status does not allow submission'')) (\<lambda>_.
     let after = s\<lparr>sp_status := sub_project_status.pending_review\<rparr>;
         db = save_sub_project sid (\<lambda>r. r\<lparr>sp_status := sub_project_status.pending_review\<rparr>) db;
         receivers = list_active_user_ids_by_role user_role.dept_manager None None db;
         db = notify e ''project_pending_review'' receivers sid
           [(''project_no'', PStr (sp_project_no s)), (''project_name'', PStr (sp_name s))] db
     in Inr (after, record_audit e actor ''sub_project.submit'' ''sub_project'' sid
              (SubState s) (SubState after) [] db))))"

subsection \<open>Review\<close>

record sub_review_request =
  srr_decision :: project_review_decision
  srr_review_comment :: "string option"
  srr_confirm_over_budget :: bool
  srr_over_budget_reason :: "string option"

text \<open>
  The over-budget check of an approval: \<open>None\<close> when the approved budgets fit, the error data
  when they do not and the reviewer has confirmed with a reason (an empty one does not count).
\<close>

definition validate_over_budget ::
  "main_project \<Rightarrow> sub_project \<Rightarrow> sub_review_request \<Rightarrow> database \<Rightarrow> py_error + payload option" where
  "validate_over_budget main s payload db =
     (if srr_decision payload \<noteq> project_review_decision.approve then Inr None
      else
        let current = sum_approved_budget (mp_id main) (sp_id s) db;
            new_total = current + sp_budget s
        in if new_total \<le> mp_total_budget main then Inr None
           else
             let data = [(''budget'', PMoney (mp_total_budget main)),
                    (''current_allocated'', PMoney current), (''this_amount'', PMoney (sp_budget s)),
                    (''over_budget_amount'', PMoney (new_total - mp_total_budget main))]
             in if srr_confirm_over_budget payload \<and>
                   srr_over_budget_reason payload \<notin> {None, Some []} then Inr (Some data)
                else Inl (BusinessError 3001 ''Sub project budgets exceed the main project budget'' data))"

definition parallel_phase_nos :: "int set" where
  "parallel_phase_nos = {1, 5, 6}"

definition new_phase :: "env \<Rightarrow> uuid \<Rightarrow> int \<Rightarrow> string \<Rightarrow> string \<Rightarrow> uuid \<Rightarrow> phase" where
  "new_phase e sid no code name new_id =
     \<lparr> ph_id = new_id, ph_sub_project_id = sid, ph_phase_no = no, ph_code = code, ph_name = name,
       ph_status = (if no \<in> parallel_phase_nos then phase_status.in_progress else phase_status.waiting),
       ph_enter_at = (if no \<in> parallel_phase_nos then Some (clock e) else None),
       ph_finish_at = None, ph_procurement_type = None,
       ph_created_at = clock e, ph_updated_at = clock e \<rparr>"

fun create_phases :: "env \<Rightarrow> uuid \<Rightarrow> (int \<times> string \<times> string) list \<Rightarrow> database \<Rightarrow> database" where
  "create_phases e sid [] db = db"
| "create_phases e sid ((no, code, name) # ds) db =
     (let (new_id, db) = uuid4 db in
      create_phases e sid ds (add_phase (new_phase e sid no code name new_id) db))"

definition default_phases :: "(int \<times> string \<times> string) list" where
  "default_phases = main_phase_definitions"

definition create_default_phases :: "env \<Rightarrow> uuid \<Rightarrow> database \<Rightarrow> database" where
  "create_default_phases e sid db = create_phases e sid default_phases db"

definition create_phases_for_sub_project :: "env \<Rightarrow> sub_project \<Rightarrow> database \<Rightarrow> database" where
  "create_phases_for_sub_project e s db =
     (case sp_workflow_version_id s of
        None \<Rightarrow> create_default_phases e (sp_id s) db
      | Some vid \<Rightarrow>
          (case get_workflow_version vid db of
             None \<Rightarrow> create_default_phases e (sp_id s) db
           | Some v \<Rightarrow>
               if wv_phase_definitions v = [] then create_default_phases e (sp_id s) db
               else create_phases e (sp_id s)
                 (map (\<lambda>d. (pd_order d, pd_key d, pd_name d))
                    (sort_key pd_order (wv_phase_definitions v))) db))"

text \<open>The first approved sub project puts its main project in progress.\<close>

definition start_main_project :: "env \<Rightarrow> main_project \<Rightarrow> database \<Rightarrow> database" where
  "start_main_project e main db =
     (if mp_status main = main_project_status.not_started
      then save_main_project (mp_id main) (\<lambda>p. p\<lparr>mp_status := main_project_status.in_progress,
             mp_updated_at := clock e\<rparr>) db
      else db)"

definition review_sub_project ::
  "env \<Rightarrow> user \<Rightarrow> uuid \<Rightarrow> sub_review_request \<Rightarrow> database
     \<Rightarrow> py_error + (sub_project \<times> database)" where
  "review_sub_project e actor sid payload db =
     attempt (guard (u_role actor \<in> {user_role.admin, user_role.dept_manager}) PermissionDenied) (\<lambda>_.
     attempt (get_existing_sub_project sid db) (\<lambda>s.
     attempt (guard (sp_creator_id s \<noteq> Some (u_id actor)) PermissionDenied) (\<lambda>_.
     attempt (guard (sp_status s = sub_project_status.pending_review)
        (invalid_sub_status (sub_status_value (sp_status s)) ''Status does not allow review'')) (\<lambda>_.
     attempt (get_existing_project (sp_main_project_id s) db) (\<lambda>main.
     attempt (validate_over_budget main s payload db) (\<lambda>over_budget.
     attempt (present (main_status_of_sub (sp_status s)) (ValueError ''MainProjectStatus'')) (\<lambda>from_status.
     let approving = (srr_decision payload = project_review_decision.approve);
         new_status = (if approving then sub_project_status.in_progress else sub_project_status.rejected);
         after = s\<lparr>sp_status := new_status\<rparr>;
         db = save_sub_project sid (\<lambda>r. r\<lparr>sp_status := new_status\<rparr>) db;
         db = (if approving then start_main_project e main db else db);
         db = (if approving then create_phases_for_sub_project e after db else db);
         (review_id, db) = uuid4 db;
         db = add_review \<lparr> rev_id = review_id, rev_main_project_id = None,
           rev_sub_project_id = Some sid, rev_reviewer_id = u_id actor,
           rev_decision = srr_decision payload, rev_from_status = from_status,
           rev_to_status = (if new_status = sub_project_status.in_progress
             then main_project_status.in_progress else main_project_status.rejected),
           rev_comment = srr_review_comment payload, rev_modified_fields = [],
           rev_admin_override = (u_role actor = user_role.admin), rev_reviewed_at = clock e \<rparr> db;
         db = notify e ''project_review_result'' [sp_manager_id s] sid
           [(''project_no'', PStr (sp_project_no s)), (''project_name'', PStr (sp_name s)),
            (''decision'', PStr (decision_value (srr_decision payload))),
            (''review_comment'', encode_optional_text (srr_review_comment payload))] db
     in Inr (after, record_audit e actor ''sub_project.review'' ''sub_project'' sid
              (SubState s) (SubState after)
              [(''admin_override'', PBool (u_role actor = user_role.admin)),
               (''decision'', PStr (decision_value (srr_decision payload))),
               (''over_budget_warning'', PBool (over_budget \<noteq> None)),
               (''over_budget_reason'', encode_optional_text (srr_over_budget_reason payload))] db))))))))"

subsection \<open>Closing and terminating\<close>

definition close_sub_project ::
  "env \<Rightarrow> user \<Rightarrow> uuid \<Rightarrow> database \<Rightarrow> py_error + (sub_project \<times> database)" where
  "close_sub_project e actor sid db =
     attempt (guard (u_role actor = user_role.dept_manager) PermissionDenied) (\<lambda>_.
     attempt (get_existing_sub_project sid db) (\<lambda>s.
     if sp_status s = sub_project_status.closed
     then (if sp_closed_at s = None
           then Inr (s\<lparr>sp_closed_at := Some (clock e)\<rparr>,
                     save_sub_project sid (\<lambda>r. r\<lparr>sp_closed_at := Some (clock e)\<rparr>) db)
           else Inr (s, db))
     else
       attempt (guard (sp_status s \<in> {sub_project_status.in_progress, sub_project_status.completed})
          (invalid_sub_status (sub_status_value (sp_status s)) ''Status does not allow closing'')) (\<lambda>_.
       let (phase_count, incomplete) = phase_completion_counts sid db;
           counts = [(''phase_count'', PInt (int phase_count)),
             (''incomplete_phase_count'', PInt (int incomplete))]
       in attempt (guard (\<not> (phase_count \<noteq> 6 \<or> incomplete > 0))
            (BusinessError 3003 ''All six phases must be completed'' counts)) (\<lambda>_.
       let close = (\<lambda>r. r\<lparr>sp_status := sub_project_status.closed,
              sp_actual_end_date := Some (today e), sp_closed_at := Some (clock e),
              sp_updated_at := clock e\<rparr>);
           db = save_sub_project sid close db
       in Inr (close s, record_audit e actor ''sub_project.close'' ''sub_project'' sid
                (SubState s) (SubState (close s)) counts db)))))"

definition terminate_sub_project ::
  "env \<Rightarrow> user \<Rightarrow> uuid \<Rightarrow> string \<Rightarrow> database \<Rightarrow> py_error + (sub_project \<times> database)" where
  "terminate_sub_project e actor sid reason db =
     attempt (guard (u_role actor \<in> {user_role.admin, user_role.dept_manager}) PermissionDenied) (\<lambda>_.
     attempt (get_existing_sub_project sid db) (\<lambda>s.
     attempt (guard (sp_status s \<notin> {sub_project_status.closed, sub_project_status.terminated})
        (invalid_sub_status (sub_status_value (sp_status s)) ''Status does not allow termination'')) (\<lambda>_.
     let stop = (\<lambda>r. r\<lparr>sp_status := sub_project_status.terminated,
            sp_actual_end_date := Some (today e), sp_closed_at := Some (clock e),
            sp_updated_at := clock e\<rparr>);
         db = save_sub_project sid stop db
     in Inr (stop s, record_audit e actor ''sub_project.terminate'' ''sub_project'' sid
              (SubState s) (SubState (stop s)) [(''reason'', PStr reason)] db))))"

subsection \<open>Write sets\<close>

lemma next_sub_project_sequence_evolves [evolve_rules]:
  "SubSequences \<in> W \<Longrightarrow> evolves W a db \<Longrightarrow>
     evolves W a (snd (next_sub_project_sequence k db))"
  by (simp add: next_sub_project_sequence_def Let_def evolves_def writes_iff)

lemma record_member_audit_evolves [evolve_rules]:
  "Audit \<in> W \<Longrightarrow> evolves W a db \<Longrightarrow>
     evolves W a (record_member_audit e actor action m bf af db)"
  unfolding record_member_audit_def
  by (assumption | rule evolve_rules | (simp; fail))+

lemma upsert_handover_members_evolves [evolve_rules]:
  "Members \<in> W \<Longrightarrow> evolves W a db \<Longrightarrow>
     evolves W a (upsert_handover_members e sid old new db)"
  unfolding upsert_handover_members_def
  by (assumption | rule evolve_rules | (simp; fail))+

lemma create_phases_evolves [evolve_rules]:
  "Phases \<in> W \<Longrightarrow> evolves W a db \<Longrightarrow> evolves W a (create_phases e sid ds db)"
proof (induction e sid ds db rule: create_phases.induct)
  case (2 e sid no code name ds db)
  have "evolves W a (add_phase (new_phase e sid no code name (next_uuid db)) (snd (uuid4 db)))"
    by (rule evolve_rules 2 | assumption)+
  then show ?case using 2 by (simp add: uuid4_def)
qed simp

lemma create_default_phases_evolves [evolve_rules]:
  "Phases \<in> W \<Longrightarrow> evolves W a db \<Longrightarrow>
     evolves W a (create_default_phases e sid db)"
  unfolding create_default_phases_def
  by (assumption | rule evolve_rules | (simp; fail))+

lemma create_phases_for_sub_project_evolves [evolve_rules]:
  "Phases \<in> W \<Longrightarrow> evolves W a db \<Longrightarrow>
     evolves W a (create_phases_for_sub_project e s db)"
  unfolding create_phases_for_sub_project_def
  by (assumption | rule evolve_rules | (simp; fail))+

lemma start_main_project_evolves [evolve_rules]:
  "Mains \<in> W \<Longrightarrow> evolves W a db \<Longrightarrow>
     evolves W a (start_main_project e main db)"
  unfolding start_main_project_def
  by (assumption | rule evolve_rules | (simp; fail))+

lemma add_sub_project_member_writes:
  "yields (evolves {Members, Audit} db) (add_sub_project_member e actor sid uid db)"
  unfolding add_sub_project_member_def
  by (assumption | rule yields_rules evolve_rules | (simp; fail))+

lemma remove_sub_project_member_writes:
  "yields (evolves {Members, Audit} db) (remove_sub_project_member e actor sid uid db)"
  unfolding remove_sub_project_member_def
  by (assumption | rule yields_rules evolve_rules | (simp; fail))+

lemma handover_sub_project_writes:
  "yields (evolves {Subs, Members, Handovers, Notifications, Outbox, Audit} db) (handover_sub_project e actor sid to_id reason expected db)"
  unfolding handover_sub_project_def
  by (assumption | rule yields_rules evolve_rules | (simp; fail))+

lemma create_sub_project_writes:
  "yields (evolves {Subs, Members, SubSequences} db) (create_sub_project e actor payload db)"
  unfolding create_sub_project_def
  by (assumption | rule yields_rules evolve_rules | (simp; fail))+

lemma update_sub_project_writes:
  "yields (evolves {Subs} db) (update_sub_project actor sid payload db)"
  unfolding update_sub_project_def
  by (assumption | rule yields_rules evolve_rules | (simp; fail))+

lemma submit_sub_project_writes:
  "yields (evolves {Subs, Notifications, Outbox, Audit} db) (submit_sub_project e actor sid db)"
  unfolding submit_sub_project_def
  by (assumption | rule yields_rules evolve_rules | (simp; fail))+

lemma review_sub_project_writes:
  "yields (evolves {Subs, Mains, Phases, Reviews, Notifications, Outbox, Audit} db) (review_sub_project e actor sid payload db)"
  unfolding review_sub_project_def
  by (assumption | rule yields_rules evolve_rules | (simp; fail))+

lemma close_sub_project_writes:
  "yields (evolves {Subs, Audit} db) (close_sub_project e actor sid db)"
  unfolding close_sub_project_def
  by (assumption | rule yields_rules evolve_rules | (simp; fail))+

lemma terminate_sub_project_writes:
  "yields (evolves {Subs, Audit} db) (terminate_sub_project e actor sid reason db)"
  unfolding terminate_sub_project_def
  by (assumption | rule yields_rules evolve_rules | (simp; fail))+

subsection \<open>Effects\<close>

lemma next_sub_project_sequence_frame [simp]:
  "sub_projects (snd (next_sub_project_sequence k db)) = sub_projects db"
  "members (snd (next_sub_project_sequence k db)) = members db"
  "next_uuid (snd (next_sub_project_sequence k db)) = next_uuid db"
  by (simp_all add: next_sub_project_sequence_def Let_def)

lemma upsert_handover_members_frame [simp]:
  "sub_projects (upsert_handover_members e sid old new db) = sub_projects db"
  using upsert_handover_members_evolves [OF _ evolves_refl, of "{Members}" db e sid old new]
  by (simp add: evolves_iff writes_iff)

lemma record_member_audit_frame [simp]:
  "members (record_member_audit e actor action m bf af db) = members db"
  "next_uuid (record_member_audit e actor action m bf af db) = next_uuid db"
  by (simp_all add: record_member_audit_def)

lemma add_sub_project_member_effect:
  assumes "add_sub_project_member e actor sid uid db = Inr (m, db')"
  shows "\<exists>s. get_sub_project sid db = Some s \<and> sp_manager_id s = u_id actor \<and>
    u_role actor = user_role.proj_leader \<and> sp_status s \<notin> locked_member_change_statuses \<and>
    get_member sid uid db = None \<and> members db' = members db @ [m] \<and> mem_id m = next_uuid db \<and>
    mem_sub_project_id m = sid \<and> mem_user_id m = uid \<and> mem_role m = member_role.proj_member \<and>
    next_uuid db' = Suc (next_uuid db)"
  using assms
  unfolding add_sub_project_member_def get_existing_sub_project_def ensure_project_leader_def
    ensure_member_changes_allowed_def
  by (elim result_elims)
    (frule sub_rows.get_SomeD, auto simp: repository_defs)

lemma remove_sub_project_member_effect:
  assumes "remove_sub_project_member e actor sid uid db = Inr (m, db')"
  shows "\<exists>s. get_sub_project sid db = Some s \<and> sp_manager_id s = u_id actor \<and>
    get_member sid uid db = Some m \<and> mem_user_id m \<noteq> u_id actor \<and>
    mem_role m \<noteq> member_role.proj_leader \<and>
    members db' = filter (\<lambda>r. mem_id r \<noteq> mem_id m) (members db)"
  using assms
  unfolding remove_sub_project_member_def get_existing_sub_project_def ensure_project_leader_def
    ensure_member_changes_allowed_def
  by (elim result_elims) (frule sub_rows.get_SomeD, auto simp: repository_defs)

text \<open>The members after a transfer: the two roles are rewritten, a new leader is added.\<close>

lemma handover_sub_project_effect:
  assumes "handover_sub_project e actor sid to_id reason expected db = Inr (r, db')"
  shows "\<exists>s. get_sub_project sid db = Some s \<and> u_role actor = user_role.admin \<and>
    sp_status s \<in> active_handover_statuses \<and> to_id \<noteq> sp_manager_id s \<and>
    (expected = None \<or> expected = Some (sp_manager_id s)) \<and>
    sub_projects db' = update_rows sp_id sid (\<lambda>r. r\<lparr>sp_manager_id := to_id\<rparr>) (sub_projects db) \<and>
    (\<exists>d. members d = members db \<and> next_uuid d = next_uuid db \<and>
       members db' = members (upsert_handover_members e sid (sp_manager_id s) to_id d) \<and>
       next_uuid (upsert_handover_members e sid (sp_manager_id s) to_id d) \<le> next_uuid db')"
proof -
  have id: "get_user to_id db = Some u \<Longrightarrow> u_id u = to_id" for u
    unfolding get_user_def by (drule find_row_SomeD) simp
  show ?thesis
    using assms unfolding handover_sub_project_def get_existing_sub_project_def
    apply (elim result_elims)
    apply (rule exI, intro conjI, assumption, assumption, assumption, assumption)
      apply (blast)
     apply (simp (no_asm_simp) add: repository_defs id)
    apply (rule exI [of _ "save_sub_project sid (\<lambda>r. r\<lparr>sp_manager_id := to_id\<rparr>) db"])
    apply (simp (no_asm_simp) add: repository_defs id le_SucI notify_next_uuid_le)
    done
qed

lemma create_sub_project_effect:
  assumes "create_sub_project e actor payload db = Inr (s, db')"
  shows "\<exists>main m. get_main_project (spc_main_project_id payload) db = Some main \<and>
    mp_status main \<in> open_main_project_statuses \<and> sp_main_project_id s = mp_id main \<and>
    sub_projects db' = sub_projects db @ [s] \<and> sp_id s = next_uuid db \<and> sp_spent_amount s = 0 \<and>
    sp_status s = sub_project_status.pending_review \<and> sp_manager_id s = u_id actor \<and>
    sp_creator_id s = Some (u_id actor) \<and>
    sp_project_no s = format_sub_project_no (mp_project_no main)
      (fst (next_sub_project_sequence (mp_id main) db)) \<and>
    members db' = members db @ [m] \<and> mem_id m = Suc (next_uuid db) \<and>
    mem_sub_project_id m = sp_id s \<and> mem_user_id m = u_id actor \<and>
    mem_role m = member_role.proj_leader \<and> next_uuid db' = Suc (Suc (next_uuid db))"
  using assms unfolding create_sub_project_def get_existing_project_def
  apply (elim result_elims)
  apply (rule exI, rule exI [of _ "\<lparr> mem_id = Suc (next_uuid db), mem_sub_project_id = next_uuid db,
    mem_user_id = u_id actor, mem_role = member_role.proj_leader, mem_joined_at = clock e,
    mem_updated_at = clock e \<rparr>"])
  apply (intro conjI, assumption, assumption)
  apply (simp_all (no_asm_simp) add: repository_defs)
  done

lemma update_sub_project_effect:
  assumes "update_sub_project actor sid payload db = Inr (r, db')"
  shows "\<exists>s. get_sub_project sid db = Some s \<and> sp_status s = sub_project_status.rejected \<and>
    sp_creator_id s = Some (u_id actor) \<and>
    sub_projects db' = update_rows sp_id sid (apply_sub_project_update payload) (sub_projects db)"
  using assms unfolding update_sub_project_def get_existing_sub_project_def
  by (elim result_elims) (simp add: repository_defs)

lemma submit_sub_project_effect:
  assumes "submit_sub_project e actor sid db = Inr (r, db')"
  shows "\<exists>s. get_sub_project sid db = Some s \<and>
    sp_status s \<in> {sub_project_status.pending_review, sub_project_status.rejected} \<and>
    sub_projects db' = update_rows sp_id sid
      (\<lambda>r. r\<lparr>sp_status := sub_project_status.pending_review\<rparr>) (sub_projects db)"
  using assms unfolding submit_sub_project_def get_existing_sub_project_def
  by (elim result_elims) (simp (no_asm_simp) add: repository_defs, fast)

text \<open>The phases an approval creates: identifiers, sub project and status of each.\<close>

fun new_phases :: "env \<Rightarrow> uuid \<Rightarrow> (int \<times> string \<times> string) list \<Rightarrow> uuid \<Rightarrow> phase list" where
  "new_phases e sid [] n = []"
| "new_phases e sid ((no, code, name) # ds) n =
     new_phase e sid no code name n # new_phases e sid ds (Suc n)"

lemma create_phases_effect:
  "phases (create_phases e sid ds db) = phases db @ new_phases e sid ds (next_uuid db) \<and>
   next_uuid (create_phases e sid ds db) = next_uuid db + length ds"
  by (induction e sid ds db rule: create_phases.induct) (auto simp: repository_defs)

text \<open>Number, code and name of the phases of a sub project, from its workflow version.\<close>

definition phase_specs :: "sub_project \<Rightarrow> database \<Rightarrow> (int \<times> string \<times> string) list" where
  "phase_specs s db =
     (case Option.bind (sp_workflow_version_id s) (\<lambda>vid. get_workflow_version vid db) of
        None \<Rightarrow> default_phases
      | Some v \<Rightarrow> if wv_phase_definitions v = [] then default_phases
          else map (\<lambda>d. (pd_order d, pd_key d, pd_name d)) (sort_key pd_order (wv_phase_definitions v)))"

lemma create_phases_for_sub_project_eq:
  "create_phases_for_sub_project e s db = create_phases e (sp_id s) (phase_specs s db) db"
  by (simp add: create_phases_for_sub_project_def create_default_phases_def phase_specs_def
      split: option.split)

lemma create_phases_for_sub_project_frame [simp]:
  "sub_projects (create_phases_for_sub_project e s db) = sub_projects db"
  "main_projects (create_phases_for_sub_project e s db) = main_projects db"
  using create_phases_for_sub_project_evolves [OF _ evolves_refl, of "{Phases}" db e s]
  by (simp_all add: evolves_iff writes_iff)

lemma create_phases_for_sub_project_phases:
  "phases (create_phases_for_sub_project e s db) =
     phases db @ new_phases e (sp_id s) (phase_specs s db) (next_uuid db)"
  "next_uuid (create_phases_for_sub_project e s db) = next_uuid db + length (phase_specs s db)"
  by (simp_all add: create_phases_for_sub_project_eq create_phases_effect)

lemma start_main_project_frame [simp]:
  "sub_projects (start_main_project e main db) = sub_projects db"
  "phases (start_main_project e main db) = phases db"
  "workflow_versions (start_main_project e main db) = workflow_versions db"
  "next_uuid (start_main_project e main db) = next_uuid db"
  by (simp_all add: start_main_project_def save_main_project_def)

lemma start_main_project_mains:
  "main_projects (start_main_project e main db) =
     (if mp_status main = main_project_status.not_started
      then update_rows mp_id (mp_id main) (\<lambda>p. p\<lparr>mp_status := main_project_status.in_progress,
         mp_updated_at := clock e\<rparr>) (main_projects db)
      else main_projects db)"
  by (simp add: start_main_project_def save_main_project_def)

lemma phase_specs_frame [simp]:
  "phase_specs s (db\<lparr>sub_projects := x\<rparr>) = phase_specs s db"
  "phase_specs s (db\<lparr>main_projects := y\<rparr>) = phase_specs s db"
  "phase_specs s (start_main_project e main db) = phase_specs s db"
  by (simp_all add: phase_specs_def get_workflow_version_def start_main_project_def
      save_main_project_def)

lemma phase_specs_status [simp]: "phase_specs (s\<lparr>sp_status := st\<rparr>) db = phase_specs s db"
  by (simp add: phase_specs_def)

lemma review_sub_project_effect:
  assumes "review_sub_project e actor sid payload db = Inr (r, db')"
  shows "\<exists>s main over. get_sub_project sid db = Some s \<and>
    sp_status s = sub_project_status.pending_review \<and> sp_creator_id s \<noteq> Some (u_id actor) \<and>
    u_role actor \<in> {user_role.admin, user_role.dept_manager} \<and>
    get_main_project (sp_main_project_id s) db = Some main \<and>
    validate_over_budget main s payload db = Inr over \<and>
    (if srr_decision payload = project_review_decision.approve
     then sub_projects db' = update_rows sp_id sid
            (\<lambda>r. r\<lparr>sp_status := sub_project_status.in_progress\<rparr>) (sub_projects db) \<and>
       main_projects db' = (if mp_status main = main_project_status.not_started
         then update_rows mp_id (mp_id main) (\<lambda>p. p\<lparr>mp_status := main_project_status.in_progress,
            mp_updated_at := clock e\<rparr>) (main_projects db)
         else main_projects db) \<and>
       phases db' = phases db @ new_phases e (sp_id s) (phase_specs s db) (next_uuid db) \<and>
       next_uuid db + length (phase_specs s db) \<le> next_uuid db'
     else sub_projects db' = update_rows sp_id sid
            (\<lambda>r. r\<lparr>sp_status := sub_project_status.rejected\<rparr>) (sub_projects db) \<and>
       main_projects db' = main_projects db \<and> phases db' = phases db)"
proof (cases "srr_decision payload = project_review_decision.approve")
  case True
  show ?thesis
    using assms True
    unfolding review_sub_project_def get_existing_sub_project_def get_existing_project_def
    apply (elim result_elims)
    apply (rule exI, rule exI, rule exI)
    apply (intro conjI, assumption, assumption, assumption, assumption, assumption, assumption)
    apply (simp (no_asm_simp) add: repository_defs create_phases_for_sub_project_phases
        start_main_project_mains notify_next_uuid_le le_SucI)
    done
next
  case False
  show ?thesis
    using assms False
    unfolding review_sub_project_def get_existing_sub_project_def get_existing_project_def
    apply (elim result_elims)
    apply (rule exI, rule exI, rule exI)
    apply (intro conjI, assumption, assumption, assumption, assumption, assumption, assumption)
    apply (simp (no_asm_simp) add: repository_defs)
    done
qed

lemma close_sub_project_effect:
  assumes "close_sub_project e actor sid db = Inr (r, db')"
  shows "\<exists>s. get_sub_project sid db = Some s \<and> u_role actor = user_role.dept_manager \<and>
    (if sp_status s = sub_project_status.closed
     then sub_projects db' = sub_projects db \<or> sub_projects db' =
       update_rows sp_id sid (\<lambda>r. r\<lparr>sp_closed_at := Some (clock e)\<rparr>) (sub_projects db)
     else sp_status s \<in> {sub_project_status.in_progress, sub_project_status.completed} \<and>
       phase_completion_counts sid db = (6, 0) \<and>
       sub_projects db' = update_rows sp_id sid (\<lambda>r. r\<lparr>sp_status := sub_project_status.closed,
         sp_actual_end_date := Some (today e), sp_closed_at := Some (clock e),
         sp_updated_at := clock e\<rparr>) (sub_projects db))"
  using assms unfolding close_sub_project_def get_existing_sub_project_def
  by (elim result_elims) (auto simp: repository_defs prod_eq_iff)

lemma terminate_sub_project_effect:
  assumes "terminate_sub_project e actor sid reason db = Inr (r, db')"
  shows "\<exists>s. get_sub_project sid db = Some s \<and>
    sp_status s \<notin> {sub_project_status.closed, sub_project_status.terminated} \<and>
    sub_projects db' = update_rows sp_id sid (\<lambda>r. r\<lparr>sp_status := sub_project_status.terminated,
      sp_actual_end_date := Some (today e), sp_closed_at := Some (clock e),
      sp_updated_at := clock e\<rparr>) (sub_projects db)"
  using assms unfolding terminate_sub_project_def get_existing_sub_project_def
  by (elim result_elims) (simp (no_asm_simp) add: repository_defs, fast)

end
