(* ===== verification/Phases.thy ===== *)
theory Phases
  imports SubProjects
begin

text \<open>
  The phases of a sub project (\<open>app/services/phases.py\<close>): the quantity rules of required
  documents, the documents a phase still lacks, payment voucher coverage, the choice of a
  procurement type, and the promotion of a phase, which activates the next one and completes
  the sub project after the last.
\<close>

subsection \<open>Quantity rules\<close>

definition normalize_rule :: "string \<Rightarrow> string" where
  "normalize_rule qty_rule = lower (strip qty_rule)"

definition parse_quantity :: "string \<Rightarrow> py_error + int" where
  "parse_quantity s = present (py_int (strip s)) (ValueError ''int'')"

definition matches_qty_rule :: "string \<Rightarrow> int \<Rightarrow> py_error + bool" where
  "matches_qty_rule qty_rule actual =
     (let rule = normalize_rule qty_rule in
      if starts_with rule ''>=''
        then attempt (parse_quantity (remove_prefix rule ''>='')) (\<lambda>n. Inr (n \<le> actual))
      else if starts_with rule ''=''
        then attempt (parse_quantity (remove_prefix rule ''='')) (\<lambda>n. Inr (n \<le> actual))
      else if starts_with rule ''per_payment'' then Inr (1 \<le> actual)
      else Inr (1 \<le> actual))"

definition is_per_payment_rule :: "string \<Rightarrow> bool" where
  "is_per_payment_rule qty_rule = starts_with (normalize_rule qty_rule) ''per_payment''"

record voucher_coverage =
  vc_payment_count :: int
  vc_covered_payment_count :: int
  vc_voucher_count :: int
  vc_missing_payment_ids :: "uuid list"

definition coverage_is_satisfied :: "voucher_coverage \<Rightarrow> bool" where
  "coverage_is_satisfied c = (0 < vc_payment_count c \<and> vc_missing_payment_ids c = [])"

definition counts_vouchers :: "phase_doc_template \<Rightarrow> voucher_coverage option \<Rightarrow> bool" where
  "counts_vouchers t coverage =
     (pdt_doc_type t = ''payment_voucher'' \<and> is_per_payment_rule (pdt_qty_rule t) \<and> coverage \<noteq> None)"

definition required_document_is_satisfied ::
  "phase_doc_template \<Rightarrow> int \<Rightarrow> voucher_coverage option \<Rightarrow> py_error + bool" where
  "required_document_is_satisfied t actual coverage =
     (case coverage of
        Some c \<Rightarrow> if counts_vouchers t coverage then Inr (coverage_is_satisfied c)
                  else matches_qty_rule (pdt_qty_rule t) actual
      | None \<Rightarrow> matches_qty_rule (pdt_qty_rule t) actual)"

text \<open>\<open>uploaded_counts.get(doc_type, 0)\<close>.\<close>

definition uploaded_count :: "document list \<Rightarrow> string \<Rightarrow> int" where
  "uploaded_count docs doc_type = int (length (filter (\<lambda>d. doc_doc_type d = doc_type) docs))"

fun missing_templates ::
  "document list \<Rightarrow> voucher_coverage option \<Rightarrow> phase_doc_template list
     \<Rightarrow> py_error + phase_doc_template list" where
  "missing_templates docs coverage [] = Inr []"
| "missing_templates docs coverage (t # ts) =
     attempt (required_document_is_satisfied t (uploaded_count docs (pdt_doc_type t)) coverage) (\<lambda>ok.
     attempt (missing_templates docs coverage ts) (\<lambda>ms. Inr (if ok then ms else t # ms)))"

record phase_detail =
  pdet_phase :: phase
  pdet_required :: "phase_doc_template list"
  pdet_uploaded :: "document list"
  pdet_required_total :: nat
  pdet_uploaded_total :: nat
  pdet_missing_doc_types :: "string list"

definition detail_from_documents ::
  "phase \<Rightarrow> phase_doc_template list \<Rightarrow> document list \<Rightarrow> voucher_coverage option
     \<Rightarrow> py_error + phase_detail" where
  "detail_from_documents p needed uploaded coverage =
     attempt (missing_templates uploaded coverage needed) (\<lambda>missing.
     Inr \<lparr> pdet_phase = p, pdet_required = needed, pdet_uploaded = uploaded,
           pdet_required_total = length needed, pdet_uploaded_total = length uploaded,
           pdet_missing_doc_types = map pdt_doc_type missing \<rparr>)"

subsection \<open>Repository\<close>

definition list_required_doc_templates ::
  "int \<Rightarrow> procurement_type option \<Rightarrow> database \<Rightarrow> phase_doc_template list" where
  "list_required_doc_templates no procurement db =
     sort_key pdt_doc_type (filter (\<lambda>t. pdt_phase_no t = no \<and> pdt_is_active t \<and>
        (pdt_requirement t = doc_requirement.required \<or>
         (procurement \<noteq> None \<and> pdt_requirement t = doc_requirement.conditional \<and>
          pdt_procurement_type t = procurement))) (phase_doc_templates db))"

definition list_latest_documents :: "uuid \<Rightarrow> database \<Rightarrow> document list" where
  "list_latest_documents phase_id db =
     sort_key (\<lambda>d. (doc_doc_type d, doc_created_at d))
       (filter (\<lambda>d. doc_phase_id d = phase_id \<and> doc_is_latest d \<and> \<not> doc_is_deleted d) (documents db))"

definition list_acceptance_steps :: "uuid \<Rightarrow> database \<Rightarrow> acceptance_step list" where
  "list_acceptance_steps phase_id db =
     sort_key step_step_no (filter (\<lambda>s. step_phase_id s = phase_id) (acceptance_steps db))"

text \<open>
  The vouchers of one payment whose document is not deleted; \<open>counts\<close> is a dict keyed by
  payment, so a payment id that occurs twice is counted once in it.
\<close>

definition active_voucher_count :: "database \<Rightarrow> uuid \<Rightarrow> int" where
  "active_voucher_count db payment_id =
     int (length (filter (\<lambda>v. pv_payment_id v = payment_id \<and>
        (\<exists>d \<in> set (documents db). doc_id d = pv_document_id v \<and> \<not> doc_is_deleted d))
        (payment_vouchers db)))"

definition get_payment_voucher_coverage :: "uuid \<Rightarrow> database \<Rightarrow> voucher_coverage" where
  "get_payment_voucher_coverage sid db =
     (let payment_ids = map pay_id (filter (\<lambda>p. pay_sub_project_id p = sid
             \<and> pay_payment_type p = payment_type.normal) (payments db));
          keys = dedup payment_ids;
          count = active_voucher_count db
      in \<lparr> vc_payment_count = int (length payment_ids),
           vc_covered_payment_count = int (length (filter (\<lambda>k. 0 < count k) keys)),
           vc_voucher_count = sum_list (map count keys),
           vc_missing_payment_ids = filter (\<lambda>k. count k < 1) keys \<rparr>)"

subsection \<open>Checks\<close>

definition view_all_phase_roles :: "user_role set" where
  "view_all_phase_roles = {user_role.admin, user_role.dept_manager, user_role.finance_manager,
     user_role.proj_leader, user_role.proj_member}"

definition get_existing_phase :: "uuid \<Rightarrow> database \<Rightarrow> py_error + phase" where
  "get_existing_phase k db = present (get_phase k db) (ResourceNotFound ''Phase does not exist'')"

definition invalid_phase_status :: "phase_status \<Rightarrow> string \<Rightarrow> payload \<Rightarrow> py_error" where
  "invalid_phase_status s message data =
     BusinessError 3003 message ((''status'', PStr (phase_status_value s)) # data)"

definition ensure_can_operate_phase :: "user \<Rightarrow> sub_project \<Rightarrow> database \<Rightarrow> py_error + unit" where
  "ensure_can_operate_phase actor s db =
     (if u_role actor \<in> {user_role.admin, user_role.dept_manager, user_role.finance_manager} then Inr ()
      else if u_role actor = user_role.proj_leader \<and> sp_manager_id s = u_id actor then Inr ()
      else guard (get_member (sp_id s) (u_id actor) db \<noteq> None) PermissionDenied)"

text \<open>\<open>phases_by_no\<close>: with two phases of one number the later one counts.\<close>

definition phase_by_no :: "phase list \<Rightarrow> int \<Rightarrow> phase option" where
  "phase_by_no ps no = find (\<lambda>p. ph_phase_no p = no) (rev ps)"

definition incomplete_phase_nos :: "phase \<Rightarrow> phase list \<Rightarrow> int list" where
  "incomplete_phase_nos p ps =
     filter (\<lambda>no. case phase_by_no ps no of None \<Rightarrow> True
        | Some q \<Rightarrow> ph_status q \<noteq> phase_status.completed) [1 .. ph_phase_no p - 1]"

definition ensure_phase_dependencies_completed :: "phase \<Rightarrow> phase list \<Rightarrow> py_error + unit" where
  "ensure_phase_dependencies_completed p ps =
     (if ph_phase_no p \<in> {2, 3, 4}
      then guard (incomplete_phase_nos p ps = [])
        (invalid_phase_status (ph_status p) ''Previous phases must be completed first''
           [(''incomplete_phase_nos'', PList (map PInt (incomplete_phase_nos p ps)))])
      else Inr ())"

definition missing_document_entry ::
  "document list \<Rightarrow> voucher_coverage option \<Rightarrow> phase_doc_template \<Rightarrow> pyval" where
  "missing_document_entry docs coverage t =
     PDict (case coverage of
        Some c \<Rightarrow>
          if counts_vouchers t coverage
          then [(''doc_type'', PStr (pdt_doc_type t)), (''required'', PStr (pdt_qty_rule t)),
                (''actual'', PInt (vc_covered_payment_count c)),
                (''payment_count'', PInt (vc_payment_count c)),
                (''voucher_count'', PInt (vc_voucher_count c)),
                (''missing_payment_ids'', PList (map PUuid (vc_missing_payment_ids c)))]
          else [(''doc_type'', PStr (pdt_doc_type t)), (''required'', PStr (pdt_qty_rule t)),
                (''actual'', PInt (uploaded_count docs (pdt_doc_type t)))]
      | None \<Rightarrow> [(''doc_type'', PStr (pdt_doc_type t)), (''required'', PStr (pdt_qty_rule t)),
                (''actual'', PInt (uploaded_count docs (pdt_doc_type t)))])"

definition ensure_required_documents_uploaded ::
  "phase_doc_template list \<Rightarrow> document list \<Rightarrow> voucher_coverage option \<Rightarrow> py_error + unit" where
  "ensure_required_documents_uploaded needed uploaded coverage =
     attempt (missing_templates uploaded coverage needed) (\<lambda>missing.
     guard (missing = []) (BusinessError 3002 ''Missing required documents''
       [(''missing_documents'', PList (map (missing_document_entry uploaded coverage) missing))]))"

definition ensure_acceptance_steps_completed ::
  "phase \<Rightarrow> acceptance_step list \<Rightarrow> py_error + bool" where
  "ensure_acceptance_steps_completed p steps =
     (if ph_phase_no p \<noteq> 4 \<or> steps = [] then Inr False
      else
        let incomplete = map step_step_no (filter (\<lambda>s. step_step_status s \<noteq> step_status.completed) steps)
        in attempt (guard (incomplete = []) (BusinessError 3003
               ''All acceptance steps must be completed before promoting acceptance phase''
               [(''incomplete_step_nos'', PList (map PInt incomplete))])) (\<lambda>_. Inr True))"

definition ensure_procurement_type_selected :: "phase \<Rightarrow> py_error + unit" where
  "ensure_procurement_type_selected p =
     guard (ph_phase_no p \<noteq> 2 \<or> ph_procurement_type p \<noteq> None)
       (BusinessError 3002 ''Procurement type is required before promoting procurement phase''
          [(''missing_fields'', PList [PStr ''procurement_type''])])"

subsection \<open>Required documents\<close>

definition required_from_definition :: "phase \<Rightarrow> required_document list \<Rightarrow> phase_doc_template list" where
  "required_from_definition p docs =
     map (\<lambda>d. \<lparr> pdt_phase_no = ph_phase_no p, pdt_doc_type = rd_doc_type d,
               pdt_requirement = rd_requirement d, pdt_qty_rule = rd_qty_rule d,
               pdt_procurement_type = rd_procurement_type d, pdt_is_active = True \<rparr>)
       (filter (\<lambda>d. rd_requirement d \<noteq> doc_requirement.optional \<and>
           \<not> (rd_requirement d = doc_requirement.conditional \<and> rd_procurement_type d \<noteq> None \<and>
              ph_procurement_type p \<noteq> rd_procurement_type d)) docs)"

definition required_documents_from_version ::
  "workflow_version \<Rightarrow> phase \<Rightarrow> phase_doc_template list" where
  "required_documents_from_version v p =
     (case filter (\<lambda>d. pd_order d = ph_phase_no p \<or> pd_key d = ph_code p) (wv_phase_definitions v) of
        [] \<Rightarrow> []
      | d # _ \<Rightarrow> sort_key pdt_doc_type (required_from_definition p (pd_required_documents d)))"

definition required_documents_for_phase ::
  "phase \<Rightarrow> database \<Rightarrow> py_error + phase_doc_template list" where
  "required_documents_for_phase p db =
     attempt (get_existing_sub_project (ph_sub_project_id p) db) (\<lambda>s.
     Inr (case Option.bind (sp_workflow_version_id s) (\<lambda>vid. get_workflow_version vid db) of
            Some v \<Rightarrow> required_documents_from_version v p
          | None \<Rightarrow> list_required_doc_templates (ph_phase_no p) (ph_procurement_type p) db))"

definition payment_voucher_coverage_for_phase :: "phase \<Rightarrow> database \<Rightarrow> voucher_coverage option" where
  "payment_voucher_coverage_for_phase p db =
     (if ph_phase_no p \<noteq> 5 then None
      else Some (get_payment_voucher_coverage (ph_sub_project_id p) db))"

subsection \<open>Reading\<close>

definition list_phases_for :: "user \<Rightarrow> uuid \<Rightarrow> database \<Rightarrow> py_error + phase list" where
  "list_phases_for actor sid db =
     attempt (get_existing_sub_project sid db) (\<lambda>s.
     attempt (ensure_visible view_all_phase_roles actor s db) (\<lambda>_. Inr (list_phases sid db)))"

definition get_phase_detail :: "user \<Rightarrow> uuid \<Rightarrow> database \<Rightarrow> py_error + phase_detail" where
  "get_phase_detail actor phase_id db =
     attempt (get_existing_phase phase_id db) (\<lambda>p.
     attempt (get_existing_sub_project (ph_sub_project_id p) db) (\<lambda>s.
     attempt (ensure_visible view_all_phase_roles actor s db) (\<lambda>_.
     attempt (required_documents_for_phase p db) (\<lambda>needed.
     detail_from_documents p needed (list_latest_documents phase_id db)
       (payment_voucher_coverage_for_phase p db)))))"

subsection \<open>Procurement type\<close>

definition update_procurement_type ::
  "env \<Rightarrow> user \<Rightarrow> uuid \<Rightarrow> procurement_type \<Rightarrow> database \<Rightarrow> py_error + (phase \<times> database)" where
  "update_procurement_type e actor phase_id procurement db =
     attempt (get_existing_phase phase_id db) (\<lambda>p.
     attempt (get_existing_sub_project (ph_sub_project_id p) db) (\<lambda>s.
     attempt (ensure_can_operate_phase actor s db) (\<lambda>_.
     attempt (guard (ph_phase_no p = 2)
        (BusinessError 3003 ''Procurement type can only be set on procurement phase''
           [(''phase_no'', PInt (ph_phase_no p))])) (\<lambda>_.
     attempt (guard (ph_status p \<noteq> phase_status.completed)
        (BusinessError 3003 ''Completed procurement phase cannot change procurement type''
           [(''status'', PStr (phase_status_value (ph_status p)))])) (\<lambda>_.
     let change = (\<lambda>q. q\<lparr>ph_procurement_type := Some procurement, ph_updated_at := clock e\<rparr>)
     in Inr (change p, save_phase phase_id change db))))))"

subsection \<open>Promotion\<close>

text \<open>The phase that the promotion of \<open>p\<close> puts in progress, if any.\<close>

definition next_phase_to_activate :: "phase \<Rightarrow> phase list \<Rightarrow> phase option" where
  "next_phase_to_activate p ps =
     (if ph_phase_no p \<in> {1, 2, 3}
      then (case find (\<lambda>q. ph_phase_no q = ph_phase_no p + 1) ps of
              None \<Rightarrow> None
            | Some q \<Rightarrow> if ph_status q = phase_status.waiting then Some q else None)
      else None)"

definition complete_phase :: "env \<Rightarrow> phase \<Rightarrow> phase" where
  "complete_phase e p = p\<lparr>ph_status := phase_status.completed, ph_finish_at := Some (clock e),
     ph_updated_at := clock e\<rparr>"

definition activate_phase :: "env \<Rightarrow> phase \<Rightarrow> phase" where
  "activate_phase e p = p\<lparr>ph_status := phase_status.in_progress, ph_enter_at := Some (clock e),
     ph_updated_at := clock e\<rparr>"

text \<open>
  The checks of a promotion, in their order.  The phases are read again for the update; the
  session returns the same row object for the promoted phase.
\<close>

definition check_promotion :: "user \<Rightarrow> uuid \<Rightarrow> database \<Rightarrow> py_error + (phase \<times> sub_project)" where
  "check_promotion actor phase_id db =
     attempt (get_existing_phase phase_id db) (\<lambda>p.
     attempt (get_existing_sub_project (ph_sub_project_id p) db) (\<lambda>s.
     attempt (ensure_can_operate_phase actor s db) (\<lambda>_.
     attempt (guard (ph_status p = phase_status.in_progress)
        (invalid_phase_status (ph_status p) ''Only in-progress phases can be promoted'' [])) (\<lambda>_.
     attempt (ensure_procurement_type_selected p) (\<lambda>_.
     attempt (required_documents_for_phase p db) (\<lambda>needed.
     attempt (ensure_phase_dependencies_completed p (list_phases (sp_id s) db)) (\<lambda>_.
     attempt (ensure_acceptance_steps_completed p (list_acceptance_steps phase_id db)) (\<lambda>by_steps.
     attempt (ensure_required_documents_uploaded
        (if by_steps then filter (\<lambda>t. pdt_doc_type t \<noteq> ''acceptance_report'') needed else needed)
        (list_latest_documents phase_id db) (payment_voucher_coverage_for_phase p db)) (\<lambda>_.
     Inr (p, s))))))))))"

definition promote_phase ::
  "env \<Rightarrow> user \<Rightarrow> uuid \<Rightarrow> database \<Rightarrow> py_error + ((phase \<times> phase option) \<times> database)" where
  "promote_phase e actor phase_id db =
     attempt (check_promotion actor phase_id db) (\<lambda>(p, s).
     let activated = next_phase_to_activate p (list_phases (sp_id s) db);
         db = save_phase phase_id (complete_phase e) db;
         (history_id, db) = uuid4 db;
         db = add_history \<lparr> hist_id = history_id, hist_phase_id = phase_id,
           hist_from_status = ph_status p, hist_to_status = phase_status.completed,
           hist_changed_by_id = u_id actor, hist_changed_at = clock e, hist_note = ''promoted'' \<rparr> db;
         db = (case activated of None \<Rightarrow> db | Some q \<Rightarrow> save_phase (ph_id q) (activate_phase e) db);
         db = (if \<forall>q \<in> set (list_phases (sp_id s) db). ph_status q = phase_status.completed
           then save_sub_project (sp_id s) (\<lambda>r. r\<lparr>sp_status := sub_project_status.completed,
                  sp_actual_end_date := Some (today e), sp_updated_at := clock e\<rparr>) db
           else db);
         receivers = dedup (map mem_user_id (filter (\<lambda>m. mem_sub_project_id m = sp_id s) (members db))
           @ [sp_manager_id s]);
         db = notify e ''phase_promoted'' receivers
           (case activated of None \<Rightarrow> phase_id | Some q \<Rightarrow> ph_id q)
           [(''sub_project_id'', PUuid (sp_id s)), (''completed_phase_id'', PUuid phase_id),
            (''completed_phase_no'', PInt (ph_phase_no p)),
            (''activated_phase_id'', case_option PNone (\<lambda>q. PUuid (ph_id q)) activated),
            (''activated_phase_no'', case_option PNone (\<lambda>q. PInt (ph_phase_no q)) activated)] db
     in Inr ((complete_phase e p, map_option (activate_phase e) activated), db))"

subsection \<open>Write sets\<close>

lemma update_procurement_type_writes:
  "yields (evolves {Phases} db) (update_procurement_type e actor k t db)"
  unfolding update_procurement_type_def
  by (assumption | rule yields_rules evolve_rules | (simp; fail))+

lemma promote_phase_writes:
  "yields (evolves {Phases, Histories, Subs, Notifications, Outbox} db) (promote_phase e actor k db)"
  unfolding promote_phase_def
  by (assumption | rule yields_rules evolve_rules | (simp; fail))+

subsection \<open>Effects\<close>

lemma update_procurement_type_effect:
  assumes "update_procurement_type e actor k t db = Inr (r, db')"
  shows "\<exists>p. get_phase k db = Some p \<and> ph_phase_no p = 2 \<and> ph_status p \<noteq> phase_status.completed \<and>
    phases db' = update_rows ph_id k
      (\<lambda>q. q\<lparr>ph_procurement_type := Some t, ph_updated_at := clock e\<rparr>) (phases db)"
  using assms unfolding update_procurement_type_def get_existing_phase_def
  by (elim result_elims) (simp add: repository_defs)

lemma check_promotion_guards:
  assumes "check_promotion actor k db = Inr (p, s)"
  shows "get_existing_phase k db = Inr p \<and>
    get_existing_sub_project (ph_sub_project_id p) db = Inr s \<and>
    ensure_can_operate_phase actor s db = Inr () \<and> ph_status p = phase_status.in_progress \<and>
    ensure_procurement_type_selected p = Inr () \<and>
    ensure_phase_dependencies_completed p (list_phases (sp_id s) db) = Inr () \<and>
    (\<exists>needed by_steps. required_documents_for_phase p db = Inr needed \<and>
      ensure_acceptance_steps_completed p (list_acceptance_steps k db) = Inr by_steps \<and>
      ensure_required_documents_uploaded
        (if by_steps then filter (\<lambda>t. pdt_doc_type t \<noteq> ''acceptance_report'') needed else needed)
        (list_latest_documents k db) (payment_voucher_coverage_for_phase p db) = Inr ())"
  using assms unfolding check_promotion_def
  apply (elim attempt_InrE guard_InrE)
  apply (drule sum.inject(2) [THEN iffD1])
  apply (drule prod.inject [THEN iffD1])
  apply (erule conjE)
  apply hypsubst
  apply (intro conjI exI)
  apply (assumption | (simp; fail))+
  done

lemma check_promotion_effect:
  assumes "check_promotion actor k db = Inr (p, s)"
  shows "get_phase k db = Some p \<and> get_sub_project (ph_sub_project_id p) db = Some s \<and>
    sp_id s = ph_sub_project_id p \<and> ph_status p = phase_status.in_progress"
proof -
  note g = check_promotion_guards [OF assms]
  have s: "get_sub_project (ph_sub_project_id p) db = Some s"
    using g unfolding get_existing_sub_project_def by (auto elim!: result_elims)
  have p: "get_phase k db = Some p"
    using g unfolding get_existing_phase_def by (auto elim!: result_elims)
  from sub_rows.get_SomeD [OF s] s p g show ?thesis by blast
qed

lemma complete_phase_fields [simp]:
  "ph_id (complete_phase e p) = ph_id p" "ph_sub_project_id (complete_phase e p) = ph_sub_project_id p"
  "ph_phase_no (complete_phase e p) = ph_phase_no p"
  "ph_status (complete_phase e p) = phase_status.completed"
  by (simp_all add: complete_phase_def)

lemma activate_phase_fields [simp]:
  "ph_id (activate_phase e p) = ph_id p" "ph_sub_project_id (activate_phase e p) = ph_sub_project_id p"
  "ph_phase_no (activate_phase e p) = ph_phase_no p"
  "ph_status (activate_phase e p) = phase_status.in_progress"
  by (simp_all add: activate_phase_def)

lemma list_phases_ball:
  "(\<forall>q \<in> set (list_phases sid d). P q) \<longleftrightarrow>
     (\<forall>q \<in> set (phases d). ph_sub_project_id q = sid \<longrightarrow> P q)"
  by (auto simp: list_phases_def)

text \<open>The phase table after a promotion.\<close>

definition promoted_phases :: "env \<Rightarrow> uuid \<Rightarrow> phase option \<Rightarrow> phase list \<Rightarrow> phase list" where
  "promoted_phases e k activated ps =
     (let ps = update_rows ph_id k (complete_phase e) ps
      in case activated of None \<Rightarrow> ps | Some q \<Rightarrow> update_rows ph_id (ph_id q) (activate_phase e) ps)"

lemma promote_phase_effect:
  assumes "promote_phase e actor k db = Inr ((p', q'), db')"
  shows "\<exists>p s activated. check_promotion actor k db = Inr (p, s) \<and>
    activated = next_phase_to_activate p (list_phases (sp_id s) db) \<and>
    p' = complete_phase e p \<and> q' = map_option (activate_phase e) activated \<and>
    phases db' = promoted_phases e k activated (phases db) \<and>
    sub_projects db' =
      (if \<forall>q \<in> set (phases db'). ph_sub_project_id q = sp_id s \<longrightarrow> ph_status q = phase_status.completed
       then update_rows sp_id (sp_id s) (\<lambda>r. r\<lparr>sp_status := sub_project_status.completed,
              sp_actual_end_date := Some (today e), sp_updated_at := clock e\<rparr>) (sub_projects db)
       else sub_projects db)"
  using assms unfolding promote_phase_def
  apply (elim result_elims)
  apply (rule exI, rule exI, rule exI)
  apply (intro conjI, assumption, assumption)
     apply (elim Pair_inject, simp (no_asm_simp))
    apply (elim Pair_inject, simp (no_asm_simp))
   apply (simp (no_asm_simp) add: repository_defs promoted_phases_def Let_def split: option.split)
  apply (simp (no_asm_simp) add: repository_defs list_phases_ball split: option.split)
  apply blast
  done

end
