(* ===== verification/AcceptanceSteps.thy ===== *)
theory AcceptanceSteps
  imports Phases
begin

text \<open>
  The acceptance steps of phase 4 (\<open>app/services/acceptance_steps.py\<close>): a step is created for
  a member of the sub project, and completed only with an acceptance report of its own.
\<close>

subsection \<open>Repository\<close>

definition get_step :: "uuid \<Rightarrow> database \<Rightarrow> acceptance_step option" where
  "get_step k db = find_row step_id k (acceptance_steps db)"

definition get_step_by_no :: "uuid \<Rightarrow> int \<Rightarrow> database \<Rightarrow> acceptance_step option" where
  "get_step_by_no phase_id no db =
     find (\<lambda>s. step_phase_id s = phase_id \<and> step_step_no s = no) (acceptance_steps db)"

definition count_step_reports :: "uuid \<Rightarrow> database \<Rightarrow> nat" where
  "count_step_reports k db =
     length (filter (\<lambda>d. doc_acceptance_step_id d = Some k \<and> doc_doc_type d = ''acceptance_report''
        \<and> \<not> doc_is_deleted d) (documents db))"

definition add_step :: "acceptance_step \<Rightarrow> database \<Rightarrow> database" where
  "add_step s db = db\<lparr>acceptance_steps := acceptance_steps db @ [s]\<rparr>"

definition save_step ::
  "uuid \<Rightarrow> (acceptance_step \<Rightarrow> acceptance_step) \<Rightarrow> database \<Rightarrow> database" where
  "save_step k f db = db\<lparr>acceptance_steps := update_rows step_id k f (acceptance_steps db)\<rparr>"

interpretation step_rows: row_store step_id acceptance_steps get_step add_step save_step
  by unfold_locales (simp_all add: get_step_def add_step_def save_step_def)

subsection \<open>Checks\<close>

definition get_phase_scope :: "uuid \<Rightarrow> database \<Rightarrow> py_error + (phase \<times> sub_project)" where
  "get_phase_scope phase_id db =
     attempt (get_existing_phase phase_id db) (\<lambda>p.
     attempt (get_existing_sub_project (ph_sub_project_id p) db) (\<lambda>s. Inr (p, s)))"

definition get_existing_step :: "uuid \<Rightarrow> database \<Rightarrow> py_error + acceptance_step" where
  "get_existing_step k db =
     present (get_step k db) (ResourceNotFound ''Acceptance step does not exist'')"

definition ensure_can_create_step :: "user \<Rightarrow> sub_project \<Rightarrow> py_error + unit" where
  "ensure_can_create_step actor s =
     guard (u_role actor = user_role.admin \<or>
        (u_role actor = user_role.proj_leader \<and> sp_manager_id s = u_id actor)) PermissionDenied"

definition ensure_can_update_step :: "user \<Rightarrow> sub_project \<Rightarrow> acceptance_step \<Rightarrow> py_error + unit" where
  "ensure_can_update_step actor s step =
     guard (u_role actor = user_role.admin \<or>
        (u_role actor = user_role.proj_leader \<and> sp_manager_id s = u_id actor) \<or>
        u_id actor = step_responsible_id step) PermissionDenied"

definition ensure_phase_accepts_steps :: "phase \<Rightarrow> py_error + unit" where
  "ensure_phase_accepts_steps p =
     attempt (guard (ph_phase_no p = 4)
       (BusinessError 3003 ''Acceptance steps can only be created on acceptance phase''
          [(''phase_no'', PInt (ph_phase_no p))])) (\<lambda>_.
     guard (ph_status p = phase_status.in_progress)
       (BusinessError 3003 ''Acceptance phase must be in progress''
          [(''status'', PStr (phase_status_value (ph_status p)))]))"

definition ensure_responsible_member :: "uuid \<Rightarrow> uuid \<Rightarrow> database \<Rightarrow> py_error + unit" where
  "ensure_responsible_member sid uid db =
     guard (get_member sid uid db \<noteq> None)
       (BusinessError 3003 ''Step responsible user must be a sub project member''
          [(''responsible_id'', PUuid uid)])"

definition ensure_step_report_uploaded :: "uuid \<Rightarrow> database \<Rightarrow> py_error + unit" where
  "ensure_step_report_uploaded k db =
     guard (count_step_reports k db > 0)
       (BusinessError 3002 ''Acceptance report is required before completing step''
          [(''missing_documents'', PList [PDict [(''acceptance_step_id'', PUuid k),
              (''doc_type'', PStr ''acceptance_report''), (''required'', PStr ''>=1''),
              (''actual'', PInt 0)]])])"

record acceptance_step_create =
  asc_step_no :: int
  asc_step_name :: string
  asc_responsible_id :: uuid
  asc_plan_date :: "date option"
  asc_description :: "string option"

definition ensure_step_payload :: "acceptance_step_create \<Rightarrow> py_error + unit" where
  "ensure_step_payload payload =
     attempt (guard (asc_step_no payload \<ge> 1)
        (ValidationFailed ''Step number must be positive'' [])) (\<lambda>_.
     guard (strip (asc_step_name payload) \<noteq> []) (ValidationFailed ''Step name is required'' []))"

subsection \<open>Operations\<close>

definition list_steps :: "user \<Rightarrow> uuid \<Rightarrow> database \<Rightarrow> py_error + acceptance_step list" where
  "list_steps actor phase_id db =
     attempt (get_phase_scope phase_id db) (\<lambda>(p, s).
     attempt (ensure_visible view_all_phase_roles actor s db) (\<lambda>_.
     Inr (list_acceptance_steps phase_id db)))"

definition create_step ::
  "env \<Rightarrow> user \<Rightarrow> uuid \<Rightarrow> acceptance_step_create \<Rightarrow> database
     \<Rightarrow> py_error + (acceptance_step \<times> database)" where
  "create_step e actor phase_id payload db =
     attempt (get_phase_scope phase_id db) (\<lambda>(p, s).
     attempt (ensure_can_create_step actor s) (\<lambda>_.
     attempt (ensure_phase_accepts_steps p) (\<lambda>_.
     attempt (ensure_responsible_member (sp_id s) (asc_responsible_id payload) db) (\<lambda>_.
     attempt (ensure_step_payload payload) (\<lambda>_.
     attempt (guard (get_step_by_no (ph_id p) (asc_step_no payload) db = None)
        (ResourceConflict ''Acceptance step number already exists'')) (\<lambda>_.
     let (new_id, db) = uuid4 db;
         step = \<lparr> step_id = new_id, step_phase_id = ph_id p, step_step_no = asc_step_no payload,
           step_step_name = strip (asc_step_name payload),
           step_responsible_id = asc_responsible_id payload, step_plan_date = asc_plan_date payload,
           step_description = clean_optional_text (asc_description payload),
           step_step_status = step_status.not_started, step_completed_at = None,
           step_updated_at = clock e \<rparr>
     in Inr (step, add_step step db)))))))"

definition set_step_status :: "env \<Rightarrow> step_status \<Rightarrow> acceptance_step \<Rightarrow> acceptance_step" where
  "set_step_status e status step =
     step\<lparr> step_completed_at := (if status = step_status.completed then Some (clock e) else None),
           step_step_status := status, step_updated_at := clock e \<rparr>"

definition update_step ::
  "env \<Rightarrow> user \<Rightarrow> uuid \<Rightarrow> uuid \<Rightarrow> step_status \<Rightarrow> database
     \<Rightarrow> py_error + (acceptance_step \<times> database)" where
  "update_step e actor phase_id k status db =
     attempt (get_phase_scope phase_id db) (\<lambda>(p, s).
     attempt (ensure_phase_accepts_steps p) (\<lambda>_.
     attempt (get_existing_step k db) (\<lambda>step.
     attempt (guard (step_phase_id step = ph_id p)
        (ResourceNotFound ''Acceptance step does not exist'')) (\<lambda>_.
     attempt (ensure_can_update_step actor s step) (\<lambda>_.
     attempt (if status = step_status.completed then ensure_step_report_uploaded (step_id step) db
        else Inr ()) (\<lambda>_.
     Inr (set_step_status e status step, save_step k (set_step_status e status) db)))))))"

subsection \<open>Write sets\<close>

lemma step_repository_evolves [evolve_rules]:
  "Steps \<in> W \<Longrightarrow> evolves W a b \<Longrightarrow> evolves W a (add_step s b)"
  "Steps \<in> W \<Longrightarrow> evolves W a b \<Longrightarrow> evolves W a (save_step k f b)"
  by (simp_all add: evolves_def writes_iff add_step_def save_step_def)

lemma create_step_writes:
  "yields (evolves {Steps} db) (create_step e actor phase_id payload db)"
  unfolding create_step_def
  by (assumption | rule yields_rules evolve_rules | (simp; fail))+

lemma update_step_writes:
  "yields (evolves {Steps} db) (update_step e actor phase_id k status db)"
  unfolding update_step_def
  by (assumption | rule yields_rules evolve_rules | (simp; fail))+

subsection \<open>Effects\<close>

lemma create_step_effect:
  assumes "create_step e actor phase_id payload db = Inr (r, db')"
  shows "\<exists>p s. get_phase phase_id db = Some p \<and>
    get_sub_project (ph_sub_project_id p) db = Some s \<and> ph_phase_no p = 4 \<and>
    ph_status p = phase_status.in_progress \<and> get_member (sp_id s) (step_responsible_id r) db \<noteq> None \<and>
    get_step_by_no phase_id (step_step_no r) db = None \<and>
    acceptance_steps db' = acceptance_steps db @ [r] \<and> step_id r = next_uuid db \<and>
    step_phase_id r = phase_id \<and> 1 \<le> step_step_no r \<and> step_step_status r = step_status.not_started \<and>
    step_completed_at r = None \<and> next_uuid db' = Suc (next_uuid db)"
  using assms
  unfolding create_step_def get_phase_scope_def get_existing_phase_def get_existing_sub_project_def
    ensure_phase_accepts_steps_def ensure_responsible_member_def ensure_step_payload_def
  by (elim result_elims) (frule phase_rows.get_SomeD, auto simp: add_step_def)

lemma update_step_effect:
  assumes "update_step e actor phase_id k status db = Inr (r, db')"
  shows "\<exists>p s step. get_phase phase_id db = Some p \<and> get_step k db = Some step \<and>
    get_sub_project (ph_sub_project_id p) db = Some s \<and>
    step_phase_id step = ph_id p \<and> ph_phase_no p = 4 \<and> ph_status p = phase_status.in_progress \<and>
    (u_role actor = user_role.admin \<or>
     u_role actor = user_role.proj_leader \<and> sp_manager_id s = u_id actor \<or>
     u_id actor = step_responsible_id step) \<and>
    (status = step_status.completed \<longrightarrow> 0 < count_step_reports k db) \<and>
    r = set_step_status e status step \<and>
    acceptance_steps db' = update_rows step_id k (set_step_status e status) (acceptance_steps db)"
  using assms
  unfolding update_step_def get_phase_scope_def get_existing_phase_def get_existing_sub_project_def
    ensure_phase_accepts_steps_def get_existing_step_def ensure_can_update_step_def
    ensure_step_report_uploaded_def
  by (elim result_elims) (frule step_rows.get_SomeD, auto simp: save_step_def)+

end
