(* ===== verification/Identifiers.thy ===== *)
theory Identifiers
  imports PyValues
begin

text \<open>
  Identifiers as text: \<open>str(uuid)\<close> writes one, \<open>UUID(text)\<close> reads it back.
\<close>

text \<open>\<open>str(uuid)\<close>: 32 hexadecimal digits in groups of 8, 4, 4, 4 and 12.\<close>

definition hex_char :: "nat \<Rightarrow> char" where
  "hex_char n = (if n < 10 then char_of (48 + n) else char_of (87 + n))"

primrec hex_digits :: "nat \<Rightarrow> nat \<Rightarrow> string" where
  "hex_digits 0 n = []"
| "hex_digits (Suc w) n = hex_digits w (n div 16) @ [hex_char (n mod 16)]"

definition str_uuid :: "uuid \<Rightarrow> string" where
  "str_uuid n =
     (let h = hex_digits 32 n
      in take 8 h @ ''-'' @ take 4 (drop 8 h) @ ''-'' @ take 4 (drop 12 h) @ ''-''
         @ take 4 (drop 16 h) @ ''-'' @ drop 20 h)"

lemma hex_char_inject:
  assumes "a < 16" and "b < 16" and "hex_char a = hex_char b"
  shows "a = b"
proof -
  have code: "of_char (hex_char n) = (if n < 10 then 48 + n else 87 + n)" if "n < 16" for n :: nat
    using that by (simp add: hex_char_def)
  from assms(3) have "(of_char (hex_char a) :: nat) = of_char (hex_char b)" by simp
  with assms(1,2) show ?thesis by (simp add: code split: if_splits)
qed

lemma hex_digits_inject: "hex_digits w n = hex_digits w m \<Longrightarrow> n mod 16 ^ w = m mod 16 ^ w"
proof (induction w arbitrary: n m)
  case (Suc w)
  have mods: "k mod 16 ^ Suc w = 16 * (k div 16 mod 16 ^ w) + k mod 16" for k :: nat
    unfolding power_Suc by (rule mod_mult2_eq)
  from Suc.prems have "hex_digits w (n div 16) = hex_digits w (m div 16)"
    and "hex_char (n mod 16) = hex_char (m mod 16)" by simp_all
  note parts = this
  have "n div 16 mod 16 ^ w = m div 16 mod 16 ^ w" by (rule Suc.IH) (rule parts(1))
  moreover have "n mod 16 = m mod 16" by (rule hex_char_inject [OF _ _ parts(2)]) simp_all
  ultimately show ?case unfolding mods by (simp only:)
qed simp

lemma length_hex_digits [simp]: "length (hex_digits w n) = w"
  by (induction w arbitrary: n) simp_all

lemma str_uuid_digits:
  "hex_digits 32 n = (let s = str_uuid n in take 8 s @ take 4 (drop 9 s) @ take 4 (drop 14 s) @
     take 4 (drop 19 s) @ drop 24 s)"
proof -
  let ?h = "hex_digits 32 n"
  have cut: "drop a ?h = take b (drop a ?h) @ drop (a + b) ?h" for a b
    by (metis append_take_drop_id drop_drop add.commute)
  have "?h = take 8 ?h @ drop 8 ?h" by simp
  also have "drop 8 ?h = take 4 (drop 8 ?h) @ drop 12 ?h" using cut [of 8 4] by simp
  also have "drop 12 ?h = take 4 (drop 12 ?h) @ drop 16 ?h" using cut [of 12 4] by simp
  also have "drop 16 ?h = take 4 (drop 16 ?h) @ drop 20 ?h" using cut [of 16 4] by simp
  finally have "?h = take 8 ?h @ take 4 (drop 8 ?h) @ take 4 (drop 12 ?h) @ take 4 (drop 16 ?h) @
    drop 20 ?h" .
  then show ?thesis by (simp add: str_uuid_def Let_def)
qed

lemma str_uuid_inject:
  assumes "str_uuid n = str_uuid m" and "n < 16 ^ 32" and "m < 16 ^ 32"
  shows "n = m"
proof -
  have "hex_digits 32 n = hex_digits 32 m" unfolding str_uuid_digits assms(1) ..
  from hex_digits_inject [OF this] assms(2,3) show ?thesis by simp
qed

lemma hex_char_plain: "n < 16 \<Longrightarrow> hex_char n \<noteq> CHR ''/'' \<and> hex_char n \<noteq> CHR ''.''"
proof -
  assume "n < 16"
  then have "(of_char (hex_char n) :: nat) = (if n < 10 then 48 + n else 87 + n)"
    by (simp add: hex_char_def)
  then show ?thesis using \<open>n < 16\<close> by (auto split: if_splits)
qed

lemma str_uuid_plain: "CHR ''/'' \<notin> set (str_uuid n)" "CHR ''.'' \<notin> set (str_uuid n)" "length (str_uuid n) = 36"
proof -
  have "CHR ''/'' \<notin> set (hex_digits w n) \<and> CHR ''.'' \<notin> set (hex_digits w n)" for w
  proof (induction w arbitrary: n)
    case (Suc w)
    from hex_char_plain [of "n mod 16"] Suc [of "n div 16"] show ?case
      by (simp add: eq_commute [of "CHR ''/''"] eq_commute [of "CHR ''.''"])
  qed simp
  from this [of 32] show "CHR ''/'' \<notin> set (str_uuid n)" "CHR ''.'' \<notin> set (str_uuid n)"
    "length (str_uuid n) = 36"
    by (auto simp: str_uuid_def Let_def dest!: in_set_takeD in_set_dropD)
qed

text \<open>
  \<open>UUID(text)\<close>: 32 hexadecimal digits, hyphens anywhere.  \<open>None\<close> is \<open>ValueError\<close>.  The braces
  and \<open>urn:\<close> prefix that Python also accepts are not written by \<open>str\<close>.
\<close>

definition hex_value :: "char \<Rightarrow> nat option" where
  "hex_value c =
     (let n = (of_char c :: nat) in
      if 48 \<le> n \<and> n \<le> 57 then Some (n - 48)
      else if 97 \<le> n \<and> n \<le> 102 then Some (n - 87)
      else if 65 \<le> n \<and> n \<le> 70 then Some (n - 55) else None)"

fun parse_hex :: "nat \<Rightarrow> string \<Rightarrow> nat option" where
  "parse_hex acc [] = Some acc"
| "parse_hex acc (c # cs) =
     (case hex_value c of None \<Rightarrow> None | Some v \<Rightarrow> parse_hex (16 * acc + v) cs)"

definition uuid_of_text :: "string \<Rightarrow> uuid option" where
  "uuid_of_text s =
     (let h = filter (\<lambda>c. c \<noteq> CHR ''-'') s in if length h = 32 then parse_hex 0 h else None)"

lemma hex_value_char: "n < 16 \<Longrightarrow> hex_value (hex_char n) = Some n"
  by (simp add: hex_value_def hex_char_def)

lemma hex_char_no_hyphen: "n < 16 \<Longrightarrow> hex_char n \<noteq> CHR ''-''"
proof
  assume "n < 16" and "hex_char n = CHR ''-''"
  then have "hex_value (CHR ''-'') = Some n" by (metis hex_value_char)
  then show False by (simp add: hex_value_def)
qed

lemma parse_hex_append:
  "parse_hex acc (xs @ ys) = (case parse_hex acc xs of None \<Rightarrow> None | Some v \<Rightarrow> parse_hex v ys)"
  by (induction xs arbitrary: acc) (simp_all split: option.splits)

lemma parse_hex_digits: "parse_hex acc (hex_digits w n) = Some (16 ^ w * acc + n mod 16 ^ w)"
proof (induction w arbitrary: n)
  case (Suc w)
  have "n mod 16 ^ Suc w = 16 * (n div 16 mod 16 ^ w) + n mod 16"
    unfolding power_Suc by (rule mod_mult2_eq)
  then show ?case by (simp add: parse_hex_append Suc.IH hex_value_char algebra_simps)
qed simp

lemma hex_digits_no_hyphen: "CHR ''-'' \<notin> set (hex_digits w n)"
proof (induction w arbitrary: n)
  case (Suc w)
  then show ?case using hex_char_no_hyphen [of "n mod 16"] by (simp add: eq_commute)
qed simp

lemma filter_no_hyphen: "CHR ''-'' \<notin> set h \<Longrightarrow> filter (\<lambda>c. c \<noteq> CHR ''-'') h = h"
  by (auto simp: filter_id_conv)

lemma str_uuid_hyphens: "filter (\<lambda>c. c \<noteq> CHR ''-'') (str_uuid n) = hex_digits 32 n"
proof -
  have part: "filter (\<lambda>c. c \<noteq> CHR ''-'') (take k (drop j (hex_digits 32 n))) =
      take k (drop j (hex_digits 32 n))" for k j
    using hex_digits_no_hyphen [of 32 n]
    by (intro filter_no_hyphen) (blast dest: in_set_takeD in_set_dropD)
  have last_part: "filter (\<lambda>c. c \<noteq> CHR ''-'') (drop 20 (hex_digits 32 n)) = drop 20 (hex_digits 32 n)"
    using hex_digits_no_hyphen [of 32 n] by (intro filter_no_hyphen) (blast dest: in_set_dropD)
  have "filter (\<lambda>c. c \<noteq> CHR ''-'') (str_uuid n) =
      (let s = str_uuid n in take 8 s @ take 4 (drop 9 s) @ take 4 (drop 14 s) @
        take 4 (drop 19 s) @ drop 24 s)"
    using part [of 8 0] part [of 4 8] part [of 4 12] part [of 4 16] last_part
    by (simp add: str_uuid_def Let_def)
  then show ?thesis by (simp add: str_uuid_digits)
qed

lemma uuid_of_str_uuid: "n < 16 ^ 32 \<Longrightarrow> uuid_of_text (str_uuid n) = Some n"
  by (simp add: uuid_of_text_def Let_def str_uuid_hyphens parse_hex_digits)

end
