(* ===== verification/FileStore.thy ===== *)
theory FileStore
  imports Database Identifiers
begin

text \<open>
  Uploaded files: the validator of \<open>app/validators/file_validator.py\<close> and the local storage
  backend of \<open>app/storage/local.py\<close>.  Bytes are a \<open>string\<close> (a list of 8-bit characters).

  \<open>zipfile.ZipFile\<close> is an argument of the validator's model: \<open>unzip content\<close> is \<open>None\<close> when
  opening the archive raises \<open>BadZipFile\<close>, else the members in the order of \<open>infolist()\<close>,
  each with the outcome of reading it.
\<close>

subsection \<open>Paths\<close>

fun split_on :: "char \<Rightarrow> string \<Rightarrow> string list" where
  "split_on c [] = [[]]"
| "split_on c (x # xs) =
     (if x = c then [] # split_on c xs
      else case split_on c xs of [] \<Rightarrow> [[x]] | w # ws \<Rightarrow> (x # w) # ws)"

fun contains :: "string \<Rightarrow> string \<Rightarrow> bool" where
  "contains pat [] = (pat = [])"
| "contains pat (c # cs) = (prefix pat (c # cs) \<or> contains pat cs)"

text \<open>The components of a POSIX path after its root; \<open>Path(s).name\<close> is the last one.\<close>

definition path_parts :: "string \<Rightarrow> string list" where
  "path_parts s = filter (\<lambda>p. p \<noteq> [] \<and> p \<noteq> ''.'') (split_on CHR ''/'' s)"

definition path_name :: "string \<Rightarrow> string" where
  "path_name s = (if path_parts s = [] then [] else last (path_parts s))"

text \<open>
  \<open>Path(s).suffix\<close>: the name from its last dot on, unless that dot is the first or the last
  character of the name.
\<close>

definition path_suffix :: "string \<Rightarrow> string" where
  "path_suffix s =
     (let name = path_name s
      in case after_last ''.'' name of
           None \<Rightarrow> []
         | Some t \<Rightarrow> if t \<noteq> [] \<and> length t + 1 < length name then CHR ''.'' # t else [])"

subsection \<open>Validation\<close>

definition allowed_extensions :: "string list" where
  "allowed_extensions = [''.jpg'', ''.png'', ''.bmp'', ''.jpeg'', ''.doc'', ''.docx'', ''.pdf'',
     ''.xls'', ''.xlsx'', ''.zip'', ''.rar'', ''.7z'']"

definition blocked_extensions :: "string list" where
  "blocked_extensions = [''.exe'', ''.bat'', ''.cmd'', ''.com'', ''.scr'', ''.pif'', ''.ps1'',
     ''.psm1'', ''.vbs'', ''.vbe'', ''.js'', ''.jse'', ''.wsf'', ''.wsh'', ''.msi'', ''.msp'',
     ''.dll'', ''.sh'', ''.bash'', ''.zsh'', ''.jar'', ''.app'']"

definition mime_types_by_extension :: "(string \<times> string list) list" where
  "mime_types_by_extension =
     [(''.pdf'', [''application/pdf'']),
      (''.doc'', [''application/msword'']),
      (''.docx'', [''application/vnd.openxmlformats-officedocument.wordprocessingml.document'']),
      (''.xls'', [''application/vnd.ms-excel'']),
      (''.xlsx'', [''application/vnd.openxmlformats-officedocument.spreadsheetml.sheet'']),
      (''.jpg'', [''image/jpeg'']),
      (''.jpeg'', [''image/jpeg'']),
      (''.png'', [''image/png'']),
      (''.bmp'', [''image/bmp'', ''image/x-ms-bmp'']),
      (''.zip'', [''application/zip'', ''application/x-zip-compressed'']),
      (''.rar'', [''application/vnd.rar'', ''application/x-rar-compressed'',
                  ''application/octet-stream'']),
      (''.7z'', [''application/x-7z-compressed'', ''application/octet-stream''])]"

definition ole_signature :: string where
  "ole_signature = [CHR 0xD0, CHR 0xCF, CHR 0x11, CHR 0xE0, CHR 0xA1, CHR 0xB1, CHR 0x1A, CHR 0xE1]"

definition zip_signatures :: "string list" where
  "zip_signatures = [''PK'' @ [CHR 0x03, CHR 0x04], ''PK'' @ [CHR 0x05, CHR 0x06],
     ''PK'' @ [CHR 0x07, CHR 0x08]]"

definition magic_signatures_by_extension :: "(string \<times> string list) list" where
  "magic_signatures_by_extension =
     [(''.pdf'', [CHR 0x25 # ''PDF'']),
      (''.doc'', [ole_signature]),
      (''.docx'', zip_signatures),
      (''.xls'', [ole_signature]),
      (''.xlsx'', zip_signatures),
      (''.jpg'', [[CHR 0xFF, CHR 0xD8, CHR 0xFF]]),
      (''.jpeg'', [[CHR 0xFF, CHR 0xD8, CHR 0xFF]]),
      (''.png'', [CHR 0x89 # ''PNG'' @ [CHR 0x0D, CHR 0x0A, CHR 0x1A, CHR 0x0A]]),
      (''.bmp'', [''BM'']),
      (''.zip'', zip_signatures),
      (''.rar'', [''Rar!'' @ [CHR 0x1A, CHR 0x07, CHR 0x00],
                  ''Rar!'' @ [CHR 0x1A, CHR 0x07, CHR 0x01, CHR 0x00]]),
      (''.7z'', [''7z'' @ [CHR 0xBC, CHR 0xAF, CHR 0x27, CHR 0x1C]])]"

definition zip_scanned_extensions :: "string list" where
  "zip_scanned_extensions = [''.zip'', ''.docx'', ''.xlsx'']"

definition max_zip_scan_depth :: nat where
  "max_zip_scan_depth = 3"

definition file_validation_error :: "string \<Rightarrow> py_error" where
  "file_validation_error reason = ValidationFailed ''Upload format is not allowed''
     [(''rejection_reason'', PStr reason),
      (''rejection_message'', PStr ''Upload format is not allowed'')]"

text \<open>\<open>except FileValidationError as exc\<close>: the reason the exception carries.\<close>

definition rejection_reason :: "py_error \<Rightarrow> string option" where
  "rejection_reason err =
     (case err of
        ValidationFailed _ data \<Rightarrow>
          (case map_of data ''rejection_reason'' of Some (PStr r) \<Rightarrow> Some r | _ \<Rightarrow> None)
      | _ \<Rightarrow> None)"

datatype member_read = Content string | BadMember | Unreadable

type_synonym archive_reader = "string \<Rightarrow> (string \<times> member_read) list option"

definition file_extension :: "string \<Rightarrow> string" where
  "file_extension filename = lower (path_suffix filename)"

definition normalize_mime :: "string option \<Rightarrow> string" where
  "normalize_mime content_type =
     lower (strip (hd (split_on CHR '';'' (case content_type of None \<Rightarrow> [] | Some c \<Rightarrow> c))))"

definition scan_zip_member_name :: "string \<Rightarrow> py_error + unit" where
  "scan_zip_member_name filename =
     (let normalized = map (\<lambda>c. if c = CHR 0x5C then CHR ''/'' else c) filename
      in guard (\<forall>part \<in> set (path_parts normalized). file_extension part \<notin> set blocked_extensions)
           (file_validation_error ''zip_contains_blocked_extension''))"

text \<open>One pass over the members; \<open>scan\<close> is the recursive call for a nested archive.\<close>

fun scan_members ::
  "(string \<Rightarrow> py_error + unit) \<Rightarrow> (string \<times> member_read) list \<Rightarrow> py_error + unit" where
  "scan_members scan [] = Inr ()"
| "scan_members scan ((name, body) # rest) =
     attempt (scan_zip_member_name name) (\<lambda>_.
     attempt (if file_extension name = ''.zip''
        then (case body of
                Content c \<Rightarrow> scan c
              | BadMember \<Rightarrow> Inl (file_validation_error ''zip_invalid'')
              | Unreadable \<Rightarrow> Inl (RuntimeError ''archive member cannot be read''))
        else Inr ()) (\<lambda>_.
     scan_members scan rest))"

text \<open>
  \<open>_scan_zip_content(content, depth)\<close>, counted from the other end: \<open>room\<close> is
  \<open>MAX_ZIP_SCAN_DEPTH + 1 - depth\<close>, and no room is the error of a depth above the maximum.
\<close>

primrec scan_zip_content :: "archive_reader \<Rightarrow> nat \<Rightarrow> string \<Rightarrow> py_error + unit" where
  "scan_zip_content unzip 0 content = Inl (file_validation_error ''zip_nested_too_deep'')"
| "scan_zip_content unzip (Suc room) content =
     (case unzip content of
        None \<Rightarrow> Inl (file_validation_error ''zip_invalid'')
      | Some entries \<Rightarrow> scan_members (scan_zip_content unzip room) entries)"

definition validate_file ::
  "archive_reader \<Rightarrow> string \<Rightarrow> string option \<Rightarrow> string \<Rightarrow> py_error + unit" where
  "validate_file unzip filename content_type content =
     (let ext = file_extension filename
      in attempt (guard (ext \<in> set allowed_extensions)
            (file_validation_error ''extension_not_allowed'')) (\<lambda>_.
         attempt (guard (ext \<notin> set blocked_extensions)
            (file_validation_error ''extension_blocked'')) (\<lambda>_.
         attempt (guard (normalize_mime content_type \<in> set (the (map_of mime_types_by_extension ext)))
            (file_validation_error ''mime_not_allowed'')) (\<lambda>_.
         attempt (guard (\<exists>sig \<in> set (the (map_of magic_signatures_by_extension ext)).
             starts_with content sig) (file_validation_error ''magic_mismatch'')) (\<lambda>_.
         if ext \<in> set zip_scanned_extensions
         then scan_zip_content unzip (max_zip_scan_depth + 1) content else Inr ())))))"

subsection \<open>Storage\<close>

text \<open>
  The files below the storage root by their key, and the supply of the backend's own
  \<open>uuid_factory\<close>.  Links inside the root and failures of the disk are not modelled.
\<close>

record file_store =
  stored_files :: "string \<Rightarrow> string option"
  next_file_uuid :: uuid

definition storage_security_error :: py_error where
  "storage_security_error = ValueError ''unsafe path''"

definition safe_segment :: "string \<Rightarrow> py_error + string" where
  "safe_segment value =
     (if value = [] \<or> contains ''/'' value \<or> contains [CHR 0x5C] value \<or> contains ''..'' value
      then Inl storage_security_error else Inr value)"

definition safe_extension :: "string \<Rightarrow> py_error + string" where
  "safe_extension filename =
     (if filename = [] \<or> contains ''/'' filename \<or> contains [CHR 0x5C] filename
         \<or> contains ''..'' filename
      then Inl storage_security_error
      else let suffix = path_suffix filename
           in if suffix = [] then Inl storage_security_error
              else Inr (lower (dropWhile (\<lambda>c. c = CHR ''.'') suffix)))"

text \<open>The relative path of a key, as the parts below the root.\<close>

definition safe_key :: "string \<Rightarrow> py_error + string list" where
  "safe_key storage_key =
     (if storage_key = [] \<or> contains [CHR 0x5C] storage_key then Inl storage_security_error
      else if hd storage_key = CHR ''/'' then Inl storage_security_error
      else if \<exists>part \<in> set (path_parts storage_key). contains ''..'' part
        then Inl storage_security_error
      else Inr (path_parts storage_key))"

fun join_parts :: "string list \<Rightarrow> string" where
  "join_parts [] = ''.''"
| "join_parts [p] = p"
| "join_parts (p # q # ps) = p @ ''/'' @ join_parts (q # ps)"

text \<open>\<open>PurePosixPath(...).as_posix()\<close> of the three components.\<close>

definition build_storage_key :: "string \<Rightarrow> string \<Rightarrow> uuid \<Rightarrow> string \<Rightarrow> string" where
  "build_storage_key sub_id phase_id file_uuid ext =
     sub_id @ ''/'' @ phase_id @ ''/'' @ str_uuid file_uuid @ ''.'' @ ext"

definition storage_save ::
  "string \<Rightarrow> string \<Rightarrow> string \<Rightarrow> string \<Rightarrow> file_store \<Rightarrow> py_error + (string \<times> file_store)" where
  "storage_save sub_id phase_id filename content fs =
     attempt (safe_segment sub_id) (\<lambda>safe_sub.
     attempt (safe_segment phase_id) (\<lambda>safe_phase.
     attempt (safe_extension filename) (\<lambda>ext.
     let key = build_storage_key safe_sub safe_phase (next_file_uuid fs) ext
     in attempt (safe_key key) (\<lambda>parts.
        Inr (key, fs\<lparr> stored_files := (stored_files fs)(join_parts parts \<mapsto> content),
                      next_file_uuid := Suc (next_file_uuid fs) \<rparr>)))))"

definition storage_read :: "string \<Rightarrow> file_store \<Rightarrow> py_error + string" where
  "storage_read storage_key fs =
     attempt (safe_key storage_key) (\<lambda>parts.
     present (stored_files fs (join_parts parts)) (RuntimeError ''file not found''))"

definition storage_delete :: "string \<Rightarrow> file_store \<Rightarrow> py_error + file_store" where
  "storage_delete storage_key fs =
     attempt (safe_key storage_key) (\<lambda>parts.
     Inr (fs\<lparr>stored_files := (stored_files fs)(join_parts parts := None)\<rparr>))"

text \<open>
  \<open>_save_content\<close> of the services turns a \<open>StorageSecurityError\<close> into a validation error;
  \<open>_delete_saved_contents\<close> goes on after a failing deletion.
\<close>

definition save_content ::
  "uuid \<Rightarrow> uuid \<Rightarrow> string \<Rightarrow> string \<Rightarrow> file_store \<Rightarrow> py_error + (string \<times> file_store)" where
  "save_content sid phase_id filename content fs =
     (case storage_save (str_uuid sid) (str_uuid phase_id) filename content fs of
        Inl _ \<Rightarrow> Inl (ValidationFailed ''File name contains unsafe path characters'' [])
      | Inr r \<Rightarrow> Inr r)"

fun delete_saved_contents :: "string list \<Rightarrow> file_store \<Rightarrow> file_store" where
  "delete_saved_contents [] fs = fs"
| "delete_saved_contents (k # ks) fs =
     delete_saved_contents ks (case storage_delete k fs of Inl _ \<Rightarrow> fs | Inr fs' \<Rightarrow> fs')"

end
