(* ===== verification/Payments.thy ===== *)
theory Payments
  imports Phases FileStore
begin

text \<open>
  Payments (\<open>app/services/payments.py\<close>): a payment with its vouchers, the confirmation of a
  payment above the budget, the reversal of a payment, payment numbers, and the spent amounts
  of the sub project and the main project, recomputed from the payments after each change.
\<close>

subsection \<open>Payment numbers\<close>

definition payment_number :: "string \<Rightarrow> int \<Rightarrow> string" where
  "payment_number project_no sequence = project_no @ ''-PAY-'' @ format_padded 3 sequence"

definition payment_sequence_of :: "string \<Rightarrow> int option" where
  "payment_sequence_of payment_no = Option.bind (after_last ''-PAY-'' payment_no) py_int"

definition next_sequence_from_payment_numbers :: "string list \<Rightarrow> int" where
  "next_sequence_from_payment_numbers numbers =
     max_sequence_from payment_sequence_of 0 numbers + 1"

subsection \<open>Repository\<close>

definition get_payment_phase_row :: "uuid \<Rightarrow> database \<Rightarrow> phase option" where
  "get_payment_phase_row sid db =
     find (\<lambda>p. ph_sub_project_id p = sid \<and> ph_phase_no p = 5) (phases db)"

definition get_payment_row :: "uuid \<Rightarrow> database \<Rightarrow> payment option" where
  "get_payment_row k db = find_row pay_id k (payments db)"

definition get_reversal_for_payment :: "uuid \<Rightarrow> database \<Rightarrow> payment option" where
  "get_reversal_for_payment k db =
     find (\<lambda>p. pay_reverses_payment_id p = Some k \<and> pay_payment_type p = payment_type.reversal)
       (payments db)"

definition repo_list_payments ::
  "uuid \<Rightarrow> payment_type option \<Rightarrow> int \<Rightarrow> int \<Rightarrow> database \<Rightarrow> payment list \<times> nat" where
  "repo_list_payments sid kind page page_size db =
     (let rows = filter (\<lambda>p. pay_sub_project_id p = sid
             \<and> (kind = None \<or> kind = Some (pay_payment_type p))) (payments db);
          ordered = sorted_desc (\<lambda>p. (pay_payment_date p, pay_created_at p, pay_payment_no p)) rows;
          start = (page - 1) * page_size
      in (py_slice ordered start (start + page_size), length ordered))"

definition list_group_documents :: "uuid \<Rightarrow> uuid \<Rightarrow> string \<Rightarrow> database \<Rightarrow> document list" where
  "list_group_documents sid phase_id doc_type db =
     sorted_desc doc_version (filter (\<lambda>d. doc_sub_project_id d = sid \<and> doc_phase_id d = phase_id
        \<and> doc_doc_type d = doc_type) (documents db))"

text \<open>\<open>max((document.version for document in group), default=0)\<close>.\<close>

definition latest_version :: "document list \<Rightarrow> int" where
  "latest_version docs = (if docs = [] then 0 else Max (set (map doc_version docs)))"

definition next_payment_sequence :: "uuid \<Rightarrow> database \<Rightarrow> int" where
  "next_payment_sequence sid db = next_sequence_from_payment_numbers
     (map pay_payment_no (filter (\<lambda>p. pay_sub_project_id p = sid) (payments db)))"

text \<open>An amount that already has two places goes through \<open>to_money\<close> as \<open>c * 10^-2\<close>.\<close>

definition requantize :: "money \<Rightarrow> py_error + money" where
  "requantize c = to_money (Dec c (-2))"

definition payment_total :: "uuid \<Rightarrow> database \<Rightarrow> money" where
  "payment_total sid db =
     sum_list (map pay_amount (filter (\<lambda>p. pay_sub_project_id p = sid) (payments db)))"

definition sub_spent_total :: "uuid \<Rightarrow> database \<Rightarrow> money" where
  "sub_spent_total main_id db =
     sum_list (map sp_spent_amount (filter (\<lambda>s. sp_main_project_id s = main_id) (sub_projects db)))"

definition sum_payments :: "uuid \<Rightarrow> database \<Rightarrow> py_error + money" where
  "sum_payments sid db = requantize (payment_total sid db)"

definition sum_sub_project_spent :: "uuid \<Rightarrow> database \<Rightarrow> py_error + money" where
  "sum_sub_project_spent main_id db = requantize (sub_spent_total main_id db)"

definition add_payment :: "payment \<Rightarrow> database \<Rightarrow> database" where
  "add_payment p db = db\<lparr>payments := payments db @ [p]\<rparr>"

definition add_document :: "document \<Rightarrow> database \<Rightarrow> database" where
  "add_document d db = db\<lparr>documents := documents db @ [d]\<rparr>"

definition add_payment_voucher :: "payment_voucher \<Rightarrow> database \<Rightarrow> database" where
  "add_payment_voucher v db = db\<lparr>payment_vouchers := payment_vouchers db @ [v]\<rparr>"

subsection \<open>Checks\<close>

definition ensure_can_create_payment :: "user \<Rightarrow> py_error + unit" where
  "ensure_can_create_payment actor =
     guard (u_role actor \<in> {user_role.admin, user_role.finance_manager}) PermissionDenied"

definition locked_payment_sub_project_statuses :: "sub_project_status set" where
  "locked_payment_sub_project_statuses = {sub_project_status.completed, sub_project_status.closed,
     sub_project_status.terminated}"

definition ensure_sub_project_allows_payment :: "sub_project \<Rightarrow> py_error + unit" where
  "ensure_sub_project_allows_payment s =
     guard (sp_status s \<notin> locked_payment_sub_project_statuses)
       (BusinessError 3003 ''A finished sub project takes no payments''
          [(''status'', PStr (sub_status_value (sp_status s)))])"

definition get_existing_payment_phase :: "uuid \<Rightarrow> database \<Rightarrow> py_error + phase" where
  "get_existing_payment_phase sid db =
     present (get_payment_phase_row sid db) (ResourceNotFound ''Payment phase does not exist'')"

definition clean_amount :: "decimal \<Rightarrow> py_error + money" where
  "clean_amount amount =
     attempt (to_money amount) (\<lambda>cleaned.
     attempt (guard (0 < cleaned)
       (ValidationFailed ''Payment amount must be greater than zero'' [])) (\<lambda>_. Inr cleaned))"

definition clean_payment_page :: "int \<Rightarrow> int \<Rightarrow> py_error + (int \<times> int)" where
  "clean_payment_page page page_size =
     attempt (guard (1 \<le> page) (ValidationFailed ''Page must be greater than zero'' [])) (\<lambda>_.
     attempt (guard (1 \<le> page_size \<and> page_size \<le> 100)
       (ValidationFailed ''Page size must be between 1 and 100'' [])) (\<lambda>_. Inr (page, page_size)))"

record voucher_upload =
  vu_file_name :: string
  vu_content_type :: "string option"
  vu_content :: string

text \<open>What the service is constructed with, beside its repository and storage.\<close>

record upload_policy =
  max_file_size :: int
  zip_reader :: archive_reader

definition clean_file_name :: "string \<Rightarrow> py_error + string" where
  "clean_file_name file_name =
     attempt (guard (strip file_name \<noteq> []) (ValidationFailed ''File name is required'' []))
       (\<lambda>_. Inr (strip file_name))"

definition ensure_file_size_allowed :: "upload_policy \<Rightarrow> string \<Rightarrow> py_error + unit" where
  "ensure_file_size_allowed policy content =
     guard (int (length content) \<le> max_file_size policy)
       (ValidationFailed ''File exceeds maximum upload size'' [])"

definition clean_voucher_upload :: "upload_policy \<Rightarrow> voucher_upload \<Rightarrow> py_error + voucher_upload" where
  "clean_voucher_upload policy upload =
     attempt (clean_file_name (vu_file_name upload)) (\<lambda>file_name.
     attempt (ensure_file_size_allowed policy (vu_content upload)) (\<lambda>_.
     attempt (validate_file (zip_reader policy) file_name (vu_content_type upload)
        (vu_content upload)) (\<lambda>_.
     Inr (upload\<lparr>vu_file_name := file_name\<rparr>))))"

definition clean_voucher_uploads ::
  "upload_policy \<Rightarrow> voucher_upload list \<Rightarrow> py_error + voucher_upload list" where
  "clean_voucher_uploads policy uploads =
     attempt (guard (uploads \<noteq> []) (ValidationFailed ''Payment voucher is required'' [])) (\<lambda>_.
     traverse (clean_voucher_upload policy) uploads)"

text \<open>Whether the payment exceeds the budget; an error when that is not confirmed.\<close>

definition ensure_budget_confirmation ::
  "sub_project \<Rightarrow> money \<Rightarrow> bool \<Rightarrow> string option \<Rightarrow> py_error + bool" where
  "ensure_budget_confirmation s amount confirm reason =
     attempt (requantize (sp_spent_amount s + amount)) (\<lambda>new_total.
     if new_total \<le> sp_budget s then Inr False
     else if confirm \<and> reason \<notin> {None, Some []} then Inr True
     else Inl (BusinessError 3001 ''Payment exceeds sub project budget and requires confirmation''
       [(''budget'', PMoney (sp_budget s)), (''current_spent'', PMoney (sp_spent_amount s)),
        (''this_amount'', PMoney amount), (''over_amount'', PMoney (new_total - sp_budget s))]))"

subsection \<open>Vouchers\<close>

definition voucher_document ::
  "env \<Rightarrow> user \<Rightarrow> uuid \<Rightarrow> uuid \<Rightarrow> voucher_upload \<Rightarrow> string \<Rightarrow> int \<Rightarrow> uuid \<Rightarrow> uuid \<Rightarrow> document" where
  "voucher_document e actor sid phase_id upload storage_key version new_id no =
     \<lparr> doc_id = new_id, doc_no = no, doc_sub_project_id = sid, doc_phase_id = phase_id,
       doc_acceptance_step_id = None, doc_doc_type = ''payment_voucher'',
       doc_file_name = vu_file_name upload, doc_display_name = vu_file_name upload,
       doc_file_path = storage_key, doc_file_size = int (length (vu_content upload)),
       doc_version = version, doc_is_latest = True, doc_is_deleted = False,
       doc_scan_status = scan_status.clean, doc_scan_result = None, doc_scanned_at = None,
       doc_uploader_id = u_id actor, doc_created_at = clock e, doc_updated_at = clock e \<rparr>"

text \<open>
  The loop of \<open>_create_voucher_documents\<close>.  Beside its outcome it returns the keys saved so
  far, the caller's list \<open>saved_storage_keys\<close> that the loop appends to, and the storage.
\<close>

fun create_voucher_documents ::
  "env \<Rightarrow> user \<Rightarrow> uuid \<Rightarrow> uuid \<Rightarrow> int \<Rightarrow> voucher_upload list \<Rightarrow> string list \<Rightarrow> database
     \<Rightarrow> file_store \<Rightarrow> (py_error + (document list \<times> database)) \<times> string list \<times> file_store" where
  "create_voucher_documents e actor sid phase_id version [] saved db fs = (Inr ([], db), saved, fs)"
| "create_voucher_documents e actor sid phase_id version (u # us) saved db fs =
     (case save_content sid phase_id (vu_file_name u) (vu_content u) fs of
        Inl err \<Rightarrow> (Inl err, saved, fs)
      | Inr (key, fs) \<Rightarrow>
          let (new_id, db) = uuid4 db;
              (no, db) = uuid4 db;
              d = voucher_document e actor sid phase_id u key (version + 1) new_id no;
              (result, saved, fs) =
                create_voucher_documents e actor sid phase_id (version + 1) us (saved @ [key]) db fs
          in (attempt result (\<lambda>(ds, db). Inr (d # ds, db)), saved, fs))"

fun attach_vouchers :: "uuid \<Rightarrow> document list \<Rightarrow> database \<Rightarrow> database" where
  "attach_vouchers payment_id [] db = db"
| "attach_vouchers payment_id (d # ds) db =
     (let db = add_document d db;
          (new_id, db) = uuid4 db
      in attach_vouchers payment_id ds (add_payment_voucher
           \<lparr> pv_id = new_id, pv_payment_id = payment_id, pv_document_id = doc_id d \<rparr> db))"

subsection \<open>Spending\<close>

definition recalculate_spending ::
  "env \<Rightarrow> uuid \<Rightarrow> uuid \<Rightarrow> database \<Rightarrow> py_error + database" where
  "recalculate_spending e sid main_id db =
     attempt (sum_payments sid db) (\<lambda>spent.
     let db = save_sub_project sid (\<lambda>r. r\<lparr>sp_spent_amount := spent, sp_updated_at := clock e\<rparr>) db
     in attempt (sum_sub_project_spent main_id db) (\<lambda>main_spent.
        Inr (save_main_project main_id
               (\<lambda>r. r\<lparr>mp_spent_amount := main_spent, mp_updated_at := clock e\<rparr>) db)))"

definition send_payment_notifications ::
  "env \<Rightarrow> payment \<Rightarrow> sub_project \<Rightarrow> main_project \<Rightarrow> bool \<Rightarrow> database \<Rightarrow> database" where
  "send_payment_notifications e p s main over_budget db =
     (let payload = [(''payment_id'', PUuid (pay_id p)), (''payment_no'', PStr (pay_payment_no p)),
            (''sub_project_id'', PUuid (sp_id s)), (''amount'', PMoney (pay_amount p))];
          db = notify e ''payment_created'' [sp_manager_id s] (pay_id p) payload db
      in if \<not> over_budget then db
         else notify e ''over_budget_warning''
           (list_active_user_ids_by_role user_role.admin None None db
            @ list_active_user_ids_by_role user_role.dept_manager None (Some (mp_dept_id main)) db)
           (pay_id p) (payload @ [(''budget'', PMoney (sp_budget s)),
             (''spent_amount'', PMoney (sp_spent_amount s))]) db)"

subsection \<open>Creating a payment\<close>

record payment_create =
  pc_amount :: decimal
  pc_payment_date :: date
  pc_voucher_files :: "voucher_upload list"
  pc_remark :: "string option"
  pc_confirm_over_budget :: bool
  pc_over_budget_reason :: "string option"

text \<open>The checks before the first file is saved, in their order.\<close>

definition check_payment ::
  "user \<Rightarrow> upload_policy \<Rightarrow> uuid \<Rightarrow> payment_create \<Rightarrow> database
     \<Rightarrow> py_error + (money \<times> voucher_upload list \<times> sub_project \<times> main_project \<times> phase \<times> bool)" where
  "check_payment actor policy sid payload db =
     attempt (ensure_can_create_payment actor) (\<lambda>_.
     attempt (clean_amount (pc_amount payload)) (\<lambda>amount.
     attempt (clean_voucher_uploads policy (pc_voucher_files payload)) (\<lambda>uploads.
     attempt (get_existing_sub_project sid db) (\<lambda>s.
     attempt (ensure_sub_project_allows_payment s) (\<lambda>_.
     attempt (get_existing_project (sp_main_project_id s) db) (\<lambda>main.
     attempt (get_existing_payment_phase (sp_id s) db) (\<lambda>p.
     attempt (ensure_budget_confirmation s amount (pc_confirm_over_budget payload)
        (clean_optional_text (pc_over_budget_reason payload))) (\<lambda>over.
     Inr (amount, uploads, s, main, p, over)))))))))"

definition new_payment ::
  "env \<Rightarrow> user \<Rightarrow> sub_project \<Rightarrow> money \<Rightarrow> date \<Rightarrow> string option \<Rightarrow> payment_type \<Rightarrow> uuid option
     \<Rightarrow> uuid \<Rightarrow> database \<Rightarrow> payment" where
  "new_payment e actor s amount paid_on remark kind reverses new_id db =
     \<lparr> pay_id = new_id,
       pay_payment_no = payment_number (sp_project_no s) (next_payment_sequence (sp_id s) db),
       pay_sub_project_id = sp_id s, pay_amount = amount, pay_payment_date = paid_on,
       pay_remark = remark, pay_payment_type = kind, pay_reverses_payment_id = reverses,
       pay_operator_id = u_id actor, pay_created_at = clock e \<rparr>"

text \<open>
  \<open>create_payment\<close>.  The storage is not part of the transaction, so it is returned with the
  outcome: a failure after a file was saved deletes the saved files.
\<close>

definition create_payment ::
  "env \<Rightarrow> user \<Rightarrow> upload_policy \<Rightarrow> uuid \<Rightarrow> payment_create \<Rightarrow> database \<Rightarrow> file_store
     \<Rightarrow> (py_error + (payment \<times> database)) \<times> file_store" where
  "create_payment e actor policy sid payload db fs =
     (case check_payment actor policy sid payload db of
        Inl err \<Rightarrow> (Inl err, fs)
      | Inr (amount, uploads, s, main, ph, over) \<Rightarrow>
          let (new_id, db) = uuid4 db;
              p = new_payment e actor s amount (pc_payment_date payload)
                (clean_optional_text (pc_remark payload)) payment_type.normal None new_id db;
              group_docs = list_group_documents (sp_id s) (ph_id ph) ''payment_voucher'' db;
              (documents, saved, fs) = create_voucher_documents e actor (sp_id s) (ph_id ph)
                (latest_version group_docs) uploads [] db fs
          in (case attempt documents (\<lambda>(ds, db).
                recalculate_spending e (sp_id s) (mp_id main)
                  (attach_vouchers new_id ds (add_payment p db))) of
                Inl err \<Rightarrow> (Inl err, delete_saved_contents saved fs)
              | Inr db \<Rightarrow>
                  let s = (case get_sub_project sid db of None \<Rightarrow> s | Some row \<Rightarrow> row)
                  in (Inr (p, send_payment_notifications e p s main over db), fs)))"

subsection \<open>Reversing a payment\<close>

definition get_reversible_payment :: "uuid \<Rightarrow> uuid \<Rightarrow> database \<Rightarrow> py_error + payment" where
  "get_reversible_payment sid payment_id db =
     attempt (present (get_payment_row payment_id db)
        (ResourceNotFound ''Original payment does not exist'')) (\<lambda>p.
     attempt (guard (pay_sub_project_id p = sid)
        (ResourceNotFound ''Original payment does not exist'')) (\<lambda>_.
     attempt (guard (pay_payment_type p \<noteq> payment_type.reversal)
        (BusinessError 3003 ''Reversal payment cannot be reversed''
           [(''payment_id'', PUuid (pay_id p)), (''payment_type'', PStr ''reversal'')])) (\<lambda>_. Inr p)))"

definition ensure_not_reversed :: "payment \<Rightarrow> database \<Rightarrow> py_error + unit" where
  "ensure_not_reversed p db =
     (case get_reversal_for_payment (pay_id p) db of
        None \<Rightarrow> Inr ()
      | Some r \<Rightarrow> Inl (BusinessError 3003 ''Payment has already been reversed''
          [(''payment_id'', PUuid (pay_id p)), (''reversal_payment_id'', PUuid (pay_id r))]))"

definition reverse_payment ::
  "env \<Rightarrow> user \<Rightarrow> uuid \<Rightarrow> uuid \<Rightarrow> string option \<Rightarrow> database \<Rightarrow> py_error + (payment \<times> database)" where
  "reverse_payment e actor sid payment_id remark db =
     attempt (ensure_can_create_payment actor) (\<lambda>_.
     attempt (present (clean_optional_text remark)
        (ValidationFailed ''Reversal remark is required'' [])) (\<lambda>cleaned_remark.
     attempt (get_existing_sub_project sid db) (\<lambda>s.
     attempt (get_existing_project (sp_main_project_id s) db) (\<lambda>main.
     attempt (get_reversible_payment (sp_id s) payment_id db) (\<lambda>original.
     attempt (ensure_not_reversed original db) (\<lambda>_.
     attempt (requantize (pay_amount original)) (\<lambda>amount.
     let (new_id, db) = uuid4 db;
         p = new_payment e actor s (- amount) (today e) (Some cleaned_remark)
           payment_type.reversal (Some (pay_id original)) new_id db
     in attempt (recalculate_spending e (sp_id s) (mp_id main) (add_payment p db)) (\<lambda>db.
        Inr (p, db)))))))))"

subsection \<open>Reading\<close>

definition list_payments ::
  "user \<Rightarrow> uuid \<Rightarrow> payment_type option \<Rightarrow> int \<Rightarrow> int \<Rightarrow> database
     \<Rightarrow> py_error + (payment list \<times> nat)" where
  "list_payments actor sid kind page page_size db =
     attempt (clean_payment_page page page_size) (\<lambda>(page, page_size).
     attempt (get_existing_sub_project sid db) (\<lambda>s.
     attempt (ensure_visible view_all_phase_roles actor s db) (\<lambda>_.
     Inr (repo_list_payments (sp_id s) kind page page_size db))))"

definition get_payment :: "user \<Rightarrow> uuid \<Rightarrow> uuid \<Rightarrow> database \<Rightarrow> py_error + payment" where
  "get_payment actor sid payment_id db =
     attempt (get_existing_sub_project sid db) (\<lambda>s.
     attempt (ensure_visible view_all_phase_roles actor s db) (\<lambda>_.
     attempt (present (get_payment_row payment_id db)
        (ResourceNotFound ''Payment does not exist'')) (\<lambda>p.
     attempt (guard (pay_sub_project_id p = sp_id s)
        (ResourceNotFound ''Payment does not exist'')) (\<lambda>_. Inr p))))"

subsection \<open>Write sets\<close>

lemma payment_repository_evolves [evolve_rules]:
  "Payments \<in> W \<Longrightarrow> evolves W a b \<Longrightarrow> evolves W a (add_payment p b)"
  "Documents \<in> W \<Longrightarrow> evolves W a b \<Longrightarrow> evolves W a (add_document d b)"
  "Vouchers \<in> W \<Longrightarrow> evolves W a b \<Longrightarrow> evolves W a (add_payment_voucher v b)"
  by (simp_all add: evolves_def writes_iff add_payment_def add_document_def add_payment_voucher_def)

lemma send_payment_notifications_evolves [evolve_rules]:
  "Notifications \<in> W \<Longrightarrow> Outbox \<in> W \<Longrightarrow> evolves W a db \<Longrightarrow>
     evolves W a (send_payment_notifications e p s main over db)"
  unfolding send_payment_notifications_def
  by (assumption | rule evolve_rules | (simp; fail))+

subsection \<open>Effects\<close>

text \<open>Payment numbers follow the contract of a numbering scheme.\<close>

lemma payment_sequence_of_number:
  assumes "0 < n"
  shows "payment_sequence_of (payment_number base n) = Some n"
proof -
  let ?d = "format_padded 3 n"
  have d: "\<forall>c \<in> set ?d. is_digit c" using assms by (intro format_padded_digits) simp
  then have "\<forall>c \<in> set ?d. c \<noteq> CHR ''-''" by (auto simp: is_digit_def)
  then have "after_last ''-PAY-'' ?d = None" by (intro after_last_other) simp_all
  moreover have "\<not> prefix ''PAY-'' ?d" using d by (auto simp: prefix_def is_digit_def)
  ultimately have "after_last ''-PAY-'' (''-PAY-'' @ ?d) = Some ?d" by simp
  then have "after_last ''-PAY-'' (base @ ''-PAY-'' @ ?d) = Some ?d" by (rule after_last_append)
  moreover have "py_int ?d = Some n" using assms by (intro py_int_format_padded) simp
  ultimately show ?thesis by (simp add: payment_sequence_of_def payment_number_def)
qed

interpretation payment_numbers: numbering payment_number payment_sequence_of
    next_sequence_from_payment_numbers
proof unfold_locales
  fix n :: int and base base' x :: string and xs k
  show "0 < n \<Longrightarrow> payment_sequence_of (payment_number base n) = Some n"
    by (rule payment_sequence_of_number)
  show "payment_number base n = payment_number base' n \<Longrightarrow> base = base'"
    by (simp add: payment_number_def)
  show "0 < next_sequence_from_payment_numbers xs"
    using max_sequence_from_ge [of 0 payment_sequence_of xs]
    by (simp add: next_sequence_from_payment_numbers_def)
  show "x \<in> set xs \<Longrightarrow> payment_sequence_of x = Some k \<Longrightarrow> k < next_sequence_from_payment_numbers xs"
    using max_sequence_from_upper [of x xs payment_sequence_of k 0]
    by (simp add: next_sequence_from_payment_numbers_def)
qed

text \<open>Spending.\<close>

lemma requantize_InrD: "requantize c = Inr c' \<Longrightarrow> c' = c"
  by (auto simp: requantize_def to_money_def quantize_cents_def Let_def split: if_splits)

lemma recalculate_spending_effect:
  assumes "recalculate_spending e sid mid db = Inr db'"
  shows "sub_projects db' = update_rows sp_id sid
      (\<lambda>r. r\<lparr>sp_spent_amount := payment_total sid db, sp_updated_at := clock e\<rparr>) (sub_projects db)"
    and "main_projects db' = update_rows mp_id mid
      (\<lambda>r. r\<lparr>mp_spent_amount := sub_spent_total mid db', mp_updated_at := clock e\<rparr>) (main_projects db)"
    and "evolves {Subs, Mains} db db'"
proof -
  from assms obtain spent main_spent where
    a: "requantize (payment_total sid db) = Inr spent" and
    b: "requantize (sub_spent_total mid (save_sub_project sid
        (\<lambda>r. r\<lparr>sp_spent_amount := spent, sp_updated_at := clock e\<rparr>) db)) = Inr main_spent" and
    c: "db' = save_main_project mid (\<lambda>r. r\<lparr>mp_spent_amount := main_spent, mp_updated_at := clock e\<rparr>)
        (save_sub_project sid (\<lambda>r. r\<lparr>sp_spent_amount := spent, sp_updated_at := clock e\<rparr>) db)"
    unfolding recalculate_spending_def sum_payments_def sum_sub_project_spent_def
    by (elim result_elims) simp
  note spent = requantize_InrD [OF a] requantize_InrD [OF b]
  have same: "sub_spent_total mid db' = sub_spent_total mid (save_sub_project sid
        (\<lambda>r. r\<lparr>sp_spent_amount := spent, sp_updated_at := clock e\<rparr>) db)"
    by (simp add: c sub_spent_total_def save_main_project_def)
  show "sub_projects db' = update_rows sp_id sid
      (\<lambda>r. r\<lparr>sp_spent_amount := payment_total sid db, sp_updated_at := clock e\<rparr>) (sub_projects db)"
    by (simp add: c spent(1) repository_defs)
  show "main_projects db' = update_rows mp_id mid
      (\<lambda>r. r\<lparr>mp_spent_amount := sub_spent_total mid db', mp_updated_at := clock e\<rparr>) (main_projects db)"
    unfolding same spent(2) [symmetric] by (simp add: c repository_defs)
  show "evolves {Subs, Mains} db db'"
    by (simp add: c evolves_iff writes_iff repository_defs)
qed

text \<open>The voucher documents of a payment.\<close>

definition voucher_of :: "uuid \<Rightarrow> uuid \<Rightarrow> document \<Rightarrow> bool" where
  "voucher_of sid phase_id d \<longleftrightarrow> doc_sub_project_id d = sid \<and> doc_phase_id d = phase_id \<and>
     doc_doc_type d = ''payment_voucher'' \<and> doc_is_latest d \<and> \<not> doc_is_deleted d"

lemma create_voucher_documents_effect:
  assumes "create_voucher_documents e actor sid phase_id version us saved db fs =
      (Inr (ds, db'), saved', fs')"
  shows "db' = db\<lparr>next_uuid := next_uuid db + 2 * length us\<rparr> \<and>
    map doc_id ds = map (\<lambda>i. next_uuid db + 2 * i) [0 ..< length us] \<and>
    map doc_version ds = map (\<lambda>i. version + 1 + int i) [0 ..< length us] \<and>
    (\<forall>d \<in> set ds. voucher_of sid phase_id d)"
  using assms
proof (induction us arbitrary: version saved db fs ds db' saved' fs')
  case Nil
  then show ?case by simp
next
  case (Cons u us)
  let ?db = "db\<lparr>next_uuid := Suc (Suc (next_uuid db))\<rparr>"
  from Cons.prems obtain key fs1 d ds1 where
    d: "d = voucher_document e actor sid phase_id u key (version + 1) (next_uuid db)
          (Suc (next_uuid db))" and
    r: "create_voucher_documents e actor sid phase_id (version + 1) us (saved @ [key]) ?db fs1 =
      (Inr (ds1, db'), saved', fs')" and ds: "ds = d # ds1"
    by (auto simp: uuid4_def Let_def result_simps split: sum.splits prod.splits)
  note IH = Cons.IH [OF r]
  have nos: "[0 ..< length (u # us)] = 0 # map Suc [0 ..< length us]"
    by (simp only: length_Cons upt_conv_Cons [OF zero_less_Suc] map_Suc_upt)
  show ?case
    unfolding nos
    using IH by (simp add: ds d voucher_document_def voucher_of_def)
qed

lemma attach_vouchers_effect:
  "documents (attach_vouchers k ds db) = documents db @ ds \<and>
   evolves {Documents, Vouchers} db (attach_vouchers k ds db)"
proof (induction ds arbitrary: db)
  case Nil
  then show ?case by (simp add: evolves_refl)
next
  case (Cons d ds)
  define db1 where "db1 = add_payment_voucher
    \<lparr> pv_id = next_uuid db, pv_payment_id = k, pv_document_id = doc_id d \<rparr>
    (add_document d db\<lparr>next_uuid := Suc (next_uuid db)\<rparr>)"
  have step: "attach_vouchers k (d # ds) db = attach_vouchers k ds db1"
    by (simp add: db1_def uuid4_def Let_def add_document_def)
  have "documents db1 = documents db @ [d]" and "evolves {Documents, Vouchers} db db1"
    by (simp_all add: db1_def evolves_iff writes_iff add_document_def add_payment_voucher_def)
  with Cons.IH [of db1] show ?case
    unfolding step by (auto intro: evolves_trans)
qed

lemma attach_vouchers_documents [simp]: "documents (attach_vouchers k ds db) = documents db @ ds"
  using attach_vouchers_effect [of k ds db] by simp

lemma attach_vouchers_evolves [evolve_rules]:
  "Documents \<in> W \<Longrightarrow> Vouchers \<in> W \<Longrightarrow> evolves W a b \<Longrightarrow> evolves W a (attach_vouchers k ds b)"
  using attach_vouchers_effect [of k ds b] by (auto intro: evolves_trans)

text \<open>What the checks of a payment establish.\<close>

lemma check_payment_effect:
  assumes "check_payment actor policy sid payload db = Inr (amount, uploads, s, main, p, over)"
  shows "u_role actor \<in> {user_role.admin, user_role.finance_manager} \<and>
    to_money (pc_amount payload) = Inr amount \<and> 0 < amount \<and>
    pc_voucher_files payload \<noteq> [] \<and>
    traverse (clean_voucher_upload policy) (pc_voucher_files payload) = Inr uploads \<and>
    get_sub_project sid db = Some s \<and> sp_status s \<notin> locked_payment_sub_project_statuses \<and>
    get_main_project (sp_main_project_id s) db = Some main \<and>
    get_payment_phase_row (sp_id s) db = Some p \<and>
    ensure_budget_confirmation s amount (pc_confirm_over_budget payload)
      (clean_optional_text (pc_over_budget_reason payload)) = Inr over"
  using assms
  unfolding check_payment_def ensure_can_create_payment_def clean_amount_def
    clean_voucher_uploads_def get_existing_sub_project_def ensure_sub_project_allows_payment_def
    get_existing_project_def get_existing_payment_phase_def
  apply (elim attempt_InrE guard_InrE present_InrE)
  apply (simp only: sum.inject prod.inject)
  apply (elim conjE, hypsubst)
  apply (intro conjI)
  apply (assumption | (simp; fail))+
  done

lemma ensure_budget_confirmation_effect:
  assumes "ensure_budget_confirmation s amount confirmed reason = Inr over"
  shows "(over \<longleftrightarrow> sp_budget s < sp_spent_amount s + amount) \<and>
    (over \<longrightarrow> confirmed \<and> reason \<noteq> None)"
  using assms requantize_InrD [of "sp_spent_amount s + amount"]
  unfolding ensure_budget_confirmation_def
  by (elim attempt_InrE) (auto split: if_splits)

lemma create_payment_effect:
  assumes "create_payment e actor policy sid payload db fs = (Inr (p, db'), fs')"
  obtains amount uploads s main ph over where
    "check_payment actor policy sid payload db = Inr (amount, uploads, s, main, ph, over)"
    and "p = new_payment e actor s amount (pc_payment_date payload)
      (clean_optional_text (pc_remark payload)) payment_type.normal None (next_uuid db) db"
    and "payments db' = payments db @ [p]"
    and "sub_projects db' = update_rows sp_id sid (\<lambda>r. r\<lparr>sp_spent_amount := payment_total sid db',
      sp_updated_at := clock e\<rparr>) (sub_projects db)"
    and "main_projects db' = update_rows mp_id (mp_id main) (\<lambda>r. r\<lparr>mp_spent_amount :=
      sub_spent_total (mp_id main) db', mp_updated_at := clock e\<rparr>) (main_projects db)"
    and "\<exists>ds. documents db' = documents db @ ds \<and> length ds = length uploads \<and>
      (\<forall>d \<in> set ds. voucher_of (sp_id s) (ph_id ph) d) \<and>
      fresh_ids doc_id ds (next_uuid db') \<and> (\<forall>d \<in> set ds. next_uuid db < doc_id d) \<and>
      map doc_version ds = map (\<lambda>i. latest_version (list_group_documents (sp_id s) (ph_id ph)
        ''payment_voucher'' db) + 1 + int i) [0 ..< length uploads]"
    and "evolves {Payments, Documents, Vouchers, Subs, Mains, Notifications, Outbox} db db'"
    and "next_uuid db < next_uuid db'"
proof -
  from assms obtain amount uploads s main ph over where
    chk: "check_payment actor policy sid payload db = Inr (amount, uploads, s, main, ph, over)"
    unfolding create_payment_def by (cases "check_payment actor policy sid payload db") auto
  have sid: "sp_id s = sid" using check_payment_effect [OF chk] sub_rows.get_SomeD by blast
  define db1 where "db1 = db\<lparr>next_uuid := Suc (next_uuid db)\<rparr>"
  define q where "q = new_payment e actor s amount (pc_payment_date payload)
    (clean_optional_text (pc_remark payload)) payment_type.normal None (next_uuid db) db1"
  define v where "v = latest_version (list_group_documents (sp_id s) (ph_id ph) ''payment_voucher'' db)"
  have "list_group_documents (sp_id s) (ph_id ph) ''payment_voucher'' db1 =
      list_group_documents (sp_id s) (ph_id ph) ''payment_voucher'' db"
    by (simp add: list_group_documents_def db1_def)
  then have group_eq: "latest_version (list_group_documents (sp_id s) (ph_id ph) ''payment_voucher'' db1) = v"
    by (simp add: v_def)
  have new_id: "uuid4 db = (next_uuid db, db1)" by (simp add: uuid4_def db1_def)
  obtain r saved fs1 where docs0: "create_voucher_documents e actor (sp_id s) (ph_id ph) v uploads []
      db1 fs = (r, saved, fs1)"
    by (rule prod_cases3)
  note run = assms [unfolded create_payment_def chk sum.case prod.case new_id Let_def
      q_def [symmetric] group_eq docs0]
  from run obtain db3 where run2: "attempt r (\<lambda>(ds, d). recalculate_spending e (sp_id s) (mp_id main)
      (attach_vouchers (next_uuid db) ds (add_payment q d))) = Inr db3"
    by (simp split: sum.splits)
  then obtain ds db2 where r: "r = Inr (ds, db2)" and rec: "recalculate_spending e (sp_id s)
      (mp_id main) (attach_vouchers (next_uuid db) ds (add_payment q db2)) = Inr db3"
    by (auto elim: attempt_pairE)
  have docs: "create_voucher_documents e actor (sp_id s) (ph_id ph) v uploads [] db1 fs =
      (Inr (ds, db2), saved, fs1)" using docs0 r by simp
  from run [unfolded run2 sum.case] obtain s' where p: "p = q" and
    db': "db' = send_payment_notifications e q s' main over db3"
    by blast
  note D = create_voucher_documents_effect [OF docs]
  note R = recalculate_spending_effect [OF rec]
  let ?db3 = "attach_vouchers (next_uuid db) ds (add_payment q db2)"
  have n2: "next_uuid db2 = Suc (next_uuid db) + 2 * length uploads"
    using D by (simp add: db1_def)
  have e2: "evolves {Payments, Documents, Vouchers} db2 ?db3"
    by (rule evolve_rules | simp)+
  have e0: "evolves {} db db2" using D by (simp add: evolves_iff writes_iff db1_def)
  have e4: "evolves {Notifications, Outbox} db3 db'"
    unfolding db' by (rule evolve_rules | simp)+
  have "evolves {Payments, Documents, Vouchers, Subs, Mains, Notifications, Outbox} db db'"
    by (rule evolves_trans [OF e4], simp, rule evolves_trans [OF R(3)], simp,
        rule evolves_trans [OF e2], simp, rule evolves_trans [OF e0], simp, rule evolves_refl)
  moreover have pays: "payments db' = payments db @ [q]"
    using e4 R(3) attach_vouchers_effect [of "next_uuid db" ds "add_payment q db2"] e0
    by (simp add: evolves_iff writes_iff add_payment_def)
  moreover have "p = new_payment e actor s amount (pc_payment_date payload)
      (clean_optional_text (pc_remark payload)) payment_type.normal None (next_uuid db) db"
    by (simp add: p q_def new_payment_def next_payment_sequence_def db1_def)
  moreover have "sub_projects db' = update_rows sp_id sid (\<lambda>r. r\<lparr>sp_spent_amount :=
      payment_total sid db', sp_updated_at := clock e\<rparr>) (sub_projects db)"
  proof -
    have "payment_total sid ?db3 = payment_total sid db'"
      using pays e0 attach_vouchers_effect [of "next_uuid db" ds "add_payment q db2"]
      by (simp add: payment_total_def evolves_iff writes_iff add_payment_def)
    then show ?thesis using R(1) e4 e2 e0 by (simp add: sid evolves_iff writes_iff)
  qed
  moreover have "main_projects db' = update_rows mp_id (mp_id main) (\<lambda>r. r\<lparr>mp_spent_amount :=
      sub_spent_total (mp_id main) db', mp_updated_at := clock e\<rparr>) (main_projects db)"
  proof -
    have "sub_spent_total (mp_id main) db3 = sub_spent_total (mp_id main) db'"
      using e4 by (simp add: sub_spent_total_def evolves_iff writes_iff)
    then show ?thesis using R(2) e4 e2 e0 by (simp add: evolves_iff writes_iff)
  qed
  moreover have "\<exists>ds. documents db' = documents db @ ds \<and> length ds = length uploads \<and>
      (\<forall>d \<in> set ds. voucher_of (sp_id s) (ph_id ph) d) \<and>
      fresh_ids doc_id ds (next_uuid db') \<and> (\<forall>d \<in> set ds. next_uuid db < doc_id d) \<and>
      map doc_version ds = map (\<lambda>i. latest_version (list_group_documents (sp_id s) (ph_id ph)
        ''payment_voucher'' db) + 1 + int i) [0 ..< length uploads]"
  proof (intro exI conjI)
    show "documents db' = documents db @ ds"
      using e4 R(3) e0 by (simp add: evolves_iff writes_iff add_payment_def)
    show "length ds = length uploads"
      using D by (metis length_map length_upt minus_nat.diff_0)
    show "\<forall>d \<in> set ds. voucher_of (sp_id s) (ph_id ph) d" using D by blast
    have ids: "doc_id d \<in> set (map (\<lambda>i. next_uuid db1 + 2 * i) [0 ..< length uploads])"
      if "d \<in> set ds" for d
      using that D by (metis list.set_map imageI)
    have mono: "next_uuid db2 \<le> next_uuid db'"
      using e2 R(3) e4 by (simp add: evolves_iff)
    have "distinct (map doc_id ds)" using D by (simp add: distinct_map inj_on_def)
    moreover have "doc_id d < next_uuid db'" if "d \<in> set ds" for d
      using ids [OF that] n2 mono by (auto simp: db1_def)
    ultimately show "fresh_ids doc_id ds (next_uuid db')" by (simp add: fresh_ids_def)
    show "\<forall>d \<in> set ds. next_uuid db < doc_id d"
      using ids by (fastforce simp: db1_def)
    show "map doc_version ds = map (\<lambda>i. latest_version (list_group_documents (sp_id s) (ph_id ph)
        ''payment_voucher'' db) + 1 + int i) [0 ..< length uploads]"
      using D by (simp add: v_def)
  qed
  moreover have "next_uuid db < next_uuid db'"
    using n2 e2 R(3) e4 by (simp add: evolves_iff)
  ultimately show thesis using that [OF chk] unfolding p by blast
qed

lemma reverse_payment_effect:
  assumes "reverse_payment e actor sid k remark db = Inr (p, db')"
  obtains s main q cleaned where
    "u_role actor \<in> {user_role.admin, user_role.finance_manager}"
    and "get_sub_project sid db = Some s"
    and "get_main_project (sp_main_project_id s) db = Some main"
    and "get_payment_row k db = Some q" and "pay_sub_project_id q = sid"
    and "pay_payment_type q \<noteq> payment_type.reversal"
    and "get_reversal_for_payment k db = None"
    and "p = new_payment e actor s (- pay_amount q) (today e) (Some cleaned) payment_type.reversal
      (Some k) (next_uuid db) db"
    and "payments db' = payments db @ [p]"
    and "sub_projects db' = update_rows sp_id sid (\<lambda>r. r\<lparr>sp_spent_amount := payment_total sid db',
      sp_updated_at := clock e\<rparr>) (sub_projects db)"
    and "main_projects db' = update_rows mp_id (mp_id main) (\<lambda>r. r\<lparr>mp_spent_amount :=
      sub_spent_total (mp_id main) db', mp_updated_at := clock e\<rparr>) (main_projects db)"
    and "evolves {Payments, Subs, Mains} db db'"
    and "next_uuid db < next_uuid db'"
proof -
  from assms obtain s main q cleaned amount where
    a: "u_role actor \<in> {user_role.admin, user_role.finance_manager}"
      "get_sub_project sid db = Some s" "get_main_project (sp_main_project_id s) db = Some main"
      "get_payment_row k db = Some q" "pay_sub_project_id q = sp_id s"
      "pay_payment_type q \<noteq> payment_type.reversal" "ensure_not_reversed q db = Inr ()"
      "requantize (pay_amount q) = Inr amount" and
    b: "(let (new_id, db) = uuid4 db;
         p = new_payment e actor s (- amount) (today e) (Some cleaned)
           payment_type.reversal (Some (pay_id q)) new_id db
     in attempt (recalculate_spending e (sp_id s) (mp_id main) (add_payment p db)) (\<lambda>db.
        Inr (p, db))) = Inr (p, db')"
    unfolding reverse_payment_def ensure_can_create_payment_def get_existing_sub_project_def
      get_existing_project_def get_reversible_payment_def
    by (auto elim!: attempt_InrE guard_InrE present_InrE)
  have sid: "sp_id s = sid" using a(2) sub_rows.get_SomeD by blast
  have k: "pay_id q = k" using a(4) unfolding get_payment_row_def by (blast dest: find_row_SomeD)
  define db1 where "db1 = db\<lparr>next_uuid := Suc (next_uuid db)\<rparr>"
  have new_id: "uuid4 db = (next_uuid db, db1)" by (simp add: uuid4_def db1_def)
  have p: "p = new_payment e actor s (- pay_amount q) (today e) (Some cleaned) payment_type.reversal
      (Some k) (next_uuid db) db1" and
    rec: "recalculate_spending e (sp_id s) (mp_id main) (add_payment p db1) = Inr db'"
    using b [unfolded new_id Let_def prod.case] requantize_InrD [OF a(8)] k
    by (auto elim: attempt_InrE)
  note R = recalculate_spending_effect [OF rec]
  have pays: "payments db' = payments db @ [p]"
    using R(3) by (simp add: evolves_iff writes_iff add_payment_def db1_def)
  show thesis
  proof (rule that [of s main q cleaned, OF a(1-4)])
    show "pay_sub_project_id q = sid" "pay_payment_type q \<noteq> payment_type.reversal" using a sid by simp_all
    show "get_reversal_for_payment k db = None"
      using a(7) k by (simp add: ensure_not_reversed_def split: option.splits)
    show "p = new_payment e actor s (- pay_amount q) (today e) (Some cleaned) payment_type.reversal
      (Some k) (next_uuid db) db"
      unfolding p by (simp add: new_payment_def next_payment_sequence_def db1_def)
    show "payments db' = payments db @ [p]" by (rule pays)
    have "payment_total sid (add_payment p db1) = payment_total sid db'"
      using pays by (simp add: payment_total_def add_payment_def db1_def)
    then show "sub_projects db' = update_rows sp_id sid (\<lambda>r. r\<lparr>sp_spent_amount :=
        payment_total sid db', sp_updated_at := clock e\<rparr>) (sub_projects db)"
      using R(1) by (simp add: sid add_payment_def db1_def)
    show "main_projects db' = update_rows mp_id (mp_id main) (\<lambda>r. r\<lparr>mp_spent_amount :=
      sub_spent_total (mp_id main) db', mp_updated_at := clock e\<rparr>) (main_projects db)"
      using R(2) by (simp add: add_payment_def db1_def)
    show "evolves {Payments, Subs, Mains} db db'" "next_uuid db < next_uuid db'"
      using R(3) by (simp_all add: evolves_iff writes_iff add_payment_def db1_def)
  qed
qed

text \<open>
  The storage.  Every key that is saved goes into the list that a failure deletes, so a
  failing payment leaves no file behind that was not there before.
\<close>

lemma delete_saved_subset: "stored_files (delete_saved_contents ks fs) \<subseteq>\<^sub>m stored_files fs"
proof (induction ks arbitrary: fs)
  case (Cons k ks)
  have "stored_files (case storage_delete k fs of Inl _ \<Rightarrow> fs | Inr fs' \<Rightarrow> fs') \<subseteq>\<^sub>m stored_files fs"
    by (auto simp: storage_delete_def result_simps map_le_def split: sum.splits if_splits)
  with Cons.IH show ?case by (auto intro: map_le_trans)
qed simp

lemma delete_saved_removes:
  assumes "k \<in> set ks" and "safe_key k = Inr parts"
  shows "stored_files (delete_saved_contents ks fs) (join_parts parts) = None"
  using assms(1)
proof (induction ks arbitrary: fs)
  case (Cons a ks)
  show ?case
  proof (cases "a = k")
    case True
    have "stored_files (delete_saved_contents ks (fs\<lparr>stored_files :=
        (stored_files fs)(join_parts parts := None)\<rparr>)) (join_parts parts) = None"
      using delete_saved_subset [of ks "fs\<lparr>stored_files := (stored_files fs)(join_parts parts := None)\<rparr>"]
      by (force simp: map_le_def dom_def)
    then show ?thesis by (simp add: True storage_delete_def assms(2))
  next
    case False
    with Cons show ?thesis by auto
  qed
qed simp

lemma save_content_effect:
  assumes "save_content sid phase_id name content fs = Inr (key, fs')"
  shows "\<exists>parts. safe_key key = Inr parts \<and>
    stored_files fs' = (stored_files fs)(join_parts parts \<mapsto> content)"
  using assms unfolding save_content_def storage_save_def
  by (auto simp: Let_def result_simps split: sum.splits)

lemma create_voucher_documents_saved:
  assumes "create_voucher_documents e actor sid phase_id version us saved db fs = (r, saved', fs')"
  shows "set saved \<subseteq> set saved' \<and>
    (\<forall>name c. stored_files fs' name = Some c \<longrightarrow> stored_files fs name = Some c \<or>
       (\<exists>key \<in> set saved'. \<exists>parts. safe_key key = Inr parts \<and> join_parts parts = name))"
  using assms
proof (induction us arbitrary: version saved db fs r)
  case Nil
  then show ?case by simp
next
  case (Cons u us)
  show ?case
  proof (cases "save_content sid phase_id (vu_file_name u) (vu_content u) fs")
    case (Inl err)
    with Cons.prems show ?thesis by simp
  next
    case (Inr kf)
    obtain key fs1 where kf: "kf = (key, fs1)" by (cases kf)
    from save_content_effect [OF Inr [unfolded kf]] obtain parts where
      parts: "safe_key key = Inr parts"
        "stored_files fs1 = (stored_files fs)(join_parts parts \<mapsto> vu_content u)" by blast
    from Cons.prems Inr kf obtain db1 r1 where
      "create_voucher_documents e actor sid phase_id (version + 1) us (saved @ [key]) db1 fs1 =
        (r1, saved', fs')"
      by (auto simp: Let_def split: prod.splits)
    from Cons.IH [OF this] parts show ?thesis by (auto split: if_splits)
  qed
qed

end
