(* ===== verification/Documents.thy ===== *)
theory Documents
  imports Payments
begin

text \<open>
  Documents (\<open>app/services/documents.py\<close>): versioned uploads per sub project, phase and
  document type, soft deletion with the previous version put back, reclassification, and
  download and preview behind the virus scan status.

  The LibreOffice converter and the scan scheduler are arguments; the search scheduler has
  no effect on the database.  A commit is taken to succeed.
\<close>

subsection \<open>Constants and repository\<close>

definition delete_document_roles :: "user_role set" where
  "delete_document_roles = {user_role.admin, user_role.dept_manager, user_role.finance_manager}"

definition multi_instance_document_types :: "string set" where
  "multi_instance_document_types = {''payment_voucher'', ''supplier_quote''}"

definition locked_sub_project_statuses :: "sub_project_status set" where
  "locked_sub_project_statuses = {sub_project_status.completed, sub_project_status.closed,
     sub_project_status.terminated}"

definition office_preview_extensions :: "string set" where
  "office_preview_extensions = {''.doc'', ''.docx'', ''.xls'', ''.xlsx'', ''.ppt'', ''.pptx''}"

definition get_document :: "uuid \<Rightarrow> database \<Rightarrow> document option" where
  "get_document k db = find_row doc_id k (documents db)"

definition save_document :: "uuid \<Rightarrow> (document \<Rightarrow> document) \<Rightarrow> database \<Rightarrow> database" where
  "save_document k f db = db\<lparr>documents := update_rows doc_id k f (documents db)\<rparr>"

text \<open>The same assignment to every document of a list.\<close>

fun save_documents :: "document list \<Rightarrow> (document \<Rightarrow> document) \<Rightarrow> database \<Rightarrow> database" where
  "save_documents [] f db = db"
| "save_documents (d # ds) f db = save_documents ds f (save_document (doc_id d) f db)"

interpretation document_rows: row_store doc_id documents get_document add_document save_document
  by unfold_locales (simp_all add: get_document_def add_document_def save_document_def)

definition repo_list_documents ::
  "uuid \<Rightarrow> uuid option \<Rightarrow> string option \<Rightarrow> bool \<Rightarrow> database \<Rightarrow> document list" where
  "repo_list_documents sid phase_id doc_type include_history db =
     sort_key (\<lambda>d. (doc_doc_type d, - doc_version d))
       (filter (\<lambda>d. doc_sub_project_id d = sid
          \<and> (phase_id = None \<or> phase_id = Some (doc_phase_id d))
          \<and> (doc_type = None \<or> doc_type = Some (doc_doc_type d))
          \<and> (include_history \<or> (doc_is_latest d \<and> \<not> doc_is_deleted d))) (documents db))"

definition list_latest_phase_documents :: "uuid \<Rightarrow> database \<Rightarrow> document list" where
  "list_latest_phase_documents phase_id db =
     sort_key (\<lambda>d. (doc_doc_type d, - doc_version d))
       (filter (\<lambda>d. doc_phase_id d = phase_id \<and> doc_is_latest d) (documents db))"

subsection \<open>Checks\<close>

definition clean_doc_type :: "string \<Rightarrow> py_error + string" where
  "clean_doc_type doc_type =
     attempt (guard (strip doc_type \<noteq> []) (ValidationFailed ''Document type is required'' []))
       (\<lambda>_. Inr (strip doc_type))"

definition clean_optional_doc_type :: "string option \<Rightarrow> py_error + string option" where
  "clean_optional_doc_type doc_type =
     (case doc_type of None \<Rightarrow> Inr None
      | Some t \<Rightarrow> attempt (clean_doc_type t) (\<lambda>c. Inr (Some c)))"

definition clean_display_name :: "string option \<Rightarrow> string \<Rightarrow> string" where
  "clean_display_name display_name file_name =
     (let cleaned = strip (case display_name of None \<Rightarrow> [] | Some s \<Rightarrow> s)
      in if cleaned \<noteq> [] then take 255 cleaned else take 255 file_name)"

definition get_existing_scope ::
  "uuid \<Rightarrow> uuid \<Rightarrow> database \<Rightarrow> py_error + (sub_project \<times> phase)" where
  "get_existing_scope sid phase_id db =
     attempt (get_existing_sub_project sid db) (\<lambda>s.
     attempt (get_existing_phase phase_id db) (\<lambda>p.
     attempt (guard (ph_sub_project_id p = sid) (ResourceNotFound ''Phase does not exist''))
       (\<lambda>_. Inr (s, p))))"

definition ensure_scope_allows_upload :: "sub_project \<Rightarrow> phase \<Rightarrow> py_error + unit" where
  "ensure_scope_allows_upload s p =
     attempt (guard (sp_status s \<notin> locked_sub_project_statuses)
        (BusinessError 3003 ''A finished sub project takes no files''
           [(''status'', PStr (sub_status_value (sp_status s)))])) (\<lambda>_.
     guard (ph_status p \<noteq> phase_status.completed)
        (BusinessError 3003 ''A completed phase takes no files''
           [(''status'', PStr (phase_status_value (ph_status p)))]))"

definition is_multi_instance_document :: "string \<Rightarrow> uuid option \<Rightarrow> bool" where
  "is_multi_instance_document doc_type step =
     (doc_type \<in> multi_instance_document_types \<or>
      (doc_type = ''acceptance_report'' \<and> step \<noteq> None))"

definition ensure_can_delete_document :: "user \<Rightarrow> document \<Rightarrow> sub_project \<Rightarrow> py_error + unit" where
  "ensure_can_delete_document actor d s =
     guard (u_role actor \<in> delete_document_roles \<or> sp_manager_id s = u_id actor
        \<or> doc_uploader_id d = u_id actor) PermissionDenied"

definition ensure_scan_allows_access :: "document \<Rightarrow> py_error + unit" where
  "ensure_scan_allows_access d =
     (let data = [(''document_id'', PUuid (doc_id d)),
            (''scan_result'', PStr (case doc_scan_result d of None \<Rightarrow> [] | Some r \<Rightarrow> r))]
      in case doc_scan_status d of
           scan_status.clean \<Rightarrow> Inr ()
         | scan_status.pending \<Rightarrow> Inr ()
         | scan_status.infected \<Rightarrow>
             Inl (BusinessError 3031 ''Document is quarantined after virus scan'' data)
         | scan_status.failed \<Rightarrow> Inl (BusinessError 3032 ''Document virus scan failed'' data))"

definition get_authorized_document :: "user \<Rightarrow> uuid \<Rightarrow> database \<Rightarrow> py_error + document" where
  "get_authorized_document actor k db =
     attempt (present (get_document k db) (ResourceNotFound ''Document does not exist'')) (\<lambda>d.
     attempt (get_existing_sub_project (doc_sub_project_id d) db) (\<lambda>s.
     attempt (ensure_visible view_all_phase_roles actor s db) (\<lambda>_. Inr d)))"

definition record_document_audit ::
  "env \<Rightarrow> user \<Rightarrow> string \<Rightarrow> uuid \<Rightarrow> audit_state \<Rightarrow> audit_state \<Rightarrow> payload \<Rightarrow> database \<Rightarrow> database" where
  "record_document_audit e actor action target old_state new_state extra db =
     record_context_audit e actor action ''document'' target old_state new_state extra db"

subsection \<open>Uploading\<close>

record document_upload =
  du_phase_id :: uuid
  du_doc_type :: string
  du_file_name :: string
  du_display_name :: "string option"
  du_content_type :: "string option"
  du_content :: string
  du_acceptance_step_id :: "uuid option"

text \<open>
  A scan scheduler answers \<open>None\<close>, or the text of the exception it raises.  The validation
  failure leaves an audit entry although the upload fails, so the database is returned with
  the outcome.
\<close>

type_synonym scan_scheduler = "uuid \<Rightarrow> string option"

definition check_upload ::
  "user \<Rightarrow> upload_policy \<Rightarrow> uuid \<Rightarrow> document_upload \<Rightarrow> database
     \<Rightarrow> py_error + (string \<times> string \<times> string \<times> sub_project \<times> phase)" where
  "check_upload actor policy sid u db =
     attempt (clean_doc_type (du_doc_type u)) (\<lambda>doc_type.
     attempt (clean_file_name (du_file_name u)) (\<lambda>file_name.
     attempt (ensure_file_size_allowed policy (du_content u)) (\<lambda>_.
     attempt (get_existing_scope sid (du_phase_id u) db) (\<lambda>(s, p).
     attempt (ensure_scope_allows_upload s p) (\<lambda>_.
     attempt (ensure_visible view_all_phase_roles actor s db) (\<lambda>_.
     Inr (doc_type, file_name, clean_display_name (du_display_name u) file_name, s, p)))))))"

definition uploaded_document ::
  "env \<Rightarrow> user \<Rightarrow> document_upload \<Rightarrow> uuid \<Rightarrow> uuid \<Rightarrow> string \<Rightarrow> string \<Rightarrow> string \<Rightarrow> string \<Rightarrow> int
     \<Rightarrow> uuid \<Rightarrow> uuid \<Rightarrow> document" where
  "uploaded_document e actor u sid phase_id doc_type file_name display_name storage_key version
       new_id no =
     \<lparr> doc_id = new_id, doc_no = no, doc_sub_project_id = sid, doc_phase_id = phase_id,
       doc_acceptance_step_id = du_acceptance_step_id u, doc_doc_type = doc_type,
       doc_file_name = file_name, doc_display_name = display_name, doc_file_path = storage_key,
       doc_file_size = int (length (du_content u)), doc_version = version, doc_is_latest = True,
       doc_is_deleted = False, doc_scan_status = scan_status.pending, doc_scan_result = None,
       doc_scanned_at = None, doc_uploader_id = u_id actor, doc_created_at = clock e,
       doc_updated_at = clock e \<rparr>"

text \<open>\<open>_enqueue_scan_or_mark_failed\<close>.\<close>

definition enqueue_scan ::
  "env \<Rightarrow> scan_scheduler option \<Rightarrow> document \<Rightarrow> database \<Rightarrow> document \<times> database" where
  "enqueue_scan e scheduler d db =
     (case Option.bind scheduler (\<lambda>enqueue. enqueue (doc_id d)) of
        None \<Rightarrow> (d, db)
      | Some exc \<Rightarrow>
          let mark = (\<lambda>r. r\<lparr>doc_scan_status := scan_status.failed,
                doc_scan_result := Some (''Scan scheduling failed: '' @ exc),
                doc_scanned_at := Some (clock e), doc_updated_at := clock e\<rparr>)
          in (mark d, save_document (doc_id d) mark db))"

definition clear_latest :: "document \<Rightarrow> document" where
  "clear_latest d = d\<lparr>doc_is_latest := False\<rparr>"

definition upload_document ::
  "env \<Rightarrow> user \<Rightarrow> upload_policy \<Rightarrow> scan_scheduler option \<Rightarrow> uuid \<Rightarrow> document_upload \<Rightarrow> database
     \<Rightarrow> file_store \<Rightarrow> (py_error + document) \<times> database \<times> file_store" where
  "upload_document e actor policy scheduler sid u db fs =
     (case check_upload actor policy sid u db of
        Inl err \<Rightarrow> (Inl err, db, fs)
      | Inr (doc_type, file_name, display_name, s, p) \<Rightarrow>
         (case validate_file (zip_reader policy) file_name (du_content_type u) (du_content u) of
            Inl err \<Rightarrow>
              (Inl err,
               (case rejection_reason err of
                  None \<Rightarrow> db
                | Some reason \<Rightarrow> record_document_audit e actor ''upload_rejected'' (ph_id p)
                    NoState NoState [(''rejection_reason'', PStr reason),
                      (''doc_type'', PStr doc_type), (''file_name'', PStr file_name),
                      (''content_type'', PStr (case du_content_type u of None \<Rightarrow> [] | Some c \<Rightarrow> c))] db),
               fs)
          | Inr _ \<Rightarrow>
             (case save_content (sp_id s) (ph_id p) file_name (du_content u) fs of
                Inl err \<Rightarrow> (Inl err, db, fs)
              | Inr (key, fs) \<Rightarrow>
                 let docs = list_group_documents (sp_id s) (ph_id p) doc_type db;
                     version = latest_version docs + 1;
                     db = (if is_multi_instance_document doc_type (du_acceptance_step_id u) then db
                       else save_documents (filter doc_is_latest docs) clear_latest db);
                     (new_id, db) = uuid4 db;
                     (no, db) = uuid4 db;
                     d = uploaded_document e actor u (sp_id s) (ph_id p) doc_type file_name
                       display_name key version new_id no;
                     (d, db) = enqueue_scan e scheduler d (add_document d db)
                 in (Inr d, db, fs))))"

subsection \<open>Deleting\<close>

definition mark_deleted :: "env \<Rightarrow> document \<Rightarrow> document" where
  "mark_deleted e d = d\<lparr>doc_is_deleted := True, doc_is_latest := False, doc_updated_at := clock e\<rparr>"

definition restore_latest :: "env \<Rightarrow> document \<Rightarrow> document" where
  "restore_latest e d = d\<lparr>doc_is_latest := True, doc_updated_at := clock e\<rparr>"

text \<open>The first other document of the group that is not deleted: the one of highest version.\<close>

definition replacement_document :: "uuid \<Rightarrow> document list \<Rightarrow> document option" where
  "replacement_document k docs = find (\<lambda>d. doc_id d \<noteq> k \<and> \<not> doc_is_deleted d) docs"

definition restore_replacement :: "env \<Rightarrow> uuid \<Rightarrow> document list \<Rightarrow> database \<Rightarrow> database" where
  "restore_replacement e k docs db =
     (case replacement_document k docs of None \<Rightarrow> db
      | Some r \<Rightarrow> save_document (doc_id r) (restore_latest e) db)"

definition delete_document ::
  "env \<Rightarrow> user \<Rightarrow> uuid \<Rightarrow> database \<Rightarrow> py_error + (document \<times> database)" where
  "delete_document e actor k db =
     attempt (get_authorized_document actor k db) (\<lambda>d.
     if doc_is_deleted d then Inr (d, db)
     else
       attempt (get_existing_scope (doc_sub_project_id d) (doc_phase_id d) db) (\<lambda>(s, p).
       attempt (ensure_scope_allows_upload s p) (\<lambda>_.
       attempt (ensure_can_delete_document actor d s) (\<lambda>_.
       let docs = list_group_documents (doc_sub_project_id d) (doc_phase_id d) (doc_doc_type d) db;
           db = save_document k (mark_deleted e) db;
           db = (if is_multi_instance_document (doc_doc_type d) (doc_acceptance_step_id d) then db
             else restore_replacement e k docs db)
       in Inr (mark_deleted e d, db)))))"

definition soft_delete_phase_documents ::
  "env \<Rightarrow> uuid \<Rightarrow> database \<Rightarrow> py_error + (document list \<times> database)" where
  "soft_delete_phase_documents e phase_id db =
     attempt (get_existing_phase phase_id db) (\<lambda>_.
     let docs = list_latest_phase_documents phase_id db;
         mark = (\<lambda>d. d\<lparr>doc_is_deleted := True, doc_updated_at := clock e\<rparr>)
     in Inr (map mark docs, save_documents docs mark db))"

subsection \<open>Reclassification\<close>

definition document_type_audit_state :: "document \<Rightarrow> audit_state" where
  "document_type_audit_state d = DictState [(''doc_type'', PStr (doc_doc_type d)),
     (''id'', PUuid (doc_id d)), (''version'', PInt (doc_version d))]"

definition clear_latest_at :: "env \<Rightarrow> document \<Rightarrow> document" where
  "clear_latest_at e d = d\<lparr>doc_is_latest := False, doc_updated_at := clock e\<rparr>"

definition retype_document :: "env \<Rightarrow> string \<Rightarrow> int \<Rightarrow> document \<Rightarrow> document" where
  "retype_document e doc_type version d =
     d\<lparr>doc_doc_type := doc_type, doc_version := version, doc_is_latest := True,
       doc_updated_at := clock e\<rparr>"

definition move_document_to_doc_type ::
  "env \<Rightarrow> document \<Rightarrow> string \<Rightarrow> database \<Rightarrow> document \<times> database" where
  "move_document_to_doc_type e d doc_type db =
     (let old_docs = list_group_documents (doc_sub_project_id d) (doc_phase_id d) (doc_doc_type d) db;
          new_docs = list_group_documents (doc_sub_project_id d) (doc_phase_id d) doc_type db;
          change = retype_document e doc_type (latest_version new_docs + 1);
          db = restore_replacement e (doc_id d) old_docs db;
          db = save_documents (filter doc_is_latest new_docs) (clear_latest_at e) db
      in (change d, save_document (doc_id d) change db))"

definition confirm_document_type ::
  "env \<Rightarrow> user \<Rightarrow> uuid \<Rightarrow> string \<Rightarrow> database \<Rightarrow> py_error + (document \<times> database)" where
  "confirm_document_type e actor k doc_type db =
     attempt (clean_doc_type doc_type) (\<lambda>cleaned.
     attempt (get_authorized_document actor k db) (\<lambda>d.
     attempt (guard (\<not> doc_is_deleted d \<and> doc_is_latest d)
        (ValidationFailed ''Only the latest active document can be reclassified'' [])) (\<lambda>_.
     let (after, db) = (if doc_doc_type d \<noteq> cleaned
           then move_document_to_doc_type e d cleaned db else (d, db))
     in Inr (after, record_document_audit e actor ''document_classification.confirm'' (doc_id d)
          (document_type_audit_state d) (document_type_audit_state after)
          [(''file_name'', PStr (doc_file_name after)),
           (''new_doc_type'', PStr (doc_doc_type after)),
           (''version'', PInt (doc_version after))] db))))"

subsection \<open>Reading\<close>

definition list_documents ::
  "user \<Rightarrow> uuid \<Rightarrow> uuid option \<Rightarrow> string option \<Rightarrow> bool \<Rightarrow> database \<Rightarrow> py_error + document list" where
  "list_documents actor sid phase_id doc_type include_history db =
     attempt (get_existing_sub_project sid db) (\<lambda>s.
     attempt (ensure_visible view_all_phase_roles actor s db) (\<lambda>_.
     attempt (clean_optional_doc_type doc_type) (\<lambda>cleaned.
     attempt (case phase_id of None \<Rightarrow> Inr ()
        | Some pid \<Rightarrow> attempt (get_existing_phase pid db) (\<lambda>p.
            guard (ph_sub_project_id p = sid) (ResourceNotFound ''Phase does not exist''))) (\<lambda>_.
     Inr (repo_list_documents sid phase_id cleaned include_history db)))))"

definition download_document ::
  "user \<Rightarrow> uuid \<Rightarrow> database \<Rightarrow> file_store \<Rightarrow> py_error + (document \<times> string)" where
  "download_document actor k db fs =
     attempt (get_authorized_document actor k db) (\<lambda>d.
     attempt (ensure_scan_allows_access d) (\<lambda>_.
     attempt (storage_read (doc_file_path d) fs) (\<lambda>content. Inr (d, content))))"

definition is_pdf_document :: "document \<Rightarrow> bool" where
  "is_pdf_document d = (suffix ''.pdf'' (lower (doc_file_name d)) \<or> lower (doc_doc_type d) = ''pdf'')"

definition is_office_document :: "document \<Rightarrow> bool" where
  "is_office_document d = (file_extension (doc_file_name d) \<in> office_preview_extensions)"

definition record_preview ::
  "env \<Rightarrow> user \<Rightarrow> document \<Rightarrow> string \<Rightarrow> database \<Rightarrow> database" where
  "record_preview e actor d action db =
     record_document_audit e actor action (doc_id d) NoState NoState
       [(''doc_type'', PStr (doc_doc_type d)), (''file_name'', PStr (doc_file_name d)),
        (''version'', PInt (doc_version d))] db"

text \<open>The preview is recorded before the file is read: a missing file leaves the entry.\<close>

definition preview_document ::
  "env \<Rightarrow> user \<Rightarrow> uuid \<Rightarrow> database \<Rightarrow> file_store \<Rightarrow> (py_error + (document \<times> string)) \<times> database" where
  "preview_document e actor k db fs =
     (case attempt (get_authorized_document actor k db) (\<lambda>d.
           attempt (ensure_scan_allows_access d) (\<lambda>_.
           attempt (guard (is_pdf_document d) (BusinessError 3020 ''Only PDF documents can be previewed''
              [(''document_id'', PUuid (doc_id d)), (''file_name'', PStr (doc_file_name d))]))
             (\<lambda>_. Inr d))) of
        Inl err \<Rightarrow> (Inl err, db)
      | Inr d \<Rightarrow> (attempt (storage_read (doc_file_path d) fs) (\<lambda>content. Inr (d, content)),
                  record_preview e actor d ''document.preview'' db))"

definition preview_office_document ::
  "(string \<Rightarrow> string \<Rightarrow> py_error + string) \<Rightarrow> env \<Rightarrow> user \<Rightarrow> uuid \<Rightarrow> database \<Rightarrow> file_store
     \<Rightarrow> py_error + ((document \<times> string) \<times> database)" where
  "preview_office_document convert e actor k db fs =
     attempt (get_authorized_document actor k db) (\<lambda>d.
     attempt (ensure_scan_allows_access d) (\<lambda>_.
     attempt (guard (is_office_document d)
        (BusinessError 3020 ''Only Office documents can be previewed by this endpoint''
           [(''document_id'', PUuid (doc_id d)), (''file_name'', PStr (doc_file_name d))])) (\<lambda>_.
     attempt (storage_read (doc_file_path d) fs) (\<lambda>source.
     attempt (convert (doc_file_name d) source) (\<lambda>content.
     Inr ((d, content), record_preview e actor d ''document.preview_office'' db))))))"

subsection \<open>Write sets\<close>

lemma save_document_evolves [evolve_rules]:
  "Documents \<in> W \<Longrightarrow> evolves W a b \<Longrightarrow> evolves W a (save_document k f b)"
  by (simp add: evolves_def writes_iff save_document_def)

lemma save_documents_evolves [evolve_rules]:
  "Documents \<in> W \<Longrightarrow> evolves W a b \<Longrightarrow> evolves W a (save_documents ds f b)"
  by (induction ds f b rule: save_documents.induct) (auto intro: evolve_rules)

lemma record_document_audit_evolves [evolve_rules]:
  "Audit \<in> W \<Longrightarrow> evolves W a db \<Longrightarrow>
     evolves W a (record_document_audit e actor action t bf af x db)"
  unfolding record_document_audit_def
  by (assumption | rule evolve_rules | (simp; fail))+

lemma restore_replacement_evolves [evolve_rules]:
  "Documents \<in> W \<Longrightarrow> evolves W a db \<Longrightarrow>
     evolves W a (restore_replacement e k docs db)"
  unfolding restore_replacement_def
  by (assumption | rule evolve_rules | (simp; fail))+

lemma move_document_evolves [evolve_rules]:
  "Documents \<in> W \<Longrightarrow> evolves W a db \<Longrightarrow>
     evolves W a (snd (move_document_to_doc_type e d t db))"
  by (simp add: move_document_to_doc_type_def Let_def) (rule evolve_rules | assumption)+

lemma delete_document_writes:
  "yields (evolves {Documents} db) (delete_document e actor k db)"
  unfolding delete_document_def
  by (assumption | rule yields_rules evolve_rules | (simp; fail))+

lemma soft_delete_phase_documents_writes:
  "yields (evolves {Documents} db) (soft_delete_phase_documents e k db)"
  unfolding soft_delete_phase_documents_def
  by (assumption | rule yields_rules evolve_rules | (simp; fail))+

lemma confirm_document_type_writes:
  "yields (evolves {Documents, Audit} db) (confirm_document_type e actor k t db)"
  unfolding confirm_document_type_def
  by (assumption | rule yields_rules evolve_rules | (simp; fail))+

subsection \<open>Effects\<close>

definition same_group :: "uuid \<Rightarrow> uuid \<Rightarrow> string \<Rightarrow> document \<Rightarrow> bool" where
  "same_group sid phase_id doc_type d \<longleftrightarrow> doc_sub_project_id d = sid \<and> doc_phase_id d = phase_id \<and>
     doc_doc_type d = doc_type"

lemma set_list_group_documents:
  "set (list_group_documents sid pid t db) = {d \<in> set (documents db). same_group sid pid t d}"
  by (auto simp: list_group_documents_def same_group_def)

lemma distinct_ids_group:
  assumes "distinct (map doc_id (documents db))"
  shows "distinct (map doc_id (filter P (list_group_documents sid pid t db)))"
proof -
  have "distinct (map doc_id (sort_key doc_version (rev (filter Q (documents db)))))" for Q
    using assms by (simp add: distinct_map distinct_map_filter inj_on_def)
  then have "distinct (map doc_id (list_group_documents sid pid t db))"
    by (simp add: list_group_documents_def sorted_desc_def rev_map [symmetric])
  then show ?thesis by (rule distinct_map_filter)
qed

text \<open>With distinct ids a list of rows is saved by one pass over the table.\<close>

lemma save_documents_map:
  assumes "distinct (map doc_id ds)" and "\<And>d. doc_id (f d) = doc_id d"
  shows "documents (save_documents ds f db) =
    map (\<lambda>d. if doc_id d \<in> doc_id ` set ds then f d else d) (documents db)"
  using assms(1)
proof (induction ds arbitrary: db)
  case (Cons x ds)
  then show ?case
    by (auto simp: save_document_def update_rows_def assms(2) intro!: map_cong)
qed simp

lemma latest_version_upper: "d \<in> set ds \<Longrightarrow> doc_version d \<le> latest_version ds"
  by (auto simp: latest_version_def intro: Max_ge)

text \<open>The rows of a group that are latest, cleared.\<close>

definition clear_group ::
  "(document \<Rightarrow> document) \<Rightarrow> uuid \<Rightarrow> uuid \<Rightarrow> string \<Rightarrow> document list \<Rightarrow> document list" where
  "clear_group f sid pid t rows =
     map (\<lambda>d. if same_group sid pid t d \<and> doc_is_latest d then f d else d) rows"

lemma save_group_documents:
  assumes "distinct (map doc_id (documents db))" and "\<And>d. doc_id (f d) = doc_id d"
  shows "documents (save_documents (filter doc_is_latest (list_group_documents sid pid t db)) f db) =
    clear_group f sid pid t (documents db)"
  unfolding save_documents_map [OF distinct_ids_group [OF assms(1)] assms(2)] clear_group_def
proof (rule map_cong [OF refl])
  fix d assume d: "d \<in> set (documents db)"
  have "doc_id d \<in> doc_id ` set (filter doc_is_latest (list_group_documents sid pid t db)) \<longleftrightarrow>
      same_group sid pid t d \<and> doc_is_latest d"
    using d distinct_key_eqD [OF assms(1)] by (auto simp: set_list_group_documents)
  then show "(if doc_id d \<in> doc_id ` set (filter doc_is_latest (list_group_documents sid pid t db))
      then f d else d) = (if same_group sid pid t d \<and> doc_is_latest d then f d else d)"
    by simp
qed

lemma clear_latest_fields [simp]:
  "doc_id (clear_latest d) = doc_id d" "doc_id (clear_latest_at e d) = doc_id d"
  "doc_id (mark_deleted e d) = doc_id d" "doc_id (restore_latest e d) = doc_id d"
  "doc_id (retype_document e t v d) = doc_id d"
  by (simp_all add: clear_latest_def clear_latest_at_def mark_deleted_def restore_latest_def
      retype_document_def)

text \<open>The document an upload adds, and the state of its group.\<close>

lemma upload_document_effect:
  assumes "upload_document e actor policy scheduler sid u db fs = (Inr d, db', fs')"
    and ids: "distinct (map doc_id (documents db))"
    and new: "\<forall>d \<in> set (documents db). doc_id d < next_uuid db"
  obtains doc_type name display s p where
    "check_upload actor policy sid u db = Inr (doc_type, name, display, s, p)"
    and "validate_file (zip_reader policy) name (du_content_type u) (du_content u) = Inr ()"
    and "documents db' =
      (if is_multi_instance_document doc_type (du_acceptance_step_id u) then documents db
       else clear_group clear_latest sid (du_phase_id u) doc_type (documents db)) @ [d]"
    and "doc_id d = next_uuid db" and "same_group sid (du_phase_id u) doc_type d"
    and "doc_version d = latest_version (list_group_documents sid (du_phase_id u) doc_type db) + 1"
    and "doc_is_latest d" and "\<not> doc_is_deleted d"
    and "evolves {Documents} db db'" and "next_uuid db' = Suc (Suc (next_uuid db))"
proof -
  from assms(1) obtain doc_type name display s p where
    chk: "check_upload actor policy sid u db = Inr (doc_type, name, display, s, p)"
    unfolding upload_document_def by (cases "check_upload actor policy sid u db") auto
  note run = assms(1) [unfolded upload_document_def chk sum.case prod.case]
  from run obtain x where
    val: "validate_file (zip_reader policy) name (du_content_type u) (du_content u) = Inr x"
    by (cases "validate_file (zip_reader policy) name (du_content_type u) (du_content u)") auto
  note run = run [unfolded val sum.case]
  from run obtain key fs1 where
    key: "save_content (sp_id s) (ph_id p) name (du_content u) fs = Inr (key, fs1)"
    by (cases "save_content (sp_id s) (ph_id p) name (du_content u) fs") auto
  note run = run [unfolded key sum.case prod.case]
  have sp: "sp_id s = sid" "ph_id p = du_phase_id u"
    using chk unfolding check_upload_def get_existing_scope_def get_existing_sub_project_def
      get_existing_phase_def
    by (auto elim!: attempt_pairE attempt_InrE guard_InrE present_InrE dest: sub_rows.get_SomeD
        phase_rows.get_SomeD)
  let ?docs = "list_group_documents sid (du_phase_id u) doc_type db"
  let ?multi = "is_multi_instance_document doc_type (du_acceptance_step_id u)"
  define db1 where
    "db1 = (if ?multi then db else save_documents (filter doc_is_latest ?docs) clear_latest db)"
  define d0 where "d0 = uploaded_document e actor u sid (du_phase_id u) doc_type name display key
    (latest_version ?docs + 1) (next_uuid db) (Suc (next_uuid db))"
  let ?db2 = "db1\<lparr>next_uuid := Suc (Suc (next_uuid db))\<rparr>"
  have n1: "next_uuid db1 = next_uuid db" and e1: "evolves {Documents} db db1"
  proof -
    have "next_uuid (save_documents ds f b) = next_uuid b" for ds f b
      by (induction ds f b rule: save_documents.induct) (simp_all add: save_document_def)
    then show "next_uuid db1 = next_uuid db" by (simp add: db1_def)
    show "evolves {Documents} db db1" unfolding db1_def by (rule evolve_rules | simp)+
  qed
  have docs1: "documents db1 = (if ?multi then documents db
      else clear_group clear_latest sid (du_phase_id u) doc_type (documents db))"
    using save_group_documents [OF ids, of clear_latest sid "du_phase_id u" doc_type]
    by (simp add: db1_def)
  have scan: "enqueue_scan e scheduler d0 (add_document d0 ?db2) = (d, db')"
    using run by (simp add: sp uuid4_def Let_def n1 db1_def [symmetric] d0_def [symmetric]
        split: prod.splits)
  have new1: "doc_id x \<noteq> doc_id d0" if "x \<in> set (documents db1)" for x
  proof -
    have "doc_id x \<in> doc_id ` set (documents db)"
      using that by (auto simp: docs1 clear_group_def split: if_splits)
    then show ?thesis using new by (auto simp: d0_def uploaded_document_def)
  qed
  have rows: "update_rows doc_id (doc_id d0) f (documents db1) = documents db1" for f
    unfolding update_rows_def by (rule map_idI) (use new1 in auto)
  have fields: "doc_id d = doc_id d0 \<and> doc_version d = doc_version d0 \<and>
      doc_is_latest d = doc_is_latest d0 \<and> doc_is_deleted d = doc_is_deleted d0 \<and>
      (\<forall>a b c. same_group a b c d = same_group a b c d0) \<and> documents db' = documents db1 @ [d] \<and>
      evolves {Documents} ?db2 db' \<and> next_uuid db' = next_uuid ?db2"
    using scan rows
    by (auto simp: enqueue_scan_def Let_def same_group_def add_document_def save_document_def
        evolves_iff writes_iff update_rows_def split: option.splits)
  show thesis
  proof (rule that [OF chk])
    show "validate_file (zip_reader policy) name (du_content_type u) (du_content u) = Inr ()"
      using val by simp
    show "documents db' = (if ?multi then documents db
       else clear_group clear_latest sid (du_phase_id u) doc_type (documents db)) @ [d]"
      using fields docs1 by simp
    have "evolves {Documents} db ?db2"
      using e1 n1 by (simp add: evolves_iff writes_iff)
    then show "evolves {Documents} db db'"
      using fields evolves_trans by blast
    show "next_uuid db' = Suc (Suc (next_uuid db))" using fields by simp
  qed (use fields in \<open>simp_all add: d0_def uploaded_document_def same_group_def\<close>)
qed

lemma delete_document_effect:
  assumes "delete_document e actor k db = Inr (r, db')"
  obtains "documents db' = documents db"
  | d s p where "get_document k db = Some d" and "\<not> doc_is_deleted d"
    and "get_sub_project (doc_sub_project_id d) db = Some s" and "get_phase (doc_phase_id d) db = Some p"
    and "ensure_scope_allows_upload s p = Inr ()"
    and "documents db' =
      (let rows = update_rows doc_id k (mark_deleted e) (documents db);
           docs = list_group_documents (doc_sub_project_id d) (doc_phase_id d) (doc_doc_type d) db
       in if is_multi_instance_document (doc_doc_type d) (doc_acceptance_step_id d) then rows
          else case replacement_document k docs of None \<Rightarrow> rows
            | Some q \<Rightarrow> update_rows doc_id (doc_id q) (restore_latest e) rows)"
proof -
  from assms obtain d where d: "get_document k db = Some d" and
    run: "(if doc_is_deleted d then Inr (d, db)
     else
       attempt (get_existing_scope (doc_sub_project_id d) (doc_phase_id d) db) (\<lambda>(s, p).
       attempt (ensure_scope_allows_upload s p) (\<lambda>_.
       attempt (ensure_can_delete_document actor d s) (\<lambda>_.
       let docs = list_group_documents (doc_sub_project_id d) (doc_phase_id d) (doc_doc_type d) db;
           db = save_document k (mark_deleted e) db;
           db = (if is_multi_instance_document (doc_doc_type d) (doc_acceptance_step_id d) then db
             else restore_replacement e k docs db)
       in Inr (mark_deleted e d, db))))) = Inr (r, db')"
    unfolding delete_document_def get_authorized_document_def
    by (auto elim!: attempt_InrE present_InrE)
  show thesis
  proof (cases "doc_is_deleted d")
    case True
    with run that(1) show thesis by simp
  next
    case False
    from run [unfolded if_not_P [OF False]] obtain s p where
      a: "get_sub_project (doc_sub_project_id d) db = Some s" "get_phase (doc_phase_id d) db = Some p"
        "ensure_scope_allows_upload s p = Inr ()" and
      b: "db' = (if is_multi_instance_document (doc_doc_type d) (doc_acceptance_step_id d)
        then save_document k (mark_deleted e) db
        else restore_replacement e k (list_group_documents (doc_sub_project_id d) (doc_phase_id d)
          (doc_doc_type d) db) (save_document k (mark_deleted e) db))"
      unfolding get_existing_scope_def get_existing_sub_project_def get_existing_phase_def Let_def
      by (auto elim!: attempt_pairE attempt_InrE guard_InrE present_InrE)
    show thesis
      by (rule that(2) [OF d False a])
        (simp add: b Let_def restore_replacement_def save_document_def split: option.split)
  qed
qed

definition moved_documents ::
  "env \<Rightarrow> document \<Rightarrow> string \<Rightarrow> document list \<Rightarrow> document list \<Rightarrow> document list \<Rightarrow> document list" where
  "moved_documents e d t old_docs new_docs rows =
     update_rows doc_id (doc_id d) (retype_document e t (latest_version new_docs + 1))
       (foldl (\<lambda>rs x. update_rows doc_id (doc_id x) (clear_latest_at e) rs)
          (case replacement_document (doc_id d) old_docs of None \<Rightarrow> rows
            | Some q \<Rightarrow> update_rows doc_id (doc_id q) (restore_latest e) rows)
          (filter doc_is_latest new_docs))"

lemma save_documents_foldl:
  "documents (save_documents ds f db) =
     foldl (\<lambda>rs x. update_rows doc_id (doc_id x) f rs) (documents db) ds"
  by (induction ds f db rule: save_documents.induct) (simp_all add: save_document_def)

lemma confirm_document_type_effect:
  assumes "confirm_document_type e actor k t db = Inr (r, db')"
  obtains cleaned d where "clean_doc_type t = Inr cleaned" and "get_document k db = Some d"
    and "\<not> doc_is_deleted d" and "doc_is_latest d"
    and "documents db' = (if doc_doc_type d = cleaned then documents db
      else moved_documents e d cleaned
        (list_group_documents (doc_sub_project_id d) (doc_phase_id d) (doc_doc_type d) db)
        (list_group_documents (doc_sub_project_id d) (doc_phase_id d) cleaned db) (documents db))"
    and "r = (if doc_doc_type d = cleaned then d
      else retype_document e cleaned (latest_version
        (list_group_documents (doc_sub_project_id d) (doc_phase_id d) cleaned db) + 1) d)"
proof -
  from assms obtain cleaned d after db1 where
    a: "clean_doc_type t = Inr cleaned" "get_document k db = Some d"
      "\<not> doc_is_deleted d" "doc_is_latest d" and
    b: "(if doc_doc_type d \<noteq> cleaned
           then move_document_to_doc_type e d cleaned db else (d, db)) = (after, db1)" and
    c: "r = after" "documents db' = documents db1"
    unfolding confirm_document_type_def get_authorized_document_def record_document_audit_def
    by (auto elim!: attempt_InrE guard_InrE present_InrE simp: Let_def split: prod.splits)
  show thesis
  proof (rule that [OF a])
    show "documents db' = (if doc_doc_type d = cleaned then documents db
      else moved_documents e d cleaned
        (list_group_documents (doc_sub_project_id d) (doc_phase_id d) (doc_doc_type d) db)
        (list_group_documents (doc_sub_project_id d) (doc_phase_id d) cleaned db) (documents db))"
      using b unfolding c(2)
      by (auto simp: move_document_to_doc_type_def Let_def moved_documents_def save_document_def
          save_documents_foldl restore_replacement_def split: option.split if_splits)
    show "r = (if doc_doc_type d = cleaned then d
      else retype_document e cleaned (latest_version
        (list_group_documents (doc_sub_project_id d) (doc_phase_id d) cleaned db) + 1) d)"
      using b unfolding c(1)
      by (auto simp: move_document_to_doc_type_def Let_def split: if_splits)
  qed
qed

end
