(* ===== verification/RevokeRequests.thy ===== *)
theory RevokeRequests
  imports Documents
begin

text \<open>
  Revoke requests (\<open>app/services/revoke_requests.py\<close>): a project leader asks to reopen a
  completed phase, an administrator or a department manager decides; an approval puts the
  phase back in progress and, unless they are to be kept, deletes its latest documents.
\<close>

subsection \<open>Repository\<close>

definition get_pending_request_by_phase :: "uuid \<Rightarrow> database \<Rightarrow> revoke_request option" where
  "get_pending_request_by_phase phase_id db =
     find (\<lambda>r. rr_phase_id r = phase_id \<and> rr_status r = revoke_status.pending) (revoke_requests db)"

definition get_revoke_request :: "uuid \<Rightarrow> database \<Rightarrow> revoke_request option" where
  "get_revoke_request k db = find_row rr_id k (revoke_requests db)"

definition add_revoke_request :: "revoke_request \<Rightarrow> database \<Rightarrow> database" where
  "add_revoke_request r db = db\<lparr>revoke_requests := revoke_requests db @ [r]\<rparr>"

definition save_revoke_request ::
  "uuid \<Rightarrow> (revoke_request \<Rightarrow> revoke_request) \<Rightarrow> database \<Rightarrow> database" where
  "save_revoke_request k f db = db\<lparr>revoke_requests := update_rows rr_id k f (revoke_requests db)\<rparr>"

interpretation revoke_rows: row_store rr_id revoke_requests get_revoke_request
    add_revoke_request save_revoke_request
  by unfold_locales
    (simp_all add: get_revoke_request_def add_revoke_request_def save_revoke_request_def)

definition list_managed_sub_project_ids :: "uuid \<Rightarrow> database \<Rightarrow> uuid list" where
  "list_managed_sub_project_ids manager_id db =
     map sp_id (filter (\<lambda>s. sp_manager_id s = manager_id) (sub_projects db))"

definition repo_list_revoke_requests ::
  "revoke_status option \<Rightarrow> uuid list option \<Rightarrow> uuid option \<Rightarrow> database \<Rightarrow> revoke_request list" where
  "repo_list_revoke_requests status sub_ids requester db =
     (let visible = (case sub_ids of None \<Rightarrow> [] | Some ids \<Rightarrow> ids);
          rows = filter (\<lambda>r. status = None \<or> status = Some (rr_status r)) (revoke_requests db);
          rows = (if sub_ids \<noteq> None \<or> requester \<noteq> None
            then filter (\<lambda>r. rr_sub_project_id r \<in> set visible
                   \<or> requester = Some (rr_requester_id r)) rows
            else rows)
      in sorted_desc rr_created_at rows)"

definition list_latest_documents_for_update :: "uuid \<Rightarrow> database \<Rightarrow> document list" where
  "list_latest_documents_for_update phase_id db =
     filter (\<lambda>d. doc_phase_id d = phase_id \<and> doc_is_latest d \<and> \<not> doc_is_deleted d) (documents db)"

definition list_phase_tasks :: "uuid \<Rightarrow> database \<Rightarrow> task list" where
  "list_phase_tasks phase_id db = filter (\<lambda>t. task_phase_id t = phase_id) (tasks db)"

subsection \<open>Checks\<close>

definition view_all_revoke_roles :: "user_role set" where
  "view_all_revoke_roles = {user_role.admin, user_role.dept_manager}"

definition locked_revoke_sub_project_statuses :: "sub_project_status set" where
  "locked_revoke_sub_project_statuses = {sub_project_status.completed, sub_project_status.closed,
     sub_project_status.terminated}"

definition get_existing_revoke_request :: "uuid \<Rightarrow> database \<Rightarrow> py_error + revoke_request" where
  "get_existing_revoke_request k db =
     present (get_revoke_request k db) (ResourceNotFound ''Revoke request does not exist'')"

definition ensure_can_review_revoke :: "user \<Rightarrow> py_error + unit" where
  "ensure_can_review_revoke actor = guard (u_role actor \<in> view_all_revoke_roles) PermissionDenied"

definition ensure_phase_can_be_revoked :: "phase \<Rightarrow> sub_project \<Rightarrow> py_error + unit" where
  "ensure_phase_can_be_revoked p s =
     attempt (guard (sp_status s \<notin> locked_revoke_sub_project_statuses)
        (BusinessError 3003 ''Completed or closed sub project cannot be rolled back''
           [(''status'', PStr (sub_status_value (sp_status s)))])) (\<lambda>_.
     guard (ph_status p = phase_status.completed)
        (BusinessError 3030 ''Only completed phases can be revoked''
           [(''status'', PStr (phase_status_value (ph_status p)))]))"

definition clean_revoke_reason :: "string \<Rightarrow> py_error + string" where
  "clean_revoke_reason reason =
     attempt (guard (strip reason \<noteq> []) (ValidationFailed ''Revoke reason is required'' []))
       (\<lambda>_. Inr (strip reason))"

text \<open>The loop of \<open>_unique_receivers\<close>: the first occurrence of each receiver.\<close>

definition unique_receivers :: "uuid list \<Rightarrow> uuid list" where
  "unique_receivers receivers = dedup receivers"

subsection \<open>Operations\<close>

datatype revoke_review_decision = approve | reject

definition list_revoke_requests ::
  "user \<Rightarrow> revoke_status option \<Rightarrow> database \<Rightarrow> py_error + revoke_request list" where
  "list_revoke_requests actor status db =
     (if u_role actor \<in> view_all_revoke_roles
      then Inr (repo_list_revoke_requests status None None db)
      else if u_role actor = user_role.proj_leader
      then Inr (repo_list_revoke_requests status
             (Some (list_managed_sub_project_ids (u_id actor) db)) (Some (u_id actor)) db)
      else Inl PermissionDenied)"

definition send_revoke_pending_notification ::
  "env \<Rightarrow> phase \<Rightarrow> revoke_request \<Rightarrow> sub_project \<Rightarrow> database \<Rightarrow> database" where
  "send_revoke_pending_notification e p r s db =
     notify e ''revoke_request_pending''
       (unique_receivers (list_active_user_ids_by_role user_role.admin None None db
          @ list_active_user_ids_by_role user_role.dept_manager None (Some (sp_dept_id s)) db))
       (rr_id r)
       [(''phase_id'', PUuid (ph_id p)), (''phase_no'', PInt (ph_phase_no p)),
        (''request_id'', PUuid (rr_id r)), (''sub_project_id'', PUuid (sp_id s))] db"

definition submit_revoke_request ::
  "env \<Rightarrow> user \<Rightarrow> uuid \<Rightarrow> string \<Rightarrow> bool \<Rightarrow> database \<Rightarrow> py_error + (revoke_request \<times> database)" where
  "submit_revoke_request e actor phase_id reason keep db =
     attempt (clean_revoke_reason reason) (\<lambda>cleaned.
     attempt (get_existing_phase phase_id db) (\<lambda>p.
     attempt (get_existing_sub_project (ph_sub_project_id p) db) (\<lambda>s.
     attempt (ensure_project_leader actor s) (\<lambda>_.
     attempt (ensure_phase_can_be_revoked p s) (\<lambda>_.
     attempt (guard (get_pending_request_by_phase (ph_id p) db = None)
        (ResourceConflict ''Pending revoke request already exists'')) (\<lambda>_.
     let (new_id, db) = uuid4 db;
         r = \<lparr> rr_id = new_id, rr_phase_id = ph_id p, rr_sub_project_id = sp_id s,
           rr_requester_id = u_id actor, rr_reason = cleaned, rr_keep_documents = keep,
           rr_status = revoke_status.pending, rr_reviewer_id = None, rr_review_comment = None,
           rr_reviewed_at = None, rr_created_at = clock e, rr_updated_at = clock e \<rparr>
     in Inr (r, send_revoke_pending_notification e p r s (add_revoke_request r db))))))))"

text \<open>\<open>_apply_approval\<close>: the phase, its history and its documents.\<close>

definition reopen_phase :: "env \<Rightarrow> phase \<Rightarrow> phase" where
  "reopen_phase e p =
     p\<lparr> ph_status := phase_status.in_progress, ph_finish_at := None,
        ph_enter_at := (case ph_enter_at p of None \<Rightarrow> Some (clock e) | Some t \<Rightarrow> Some t),
        ph_updated_at := clock e \<rparr>"

definition soft_delete_document :: "env \<Rightarrow> document \<Rightarrow> document" where
  "soft_delete_document e d = d\<lparr>doc_is_deleted := True, doc_updated_at := clock e\<rparr>"

definition apply_approval ::
  "env \<Rightarrow> user \<Rightarrow> document list \<Rightarrow> bool \<Rightarrow> phase \<Rightarrow> database \<Rightarrow> database" where
  "apply_approval e actor docs keep p db =
     (let db = save_phase (ph_id p) (reopen_phase e) db;
          (history_id, db) = uuid4 db;
          db = add_history \<lparr> hist_id = history_id, hist_phase_id = ph_id p,
            hist_from_status = ph_status p, hist_to_status = phase_status.in_progress,
            hist_changed_by_id = u_id actor, hist_changed_at = clock e, hist_note = ''revoked'' \<rparr> db
      in if keep then db else save_documents docs (soft_delete_document e) db)"

definition send_revoke_result_notification ::
  "env \<Rightarrow> document list \<Rightarrow> phase \<Rightarrow> revoke_request \<Rightarrow> sub_project \<Rightarrow> database \<Rightarrow> database" where
  "send_revoke_result_notification e docs p r s db =
     notify e ''revoke_result'' (unique_receivers (sp_manager_id s # map doc_uploader_id docs)) (rr_id r)
       [(''decision'', PStr (revoke_status_value (rr_status r))), (''phase_id'', PUuid (ph_id p)),
        (''phase_no'', PInt (ph_phase_no p)), (''sub_project_id'', PUuid (sp_id s))] db"

definition build_revoke_audit_state :: "revoke_request \<Rightarrow> phase \<Rightarrow> audit_state" where
  "build_revoke_audit_state r p = DictState [(''id'', PUuid (rr_id r)), (''phase_id'', PUuid (ph_id p)),
     (''phase_status'', PStr (phase_status_value (ph_status p))),
     (''request_status'', PStr (revoke_status_value (rr_status r)))]"

definition revoke_review_extra :: "document list \<Rightarrow> revoke_request \<Rightarrow> task list \<Rightarrow> payload" where
  "revoke_review_extra docs r ts =
     [(''document_ids_soft_deleted'',
         PList (map (\<lambda>d. PUuid (doc_id d)) (filter (\<lambda>d. \<not> rr_keep_documents r) docs))),
      (''keep_documents'', PBool (rr_keep_documents r)), (''tasks_preserved'', PBool True),
      (''preserved_task_ids'', PList (map (\<lambda>t. PUuid (task_id t)) ts))]"

definition decide_revoke ::
  "env \<Rightarrow> user \<Rightarrow> revoke_status \<Rightarrow> string option \<Rightarrow> revoke_request \<Rightarrow> revoke_request" where
  "decide_revoke e actor status comment r =
     r\<lparr> rr_reviewer_id := Some (u_id actor), rr_review_comment := clean_optional_text comment,
        rr_reviewed_at := Some (clock e), rr_updated_at := clock e, rr_status := status \<rparr>"

definition review_revoke_request ::
  "env \<Rightarrow> user \<Rightarrow> uuid \<Rightarrow> revoke_review_decision \<Rightarrow> string option \<Rightarrow> database
     \<Rightarrow> py_error + (revoke_request \<times> database)" where
  "review_revoke_request e actor k decision comment db =
     (let rejecting = (decision = revoke_review_decision.reject) in
     attempt (ensure_can_review_revoke actor) (\<lambda>_.
     attempt (get_existing_revoke_request k db) (\<lambda>r.
     attempt (guard (rr_status r = revoke_status.pending)
        (BusinessError 3003 ''Only pending revoke requests can be reviewed''
           [(''status'', PStr (revoke_status_value (rr_status r)))])) (\<lambda>_.
     attempt (get_existing_phase (rr_phase_id r) db) (\<lambda>p.
     attempt (get_existing_sub_project (rr_sub_project_id r) db) (\<lambda>s.
     attempt (if rejecting then Inr () else ensure_phase_can_be_revoked p s) (\<lambda>_.
     let docs = list_latest_documents_for_update (ph_id p) db;
         ts = list_phase_tasks (ph_id p) db;
         status = (if rejecting then revoke_status.rejected else revoke_status.approved);
         decide = decide_revoke e actor status comment;
         after = decide r;
         phase_after = (if rejecting then p else reopen_phase e p);
         db = save_revoke_request k decide db;
         db = (if rejecting then db
           else apply_approval e actor docs (rr_keep_documents r) p db);
         db = send_revoke_result_notification e docs phase_after after s db
     in Inr (after, record_context_audit e actor ''revoke_request.review'' ''revoke_request'' k
              (build_revoke_audit_state r p) (build_revoke_audit_state after phase_after)
              (revoke_review_extra docs after ts) db))))))))"

subsection \<open>Write sets\<close>

lemma revoke_repository_evolves [evolve_rules]:
  "Revokes \<in> W \<Longrightarrow> evolves W a b \<Longrightarrow> evolves W a (add_revoke_request r b)"
  "Revokes \<in> W \<Longrightarrow> evolves W a b \<Longrightarrow> evolves W a (save_revoke_request k f b)"
  by (simp_all add: evolves_def writes_iff add_revoke_request_def save_revoke_request_def)

lemma send_revoke_pending_notification_evolves [evolve_rules]:
  "Notifications \<in> W \<Longrightarrow> Outbox \<in> W \<Longrightarrow> evolves W a db \<Longrightarrow>
     evolves W a (send_revoke_pending_notification e p r s db)"
  unfolding send_revoke_pending_notification_def
  by (assumption | rule evolve_rules | (simp; fail))+

lemma send_revoke_result_notification_evolves [evolve_rules]:
  "Notifications \<in> W \<Longrightarrow> Outbox \<in> W \<Longrightarrow> evolves W a db \<Longrightarrow>
     evolves W a (send_revoke_result_notification e docs p r s db)"
  unfolding send_revoke_result_notification_def
  by (assumption | rule evolve_rules | (simp; fail))+

lemma apply_approval_evolves [evolve_rules]:
  "Phases \<in> W \<Longrightarrow> Histories \<in> W \<Longrightarrow> Documents \<in> W \<Longrightarrow> evolves W a db \<Longrightarrow>
     evolves W a (apply_approval e actor docs keep p db)"
  unfolding apply_approval_def
  by (assumption | rule evolve_rules | (simp; fail))+

lemma submit_revoke_request_writes:
  "yields (evolves {Revokes, Notifications, Outbox} db) (submit_revoke_request e actor k reason keep db)"
  unfolding submit_revoke_request_def
  by (assumption | rule yields_rules evolve_rules | (simp; fail))+

lemma review_revoke_request_writes:
  "yields (evolves {Revokes, Phases, Histories, Documents, Notifications, Outbox, Audit} db) (review_revoke_request e actor k decision comment db)"
  unfolding review_revoke_request_def
  by (assumption | rule yields_rules evolve_rules | (simp; fail))+

subsection \<open>Effects\<close>

lemma submit_revoke_request_effect:
  assumes "submit_revoke_request e actor k reason keep db = Inr (r, db')"
  obtains p s where "get_phase k db = Some p"
    and "get_sub_project (ph_sub_project_id p) db = Some s"
    and "u_role actor = user_role.proj_leader" and "sp_manager_id s = u_id actor"
    and "sp_status s \<notin> locked_revoke_sub_project_statuses"
    and "ph_status p = phase_status.completed"
    and "get_pending_request_by_phase k db = None"
    and "revoke_requests db' = revoke_requests db @ [r]"
    and "rr_id r = next_uuid db" and "rr_phase_id r = k"
    and "rr_sub_project_id r = ph_sub_project_id p" and "rr_keep_documents r = keep"
    and "rr_status r = revoke_status.pending" and "next_uuid db < next_uuid db'"
proof -
  have notified: "next_uuid a \<le> next_uuid (send_revoke_pending_notification e p r s a)" and
    same: "revoke_requests (send_revoke_pending_notification e p r s a) = revoke_requests a" for a p s
    using send_revoke_pending_notification_evolves [of "{Notifications, Outbox}" a a e p r s]
    by (simp_all add: evolves_iff writes_iff)
  from assms obtain p s cleaned where
    a: "get_phase k db = Some p" "get_sub_project (ph_sub_project_id p) db = Some s"
      "u_role actor = user_role.proj_leader" "sp_manager_id s = u_id actor"
      "sp_status s \<notin> locked_revoke_sub_project_statuses" "ph_status p = phase_status.completed"
      "get_pending_request_by_phase (ph_id p) db = None" and
    r: "r = \<lparr> rr_id = next_uuid db, rr_phase_id = ph_id p, rr_sub_project_id = sp_id s,
           rr_requester_id = u_id actor, rr_reason = cleaned, rr_keep_documents = keep,
           rr_status = revoke_status.pending, rr_reviewer_id = None, rr_review_comment = None,
           rr_reviewed_at = None, rr_created_at = clock e, rr_updated_at = clock e \<rparr>" and
    db': "db' = send_revoke_pending_notification e p r s
      (add_revoke_request r (db\<lparr>next_uuid := Suc (next_uuid db)\<rparr>))"
    unfolding submit_revoke_request_def get_existing_phase_def get_existing_sub_project_def
      ensure_project_leader_def ensure_phase_can_be_revoked_def uuid4_def Let_def prod.case
    by (auto elim!: attempt_InrE guard_InrE present_InrE)
  have k: "ph_id p = k" using a(1) phase_rows.get_SomeD by blast
  have s: "sp_id s = ph_sub_project_id p" using a(2) sub_rows.get_SomeD by blast
  show thesis
    by (rule that [OF a(1-6)])
      (use a(7) k s notified [of "add_revoke_request r (db\<lparr>next_uuid := Suc (next_uuid db)\<rparr>)" p s] in
        \<open>simp_all add: db' same add_revoke_request_def\<close>, simp_all add: r k s)
qed

lemma decide_revoke_fields [simp]:
  "rr_id (decide_revoke e actor st c r) = rr_id r"
  "rr_phase_id (decide_revoke e actor st c r) = rr_phase_id r"
  "rr_sub_project_id (decide_revoke e actor st c r) = rr_sub_project_id r"
  "rr_keep_documents (decide_revoke e actor st c r) = rr_keep_documents r"
  "rr_status (decide_revoke e actor st c r) = st"
  by (simp_all add: decide_revoke_def)

lemma reopen_phase_fields [simp]:
  "ph_id (reopen_phase e p) = ph_id p" "ph_sub_project_id (reopen_phase e p) = ph_sub_project_id p"
  "ph_phase_no (reopen_phase e p) = ph_phase_no p"
  "ph_status (reopen_phase e p) = phase_status.in_progress" "ph_finish_at (reopen_phase e p) = None"
  by (simp_all add: reopen_phase_def)

lemma review_revoke_request_effect:
  assumes "review_revoke_request e actor k decision comment db = Inr (r, db')"
  obtains q p s status where "u_role actor \<in> view_all_revoke_roles"
    and "get_revoke_request k db = Some q" and "rr_status q = revoke_status.pending"
    and "get_phase (rr_phase_id q) db = Some p"
    and "get_sub_project (rr_sub_project_id q) db = Some s"
    and "decision = revoke_review_decision.reject \<or> ensure_phase_can_be_revoked p s = Inr ()"
    and "status = (if decision = revoke_review_decision.reject then revoke_status.rejected
      else revoke_status.approved)"
    and "r = decide_revoke e actor status comment q"
    and "revoke_requests db' =
      update_rows rr_id k (decide_revoke e actor status comment) (revoke_requests db)"
    and "phases db' = (if decision = revoke_review_decision.reject then phases db
      else update_rows ph_id (rr_phase_id q) (reopen_phase e) (phases db))"
    and "documents db' =
      (if decision = revoke_review_decision.reject \<or> rr_keep_documents q then documents db
       else documents (save_documents (list_latest_documents_for_update (rr_phase_id q) db)
         (soft_delete_document e) db))"
proof -
  have frames: "phases (save_documents ds f b) = phases b" "revoke_requests (save_documents ds f b) =
      revoke_requests b" "documents (send_revoke_result_notification e docs p2 r2 s2 b) = documents b"
    "phases (send_revoke_result_notification e docs p2 r2 s2 b) = phases b"
    "revoke_requests (send_revoke_result_notification e docs p2 r2 s2 b) = revoke_requests b"
    for ds f b docs p2 r2 s2
    using save_documents_evolves [of "{Documents}" b b ds f]
      send_revoke_result_notification_evolves [of "{Notifications, Outbox}" b b e docs p2 r2 s2]
    by (simp_all add: evolves_refl evolves_iff writes_iff)
  let ?rej = "decision = revoke_review_decision.reject"
  from assms obtain q p s where
    a: "u_role actor \<in> view_all_revoke_roles" "get_revoke_request k db = Some q"
      "rr_status q = revoke_status.pending" "get_phase (rr_phase_id q) db = Some p"
      "get_sub_project (rr_sub_project_id q) db = Some s"
      "(if ?rej then Inr () else ensure_phase_can_be_revoked p s) = Inr ()" and
    b: "(let docs = list_latest_documents_for_update (ph_id p) db;
         ts = list_phase_tasks (ph_id p) db;
         status = (if ?rej then revoke_status.rejected else revoke_status.approved);
         decide = decide_revoke e actor status comment;
         after = decide q;
         phase_after = (if ?rej then p else reopen_phase e p);
         db = save_revoke_request k decide db;
         db = (if ?rej then db
           else apply_approval e actor docs (rr_keep_documents q) p db);
         db = send_revoke_result_notification e docs phase_after after s db
     in Inr (after, record_context_audit e actor ''revoke_request.review'' ''revoke_request'' k
              (build_revoke_audit_state q p) (build_revoke_audit_state after phase_after)
              (revoke_review_extra docs after ts) db)) = Inr (r, db')"
    unfolding review_revoke_request_def ensure_can_review_revoke_def get_existing_revoke_request_def
      get_existing_phase_def get_existing_sub_project_def Let_def
    by (auto elim!: attempt_InrE guard_InrE present_InrE)
  have p: "ph_id p = rr_phase_id q" using a(4) phase_rows.get_SomeD by blast
  show thesis
  proof (rule that [OF a(1-5) _ refl])
    show "?rej \<or> ensure_phase_can_be_revoked p s = Inr ()" using a(6) by (simp split: if_splits)
    show "r = decide_revoke e actor (if ?rej then revoke_status.rejected else revoke_status.approved)
        comment q"
      using b by (simp add: Let_def)
    show "revoke_requests db' = update_rows rr_id k (decide_revoke e actor
        (if ?rej then revoke_status.rejected else revoke_status.approved) comment) (revoke_requests db)"
      using b by (auto simp: Let_def frames apply_approval_def save_revoke_request_def repository_defs)
    show "phases db' = (if ?rej then phases db
        else update_rows ph_id (rr_phase_id q) (reopen_phase e) (phases db))"
      using b by (auto simp: Let_def frames apply_approval_def save_revoke_request_def
          repository_defs p)
    show "documents db' = (if ?rej \<or> rr_keep_documents q then documents db
       else documents (save_documents (list_latest_documents_for_update (rr_phase_id q) db)
         (soft_delete_document e) db))"
      using b by (auto simp: Let_def frames apply_approval_def save_revoke_request_def
          repository_defs p save_documents_foldl)
  qed
qed

end
