(* ===== verification/HandoverRequests.thy ===== *)
theory HandoverRequests
  imports SubProjects
begin

text \<open>
  Handover requests (\<open>app/services/handover_requests.py\<close>): a project leader hands sub
  projects over to a candidate; the candidate answers, an administrator or the department
  manager decides, and an administrator may force a request the candidate has left
  unanswered for seven days.  An approval transfers every sub project of the request.
\<close>

subsection \<open>Repository\<close>

definition get_handover_request :: "uuid \<Rightarrow> database \<Rightarrow> handover_request option" where
  "get_handover_request k db = find_row hr_id k (handover_requests db)"

definition add_handover_request :: "handover_request \<Rightarrow> database \<Rightarrow> database" where
  "add_handover_request r db = db\<lparr>handover_requests := handover_requests db @ [r]\<rparr>"

definition save_handover_request ::
  "uuid \<Rightarrow> (handover_request \<Rightarrow> handover_request) \<Rightarrow> database \<Rightarrow> database" where
  "save_handover_request k f db =
     db\<lparr>handover_requests := update_rows hr_id k f (handover_requests db)\<rparr>"

interpretation handover_rows: row_store hr_id handover_requests get_handover_request
    add_handover_request save_handover_request
  by unfold_locales
    (simp_all add: get_handover_request_def add_handover_request_def save_handover_request_def)

definition add_request_project :: "handover_request_project \<Rightarrow> database \<Rightarrow> database" where
  "add_request_project p db = db\<lparr>request_projects := request_projects db @ [p]\<rparr>"

definition list_request_project_ids :: "uuid \<Rightarrow> database \<Rightarrow> uuid list" where
  "list_request_project_ids k db =
     map hrp_sub_project_id (filter (\<lambda>p. hrp_request_id p = k) (request_projects db))"

definition handover_list_members :: "uuid \<Rightarrow> database \<Rightarrow> sub_project_member list" where
  "handover_list_members sid db = filter (\<lambda>m. mem_sub_project_id m = sid) (members db)"

definition repo_list_handover_requests ::
  "user \<Rightarrow> handover_status option \<Rightarrow> database \<Rightarrow> handover_request list" where
  "repo_list_handover_requests actor status db =
     (let rows = filter (\<lambda>r. status = None \<or> status = Some (hr_status r)) (handover_requests db);
          visible = map sp_id (filter (\<lambda>s. Some (sp_dept_id s) = u_dept_id actor) (sub_projects db));
          rows =
            (if u_role actor = user_role.admin then rows
             else if u_role actor = user_role.dept_manager
             then filter (\<lambda>r. \<exists>l \<in> set (request_projects db). hrp_request_id l = hr_id r
                    \<and> hrp_sub_project_id l \<in> set visible) rows
             else filter (\<lambda>r. hr_from_user_id r = u_id actor \<or> hr_to_user_id r = u_id actor) rows)
      in sorted_desc hr_created_at rows)"

subsection \<open>Checks\<close>

text \<open>\<open>timedelta(days=7)\<close> in microseconds.\<close>

definition admin_force_after :: int where
  "admin_force_after = 7 * 24 * 60 * 60 * 1000000"

definition invalid_request_status :: "handover_status \<Rightarrow> py_error" where
  "invalid_request_status s = BusinessError 3003 ''Handover request status does not allow this action''
     [(''status'', PStr (handover_status_value s))]"

definition get_existing_handover_request :: "uuid \<Rightarrow> database \<Rightarrow> py_error + handover_request" where
  "get_existing_handover_request k db =
     present (get_handover_request k db) (ResourceNotFound ''Handover request does not exist'')"

definition get_active_project_leader :: "uuid \<Rightarrow> database \<Rightarrow> py_error + user" where
  "get_active_project_leader uid db =
     attempt (present (get_user uid db) (ResourceNotFound ''User does not exist'')) (\<lambda>u.
     attempt (guard (u_role u = user_role.proj_leader \<and> u_status u = user_status.active)
        (BusinessError 3003 ''Candidate must be an active project leader''
           [(''user_id'', PUuid uid)])) (\<lambda>_. Inr u))"

definition ensure_active_project :: "sub_project \<Rightarrow> py_error + unit" where
  "ensure_active_project s =
     guard (sp_status s \<in> active_handover_statuses)
       (BusinessError 3003 ''Sub project status does not allow handover''
          [(''status'', PStr (sub_status_value (sp_status s)))])"

definition ensure_can_review_handover :: "user \<Rightarrow> sub_project list \<Rightarrow> py_error + unit" where
  "ensure_can_review_handover actor projects =
     guard (u_role actor = user_role.admin \<or>
        (u_role actor = user_role.dept_manager \<and>
         (\<forall>s \<in> set projects. Some (sp_dept_id s) = u_dept_id actor))) PermissionDenied"

definition deduplicate_ids :: "uuid list \<Rightarrow> py_error + uuid list" where
  "deduplicate_ids values =
     attempt (guard (dedup values \<noteq> [])
       (ValidationFailed ''At least one sub project is required'' [])) (\<lambda>_. Inr (dedup values))"

fun ensure_owned_active :: "user \<Rightarrow> sub_project list \<Rightarrow> py_error + unit" where
  "ensure_owned_active actor [] = Inr ()"
| "ensure_owned_active actor (s # ss) =
     attempt (ensure_active_project s) (\<lambda>_.
     attempt (guard (sp_manager_id s = u_id actor) PermissionDenied) (\<lambda>_.
     ensure_owned_active actor ss))"

subsection \<open>Notifications and audit\<close>

definition notify_handover ::
  "env \<Rightarrow> string \<Rightarrow> uuid list \<Rightarrow> uuid \<Rightarrow> payload \<Rightarrow> database \<Rightarrow> database" where
  "notify_handover e scenario receivers source_id payload db =
     notify e scenario (dedup receivers) source_id payload db"

text \<open>
  Python leaves the order of the set of departments open; here it is the order of the first
  occurrences.
\<close>

definition reviewer_receivers :: "uuid list \<Rightarrow> database \<Rightarrow> py_error + uuid list" where
  "reviewer_receivers ids db =
     attempt (traverse (\<lambda>k. get_existing_sub_project k db) ids) (\<lambda>projects.
     Inr (dedup (list_active_user_ids_by_role user_role.admin None None db
        @ concat (map (\<lambda>d. list_active_user_ids_by_role user_role.dept_manager None (Some d) db)
            (dedup (map sp_dept_id projects))))))"

definition record_handover_audit ::
  "env \<Rightarrow> user \<Rightarrow> string \<Rightarrow> handover_request \<Rightarrow> uuid list \<Rightarrow> database \<Rightarrow> database" where
  "record_handover_audit e actor action r ids db =
     (if \<not> auditing e then db
      else let c = to_audit_context e actor in
        enqueue_audit
          \<lparr> ae_actor_id = Some (u_id actor), ae_action = action,
            ae_target_type = ''handover_request'', ae_target_id = hr_id r,
            ae_before_state = NoState,
            ae_after_state = DictState [(''id'', PUuid (hr_id r)),
              (''status'', PStr (handover_status_value (hr_status r))),
              (''sub_project_ids'', PList (map PUuid ids))],
            ae_ip_address = ctx_ip_address c, ae_user_agent = ctx_user_agent c,
            ae_extra = [(''from_user_id'', PUuid (hr_from_user_id r)),
              (''to_user_id'', PUuid (hr_to_user_id r)), (''reason'', PStr (hr_reason r))],
            ae_request_id = ctx_request_id c \<rparr> db)"

subsection \<open>Submitting and answering\<close>

record handover_detail =
  hd_request :: handover_request
  hd_sub_project_ids :: "uuid list"

definition list_handover_requests ::
  "user \<Rightarrow> handover_status option \<Rightarrow> database \<Rightarrow> handover_detail list" where
  "list_handover_requests actor status db =
     map (\<lambda>r. \<lparr> hd_request = r, hd_sub_project_ids = list_request_project_ids (hr_id r) db \<rparr>)
       (repo_list_handover_requests actor status db)"

fun link_projects :: "uuid \<Rightarrow> uuid list \<Rightarrow> database \<Rightarrow> database" where
  "link_projects request_id [] db = db"
| "link_projects request_id (k # ks) db =
     (let (new_id, db) = uuid4 db in
      link_projects request_id ks (add_request_project
        \<lparr> hrp_id = new_id, hrp_request_id = request_id, hrp_sub_project_id = k \<rparr> db))"

definition submit_handover_request ::
  "env \<Rightarrow> user \<Rightarrow> uuid list \<Rightarrow> uuid \<Rightarrow> string \<Rightarrow> database \<Rightarrow> py_error + (handover_detail \<times> database)" where
  "submit_handover_request e actor sub_ids to_user_id reason db =
     attempt (guard (u_role actor = user_role.proj_leader) PermissionDenied) (\<lambda>_.
     attempt (deduplicate_ids sub_ids) (\<lambda>ids.
     attempt (guard (to_user_id \<noteq> u_id actor)
        (BusinessError 3003 ''Candidate cannot be the current project leader''
           [(''to_user_id'', PUuid to_user_id)])) (\<lambda>_.
     attempt (get_active_project_leader to_user_id db) (\<lambda>to_user.
     attempt (traverse (\<lambda>k. get_existing_sub_project k db) ids) (\<lambda>projects.
     attempt (ensure_owned_active actor projects) (\<lambda>_.
     let (new_id, db) = uuid4 db;
         r = \<lparr> hr_id = new_id, hr_from_user_id = u_id actor, hr_to_user_id = u_id to_user,
           hr_reason = reason, hr_status = handover_status.pending_candidate,
           hr_candidate_comment = None, hr_candidate_responded_at = None, hr_reviewer_id = None,
           hr_review_comment = None, hr_reviewed_at = None, hr_forced_by_id = None,
           hr_forced_at = None, hr_created_at = clock e, hr_updated_at = clock e \<rparr>;
         db = link_projects new_id ids (add_handover_request r db);
         db = notify_handover e ''handover_request_candidate'' [u_id to_user] new_id
           [(''request_id'', PUuid new_id), (''reason'', PStr reason)] db
     in Inr (\<lparr> hd_request = r, hd_sub_project_ids = ids \<rparr>,
             record_handover_audit e actor ''handover_request.create'' r ids db)))))))"

datatype handover_candidate_decision = confirm | reject

datatype handover_review_decision = approve | reject

fun candidate_decision_value :: "handover_candidate_decision \<Rightarrow> string" where
  "candidate_decision_value handover_candidate_decision.confirm = ''confirm''"
| "candidate_decision_value handover_candidate_decision.reject = ''reject''"

definition answer_request ::
  "env \<Rightarrow> string option \<Rightarrow> handover_status \<Rightarrow> handover_request \<Rightarrow> handover_request" where
  "answer_request e comment status r =
     r\<lparr> hr_candidate_comment := clean_optional_text comment,
        hr_candidate_responded_at := Some (clock e), hr_updated_at := clock e, hr_status := status \<rparr>"

definition review_candidate ::
  "env \<Rightarrow> user \<Rightarrow> uuid \<Rightarrow> handover_candidate_decision \<Rightarrow> string option \<Rightarrow> database
     \<Rightarrow> py_error + (handover_detail \<times> database)" where
  "review_candidate e actor k decision comment db =
     attempt (get_existing_handover_request k db) (\<lambda>r.
     attempt (guard (u_id actor = hr_to_user_id r) PermissionDenied) (\<lambda>_.
     attempt (guard (hr_status r = handover_status.pending_candidate)
        (invalid_request_status (hr_status r))) (\<lambda>_.
     let ids = list_request_project_ids (hr_id r) db;
         rejecting = (decision = handover_candidate_decision.reject);
         status = (if rejecting then handover_status.candidate_rejected
           else handover_status.pending_review)
     in attempt (if rejecting then Inr [hr_from_user_id r] else reviewer_receivers ids db) (\<lambda>receivers.
        let db = save_handover_request k (answer_request e comment status) db;
            db = notify_handover e
              (if rejecting then ''handover_request_rejected'' else ''handover_request_pending_review'')
              receivers k [(''request_id'', PUuid k),
                (''decision'', PStr (candidate_decision_value decision))] db
        in Inr (\<lparr> hd_request = answer_request e comment status r, hd_sub_project_ids = ids \<rparr>, db)))))"

subsection \<open>Transfer\<close>

definition upsert_request_members ::
  "env \<Rightarrow> uuid \<Rightarrow> uuid \<Rightarrow> uuid \<Rightarrow> database \<Rightarrow> database" where
  "upsert_request_members e sid old_manager new_manager db =
     (let db = (case get_member sid old_manager db of None \<Rightarrow> db
            | Some m \<Rightarrow> save_member (mem_id m) (\<lambda>r. r\<lparr>mem_role := member_role.proj_member,
                  mem_updated_at := clock e\<rparr>) db)
      in case get_member sid new_manager db of
           Some m \<Rightarrow> save_member (mem_id m) (\<lambda>r. r\<lparr>mem_role := member_role.proj_leader,
                  mem_updated_at := clock e\<rparr>) db
         | None \<Rightarrow>
            (let (new_id, db) = uuid4 db in
             add_member \<lparr> mem_id = new_id, mem_sub_project_id = sid, mem_user_id = new_manager,
               mem_role = member_role.proj_leader, mem_joined_at = clock e,
               mem_updated_at = clock e \<rparr> db))"

record completion_notification =
  cn_receivers :: "uuid list"
  cn_source_id :: uuid
  cn_payload :: payload

definition transfer_project ::
  "env \<Rightarrow> user \<Rightarrow> handover_request \<Rightarrow> uuid \<Rightarrow> uuid \<Rightarrow> completion_notification list \<times> database
     \<Rightarrow> py_error + (completion_notification list \<times> database)" where
  "transfer_project e actor r to_id sid state =
     (case state of (notes, db) \<Rightarrow>
     attempt (get_existing_sub_project sid db) (\<lambda>s.
     attempt (ensure_active_project s) (\<lambda>_.
     attempt (guard (sp_manager_id s = hr_from_user_id r)
        (BusinessError 3003 ''Sub project manager no longer matches handover request''
           [(''sub_project_id'', PUuid sid)])) (\<lambda>_.
     let old_manager = sp_manager_id s;
         db = save_sub_project sid (\<lambda>q. q\<lparr>sp_manager_id := to_id, sp_updated_at := clock e\<rparr>) db;
         db = upsert_request_members e sid old_manager to_id db;
         (handover_id, db) = uuid4 db;
         db = add_handover \<lparr> ho_id = handover_id, ho_sub_project_id = sid,
           ho_from_user_id = old_manager, ho_to_user_id = to_id, ho_reason = hr_reason r,
           ho_operator_id = u_id actor, ho_operated_at = clock e \<rparr> db;
         member_ids = map mem_user_id (handover_list_members sid db)
     in Inr (notes @ [\<lparr> cn_receivers = dedup (old_manager # to_id # member_ids), cn_source_id = sid,
            cn_payload = [(''project_no'', PStr (sp_project_no s)), (''project_name'', PStr (sp_name s)),
              (''from_user_id'', PUuid old_manager), (''to_user_id'', PUuid to_id),
              (''reason'', PStr (hr_reason r))] \<rparr>], db)))))"

text \<open>The rows are read again for each project: they are the objects the session holds.\<close>

definition apply_transfer ::
  "env \<Rightarrow> user \<Rightarrow> handover_request \<Rightarrow> uuid list \<Rightarrow> database
     \<Rightarrow> py_error + (completion_notification list \<times> database)" where
  "apply_transfer e actor r ids db =
     attempt (get_active_project_leader (hr_to_user_id r) db) (\<lambda>to_user.
     fold_result (transfer_project e actor r (u_id to_user)) ids ([], db))"

fun send_completion_notifications ::
  "env \<Rightarrow> completion_notification list \<Rightarrow> database \<Rightarrow> database" where
  "send_completion_notifications e [] db = db"
| "send_completion_notifications e (n # ns) db =
     send_completion_notifications e ns
       (notify_handover e ''handover_completed'' (cn_receivers n) (cn_source_id n) (cn_payload n) db)"

subsection \<open>Deciding and forcing\<close>

definition decide_request ::
  "env \<Rightarrow> user \<Rightarrow> string option \<Rightarrow> handover_status \<Rightarrow> handover_request \<Rightarrow> handover_request" where
  "decide_request e actor comment status r =
     r\<lparr> hr_reviewer_id := Some (u_id actor), hr_review_comment := clean_optional_text comment,
        hr_reviewed_at := Some (clock e), hr_updated_at := clock e, hr_status := status \<rparr>"

definition review_handover_request ::
  "env \<Rightarrow> user \<Rightarrow> uuid \<Rightarrow> handover_review_decision \<Rightarrow> string option \<Rightarrow> database
     \<Rightarrow> py_error + (handover_detail \<times> database)" where
  "review_handover_request e actor k decision comment db =
     attempt (get_existing_handover_request k db) (\<lambda>r.
     attempt (guard (hr_status r = handover_status.pending_review)
        (invalid_request_status (hr_status r))) (\<lambda>_.
     let ids = list_request_project_ids (hr_id r) db
     in attempt (traverse (\<lambda>sid. get_existing_sub_project sid db) ids) (\<lambda>projects.
        attempt (ensure_can_review_handover actor projects) (\<lambda>_.
        attempt
          (if decision = handover_review_decision.reject
           then
             let decide = decide_request e actor comment handover_status.review_rejected;
                 db = save_handover_request k decide db
             in Inr (decide r, notify_handover e ''handover_request_rejected''
                  [hr_from_user_id r, hr_to_user_id r] k
                  [(''request_id'', PUuid k), (''decision'', PStr ''reject'')] db)
           else
             let decide = decide_request e actor comment handover_status.approved;
                 db = save_handover_request k decide db
             in attempt (apply_transfer e actor (decide r) ids db) (\<lambda>(notes, db).
                Inr (decide r, send_completion_notifications e notes db)))
          (\<lambda>(after, db). Inr (\<lparr> hd_request = after, hd_sub_project_ids = ids \<rparr>,
             record_handover_audit e actor ''handover_request.review'' after ids db))))))"

definition force_mark :: "env \<Rightarrow> user \<Rightarrow> handover_request \<Rightarrow> handover_request" where
  "force_mark e actor r =
     r\<lparr> hr_status := handover_status.forced, hr_forced_by_id := Some (u_id actor),
        hr_forced_at := Some (clock e), hr_updated_at := clock e \<rparr>"

definition force_handover_request ::
  "env \<Rightarrow> user \<Rightarrow> uuid \<Rightarrow> database \<Rightarrow> py_error + (handover_detail \<times> database)" where
  "force_handover_request e actor k db =
     attempt (guard (u_role actor = user_role.admin) PermissionDenied) (\<lambda>_.
     attempt (get_existing_handover_request k db) (\<lambda>r.
     attempt (guard (hr_status r = handover_status.pending_candidate)
        (invalid_request_status (hr_status r))) (\<lambda>_.
     attempt (guard (\<not> (clock e - hr_created_at r < admin_force_after))
        (BusinessError 3003 ''Candidate confirmation timeout has not elapsed''
           [(''request_id'', PUuid k)])) (\<lambda>_.
     let ids = list_request_project_ids (hr_id r) db
     in attempt (traverse (\<lambda>sid. get_existing_sub_project sid db) ids) (\<lambda>_.
        let db = save_handover_request k (force_mark e actor) db
        in attempt (apply_transfer e actor (force_mark e actor r) ids db) (\<lambda>(notes, db).
           let db = send_completion_notifications e notes db
           in Inr (\<lparr> hd_request = force_mark e actor r, hd_sub_project_ids = ids \<rparr>,
                record_handover_audit e actor ''handover_request.force'' (force_mark e actor r) ids db)))))))"

subsection \<open>Write sets\<close>

lemma handover_repository_evolves [evolve_rules]:
  "HandoverRequests \<in> W \<Longrightarrow> evolves W a b \<Longrightarrow> evolves W a (add_handover_request r b)"
  "HandoverRequests \<in> W \<Longrightarrow> evolves W a b \<Longrightarrow> evolves W a (save_handover_request k f b)"
  "RequestProjects \<in> W \<Longrightarrow> evolves W a b \<Longrightarrow> evolves W a (add_request_project p b)"
  by (simp_all add: evolves_def writes_iff add_handover_request_def save_handover_request_def
      add_request_project_def)

lemma notify_handover_evolves [evolve_rules]:
  "Notifications \<in> W \<Longrightarrow> Outbox \<in> W \<Longrightarrow> evolves W a db \<Longrightarrow>
     evolves W a (notify_handover e sc rs src p db)"
  unfolding notify_handover_def
  by (assumption | rule evolve_rules | (simp; fail))+

lemma record_handover_audit_evolves [evolve_rules]:
  "Audit \<in> W \<Longrightarrow> evolves W a b \<Longrightarrow> evolves W a (record_handover_audit e actor action r ids b)"
  by (simp add: record_handover_audit_def evolves_def writes_iff Let_def enqueue_audit_def)

lemma link_projects_evolves [evolve_rules]:
  "RequestProjects \<in> W \<Longrightarrow> evolves W a db \<Longrightarrow> evolves W a (link_projects k ids db)"
  by (induction k ids db rule: link_projects.induct)
    (auto simp: uuid4_def Let_def add_request_project_def evolves_def writes_iff)

lemma upsert_request_members_evolves [evolve_rules]:
  "Members \<in> W \<Longrightarrow> evolves W a db \<Longrightarrow>
     evolves W a (upsert_request_members e sid old new db)"
  unfolding upsert_request_members_def
  by (assumption | rule evolve_rules | (simp; fail))+

lemma send_completion_evolves [evolve_rules]:
  "Notifications \<in> W \<Longrightarrow> Outbox \<in> W \<Longrightarrow> evolves W a db \<Longrightarrow>
     evolves W a (send_completion_notifications e ns db)"
  by (induction e ns db rule: send_completion_notifications.induct) (auto intro: evolve_rules)

lemma submit_handover_request_writes:
  "yields (evolves {HandoverRequests, RequestProjects, Notifications, Outbox, Audit} db) (submit_handover_request e actor ids to_id reason db)"
  unfolding submit_handover_request_def
  by (assumption | rule yields_rules evolve_rules | (simp; fail))+

lemma review_candidate_writes:
  "yields (evolves {HandoverRequests, Notifications, Outbox} db) (review_candidate e actor k decision comment db)"
  unfolding review_candidate_def
  by (assumption | rule yields_rules evolve_rules | (simp; fail))+

text \<open>What a transfer keeps, project by project.\<close>

lemma yields_fold:
  assumes "\<And>x ns d. P d \<Longrightarrow> yields P (f x (ns, d))" and "P db"
  shows "yields P (fold_result f xs (ns, db))"
  using assms(2)
proof (induction xs arbitrary: ns db)
  case Nil
  then show ?case by (simp add: yields_def)
next
  case (Cons x xs)
  have "yields P (attempt (f x (ns, db)) (\<lambda>(n, d). fold_result f xs (n, d)))"
    by (rule yields_bind [OF assms(1) [OF Cons.prems]]) (rule Cons.IH)
  then show ?case by (simp add: case_prod_eta)
qed

lemma transfer_project_evolves:
  assumes "{Subs, Members, Handovers} \<subseteq> W" and "evolves W a db"
  shows "yields (evolves W a) (transfer_project e actor r to_id sid (ns, db))"
  unfolding transfer_project_def prod.case
  by (assumption | rule yields_rules evolve_rules assms(2) | (use assms(1) in simp; fail))+

lemma apply_transfer_evolves:
  assumes "{Subs, Members, Handovers} \<subseteq> W" and "evolves W a db"
  shows "yields (evolves W a) (apply_transfer e actor r ids db)"
  unfolding apply_transfer_def
  by (intro yields_attempt yields_fold transfer_project_evolves assms)

lemma review_handover_request_writes:
  "yields (evolves {HandoverRequests, Subs, Members, Handovers, Notifications, Outbox, Audit} db) (review_handover_request e actor k decision comment db)"
  unfolding review_handover_request_def
  by (assumption | rule yields_rules evolve_rules apply_transfer_evolves | (simp; fail))+

lemma force_handover_request_writes:
  "yields (evolves {HandoverRequests, Subs, Members, Handovers, Notifications, Outbox, Audit} db) (force_handover_request e actor k db)"
  unfolding force_handover_request_def
  by (assumption | rule yields_rules evolve_rules apply_transfer_evolves | (simp; fail))+

subsection \<open>Effects\<close>

text \<open>
  A change of manager, as both handover services make it: the manager column of one sub
  project, the role of the old manager's member row, and the new manager's row, updated or
  added.  Rows are compared without the columns a change of manager may write.
\<close>

definition forget_manager :: "sub_project \<Rightarrow> sub_project" where
  "forget_manager s = s\<lparr>sp_manager_id := 0, sp_updated_at := 0\<rparr>"

definition sets_role :: "member_role \<Rightarrow> (sub_project_member \<Rightarrow> sub_project_member) \<Rightarrow> bool" where
  "sets_role role f \<longleftrightarrow> (\<forall>m. mem_id (f m) = mem_id m \<and> mem_sub_project_id (f m) = mem_sub_project_id m \<and>
     mem_user_id (f m) = mem_user_id m \<and> mem_role (f m) = role)"

definition role_saved ::
  "uuid \<Rightarrow> uuid \<Rightarrow> member_role \<Rightarrow> sub_project_member list \<Rightarrow> sub_project_member list \<Rightarrow> bool" where
  "role_saved sid uid role ms ms' \<longleftrightarrow>
     (\<exists>m f. find (\<lambda>m. mem_sub_project_id m = sid \<and> mem_user_id m = uid) ms = Some m \<and>
        sets_role role f \<and> ms' = update_rows mem_id (mem_id m) f ms)"

definition no_member :: "uuid \<Rightarrow> uuid \<Rightarrow> sub_project_member list \<Rightarrow> bool" where
  "no_member sid uid ms \<longleftrightarrow> find (\<lambda>m. mem_sub_project_id m = sid \<and> mem_user_id m = uid) ms = None"

definition leader_changed ::
  "uuid \<Rightarrow> uuid \<Rightarrow> uuid \<Rightarrow> database \<Rightarrow> database \<Rightarrow> bool" where
  "leader_changed sid old new a b \<longleftrightarrow> (\<exists>ms.
     (no_member sid old (members a) \<and> ms = members a \<or>
      role_saved sid old member_role.proj_member (members a) ms) \<and>
     (role_saved sid new member_role.proj_leader ms (members b) \<and> next_uuid a \<le> next_uuid b \<or>
      no_member sid new ms \<and> next_uuid a < next_uuid b \<and>
        (\<exists>m. members b = ms @ [m] \<and> mem_id m = next_uuid a \<and> mem_sub_project_id m = sid \<and>
           mem_user_id m = new \<and> mem_role m = member_role.proj_leader)))"

definition manager_change :: "database \<Rightarrow> database \<Rightarrow> bool" where
  "manager_change a b \<longleftrightarrow> (\<exists>sid s new f. get_sub_project sid a = Some s \<and>
     sub_projects b = update_rows sp_id sid f (sub_projects a) \<and>
     (\<forall>q. forget_manager (f q) = forget_manager q \<and> sp_manager_id (f q) = new) \<and>
     leader_changed sid (sp_manager_id s) new a b)"

lemma upsert_cases:
  assumes "sets_role member_role.proj_member f" and "sets_role member_role.proj_leader g"
    and "mem_id row = next_uuid a" "mem_sub_project_id row = sid" "mem_user_id row = new"
      "mem_role row = member_role.proj_leader"
    and "ms = (case get_member sid old a of None \<Rightarrow> members a
      | Some m \<Rightarrow> update_rows mem_id (mem_id m) f (members a))"
    and "case find (\<lambda>m. mem_sub_project_id m = sid \<and> mem_user_id m = new) ms of
        Some m \<Rightarrow> members b = update_rows mem_id (mem_id m) g ms \<and> next_uuid a \<le> next_uuid b
      | None \<Rightarrow> members b = ms @ [row] \<and> next_uuid a < next_uuid b"
  shows "leader_changed sid old new a b"
  unfolding leader_changed_def
proof (intro exI conjI)
  show "no_member sid old (members a) \<and> ms = members a \<or>
      role_saved sid old member_role.proj_member (members a) ms"
    using assms(1,7) by (auto simp: no_member_def role_saved_def get_member_def split: option.splits)
  show "role_saved sid new member_role.proj_leader ms (members b) \<and> next_uuid a \<le> next_uuid b \<or>
      no_member sid new ms \<and> next_uuid a < next_uuid b \<and>
        (\<exists>m. members b = ms @ [m] \<and> mem_id m = next_uuid a \<and> mem_sub_project_id m = sid \<and>
           mem_user_id m = new \<and> mem_role m = member_role.proj_leader)"
    using assms(2-6,8) by (auto simp: no_member_def role_saved_def split: option.splits)
qed

lemma upsert_members_changed:
  assumes "members d = members a" and "next_uuid d = next_uuid a"
  shows "members b = members (upsert_request_members e sid old new d) \<Longrightarrow>
      next_uuid (upsert_request_members e sid old new d) \<le> next_uuid b \<Longrightarrow> leader_changed sid old new a b"
    and "members b = members (upsert_handover_members e sid old new d) \<Longrightarrow>
      next_uuid (upsert_handover_members e sid old new d) \<le> next_uuid b \<Longrightarrow> leader_changed sid old new a b"
proof -
  let ?row = "\<lparr> mem_id = next_uuid a, mem_sub_project_id = sid, mem_user_id = new,
    mem_role = member_role.proj_leader, mem_joined_at = clock e, mem_updated_at = clock e \<rparr>"
  assume b: "members b = members (upsert_request_members e sid old new d)"
    "next_uuid (upsert_request_members e sid old new d) \<le> next_uuid b"
  show "leader_changed sid old new a b"
    by (rule upsert_cases [where f = "\<lambda>r. r\<lparr>mem_role := member_role.proj_member, mem_updated_at := clock e\<rparr>"
          and g = "\<lambda>r. r\<lparr>mem_role := member_role.proj_leader, mem_updated_at := clock e\<rparr>"
          and row = ?row, OF _ _ _ _ _ _ refl])
      (use b assms in \<open>auto simp: sets_role_def upsert_request_members_def get_member_def Let_def
        repository_defs split: option.splits\<close>)
next
  let ?row = "\<lparr> mem_id = next_uuid a, mem_sub_project_id = sid, mem_user_id = new,
    mem_role = member_role.proj_leader, mem_joined_at = clock e, mem_updated_at = clock e \<rparr>"
  assume b: "members b = members (upsert_handover_members e sid old new d)"
    "next_uuid (upsert_handover_members e sid old new d) \<le> next_uuid b"
  show "leader_changed sid old new a b"
    by (rule upsert_cases [where f = "\<lambda>r. r\<lparr>mem_role := member_role.proj_member\<rparr>"
          and g = "\<lambda>r. r\<lparr>mem_role := member_role.proj_leader\<rparr>"
          and row = ?row, OF _ _ _ _ _ _ refl])
      (use b assms in \<open>auto simp: sets_role_def upsert_handover_members_def get_member_def Let_def
        repository_defs split: option.splits\<close>)
qed

lemma forget_manager_update [simp]:
  "forget_manager (q\<lparr>sp_manager_id := m\<rparr>) = forget_manager q"
  "forget_manager (q\<lparr>sp_manager_id := m, sp_updated_at := t\<rparr>) = forget_manager q"
  by (simp_all add: forget_manager_def)

lemma handover_manager_change:
  assumes "handover_sub_project e actor sid to_id reason expected db = Inr (r, db')"
  shows "manager_change db db'"
proof -
  from handover_sub_project_effect [OF assms] obtain s d where
    s: "get_sub_project sid db = Some s"
      "sub_projects db' = update_rows sp_id sid (\<lambda>r. r\<lparr>sp_manager_id := to_id\<rparr>) (sub_projects db)" and
    d: "members d = members db" "next_uuid d = next_uuid db"
      "members db' = members (upsert_handover_members e sid (sp_manager_id s) to_id d)"
      "next_uuid (upsert_handover_members e sid (sp_manager_id s) to_id d) \<le> next_uuid db'" by blast
  from upsert_members_changed(2) [OF d] s show ?thesis
    unfolding manager_change_def
    by (intro exI conjI allI) (assumption | simp)+
qed

lemma upsert_request_members_frame [simp]:
  "sub_projects (upsert_request_members e sid old new db) = sub_projects db"
  using upsert_request_members_evolves [of "{Members}" db db e sid old new]
  by (simp add: evolves_refl evolves_iff writes_iff)

lemma transfer_manager_change:
  assumes "transfer_project e actor r to_id sid (ns, db) = Inr (ns', db')"
  shows "manager_change db db' \<and> (\<exists>s. get_sub_project sid db = Some s \<and>
    sp_manager_id s = hr_from_user_id r \<and> ensure_active_project s = Inr () \<and>
    sub_projects db' = update_rows sp_id sid
      (\<lambda>q. q\<lparr>sp_manager_id := to_id, sp_updated_at := clock e\<rparr>) (sub_projects db))"
proof -
  let ?d = "save_sub_project sid (\<lambda>q. q\<lparr>sp_manager_id := to_id, sp_updated_at := clock e\<rparr>) db"
  let ?u = "\<lambda>s. upsert_request_members e sid (sp_manager_id s) to_id ?d"
  from assms obtain s where
    s: "get_sub_project sid db = Some s" "sp_manager_id s = hr_from_user_id r"
      "ensure_active_project s = Inr ()" and
    b: "sub_projects db' = sub_projects (?u s)" "members db' = members (?u s)"
      "next_uuid (?u s) \<le> next_uuid db'"
    unfolding transfer_project_def get_existing_sub_project_def prod.case
    apply (elim attempt_InrE guard_InrE present_InrE let_pairE letE Inr_pairE)
    apply (rule that)
         apply (assumption | (simp; fail))+
        apply (simp_all (no_asm_simp) add: add_handover_def)
    done
  have "members ?d = members db" "next_uuid ?d = next_uuid db" by (simp_all add: repository_defs)
  note changed = upsert_members_changed(1) [OF this b(2,3)]
  have subs: "sub_projects db' = update_rows sp_id sid
      (\<lambda>q. q\<lparr>sp_manager_id := to_id, sp_updated_at := clock e\<rparr>) (sub_projects db)"
    using b(1) by (simp add: repository_defs)
  have "manager_change db db'"
    unfolding manager_change_def using s(1) changed subs
    by (intro exI conjI allI) (assumption | simp)+
  with s subs show ?thesis by blast
qed

lemma apply_transfer_changes:
  assumes "apply_transfer e actor r ids db = Inr (ns, db')"
  shows "manager_change\<^sup>*\<^sup>* db db'"
proof -
  have run: "manager_change\<^sup>*\<^sup>* db db'"
    if "fold_result (transfer_project e actor r to_id) ids (ns0, db) = Inr (ns, db')" for to_id ns0
    using that
  proof (induction ids arbitrary: ns0 db)
    case Nil
    then show ?case by simp
  next
    case (Cons x ids)
    then obtain ns1 db1 where x: "transfer_project e actor r to_id x (ns0, db) = Inr (ns1, db1)"
      "fold_result (transfer_project e actor r to_id) ids (ns1, db1) = Inr (ns, db')"
      by (auto elim!: attempt_InrE)
    have "manager_change db db1" using transfer_manager_change [OF x(1)] by simp
    then show ?case using Cons.IH [OF x(2)] by (rule converse_rtranclp_into_rtranclp)
  qed
  from assms show ?thesis
    unfolding apply_transfer_def by (auto elim!: attempt_InrE intro: run)
qed

text \<open>
  The handover operations, as runs of manager changes between moves that leave the teams alone.
\<close>

definition team_same :: "database \<Rightarrow> database \<Rightarrow> bool" where
  "team_same a b \<longleftrightarrow> sub_projects b = sub_projects a \<and> members b = members a \<and>
     next_uuid a \<le> next_uuid b"

definition team_move :: "database \<Rightarrow> database \<Rightarrow> bool" where
  "team_move a b \<longleftrightarrow> manager_change a b \<or> team_same a b"

lemma evolves_team_same: "evolves W a b \<Longrightarrow> Subs \<notin> W \<Longrightarrow> Members \<notin> W \<Longrightarrow> team_same a b"
  by (simp add: team_same_def evolves_iff writes_iff)

lemma apply_transfer_moves:
  "apply_transfer e actor r ids db = Inr (ns, db') \<Longrightarrow> team_move\<^sup>*\<^sup>* db db'"
  using mono_rtranclp [of manager_change team_move] apply_transfer_changes
  by (auto simp: team_move_def)

lemma completion_team_same:
  "team_same b (record_handover_audit e actor act r ids (send_completion_notifications e ns b))"
  "team_same b (record_handover_audit e actor act r ids (notify_handover e sc rs src p b))"
  "team_same b (save_handover_request k f b)"
proof -
  have "evolves {Notifications, Outbox, Audit} b
      (record_handover_audit e actor act r ids (send_completion_notifications e ns b))"
    "evolves {Notifications, Outbox, Audit, HandoverRequests} b
      (record_handover_audit e actor act r ids (notify_handover e sc rs src p b))"
    by (rule evolve_rules | simp)+
  then show "team_same b (record_handover_audit e actor act r ids (send_completion_notifications e ns b))"
    "team_same b (record_handover_audit e actor act r ids (notify_handover e sc rs src p b))"
    by (auto elim: evolves_team_same)
  show "team_same b (save_handover_request k f b)"
    by (simp add: team_same_def save_handover_request_def)
qed

lemma team_move_run:
  assumes "team_same a b" and "team_move\<^sup>*\<^sup>* b c" and "team_same c d"
  shows "team_move\<^sup>*\<^sup>* a d"
proof -
  from assms(1) have "team_move a b" by (simp add: team_move_def)
  then have "team_move\<^sup>*\<^sup>* a c" using assms(2) by (rule converse_rtranclp_into_rtranclp)
  moreover from assms(3) have "team_move c d" by (simp add: team_move_def)
  ultimately show ?thesis by (rule rtranclp.rtrancl_into_rtrancl)
qed

lemma force_handover_moves:
  assumes "force_handover_request e actor k db = Inr (r, db')"
  shows "team_move\<^sup>*\<^sup>* db db'"
proof -
  from assms obtain q ids ns db2 where
    t: "apply_transfer e actor (force_mark e actor q) ids
      (save_handover_request k (force_mark e actor) db) = Inr (ns, db2)" and
    d: "db' = record_handover_audit e actor ''handover_request.force'' (force_mark e actor q) ids
      (send_completion_notifications e ns db2)"
    unfolding force_handover_request_def
    by (auto elim!: attempt_pairE attempt_InrE guard_InrE simp: Let_def)
  show ?thesis unfolding d
    by (rule team_move_run [OF completion_team_same(3) apply_transfer_moves [OF t]
          completion_team_same(1)])
qed

lemma review_handover_moves:
  assumes "review_handover_request e actor k decision comment db = Inr (r, db')"
  shows "team_move\<^sup>*\<^sup>* db db'"
proof (cases "decision = handover_review_decision.reject")
  case True
  from assms obtain f sc rs p q ids where
    "db' = record_handover_audit e actor ''handover_request.review'' q ids
      (notify_handover e sc rs k p (save_handover_request k f db))"
    unfolding review_handover_request_def
    by (auto elim!: attempt_pairE attempt_InrE guard_InrE simp: Let_def True)
  then show ?thesis
    using team_move_run [OF completion_team_same(3) rtranclp.rtrancl_refl completion_team_same(2)]
    by simp
next
  case False
  from assms obtain f q ids ns db2 where
    t: "apply_transfer e actor q ids (save_handover_request k f db) = Inr (ns, db2)" and
    d: "db' = record_handover_audit e actor ''handover_request.review'' q ids
      (send_completion_notifications e ns db2)"
    unfolding review_handover_request_def
    by (auto elim!: attempt_pairE attempt_InrE guard_InrE simp: Let_def False)
  show ?thesis unfolding d
    by (rule team_move_run [OF completion_team_same(3) apply_transfer_moves [OF t]
          completion_team_same(1)])
qed

end
