(* ===== verification/Tasks.thy ===== *)
theory Tasks
  imports Phases
begin

text \<open>
  Tasks (\<open>app/services/tasks.py\<close>): a task of a phase with its executors, its number, and its
  status as the aggregate of the statuses of its executors.  \<open>task.executors\<close> is the
  relationship to the executor table: the rows of that table with the task's id.
\<close>

subsection \<open>Task numbers\<close>

definition task_number :: "string \<Rightarrow> int \<Rightarrow> string" where
  "task_number project_no sequence = project_no @ ''-T-'' @ format_padded 3 sequence"

definition task_sequence_of :: "string \<Rightarrow> int option" where
  "task_sequence_of task_no = Option.bind (after_last ''-T-'' task_no) py_int"

definition next_sequence_from_task_numbers :: "string list \<Rightarrow> int" where
  "next_sequence_from_task_numbers numbers = max_sequence_from task_sequence_of 0 numbers + 1"

subsection \<open>Repository\<close>

definition view_all_task_roles :: "user_role set" where
  "view_all_task_roles = {user_role.admin, user_role.dept_manager, user_role.finance_manager}"

definition get_task_row :: "uuid \<Rightarrow> database \<Rightarrow> task option" where
  "get_task_row k db = find_row task_id k (tasks db)"

definition add_task :: "task \<Rightarrow> database \<Rightarrow> database" where
  "add_task t db = db\<lparr>tasks := tasks db @ [t]\<rparr>"

definition save_task :: "uuid \<Rightarrow> (task \<Rightarrow> task) \<Rightarrow> database \<Rightarrow> database" where
  "save_task k f db = db\<lparr>tasks := update_rows task_id k f (tasks db)\<rparr>"

definition executors_of :: "uuid \<Rightarrow> database \<Rightarrow> task_executor list" where
  "executors_of k db = filter (\<lambda>x. ex_task_id x = k) (executors db)"

definition add_executor :: "task_executor \<Rightarrow> database \<Rightarrow> database" where
  "add_executor x db = db\<lparr>executors := executors db @ [x]\<rparr>"

definition save_executor :: "uuid \<Rightarrow> (task_executor \<Rightarrow> task_executor) \<Rightarrow> database \<Rightarrow> database" where
  "save_executor k f db = db\<lparr>executors := update_rows ex_id k f (executors db)\<rparr>"

interpretation task_rows: row_store task_id tasks get_task_row add_task save_task
  by unfold_locales (simp_all add: get_task_row_def add_task_def save_task_def)

definition next_task_sequence :: "uuid \<Rightarrow> database \<Rightarrow> int" where
  "next_task_sequence sid db = next_sequence_from_task_numbers
     (map task_task_no (filter (\<lambda>t. task_sub_project_id t = sid) (tasks db)))"

definition repo_list_tasks ::
  "user \<Rightarrow> uuid option \<Rightarrow> uuid option \<Rightarrow> task_status option \<Rightarrow> database \<Rightarrow> task list" where
  "repo_list_tasks actor sid assignee status db =
     (let rows = filter (\<lambda>t. (sid = None \<or> sid = Some (task_sub_project_id t))
            \<and> (status = None \<or> status = Some (task_status t))
            \<and> (case assignee of None \<Rightarrow> True
               | Some u \<Rightarrow> \<exists>x \<in> set (executors_of (task_id t) db). ex_user_id x = u)) (tasks db);
          visible = map sp_id (filter (\<lambda>s. sp_manager_id s = u_id actor
             \<or> has_member (sp_id s) (u_id actor) db) (sub_projects db));
          rows = (if u_role actor \<in> view_all_task_roles then rows
            else filter (\<lambda>t. task_sub_project_id t \<in> set visible) rows)
      in sort_key (\<lambda>t. (task_plan_end_date t, task_created_at t)) rows)"

subsection \<open>Status\<close>

definition aggregate_task_status :: "task_executor list \<Rightarrow> task_status" where
  "aggregate_task_status xs =
     (let statuses = map ex_status xs
      in if statuses \<noteq> [] \<and> (\<forall>s \<in> set statuses. s = task_status.completed) then task_status.completed
         else if task_status.overdue \<in> set statuses then task_status.overdue
         else if task_status.in_progress \<in> set statuses then task_status.in_progress
         else task_status.not_started)"

definition refresh_task_status :: "env \<Rightarrow> uuid \<Rightarrow> database \<Rightarrow> database" where
  "refresh_task_status e k db =
     (let status = aggregate_task_status (executors_of k db)
      in save_task k (\<lambda>t. t\<lparr>task_status := status, task_updated_at := clock e\<rparr>) db)"

subsection \<open>Checks\<close>

record executor_assign =
  ea_user_id :: uuid
  ea_plan_end_date :: date

definition get_existing_task :: "uuid \<Rightarrow> database \<Rightarrow> py_error + task" where
  "get_existing_task k db = present (get_task_row k db) (ResourceNotFound ''Task does not exist'')"

definition get_task_scope :: "uuid \<Rightarrow> uuid \<Rightarrow> database \<Rightarrow> py_error + (sub_project \<times> phase)" where
  "get_task_scope sid phase_id db =
     attempt (get_existing_sub_project sid db) (\<lambda>s.
     attempt (get_existing_phase phase_id db) (\<lambda>p.
     attempt (guard (ph_sub_project_id p = sp_id s) (ResourceNotFound ''Phase does not exist''))
       (\<lambda>_. Inr (s, p))))"

definition ensure_can_assign :: "user \<Rightarrow> sub_project \<Rightarrow> py_error + unit" where
  "ensure_can_assign actor s =
     guard (u_role actor = user_role.admin \<or>
        (u_role actor = user_role.proj_leader \<and> sp_manager_id s = u_id actor)) PermissionDenied"

fun validate_assignments_from ::
  "uuid list \<Rightarrow> uuid \<Rightarrow> executor_assign list \<Rightarrow> database \<Rightarrow> py_error + executor_assign list" where
  "validate_assignments_from seen sid [] db = Inr []"
| "validate_assignments_from seen sid (a # as) db =
     attempt (guard (ea_user_id a \<notin> set seen)
        (ValidationFailed ''Task executors must be unique'' [])) (\<lambda>_.
     attempt (guard (get_member sid (ea_user_id a) db \<noteq> None)
        (BusinessError 3003 ''Task executor must be a sub project member''
           [(''user_id'', PUuid (ea_user_id a))])) (\<lambda>_.
     attempt (validate_assignments_from (ea_user_id a # seen) sid as db) (\<lambda>rest. Inr (a # rest))))"

definition validate_assignments ::
  "uuid \<Rightarrow> executor_assign list \<Rightarrow> database \<Rightarrow> py_error + executor_assign list" where
  "validate_assignments sid as db =
     attempt (guard (as \<noteq> []) (ValidationFailed ''At least one executor is required'' [])) (\<lambda>_.
     validate_assignments_from [] sid as db)"

subsection \<open>Operations\<close>

definition list_tasks ::
  "user \<Rightarrow> uuid option \<Rightarrow> string option \<Rightarrow> task_status option \<Rightarrow> database \<Rightarrow> py_error + task list" where
  "list_tasks actor sid assignee status db =
     attempt (guard (assignee \<in> {None, Some ''me''})
        (ValidationFailed ''Only assignee=me is supported'' [])) (\<lambda>_.
     attempt (case sid of None \<Rightarrow> Inr ()
        | Some k \<Rightarrow> attempt (get_existing_sub_project k db) (\<lambda>s.
            ensure_visible view_all_task_roles actor s db)) (\<lambda>_.
     Inr (repo_list_tasks actor sid (if assignee = Some ''me'' then Some (u_id actor) else None)
            status db)))"

definition get_task :: "user \<Rightarrow> uuid \<Rightarrow> database \<Rightarrow> py_error + task" where
  "get_task actor k db =
     attempt (get_existing_task k db) (\<lambda>t.
     attempt (get_existing_sub_project (task_sub_project_id t) db) (\<lambda>s.
     attempt (ensure_visible view_all_task_roles actor s db) (\<lambda>_. Inr t)))"

definition send_task_assigned :: "env \<Rightarrow> task \<Rightarrow> uuid list \<Rightarrow> database \<Rightarrow> database" where
  "send_task_assigned e t receivers db =
     (if receivers = [] then db
      else notify e ''task_assigned'' receivers (task_id t)
        [(''task_id'', PUuid (task_id t)), (''task_no'', PStr (task_task_no t)),
         (''sub_project_id'', PUuid (task_sub_project_id t)),
         (''phase_id'', PUuid (task_phase_id t))] db)"

definition new_executor :: "env \<Rightarrow> uuid \<Rightarrow> executor_assign \<Rightarrow> uuid \<Rightarrow> task_executor" where
  "new_executor e k a new_id =
     \<lparr> ex_id = new_id, ex_task_id = k, ex_user_id = ea_user_id a,
       ex_plan_end_date = ea_plan_end_date a, ex_actual_end_date = None,
       ex_status = task_status.in_progress, ex_updated_at = clock e \<rparr>"

fun add_executors :: "env \<Rightarrow> uuid \<Rightarrow> executor_assign list \<Rightarrow> database \<Rightarrow> database" where
  "add_executors e k [] db = db"
| "add_executors e k (a # as) db =
     (let (new_id, db) = uuid4 db in add_executors e k as (add_executor (new_executor e k a new_id) db))"

record task_create =
  tc_sub_project_id :: uuid
  tc_phase_id :: uuid
  tc_name :: string
  tc_plan_end_date :: date
  tc_executors :: "executor_assign list"

definition create_task ::
  "env \<Rightarrow> user \<Rightarrow> task_create \<Rightarrow> database \<Rightarrow> py_error + (task \<times> database)" where
  "create_task e actor payload db =
     attempt (get_task_scope (tc_sub_project_id payload) (tc_phase_id payload) db) (\<lambda>(s, p).
     attempt (ensure_can_assign actor s) (\<lambda>_.
     attempt (validate_assignments (sp_id s) (tc_executors payload) db) (\<lambda>assigned.
     let no = task_number (sp_project_no s) (next_task_sequence (sp_id s) db);
         (new_id, db) = uuid4 db;
         db = add_executors e new_id assigned db;
         t = \<lparr> task_id = new_id, task_task_no = no, task_sub_project_id = sp_id s,
           task_phase_id = ph_id p, task_name = tc_name payload,
           task_plan_end_date = tc_plan_end_date payload,
           task_status = aggregate_task_status (executors_of new_id db),
           task_created_at = clock e, task_updated_at = clock e \<rparr>
     in Inr (t, send_task_assigned e t (map ea_user_id assigned) (add_task t db)))))"

record task_update =
  tu_name :: "string option"
  tu_plan_end_date :: "date option"
  tu_executors :: "executor_assign list option"

text \<open>
  The loop over the assignments: an executor already assigned keeps its row and gets the new
  date, the others are created.  It returns the ids of the rows kept and the new receivers.
  \<open>existing_by_user\<close> is a dict: of two rows of one user the later counts.
\<close>

fun reassign ::
  "env \<Rightarrow> uuid \<Rightarrow> task_executor list \<Rightarrow> executor_assign list \<Rightarrow> database
     \<Rightarrow> uuid list \<times> uuid list \<times> database" where
  "reassign e k existing [] db = ([], [], db)"
| "reassign e k existing (a # as) db =
     (case find (\<lambda>x. ex_user_id x = ea_user_id a) (rev existing) of
        Some x \<Rightarrow>
          let db = save_executor (ex_id x) (\<lambda>r. r\<lparr>ex_plan_end_date := ea_plan_end_date a,
                ex_updated_at := clock e\<rparr>) db;
              (kept, receivers, db) = reassign e k existing as db
          in (ex_id x # kept, receivers, db)
      | None \<Rightarrow>
          let (new_id, db) = uuid4 db;
              db = add_executor (new_executor e k a new_id) db;
              (kept, receivers, db) = reassign e k existing as db
          in (new_id # kept, ea_user_id a # receivers, db))"

text \<open>
  \<open>delete_executor\<close> of the executors that are no longer assigned, and the assignment of the
  relationship, which drops every row of the task that is not in the new list.
\<close>

definition delete_other_executors :: "uuid \<Rightarrow> uuid list \<Rightarrow> database \<Rightarrow> database" where
  "delete_other_executors k kept db =
     db\<lparr>executors := filter (\<lambda>x. ex_task_id x \<noteq> k \<or> ex_id x \<in> set kept) (executors db)\<rparr>"

definition apply_task_fields :: "task_update \<Rightarrow> env \<Rightarrow> task \<Rightarrow> task" where
  "apply_task_fields u e t =
     t\<lparr> task_name := case_option (task_name t) id (tu_name u),
        task_plan_end_date := case_option (task_plan_end_date t) id (tu_plan_end_date u),
        task_updated_at := clock e \<rparr>"

definition update_task ::
  "env \<Rightarrow> user \<Rightarrow> uuid \<Rightarrow> task_update \<Rightarrow> database \<Rightarrow> py_error + (task \<times> database)" where
  "update_task e actor k payload db =
     attempt (get_existing_task k db) (\<lambda>t.
     attempt (get_existing_sub_project (task_sub_project_id t) db) (\<lambda>s.
     attempt (ensure_can_assign actor s) (\<lambda>_.
     attempt (case tu_executors payload of
          None \<Rightarrow> Inr ([], save_task k (apply_task_fields payload e) db)
        | Some as \<Rightarrow>
            attempt (validate_assignments (sp_id s) as db) (\<lambda>assigned.
            let (kept, receivers, db) = reassign e k (executors_of k db) assigned db;
                db = delete_other_executors k kept db;
                db = refresh_task_status e k (save_task k (apply_task_fields payload e) db)
            in Inr (receivers, db))) (\<lambda>(receivers, db).
     let after = (case get_task_row k db of None \<Rightarrow> t | Some row \<Rightarrow> row)
     in Inr (after, send_task_assigned e after receivers db)))))"

definition complete_executor :: "env \<Rightarrow> task_executor \<Rightarrow> task_executor" where
  "complete_executor e x =
     x\<lparr>ex_status := task_status.completed, ex_actual_end_date := Some (today e),
       ex_updated_at := clock e\<rparr>"

definition complete_task ::
  "env \<Rightarrow> user \<Rightarrow> uuid \<Rightarrow> database \<Rightarrow> py_error + (task \<times> database)" where
  "complete_task e actor k db =
     attempt (get_existing_task k db) (\<lambda>t.
     attempt (present (find (\<lambda>x. ex_user_id x = u_id actor) (executors_of k db)) PermissionDenied) (\<lambda>x.
     if ex_status x = task_status.completed then Inr (t, db)
     else
       let db = refresh_task_status e k (save_executor (ex_id x) (complete_executor e) db)
       in Inr (case get_task_row k db of None \<Rightarrow> t | Some row \<Rightarrow> row, db)))"

subsection \<open>Write sets\<close>

lemma task_repository_evolves [evolve_rules]:
  "Tasks \<in> W \<Longrightarrow> evolves W a b \<Longrightarrow> evolves W a (add_task t b)"
  "Tasks \<in> W \<Longrightarrow> evolves W a b \<Longrightarrow> evolves W a (save_task k f b)"
  "Executors \<in> W \<Longrightarrow> evolves W a b \<Longrightarrow> evolves W a (add_executor x b)"
  "Executors \<in> W \<Longrightarrow> evolves W a b \<Longrightarrow> evolves W a (save_executor k g b)"
  "Executors \<in> W \<Longrightarrow> evolves W a b \<Longrightarrow> evolves W a (delete_other_executors k kept b)"
  by (simp_all add: evolves_def writes_iff add_task_def save_task_def add_executor_def
      save_executor_def delete_other_executors_def)

lemma refresh_task_status_evolves [evolve_rules]:
  "Tasks \<in> W \<Longrightarrow> evolves W a db \<Longrightarrow>
     evolves W a (refresh_task_status e k db)"
  unfolding refresh_task_status_def Let_def
  by (assumption | rule evolve_rules | (simp; fail))+

lemma send_task_assigned_evolves [evolve_rules]:
  "Notifications \<in> W \<Longrightarrow> Outbox \<in> W \<Longrightarrow> evolves W a db \<Longrightarrow>
     evolves W a (send_task_assigned e t rs db)"
  unfolding send_task_assigned_def
  by (assumption | rule evolve_rules | (simp; fail))+

lemma add_executors_evolves [evolve_rules]:
  "Executors \<in> W \<Longrightarrow> evolves W a db \<Longrightarrow> evolves W a (add_executors e k as db)"
  by (induction e k as db rule: add_executors.induct)
    (auto simp: uuid4_def Let_def add_executor_def evolves_def writes_iff)

lemma reassign_evolves [evolve_rules]:
  "Executors \<in> W \<Longrightarrow> evolves W a db \<Longrightarrow> evolves W a (snd (snd (reassign e k xs as db)))"
  by (induction e k xs as db rule: reassign.induct)
    (auto simp: uuid4_def Let_def split_beta add_executor_def save_executor_def evolves_def writes_iff
       split: option.split)

lemma create_task_writes:
  "yields (evolves {Tasks, Executors, Notifications, Outbox} db) (create_task e actor payload db)"
  unfolding create_task_def
  by (assumption | rule yields_rules evolve_rules | (simp; fail))+

lemma update_task_writes:
  "yields (evolves {Tasks, Executors, Notifications, Outbox} db) (update_task e actor k payload db)"
  unfolding update_task_def
  by (assumption | rule yields_rules evolve_rules | (simp; fail))+

lemma complete_task_writes:
  "yields (evolves {Tasks, Executors} db) (complete_task e actor k db)"
  unfolding complete_task_def
  by (assumption | rule yields_rules evolve_rules | (simp; fail))+

subsection \<open>Effects\<close>

text \<open>Task numbers follow the contract of a numbering scheme.\<close>

lemma task_sequence_of_number:
  assumes "0 < n"
  shows "task_sequence_of (task_number base n) = Some n"
proof -
  let ?d = "format_padded 3 n"
  have d: "\<forall>c \<in> set ?d. is_digit c" using assms by (intro format_padded_digits) simp
  then have "\<forall>c \<in> set ?d. c \<noteq> CHR ''-''" by (auto simp: is_digit_def)
  then have "after_last ''-T-'' ?d = None" by (intro after_last_other) simp_all
  moreover have "\<not> prefix ''T-'' ?d" using d by (auto simp: prefix_def is_digit_def)
  ultimately have "after_last ''-T-'' (''-T-'' @ ?d) = Some ?d" by simp
  then have "after_last ''-T-'' (base @ ''-T-'' @ ?d) = Some ?d" by (rule after_last_append)
  moreover have "py_int ?d = Some n" using assms by (intro py_int_format_padded) simp
  ultimately show ?thesis by (simp add: task_sequence_of_def task_number_def)
qed

interpretation task_numbers: numbering task_number task_sequence_of next_sequence_from_task_numbers
proof unfold_locales
  fix n :: int and base base' x :: string and xs k
  show "0 < n \<Longrightarrow> task_sequence_of (task_number base n) = Some n"
    by (rule task_sequence_of_number)
  show "task_number base n = task_number base' n \<Longrightarrow> base = base'"
    by (simp add: task_number_def)
  show "0 < next_sequence_from_task_numbers xs"
    using max_sequence_from_ge [of 0 task_sequence_of xs]
    by (simp add: next_sequence_from_task_numbers_def)
  show "x \<in> set xs \<Longrightarrow> task_sequence_of x = Some k \<Longrightarrow> k < next_sequence_from_task_numbers xs"
    using max_sequence_from_upper [of x xs task_sequence_of k 0]
    by (simp add: next_sequence_from_task_numbers_def)
qed

text \<open>
  What the status of a task depends on: id, task, user and status of each executor, in
  order.  Saving a date leaves the view alone, adding an executor appends to it.
\<close>

definition executor_view :: "task_executor \<Rightarrow> uuid \<times> uuid \<times> uuid \<times> task_status" where
  "executor_view x = (ex_id x, ex_task_id x, ex_user_id x, ex_status x)"

definition exec_view :: "database \<Rightarrow> (uuid \<times> uuid \<times> uuid \<times> task_status) list" where
  "exec_view db = map executor_view (executors db)"

definition view_of :: "uuid \<Rightarrow> database \<Rightarrow> (uuid \<times> uuid \<times> uuid \<times> task_status) list" where
  "view_of k db = filter (\<lambda>(_, t, _). t = k) (exec_view db)"

lemma view_of_executors: "view_of k db = map executor_view (executors_of k db)"
  by (simp add: view_of_def exec_view_def executors_of_def executor_view_def filter_map comp_def)

lemma aggregate_view:
  "aggregate_task_status (executors_of k db) = aggregate_task_status (executors_of k db')"
  if "view_of k db = view_of k db'"
proof -
  have "map ex_status (executors_of k d) = map (\<lambda>(_, _, _, s). s) (view_of k d)" for d
    by (simp add: view_of_executors executor_view_def)
  with that show ?thesis by (simp add: aggregate_task_status_def)
qed

lemma view_of_cong: "executors db = executors db' \<Longrightarrow> view_of k db = view_of k db'"
  by (simp add: view_of_executors executors_of_def)

lemma exec_view_save_date [simp]:
  "exec_view (save_executor i (\<lambda>r. r\<lparr>ex_plan_end_date := d, ex_updated_at := t\<rparr>) db) = exec_view db"
  by (simp add: exec_view_def save_executor_def update_rows_def executor_view_def)

lemma exec_view_add [simp]: "exec_view (add_executor x db) = exec_view db @ [executor_view x]"
  by (simp add: exec_view_def add_executor_def)

lemma exec_view_next [simp]: "exec_view (db\<lparr>next_uuid := n\<rparr>) = exec_view db"
  by (simp add: exec_view_def)

lemma exec_view_delete:
  "exec_view (delete_other_executors k kept db) =
     filter (\<lambda>(i, t, _). t \<noteq> k \<or> i \<in> set kept) (exec_view db)"
  by (simp add: exec_view_def delete_other_executors_def executor_view_def filter_map comp_def)

lemma executor_tables [simp]:
  "tasks (save_executor i f db) = tasks db" "tasks (add_executor x db) = tasks db"
  "tasks (delete_other_executors k kept db) = tasks db"
  "executors (save_task k g db) = executors db" "executors (add_task t db) = executors db"
  "tasks (add_task t db) = tasks db @ [t]" "tasks (save_task k g db) = update_rows task_id k g (tasks db)"
  "next_uuid (save_executor i f db) = next_uuid db" "next_uuid (add_executor x db) = next_uuid db"
  "next_uuid (add_task t db) = next_uuid db" "next_uuid (save_task k g db) = next_uuid db"
  "next_uuid (delete_other_executors k kept db) = next_uuid db"
  by (simp_all add: save_executor_def add_executor_def delete_other_executors_def save_task_def
      add_task_def)

text \<open>The contract of the status column, and how a refresh restores it for one task.\<close>

definition task_status_ok :: "database \<Rightarrow> task \<Rightarrow> bool" where
  "task_status_ok db t \<longleftrightarrow> task_status t = aggregate_task_status (executors_of (task_id t) db)"

lemma task_status_ok_view:
  "view_of (task_id t) db = view_of (task_id t) db' \<Longrightarrow> task_status_ok db t = task_status_ok db' t"
  unfolding task_status_ok_def by (simp add: aggregate_view [of "task_id t" db db'])

lemma refresh_executors [simp]: "executors (refresh_task_status e k db) = executors db"
  by (simp add: refresh_task_status_def)

lemma refresh_next_uuid [simp]: "next_uuid (refresh_task_status e k db) = next_uuid db"
  by (simp add: refresh_task_status_def)

lemma refresh_restores:
  assumes "\<forall>t \<in> set (tasks db). task_id t \<noteq> k \<longrightarrow> task_status_ok db t"
  shows "\<forall>t \<in> set (tasks (refresh_task_status e k db)).
    task_status_ok (refresh_task_status e k db) t"
  using assms
  by (auto simp: refresh_task_status_def set_update_rows task_status_ok_def executors_of_def)

lemma refresh_keys [simp]:
  "map task_id (tasks (refresh_task_status e k db)) = map task_id (tasks db)"
  "map task_task_no (tasks (refresh_task_status e k db)) = map task_task_no (tasks db)"
  "map task_sub_project_id (tasks (refresh_task_status e k db)) = map task_sub_project_id (tasks db)"
  by (simp_all add: refresh_task_status_def map_update_rows)

text \<open>An executor row changed in place belongs to one task.\<close>

lemma save_executor_others:
  assumes "\<forall>y \<in> set (executors db). ex_id y = i \<longrightarrow> ex_task_id y = k"
    and "\<And>y. ex_task_id (f y) = ex_task_id y" and "k' \<noteq> k"
  shows "executors_of k' (save_executor i f db) = executors_of k' db"
proof -
  have "filter (\<lambda>x. ex_task_id x = k') (update_rows ex_id i f rows) = filter (\<lambda>x. ex_task_id x = k') rows"
    if "\<forall>y \<in> set rows. ex_id y = i \<longrightarrow> ex_task_id y = k" for rows
    using that assms(2,3) by (induction rows) (auto simp: update_rows_def)
  with assms(1) show ?thesis by (simp add: executors_of_def save_executor_def)
qed

lemma save_refresh_ok:
  assumes "\<forall>t \<in> set (tasks db). task_status_ok db t"
    and "\<forall>y \<in> set (executors db). ex_id y = i \<longrightarrow> ex_task_id y = k"
    and "\<And>y. ex_task_id (f y) = ex_task_id y"
  shows "\<forall>t \<in> set (tasks (refresh_task_status e k (save_executor i f db))).
    task_status_ok (refresh_task_status e k (save_executor i f db)) t"
  using assms(1) save_executor_others [OF assms(2,3)]
  by (intro refresh_restores) (auto simp: task_status_ok_def)

lemma validate_assignments_from_effect:
  "validate_assignments_from seen sid as db = Inr as' \<Longrightarrow> as' = as \<and> distinct (map ea_user_id as) \<and>
     set (map ea_user_id as) \<inter> set seen = {} \<and> (\<forall>a \<in> set as. get_member sid (ea_user_id a) db \<noteq> None)"
  by (induction seen sid as db arbitrary: as' rule: validate_assignments_from.induct)
    (auto simp: result_simps)

lemma validate_assignments_effect:
  "validate_assignments sid as db = Inr as' \<Longrightarrow> as' = as \<and> as \<noteq> [] \<and> distinct (map ea_user_id as) \<and>
     (\<forall>a \<in> set as. get_member sid (ea_user_id a) db \<noteq> None)"
  unfolding validate_assignments_def
  by (auto simp: result_simps dest: validate_assignments_from_effect)

lemma new_executors_map:
  "length ids = length as \<Longrightarrow>
     map ex_user_id (map (\<lambda>(a, i). new_executor e k a i) (zip as ids)) = map ea_user_id as \<and>
     map ex_id (map (\<lambda>(a, i). new_executor e k a i) (zip as ids)) = ids"
  by (induction ids as rule: list_induct2) (simp_all add: new_executor_def)

lemma add_executors_effect:
  "executors (add_executors e k as db) =
     executors db @ map (\<lambda>(a, i). new_executor e k a i) (zip as [next_uuid db ..< next_uuid db + length as]) \<and>
   tasks (add_executors e k as db) = tasks db \<and>
   next_uuid (add_executors e k as db) = next_uuid db + length as"
proof (induction as arbitrary: db)
  case (Cons a as)
  have "[next_uuid db ..< next_uuid db + length (a # as)] =
      next_uuid db # [Suc (next_uuid db) ..< Suc (next_uuid db) + length as]"
    using upt_conv_Cons [of "next_uuid db" "next_uuid db + length (a # as)"] by simp
  with Cons.IH [of "add_executor (new_executor e k a (next_uuid db)) (db\<lparr>next_uuid := Suc (next_uuid db)\<rparr>)"]
  show ?case by (simp add: uuid4_def add_executor_def)
qed simp

lemma send_task_assigned_frame [simp]:
  "tasks (send_task_assigned e t rs db) = tasks db"
  "executors (send_task_assigned e t rs db) = executors db"
  "next_uuid db \<le> next_uuid (send_task_assigned e t rs db)"
  using send_task_assigned_evolves [of "{Notifications, Outbox}" db db e t rs]
  by (simp_all add: evolves_refl evolves_iff writes_iff)

lemma create_task_effect:
  assumes "create_task e actor payload db = Inr (t, db')"
  obtains s p xs where "get_sub_project (tc_sub_project_id payload) db = Some s"
    and "get_phase (tc_phase_id payload) db = Some p" and "ph_sub_project_id p = sp_id s"
    and "ensure_can_assign actor s = Inr ()"
    and "tasks db' = tasks db @ [t]" and "task_id t = next_uuid db"
    and "task_sub_project_id t = sp_id s" and "task_phase_id t = ph_id p"
    and "task_task_no t = task_number (sp_project_no s) (next_task_sequence (sp_id s) db)"
    and "executors db' = executors db @ xs" and "xs \<noteq> []"
    and "map ex_user_id xs = map ea_user_id (tc_executors payload)"
    and "distinct (map ex_user_id xs)"
    and "\<forall>x \<in> set xs. ex_task_id x = task_id t \<and> get_member (sp_id s) (ex_user_id x) db \<noteq> None"
    and "map ex_id xs = [Suc (next_uuid db) ..< Suc (next_uuid db) + length xs]"
    and "Suc (next_uuid db) + length xs \<le> next_uuid db'"
    and "task_status_ok db' t"
proof -
  let ?as = "tc_executors payload"
  let ?db1 = "db\<lparr>next_uuid := Suc (next_uuid db)\<rparr>"
  let ?db2 = "add_executors e (next_uuid db) ?as ?db1"
  let ?xs = "map (\<lambda>(a, i). new_executor e (next_uuid db) a i)
    (zip ?as [Suc (next_uuid db) ..< Suc (next_uuid db) + length ?as])"
  from assms obtain s p assigned where
    a: "get_sub_project (tc_sub_project_id payload) db = Some s"
      "get_phase (tc_phase_id payload) db = Some p" "ph_sub_project_id p = sp_id s"
      "ensure_can_assign actor s = Inr ()" "validate_assignments (sp_id s) ?as db = Inr assigned" and
    b: "(let no = task_number (sp_project_no s) (next_task_sequence (sp_id s) db);
         (new_id, db) = uuid4 db;
         db = add_executors e new_id assigned db;
         t = \<lparr> task_id = new_id, task_task_no = no, task_sub_project_id = sp_id s,
           task_phase_id = ph_id p, task_name = tc_name payload,
           task_plan_end_date = tc_plan_end_date payload,
           task_status = aggregate_task_status (executors_of new_id db),
           task_created_at = clock e, task_updated_at = clock e \<rparr>
     in Inr (t, send_task_assigned e t (map ea_user_id assigned) (add_task t db))) =
       (Inr (t, db') :: py_error + (task \<times> database))"
    unfolding create_task_def get_task_scope_def get_existing_sub_project_def get_existing_phase_def
    apply (elim attempt_pairE attempt_InrE guard_InrE present_InrE Inr_pairE)
    apply hypsubst
    apply (rule that)
         apply (assumption | (simp; fail))+
    done
  note V = validate_assignments_effect [OF a(5)]
  have as: "assigned = ?as" using V by simp
  define t0 where "t0 = \<lparr> task_id = next_uuid db,
    task_task_no = task_number (sp_project_no s) (next_task_sequence (sp_id s) db),
    task_sub_project_id = sp_id s, task_phase_id = ph_id p, task_name = tc_name payload,
    task_plan_end_date = tc_plan_end_date payload,
    task_status = aggregate_task_status (executors_of (next_uuid db) ?db2),
    task_created_at = clock e, task_updated_at = clock e \<rparr>"
  have t: "t = t0" and db': "db' = send_task_assigned e t0 (map ea_user_id ?as) (add_task t0 ?db2)"
    using b unfolding as uuid4_def Let_def prod.case t0_def [symmetric] by auto
  note X = add_executors_effect [of e "next_uuid db" ?as ?db1]
  have ex: "executors db' = executors db @ ?xs" using X by (simp add: db')
  have users: "map ex_user_id ?xs = map ea_user_id ?as"
    using new_executors_map [of "[Suc (next_uuid db) ..< Suc (next_uuid db) + length ?as]" ?as]
    by (simp del: upt_Suc)
  show thesis
  proof (rule that [OF a(1-4) _ _ _ _ _ ex])
    show "tasks db' = tasks db @ [t]" using X by (simp add: db' t)
    show "task_id t = next_uuid db" "task_sub_project_id t = sp_id s" "task_phase_id t = ph_id p"
      "task_task_no t = task_number (sp_project_no s) (next_task_sequence (sp_id s) db)"
      by (simp_all add: t t0_def)
    show "?xs \<noteq> []" using V by (metis length_map list.size(3) map_is_Nil_conv users)
    show "map ex_user_id ?xs = map ea_user_id ?as" by (rule users)
    then show "distinct (map ex_user_id ?xs)" using V as by simp
    show "\<forall>x \<in> set ?xs. ex_task_id x = task_id t \<and> get_member (sp_id s) (ex_user_id x) db \<noteq> None"
      using V by (auto simp: t t0_def new_executor_def dest: set_zip_leftD)
    show "map ex_id ?xs = [Suc (next_uuid db) ..< Suc (next_uuid db) + length ?xs]"
      using new_executors_map [of "[Suc (next_uuid db) ..< Suc (next_uuid db) + length ?as]" ?as]
      by (simp del: upt_Suc)
    have "next_uuid ?db2 \<le> next_uuid db'"
      unfolding db' by (rule order_trans [OF _ send_task_assigned_frame(3)]) simp
    then show "Suc (next_uuid db) + length ?xs \<le> next_uuid db'" using X by simp
    have "executors_of (next_uuid db) db' = executors_of (next_uuid db) ?db2"
      by (simp add: executors_of_def db')
    then show "task_status_ok db' t" by (simp add: task_status_ok_def t t0_def)
  qed
qed

lemma complete_task_effect:
  assumes "complete_task e actor k db = Inr (t, db')"
  obtains "db' = db" and "get_task_row k db = Some t"
  | x where "x \<in> set (executors db)" and "ex_task_id x = k" and "ex_user_id x = u_id actor"
    and "ex_status x \<noteq> task_status.completed" and "get_task_row k db \<noteq> None"
    and "db' = refresh_task_status e k (save_executor (ex_id x) (complete_executor e) db)"
    and "get_task_row k db' = Some t"
proof -
  from assms obtain r x where a: "get_task_row k db = Some r"
    "find (\<lambda>x. ex_user_id x = u_id actor) (executors_of k db) = Some x" and
    b: "(if ex_status x = task_status.completed then Inr (r, db)
     else
       let db = refresh_task_status e k (save_executor (ex_id x) (complete_executor e) db)
       in Inr (case get_task_row k db of None \<Rightarrow> r | Some row \<Rightarrow> row, db)) =
       (Inr (t, db') :: py_error + (task \<times> database))"
    unfolding complete_task_def get_existing_task_def
    apply (elim attempt_InrE present_InrE)
    apply (rule that)
      apply assumption+
    done
  have x: "x \<in> set (executors db)" "ex_task_id x = k" "ex_user_id x = u_id actor"
    using find_SomeD [OF a(2)] by (simp_all add: executors_of_def)
  show thesis
  proof (cases "ex_status x = task_status.completed")
    case True
    with b a(1) that(1) show thesis by simp
  next
    case False
    have db': "db' = refresh_task_status e k (save_executor (ex_id x) (complete_executor e) db)"
      using b False by (simp add: Let_def)
    have "get_task_row k db' \<noteq> None"
      using a(1) unfolding db' refresh_task_status_def Let_def
      by (simp add: task_rows.get_save_same get_task_row_def find_row_update_same)
    then show thesis using that(2) [OF x False _ db'] a(1) b False by (auto simp: Let_def)
  qed
qed

text \<open>
  Reassigning the executors.  In the view, rows are only appended: one row per new receiver;
  the kept ids name, assignment by assignment, a row of the task with the assigned user.
\<close>

lemma reassign_invariant:
  assumes "reassign e k existing as db = (kept, receivers, db')"
    and "\<forall>x \<in> set existing. \<exists>s. (ex_id x, k, ex_user_id x, s) \<in> set (exec_view db)"
  shows "(\<exists>news. exec_view db' = exec_view db @ news \<and>
      map fst news = [next_uuid db ..< next_uuid db'] \<and>
      (\<forall>v \<in> set news. fst (snd v) = k \<and> snd (snd (snd v)) = task_status.in_progress) \<and>
      map (\<lambda>v. fst (snd (snd v))) news = receivers) \<and>
    list_all2 (\<lambda>a i. \<exists>s. (i, k, ea_user_id a, s) \<in> set (exec_view db')) as kept \<and>
    next_uuid db \<le> next_uuid db' \<and> tasks db' = tasks db"
  using assms
proof (induction as arbitrary: db kept receivers)
  case Nil
  then show ?case by simp
next
  case (Cons a as)
  note run = Cons.prems(1) and sub = Cons.prems(2)
  show ?case
  proof (cases "find (\<lambda>x. ex_user_id x = ea_user_id a) (rev existing)")
    case (Some x)
    let ?db1 = "save_executor (ex_id x)
      (\<lambda>r. r\<lparr>ex_plan_end_date := ea_plan_end_date a, ex_updated_at := clock e\<rparr>) db"
    from run Some obtain kept1 where
      r: "reassign e k existing as ?db1 = (kept1, receivers, db')" and kept: "kept = ex_id x # kept1"
      by (auto simp: Let_def split: prod.splits)
    have sub1: "\<forall>x \<in> set existing. \<exists>s. (ex_id x, k, ex_user_id x, s) \<in> set (exec_view ?db1)"
      using sub by simp
    note IH = Cons.IH [OF r sub1]
    then obtain news where view: "exec_view db' = exec_view db @ news" by auto
    have "\<exists>s. (ex_id x, k, ea_user_id a, s) \<in> set (exec_view db')"
      using find_SomeD [OF Some] sub view by fastforce
    then show ?thesis using IH by (simp add: kept)
  next
    case None
    let ?x = "new_executor e k a (next_uuid db)"
    let ?db1 = "add_executor ?x (db\<lparr>next_uuid := Suc (next_uuid db)\<rparr>)"
    from run None obtain kept1 receivers1 where
      r: "reassign e k existing as ?db1 = (kept1, receivers1, db')" and
      kept: "kept = next_uuid db # kept1" "receivers = ea_user_id a # receivers1"
      by (auto simp: Let_def uuid4_def split: prod.splits)
    have sub1: "\<forall>x \<in> set existing. \<exists>s. (ex_id x, k, ex_user_id x, s) \<in> set (exec_view ?db1)"
      using sub by auto
    note IH = Cons.IH [OF r sub1]
    then obtain news where
      news: "exec_view db' = (exec_view db @ [executor_view ?x]) @ news"
        "map fst news = [Suc (next_uuid db) ..< next_uuid db']"
        "\<forall>v \<in> set news. fst (snd v) = k \<and> snd (snd (snd v)) = task_status.in_progress"
        "map (\<lambda>v. fst (snd (snd v))) news = receivers1" by auto
    have x: "executor_view ?x = (next_uuid db, k, ea_user_id a, task_status.in_progress)"
      by (simp add: executor_view_def new_executor_def)
    have le: "Suc (next_uuid db) \<le> next_uuid db'" using IH by simp
    have "exec_view db' = exec_view db @ (executor_view ?x # news)" using news(1) by simp
    moreover have "map fst (executor_view ?x # news) = [next_uuid db ..< next_uuid db']"
      using news(2) le by (simp add: x upt_conv_Cons)
    ultimately show ?thesis using IH news(3,4) le
      by (intro conjI exI [of _ "executor_view ?x # news"]) (auto simp: x kept)
  qed
qed

lemma reassign_effect:
  assumes "reassign e k existing as db = (kept, receivers, db')"
    and "\<forall>x \<in> set existing. \<exists>s. (ex_id x, k, ex_user_id x, s) \<in> set (exec_view db)"
  shows "\<exists>news. exec_view db' = exec_view db @ news \<and>
      map fst news = [next_uuid db ..< next_uuid db'] \<and>
      (\<forall>v \<in> set news. fst (snd v) = k \<and> snd (snd (snd v)) = task_status.in_progress) \<and>
      map (\<lambda>v. fst (snd (snd v))) news = receivers"
    and "list_all2 (\<lambda>a i. \<exists>s. (i, k, ea_user_id a, s) \<in> set (exec_view db')) as kept"
    and "next_uuid db \<le> next_uuid db'" and "tasks db' = tasks db"
  using reassign_invariant [OF assms] by simp_all

lemma exec_view_users:
  "map ex_user_id (executors_of k db) = map (\<lambda>v. fst (snd (snd v))) (view_of k db)"
  by (simp add: view_of_executors executor_view_def)

lemma exec_view_ids: "map ex_id (executors db) = map fst (exec_view db)"
  by (simp add: exec_view_def executor_view_def)

lemma fresh_exec_view: "fresh_ids ex_id (executors db) n \<longleftrightarrow>
    distinct (map fst (exec_view db)) \<and> (\<forall>v \<in> set (exec_view db). fst v < n)"
  by (auto simp: fresh_ids_def exec_view_def executor_view_def comp_def)

text \<open>The executors of a task after its reassignment: the assigned users, each once.\<close>

lemma reassigned_users:
  assumes run: "reassign e k (executors_of k db) as db = (kept, receivers, db1)"
    and fresh: "fresh_ids ex_id (executors db) (next_uuid db)"
    and users: "distinct (map ea_user_id as)"
  defines "db2 \<equiv> delete_other_executors k kept db1"
  shows "fresh_ids ex_id (executors db2) (next_uuid db2)"
    and "\<And>k'. k' \<noteq> k \<Longrightarrow> view_of k' db2 = view_of k' db"
    and "set (map ex_user_id (executors_of k db2)) = set (map ea_user_id as)"
    and "distinct (map ex_user_id (executors_of k db2))"
    and "tasks db2 = tasks db" and "next_uuid db \<le> next_uuid db2"
proof -
  have "\<forall>x \<in> set (executors_of k db). \<exists>s. (ex_id x, k, ex_user_id x, s) \<in> set (exec_view db)"
    by (auto simp: executors_of_def exec_view_def executor_view_def)
  note R = reassign_effect [OF run this]
  from R(1) obtain news where news: "exec_view db1 = exec_view db @ news"
    "map fst news = [next_uuid db ..< next_uuid db1]" "\<forall>v \<in> set news. fst (snd v) = k" by blast
  have fresh1: "distinct (map fst (exec_view db1))" "\<forall>v \<in> set (exec_view db1). fst v < next_uuid db1"
  proof -
    have "fst v \<in> {next_uuid db ..< next_uuid db1}" if "v \<in> set news" for v
      using that news(2) by (metis image_eqI list.set_map set_upt)
    then show "distinct (map fst (exec_view db1))" "\<forall>v \<in> set (exec_view db1). fst v < next_uuid db1"
      using fresh R(3) unfolding fresh_exec_view by (fastforce simp: news(1,2))+
  qed
  have view2: "exec_view db2 = filter (\<lambda>(i, t, _). t \<noteq> k \<or> i \<in> set kept) (exec_view db1)"
    by (simp add: db2_def exec_view_delete)
  show "tasks db2 = tasks db" "next_uuid db \<le> next_uuid db2"
    using R(3,4) by (simp_all add: db2_def)
  show "fresh_ids ex_id (executors db2) (next_uuid db2)"
    using fresh1 unfolding fresh_exec_view view2 by (simp add: distinct_map_filter db2_def)
  show "view_of k' db2 = view_of k' db" if "k' \<noteq> k" for k'
  proof -
    have "filter (\<lambda>(_, t, _). t = k') news = []"
      using news(3) that by (fastforce simp: filter_empty_conv)
    moreover have "filter (\<lambda>(_, t, _). t = k') (filter (\<lambda>(i, t, _). t \<noteq> k \<or> i \<in> set kept) vs) =
        filter (\<lambda>(_, t, _). t = k') vs" for vs :: "(uuid \<times> uuid \<times> uuid \<times> task_status) list"
      using that by (induction vs) auto
    ultimately show ?thesis
      by (simp only: view_of_def view2 news(1) filter_append append_Nil2)
  qed
  have mem: "v \<in> set (view_of k db2) \<longleftrightarrow> v \<in> set (exec_view db1) \<and> fst (snd v) = k \<and> fst v \<in> set kept" for v
    by (auto simp: view_of_def view2)
  have len: "length as = length kept" using R(2) by (rule list_all2_lengthD)
  have row: "\<exists>s. (kept ! m, k, ea_user_id (as ! m), s) \<in> set (exec_view db1)" if "m < length as" for m
    using list_all2_nthD [OF R(2) that] .
  have at: "\<exists>m < length as. fst v = kept ! m \<and> fst (snd (snd v)) = ea_user_id (as ! m)"
    if "v \<in> set (view_of k db2)" for v
  proof -
    from that mem obtain m where m: "m < length as" "fst v = kept ! m"
      unfolding len by (metis in_set_conv_nth)
    from row [OF m(1)] obtain s where "(kept ! m, k, ea_user_id (as ! m), s) \<in> set (exec_view db1)" by blast
    with that mem m(2) distinct_key_eqD [OF fresh1(1), of v] show ?thesis
      using m by fastforce
  qed
  show "set (map ex_user_id (executors_of k db2)) = set (map ea_user_id as)"
    unfolding exec_view_users
  proof (intro equalityI subsetI)
    fix u assume "u \<in> set (map (\<lambda>v. fst (snd (snd v))) (view_of k db2))"
    with at show "u \<in> set (map ea_user_id as)" by fastforce
  next
    fix u assume "u \<in> set (map ea_user_id as)"
    then obtain m where m: "m < length as" "u = ea_user_id (as ! m)" by (auto simp: in_set_conv_nth)
    from row [OF m(1)] obtain s where "(kept ! m, k, u, s) \<in> set (exec_view db1)" using m(2) by blast
    then have "(kept ! m, k, u, s) \<in> set (view_of k db2)" using m(1) len by (simp add: mem)
    then show "u \<in> set (map (\<lambda>v. fst (snd (snd v))) (view_of k db2))" by force
  qed
  have "distinct (view_of k db2)"
    using fresh1(1) by (simp add: view_of_def view2 distinct_map)
  moreover have "inj_on (\<lambda>v. fst (snd (snd v))) (set (view_of k db2))"
  proof (rule inj_onI)
    fix v w assume v: "v \<in> set (view_of k db2)" and w: "w \<in> set (view_of k db2)"
      and eq: "fst (snd (snd v)) = fst (snd (snd w))"
    from at [OF v] at [OF w] eq users have "fst v = fst w"
      by (metis distinct_conv_nth length_map nth_map)
    with v w mem distinct_key_eqD [OF fresh1(1)] show "v = w" by blast
  qed
  ultimately show "distinct (map ex_user_id (executors_of k db2))"
    unfolding exec_view_users distinct_map by blast
qed

lemma update_task_invariant:
  assumes "update_task e actor k payload db = Inr (t, db')"
    and "fresh_ids ex_id (executors db) (next_uuid db)"
    and "\<forall>t \<in> set (tasks db). task_status_ok db t"
  shows "fresh_ids ex_id (executors db') (next_uuid db') \<and>
      (\<forall>k'. k' \<noteq> k \<longrightarrow> view_of k' db' = view_of k' db) \<and>
      (\<forall>t \<in> set (tasks db'). task_status_ok db' t) \<and>
      map task_id (tasks db') = map task_id (tasks db) \<and>
      map task_task_no (tasks db') = map task_task_no (tasks db) \<and>
      map task_sub_project_id (tasks db') = map task_sub_project_id (tasks db) \<and>
      (\<forall>as. tu_executors payload = Some as \<longrightarrow> distinct (map ex_user_id (executors_of k db')) \<and>
        set (map ex_user_id (executors_of k db')) = set (map ea_user_id as)) \<and>
      (tu_executors payload = None \<longrightarrow> executors db' = executors db)"
proof -
  have keep: "map task_id (tasks (save_task k (apply_task_fields payload e) b)) = map task_id (tasks b)"
    "map task_task_no (tasks (save_task k (apply_task_fields payload e) b)) = map task_task_no (tasks b)"
    "map task_sub_project_id (tasks (save_task k (apply_task_fields payload e) b)) =
       map task_sub_project_id (tasks b)" for b
    by (simp_all add: map_update_rows apply_task_fields_def)
  have fields: "task_status_ok b2 t" if "t \<in> set (tasks (save_task k (apply_task_fields payload e) b))"
    and "\<forall>t \<in> set (tasks b). Q (task_id t) \<longrightarrow> task_status_ok b t" and "Q (task_id t)"
    and "view_of (task_id t) b2 = view_of (task_id t) b" for t b b2 Q
  proof -
    from that(1) obtain q where q: "q \<in> set (tasks b)" "task_id t = task_id q"
      "task_status t = task_status q"
      by (auto simp: set_update_rows apply_task_fields_def)
    then have "task_status_ok b q" using that(2,3) by simp
    then have "task_status_ok b2 q" using task_status_ok_view [of q b2 b] that(4) q(2) by simp
    with q(2,3) show ?thesis by (simp add: task_status_ok_def)
  qed
  from assms(1) obtain s :: sub_project and receivers db1 where
    run: "(case tu_executors payload of
          None \<Rightarrow> Inr ([], save_task k (apply_task_fields payload e) db)
        | Some as \<Rightarrow>
            attempt (validate_assignments (sp_id s) as db) (\<lambda>assigned.
            let (kept, receivers, db) = reassign e k (executors_of k db) assigned db;
                db = delete_other_executors k kept db;
                db = refresh_task_status e k (save_task k (apply_task_fields payload e) db)
            in Inr (receivers, db))) = (Inr (receivers, db1) :: py_error + (uuid list \<times> database))" and
    frame: "tasks db' = tasks db1" "executors db' = executors db1" "next_uuid db1 \<le> next_uuid db'"
    unfolding update_task_def get_existing_task_def
    apply (elim attempt_pairE attempt_InrE present_InrE letE Inr_pairE)
    apply (rule that)
       apply assumption
      apply simp_all
    done
  have views: "view_of x db' = view_of x db1" for x by (rule view_of_cong) (rule frame)
  show ?thesis
  proof (cases "tu_executors payload")
    case None
    with run have db1: "db1 = save_task k (apply_task_fields payload e) db" by simp
    have same: "view_of x db' = view_of x db" for x
      using frame(2) by (intro view_of_cong) (simp add: db1)
    have "task_status_ok db' t" if "t \<in> set (tasks db')" for t
      using that frame(1) assms(3) same
      by (intro fields [where Q = "\<lambda>_. True"]) (simp_all add: db1)
    then show "fresh_ids ex_id (executors db') (next_uuid db') \<and>
      (\<forall>k'. k' \<noteq> k \<longrightarrow> view_of k' db' = view_of k' db) \<and>
      (\<forall>t \<in> set (tasks db'). task_status_ok db' t) \<and>
      map task_id (tasks db') = map task_id (tasks db) \<and>
      map task_task_no (tasks db') = map task_task_no (tasks db) \<and>
      map task_sub_project_id (tasks db') = map task_sub_project_id (tasks db) \<and>
      (\<forall>as. tu_executors payload = Some as \<longrightarrow> distinct (map ex_user_id (executors_of k db')) \<and>
        set (map ex_user_id (executors_of k db')) = set (map ea_user_id as)) \<and>
      (tu_executors payload = None \<longrightarrow> executors db' = executors db)"
      using assms(2) frame same None keep [of db] by (auto simp: db1 intro: fresh_ids_mono)
  next
    case (Some as)
    from run Some obtain assigned where v: "validate_assignments (sp_id s) as db = Inr assigned" and
      b: "(let (kept, receivers, db) = reassign e k (executors_of k db) assigned db;
               db = delete_other_executors k kept db;
               db = refresh_task_status e k (save_task k (apply_task_fields payload e) db)
           in Inr (receivers, db)) = (Inr (receivers, db1) :: py_error + (uuid list \<times> database))"
      by (auto elim!: attempt_InrE)
    note V = validate_assignments_effect [OF v]
    obtain kept receivers2 db_r where
      r: "reassign e k (executors_of k db) as db = (kept, receivers2, db_r)"
      by (rule prod_cases3)
    define db2 where "db2 = delete_other_executors k kept db_r"
    have db1: "db1 = refresh_task_status e k (save_task k (apply_task_fields payload e) db2)"
      using b V by (simp add: r Let_def db2_def)
    from V have "distinct (map ea_user_id as)" by simp
    note R = reassigned_users [OF r assms(2) this, folded db2_def]
    have ex: "executors db' = executors db2" using frame(2) by (simp add: db1)
    have same: "view_of x db' = view_of x db2" for x using ex by (rule view_of_cong)
    have users: "executors_of k db' = executors_of k db2" by (simp add: executors_of_def ex)
    have n: "next_uuid db2 \<le> next_uuid db'" using frame(3) by (simp add: db1)
    let ?saved = "save_task k (apply_task_fields payload e) db2"
    have "\<forall>t \<in> set (tasks ?saved). task_id t \<noteq> k \<longrightarrow> task_status_ok ?saved t"
    proof (intro ballI impI)
      fix t assume t: "t \<in> set (tasks ?saved)" "task_id t \<noteq> k"
      have "\<forall>t \<in> set (tasks db2). task_id t \<noteq> k \<longrightarrow> task_status_ok db2 t"
        using assms(3) R(2,5) task_status_ok_view by metis
      moreover have "view_of (task_id t) ?saved = view_of (task_id t) db2"
        by (rule view_of_cong) simp
      ultimately show "task_status_ok ?saved t"
        using fields [of t db2 "\<lambda>i. i \<noteq> k" ?saved] t by blast
    qed
    then have "\<forall>t \<in> set (tasks db1). task_status_ok db1 t"
      unfolding db1 by (rule refresh_restores)
    then have ok: "\<forall>t \<in> set (tasks db'). task_status_ok db' t"
      using frame by (simp add: task_status_ok_def executors_of_def)
    show "fresh_ids ex_id (executors db') (next_uuid db') \<and>
      (\<forall>k'. k' \<noteq> k \<longrightarrow> view_of k' db' = view_of k' db) \<and>
      (\<forall>t \<in> set (tasks db'). task_status_ok db' t) \<and>
      map task_id (tasks db') = map task_id (tasks db) \<and>
      map task_task_no (tasks db') = map task_task_no (tasks db) \<and>
      map task_sub_project_id (tasks db') = map task_sub_project_id (tasks db) \<and>
      (\<forall>as. tu_executors payload = Some as \<longrightarrow> distinct (map ex_user_id (executors_of k db')) \<and>
        set (map ex_user_id (executors_of k db')) = set (map ea_user_id as)) \<and>
      (tu_executors payload = None \<longrightarrow> executors db' = executors db)"
    proof (intro conjI)
      show "fresh_ids ex_id (executors db') (next_uuid db')"
        using R(1) n unfolding ex by (rule fresh_ids_mono)
      show "\<forall>k'. k' \<noteq> k \<longrightarrow> view_of k' db' = view_of k' db" using R(2) same by simp
      show "\<forall>t \<in> set (tasks db'). task_status_ok db' t" by (rule ok)
      show "map task_id (tasks db') = map task_id (tasks db)"
        "map task_task_no (tasks db') = map task_task_no (tasks db)"
        "map task_sub_project_id (tasks db') = map task_sub_project_id (tasks db)"
        using R(5) keep [of db2] by (simp_all only: frame(1) db1 refresh_keys)
      show "\<forall>as. tu_executors payload = Some as \<longrightarrow> distinct (map ex_user_id (executors_of k db')) \<and>
        set (map ex_user_id (executors_of k db')) = set (map ea_user_id as)"
        using R(3,4) Some unfolding users by simp
      show "tu_executors payload = None \<longrightarrow> executors db' = executors db" using Some by simp
    qed
  qed
qed

lemma update_task_effect:
  assumes "update_task e actor k payload db = Inr (t, db')"
    and "fresh_ids ex_id (executors db) (next_uuid db)"
    and "\<forall>t \<in> set (tasks db). task_status_ok db t"
  shows "fresh_ids ex_id (executors db') (next_uuid db')"
    and "\<And>k'. k' \<noteq> k \<Longrightarrow> view_of k' db' = view_of k' db"
    and "\<forall>t \<in> set (tasks db'). task_status_ok db' t"
    and "map task_id (tasks db') = map task_id (tasks db)"
    and "map task_task_no (tasks db') = map task_task_no (tasks db)"
    and "map task_sub_project_id (tasks db') = map task_sub_project_id (tasks db)"
    and "\<And>as. tu_executors payload = Some as \<Longrightarrow> distinct (map ex_user_id (executors_of k db')) \<and>
      set (map ex_user_id (executors_of k db')) = set (map ea_user_id as)"
    and "tu_executors payload = None \<Longrightarrow> executors db' = executors db"
  using update_task_invariant [OF assms] by simp_all

end
