(* ===== verification/TaskDeadlines.thy ===== *)
theory TaskDeadlines
  imports Tasks
begin

text \<open>
  The deadline scan (\<open>app/services/task_deadlines.py\<close>): executors due today are reminded,
  executors past their date are marked overdue and reminded, and an executor seven days late
  is reported to the administrators.  The time zone database is an argument: the local hour
  and date of an instant in a named zone.
\<close>

definition active_deadline_statuses :: "task_status set" where
  "active_deadline_statuses = {task_status.not_started, task_status.in_progress}"

record scan_result =
  sr_due_today :: nat
  sr_marked_overdue :: nat
  sr_due_notifications :: nat
  sr_overdue_notifications :: nat
  sr_overdue_escalations :: nat

subsection \<open>Repository\<close>

definition selected_user :: "uuid list option \<Rightarrow> task_executor \<Rightarrow> bool" where
  "selected_user ids x = (case ids of None \<Rightarrow> True | Some us \<Rightarrow> ex_user_id x \<in> set us)"

definition list_due_today_executors ::
  "date \<Rightarrow> uuid list option \<Rightarrow> database \<Rightarrow> task_executor list" where
  "list_due_today_executors target ids db =
     filter (\<lambda>x. ex_plan_end_date x = target \<and> ex_status x \<in> active_deadline_statuses
        \<and> selected_user ids x) (executors db)"

definition list_overdue_executors ::
  "date \<Rightarrow> uuid list option \<Rightarrow> database \<Rightarrow> task_executor list" where
  "list_overdue_executors target ids db =
     filter (\<lambda>x. ex_plan_end_date x < target \<and> ex_status x \<in> active_deadline_statuses
        \<and> selected_user ids x) (executors db)"

definition list_executor_timezones :: "database \<Rightarrow> (uuid \<times> string) list" where
  "list_executor_timezones db =
     map (\<lambda>u. (u_id u, u_timezone u)) (filter (\<lambda>u.
        u_id u \<in> ex_user_id ` set (filter (\<lambda>x. ex_status x \<in> active_deadline_statuses) (executors db))
        \<and> u_status u \<noteq> user_status.disabled) (users db))"

definition list_admin_ids :: "database \<Rightarrow> uuid list" where
  "list_admin_ids db = map u_id (filter (\<lambda>u. u_role u = user_role.admin
     \<and> u_status u = user_status.active) (users db))"

subsection \<open>Marking and notifying\<close>

definition days_overdue :: "task_executor \<Rightarrow> date \<Rightarrow> int" where
  "days_overdue x target = max (days_between target (ex_plan_end_date x)) 0"

definition deadline_payload :: "task_executor \<Rightarrow> date \<Rightarrow> database \<Rightarrow> payload" where
  "deadline_payload x target db =
     [(''task_id'', PUuid (ex_task_id x)),
      (''task_no'', case get_task_row (ex_task_id x) db of None \<Rightarrow> PNone
                    | Some t \<Rightarrow> PStr (task_task_no t)),
      (''executor_id'', PUuid (ex_id x)), (''user_id'', PUuid (ex_user_id x)),
      (''plan_end_date'', PDate (ex_plan_end_date x)),
      (''days_overdue'', PInt (days_overdue x target))]"

text \<open>One message per executor; the count is the number of notifications created.\<close>

fun notify_executors ::
  "env \<Rightarrow> string \<Rightarrow> (task_executor \<Rightarrow> uuid list) \<Rightarrow> date \<Rightarrow> task_executor list \<Rightarrow> database
     \<Rightarrow> nat \<times> database" where
  "notify_executors e scenario receivers target [] db = (0, db)"
| "notify_executors e scenario receivers target (x # xs) db =
     (let (created, db) = send e scenario (receivers x) (ex_id x) (deadline_payload x target db) db;
          (n, db) = notify_executors e scenario receivers target xs db
      in (length created + n, db))"

definition notify_due_today :: "env \<Rightarrow> date \<Rightarrow> task_executor list \<Rightarrow> database \<Rightarrow> nat \<times> database" where
  "notify_due_today e target xs db =
     notify_executors e ''task_due_today'' (\<lambda>x. [ex_user_id x]) target xs db"

definition notify_overdue :: "env \<Rightarrow> date \<Rightarrow> task_executor list \<Rightarrow> database \<Rightarrow> nat \<times> database" where
  "notify_overdue e target xs db =
     notify_executors e ''task_overdue'' (\<lambda>x. [ex_user_id x]) target xs db"

definition notify_escalations :: "env \<Rightarrow> date \<Rightarrow> task_executor list \<Rightarrow> database \<Rightarrow> nat \<times> database" where
  "notify_escalations e target xs db =
     (let admins = list_admin_ids db
      in if admins = [] then (0, db)
         else notify_executors e ''task_overdue_escalation'' (\<lambda>x. admins) target
           (filter (\<lambda>x. \<not> (days_overdue x target < 7)) xs) db)"

fun mark_overdue :: "env \<Rightarrow> task_executor list \<Rightarrow> database \<Rightarrow> database" where
  "mark_overdue e [] db = db"
| "mark_overdue e (x # xs) db =
     mark_overdue e xs (refresh_task_status e (ex_task_id x)
       (save_executor (ex_id x) (\<lambda>r. r\<lparr>ex_status := task_status.overdue,
          ex_updated_at := clock e\<rparr>) db))"

subsection \<open>Scanning\<close>

definition scan_deadlines ::
  "env \<Rightarrow> date option \<Rightarrow> uuid list option \<Rightarrow> database \<Rightarrow> scan_result \<times> database" where
  "scan_deadlines e requested ids db =
     (let target = (case requested of None \<Rightarrow> business_date e | Some d \<Rightarrow> d);
          due = list_due_today_executors target ids db;
          late = list_overdue_executors target ids db;
          (due_sent, db) = notify_due_today e target due db;
          db = mark_overdue e late db;
          (late_sent, db) = notify_overdue e target late db;
          (escalated, db) = notify_escalations e target late db
      in (\<lparr> sr_due_today = length due, sr_marked_overdue = length late,
            sr_due_notifications = due_sent, sr_overdue_notifications = late_sent,
            sr_overdue_escalations = escalated \<rparr>, db))"

definition add_results :: "scan_result \<Rightarrow> scan_result \<Rightarrow> scan_result" where
  "add_results a b =
     \<lparr> sr_due_today = sr_due_today a + sr_due_today b,
       sr_marked_overdue = sr_marked_overdue a + sr_marked_overdue b,
       sr_due_notifications = sr_due_notifications a + sr_due_notifications b,
       sr_overdue_notifications = sr_overdue_notifications a + sr_overdue_notifications b,
       sr_overdue_escalations = sr_overdue_escalations a + sr_overdue_escalations b \<rparr>"

definition no_results :: scan_result where
  "no_results = \<lparr> sr_due_today = 0, sr_marked_overdue = 0, sr_due_notifications = 0,
     sr_overdue_notifications = 0, sr_overdue_escalations = 0 \<rparr>"

fun scan_groups ::
  "env \<Rightarrow> (date \<times> uuid list) list \<Rightarrow> scan_result \<Rightarrow> database \<Rightarrow> scan_result \<times> database" where
  "scan_groups e [] acc db = (acc, db)"
| "scan_groups e ((d, ids) # groups) acc db =
     (let (r, db) = scan_deadlines e (Some d) (Some ids) db
      in scan_groups e groups (add_results acc r) db)"

text \<open>The users for whom it is nine o'clock, grouped by their date in order of appearance.\<close>

definition group_due_users ::
  "(string \<Rightarrow> datetime \<Rightarrow> int \<times> date) \<Rightarrow> datetime \<Rightarrow> (uuid \<times> string) list \<Rightarrow> (date \<times> uuid list) list" where
  "group_due_users local_time now zones =
     (let due = map (\<lambda>(u, tz). (snd (local_time tz now), u))
            (filter (\<lambda>(u, tz). fst (local_time tz now) = 9) zones)
      in map (\<lambda>d. (d, map snd (filter (\<lambda>(d', u). d' = d) due))) (dedup (map fst due)))"

definition scan_deadlines_for_due_timezones ::
  "(string \<Rightarrow> datetime \<Rightarrow> int \<times> date) \<Rightarrow> env \<Rightarrow> datetime option \<Rightarrow> database \<Rightarrow> scan_result \<times> database" where
  "scan_deadlines_for_due_timezones local_time e requested db =
     scan_groups e (group_due_users local_time (case requested of None \<Rightarrow> clock e | Some t \<Rightarrow> t)
        (list_executor_timezones db)) no_results db"

subsection \<open>Write sets\<close>

lemma notify_executors_evolves [evolve_rules]:
  "Notifications \<in> W \<Longrightarrow> Outbox \<in> W \<Longrightarrow> evolves W a db \<Longrightarrow>
     evolves W a (snd (notify_executors e sc rs d xs db))"
  by (induction xs arbitrary: db) (simp_all add: Let_def split_beta evolves_send)

lemma mark_overdue_evolves [evolve_rules]:
  "Tasks \<in> W \<Longrightarrow> Executors \<in> W \<Longrightarrow> evolves W a db \<Longrightarrow> evolves W a (mark_overdue e xs db)"
  by (induction e xs db rule: mark_overdue.induct) (auto intro: evolve_rules)

lemma scan_deadlines_writes:
  "evolves {Tasks, Executors, Notifications, Outbox} db (snd (scan_deadlines e d ids db))"
  by (simp add: scan_deadlines_def notify_due_today_def notify_overdue_def notify_escalations_def
      Let_def split_beta) (auto intro!: evolve_rules)

subsection \<open>Effects\<close>

lemma notify_executors_frame [simp]:
  "tasks (snd (notify_executors e sc rs d xs db)) = tasks db"
  "executors (snd (notify_executors e sc rs d xs db)) = executors db"
  "next_uuid db \<le> next_uuid (snd (notify_executors e sc rs d xs db))"
  using notify_executors_evolves [of "{Notifications, Outbox}" db db e sc rs d xs]
  by (simp_all add: evolves_refl evolves_iff writes_iff)

text \<open>One executor after the scan has marked the late ones.\<close>

definition mark_late :: "env \<Rightarrow> task_executor list \<Rightarrow> task_executor \<Rightarrow> task_executor" where
  "mark_late e late x =
     (if ex_id x \<in> ex_id ` set late
      then x\<lparr>ex_status := task_status.overdue, ex_updated_at := clock e\<rparr> else x)"

lemma mark_overdue_executors:
  "executors (mark_overdue e xs db) = map (mark_late e xs) (executors db)"
proof (induction xs arbitrary: db)
  case Nil
  then show ?case by (simp add: mark_late_def cong: map_cong)
next
  case (Cons x xs)
  show ?case
    by (auto simp: Cons.IH save_executor_def update_rows_def mark_late_def)
qed

lemma mark_overdue_keys:
  "map task_id (tasks (mark_overdue e xs db)) = map task_id (tasks db) \<and>
   map task_task_no (tasks (mark_overdue e xs db)) = map task_task_no (tasks db) \<and>
   map task_sub_project_id (tasks (mark_overdue e xs db)) = map task_sub_project_id (tasks db) \<and>
   next_uuid (mark_overdue e xs db) = next_uuid db"
  by (induction e xs db rule: mark_overdue.induct) simp_all

lemma mark_overdue_status_ok:
  assumes "\<forall>t \<in> set (tasks db). task_status_ok db t"
    and "\<forall>x \<in> set xs. \<forall>y \<in> set (executors db). ex_id y = ex_id x \<longrightarrow> ex_task_id y = ex_task_id x"
  shows "\<forall>t \<in> set (tasks (mark_overdue e xs db)). task_status_ok (mark_overdue e xs db) t"
  using assms
proof (induction xs arbitrary: db)
  case Nil
  then show ?case by simp
next
  case (Cons x xs)
  let ?f = "\<lambda>r. r\<lparr>ex_status := task_status.overdue, ex_updated_at := clock e\<rparr>"
  let ?db = "refresh_task_status e (ex_task_id x) (save_executor (ex_id x) ?f db)"
  have "\<forall>t \<in> set (tasks ?db). task_status_ok ?db t"
    by (rule save_refresh_ok [OF Cons.prems(1)]) (use Cons.prems(2) in simp_all)
  moreover have "\<forall>z \<in> set xs. \<forall>y \<in> set (executors ?db). ex_id y = ex_id z \<longrightarrow> ex_task_id y = ex_task_id z"
    using Cons.prems(2) by (fastforce simp: save_executor_def set_update_rows)
  ultimately show ?case using Cons.IH [of ?db] by simp
qed

lemma scan_deadlines_tables:
  "tasks (snd (scan_deadlines e d ids db)) = tasks (mark_overdue e
     (list_overdue_executors (case d of None \<Rightarrow> business_date e | Some t \<Rightarrow> t) ids db)
     (snd (notify_due_today e (case d of None \<Rightarrow> business_date e | Some t \<Rightarrow> t)
       (list_due_today_executors (case d of None \<Rightarrow> business_date e | Some t \<Rightarrow> t) ids db) db)))"
  "executors (snd (scan_deadlines e d ids db)) = map (mark_late e
     (list_overdue_executors (case d of None \<Rightarrow> business_date e | Some t \<Rightarrow> t) ids db)) (executors db)"
  by (simp_all add: scan_deadlines_def notify_due_today_def notify_overdue_def
      notify_escalations_def Let_def split_beta mark_overdue_executors)

lemma scan_deadlines_keeps:
  assumes "\<forall>t \<in> set (tasks db). task_status_ok db t"
    and "fresh_ids ex_id (executors db) (next_uuid db)"
    and result: "db' = snd (scan_deadlines e d ids db)"
  shows "\<forall>t \<in> set (tasks db'). task_status_ok db' t"
    and "fresh_ids ex_id (executors db') (next_uuid db')"
    and "map task_id (tasks db') = map task_id (tasks db)"
    and "map task_task_no (tasks db') = map task_task_no (tasks db)"
    and "map task_sub_project_id (tasks db') = map task_sub_project_id (tasks db)"
    and "map ex_task_id (executors db') = map ex_task_id (executors db)"
    and "map ex_user_id (executors db') = map ex_user_id (executors db)"
proof -
  define target where "target = (case d of None \<Rightarrow> business_date e | Some t \<Rightarrow> t)"
  define late where "late = list_overdue_executors target ids db"
  define db1 where "db1 = snd (notify_due_today e target (list_due_today_executors target ids db) db)"
  note T = scan_deadlines_tables [of e d ids db, folded target_def, folded late_def db1_def result]
  have frame: "tasks db1 = tasks db" "executors db1 = executors db"
    by (simp_all add: db1_def notify_due_today_def)
  have keys: "map ex_id (executors db') = map ex_id (executors db)"
    by (simp add: T mark_late_def)
  show "map ex_task_id (executors db') = map ex_task_id (executors db)"
    "map ex_user_id (executors db') = map ex_user_id (executors db)"
    by (simp_all add: T mark_late_def)
  show "map task_id (tasks db') = map task_id (tasks db)"
    "map task_task_no (tasks db') = map task_task_no (tasks db)"
    "map task_sub_project_id (tasks db') = map task_sub_project_id (tasks db)"
    using mark_overdue_keys [of e late db1] by (simp_all add: T frame)
  have "next_uuid db \<le> next_uuid db'"
    using scan_deadlines_writes [of db e d ids] by (simp add: result evolves_iff)
  moreover have "distinct (map ex_id (executors db))" "\<forall>i \<in> set (map ex_id (executors db)). i < next_uuid db"
    using assms(2) by (auto simp: fresh_ids_def)
  ultimately show "fresh_ids ex_id (executors db') (next_uuid db')"
    unfolding keys [symmetric] by (auto simp: fresh_ids_def)
  have unique: "ex_task_id y = ex_task_id x" if "x \<in> set late" "y \<in> set (executors db)" "ex_id y = ex_id x"
    for x y
    using that distinct_key_eqD [of ex_id "executors db" y x] assms(2)
    by (auto simp: fresh_ids_def late_def list_overdue_executors_def)
  have "\<forall>t \<in> set (tasks (mark_overdue e late db1)). task_status_ok (mark_overdue e late db1) t"
    by (rule mark_overdue_status_ok)
      (use assms(1) unique frame in \<open>auto simp: task_status_ok_def executors_of_def\<close>)
  moreover have "executors (mark_overdue e late db1) = executors db'"
    by (simp add: T mark_overdue_executors frame)
  ultimately show "\<forall>t \<in> set (tasks db'). task_status_ok db' t"
    by (simp add: T(1) task_status_ok_def executors_of_def)
qed

end
