(* ===== verification/Workflows.thy ===== *)
theory Workflows
  imports Database
begin

text \<open>
  Workflow templates (\<open>app/services/workflows.py\<close>, \<open>app/models/workflows.py\<close>, the
  validator of \<open>app/schemas/workflows.py\<close>): project types, templates with their versions, the
  phase definitions of a draft version and its publication.  The texts of a payload have
  passed the schema's string constraints; \<open>allow_parallel\<close> and \<open>entry_rules\<close>, which the
  services store and never read, are left out of a phase definition.
\<close>

subsection \<open>Repository\<close>

definition repo_list_project_types :: "database \<Rightarrow> project_type list" where
  "repo_list_project_types db = sort_key pt_code (project_types db)"

definition get_project_type :: "uuid \<Rightarrow> database \<Rightarrow> project_type option" where
  "get_project_type k db = find_row pt_id k (project_types db)"

definition get_project_type_by_code :: "string \<Rightarrow> database \<Rightarrow> project_type option" where
  "get_project_type_by_code code db = find_row pt_code code (project_types db)"

definition add_project_type :: "project_type \<Rightarrow> database \<Rightarrow> database" where
  "add_project_type t db = db\<lparr>project_types := project_types db @ [t]\<rparr>"

definition repo_list_templates :: "database \<Rightarrow> workflow_template list" where
  "repo_list_templates db = sorted_desc wt_created_at (workflow_templates db)"

definition add_template :: "workflow_template \<Rightarrow> database \<Rightarrow> database" where
  "add_template t db = db\<lparr>workflow_templates := workflow_templates db @ [t]\<rparr>"

definition next_template_version_no :: "uuid \<Rightarrow> database \<Rightarrow> int" where
  "next_template_version_no k db =
     (let nos = map wv_version_no (filter (\<lambda>v. wv_template_id v = k) (workflow_versions db))
      in (if nos = [] then 0 else Max (set nos)) + 1)"

definition add_template_version :: "workflow_version \<Rightarrow> database \<Rightarrow> database" where
  "add_template_version v db = db\<lparr>workflow_versions := workflow_versions db @ [v]\<rparr>"

definition save_template_version ::
  "uuid \<Rightarrow> (workflow_version \<Rightarrow> workflow_version) \<Rightarrow> database \<Rightarrow> database" where
  "save_template_version k f db =
     db\<lparr>workflow_versions := update_rows wv_id k f (workflow_versions db)\<rparr>"

interpretation version_rows: row_store wv_id workflow_versions get_workflow_version
    add_template_version save_template_version
  by unfold_locales
    (simp_all add: get_workflow_version_def add_template_version_def save_template_version_def)

definition get_version_or_raise :: "uuid \<Rightarrow> database \<Rightarrow> py_error + workflow_version" where
  "get_version_or_raise k db = present (get_workflow_version k db)
     (ResourceNotFound ''Workflow template version does not exist'')"

subsection \<open>Phase definitions\<close>

text \<open>\<open>validate_phase_definitions\<close>: no key twice, and the orders are \<open>1 .. n\<close>.\<close>

definition duplicate_keys :: "phase_definition list \<Rightarrow> string list" where
  "duplicate_keys ds =
     (let keys = map pd_key ds in filter (\<lambda>k. 1 < count_list keys k) keys)"

definition validate_phase_definitions :: "phase_definition list \<Rightarrow> py_error + phase_definition list" where
  "validate_phase_definitions ds =
     attempt (guard (ds \<noteq> []) (ValueError ''too_short'')) (\<lambda>_.
     attempt (guard (\<forall>d \<in> set ds. 1 \<le> pd_order d) (ValueError ''greater_than_equal'')) (\<lambda>_.
     attempt (case sort (duplicate_keys ds) of [] \<Rightarrow> Inr ()
        | k # _ \<Rightarrow> Inl (ValueError (''duplicate phase key: '' @ k))) (\<lambda>_.
     attempt (guard (sort (map pd_order ds) = [1 .. int (length ds)])
        (ValueError ''phase order must start at 1 and be continuous'')) (\<lambda>_. Inr ds))))"

fun requirement_value :: "doc_requirement \<Rightarrow> string" where
  "requirement_value doc_requirement.required = ''required''"
| "requirement_value doc_requirement.conditional = ''conditional''"
| "requirement_value doc_requirement.optional = ''optional''"

fun procurement_value :: "procurement_type \<Rightarrow> string" where
  "procurement_value procurement_type.inquiry = ''inquiry''"
| "procurement_value procurement_type.bidding = ''bidding''"
| "procurement_value procurement_type.single_source = ''single_source''"

definition dump_required_document :: "required_document \<Rightarrow> pyval" where
  "dump_required_document d = PDict [(''doc_type'', PStr (rd_doc_type d)),
     (''requirement'', PStr (requirement_value (rd_requirement d))),
     (''qty_rule'', PStr (rd_qty_rule d)),
     (''procurement_type'', case rd_procurement_type d of None \<Rightarrow> PNone
                            | Some t \<Rightarrow> PStr (procurement_value t))]"

definition dump_phase_definition :: "phase_definition \<Rightarrow> pyval" where
  "dump_phase_definition d = PDict [(''key'', PStr (pd_key d)), (''name'', PStr (pd_name d)),
     (''order'', PInt (pd_order d)),
     (''required_documents'', PList (map dump_required_document (pd_required_documents d)))]"

text \<open>\<open>WorkflowTemplateVersion.replace_phase_definitions\<close>.\<close>

definition replace_phase_definitions ::
  "phase_definition list \<Rightarrow> workflow_version \<Rightarrow> py_error + workflow_version" where
  "replace_phase_definitions ds v =
     attempt (guard (wv_status v \<noteq> workflow_status.published)
       (ResourceConflict ''A published workflow version cannot be changed'')) (\<lambda>_.
     Inr (v\<lparr>wv_phase_definitions := ds\<rparr>))"

subsection \<open>Operations\<close>

definition list_project_types :: "database \<Rightarrow> project_type list" where
  "list_project_types db = repo_list_project_types db"

definition list_templates :: "database \<Rightarrow> workflow_template list" where
  "list_templates db = repo_list_templates db"

definition create_project_type ::
  "env \<Rightarrow> user \<Rightarrow> string \<Rightarrow> string \<Rightarrow> string option \<Rightarrow> database \<Rightarrow> py_error + (project_type \<times> database)" where
  "create_project_type e actor code name description db =
     attempt (guard (get_project_type_by_code code db = None)
       (ResourceConflict ''Project type code already exists'')) (\<lambda>_.
     let (new_id, db) = uuid4 db;
         t = \<lparr> pt_id = new_id, pt_code = code, pt_name = name, pt_description = description,
           pt_is_builtin = False, pt_is_active = True \<rparr>
     in Inr (t, record_audit e actor ''workflow.project_type.create'' ''project_type'' new_id NoState
          (DictState [(''code'', PStr code), (''name'', PStr name),
             (''description'', case description of None \<Rightarrow> PNone | Some s \<Rightarrow> PStr s)]) []
          (add_project_type t db)))"

definition create_template ::
  "env \<Rightarrow> user \<Rightarrow> uuid \<Rightarrow> string \<Rightarrow> string option \<Rightarrow> database
     \<Rightarrow> py_error + (workflow_template \<times> database)" where
  "create_template e actor type_id name description db =
     attempt (present (get_project_type type_id db)
       (ResourceNotFound ''Project type does not exist'')) (\<lambda>_.
     let (new_id, db) = uuid4 db;
         t = \<lparr> wt_id = new_id, wt_project_type_id = type_id, wt_name = name,
           wt_description = description, wt_status = workflow_status.draft,
           wt_created_by_id = Some (u_id actor), wt_created_at = clock e \<rparr>;
         db = add_template t db;
         no = next_template_version_no new_id db;
         (version_id, db) = uuid4 db;
         db = add_template_version \<lparr> wv_id = version_id, wv_template_id = new_id,
           wv_version_no = no, wv_status = workflow_status.draft, wv_phase_definitions = [],
           wv_published_at = None \<rparr> db
     in Inr (t, record_audit e actor ''workflow.template.create'' ''workflow_template'' new_id NoState
          (DictState [(''name'', PStr name), (''project_type_id'', PUuid type_id)]) [] db))"

definition update_phase_definitions ::
  "env \<Rightarrow> user \<Rightarrow> uuid \<Rightarrow> phase_definition list \<Rightarrow> database
     \<Rightarrow> py_error + (workflow_version \<times> database)" where
  "update_phase_definitions e actor version_id definitions db =
     attempt (validate_phase_definitions definitions) (\<lambda>ds.
     attempt (get_version_or_raise version_id db) (\<lambda>v.
     attempt (replace_phase_definitions ds v) (\<lambda>after.
     let db = save_template_version version_id (\<lambda>r. r\<lparr>wv_phase_definitions := ds\<rparr>) db;
         state = (\<lambda>w. DictState [(''phase_definitions'',
            PList (map dump_phase_definition (wv_phase_definitions w)))])
     in Inr (after, record_audit e actor ''workflow.version.update_phase_definitions''
          ''workflow_template_version'' version_id (state v) (state after) [] db))))"

definition publication_state :: "workflow_version \<Rightarrow> audit_state" where
  "publication_state v = DictState
     [(''status'', PStr (case wv_status v of workflow_status.draft \<Rightarrow> ''draft''
         | workflow_status.published \<Rightarrow> ''published'' | workflow_status.archived \<Rightarrow> ''archived'')),
      (''published_at'', case wv_published_at v of None \<Rightarrow> PNone | Some t \<Rightarrow> PTime t)]"

definition publish_template_version ::
  "env \<Rightarrow> user \<Rightarrow> uuid \<Rightarrow> database \<Rightarrow> py_error + (workflow_version \<times> database)" where
  "publish_template_version e actor version_id db =
     attempt (get_version_or_raise version_id db) (\<lambda>v.
     attempt (guard (wv_status v = workflow_status.draft)
       (ResourceConflict ''Only a draft workflow version can be published'')) (\<lambda>_.
     attempt (guard (wv_phase_definitions v \<noteq> [])
       (ResourceConflict ''A workflow version needs a phase to be published'')) (\<lambda>_.
     let publish = (\<lambda>r. r\<lparr>wv_status := workflow_status.published,
            wv_published_at := Some (clock e)\<rparr>);
         db = save_template_version version_id publish db
     in Inr (publish v, record_audit e actor ''workflow.version.publish''
          ''workflow_template_version'' version_id (publication_state v)
          (publication_state (publish v)) [] db))))"

subsection \<open>Write sets\<close>

lemma workflow_repository_evolves [evolve_rules]:
  "ProjectTypes \<in> W \<Longrightarrow> evolves W a b \<Longrightarrow> evolves W a (add_project_type t b)"
  "Templates \<in> W \<Longrightarrow> evolves W a b \<Longrightarrow> evolves W a (add_template wt b)"
  "Versions \<in> W \<Longrightarrow> evolves W a b \<Longrightarrow> evolves W a (add_template_version v b)"
  "Versions \<in> W \<Longrightarrow> evolves W a b \<Longrightarrow> evolves W a (save_template_version k f b)"
  by (simp_all add: evolves_def writes_iff add_project_type_def add_template_def
      add_template_version_def save_template_version_def)

lemma create_project_type_writes:
  "yields (evolves {ProjectTypes, Audit} db) (create_project_type e actor code name description db)"
  unfolding create_project_type_def
  by (assumption | rule yields_rules evolve_rules | (simp; fail))+

lemma create_template_writes:
  "yields (evolves {Templates, Versions, Audit} db) (create_template e actor type_id name description db)"
  unfolding create_template_def
  by (assumption | rule yields_rules evolve_rules | (simp; fail))+

lemma update_phase_definitions_writes:
  "yields (evolves {Versions, Audit} db) (update_phase_definitions e actor k ds db)"
  unfolding update_phase_definitions_def
  by (assumption | rule yields_rules evolve_rules | (simp; fail))+

lemma publish_template_version_writes:
  "yields (evolves {Versions, Audit} db) (publish_template_version e actor k db)"
  unfolding publish_template_version_def
  by (assumption | rule yields_rules evolve_rules | (simp; fail))+

subsection \<open>Effects\<close>

lemma create_template_effect:
  assumes "create_template e actor type_id name description db = Inr (t, db')"
  obtains v where "workflow_templates db' = workflow_templates db @ [t]"
    and "workflow_versions db' = workflow_versions db @ [v]"
    and "wt_id t = next_uuid db" and "wt_status t = workflow_status.draft"
    and "wv_id v = Suc (next_uuid db)" and "wv_template_id v = wt_id t"
    and "wv_status v = workflow_status.draft" and "wv_phase_definitions v = []"
    and "next_uuid db' = Suc (Suc (next_uuid db))"
  using assms unfolding create_template_def
  apply (elim result_elims)
  apply (simp (no_asm_simp) add: add_template_def add_template_version_def)
  done

lemma update_phase_definitions_effect:
  assumes "update_phase_definitions e actor k ds db = Inr (v, db')"
  shows "validate_phase_definitions ds = Inr ds \<and>
    (\<exists>w. get_workflow_version k db = Some w \<and> wv_status w \<noteq> workflow_status.published) \<and>
    workflow_versions db' =
      update_rows wv_id k (\<lambda>r. r\<lparr>wv_phase_definitions := ds\<rparr>) (workflow_versions db)"
proof -
  have same: "validate_phase_definitions ds = Inr ds'' \<Longrightarrow> ds'' = ds" for ds''
    by (auto simp: validate_phase_definitions_def result_simps)
  from assms obtain ds' w where
    a: "validate_phase_definitions ds = Inr ds'" "get_workflow_version k db = Some w"
      "wv_status w \<noteq> workflow_status.published" and
    b: "workflow_versions db' =
      update_rows wv_id k (\<lambda>r. r\<lparr>wv_phase_definitions := ds'\<rparr>) (workflow_versions db)"
    unfolding update_phase_definitions_def get_version_or_raise_def replace_phase_definitions_def
    by (elim result_elims) (simp (no_asm_simp) add: save_template_version_def)
  from same [OF a(1)] a b show ?thesis by simp
qed

lemma publish_template_version_effect:
  assumes "publish_template_version e actor k db = Inr (v, db')"
  obtains w where "get_workflow_version k db = Some w" and "wv_status w = workflow_status.draft"
    and "wv_phase_definitions w \<noteq> []"
    and "workflow_versions db' = update_rows wv_id k (\<lambda>r. r\<lparr>wv_status := workflow_status.published,
      wv_published_at := Some (clock e)\<rparr>) (workflow_versions db)"
    and "workflow_templates db' = workflow_templates db"
  using assms
  unfolding publish_template_version_def get_version_or_raise_def
  apply (elim result_elims)
  apply (simp (no_asm_simp) add: save_template_version_def)
  done

end
