(* ===== verification/Permissions.thy ===== *)
theory Permissions
  imports Database
begin

text \<open>
  Who may call what (\<open>app/core/permissions.py\<close>, \<open>app/services/role_permissions.py\<close>):
  the default permission matrix, the stored per-role overrides and the permission check of
  the API layer.
\<close>

subsection \<open>The default matrix\<close>

definition default_permission_matrix :: "(string \<times> user_role list) list" where
  "default_permission_matrix = [
    (''user.manage'', [user_role.admin]),
    (''system.config'', [user_role.admin]),
    (''audit_log.read'', [user_role.admin]),
    (''database.export'', [user_role.admin]),
    (''role_permission.manage'', [user_role.admin]),
    (''main_project.create'', [user_role.admin, user_role.dept_manager]),
    (''main_project.edit'', [user_role.admin, user_role.dept_manager]),
    (''main_project.review'', [user_role.admin, user_role.dept_manager]),
    (''main_project.close'', [user_role.admin, user_role.dept_manager]),
    (''project.import'', [user_role.admin]),
    (''sub_project.create'',
      [user_role.admin, user_role.dept_manager, user_role.finance_manager, user_role.proj_leader,
       user_role.proj_member]),
    (''sub_project.review'', [user_role.admin, user_role.dept_manager]),
    (''sub_project.terminate'', [user_role.admin, user_role.dept_manager]),
    (''phase.promote'',
      [user_role.admin, user_role.dept_manager, user_role.finance_manager, user_role.proj_leader,
       user_role.proj_member]),
    (''acceptance_step.create'', [user_role.admin, user_role.proj_leader]),
    (''acceptance_step.complete'',
      [user_role.admin, user_role.dept_manager, user_role.finance_manager, user_role.proj_leader,
       user_role.proj_member]),
    (''payment.create'', [user_role.admin, user_role.finance_manager]),
    (''payment.reverse'', [user_role.admin, user_role.finance_manager]),
    (''document.upload'',
      [user_role.admin, user_role.dept_manager, user_role.finance_manager, user_role.proj_leader,
       user_role.proj_member]),
    (''document.download'',
      [user_role.admin, user_role.dept_manager, user_role.finance_manager, user_role.proj_leader,
       user_role.proj_member]),
    (''task.assign'', [user_role.admin, user_role.proj_leader]),
    (''task.complete'',
      [user_role.admin, user_role.dept_manager, user_role.finance_manager, user_role.proj_leader,
       user_role.proj_member]),
    (''revoke_request.submit'', [user_role.proj_leader]),
    (''revoke_request.review'', [user_role.admin, user_role.dept_manager]),
    (''report.generate'', [user_role.admin, user_role.dept_manager, user_role.finance_manager]),
    (''project.view_all'',
      [user_role.admin, user_role.dept_manager, user_role.finance_manager, user_role.proj_leader,
       user_role.proj_member]),
    (''project.view_own'', [user_role.proj_leader, user_role.proj_member])]"

definition permission_codes :: "string list" where
  "permission_codes = map fst default_permission_matrix"

definition user_has_permission :: "user \<Rightarrow> string \<Rightarrow> bool" where
  "user_has_permission u permission =
     (case map_of default_permission_matrix permission of
        None \<Rightarrow> False | Some allowed \<Rightarrow> u_role u \<in> set allowed)"

definition require_role :: "user_role list \<Rightarrow> user \<Rightarrow> py_error + user" where
  "require_role roles u = attempt (guard (u_role u \<in> set roles) PermissionDenied) (\<lambda>_. Inr u)"

subsection \<open>Stored overrides\<close>

record role_permission =
  rp_role :: user_role
  rp_permission_code :: string
  rp_enabled :: bool

definition list_role_permissions :: "user_role \<Rightarrow> role_permission list \<Rightarrow> role_permission list" where
  "list_role_permissions role rows =
     sort_key rp_permission_code (filter (\<lambda>r. rp_role r = role) rows)"

definition replace_role_permissions ::
  "user_role \<Rightarrow> role_permission list \<Rightarrow> role_permission list \<Rightarrow> role_permission list" where
  "replace_role_permissions role new rows = filter (\<lambda>r. rp_role r \<noteq> role) rows @ new"

definition effective_permissions :: "role_permission list \<Rightarrow> user_role \<Rightarrow> string list" where
  "effective_permissions stored role =
     (let rows = list_role_permissions role stored in
      if rows = []
      then map fst (filter (\<lambda>(p, allowed). role \<in> set allowed) default_permission_matrix)
      else filter (\<lambda>p. \<exists>r \<in> set rows. rp_permission_code r = p \<and> rp_enabled r) permission_codes)"

definition has_permission :: "role_permission list \<Rightarrow> user_role \<Rightarrow> string \<Rightarrow> bool" where
  "has_permission stored role code = (code \<in> set (effective_permissions stored role))"

definition require_permission ::
  "role_permission list \<Rightarrow> string \<Rightarrow> user \<Rightarrow> py_error + user" where
  "require_permission stored permission u =
     attempt (guard (has_permission stored (u_role u) permission) PermissionDenied) (\<lambda>_. Inr u)"

definition update_role_permissions ::
  "user \<Rightarrow> user_role \<Rightarrow> string list \<Rightarrow> role_permission list
     \<Rightarrow> py_error + (string list \<times> role_permission list)" where
  "update_role_permissions actor role codes stored =
     attempt (guard (u_role actor = user_role.admin) PermissionDenied) (\<lambda>_.
     let unknown = sort_key id (filter (\<lambda>c. c \<notin> set permission_codes) (dedup codes)) in
     attempt (guard (unknown = []) (ValidationFailed ''Unknown permission code''
         [(''permission_codes'', PList (map PStr unknown))])) (\<lambda>_.
     let requested = dedup codes;
         rows = map (\<lambda>c. \<lparr> rp_role = role, rp_permission_code = c,
                            rp_enabled = (c \<in> set requested) \<rparr>) permission_codes
     in Inr (requested, replace_role_permissions role rows stored)))"

subsection \<open>Lemmas\<close>

lemma permission_codes_nonempty: "permission_codes \<noteq> []"
  by (simp add: permission_codes_def default_permission_matrix_def)

lemma set_list_role_permissions:
  "set (list_role_permissions role rows) = {r \<in> set rows. rp_role r = role}"
  by (auto simp: list_role_permissions_def)

lemma list_role_permissions_replace:
  "\<forall>r \<in> set new. rp_role r = role \<Longrightarrow>
     set (list_role_permissions r' (replace_role_permissions role new rows)) =
       (if r' = role then set new else set (list_role_permissions r' rows))"
  by (auto simp: set_list_role_permissions replace_role_permissions_def)

lemma effective_permissions_stored:
  assumes "list_role_permissions role stored \<noteq> []"
  shows "set (effective_permissions stored role) =
     {c \<in> set permission_codes. \<exists>r \<in> set stored. rp_role r = role \<and> rp_permission_code r = c \<and> rp_enabled r}"
  using assms by (auto simp: effective_permissions_def Let_def set_list_role_permissions)

lemma update_role_permissions_InrD:
  assumes "update_role_permissions actor role codes stored = Inr (granted, stored')"
  shows "u_role actor = user_role.admin" and "set codes \<subseteq> set permission_codes"
    and "granted = dedup codes"
    and "stored' = replace_role_permissions role (map (\<lambda>c. \<lparr> rp_role = role,
       rp_permission_code = c, rp_enabled = (c \<in> set codes) \<rparr>) permission_codes) stored"
  using assms
  by (auto simp: update_role_permissions_def Let_def result_simps filter_empty_conv)

end
