(* ===== verification/Sessions.thy ===== *)
theory Sessions
  imports Database Identifiers
begin

text \<open>
  Accounts and their sessions (\<open>app/services/auth.py\<close>, \<open>app/core/security.py\<close>, the token
  dependency of \<open>app/core/deps.py\<close> and the handlers of \<open>app/api/v1/auth.py\<close>): the login with
  its lock after five wrong passwords, signed access and refresh tokens, and the stores that
  revoke them, after the in-memory stores of the service.

  Password hashing and the coding of tokens are arguments.  An operation reads the clocks once:
  the wall clock and the monotonic one, both in microseconds.  Failed logins and revocations
  outlive the request that raises, so an operation returns its state beside its result.  The
  columns \<open>updated_at\<close>, which the database sets and no service reads, are left out.
\<close>

subsection \<open>Data\<close>

record account = user +
  ac_email :: "string option"
  ac_password_hash :: string
  ac_sso_required :: bool
  ac_password_changed_at :: "datetime option"
  ac_last_login_at :: "datetime option"
  ac_created_at :: datetime

record department =
  dp_id :: uuid
  dp_code :: string
  dp_name :: string
  dp_created_at :: datetime

text \<open>
  The stores: per key a count or a mark and the monotonic instant it expires at.
\<close>

record auth_state =
  as_accounts :: "account list"
  as_departments :: "department list"
  as_failures :: "string \<Rightarrow> (int \<times> int) option"
  as_blacklist :: "string \<Rightarrow> int option"
  as_revoked :: "string \<Rightarrow> (int \<times> int) option"
  as_next_uuid :: uuid

record moment =
  wall :: datetime
  monotonic :: int

record auth_settings =
  app_env :: string
  jwt_algorithm :: string
  jwt_secret_key :: string
  jwt_private_key :: "string option"
  jwt_public_key :: "string option"
  jwt_access_token_expire_minutes :: int
  jwt_refresh_token_expire_days :: int

datatype claim = CText string | CNumber int

type_synonym claims = "(string \<times> claim) list"

text \<open>
  \<open>passlib\<close> and \<open>jose\<close>.  A hash depends on a salt, which is drawn anew; decoding gets the key,
  the algorithms it accepts and the wall clock, and is \<open>None\<close> where it raises \<open>JWTError\<close>.
\<close>

record 'tok crypto =
  password_hash :: "nat \<Rightarrow> string \<Rightarrow> string"
  password_verify :: "string \<Rightarrow> string \<Rightarrow> bool"
  jwt_encode :: "claims \<Rightarrow> string \<Rightarrow> string \<Rightarrow> 'tok"
  jwt_decode :: "'tok \<Rightarrow> string \<Rightarrow> string list \<Rightarrow> datetime \<Rightarrow> claims option"

record 'tok auth_tokens =
  access_token :: 'tok
  refresh_token :: 'tok

definition auth_failure_limit :: int where
  "auth_failure_limit = 5"

definition auth_failure_ttl_seconds :: int where
  "auth_failure_ttl_seconds = 30 * 60"

definition login_allowed_statuses :: "user_status list" where
  "login_allowed_statuses = [user_status.active, user_status.password_reset_required]"

definition seconds :: "int \<Rightarrow> int" where
  "seconds n = n * 1000000"

text \<open>\<open>int(instant.timestamp())\<close> cuts the fraction of a second off.\<close>

definition int_timestamp :: "datetime \<Rightarrow> int" where
  "int_timestamp t = (if 0 \<le> t then t div 1000000 else - ((- t) div 1000000))"

subsection \<open>Accounts\<close>

definition get_account :: "uuid \<Rightarrow> auth_state \<Rightarrow> account option" where
  "get_account k s = find_row u_id k (as_accounts s)"

definition add_account :: "account \<Rightarrow> auth_state \<Rightarrow> auth_state" where
  "add_account a s = s\<lparr>as_accounts := as_accounts s @ [a]\<rparr>"

definition save_account :: "uuid \<Rightarrow> (account \<Rightarrow> account) \<Rightarrow> auth_state \<Rightarrow> auth_state" where
  "save_account k f s = s\<lparr>as_accounts := update_rows u_id k f (as_accounts s)\<rparr>"

interpretation account_rows: row_store u_id as_accounts get_account add_account save_account
  by unfold_locales (simp_all add: get_account_def add_account_def save_account_def)

definition get_by_username :: "string \<Rightarrow> auth_state \<Rightarrow> account option" where
  "get_by_username name s = find (\<lambda>a. u_username a = name) (as_accounts s)"

subsection \<open>The failure store\<close>

definition get_fail_count :: "moment \<Rightarrow> string \<Rightarrow> auth_state \<Rightarrow> int \<times> auth_state" where
  "get_fail_count t key s =
     (case as_failures s key of
        None \<Rightarrow> (0, s)
      | Some (count, expires_at) \<Rightarrow>
          if expires_at \<le> monotonic t then (0, s\<lparr>as_failures := (as_failures s)(key := None)\<rparr>)
          else (count, s))"

definition increment_fail_count ::
  "moment \<Rightarrow> string \<Rightarrow> int \<Rightarrow> auth_state \<Rightarrow> int \<times> auth_state" where
  "increment_fail_count t key ttl_seconds s =
     (let (current, s) = get_fail_count t key s; count = current + 1
      in (count, s\<lparr>as_failures :=
            (as_failures s)(key := Some (count, monotonic t + seconds ttl_seconds))\<rparr>))"

definition reset_fail_count :: "string \<Rightarrow> auth_state \<Rightarrow> auth_state" where
  "reset_fail_count key s = s\<lparr>as_failures := (as_failures s)(key := None)\<rparr>"

subsection \<open>The token store\<close>

definition blacklist_jti :: "moment \<Rightarrow> string \<Rightarrow> int \<Rightarrow> auth_state \<Rightarrow> auth_state" where
  "blacklist_jti t jti ttl_seconds s =
     (if ttl_seconds \<le> 0 then s
      else s\<lparr>as_blacklist := (as_blacklist s)(jti := Some (monotonic t + seconds ttl_seconds))\<rparr>)"

definition is_jti_blacklisted :: "moment \<Rightarrow> string \<Rightarrow> auth_state \<Rightarrow> bool \<times> auth_state" where
  "is_jti_blacklisted t jti s =
     (case as_blacklist s jti of
        None \<Rightarrow> (False, s)
      | Some expires_at \<Rightarrow>
          if expires_at \<le> monotonic t
          then (False, s\<lparr>as_blacklist := (as_blacklist s)(jti := None)\<rparr>)
          else (True, s))"

definition revoke_user_tokens :: "moment \<Rightarrow> string \<Rightarrow> int \<Rightarrow> auth_state \<Rightarrow> auth_state" where
  "revoke_user_tokens t user_id ttl_seconds s =
     (if ttl_seconds \<le> 0 then s
      else s\<lparr>as_revoked := (as_revoked s)(user_id :=
             Some (int_timestamp (wall t), monotonic t + seconds ttl_seconds))\<rparr>)"

definition get_user_revoked_after ::
  "moment \<Rightarrow> string \<Rightarrow> auth_state \<Rightarrow> int option \<times> auth_state" where
  "get_user_revoked_after t user_id s =
     (case as_revoked s user_id of
        None \<Rightarrow> (None, s)
      | Some (revoked_after, expires_at) \<Rightarrow>
          if expires_at \<le> monotonic t
          then (None, s\<lparr>as_revoked := (as_revoked s)(user_id := None)\<rparr>)
          else (Some revoked_after, s))"

subsection \<open>Passwords\<close>

text \<open>
  The character classes on ASCII; a byte of a longer character counts as a letter without case.
\<close>

definition is_upper :: "char \<Rightarrow> bool" where
  "is_upper c = (let n = (of_char c :: nat) in 65 \<le> n \<and> n \<le> 90)"

definition is_lower :: "char \<Rightarrow> bool" where
  "is_lower c = (let n = (of_char c :: nat) in 97 \<le> n \<and> n \<le> 122)"

definition is_alnum :: "char \<Rightarrow> bool" where
  "is_alnum c \<longleftrightarrow> is_upper c \<or> is_lower c \<or> is_digit c \<or> 128 \<le> (of_char c :: nat)"

definition missing_requirements :: "string \<Rightarrow> string list" where
  "missing_requirements password =
     (if length password < 8 then [''at least 8 characters''] else []) @
     (if list_ex is_upper password then [] else [''an uppercase letter'']) @
     (if list_ex is_lower password then [] else [''a lowercase letter'']) @
     (if list_ex is_digit password then [] else [''a number'']) @
     (if list_ex (\<lambda>c. \<not> is_alnum c) password then [] else [''a special character''])"

fun join_with :: "string \<Rightarrow> string list \<Rightarrow> string" where
  "join_with sep [] = []"
| "join_with sep [x] = x"
| "join_with sep (x # xs) = x @ sep @ join_with sep xs"

definition validate_password_strength :: "string \<Rightarrow> py_error + unit" where
  "validate_password_strength password =
     (let missing = missing_requirements password
      in guard (missing = [])
           (ValueError (''Password must include '' @ join_with '', '' missing)))"

subsection \<open>Tokens\<close>

definition get_auth_failure_key :: "uuid \<Rightarrow> string" where
  "get_auth_failure_key k = ''auth:fail:'' @ str_uuid k"

definition upper :: "string \<Rightarrow> string" where
  "upper s = map (\<lambda>c. if is_lower c then char_of ((of_char c :: nat) - 32) else c) s"

definition key_config ::
  "string option \<Rightarrow> string \<Rightarrow> auth_settings \<Rightarrow> py_error + (string \<times> string)" where
  "key_config file missing settings =
     (if starts_with (upper (jwt_algorithm settings)) ''HS''
      then Inr (jwt_secret_key settings, jwt_algorithm settings)
      else case file of
        Some key \<Rightarrow> Inr (key, jwt_algorithm settings)
      | None \<Rightarrow>
          if app_env settings = ''production'' then Inl (RuntimeError missing)
          else Inr (jwt_secret_key settings, ''HS256''))"

definition get_jwt_signing_config :: "auth_settings \<Rightarrow> py_error + (string \<times> string)" where
  "get_jwt_signing_config settings =
     key_config (jwt_private_key settings) ''JWT private key file is required in production''
       settings"

definition get_jwt_verification_config :: "auth_settings \<Rightarrow> py_error + (string \<times> string)" where
  "get_jwt_verification_config settings =
     key_config (jwt_public_key settings) ''JWT public key file is required in production''
       settings"

text \<open>\<open>dict.update\<close>: new keys go to the end, old ones keep their place.\<close>

definition dict_update :: "claims \<Rightarrow> claims \<Rightarrow> claims" where
  "dict_update d extra =
     map (\<lambda>(k, v). (k, case map_of extra k of None \<Rightarrow> v | Some w \<Rightarrow> w)) d @
     filter (\<lambda>(k, v). k \<notin> set (map fst d)) extra"

definition create_jwt_token ::
  "'tok crypto \<Rightarrow> moment \<Rightarrow> string \<Rightarrow> string \<times> string \<Rightarrow> string \<Rightarrow> int \<Rightarrow> claims \<Rightarrow> auth_state \<Rightarrow>
     'tok \<times> auth_state" where
  "create_jwt_token c t subject signing token_type expires_delta extra_claims s =
     (let payload = [(''sub'', CText subject), (''type'', CText token_type),
            (''iat'', CNumber (int_timestamp (wall t))),
            (''exp'', CNumber (int_timestamp (wall t + seconds expires_delta))),
            (''jti'', CText (str_uuid (as_next_uuid s)))]
      in (jwt_encode c (dict_update payload extra_claims) (fst signing) (snd signing),
          s\<lparr>as_next_uuid := Suc (as_next_uuid s)\<rparr>))"

definition extra_claims_of :: "account \<Rightarrow> claims" where
  "extra_claims_of a = [(''role'', CText (role_value (u_role a))), (''username'', CText (u_username a))]"

definition create_access_token ::
  "'tok crypto \<Rightarrow> auth_settings \<Rightarrow> moment \<Rightarrow> account \<Rightarrow> auth_state \<Rightarrow>
     py_error + ('tok \<times> auth_state)" where
  "create_access_token c settings t a s =
     attempt (get_jwt_signing_config settings) (\<lambda>signing.
     Inr (create_jwt_token c t (str_uuid (u_id a)) signing ''access''
            (jwt_access_token_expire_minutes settings * 60) (extra_claims_of a) s))"

definition create_auth_tokens ::
  "'tok crypto \<Rightarrow> auth_settings \<Rightarrow> moment \<Rightarrow> account \<Rightarrow> auth_state \<Rightarrow>
     py_error + ('tok auth_tokens \<times> auth_state)" where
  "create_auth_tokens c settings t a s =
     attempt (get_jwt_signing_config settings) (\<lambda>signing.
     attempt (create_access_token c settings t a s) (\<lambda>(access, s).
     let (refresh, s) = create_jwt_token c t (str_uuid (u_id a)) signing ''refresh''
           (jwt_refresh_token_expire_days settings * 24 * 60 * 60) (extra_claims_of a) s
     in Inr (\<lparr>access_token = access, refresh_token = refresh\<rparr>, s)))"

text \<open>\<open>int(claims.get(key, 0))\<close>.\<close>

definition claim_int :: "string \<Rightarrow> claims \<Rightarrow> py_error + int" where
  "claim_int key cs =
     (case map_of cs key of
        None \<Rightarrow> Inr 0
      | Some (CNumber n) \<Rightarrow> Inr n
      | Some (CText x) \<Rightarrow> present (py_int x) (ValueError ''invalid literal for int''))"

definition claim_text :: "string \<Rightarrow> claims \<Rightarrow> string option" where
  "claim_text key cs =
     (case map_of cs key of Some (CText x) \<Rightarrow> Some x | _ \<Rightarrow> None)"

definition get_token_ttl_seconds :: "moment \<Rightarrow> claims \<Rightarrow> py_error + int" where
  "get_token_ttl_seconds t cs =
     attempt (claim_int ''exp'' cs) (\<lambda>expires_at.
     Inr (max (expires_at - int_timestamp (wall t)) 0))"

definition validate_token_claims ::
  "'tok crypto \<Rightarrow> auth_settings \<Rightarrow> moment \<Rightarrow> 'tok \<Rightarrow> string \<Rightarrow> auth_state \<Rightarrow>
     (py_error + claims) \<times> auth_state" where
  "validate_token_claims c settings t token expected_type s =
     (case get_jwt_verification_config settings of
        Inl err \<Rightarrow> (Inl err, s)
      | Inr (key, algorithm) \<Rightarrow>
      case jwt_decode c token key [algorithm] (wall t) of
        None \<Rightarrow> (Inl (AuthenticationError ''Invalid token''), s)
      | Some cs \<Rightarrow>
      if map_of cs ''type'' \<noteq> Some (CText expected_type)
      then (Inl (AuthenticationError ''Invalid token type''), s)
      else case (claim_text ''jti'' cs, claim_text ''sub'' cs) of
        (Some jti, Some subject) \<Rightarrow>
          (case is_jti_blacklisted t jti s of
             (True, s) \<Rightarrow> (Inl (AuthenticationError ''Token has been revoked''), s)
           | (False, s) \<Rightarrow>
           case claim_int ''iat'' cs of
             Inl err \<Rightarrow> (Inl err, s)
           | Inr issued_at \<Rightarrow>
           case get_user_revoked_after t subject s of
             (Some revoked_after, s) \<Rightarrow>
               if issued_at \<le> revoked_after
               then (Inl (AuthenticationError ''Token has been revoked''), s) else (Inr cs, s)
           | (None, s) \<Rightarrow> (Inr cs, s))
      | _ \<Rightarrow> (Inl (AuthenticationError ''Invalid token claims''), s))"

definition get_active_user_by_id :: "uuid \<Rightarrow> auth_state \<Rightarrow> py_error + account" where
  "get_active_user_by_id k s =
     attempt (present (get_account k s) (AuthenticationError ''Invalid user'')) (\<lambda>a.
     attempt (guard (u_status a \<in> set login_allowed_statuses) (AuthenticationError ''Invalid user''))
       (\<lambda>_. Inr a))"

subsection \<open>Login\<close>

definition locked :: py_error where
  "locked = AccountLocked auth_failure_ttl_seconds"

definition wrong_password :: py_error where
  "wrong_password = AuthenticationError ''Invalid username or password''"

text \<open>
  The time of the login is stored with the commit, so it is lost when the tokens cannot be
  signed.
\<close>

definition authenticate_user ::
  "'tok crypto \<Rightarrow> auth_settings \<Rightarrow> moment \<Rightarrow> account option \<Rightarrow> string \<Rightarrow> auth_state \<Rightarrow>
     (py_error + 'tok auth_tokens) \<times> auth_state" where
  "authenticate_user c settings t user password s =
     (case user of
        None \<Rightarrow> (Inl wrong_password, s)
      | Some a \<Rightarrow>
      if u_status a \<notin> set login_allowed_statuses then (Inl wrong_password, s)
      else if ac_sso_required a
      then (Inl (AuthenticationError ''SSO is required for this account''), s)
      else
        let key = get_auth_failure_key (u_id a); (failures, s) = get_fail_count t key s
        in if auth_failure_limit \<le> failures then (Inl locked, s)
           else if \<not> password_verify c password (ac_password_hash a)
           then let (failures, s) = increment_fail_count t key auth_failure_ttl_seconds s
                in (Inl (if auth_failure_limit \<le> failures then locked else wrong_password), s)
           else let s = reset_fail_count key s
                in case create_auth_tokens c settings t a s of
                     Inl err \<Rightarrow> (Inl err, s)
                   | Inr (tokens, s) \<Rightarrow>
                       (Inr tokens,
                        save_account (u_id a) (\<lambda>r. r\<lparr>ac_last_login_at := Some (wall t)\<rparr>) s))"

definition login_user ::
  "'tok crypto \<Rightarrow> auth_settings \<Rightarrow> moment \<Rightarrow> string \<Rightarrow> string \<Rightarrow> auth_state \<Rightarrow>
     (py_error + 'tok auth_tokens) \<times> auth_state" where
  "login_user c settings t username password s =
     authenticate_user c settings t (get_by_username username s) password s"

subsection \<open>Requests\<close>

text \<open>The bearer credentials of a request are a scheme and a token.\<close>

definition get_current_token_context ::
  "'tok crypto \<Rightarrow> auth_settings \<Rightarrow> moment \<Rightarrow> (string \<times> 'tok) option \<Rightarrow> auth_state \<Rightarrow>
     (py_error + (account \<times> claims)) \<times> auth_state" where
  "get_current_token_context c settings t credentials s =
     (case credentials of
        None \<Rightarrow> (Inl (AuthenticationError ''Missing bearer token''), s)
      | Some (scheme, token) \<Rightarrow>
      if lower scheme \<noteq> ''bearer'' then (Inl (AuthenticationError ''Missing bearer token''), s)
      else case validate_token_claims c settings t token ''access'' s of
        (Inl err, s) \<Rightarrow> (Inl err, s)
      | (Inr cs, s) \<Rightarrow>
      case Option.bind (claim_text ''sub'' cs) uuid_of_text of
        None \<Rightarrow> (Inl (AuthenticationError ''Invalid token subject''), s)
      | Some k \<Rightarrow>
      case get_active_user_by_id k s of
        Inl err \<Rightarrow> (Inl err, s)
      | Inr a \<Rightarrow> (Inr (a, cs), s))"

definition refresh ::
  "'tok crypto \<Rightarrow> auth_settings \<Rightarrow> moment \<Rightarrow> 'tok option \<Rightarrow> auth_state \<Rightarrow>
     (py_error + 'tok) \<times> auth_state" where
  "refresh c settings t cookie s =
     (case cookie of
        None \<Rightarrow> (Inl (AuthenticationError ''Missing refresh token''), s)
      | Some token \<Rightarrow>
      case validate_token_claims c settings t token ''refresh'' s of
        (Inl err, s) \<Rightarrow> (Inl err, s)
      | (Inr cs, s) \<Rightarrow>
      case Option.bind (claim_text ''sub'' cs) uuid_of_text of
        None \<Rightarrow> (Inl (ValueError ''badly formed hexadecimal UUID string''), s)
      | Some k \<Rightarrow>
      case attempt (get_active_user_by_id k s) (\<lambda>a. create_access_token c settings t a s) of
        Inl err \<Rightarrow> (Inl err, s)
      | Inr (access, s) \<Rightarrow> (Inr access, s))"

definition logout ::
  "'tok crypto \<Rightarrow> auth_settings \<Rightarrow> moment \<Rightarrow> (string \<times> 'tok) option \<Rightarrow> auth_state \<Rightarrow>
     (py_error + unit) \<times> auth_state" where
  "logout c settings t credentials s =
     (case get_current_token_context c settings t credentials s of
        (Inl err, s) \<Rightarrow> (Inl err, s)
      | (Inr (a, cs), s) \<Rightarrow>
      case get_token_ttl_seconds t cs of
        Inl err \<Rightarrow> (Inl err, s)
      | Inr ttl \<Rightarrow> (Inr (), blacklist_jti t (case claim_text ''jti'' cs of Some j \<Rightarrow> j | None \<Rightarrow> []) ttl s))"

end
