(* ===== verification/Calendar.thy ===== *)
theory Calendar
  imports PyValues
begin

text \<open>
  Dates and instants as the services compute and print them: the date of an ordinal
  (\<open>date.fromordinal\<close>, the result of adding days), weekdays, the text of integers, dates and
  instants in UTC.  An instant counts the microseconds since 1970-01-01T00:00:00Z.
\<close>

subsection \<open>The date of an ordinal\<close>

function year_from :: "int \<Rightarrow> int \<Rightarrow> int" where
  "year_from y n = (if days_before_year (y + 1) < n then year_from (y + 1) n else y)"
  by auto
termination
proof (relation "measure (\<lambda>(y, n). nat (n - days_before_year y))")
  show "((y + 1, n), (y, n)) \<in> measure (\<lambda>(y, n). nat (n - days_before_year y))"
    if "days_before_year (y + 1) < n" for y n
    using that days_before_year_Suc [of y] by (simp split: if_splits)
qed simp

declare year_from.simps [simp del]

fun month_from :: "nat \<Rightarrow> int \<Rightarrow> int \<Rightarrow> int \<Rightarrow> int \<times> int" where
  "month_from 0 y m n = (m, n)"
| "month_from (Suc k) y m n =
     (if n \<le> days_in_month y m then (m, n) else month_from k y (m + 1) (n - days_in_month y m))"

text \<open>The first year tried is not after the year of the ordinal, as a year has at most 366 days.\<close>

definition from_ordinal :: "int \<Rightarrow> date" where
  "from_ordinal n =
     (let y = year_from ((n - 1) div 366 + 1) n;
          (m, d) = month_from 11 y 1 (n - days_before_year y)
      in Date y m d)"

lemma year_from_bounds:
  assumes "days_before_year y < n"
  shows "days_before_year (year_from y n) < n \<and> n \<le> days_before_year (year_from y n + 1)"
  using assms
proof (induction y n rule: year_from.induct)
  case (1 y n)
  show ?case
  proof (cases "days_before_year (y + 1) < n")
    case True
    then show ?thesis using "1.IH" by (simp add: year_from.simps [of y n])
  next
    case False
    then show ?thesis using "1.prems" by (simp add: year_from.simps [of y n])
  qed
qed

lemma year_from_mono: "y \<le> year_from y n"
proof (induction y n rule: year_from.induct)
  case (1 y n)
  then show ?case by (cases "days_before_year (y + 1) < n") (simp_all add: year_from.simps [of y n])
qed

lemma days_before_year_upper: "1 \<le> y \<Longrightarrow> days_before_year y \<le> 366 * (y - 1)"
proof (induction y rule: int_ge_induct)
  case base
  show ?case by (simp add: days_before_year_def)
next
  case (step y)
  then show ?case by (simp add: days_before_year_Suc)
qed

lemma days_in_month_pos: "1 \<le> days_in_month y m"
  by (simp add: days_in_month_def)

lemma month_from_spec:
  assumes "month_from k y m n = (m', d)" and "1 \<le> m" and "m + int k \<le> 12" and "1 \<le> n"
    and "days_before_month y m + n \<le> days_before_month y (m + int k) + days_in_month y (m + int k)"
  shows "m \<le> m' \<and> m' \<le> m + int k \<and> 1 \<le> d \<and> d \<le> days_in_month y m' \<and>
    days_before_month y m' + d = days_before_month y m + n"
  using assms
proof (induction k arbitrary: m n)
  case 0
  then show ?case by simp
next
  case (Suc k)
  show ?case
  proof (cases "n \<le> days_in_month y m")
    case True
    then show ?thesis using Suc.prems by simp
  next
    case False
    have s: "days_before_month y (m + 1) = days_before_month y m + days_in_month y m"
      using Suc.prems by (intro days_before_month_Suc) simp_all
    have e: "m + int (Suc k) = m + 1 + int k" by simp
    have "m + 1 \<le> m' \<and> m' \<le> m + 1 + int k \<and> 1 \<le> d \<and> d \<le> days_in_month y m' \<and>
      days_before_month y m' + d = days_before_month y (m + 1) + (n - days_in_month y m)"
      by (rule Suc.IH) (use Suc.prems(1-4) Suc.prems(5) [unfolded e] False s in auto)
    then show ?thesis using s by auto
  qed
qed

lemma from_ordinal_valid:
  assumes "1 \<le> n"
  shows "valid_date (from_ordinal n) \<and> to_ordinal (from_ordinal n) = n"
proof -
  define y0 where "y0 = (n - 1) div 366 + 1"
  define y where "y = year_from y0 n"
  have y0: "1 \<le> y0" using assms by (simp add: y0_def)
  have "366 * (y0 - 1) \<le> n - 1" unfolding y0_def using assms by simp
  then have "days_before_year y0 < n" using days_before_year_upper [OF y0] by simp
  then have y: "days_before_year y < n" "n \<le> days_before_year (y + 1)"
    unfolding y_def by (simp_all add: year_from_bounds)
  have y1: "1 \<le> y" using year_from_mono [of y0 n] y0 by (simp add: y_def)
  obtain m d where md: "month_from 11 y 1 (n - days_before_year y) = (m, d)" by fastforce
  have year: "days_before_month y 1 = 0"
    "days_before_month y (1 + int 11) + days_in_month y (1 + int 11) =
      (if is_leap y then 366 else 365)"
    by (simp_all add: days_before_month_def days_in_month_def)
  have "n - days_before_year y \<le> (if is_leap y then 366 else 365)"
    using y(2) days_before_year_Suc [of y] by linarith
  then have r: "1 \<le> m \<and> m \<le> 12 \<and> 1 \<le> d \<and> d \<le> days_in_month y m \<and>
      days_before_month y m + d = days_before_month y 1 + (n - days_before_year y)"
    using month_from_spec [OF md] y(1) year by simp
  have "from_ordinal n = Date y m d"
    using md by (simp add: from_ordinal_def y_def y0_def Let_def)
  then show ?thesis using r y1 year(1) by (simp add: valid_date_def to_ordinal_def)
qed

lemma to_ordinal_pos: "valid_date d \<Longrightarrow> 1 \<le> to_ordinal d"
proof -
  assume v: "valid_date d"
  have "days_before_year 1 \<le> days_before_year (year d)"
    using v by (intro days_before_year_mono) (simp add: valid_date_def)
  then show ?thesis using days_in_year(1) [OF v] by (simp add: to_ordinal_def days_before_year_def)
qed

lemma to_ordinal_eqD:
  assumes "valid_date a" and "valid_date b" and "to_ordinal a = to_ordinal b"
  shows "a = b"
  using to_ordinal_less [of a b] to_ordinal_less [of b a] assms by (metis less_irrefl neqE)

lemma from_to_ordinal: "valid_date d \<Longrightarrow> from_ordinal (to_ordinal d) = d"
  using from_ordinal_valid [of "to_ordinal d"] to_ordinal_pos [of d] by (blast intro: to_ordinal_eqD)

text \<open>\<open>d + timedelta(days=k)\<close> inside the calendar, and \<open>d.isoweekday()\<close> (Monday is 1).\<close>

definition add_days :: "date \<Rightarrow> int \<Rightarrow> date" where
  "add_days d k = from_ordinal (to_ordinal d + k)"

definition iso_weekday :: "date \<Rightarrow> int" where
  "iso_weekday d = (to_ordinal d - 1) mod 7 + 1"

lemma to_ordinal_add_days: "1 \<le> to_ordinal d + k \<Longrightarrow> to_ordinal (add_days d k) = to_ordinal d + k"
  by (simp add: add_days_def from_ordinal_valid)

subsection \<open>Text\<close>

text \<open>\<open>str(n)\<close> of an integer.\<close>

definition str_int :: "int \<Rightarrow> string" where
  "str_int n = (if n < 0 then CHR ''-'' # show_nat (nat (- n)) else show_nat (nat n))"

definition iso_date :: "date \<Rightarrow> string" where
  "iso_date d = format_padded 4 (year d) @ ''-'' @ format_padded 2 (month d) @ ''-'' @
     format_padded 2 (day d)"

text \<open>Amounts are decimals with two places.\<close>

definition str_money :: "money \<Rightarrow> string" where
  "str_money c = (if c < 0 then ''-'' else '''') @ show_nat (nat (\<bar>c\<bar> div 100)) @ ''.'' @
     format_padded 2 (\<bar>c\<bar> mod 100)"

abbreviation microseconds_per_day :: int where "microseconds_per_day \<equiv> 86400000000"

definition utc_date :: "datetime \<Rightarrow> date" where
  "utc_date t = from_ordinal (719163 + t div microseconds_per_day)"

text \<open>\<open>value.isoformat(sep)\<close> in UTC without its offset.\<close>

definition iso_seconds :: "string \<Rightarrow> datetime \<Rightarrow> string" where
  "iso_seconds sep t =
     (let s = t mod microseconds_per_day div 1000000
      in iso_date (utc_date t) @ sep @ format_padded 2 (s div 3600) @ '':'' @
         format_padded 2 (s div 60 mod 60) @ '':'' @ format_padded 2 (s mod 60))"

definition str_datetime :: "datetime \<Rightarrow> string" where
  "str_datetime t =
     (let us = t mod 1000000
      in iso_seconds '' '' t @ (if us = 0 then '''' else ''.'' @ format_padded 6 us) @ ''+00:00'')"

lemma utc_date_epoch: "utc_date 0 = Date 1970 1 1"
  by code_simp

end
