(* ===== verification/ProjectImports.thy ===== *)
theory ProjectImports
  imports MainProjects Sessions Calendar FileStore
begin

text \<open>
  The import of projects from a spreadsheet (\<open>app/services/project_imports.py\<close>): rows are
  normalised and validated one by one, every fault of a row is reported, and the rows without
  fault become main projects in one commit.

  Reading the workbook is an argument, and so are its clock and batch token.  A cell is known
  by what the service asks of it: its text under \<open>str\<close> and, for a date or an instant, its
  date.  Headers and messages that are Chinese in the source are given in English.
\<close>

subsection \<open>Data\<close>

datatype cell = Blank | Shown string | Dated date string

fun cell_text :: "cell \<Rightarrow> string option" where
  "cell_text Blank = None"
| "cell_text (Shown s) = Some s"
| "cell_text (Dated d s) = Some s"

record raw_row =
  rw_row_number :: int
  rw_project_no :: cell
  rw_name :: cell
  rw_dept_code :: cell
  rw_total_budget :: cell
  rw_expected_finish_date :: cell
  rw_remark :: cell

record validated_row =
  vr_row_number :: int
  vr_project_no :: string
  vr_name :: string
  vr_department :: department
  vr_total_budget :: money
  vr_expected_finish_date :: date
  vr_remark :: "string option"

record row_error =
  re_row_number :: int
  re_field :: string
  re_message :: string
  re_value :: "string option"

record import_result =
  ir_batch_no :: string
  ir_total_rows :: int
  ir_success_count :: int
  ir_failure_count :: int
  ir_duration_ms :: int
  ir_errors :: "row_error list"
  ir_created_projects :: "main_project list"

text \<open>What one import sees of the outside.\<close>

record import_world =
  iw_workbook :: "string \<Rightarrow> string + cell list list"
  iw_now :: datetime
  iw_batch_token :: string
  iw_duration_ms :: int

definition project_import_columns :: "(string \<times> string) list" where
  "project_import_columns =
     [(''project_no'', ''Project no''), (''name'', ''Name''), (''dept_code'', ''Department code''),
      (''total_budget'', ''Total budget''), (''expected_finish_date'', ''Expected finish date''),
      (''remark'', ''Remark'')]"

subsection \<open>Cells\<close>

text \<open>\<open>len\<close> of a text counts its characters, which in UTF-8 have one leading byte each.\<close>

definition text_length :: "string \<Rightarrow> nat" where
  "text_length s = length (filter (\<lambda>c. let n = (of_char c :: nat) in n < 128 \<or> 192 \<le> n) s)"

definition normalize_text :: "cell \<Rightarrow> string option" where
  "normalize_text value = clean_optional_text (cell_text value)"

definition is_blank_row :: "cell list \<Rightarrow> bool" where
  "is_blank_row values = list_all (\<lambda>v. case cell_text v of None \<Rightarrow> True | Some s \<Rightarrow> strip s = []) values"

definition value_at :: "cell list \<Rightarrow> nat \<Rightarrow> cell" where
  "value_at values index = (if length values \<le> index then Blank else values ! index)"

text \<open>
  \<open>Decimal(text)\<close>, after the surrounding spaces and the underscores are removed: a finite
  number, an infinity, a quiet or a signalling NaN.  \<open>None\<close> is \<open>InvalidOperation\<close>.
\<close>

datatype decimal_text = Finite decimal | Infinite | QuietNaN | SignallingNaN

definition digits_value :: "string \<Rightarrow> int" where
  "digits_value ds = fold (\<lambda>c acc. 10 * acc + digit_value c) ds 0"

definition parse_exponent :: "string \<Rightarrow> int option" where
  "parse_exponent s =
     (case s of
        [] \<Rightarrow> None
      | c # cs \<Rightarrow>
          let (sign, ds) = (if c = CHR ''-'' then (-1, cs) else if c = CHR ''+'' then (1, cs) else (1, s))
          in if ds \<noteq> [] \<and> list_all is_digit ds then Some (sign * digits_value ds) else None)"

definition parse_number :: "string \<Rightarrow> decimal option" where
  "parse_number s =
     (let whole = takeWhile is_digit s; rest = dropWhile is_digit s;
          (frac, rest) = (case rest of
              c # cs \<Rightarrow> if c = CHR ''.'' then (takeWhile is_digit cs, dropWhile is_digit cs) else ([], rest)
            | [] \<Rightarrow> ([], []))
      in if whole = [] \<and> frac = [] then None
         else case rest of
             [] \<Rightarrow> Some (Dec (digits_value (whole @ frac)) (- int (length frac)))
           | c # cs \<Rightarrow>
               if c = CHR ''e'' \<or> c = CHR ''E''
               then map_option (\<lambda>e. Dec (digits_value (whole @ frac)) (e - int (length frac)))
                      (parse_exponent cs)
               else None)"

definition parse_decimal :: "string \<Rightarrow> decimal_text option" where
  "parse_decimal text =
     (let s = filter (\<lambda>c. c \<noteq> CHR ''_'') (strip text);
          (negative, s) = (case s of
              c # cs \<Rightarrow> if c = CHR ''-'' then (True, cs) else if c = CHR ''+'' then (False, cs) else (False, s)
            | [] \<Rightarrow> (False, []));
          w = lower s
      in if w = ''inf'' \<or> w = ''infinity'' then Some Infinite
         else if prefix ''nan'' w \<and> list_all is_digit (drop 3 w) then Some QuietNaN
         else if prefix ''snan'' w \<and> list_all is_digit (drop 4 w) then Some SignallingNaN
         else case parse_number s of
             None \<Rightarrow> None
           | Some d \<Rightarrow> Some (Finite (if negative then Dec (- coefficient d) (exponent d) else d)))"

text \<open>
  \<open>quantize\<close> of an infinity or a signalling NaN raises \<open>InvalidOperation\<close>, which the service
  catches.  A quiet NaN passes it, and then its comparison with zero raises, outside the
  \<open>try\<close>.
\<close>

definition parse_budget :: "cell \<Rightarrow> py_error + money option" where
  "parse_budget value =
     (case cell_text value of
        None \<Rightarrow> Inr None
      | Some s \<Rightarrow>
      case parse_decimal s of
        None \<Rightarrow> Inr None
      | Some Infinite \<Rightarrow> Inr None
      | Some SignallingNaN \<Rightarrow> Inr None
      | Some QuietNaN \<Rightarrow> Inl InvalidOperation
      | Some (Finite d) \<Rightarrow>
      case to_money d of
        Inl _ \<Rightarrow> Inr None
      | Inr amount \<Rightarrow> if amount < 0 then Inr None
                      else if 10 ^ 15 \<le> amount then Inr None else Inr (Some amount))"

text \<open>
  \<open>datetime.strptime(text, "%Y-%m-%d")\<close> and its two variants: a year of four digits, a month
  and a day of one or two; a day may also be a space and a digit.
\<close>

definition parse_ymd :: "char \<Rightarrow> string \<Rightarrow> date option" where
  "parse_ymd sep s =
     (case split_on sep s of
        [y, m, d] \<Rightarrow>
          let d = (if length d = 2 \<and> hd d = CHR '' '' then (if d ! 1 = CHR ''0'' then [] else tl d) else d);
              r = Date (digits_value y) (digits_value m) (digits_value d)
          in if length y = 4 \<and> length m \<in> {1, 2} \<and> length d \<in> {1, 2} \<and>
               list_all is_digit (y @ m @ d) \<and> valid_date r
             then Some r else None
      | _ \<Rightarrow> None)"

definition parse_date :: "cell \<Rightarrow> date option" where
  "parse_date value =
     (case value of
        Dated d s \<Rightarrow> Some d
      | _ \<Rightarrow>
      case normalize_text value of
        None \<Rightarrow> None
      | Some s \<Rightarrow>
      case parse_ymd (CHR ''-'') s of
        Some d \<Rightarrow> Some d
      | None \<Rightarrow>
      case parse_ymd (CHR ''/'') s of Some d \<Rightarrow> Some d | None \<Rightarrow> parse_ymd (CHR ''.'') s)"

subsection \<open>Reading the rows\<close>

definition resolve_header_indexes :: "cell list \<Rightarrow> py_error + (string \<Rightarrow> nat)" where
  "resolve_header_indexes header_row =
     (let headers = map (\<lambda>v. case normalize_text v of None \<Rightarrow> [] | Some s \<Rightarrow> s) header_row;
          missing = filter (\<lambda>(key, header). header \<notin> set headers) project_import_columns
      in attempt (guard (missing = []) (ValidationFailed ''The import template lacks columns''
            [(''missing_headers'', PList (map (PStr \<circ> snd) missing))])) (\<lambda>_.
         Inr (\<lambda>key. case map_of project_import_columns key of
            None \<Rightarrow> length headers
          | Some header \<Rightarrow> length (takeWhile (\<lambda>h. h \<noteq> header) headers))))"

definition raw_row_of :: "(string \<Rightarrow> nat) \<Rightarrow> int \<times> cell list \<Rightarrow> raw_row" where
  "raw_row_of index_of numbered =
     (let cell = (\<lambda>key. value_at (snd numbered) (index_of key))
      in \<lparr> rw_row_number = fst numbered, rw_project_no = cell ''project_no'', rw_name = cell ''name'',
           rw_dept_code = cell ''dept_code'', rw_total_budget = cell ''total_budget'',
           rw_expected_finish_date = cell ''expected_finish_date'', rw_remark = cell ''remark'' \<rparr>)"

definition load_rows :: "import_world \<Rightarrow> string \<Rightarrow> py_error + raw_row list" where
  "load_rows w content =
     (case iw_workbook w content of
        Inl reason \<Rightarrow> Inl (ValidationFailed ''The Excel file cannot be read'' [(''reason'', PStr reason)])
      | Inr rows \<Rightarrow>
      attempt (resolve_header_indexes (case rows of [] \<Rightarrow> [] | h # _ \<Rightarrow> h)) (\<lambda>index_of.
      Inr (map (raw_row_of index_of)
        (filter (\<lambda>(n, values). \<not> is_blank_row values)
          (zip (map int [2 ..< Suc (length rows)]) (tl rows))))))"

subsection \<open>Validating a row\<close>

definition normalize_required_text ::
  "cell \<Rightarrow> string \<Rightarrow> string \<Rightarrow> int \<Rightarrow> nat \<Rightarrow> string option \<times> row_error list" where
  "normalize_required_text value field label row_number max_length =
     (case normalize_text value of
        None \<Rightarrow> (None, [\<lparr> re_row_number = row_number, re_field = field,
                   re_message = label @ '' must not be empty'', re_value = None \<rparr>])
      | Some s \<Rightarrow>
          if max_length < text_length s
          then (None, [\<lparr> re_row_number = row_number, re_field = field,
                  re_message = label @ '' must have at most '' @ show_nat max_length @ '' characters'',
                  re_value = Some s \<rparr>])
          else (Some s, []))"

definition error_when :: "bool \<Rightarrow> int \<Rightarrow> string \<Rightarrow> string \<Rightarrow> string option \<Rightarrow> row_error list" where
  "error_when b row_number field message value =
     (if b then [\<lparr> re_row_number = row_number, re_field = field, re_message = message,
                   re_value = value \<rparr>] else [])"

text \<open>The faults of the values, after those of the required texts.\<close>

definition value_errors ::
  "raw_row \<Rightarrow> string set \<Rightarrow> string option \<Rightarrow> string option \<Rightarrow> department option \<Rightarrow> money option \<Rightarrow>
     date option \<Rightarrow> row_error list" where
  "value_errors raw taken project_no dept_code department total_budget finish =
     error_when (total_budget = None) (rw_row_number raw) ''total_budget''
       ''The total budget must be an amount that is not negative'' (cell_text (rw_total_budget raw)) @
     error_when (finish = None) (rw_row_number raw) ''expected_finish_date''
       ''The date must be a date or a text YYYY-MM-DD'' (cell_text (rw_expected_finish_date raw)) @
     error_when (dept_code \<noteq> None \<and> department = None) (rw_row_number raw) ''dept_code''
       ''The department code does not exist'' dept_code @
     error_when (\<exists>no \<in> set_option project_no. no \<in> taken) (rw_row_number raw) ''project_no''
       ''The project no is a duplicate'' project_no"

definition validate_row ::
  "raw_row \<Rightarrow> string set \<Rightarrow> string set \<Rightarrow> (string \<Rightarrow> department option) \<Rightarrow>
     py_error + validated_row option \<times> row_error list" where
  "validate_row raw existing seen departments_by_code =
     (let n = rw_row_number raw;
          (project_no, e1) = normalize_required_text (rw_project_no raw) ''project_no'' ''Project no'' n 32;
          (name, e2) = normalize_required_text (rw_name raw) ''name'' ''Name'' n 200;
          (dept_code, e3) = normalize_required_text (rw_dept_code raw) ''dept_code'' ''Department code'' n 50
      in attempt (parse_budget (rw_total_budget raw)) (\<lambda>total_budget.
         let finish = parse_date (rw_expected_finish_date raw);
             department = departments_by_code (case dept_code of None \<Rightarrow> [] | Some c \<Rightarrow> c);
             errors = e1 @ e2 @ e3 @
               value_errors raw (existing \<union> seen) project_no dept_code department total_budget finish
         in case (errors, project_no, name, department, total_budget, finish) of
              ([], Some no, Some nm, Some dept, Some amount, Some d) \<Rightarrow>
                Inr (Some \<lparr> vr_row_number = n, vr_project_no = no, vr_name = nm, vr_department = dept,
                       vr_total_budget = amount, vr_expected_finish_date = d,
                       vr_remark = normalize_text (rw_remark raw) \<rparr>, [])
            | _ \<Rightarrow> Inr (None, errors)))"

text \<open>
  The loop over the rows: the validated rows, the errors, the numbers of the failed rows and
  the project numbers that earlier valid rows take.
\<close>

fun validate_rows ::
  "string set \<Rightarrow> (string \<Rightarrow> department option) \<Rightarrow> string set \<Rightarrow> raw_row list \<Rightarrow>
     py_error + validated_row list \<times> row_error list \<times> int list" where
  "validate_rows existing departments_by_code seen [] = Inr ([], [], [])"
| "validate_rows existing departments_by_code seen (raw # raws) =
     attempt (validate_row raw existing seen departments_by_code) (\<lambda>(row, row_errors).
     if row_errors \<noteq> [] then
       attempt (validate_rows existing departments_by_code seen raws) (\<lambda>(rows, errors, bad).
       Inr (rows, row_errors @ errors, List.insert (rw_row_number raw) bad))
     else case row of
       None \<Rightarrow> validate_rows existing departments_by_code seen raws
     | Some r \<Rightarrow>
       attempt (validate_rows existing departments_by_code (insert (vr_project_no r) seen) raws)
         (\<lambda>(rows, errors, bad). Inr (r # rows, errors, bad)))"

subsection \<open>The import\<close>

definition list_existing_project_nos :: "string list \<Rightarrow> database \<Rightarrow> string set" where
  "list_existing_project_nos nos db =
     set (filter (\<lambda>no. no \<in> set nos) (map mp_project_no (main_projects db)))"

definition list_departments_by_codes ::
  "string list \<Rightarrow> department list \<Rightarrow> string \<Rightarrow> department option" where
  "list_departments_by_codes codes departments =
     map_of (rev (map (\<lambda>d. (dp_code d, d)) (filter (\<lambda>d. dp_code d \<in> set codes) departments)))"

definition imported_project :: "user \<Rightarrow> datetime \<Rightarrow> uuid \<Rightarrow> validated_row \<Rightarrow> main_project" where
  "imported_project actor now k row =
     \<lparr> mp_id = k, mp_project_no = vr_project_no row, mp_name = vr_name row,
       mp_dept_id = dp_id (vr_department row), mp_status = main_project_status.not_started,
       mp_total_budget = vr_total_budget row,
       mp_expected_finish_date = vr_expected_finish_date row, mp_spent_amount = 0,
       mp_remark = vr_remark row, mp_closed_at = None, mp_creator_id = Some (u_id actor),
       mp_project_type_id = None, mp_created_at = now, mp_updated_at = now \<rparr>"

fun create_projects ::
  "user \<Rightarrow> datetime \<Rightarrow> validated_row list \<Rightarrow> database \<Rightarrow> main_project list \<times> database" where
  "create_projects actor now [] db = ([], db)"
| "create_projects actor now (row # rows) db =
     (let (k, db) = uuid4 db; p = imported_project actor now k row;
          (ps, db) = create_projects actor now rows db
      in (p # ps, db))"

definition build_batch_no :: "import_world \<Rightarrow> string" where
  "build_batch_no w =
     ''IMPORT-'' @ filter (\<lambda>c. c \<noteq> CHR ''-'') (iso_date (utc_date (iw_now w))) @ ''-'' @ iw_batch_token w"

definition extract_string_values :: "(raw_row \<Rightarrow> cell) \<Rightarrow> raw_row list \<Rightarrow> string list" where
  "extract_string_values field rows = List.map_filter (\<lambda>r. normalize_text (field r)) rows"

text \<open>
  The audit entry of a batch, which the writer queues under the audit context of the request,
  can be read off the result: its target is the batch number and its data are the counts and
  the project numbers.
\<close>

definition import_projects ::
  "import_world \<Rightarrow> user \<Rightarrow> department list \<Rightarrow> string \<Rightarrow> database \<Rightarrow>
     py_error + (import_result \<times> database)" where
  "import_projects w actor departments content db =
     attempt (guard (u_role actor = user_role.admin) PermissionDenied) (\<lambda>_.
     attempt (load_rows w content) (\<lambda>raw_rows.
     let existing = list_existing_project_nos (extract_string_values rw_project_no raw_rows) db;
         departments_by_code =
           list_departments_by_codes (extract_string_values rw_dept_code raw_rows) departments in
     attempt (validate_rows existing departments_by_code {} raw_rows) (\<lambda>(rows, errors, bad).
     let (created, db) = create_projects actor (iw_now w) rows db;
         db = fold add_main_project created db
     in Inr (\<lparr> ir_batch_no = build_batch_no w, ir_total_rows = int (length raw_rows),
               ir_success_count = int (length created), ir_failure_count = int (length bad),
               ir_duration_ms = iw_duration_ms w, ir_errors = errors,
               ir_created_projects = created \<rparr>, db))))"

subsection \<open>Properties\<close>

text \<open>A row is either taken, without errors, or reported, with at least one.\<close>

lemma normalize_required_text_facts:
  "fst (normalize_required_text value field label n limit) = None \<Longrightarrow>
     snd (normalize_required_text value field label n limit) \<noteq> []"
  "fst (normalize_required_text value field label n limit) = Some s \<Longrightarrow> normalize_text value = Some s"
  "e \<in> set (snd (normalize_required_text value field label n limit)) \<Longrightarrow> re_row_number e = n"
  by (auto simp: normalize_required_text_def split: option.splits if_splits)

lemma value_errors_facts:
  "value_errors raw taken no code dept budget finish = [] \<longleftrightarrow> budget \<noteq> None \<and> finish \<noteq> None \<and>
     \<not> (code \<noteq> None \<and> dept = None) \<and> (\<forall>k. no = Some k \<longrightarrow> k \<notin> taken)"
  "e \<in> set (value_errors raw taken no code dept budget finish) \<Longrightarrow> re_row_number e = rw_row_number raw"
  by (auto simp: value_errors_def error_when_def split: if_splits)

lemma parse_budget_bounds: "parse_budget v = Inr (Some amount) \<Longrightarrow> 0 \<le> amount \<and> amount < 10 ^ 15"
  by (auto simp: parse_budget_def split: option.splits decimal_text.splits sum.splits if_splits)

lemma all_present:
  "(case (es, a, b, c, d, f) of
      ([], Some v, Some w, Some x, Some y, Some z) \<Rightarrow> Inr (Some (F v w x y z), [])
    | _ \<Rightarrow> Inr (None, es)) =
   (if es = [] \<and> a \<noteq> None \<and> b \<noteq> None \<and> c \<noteq> None \<and> d \<noteq> None \<and> f \<noteq> None
    then Inr (Some (F (the a) (the b) (the c) (the d) (the f)), []) else Inr (None, es))"
  by (cases es; cases a; cases b; cases c; cases d; cases f) simp_all

lemma validate_row_Some:
  assumes "validate_row raw existing seen departments = Inr (Some r, es)"
  shows "es = [] \<and> vr_row_number r = rw_row_number raw \<and>
    normalize_text (rw_project_no raw) = Some (vr_project_no r) \<and>
    vr_project_no r \<notin> existing \<and> vr_project_no r \<notin> seen \<and>
    (\<exists>code. departments code = Some (vr_department r)) \<and>
    0 \<le> vr_total_budget r \<and> vr_total_budget r < 10 ^ 15"
  using assms unfolding validate_row_def unfolding all_present unfolding Let_def case_prod_beta
  by (elim attempt_InrE if_InrE)
    (auto simp: value_errors_facts(1) dest: parse_budget_bounds normalize_required_text_facts(2))

lemma validate_row_None:
  assumes "validate_row raw existing seen departments = Inr (None, es)"
  shows "es \<noteq> [] \<and> (\<forall>e \<in> set es. re_row_number e = rw_row_number raw)"
proof -
  define n where "n = rw_row_number raw"
  define a where "a = normalize_required_text (rw_project_no raw) ''project_no'' ''Project no'' n 32"
  define b where "b = normalize_required_text (rw_name raw) ''name'' ''Name'' n 200"
  define d where "d = normalize_required_text (rw_dept_code raw) ''dept_code'' ''Department code'' n 50"
  have absent: "snd x \<noteq> []" if "fst x = None" "x \<in> {a, b, d}" for x
    using that normalize_required_text_facts(1) by (auto simp: a_def b_def d_def)
  have rows: "re_row_number e = n" if "e \<in> set (snd x)" "x \<in> {a, b, d}" for e x
    using that normalize_required_text_facts(3) by (auto simp: a_def b_def d_def)
  note run = assms [unfolded validate_row_def, unfolded all_present, unfolded Let_def case_prod_beta,
      folded n_def, folded a_def b_def d_def]
  from run obtain budget where
    es: "snd a @ snd b @ snd d @ value_errors raw (existing \<union> seen) (fst a) (fst d)
      (departments (case fst d of None \<Rightarrow> [] | Some c \<Rightarrow> c)) budget (parse_date (rw_expected_finish_date raw)) = es"
    and none: "\<not> (es = [] \<and> fst a \<noteq> None \<and> fst b \<noteq> None \<and>
      departments (case fst d of None \<Rightarrow> [] | Some c \<Rightarrow> c) \<noteq> None \<and> budget \<noteq> None \<and>
      parse_date (rw_expected_finish_date raw) \<noteq> None)"
    by (elim attempt_InrE if_InrE)
      (simp, drule sum.inject(2) [THEN iffD1], simp only: prod.inject simp_thms)
  have "es \<noteq> []"
  proof
    assume "es = []"
    with es have "snd a = []" "snd b = []" "snd d = []" and
      "value_errors raw (existing \<union> seen) (fst a) (fst d)
        (departments (case fst d of None \<Rightarrow> [] | Some c \<Rightarrow> c)) budget (parse_date (rw_expected_finish_date raw)) = []"
      by simp_all
    with absent [of a] absent [of b] absent [of d] none \<open>es = []\<close> show False
      unfolding value_errors_facts(1) by auto
  qed
  moreover have "\<forall>e \<in> set es. re_row_number e = n"
    unfolding es [symmetric] using rows [of _ a] rows [of _ b] rows [of _ d] value_errors_facts(2)
    by (fastforce simp: n_def)
  ultimately show ?thesis by (simp add: n_def)
qed

lemma validate_rows_facts:
  assumes "validate_rows existing departments seen raws = Inr (rows, errors, bad)"
    and "distinct (map rw_row_number raws)"
  shows "length rows + length bad = length raws \<and>
    distinct (map vr_project_no rows) \<and> set (map vr_project_no rows) \<inter> (existing \<union> seen) = {} \<and>
    set bad \<subseteq> rw_row_number ` set raws \<and> distinct bad \<and> re_row_number ` set errors = set bad \<and>
    (\<forall>r \<in> set rows. 0 \<le> vr_total_budget r \<and> vr_total_budget r < 10 ^ 15 \<and>
       (\<exists>code. departments code = Some (vr_department r)) \<and>
       (\<exists>raw \<in> set raws. normalize_text (rw_project_no raw) = Some (vr_project_no r)))"
  using assms
proof (induction raws arbitrary: seen rows errors bad)
  case (Cons raw raws)
  obtain row es where row: "validate_row raw existing seen departments = Inr (row, es)"
    using Cons.prems(1) by (auto simp: result_simps)
  have new: "rw_row_number raw \<notin> rw_row_number ` set raws" and old: "distinct (map rw_row_number raws)"
    using Cons.prems(2) by simp_all
  show ?case
  proof (cases row)
    case None
    with validate_row_None row have es: "es \<noteq> []" "\<forall>e \<in> set es. re_row_number e = rw_row_number raw" by blast+
    then obtain es' fs where rest: "validate_rows existing departments seen raws = Inr (rows, es', fs)"
      "errors = es @ es'" "bad = List.insert (rw_row_number raw) fs"
      using Cons.prems(1) by (auto simp: row None result_simps)
    have "re_row_number ` set es = {rw_row_number raw}"
      using es by (auto simp: neq_Nil_conv)
    with Cons.IH [OF rest(1) old] new rest(2,3) show ?thesis
      by (auto simp: image_Un List.insert_def)
  next
    case (Some r)
    note r = validate_row_Some [OF row [unfolded Some]]
    from Cons.prems(1) r obtain rs where rest: "rows = r # rs"
      "validate_rows existing departments (insert (vr_project_no r) seen) raws = Inr (rs, errors, bad)"
      by (auto simp: row Some result_simps)
    from Cons.IH [OF rest(2) old] r rest(1) show ?thesis by auto
  qed
qed simp

lemma create_projects_facts:
  "create_projects actor now rows db = (ps, db') \<Longrightarrow>
     db' = db\<lparr>next_uuid := next_uuid db + length rows\<rparr> \<and>
     ps = map (\<lambda>(k, r). imported_project actor now k r)
       (zip [next_uuid db ..< next_uuid db + length rows] rows)"
proof (induction rows arbitrary: db ps db')
  case (Cons row rows)
  obtain qs db2 where rest: "create_projects actor now rows (snd (uuid4 db)) = (qs, db2)"
    by (cases "create_projects actor now rows (snd (uuid4 db))")
  from Cons.IH [OF rest] Cons.prems rest show ?case
    by (auto simp: uuid4_def Let_def upt_conv_Cons simp del: upt_Suc)
qed simp

definition numbered_projects :: "user \<Rightarrow> datetime \<Rightarrow> uuid \<Rightarrow> validated_row list \<Rightarrow> main_project list" where
  "numbered_projects actor now k rows =
     map (\<lambda>(i, r). imported_project actor now i r) (zip [k ..< k + length rows] rows)"

lemma create_projects_eq:
  "create_projects actor now rows db =
     (numbered_projects actor now (next_uuid db) rows, db\<lparr>next_uuid := next_uuid db + length rows\<rparr>)"
  using create_projects_facts [of actor now rows db]
  by (cases "create_projects actor now rows db") (simp add: numbered_projects_def)

lemma numbered_projects_columns:
  "length (numbered_projects actor now k rows) = length rows"
  "map mp_id (numbered_projects actor now k rows) = [k ..< k + length rows]"
  "map mp_project_no (numbered_projects actor now k rows) = map vr_project_no rows"
  "p \<in> set (numbered_projects actor now k rows) \<Longrightarrow> \<exists>i. \<exists>r \<in> set rows. p = imported_project actor now i r"
proof -
  have ids: "map mp_id (map (\<lambda>(i, r). imported_project actor now i r) (zip is rows)) = is"
    and nos: "map mp_project_no (map (\<lambda>(i, r). imported_project actor now i r) (zip is rows)) =
      map vr_project_no rows" if "length is = length rows" for "is"
    using that by (induction "is" rows rule: list_induct2) (simp_all add: imported_project_def)
  show "length (numbered_projects actor now k rows) = length rows"
    by (simp add: numbered_projects_def)
  show "map mp_id (numbered_projects actor now k rows) = [k ..< k + length rows]"
    and "map mp_project_no (numbered_projects actor now k rows) = map vr_project_no rows"
    unfolding numbered_projects_def by (rule ids nos, simp)+
  show "\<exists>i. \<exists>r \<in> set rows. p = imported_project actor now i r"
    if "p \<in> set (numbered_projects actor now k rows)"
    using that by (auto simp: numbered_projects_def dest: set_zip_rightD)
qed

lemma fold_add_main_project:
  "fold add_main_project ps db = db\<lparr>main_projects := main_projects db @ ps\<rparr>"
  by (induction ps arbitrary: db) (simp_all add: add_main_project_def)

lemma load_rows_numbers:
  assumes "load_rows w content = Inr raws"
  shows "distinct (map rw_row_number raws)"
proof -
  obtain rows index_of where raws: "raws = map (raw_row_of index_of)
      (filter (\<lambda>(n, values). \<not> is_blank_row values) (zip (map int [2 ..< Suc (length rows)]) (tl rows)))"
    using assms by (auto simp: load_rows_def result_simps split: sum.splits)
  let ?numbered = "zip (map int [2 ..< Suc (length rows)]) (tl rows)"
  have "distinct (map fst (filter (\<lambda>(n, values). \<not> is_blank_row values) ?numbered))"
    by (intro distinct_map_filter) (simp add: map_fst_zip_take distinct_map)
  moreover have "map rw_row_number raws = map fst (filter (\<lambda>(n, values). \<not> is_blank_row values) ?numbered)"
    by (simp add: raws raw_row_of_def Let_def comp_def)
  ultimately show ?thesis by simp
qed

lemma requested_numbers:
  "raw \<in> set raws \<Longrightarrow> normalize_text (field raw) = Some no \<Longrightarrow> no \<in> set (extract_string_values field raws)"
  by (force simp: extract_string_values_def List.map_filter_def)

lemma known_department:
  "list_departments_by_codes codes departments code = Some d \<Longrightarrow> d \<in> set departments"
  unfolding list_departments_by_codes_def by (auto dest!: map_of_SomeD)

text \<open>What an import does to the database.\<close>

lemma import_projects_effect:
  assumes "import_projects w actor departments content db = Inr (res, db')"
  shows "u_role actor = user_role.admin \<and>
    db' = db\<lparr>next_uuid := next_uuid db + length (ir_created_projects res),
      main_projects := main_projects db @ ir_created_projects res\<rparr> \<and>
    map mp_id (ir_created_projects res) =
      [next_uuid db ..< next_uuid db + length (ir_created_projects res)] \<and>
    distinct (map mp_project_no (ir_created_projects res)) \<and>
    mp_project_no ` set (ir_created_projects res) \<inter> mp_project_no ` set (main_projects db) = {} \<and>
    (\<forall>p \<in> set (ir_created_projects res). mp_status p = main_project_status.not_started \<and>
       mp_spent_amount p = 0 \<and> 0 \<le> mp_total_budget p \<and> mp_total_budget p < 10 ^ 15 \<and>
       (\<exists>d \<in> set departments. mp_dept_id p = dp_id d)) \<and>
    ir_success_count res + ir_failure_count res = ir_total_rows res \<and>
    ir_success_count res = int (length (ir_created_projects res)) \<and>
    ir_failure_count res = int (card (re_row_number ` set (ir_errors res)))"
proof -
  define created where "created = (\<lambda>rows. numbered_projects actor (iw_now w) (next_uuid db) rows)"
  from assms obtain raws where admin: "u_role actor = user_role.admin" and raws: "load_rows w content = Inr raws"
    by (auto simp: import_projects_def Let_def elim!: attempt_InrE guard_InrE)
  from assms obtain rows errors bad where
    rows: "validate_rows (list_existing_project_nos (extract_string_values rw_project_no raws) db)
      (list_departments_by_codes (extract_string_values rw_dept_code raws) departments) {} raws =
      Inr (rows, errors, bad)"
    by (auto simp: import_projects_def Let_def raws elim!: attempt_InrE guard_InrE)
  have db': "db' = db\<lparr>next_uuid := next_uuid db + length rows,
      main_projects := main_projects db @ created rows\<rparr>"
    and res: "ir_created_projects res = created rows" "ir_errors res = errors"
      "ir_total_rows res = int (length raws)" "ir_success_count res = int (length (created rows))"
      "ir_failure_count res = int (length bad)"
    using assms unfolding import_projects_def
    by (simp_all add: admin raws rows create_projects_eq fold_add_main_project created_def) auto
  note facts = validate_rows_facts [OF rows load_rows_numbers [OF raws]]
  have taken: "\<forall>r \<in> set rows. 0 \<le> vr_total_budget r \<and> vr_total_budget r < 10 ^ 15 \<and>
       (\<exists>code. list_departments_by_codes (extract_string_values rw_dept_code raws) departments code =
          Some (vr_department r)) \<and>
       (\<exists>raw \<in> set raws. normalize_text (rw_project_no raw) = Some (vr_project_no r))"
    and new: "set (map vr_project_no rows) \<inter>
      (list_existing_project_nos (extract_string_values rw_project_no raws) db \<union> {}) = {}"
    by (insert facts, elim conjE, assumption)+
  have created: "numbered_projects actor (iw_now w) (next_uuid db) rows = created rows"
    by (simp add: created_def)
  note columns = numbered_projects_columns [where actor = actor and now = "iw_now w" and
      k = "next_uuid db" and rows = rows, unfolded created]
  have free: "vr_project_no r \<notin> mp_project_no ` set (main_projects db)" if r: "r \<in> set rows" for r
  proof -
    obtain raw where "raw \<in> set raws" "normalize_text (rw_project_no raw) = Some (vr_project_no r)"
      using taken r by blast
    then have "vr_project_no r \<in> set (extract_string_values rw_project_no raws)" by (rule requested_numbers)
    moreover have "vr_project_no r \<in> set (map vr_project_no rows)" using r by simp
    then have "vr_project_no r \<notin> list_existing_project_nos (extract_string_values rw_project_no raws) db"
      using new by blast
    ultimately show ?thesis by (auto simp: list_existing_project_nos_def)
  qed
  have row: "mp_status p = main_project_status.not_started \<and> mp_spent_amount p = 0 \<and>
      0 \<le> mp_total_budget p \<and> mp_total_budget p < 10 ^ 15 \<and>
      (\<exists>d \<in> set departments. mp_dept_id p = dp_id d) \<and>
      mp_project_no p \<notin> mp_project_no ` set (main_projects db)" if p: "p \<in> set (created rows)" for p
  proof -
    obtain i r where r: "r \<in> set rows" "p = imported_project actor (iw_now w) i r"
      using columns(4) [OF p] by blast
    then have "0 \<le> vr_total_budget r \<and> vr_total_budget r < 10 ^ 15 \<and>
        vr_department r \<in> set departments"
      using taken known_department by blast
    then show ?thesis using free [OF r(1)] by (auto simp: r(2) imported_project_def)
  qed
  have "int (length bad) = int (card (re_row_number ` set errors))"
    using facts by (simp add: distinct_card)
  moreover have "mp_project_no ` set (created rows) \<inter> mp_project_no ` set (main_projects db) = {}"
    using row by blast
  moreover have "distinct (map mp_project_no (created rows))" using facts by (simp add: columns(3))
  moreover have "int (length (created rows)) + int (length bad) = int (length raws)"
    using facts by (simp add: columns(1) flip: of_nat_add)
  ultimately show ?thesis
    using admin row columns(2) by (simp add: db' res columns(1))
qed

text \<open>
  A quiet NaN in a budget stops the whole import: the comparison with zero raises an exception
  that nothing catches, whatever the other rows hold.
\<close>

lemma nan_budget_raises:
  "raw \<in> set raws \<Longrightarrow> cell_text (rw_total_budget raw) = Some s \<Longrightarrow> parse_decimal s = Some QuietNaN \<Longrightarrow>
     \<exists>err. validate_rows existing departments seen raws = Inl err"
proof (induction raws arbitrary: seen)
  case (Cons r raws)
  show ?case
  proof (cases "validate_row r existing seen departments")
    case (Inr x)
    obtain row es where x: "x = (row, es)" by (cases x)
    have "raw \<noteq> r"
    proof
      assume "raw = r"
      with Cons.prems have "parse_budget (rw_total_budget r) = Inl InvalidOperation"
        by (simp add: parse_budget_def)
      with Inr show False by (simp add: validate_row_def Let_def case_prod_beta)
    qed
    with Cons.prems Cons.IH obtain err where "\<And>seen. \<exists>err. validate_rows existing departments seen raws = Inl err"
      by auto
    then show ?thesis
      by (auto simp: Inr x split: option.split) (metis attempt_simps(1))+
  qed simp
qed simp

end
