(* ===== verification/System.thy ===== *)
theory System
  imports Transition AcceptanceSteps RevokeRequests HandoverRequests TaskDeadlines Workflows
    Permissions ProjectImports
begin

text \<open>
  The backend as a state machine: a state is the database, a move is one successful call of a
  state-changing operation, by any actor with any arguments, at any time.  A call that raises
  is rolled back and is no move, except where the service commits or records something before
  it raises: an upload and a preview move with every outcome.  The storage is not constrained.
  Users, preferences and document templates change by calls outside the model: one rule
  replaces them by anything.
\<close>

definition outside_change :: "database \<Rightarrow> database \<Rightarrow> bool" where
  "outside_change db db' \<longleftrightarrow> next_uuid db \<le> next_uuid db' \<and>
     (\<exists>us dts prefs. db' = db\<lparr>users := us, phase_doc_templates := dts, preferences := prefs,
        next_uuid := next_uuid db'\<rparr>)"

inductive step :: "database \<Rightarrow> database \<Rightarrow> bool" where
  do_create_project: "create_project e actor payload db = Inr (r, db') \<Longrightarrow> step db db'"
| do_update_project: "update_project actor k payload db = Inr (r, db') \<Longrightarrow> step db db'"
| do_submit_project: "submit_project e actor k db = Inr (r, db') \<Longrightarrow> step db db'"
| do_review_project: "review_project e actor k payload db = Inr (r, db') \<Longrightarrow> step db db'"
| do_close_project: "close_project e actor k db = Inr (r, db') \<Longrightarrow> step db db'"
| do_create_sub_project: "create_sub_project e actor payload db = Inr (r, db') \<Longrightarrow> step db db'"
| do_update_sub_project: "update_sub_project actor k payload db = Inr (r, db') \<Longrightarrow> step db db'"
| do_submit_sub_project: "submit_sub_project e actor k db = Inr (r, db') \<Longrightarrow> step db db'"
| do_review_sub_project: "review_sub_project e actor k payload db = Inr (r, db') \<Longrightarrow> step db db'"
| do_close_sub_project: "close_sub_project e actor k db = Inr (r, db') \<Longrightarrow> step db db'"
| do_terminate_sub_project: "terminate_sub_project e actor k reason db = Inr (r, db') \<Longrightarrow> step db db'"
| do_add_member: "add_sub_project_member e actor k uid db = Inr (r, db') \<Longrightarrow> step db db'"
| do_remove_member: "remove_sub_project_member e actor k uid db = Inr (r, db') \<Longrightarrow> step db db'"
| do_handover: "handover_sub_project e actor k to_id reason expected db = Inr (r, db') \<Longrightarrow> step db db'"
| do_update_procurement: "update_procurement_type e actor k t db = Inr (r, db') \<Longrightarrow> step db db'"
| do_promote: "promote_phase e actor k db = Inr (r, db') \<Longrightarrow> step db db'"
| do_create_step: "create_step e actor k payload db = Inr (r, db') \<Longrightarrow> step db db'"
| do_update_step: "update_step e actor pid k status db = Inr (r, db') \<Longrightarrow> step db db'"
| do_create_payment: "create_payment e actor policy k payload db fs = (Inr (r, db'), fs') \<Longrightarrow> step db db'"
| do_reverse_payment: "reverse_payment e actor sid k remark db = Inr (r, db') \<Longrightarrow> step db db'"
| do_upload: "upload_document e actor policy scheduler k u db fs = (r, db', fs') \<Longrightarrow> step db db'"
| do_delete_document: "delete_document e actor k db = Inr (r, db') \<Longrightarrow> step db db'"
| do_soft_delete_documents: "soft_delete_phase_documents e k db = Inr (r, db') \<Longrightarrow> step db db'"
| do_confirm_type: "confirm_document_type e actor k t db = Inr (r, db') \<Longrightarrow> step db db'"
| do_preview: "preview_document e actor k db fs = (r, db') \<Longrightarrow> step db db'"
| do_preview_office: "preview_office_document convert e actor k db fs = Inr (r, db') \<Longrightarrow> step db db'"
| do_submit_revoke: "submit_revoke_request e actor k reason keep db = Inr (r, db') \<Longrightarrow> step db db'"
| do_review_revoke: "review_revoke_request e actor k decision comment db = Inr (r, db') \<Longrightarrow> step db db'"
| do_submit_handover: "submit_handover_request e actor ids to_id reason db = Inr (r, db') \<Longrightarrow> step db db'"
| do_review_candidate: "review_candidate e actor k decision comment db = Inr (r, db') \<Longrightarrow> step db db'"
| do_review_handover: "review_handover_request e actor k decision comment db = Inr (r, db') \<Longrightarrow> step db db'"
| do_force_handover: "force_handover_request e actor k db = Inr (r, db') \<Longrightarrow> step db db'"
| do_create_task: "create_task e actor payload db = Inr (r, db') \<Longrightarrow> step db db'"
| do_update_task: "update_task e actor k payload db = Inr (r, db') \<Longrightarrow> step db db'"
| do_complete_task: "complete_task e actor k db = Inr (r, db') \<Longrightarrow> step db db'"
| do_scan: "scan_deadlines e d ids db = (r, db') \<Longrightarrow> step db db'"
| do_create_project_type: "create_project_type e actor code name description db = Inr (r, db') \<Longrightarrow> step db db'"
| do_create_template: "create_template e actor k name description db = Inr (r, db') \<Longrightarrow> step db db'"
| do_update_definitions: "update_phase_definitions e actor k ds db = Inr (r, db') \<Longrightarrow> step db db'"
| do_publish: "publish_template_version e actor k db = Inr (r, db') \<Longrightarrow> step db db'"
| do_mark_read: "mark_read e actor k db = Inr (r, db') \<Longrightarrow> step db db'"
| do_mark_all_read: "mark_all_read e actor db = (r, db') \<Longrightarrow> step db db'"
| do_import_projects: "import_projects w actor departments content db = Inr (r, db') \<Longrightarrow> step db db'"
| do_outside: "outside_change db db' \<Longrightarrow> step db db'"

text \<open>
  The start: no business row.  Users, project types, workflow templates and versions may be
  seeded, with their ids below the supply of new ids.
\<close>

definition initial :: "database \<Rightarrow> bool" where
  "initial db \<longleftrightarrow> main_projects db = [] \<and> sub_projects db = [] \<and> members db = [] \<and>
     handovers db = [] \<and> reviews db = [] \<and> phases db = [] \<and> histories db = [] \<and>
     documents db = [] \<and> acceptance_steps db = [] \<and> payments db = [] \<and> payment_vouchers db = [] \<and>
     revoke_requests db = [] \<and> handover_requests db = [] \<and> request_projects db = [] \<and>
     tasks db = [] \<and> executors db = [] \<and> notifications db = [] \<and> outbox db = [] \<and>
     audit_log db = [] \<and> main_sequence db = 1 \<and> sub_sequences db = (\<lambda>_. None) \<and>
     fresh_ids wv_id (workflow_versions db) (next_uuid db) \<and>
     (\<forall>v \<in> set (workflow_versions db).
        wv_status v = workflow_status.published \<longrightarrow> wv_phase_definitions v \<noteq> [])"

definition reachable :: "database \<Rightarrow> bool" where
  "reachable = reaches initial step"

lemma reachable_step: "reachable db \<Longrightarrow> step db db' \<Longrightarrow> reachable db'"
  unfolding reachable_def by (rule reaches_move)

subsection \<open>Write sets of the moves\<close>

lemma create_payment_evolves:
  "create_payment e actor policy sid payload db fs = (Inr (p, db'), fs') \<Longrightarrow>
     evolves {Payments, Documents, Vouchers, Subs, Mains, Notifications, Outbox} db db'"
  by (erule create_payment_effect)

lemma reverse_payment_evolves:
  "reverse_payment e actor sid k remark db = Inr (p, db') \<Longrightarrow> evolves {Payments, Subs, Mains} db db'"
  by (erule reverse_payment_effect)

lemma enqueue_scan_evolves [evolve_rules]:
  "Documents \<in> W \<Longrightarrow> evolves W a b \<Longrightarrow> evolves W a (snd (enqueue_scan e scheduler d b))"
  by (auto simp: enqueue_scan_def Let_def split: option.split intro: evolve_rules)

lemma upload_document_evolves:
  assumes "upload_document e actor policy scheduler sid u db fs = (r, db', fs')"
  shows "evolves {Documents, Audit} db db'"
proof (cases "check_upload actor policy sid u db")
  case (Inl err)
  with assms show ?thesis by (auto simp: upload_document_def evolves_refl)
next
  case (Inr c)
  obtain doc_type name display s p where c: "c = (doc_type, name, display, s, p)"
    by (rule prod_cases5)
  note run = assms [unfolded upload_document_def Inr c sum.case prod.case]
  show ?thesis
  proof (cases "validate_file (zip_reader policy) name (du_content_type u) (du_content u)")
    case (Inl err)
    have "evolves {Documents, Audit} db (record_document_audit e actor action t bf af x db)"
      for action t bf af x
      by (rule evolve_rules | simp)+
    with run [unfolded Inl sum.case] show ?thesis
      by (auto simp: evolves_refl split: option.splits)
  next
    case (Inr v)
    note run = run [unfolded Inr sum.case]
    show ?thesis
    proof (cases "save_content (sp_id s) (ph_id p) name (du_content u) fs")
      case (Inl err)
      with run show ?thesis by (auto simp: evolves_refl)
    next
      case (Inr kf)
      obtain key fs1 where kf: "kf = (key, fs1)" by (cases kf)
      from run [unfolded Inr kf sum.case prod.case] show ?thesis
        apply (elim let_pairE letE Pair_inject)
        apply hypsubst+
        apply (rule evolve_rules | (simp (no_asm); fail))+
        done
    qed
  qed
qed

lemma preview_document_evolves:
  "preview_document e actor k db fs = (r, db') \<Longrightarrow> evolves {Audit} db db'"
proof -
  have "evolves {Audit} db (record_preview e actor d action db)" for d action
    unfolding record_preview_def by (rule evolve_rules | simp)+
  then show "preview_document e actor k db fs = (r, db') \<Longrightarrow> evolves {Audit} db db'"
    unfolding preview_document_def by (auto simp: evolves_refl split: sum.splits)
qed

lemma preview_office_document_writes:
  "yields (evolves {Audit} db) (preview_office_document convert e actor k db fs)"
  unfolding preview_office_document_def record_preview_def
  by (assumption | rule yields_rules evolve_rules | (simp; fail))+

lemma notifications_evolve [evolve_rules]:
  "Notifications \<in> W \<Longrightarrow> evolves W a b \<Longrightarrow> evolves W a (b\<lparr>notifications := ns\<rparr>)"
  by (simp add: evolves_iff writes_iff)

lemma mark_read_writes: "yields (evolves {Notifications} db) (mark_read e actor k db)"
  unfolding mark_read_def
  by (assumption | rule yields_rules evolve_rules | (simp; fail))+

lemma mark_all_read_evolves:
  "mark_all_read e actor db = (r, db') \<Longrightarrow> evolves {Notifications} db db'"
  unfolding mark_all_read_def Let_def
  by (cases "list_unread_for_update (u_id actor) db = []") (auto intro: evolve_rules)

lemma scan_deadlines_evolves:
  "scan_deadlines e d ids db = (r, db') \<Longrightarrow> evolves {Tasks, Executors, Notifications, Outbox} db db'"
  using scan_deadlines_writes [of db e d ids] by simp

lemma outside_evolves: "outside_change db db' \<Longrightarrow> evolves {Users, DocTemplates, Preferences} db db'"
proof -
  assume "outside_change db db'"
  then obtain us dts prefs n where "db' = db\<lparr>users := us, phase_doc_templates := dts,
      preferences := prefs, next_uuid := n\<rparr>" and "next_uuid db \<le> n"
    unfolding outside_change_def by blast
  then show ?thesis by (simp add: evolves_iff writes_iff)
qed

lemma import_projects_evolves:
  assumes "import_projects w actor departments content db = Inr (r, db')"
  shows "evolves {Mains} db db'"
proof -
  from import_projects_effect [OF assms] obtain ps n where
    "db' = db\<lparr>next_uuid := next_uuid db + n, main_projects := ps\<rparr>" by (elim conjE)
  then show ?thesis by (simp add: evolves_iff writes_iff)
qed

lemmas move_writes =
  create_project_writes [THEN yieldsD] update_project_writes [THEN yieldsD]
  submit_project_writes [THEN yieldsD] review_project_writes [THEN yieldsD]
  close_project_writes [THEN yieldsD] create_sub_project_writes [THEN yieldsD]
  update_sub_project_writes [THEN yieldsD] submit_sub_project_writes [THEN yieldsD]
  review_sub_project_writes [THEN yieldsD] close_sub_project_writes [THEN yieldsD]
  terminate_sub_project_writes [THEN yieldsD] add_sub_project_member_writes [THEN yieldsD]
  remove_sub_project_member_writes [THEN yieldsD] handover_sub_project_writes [THEN yieldsD]
  update_procurement_type_writes [THEN yieldsD] promote_phase_writes [THEN yieldsD]
  create_step_writes [THEN yieldsD] update_step_writes [THEN yieldsD] delete_document_writes
  [THEN yieldsD] soft_delete_phase_documents_writes [THEN yieldsD]
  confirm_document_type_writes [THEN yieldsD] preview_office_document_writes [THEN yieldsD]
  submit_revoke_request_writes [THEN yieldsD] review_revoke_request_writes [THEN yieldsD]
  submit_handover_request_writes [THEN yieldsD] review_candidate_writes [THEN yieldsD]
  review_handover_request_writes [THEN yieldsD] force_handover_request_writes [THEN yieldsD]
  create_task_writes [THEN yieldsD] update_task_writes [THEN yieldsD] complete_task_writes
  [THEN yieldsD] create_project_type_writes [THEN yieldsD] create_template_writes [THEN
  yieldsD] update_phase_definitions_writes [THEN yieldsD] publish_template_version_writes
  [THEN yieldsD] mark_read_writes [THEN yieldsD]
  create_payment_evolves reverse_payment_evolves upload_document_evolves
  preview_document_evolves scan_deadlines_evolves mark_all_read_evolves
  outside_evolves import_projects_evolves

text \<open>A batch of handovers and a scan over time zones are runs of single moves.\<close>

lemma batch_handover_steps:
  "step\<^sup>*\<^sup>* db (snd (batch_handover_sub_projects e actor from_id items db))"
proof -
  have "step\<^sup>*\<^sup>* db (snd (batch_handover_items e actor from_id items db))"
  proof (induction items arbitrary: db)
    case (Cons item items)
    show ?case
    proof (cases "handover_sub_project e actor (bhi_sub_project_id item) (bhi_to_user_id item)
        (bhi_reason item) (Some from_id) db")
      case (Inr sd)
      obtain s db1 where sd: "sd = (s, db1)" by (cases sd)
      have "step db db1" using Inr sd by (auto intro: do_handover)
      then have "step\<^sup>*\<^sup>* db (snd (batch_handover_items e actor from_id items db1))"
        using Cons.IH [of db1] by (rule converse_rtranclp_into_rtranclp)
      then show ?thesis by (auto simp: Inr sd split: prod.splits sum.splits)
    qed simp
  qed simp
  then show ?thesis by (simp add: batch_handover_sub_projects_def)
qed

lemma scan_groups_steps: "step\<^sup>*\<^sup>* db (snd (scan_groups e groups acc db))"
proof (induction groups arbitrary: acc db)
  case (Cons g groups)
  obtain d ids where g: "g = (d, ids)" by (cases g)
  obtain r db1 where r: "scan_deadlines e (Some d) (Some ids) db = (r, db1)"
    by (cases "scan_deadlines e (Some d) (Some ids) db")
  have "step db db1" using r by (rule do_scan)
  with Cons.IH [of db1 "add_results acc r"] show ?case
    by (simp add: g r converse_rtranclp_into_rtranclp)
qed simp

end
