(* ===== verification/Integrity.thy ===== *)
theory Integrity
  imports System
begin

text \<open>
  Identifiers and references: every table keeps its ids distinct and below the supply, and no
  row refers to a row that does not exist.  \<open>grows\<close> is what a table with no deletion does.
\<close>

definition grows :: "('r \<Rightarrow> uuid) \<Rightarrow> 'r list \<Rightarrow> 'r list \<Rightarrow> uuid \<Rightarrow> uuid \<Rightarrow> bool" where
  "grows key rows rows' n n' \<longleftrightarrow> n \<le> n' \<and>
     (\<exists>new. map key rows' = map key rows @ new \<and> distinct new \<and> (\<forall>k \<in> set new. n \<le> k \<and> k < n'))"

lemma grows_same: "map key rows' = map key rows \<Longrightarrow> n \<le> n' \<Longrightarrow> grows key rows rows' n n'"
  by (simp add: grows_def)

lemma grows_append:
  "map key rows' = map key rows @ map key new \<Longrightarrow> n \<le> n' \<Longrightarrow> distinct (map key new) \<Longrightarrow>
     (\<And>r. r \<in> set new \<Longrightarrow> n \<le> key r \<and> key r < n') \<Longrightarrow> grows key rows rows' n n'"
  unfolding grows_def by (intro conjI exI [of _ "map key new"]) auto

lemma grows_append_one:
  "map key rows' = map key rows @ [key r] \<Longrightarrow> n \<le> key r \<Longrightarrow> key r < n' \<Longrightarrow> grows key rows rows' n n'"
  using grows_append [of key rows' rows "[r]" n n'] by simp

lemma grows_fresh: "grows key rows rows' n n' \<Longrightarrow> fresh_ids key rows n \<Longrightarrow> fresh_ids key rows' n'"
proof -
  assume g: "grows key rows rows' n n'" and f: "fresh_ids key rows n"
  then obtain new where new: "map key rows' = map key rows @ new" "distinct new"
    "\<forall>k \<in> set new. n \<le> k \<and> k < n'" "n \<le> n'" unfolding grows_def by blast
  have old: "\<forall>k \<in> set (map key rows). k < n" using f by (auto simp: fresh_ids_def)
  have "distinct (map key rows')"
    unfolding new(1) using f new(2,3) old by (fastforce simp: fresh_ids_def)
  moreover have "\<forall>k \<in> set (map key rows'). k < n'"
    unfolding new(1) using new(3,4) old by fastforce
  ultimately show ?thesis by (simp add: fresh_ids_def)
qed

lemma grows_keys: "grows key rows rows' n n' \<Longrightarrow> key ` set rows \<subseteq> key ` set rows'"
  unfolding grows_def by (metis Un_upper1 list.set_map set_append)

text \<open>A row replaced by one that agrees with it in a column.\<close>

lemma map_replace_row:
  assumes "distinct (map key rows)" and "find_row key k rows = Some p" and "g r = g p"
  shows "map g (update_rows key k (\<lambda>_. r) rows) = map g rows"
proof -
  have p: "p \<in> set rows" "key p = k" using find_row_SomeD [OF assms(2)] by auto
  have "g (if key x = k then r else x) = g x" if "x \<in> set rows" for x
    using distinct_key_eqD [OF assms(1) that p(1)] p(2) assms(3) by auto
  then show ?thesis by (simp add: update_rows_def)
qed

subsection \<open>The moves, table by table\<close>

lemma unwritten:
  assumes "evolves W db db'"
  shows "Mains \<notin> W \<Longrightarrow> grows mp_id (main_projects db) (main_projects db') (next_uuid db) (next_uuid db')"
    and "Subs \<notin> W \<Longrightarrow> grows sp_id (sub_projects db) (sub_projects db') (next_uuid db) (next_uuid db')"
    and "Phases \<notin> W \<Longrightarrow> grows ph_id (phases db) (phases db') (next_uuid db) (next_uuid db')"
    and "Payments \<notin> W \<Longrightarrow> grows pay_id (payments db) (payments db') (next_uuid db) (next_uuid db')"
    and "Documents \<notin> W \<Longrightarrow> grows doc_id (documents db) (documents db') (next_uuid db) (next_uuid db')"
    and "Revokes \<notin> W \<Longrightarrow>
      grows rr_id (revoke_requests db) (revoke_requests db') (next_uuid db) (next_uuid db')"
    and "Tasks \<notin> W \<Longrightarrow> grows task_id (tasks db) (tasks db') (next_uuid db) (next_uuid db')"
    and "Versions \<notin> W \<Longrightarrow>
      grows wv_id (workflow_versions db) (workflow_versions db') (next_uuid db) (next_uuid db')"
  using assms by (simp_all add: evolves_iff writes_iff grows_same)

lemma move_supply: "step db db' \<Longrightarrow> next_uuid db \<le> next_uuid db'"
  by (erule step.cases) (drule move_writes, simp add: evolves_iff)+

lemma main_keys:
  assumes "step db db'"
  shows "grows mp_id (main_projects db) (main_projects db') (next_uuid db) (next_uuid db')"
  using assms
proof (cases rule: step.cases)
  case (do_create_project e actor payload r)
  from create_project_effect [OF this] show ?thesis
    by (intro grows_append_one [of _ _ _ r]) simp_all
next
  case (do_update_project actor k payload r)
  from update_project_effect [OF this] move_supply [OF assms] show ?thesis
    by (auto intro!: grows_same simp: apply_project_update_def)
next
  case (do_submit_project e actor k r)
  from submit_project_effect [OF this] move_supply [OF assms] show ?thesis
    by (auto intro!: grows_same)
next
  case (do_review_project e actor k payload r)
  from review_project_effect [OF this] obtain p where p: "get_main_project k db = Some p"
    "main_projects db' = update_rows mp_id k (\<lambda>_. r) (main_projects db)" "mp_id r = mp_id p" by blast
  then have "mp_id r = k" using main_rows.get_SomeD by fastforce
  with p move_supply [OF assms] show ?thesis by (auto intro!: grows_same map_update_rows)
next
  case (do_close_project e actor k r)
  from close_project_effect [OF this] move_supply [OF assms] show ?thesis
    by (auto intro!: grows_same split: if_splits)
next
  case (do_review_sub_project e actor k payload r)
  from review_sub_project_effect [OF this] move_supply [OF assms] show ?thesis
    by (auto intro!: grows_same split: if_splits)
next
  case (do_create_payment e actor policy k payload fs r fs')
  then show ?thesis
    by (rule create_payment_effect) (simp add: grows_same move_supply [OF assms])
next
  case (do_reverse_payment e actor sid k remark r)
  then show ?thesis
    by (rule reverse_payment_effect) (simp add: grows_same move_supply [OF assms])
next
  case (do_import_projects w actor departments content r)
  from import_projects_effect [OF this] have
    rows: "main_projects db' = main_projects db @ ir_created_projects r"
    and ids: "map mp_id (ir_created_projects r) =
      [next_uuid db ..< next_uuid db + length (ir_created_projects r)]"
    and count: "next_uuid db' = next_uuid db + length (ir_created_projects r)" by (elim conjE, simp)+
  have "next_uuid db \<le> mp_id p \<and> mp_id p < next_uuid db'" if "p \<in> set (ir_created_projects r)" for p
  proof -
    have "mp_id p \<in> set (map mp_id (ir_created_projects r))" using that by simp
    then show ?thesis unfolding ids by (simp add: count)
  qed
  then show ?thesis by (intro grows_append [of _ _ _ "ir_created_projects r"]) (simp_all add: rows ids count)
qed (rule unwritten, erule move_writes, simp)+

lemma forget_manager_keys:
  assumes "map forget_manager rows' = map forget_manager rows"
  shows "map sp_id rows' = map sp_id rows" and "map sp_main_project_id rows' = map sp_main_project_id rows"
    and "map sp_spent_amount rows' = map sp_spent_amount rows"
    and "map sp_status rows' = map sp_status rows" and "map sp_project_no rows' = map sp_project_no rows"
proof -
  have via: "map g rows' = map g rows" if "\<And>s. g (forget_manager s) = g s" for g :: "sub_project \<Rightarrow> 'c"
  proof -
    have "map g xs = map g (map forget_manager xs)" for xs by (simp add: that)
    with assms show ?thesis by metis
  qed
  show "map sp_id rows' = map sp_id rows" "map sp_main_project_id rows' = map sp_main_project_id rows"
    "map sp_spent_amount rows' = map sp_spent_amount rows" "map sp_status rows' = map sp_status rows"
    "map sp_project_no rows' = map sp_project_no rows"
    by (rule via, simp add: forget_manager_def)+
qed

lemma team_move_forgets:
  "team_move\<^sup>*\<^sup>* a b \<Longrightarrow> map forget_manager (sub_projects b) = map forget_manager (sub_projects a)"
proof (induction rule: rtranclp_induct)
  case (step b c)
  have "map forget_manager (sub_projects c) = map forget_manager (sub_projects b)"
    using step(2) unfolding team_move_def manager_change_def team_same_def
    by (auto simp: map_update_rows)
  with step(3) show ?case by simp
qed simp

lemma handover_forgets:
  "handover_sub_project e actor sid to_id reason expected db = Inr (r, db') \<Longrightarrow>
     map forget_manager (sub_projects db') = map forget_manager (sub_projects db)"
  by (drule handover_manager_change, rule team_move_forgets, rule r_into_rtranclp)
    (simp add: team_move_def)

text \<open>What the moves that write sub projects do to the columns other than the manager.\<close>

lemma sub_keys:
  assumes "step db db'"
  shows "grows sp_id (sub_projects db) (sub_projects db') (next_uuid db) (next_uuid db')"
  using assms
proof (cases rule: step.cases)
  case (do_create_sub_project e actor payload r)
  from create_sub_project_effect [OF this] show ?thesis
    by (auto intro!: grows_append_one [of _ _ _ r])
next
  case (do_update_sub_project actor k payload r)
  from update_sub_project_effect [OF this] move_supply [OF assms] show ?thesis
    by (auto intro!: grows_same simp: apply_sub_project_update_def)
next
  case (do_submit_sub_project e actor k r)
  from submit_sub_project_effect [OF this] move_supply [OF assms] show ?thesis
    by (auto intro!: grows_same)
next
  case (do_review_sub_project e actor k payload r)
  from review_sub_project_effect [OF this] move_supply [OF assms] show ?thesis
    by (auto intro!: grows_same split: if_splits)
next
  case (do_close_sub_project e actor k r)
  from close_sub_project_effect [OF this] move_supply [OF assms] show ?thesis
    by (auto intro!: grows_same split: if_splits)
next
  case (do_terminate_sub_project e actor k reason r)
  from terminate_sub_project_effect [OF this] move_supply [OF assms] show ?thesis
    by (auto intro!: grows_same)
next
  case (do_handover e actor k to_id reason expected r)
  from handover_forgets [OF this] show ?thesis
    by (intro grows_same forget_manager_keys(1) move_supply [OF assms])
next
  case (do_promote e actor k r)
  obtain p q where "r = (p, q)" by (cases r)
  with do_promote promote_phase_effect [of e actor k db p q db'] move_supply [OF assms]
  show ?thesis by (auto intro!: grows_same split: if_splits)
next
  case (do_create_payment e actor policy k payload fs r fs')
  then show ?thesis
    by (rule create_payment_effect) (simp add: grows_same move_supply [OF assms])
next
  case (do_reverse_payment e actor sid k remark r)
  then show ?thesis
    by (rule reverse_payment_effect) (simp add: grows_same move_supply [OF assms])
next
  case (do_review_handover e actor k decision comment r)
  from team_move_forgets [OF review_handover_moves [OF this]] show ?thesis
    by (intro grows_same forget_manager_keys(1) move_supply [OF assms])
next
  case (do_force_handover e actor k r)
  from team_move_forgets [OF force_handover_moves [OF this]] show ?thesis
    by (intro grows_same forget_manager_keys(1) move_supply [OF assms])
qed (rule unwritten, erule move_writes, simp)+

lemma promoted_phases_ids [simp]:
  "map ph_id (promoted_phases e k activated ps) = map ph_id ps"
  "map ph_sub_project_id (promoted_phases e k activated ps) = map ph_sub_project_id ps"
  "map ph_phase_no (promoted_phases e k activated ps) = map ph_phase_no ps"
  by (simp_all add: promoted_phases_def Let_def map_update_rows split: option.split)

lemma new_phases_ids:
  "map ph_id (new_phases e sid specs n) = [n ..< n + length specs] \<and>
   (\<forall>p \<in> set (new_phases e sid specs n). ph_sub_project_id p = sid)"
proof (induction specs arbitrary: n)
  case (Cons spec specs)
  have "[n ..< n + length (spec # specs)] = n # [Suc n ..< Suc n + length specs]"
    using upt_conv_Cons [of n "n + length (spec # specs)"] by simp
  with Cons.IH [of "Suc n"] show ?case by (cases spec) (simp add: new_phase_def)
qed simp

lemma phase_keys:
  assumes "step db db'"
  shows "grows ph_id (phases db) (phases db') (next_uuid db) (next_uuid db')"
  using assms
proof (cases rule: step.cases)
  case (do_review_sub_project e actor k payload r)
  from review_sub_project_effect [OF this] obtain s where
    "phases db' = phases db \<or> phases db' = phases db @
        new_phases e (sp_id s) (phase_specs s db) (next_uuid db) \<and>
      next_uuid db + length (phase_specs s db) \<le> next_uuid db'"
    by (auto split: if_splits)
  then show ?thesis
  proof
    assume n: "phases db' = phases db @ new_phases e (sp_id s) (phase_specs s db) (next_uuid db) \<and>
      next_uuid db + length (phase_specs s db) \<le> next_uuid db'"
    let ?new = "new_phases e (sp_id s) (phase_specs s db) (next_uuid db)"
    have ids: "map ph_id ?new = [next_uuid db ..< next_uuid db + length (phase_specs s db)]"
      using new_phases_ids by blast
    show ?thesis
    proof (rule grows_append [of _ _ _ ?new])
      show "distinct (map ph_id ?new)" unfolding ids by simp
      show "next_uuid db \<le> ph_id p \<and> ph_id p < next_uuid db'" if "p \<in> set ?new" for p
      proof -
        have "ph_id p \<in> set (map ph_id ?new)" using that by simp
        with n show ?thesis unfolding ids by simp
      qed
    qed (use n move_supply [OF assms] in simp_all)
  qed (simp add: grows_same move_supply [OF assms])
next
  case (do_update_procurement e actor k t r)
  from update_procurement_type_effect [OF this] move_supply [OF assms] show ?thesis
    by (auto intro!: grows_same)
next
  case (do_promote e actor k r)
  obtain p q where "r = (p, q)" by (cases r)
  with do_promote promote_phase_effect [of e actor k db p q db'] move_supply [OF assms]
  show ?thesis by (auto intro!: grows_same)
next
  case (do_review_revoke e actor k decision comment r)
  then show ?thesis
    by (rule review_revoke_request_effect) (simp add: grows_same move_supply [OF assms])
qed (rule unwritten, erule move_writes, simp)+

lemma payment_keys:
  assumes "step db db'"
  shows "grows pay_id (payments db) (payments db') (next_uuid db) (next_uuid db')"
  using assms
proof (cases rule: step.cases)
  case (do_create_payment e actor policy k payload fs r fs')
  then show ?thesis
    by (rule create_payment_effect) (rule grows_append_one [of _ _ _ r], simp_all add: new_payment_def)
next
  case (do_reverse_payment e actor sid k remark r)
  then show ?thesis
    by (rule reverse_payment_effect) (rule grows_append_one [of _ _ _ r], simp_all add: new_payment_def)
qed (rule unwritten, erule move_writes, simp)+

lemma version_keys:
  assumes "step db db'"
  shows "grows wv_id (workflow_versions db) (workflow_versions db') (next_uuid db) (next_uuid db')"
  using assms
proof (cases rule: step.cases)
  case (do_create_template e actor k name description r)
  then obtain v where "workflow_versions db' = workflow_versions db @ [v]"
    "wv_id v = Suc (next_uuid db)" "next_uuid db' = Suc (Suc (next_uuid db))"
    by (rule create_template_effect)
  then show ?thesis by (intro grows_append_one [of _ _ _ v]) simp_all
next
  case (do_update_definitions e actor k ds r)
  from update_phase_definitions_effect [OF this] move_supply [OF assms] show ?thesis
    by (auto intro!: grows_same)
next
  case (do_publish e actor k r)
  then show ?thesis
    by (rule publish_template_version_effect) (simp add: grows_same move_supply [OF assms])
qed (rule unwritten, erule move_writes, simp)+

lemma revoke_keys:
  assumes "step db db'"
  shows "grows rr_id (revoke_requests db) (revoke_requests db') (next_uuid db) (next_uuid db')"
  using assms
proof (cases rule: step.cases)
  case (do_submit_revoke e actor k reason keep r)
  then show ?thesis
    by (rule submit_revoke_request_effect) (rule grows_append_one [of _ _ _ r], simp_all)
next
  case (do_review_revoke e actor k decision comment r)
  then show ?thesis
    by (rule review_revoke_request_effect) (simp add: grows_same move_supply [OF assms])
qed (rule unwritten, erule move_writes, simp)+

lemma upload_document_failed:
  "upload_document e actor policy scheduler sid u db fs = (Inl err, db', fs') \<Longrightarrow>
     documents db' = documents db"
  unfolding upload_document_def record_document_audit_def
  by (auto simp: Let_def split: sum.splits prod.splits option.splits)

lemma clear_group_ids [simp]:
  "(\<And>d. doc_id (f d) = doc_id d) \<Longrightarrow> map doc_id (clear_group f sid pid t rows) = map doc_id rows"
  by (simp add: clear_group_def)

lemma save_documents_ids [simp]:
  "(\<And>d. doc_id (f d) = doc_id d) \<Longrightarrow> map doc_id (documents (save_documents ds f db)) = map doc_id (documents db)"
  by (induction ds f db rule: save_documents.induct) (simp_all add: save_document_def)

lemma foldl_update_ids [simp]:
  "(\<And>d. doc_id (f d) = doc_id d) \<Longrightarrow>
     map doc_id (foldl (\<lambda>rs x. update_rows doc_id (doc_id x) f rs) rows ds) = map doc_id rows"
  by (induction ds arbitrary: rows) simp_all

lemma moved_documents_ids [simp]:
  "map doc_id (moved_documents e d t old_docs new_docs rows) = map doc_id rows"
  by (simp add: moved_documents_def split: option.split)

lemma document_keys:
  assumes "step db db'" and fresh: "fresh_ids doc_id (documents db) (next_uuid db)"
  shows "grows doc_id (documents db) (documents db') (next_uuid db) (next_uuid db')"
  using assms(1)
proof (cases rule: step.cases)
  case (do_create_payment e actor policy k payload fs r fs')
  then show ?thesis
  proof (rule create_payment_effect)
    fix s uploads and ph :: phase
    assume "\<exists>ds. documents db' = documents db @ ds \<and> length ds = length (uploads :: voucher_upload list) \<and>
      (\<forall>d \<in> set ds. voucher_of (sp_id s) (ph_id ph) d) \<and>
      fresh_ids doc_id ds (next_uuid db') \<and> (\<forall>d \<in> set ds. next_uuid db < doc_id d) \<and>
      map doc_version ds = map (\<lambda>i. latest_version (list_group_documents (sp_id s) (ph_id ph)
        ''payment_voucher'' db) + 1 + int i) [0 ..< length uploads]"
    then obtain ds where "documents db' = documents db @ ds" "fresh_ids doc_id ds (next_uuid db')"
      "\<forall>d \<in> set ds. next_uuid db < doc_id d" by blast
    then show ?thesis
      using move_supply [OF assms(1)]
      by (intro grows_append [of _ _ _ ds]) (auto simp: fresh_ids_def)
  qed
next
  case (do_upload e actor policy scheduler k u fs r fs')
  show ?thesis
  proof (cases r)
    case (Inl err)
    with do_upload upload_document_failed show ?thesis
      by (intro grows_same move_supply [OF assms(1)]) metis
  next
    case (Inr d)
    from fresh have "distinct (map doc_id (documents db))" "\<forall>d \<in> set (documents db). doc_id d < next_uuid db"
      by (simp_all add: fresh_ids_def)
    with do_upload [unfolded Inr] show ?thesis
      by (rule upload_document_effect) (rule grows_append_one [of _ _ _ d], simp_all)
  qed
next
  case (do_delete_document e actor k r)
  then show ?thesis
    by (rule delete_document_effect)
      (auto intro!: grows_same move_supply [OF assms(1)] simp: Let_def split: option.split)
next
  case (do_soft_delete_documents e k r)
  then show ?thesis
    by (intro grows_same move_supply [OF assms(1)])
      (auto simp: soft_delete_phase_documents_def Let_def elim!: attempt_InrE)
next
  case (do_confirm_type e actor k t r)
  then show ?thesis
    by (rule confirm_document_type_effect) (auto intro!: grows_same move_supply [OF assms(1)])
next
  case (do_review_revoke e actor k decision comment r)
  then show ?thesis
    by (rule review_revoke_request_effect)
      (auto intro!: grows_same move_supply [OF assms(1)] simp: soft_delete_document_def)
qed (rule unwritten, erule move_writes, simp)+

subsection \<open>References\<close>

lemma keys_mono:
  assumes "step db db'"
  shows "mp_id ` set (main_projects db) \<subseteq> mp_id ` set (main_projects db')"
    and "sp_id ` set (sub_projects db) \<subseteq> sp_id ` set (sub_projects db')"
  using grows_keys [OF main_keys [OF assms]] grows_keys [OF sub_keys [OF assms]] .

lemma unwritten_column:
  assumes "evolves W db db'"
  shows "Subs \<notin> W \<Longrightarrow> sub_projects db' = sub_projects db"
    and "Phases \<notin> W \<Longrightarrow> phases db' = phases db"
    and "Payments \<notin> W \<Longrightarrow> payments db' = payments db"
    and "Revokes \<notin> W \<Longrightarrow> revoke_requests db' = revoke_requests db"
  using assms by (simp_all add: evolves_iff writes_iff)

lemma sub_main_column:
  assumes "step db db'"
  shows "\<exists>new. map sp_main_project_id (sub_projects db') = map sp_main_project_id (sub_projects db) @ new \<and>
    set new \<subseteq> mp_id ` set (main_projects db)"
  using assms
proof (cases rule: step.cases)
  case (do_create_sub_project e actor payload r)
  from create_sub_project_effect [OF this] show ?thesis
    by (intro exI [of _ "[sp_main_project_id r]"]) (auto dest: main_rows.get_SomeD)
next
  case (do_update_sub_project actor k payload r)
  from update_sub_project_effect [OF this] show ?thesis
    by (auto simp: apply_sub_project_update_def map_update_rows)
next
  case (do_submit_sub_project e actor k r)
  from submit_sub_project_effect [OF this] show ?thesis by (auto simp: map_update_rows)
next
  case (do_review_sub_project e actor k payload r)
  from review_sub_project_effect [OF this] show ?thesis
    by (auto simp: map_update_rows split: if_splits)
next
  case (do_close_sub_project e actor k r)
  from close_sub_project_effect [OF this] show ?thesis
    by (auto simp: map_update_rows split: if_splits)
next
  case (do_terminate_sub_project e actor k reason r)
  from terminate_sub_project_effect [OF this] show ?thesis by (auto simp: map_update_rows)
next
  case (do_handover e actor k to_id reason expected r)
  from forget_manager_keys(2) [OF handover_forgets [OF this]] show ?thesis by simp
next
  case (do_promote e actor k r)
  obtain p q where "r = (p, q)" by (cases r)
  with do_promote promote_phase_effect [of e actor k db p q db'] show ?thesis
    by (auto simp: map_update_rows split: if_splits)
next
  case (do_create_payment e actor policy k payload fs r fs')
  then show ?thesis by (rule create_payment_effect) (simp add: map_update_rows)
next
  case (do_reverse_payment e actor sid k remark r)
  then show ?thesis by (rule reverse_payment_effect) (simp add: map_update_rows)
next
  case (do_review_handover e actor k decision comment r)
  from forget_manager_keys(2) [OF team_move_forgets [OF review_handover_moves [OF this]]] show ?thesis
    by simp
next
  case (do_force_handover e actor k r)
  from forget_manager_keys(2) [OF team_move_forgets [OF force_handover_moves [OF this]]] show ?thesis
    by simp
qed (rule exI [of _ "[]"], simp, rule arg_cong [where f = "map sp_main_project_id"],
    rule unwritten_column, erule move_writes, simp)+

definition phase_place :: "phase \<Rightarrow> uuid \<times> uuid" where
  "phase_place p = (ph_id p, ph_sub_project_id p)"

lemma phase_places:
  assumes "step db db'"
  shows "\<exists>new. map phase_place (phases db') = map phase_place (phases db) @ new \<and>
    snd ` set new \<subseteq> sp_id ` set (sub_projects db)"
  using assms
proof (cases rule: step.cases)
  case (do_review_sub_project e actor k payload r)
  from review_sub_project_effect [OF this] obtain s where s: "get_sub_project k db = Some s"
    "phases db' = phases db \<or> phases db' = phases db @
        new_phases e (sp_id s) (phase_specs s db) (next_uuid db)"
    by (auto split: if_splits)
  have "sp_id s \<in> sp_id ` set (sub_projects db)" using sub_rows.get_SomeD [OF s(1)] by blast
  then have "snd ` set (map phase_place (new_phases e (sp_id s) (phase_specs s db) (next_uuid db)))
      \<subseteq> sp_id ` set (sub_projects db)"
    using new_phases_ids [of e "sp_id s" "phase_specs s db" "next_uuid db"]
    by (auto simp: phase_place_def)
  with s(2) show ?thesis
  proof (elim disjE)
    assume "phases db' = phases db @ new_phases e (sp_id s) (phase_specs s db) (next_uuid db)"
    then show ?thesis
      using \<open>snd ` set (map phase_place _) \<subseteq> _\<close> by (metis map_append)
  qed simp
next
  case (do_update_procurement e actor k t r)
  from update_procurement_type_effect [OF this] show ?thesis
    by (auto simp: map_update_rows phase_place_def)
next
  case (do_promote e actor k r)
  obtain p q where "r = (p, q)" by (cases r)
  with do_promote promote_phase_effect [of e actor k db p q db'] have
    "map phase_place (phases db') = map phase_place (phases db)"
    by (auto simp: phase_place_def promoted_phases_def Let_def map_update_rows split: option.split)
  then show ?thesis by simp
next
  case (do_review_revoke e actor k decision comment r)
  then show ?thesis
    by (rule review_revoke_request_effect) (simp add: map_update_rows phase_place_def)
qed (rule exI [of _ "[]"], simp, rule arg_cong [where f = "map phase_place"], rule unwritten_column,
    erule move_writes, simp)+

text \<open>A payment belongs to a sub project, a revoke request to a phase of its sub project.\<close>

lemma payment_column:
  assumes "step db db'"
  shows "\<exists>new. map pay_sub_project_id (payments db') = map pay_sub_project_id (payments db) @ new \<and>
    set new \<subseteq> sp_id ` set (sub_projects db)"
  using assms
proof (cases rule: step.cases)
  case (do_create_payment e actor policy k payload fs r fs')
  then show ?thesis
  proof (rule create_payment_effect)
    fix amount uploads s main ph over
    assume "check_payment actor policy k payload db = Inr (amount, uploads, s, main, ph, over)"
    then have "sp_id s \<in> sp_id ` set (sub_projects db)"
      using check_payment_effect sub_rows.get_SomeD by blast
    moreover assume "r = new_payment e actor s amount (pc_payment_date payload)
      (clean_optional_text (pc_remark payload)) payment_type.normal None (next_uuid db) db"
    moreover assume "payments db' = payments db @ [r]"
    ultimately show ?thesis by (simp add: new_payment_def)
  qed
next
  case (do_reverse_payment e actor sid k remark r)
  then show ?thesis
  proof (rule reverse_payment_effect)
    fix s and main :: main_project and q cleaned
    assume "get_sub_project sid db = Some s"
    then have "sp_id s \<in> sp_id ` set (sub_projects db)" using sub_rows.get_SomeD by blast
    moreover assume "r = new_payment e actor s (- pay_amount q) (today e) (Some cleaned)
      payment_type.reversal (Some k) (next_uuid db) db"
    moreover assume "payments db' = payments db @ [r]"
    ultimately show ?thesis by (simp add: new_payment_def)
  qed
qed (rule exI [of _ "[]"], simp, rule arg_cong [where f = "map pay_sub_project_id"],
    rule unwritten_column, erule move_writes, simp)+

definition revoke_place :: "revoke_request \<Rightarrow> uuid \<times> uuid" where
  "revoke_place r = (rr_phase_id r, rr_sub_project_id r)"

lemma revoke_places:
  assumes "step db db'"
  shows "\<exists>new. map revoke_place (revoke_requests db') = map revoke_place (revoke_requests db) @ new \<and>
    set new \<subseteq> phase_place ` set (phases db)"
  using assms
proof (cases rule: step.cases)
  case (do_submit_revoke e actor k reason keep r)
  then show ?thesis
  proof (rule submit_revoke_request_effect)
    fix p assume "get_phase k db = Some p"
    then have "p \<in> set (phases db)" "ph_id p = k" using phase_rows.get_SomeD by blast+
    moreover assume "rr_phase_id r = k" "rr_sub_project_id r = ph_sub_project_id p"
      "revoke_requests db' = revoke_requests db @ [r]"
    ultimately show ?thesis by (auto simp: revoke_place_def phase_place_def)
  qed
next
  case (do_review_revoke e actor k decision comment r)
  then show ?thesis
    by (rule review_revoke_request_effect) (simp add: map_update_rows revoke_place_def)
qed (rule exI [of _ "[]"], simp, rule arg_cong [where f = "map revoke_place"], rule unwritten_column,
    erule move_writes, simp)+

subsection \<open>The invariant\<close>

definition integrity :: "database \<Rightarrow> bool" where
  "integrity db \<longleftrightarrow>
     fresh_ids mp_id (main_projects db) (next_uuid db) \<and>
     fresh_ids sp_id (sub_projects db) (next_uuid db) \<and>
     fresh_ids ph_id (phases db) (next_uuid db) \<and>
     fresh_ids pay_id (payments db) (next_uuid db) \<and>
     fresh_ids doc_id (documents db) (next_uuid db) \<and>
     fresh_ids wv_id (workflow_versions db) (next_uuid db) \<and>
     fresh_ids rr_id (revoke_requests db) (next_uuid db) \<and>
     sp_main_project_id ` set (sub_projects db) \<subseteq> mp_id ` set (main_projects db) \<and>
     ph_sub_project_id ` set (phases db) \<subseteq> sp_id ` set (sub_projects db) \<and>
     pay_sub_project_id ` set (payments db) \<subseteq> sp_id ` set (sub_projects db) \<and>
     revoke_place ` set (revoke_requests db) \<subseteq> phase_place ` set (phases db)"

lemma integrity_bounds:
  "integrity db \<Longrightarrow> s \<in> set (sub_projects db) \<Longrightarrow> sp_main_project_id s < next_uuid db"
  "integrity db \<Longrightarrow> p \<in> set (payments db) \<Longrightarrow> pay_sub_project_id p < next_uuid db"
  "integrity db \<Longrightarrow> q \<in> set (phases db) \<Longrightarrow> ph_sub_project_id q < next_uuid db"
proof -
  assume i: "integrity db"
  have mains: "k < next_uuid db" if "k \<in> mp_id ` set (main_projects db)" for k
    using i that by (auto simp: integrity_def fresh_ids_def)
  have subs: "k < next_uuid db" if "k \<in> sp_id ` set (sub_projects db)" for k
    using i that by (auto simp: integrity_def fresh_ids_def)
  have "sp_main_project_id ` set (sub_projects db) \<subseteq> mp_id ` set (main_projects db)"
    "pay_sub_project_id ` set (payments db) \<subseteq> sp_id ` set (sub_projects db)"
    "ph_sub_project_id ` set (phases db) \<subseteq> sp_id ` set (sub_projects db)"
    using i by (simp_all add: integrity_def)
  note refs = this [THEN subsetD, OF imageI]
  show "s \<in> set (sub_projects db) \<Longrightarrow> sp_main_project_id s < next_uuid db"
    by (rule mains) (rule refs(1))
  show "p \<in> set (payments db) \<Longrightarrow> pay_sub_project_id p < next_uuid db"
    by (rule subs) (rule refs(2))
  show "q \<in> set (phases db) \<Longrightarrow> ph_sub_project_id q < next_uuid db"
    by (rule subs) (rule refs(3))
qed

lemma column_refs:
  assumes "\<exists>new. map f rows' = map f rows @ new \<and> set new \<subseteq> K" and "f ` set rows \<subseteq> K"
    and "K \<subseteq> K'"
  shows "f ` set rows' \<subseteq> K'"
proof -
  from assms(1) obtain new where "map f rows' = map f rows @ new" "set new \<subseteq> K" by blast
  then have "f ` set rows' = f ` set rows \<union> set new" by (metis list.set_map set_append)
  with assms(2,3) \<open>set new \<subseteq> K\<close> show ?thesis by blast
qed

lemma integrity_move:
  assumes "integrity db" and "step db db'"
  shows "integrity db'"
proof -
  note old = assms(1) [unfolded integrity_def]
  note mono = keys_mono [OF assms(2)]
  have places: "phase_place ` set (phases db) \<subseteq> phase_place ` set (phases db')"
    using phase_places [OF assms(2)] by (metis Un_upper1 list.set_map set_append)
  have "\<exists>new. map ph_sub_project_id (phases db') = map ph_sub_project_id (phases db) @ new \<and>
      set new \<subseteq> sp_id ` set (sub_projects db)"
  proof -
    from phase_places [OF assms(2)] obtain new where
      new: "map phase_place (phases db') = map phase_place (phases db) @ new"
        "snd ` set new \<subseteq> sp_id ` set (sub_projects db)" by blast
    have "map ph_sub_project_id ps = map snd (map phase_place ps)" for ps
      by (simp add: phase_place_def)
    then have "map ph_sub_project_id (phases db') = map ph_sub_project_id (phases db) @ map snd new"
      by (metis map_append new(1))
    with new(2) show ?thesis by (intro exI [of _ "map snd new"]) simp
  qed
  note phase_column = this
  show ?thesis
    unfolding integrity_def
  proof (intro conjI)
    show "fresh_ids mp_id (main_projects db') (next_uuid db')"
      "fresh_ids sp_id (sub_projects db') (next_uuid db')"
      "fresh_ids ph_id (phases db') (next_uuid db')"
      "fresh_ids pay_id (payments db') (next_uuid db')"
      "fresh_ids doc_id (documents db') (next_uuid db')"
      "fresh_ids wv_id (workflow_versions db') (next_uuid db')"
      "fresh_ids rr_id (revoke_requests db') (next_uuid db')"
      using old
      by (simp_all add: grows_fresh [OF main_keys [OF assms(2)]] grows_fresh [OF sub_keys [OF assms(2)]]
          grows_fresh [OF phase_keys [OF assms(2)]] grows_fresh [OF payment_keys [OF assms(2)]]
          grows_fresh [OF document_keys [OF assms(2)]] grows_fresh [OF version_keys [OF assms(2)]]
          grows_fresh [OF revoke_keys [OF assms(2)]])
    show "sp_main_project_id ` set (sub_projects db') \<subseteq> mp_id ` set (main_projects db')"
      using old by (intro column_refs [OF sub_main_column [OF assms(2)] _ mono(1)]) simp
    show "ph_sub_project_id ` set (phases db') \<subseteq> sp_id ` set (sub_projects db')"
      using old by (intro column_refs [OF phase_column _ mono(2)]) simp
    show "pay_sub_project_id ` set (payments db') \<subseteq> sp_id ` set (sub_projects db')"
      using old by (intro column_refs [OF payment_column [OF assms(2)] _ mono(2)]) simp
    show "revoke_place ` set (revoke_requests db') \<subseteq> phase_place ` set (phases db')"
      using old by (intro column_refs [OF revoke_places [OF assms(2)] _ places]) simp
  qed
qed

interpretation integrity: invariant initial step "\<lambda>_. True" integrity
proof unfold_locales
  show "initial db \<Longrightarrow> integrity db" for db by (simp add: initial_def integrity_def)
  show "integrity db \<Longrightarrow> step db db' \<Longrightarrow> integrity db'" for db db' by (rule integrity_move)
qed simp

lemmas reachable_integrity = integrity.reachable_inv [folded reachable_def]

end
