(* ===== verification/Ledger.thy ===== *)
theory Ledger
  imports Integrity
begin

text \<open>
  The books: in every reachable database the spent amount of a sub project is the sum of its
  payments and the spent amount of a main project the sum over its sub projects, a payment
  is reversed at most once and by its exact amount, so that no spent amount is negative, and
  payment numbers are distinct.
\<close>

subsection \<open>The columns the books depend on\<close>

definition sub_row :: "sub_project \<Rightarrow> uuid \<times> uuid \<times> money" where
  "sub_row s = (sp_id s, sp_main_project_id s, sp_spent_amount s)"

definition main_row :: "main_project \<Rightarrow> uuid \<times> money" where
  "main_row m = (mp_id m, mp_spent_amount m)"

definition balanced :: "database \<Rightarrow> bool" where
  "balanced db \<longleftrightarrow>
     (\<forall>s \<in> set (sub_projects db). sp_spent_amount s = payment_total (sp_id s) db) \<and>
     (\<forall>m \<in> set (main_projects db). mp_spent_amount m = sub_spent_total (mp_id m) db)"

lemma payment_total_append:
  "payments db' = payments db @ [p] \<Longrightarrow>
     payment_total sid db' = payment_total sid db + (if pay_sub_project_id p = sid then pay_amount p else 0)"
  by (simp add: payment_total_def)

lemma payment_total_cong: "payments db' = payments db \<Longrightarrow> payment_total sid db' = payment_total sid db"
  by (simp add: payment_total_def)

lemma sub_spent_total_rows:
  "sub_spent_total k db =
     sum_list (map (\<lambda>(_, _, a). a) (filter (\<lambda>(_, m, _). m = k) (map sub_row (sub_projects db))))"
  by (simp add: sub_spent_total_def sub_row_def filter_map comp_def)

lemma sub_spent_total_cong:
  "map sub_row (sub_projects db') = map sub_row (sub_projects db) \<Longrightarrow>
     sub_spent_total k db' = sub_spent_total k db"
  by (simp only: sub_spent_total_rows)

lemma balanced_rows:
  "balanced db \<longleftrightarrow>
     (\<forall>(i, _, a) \<in> set (map sub_row (sub_projects db)). a = payment_total i db) \<and>
     (\<forall>(i, a) \<in> set (map main_row (main_projects db)). a = sub_spent_total i db)"
  by (simp add: balanced_def sub_row_def main_row_def)

lemma balanced_cong:
  assumes "map sub_row (sub_projects db') = map sub_row (sub_projects db)"
    and "map main_row (main_projects db') = map main_row (main_projects db)"
    and "payments db' = payments db"
  shows "balanced db' = balanced db"
  unfolding balanced_rows assms(1,2) using payment_total_cong [OF assms(3)] sub_spent_total_cong [OF assms(1)]
  by simp

lemma unwritten_books:
  assumes "evolves W db db'" and "Subs \<notin> W" "Mains \<notin> W" "Payments \<notin> W"
  shows "balanced db' = balanced db"
  using assms by (intro balanced_cong) (simp_all add: evolves_iff writes_iff)

text \<open>A move that writes sub projects, but neither their keys nor their amounts.\<close>

lemma sub_rows_same:
  assumes "map sub_row (sub_projects db') = map sub_row (sub_projects db)"
    and "evolves W db db'" and "Mains \<notin> W" "Payments \<notin> W"
  shows "balanced db' = balanced db"
  using assms by (intro balanced_cong) (simp_all add: evolves_iff writes_iff)

lemma main_rows_same:
  assumes "map main_row (main_projects db') = map main_row (main_projects db)"
    and "evolves W db db'" and "Subs \<notin> W" "Payments \<notin> W"
  shows "balanced db' = balanced db"
  using assms by (intro balanced_cong) (simp_all add: evolves_iff writes_iff)

lemma forget_manager_sub_row:
  "map forget_manager rows' = map forget_manager rows \<Longrightarrow> map sub_row rows' = map sub_row rows"
proof -
  assume same: "map forget_manager rows' = map forget_manager rows"
  have "map sub_row xs = map sub_row (map forget_manager xs)" for xs
    by (simp add: sub_row_def forget_manager_def)
  with same show ?thesis by metis
qed

subsection \<open>Payments and reversals\<close>

lemma sum_list_zero: "(\<And>x. x \<in> set xs \<Longrightarrow> f x = (0 :: int)) \<Longrightarrow> sum_list (map f xs) = 0"
  by (induction xs) auto

text \<open>
  Recording a payment of one sub project and recomputing the two spent columns keeps the
  books, whatever the payment is.
\<close>

lemma recorded_payment_balanced:
  assumes books: "balanced db" and ids: "integrity db"
    and s: "get_sub_project sid db = Some s"
    and main: "get_main_project (sp_main_project_id s) db = Some main"
    and pays: "payments db' = payments db @ [p]" "pay_sub_project_id p = sid"
    and subs: "sub_projects db' = update_rows sp_id sid (\<lambda>r. r\<lparr>sp_spent_amount :=
      payment_total sid db', sp_updated_at := t\<rparr>) (sub_projects db)"
    and mains: "main_projects db' = update_rows mp_id (mp_id main) (\<lambda>r. r\<lparr>mp_spent_amount :=
      sub_spent_total (mp_id main) db', mp_updated_at := t\<rparr>) (main_projects db)"
  shows "balanced db'"
  unfolding balanced_def
proof (intro conjI ballI)
  fix q assume "q \<in> set (sub_projects db')"
  then obtain q0 where q0: "q0 \<in> set (sub_projects db)"
    "q = (if sp_id q0 = sid then q0\<lparr>sp_spent_amount := payment_total sid db', sp_updated_at := t\<rparr> else q0)"
    unfolding subs set_update_rows by blast
  then show "sp_spent_amount q = payment_total (sp_id q) db'"
    using books payment_total_append [OF pays(1)] pays(2)
    by (auto simp: balanced_def)
next
  fix m assume "m \<in> set (main_projects db')"
  then obtain m0 where m0: "m0 \<in> set (main_projects db)"
    "m = (if mp_id m0 = mp_id main then m0\<lparr>mp_spent_amount := sub_spent_total (mp_id main) db',
      mp_updated_at := t\<rparr> else m0)"
    unfolding mains set_update_rows by blast
  show "mp_spent_amount m = sub_spent_total (mp_id m) db'"
  proof (cases "mp_id m0 = mp_id main")
    case True
    then show ?thesis using m0 by simp
  next
    case False
    have main_id: "mp_id main = sp_main_project_id s" using main main_rows.get_SomeD by blast
    have "distinct (map sp_id (sub_projects db))"
      using ids by (simp add: integrity_def fresh_ids_def)
    then have only: "q = s" if "q \<in> set (sub_projects db)" "sp_id q = sid" for q
      using that s sub_rows.get_SomeD [OF s] distinct_key_eqD by metis
    have "filter (\<lambda>q. sp_main_project_id q = mp_id m0) (sub_projects db') =
        filter (\<lambda>q. sp_main_project_id q = mp_id m0) (sub_projects db)"
      unfolding subs update_rows_def filter_map
    proof (rule trans [OF map_idI])
      fix q assume "q \<in> set (filter ((\<lambda>q. sp_main_project_id q = mp_id m0) \<circ>
        (\<lambda>r. if sp_id r = sid then r\<lparr>sp_spent_amount := payment_total sid db', sp_updated_at := t\<rparr> else r))
        (sub_projects db))"
      then have "q \<in> set (sub_projects db)" "sp_main_project_id q = mp_id m0" by (auto split: if_splits)
      then have "sp_id q \<noteq> sid" using only False main_id by auto
      then show "(if sp_id q = sid then q\<lparr>sp_spent_amount := payment_total sid db', sp_updated_at := t\<rparr>
        else q) = q" by simp
    next
      show "filter ((\<lambda>q. sp_main_project_id q = mp_id m0) \<circ>
        (\<lambda>r. if sp_id r = sid then r\<lparr>sp_spent_amount := payment_total sid db', sp_updated_at := t\<rparr> else r))
        (sub_projects db) = filter (\<lambda>q. sp_main_project_id q = mp_id m0) (sub_projects db)"
        by (rule filter_cong) auto
    qed
    then have "sub_spent_total (mp_id m0) db' = sub_spent_total (mp_id m0) db"
      by (simp add: sub_spent_total_def)
    then show ?thesis using m0 False books by (simp add: balanced_def)
  qed
qed

lemma balanced_move:
  assumes "integrity db" and "balanced db" and "step db db'"
  shows "balanced db'"
  using assms(3)
proof (cases rule: step.cases)
  case (do_create_project e actor payload r)
  from create_project_effect [OF this] have r: "main_projects db' = main_projects db @ [r]"
    "mp_id r = next_uuid db" "mp_spent_amount r = 0" by simp_all
  have same: "sub_projects db' = sub_projects db" "payments db' = payments db"
    using move_writes(1) [OF do_create_project] by (simp_all add: evolves_iff writes_iff)
  have "sp_main_project_id s < next_uuid db" if "s \<in> set (sub_projects db)" for s
    using assms(1) that by (rule integrity_bounds(1))
  then have "sub_spent_total (next_uuid db) db = 0"
    unfolding sub_spent_total_def by (intro sum_list_zero) fastforce
  with r same assms(2) show ?thesis
    by (auto simp: balanced_def payment_total_def sub_spent_total_def)
next
  case (do_update_project actor k payload r)
  from update_project_effect [OF this]
  have "map main_row (main_projects db') = map main_row (main_projects db)"
    by (auto simp: map_update_rows main_row_def apply_project_update_def)
  with assms(2) main_rows_same move_writes(2) [OF do_update_project] show ?thesis by blast
next
  case (do_submit_project e actor k r)
  from submit_project_effect [OF this]
  have "map main_row (main_projects db') = map main_row (main_projects db)"
    by (auto simp: map_update_rows main_row_def)
  with assms(2) main_rows_same move_writes(3) [OF do_submit_project] show ?thesis by blast
next
  case (do_review_project e actor k payload r)
  from review_project_effect [OF this] obtain p where p: "get_main_project k db = Some p"
    "main_projects db' = update_rows mp_id k (\<lambda>_. r) (main_projects db)" "mp_id r = mp_id p"
    "mp_spent_amount r = mp_spent_amount p" by blast
  have "distinct (map mp_id (main_projects db))"
    using assms(1) by (simp add: integrity_def fresh_ids_def)
  then have "map main_row (main_projects db') = map main_row (main_projects db)"
    unfolding p(2) using p(1,3,4)
    by (intro map_replace_row [of _ _ _ p]) (simp_all add: main_row_def get_main_project_def)
  with assms(2) main_rows_same move_writes(4) [OF do_review_project] show ?thesis by blast
next
  case (do_close_project e actor k r)
  from close_project_effect [OF this]
  have "map main_row (main_projects db') = map main_row (main_projects db)"
    by (auto simp: map_update_rows main_row_def split: if_splits)
  with assms(2) main_rows_same move_writes(5) [OF do_close_project] show ?thesis by blast
next
  case (do_create_sub_project e actor payload r)
  from create_sub_project_effect [OF this] have r: "sub_projects db' = sub_projects db @ [r]"
    "sp_id r = next_uuid db" "sp_spent_amount r = 0" by auto
  have same: "main_projects db' = main_projects db" "payments db' = payments db"
    using move_writes(6) [OF do_create_sub_project] by (simp_all add: evolves_iff writes_iff)
  have "pay_sub_project_id p < next_uuid db" if "p \<in> set (payments db)" for p
    using assms(1) that by (rule integrity_bounds(2))
  then have "payment_total (next_uuid db) db = 0"
    unfolding payment_total_def by (intro sum_list_zero) fastforce
  with r same assms(2) show ?thesis
    by (auto simp: balanced_def payment_total_def sub_spent_total_def)
next
  case (do_update_sub_project actor k payload r)
  from update_sub_project_effect [OF this]
  have "map sub_row (sub_projects db') = map sub_row (sub_projects db)"
    by (auto simp: map_update_rows sub_row_def apply_sub_project_update_def)
  with assms(2) sub_rows_same move_writes(7) [OF do_update_sub_project] show ?thesis by blast
next
  case (do_submit_sub_project e actor k r)
  from submit_sub_project_effect [OF this]
  have "map sub_row (sub_projects db') = map sub_row (sub_projects db)"
    by (auto simp: map_update_rows sub_row_def)
  with assms(2) sub_rows_same move_writes(8) [OF do_submit_sub_project] show ?thesis by blast
next
  case (do_review_sub_project e actor k payload r)
  from review_sub_project_effect [OF this]
  have "map sub_row (sub_projects db') = map sub_row (sub_projects db)"
    "map main_row (main_projects db') = map main_row (main_projects db)"
    by (auto simp: map_update_rows sub_row_def main_row_def split: if_splits)
  moreover have "payments db' = payments db"
    using move_writes(9) [OF do_review_sub_project] by (simp add: evolves_iff writes_iff)
  ultimately show ?thesis using balanced_cong assms(2) by blast
next
  case (do_close_sub_project e actor k r)
  from close_sub_project_effect [OF this]
  have "map sub_row (sub_projects db') = map sub_row (sub_projects db)"
    by (auto simp: map_update_rows sub_row_def split: if_splits)
  with assms(2) sub_rows_same move_writes(10) [OF do_close_sub_project] show ?thesis by blast
next
  case (do_terminate_sub_project e actor k reason r)
  from terminate_sub_project_effect [OF this]
  have "map sub_row (sub_projects db') = map sub_row (sub_projects db)"
    by (auto simp: map_update_rows sub_row_def)
  with assms(2) sub_rows_same move_writes(11) [OF do_terminate_sub_project] show ?thesis by blast
next
  case (do_handover e actor k to_id reason expected r)
  from forget_manager_sub_row [OF handover_forgets [OF this]] move_writes(14) [OF this] assms(2)
  show ?thesis using sub_rows_same by blast
next
  case (do_promote e actor k r)
  obtain p q where "r = (p, q)" by (cases r)
  with do_promote promote_phase_effect [of e actor k db p q db']
  have "map sub_row (sub_projects db') = map sub_row (sub_projects db)"
    by (auto simp: map_update_rows sub_row_def split: if_splits)
  with assms(2) sub_rows_same promote_phase_writes [THEN yieldsD, OF do_promote] show ?thesis by blast
next
  case (do_create_payment e actor policy k payload fs r fs')
  then show ?thesis
  proof (rule create_payment_effect)
    fix amount uploads s main ph over
    assume chk: "check_payment actor policy k payload db = Inr (amount, uploads, s, main, ph, over)"
      and r: "r = new_payment e actor s amount (pc_payment_date payload)
        (clean_optional_text (pc_remark payload)) payment_type.normal None (next_uuid db) db"
      and pays: "payments db' = payments db @ [r]"
      and subs: "sub_projects db' = update_rows sp_id k (\<lambda>r. r\<lparr>sp_spent_amount := payment_total k db',
        sp_updated_at := clock e\<rparr>) (sub_projects db)"
      and mains: "main_projects db' = update_rows mp_id (mp_id main) (\<lambda>r. r\<lparr>mp_spent_amount :=
        sub_spent_total (mp_id main) db', mp_updated_at := clock e\<rparr>) (main_projects db)"
    from check_payment_effect [OF chk] have s: "get_sub_project k db = Some s"
      "get_main_project (sp_main_project_id s) db = Some main" by simp_all
    have "pay_sub_project_id r = k"
      using r sub_rows.get_SomeD [OF s(1)] by (simp add: new_payment_def)
    from recorded_payment_balanced [OF assms(2,1) s pays this subs mains] show ?thesis .
  qed
next
  case (do_reverse_payment e actor sid k remark r)
  then show ?thesis
  proof (rule reverse_payment_effect)
    fix s main q cleaned
    assume s: "get_sub_project sid db = Some s"
        "get_main_project (sp_main_project_id s) db = Some main"
      and r: "r = new_payment e actor s (- pay_amount q) (today e) (Some cleaned)
        payment_type.reversal (Some k) (next_uuid db) db"
      and pays: "payments db' = payments db @ [r]"
      and subs: "sub_projects db' = update_rows sp_id sid (\<lambda>r. r\<lparr>sp_spent_amount :=
        payment_total sid db', sp_updated_at := clock e\<rparr>) (sub_projects db)"
      and mains: "main_projects db' = update_rows mp_id (mp_id main) (\<lambda>r. r\<lparr>mp_spent_amount :=
        sub_spent_total (mp_id main) db', mp_updated_at := clock e\<rparr>) (main_projects db)"
    have "pay_sub_project_id r = sid"
      using r sub_rows.get_SomeD [OF s(1)] by (simp add: new_payment_def)
    from recorded_payment_balanced [OF assms(2,1) s pays this subs mains] show ?thesis .
  qed
next
  case (do_review_handover e actor k decision comment r)
  from forget_manager_sub_row [OF team_move_forgets [OF review_handover_moves [OF this]]]
    review_handover_request_writes [THEN yieldsD, OF this] assms(2)
  show ?thesis using sub_rows_same by blast
next
  case (do_force_handover e actor k r)
  from forget_manager_sub_row [OF team_move_forgets [OF force_handover_moves [OF this]]]
    force_handover_request_writes [THEN yieldsD, OF this] assms(2)
  show ?thesis using sub_rows_same by blast
next
  case (do_import_projects w actor departments content r)
  from import_projects_effect [OF this] have
    rows: "main_projects db' = main_projects db @ ir_created_projects r"
    and ids: "map mp_id (ir_created_projects r) =
      [next_uuid db ..< next_uuid db + length (ir_created_projects r)]"
    and unspent: "\<And>p. p \<in> set (ir_created_projects r) \<Longrightarrow> mp_spent_amount p = 0"
    by (elim conjE, simp)+
  have same: "sub_projects db' = sub_projects db" "payments db' = payments db"
    using import_projects_evolves [OF do_import_projects] by (simp_all add: evolves_iff writes_iff)
  have "sub_spent_total (mp_id p) db = 0" if "p \<in> set (ir_created_projects r)" for p
  proof -
    have "mp_id p \<in> set (map mp_id (ir_created_projects r))" using that by simp
    then have "next_uuid db \<le> mp_id p" unfolding ids by simp
    then show ?thesis
      unfolding sub_spent_total_def using integrity_bounds(1) [OF assms(1)]
      by (intro sum_list_zero) fastforce
  qed
  with rows same unspent assms(2) show ?thesis
    by (auto simp: balanced_def payment_total_def sub_spent_total_def)
qed (rule unwritten_books [THEN iffD2, OF _ _ _ _ assms(2)], erule move_writes, simp, simp, simp)+

interpretation books: invariant initial step integrity balanced
proof unfold_locales
  show "reaches initial step db \<Longrightarrow> integrity db" for db by (rule integrity.reachable_inv)
  show "initial db \<Longrightarrow> balanced db" for db by (simp add: initial_def balanced_def)
  show "integrity db \<Longrightarrow> balanced db \<Longrightarrow> step db db' \<Longrightarrow> balanced db'" for db db'
    by (rule balanced_move)
qed

subsection \<open>Reversals\<close>

definition reverses_exactly :: "payment \<Rightarrow> payment \<Rightarrow> bool" where
  "reverses_exactly p q \<longleftrightarrow> pay_reverses_payment_id p = Some (pay_id q) \<and>
     pay_payment_type q = payment_type.normal \<and> pay_sub_project_id q = pay_sub_project_id p \<and>
     pay_amount p = - pay_amount q"

definition reversals_ok :: "payment list \<Rightarrow> bool" where
  "reversals_ok ps \<longleftrightarrow>
     (\<forall>p \<in> set ps. pay_payment_type p = payment_type.normal \<longrightarrow> 0 < pay_amount p) \<and>
     (\<forall>p \<in> set ps. pay_payment_type p = payment_type.reversal \<longrightarrow> (\<exists>q \<in> set ps. reverses_exactly p q)) \<and>
     (\<forall>p \<in> set ps. \<forall>q \<in> set ps. pay_payment_type p = payment_type.reversal \<longrightarrow>
        pay_payment_type q = payment_type.reversal \<longrightarrow>
        pay_reverses_payment_id p = pay_reverses_payment_id q \<longrightarrow> p = q)"

lemma reversals_append_normal:
  "reversals_ok ps \<Longrightarrow> pay_payment_type p = payment_type.normal \<Longrightarrow> 0 < pay_amount p \<Longrightarrow>
     reversals_ok (ps @ [p])"
  unfolding reversals_ok_def by (simp add: ball_Un)

lemma reversals_append_reversal:
  assumes "reversals_ok ps" and "q \<in> set ps" "reverses_exactly p q"
    and "pay_payment_type p = payment_type.reversal"
    and "\<forall>r \<in> set ps. pay_payment_type r = payment_type.reversal \<longrightarrow>
      pay_reverses_payment_id r \<noteq> pay_reverses_payment_id p"
  shows "reversals_ok (ps @ [p])"
  using assms unfolding reversals_ok_def by (simp add: ball_Un) metis

lemma reversals_move:
  assumes "reversals_ok (payments db)" and "step db db'"
  shows "reversals_ok (payments db')"
  using assms(2)
proof (cases rule: step.cases)
  case (do_create_payment e actor policy k payload fs r fs')
  then show ?thesis
  proof (rule create_payment_effect)
    fix amount uploads s main ph over
    assume chk: "check_payment actor policy k payload db = Inr (amount, uploads, s, main, ph, over)"
      and r: "r = new_payment e actor s amount (pc_payment_date payload)
        (clean_optional_text (pc_remark payload)) payment_type.normal None (next_uuid db) db"
      and pays: "payments db' = payments db @ [r]"
    from check_payment_effect [OF chk] have "0 < amount" by simp
    then show ?thesis
      unfolding pays by (intro reversals_append_normal assms(1)) (simp_all add: r new_payment_def)
  qed
next
  case (do_reverse_payment e actor sid k remark r)
  then show ?thesis
  proof (rule reverse_payment_effect)
    fix s and main :: main_project and q cleaned
    assume s: "get_sub_project sid db = Some s" and q: "get_payment_row k db = Some q"
        "pay_sub_project_id q = sid" "pay_payment_type q \<noteq> payment_type.reversal"
        "get_reversal_for_payment k db = None"
      and r: "r = new_payment e actor s (- pay_amount q) (today e) (Some cleaned)
        payment_type.reversal (Some k) (next_uuid db) db"
      and pays: "payments db' = payments db @ [r]"
    have row: "q \<in> set (payments db)" "pay_id q = k"
      using find_row_SomeD q(1) unfolding get_payment_row_def by fast+
    have sid: "sp_id s = sid" using sub_rows.get_SomeD [OF s] by simp
    have normal: "pay_payment_type q = payment_type.normal"
      using q(3) by (cases "pay_payment_type q") auto
    show ?thesis
      unfolding pays
    proof (rule reversals_append_reversal [OF assms(1) row(1)])
      show "reverses_exactly r q"
        using row normal q(2) by (simp add: reverses_exactly_def r new_payment_def sid)
      show "\<forall>p \<in> set (payments db). pay_payment_type p = payment_type.reversal \<longrightarrow>
          pay_reverses_payment_id p \<noteq> pay_reverses_payment_id r"
        using q(4) by (auto simp: get_reversal_for_payment_def find_None_iff r new_payment_def)
    qed (simp add: r new_payment_def)
  qed
qed (rule ssubst [of "payments db'" "payments db" reversals_ok], rule unwritten_column,
    erule move_writes, simp, rule assms(1))+

interpretation reversals: invariant initial step "\<lambda>_. True" "\<lambda>db. reversals_ok (payments db)"
proof unfold_locales
  show "initial db \<Longrightarrow> reversals_ok (payments db)" for db by (simp add: initial_def reversals_ok_def)
  show "reversals_ok (payments db) \<Longrightarrow> step db db' \<Longrightarrow> reversals_ok (payments db')" for db db'
    by (rule reversals_move)
qed simp

text \<open>No spent amount is negative: every reversal takes back one normal payment, once.\<close>

lemma payment_total_nonneg:
  assumes ok: "reversals_ok (payments db)" and ids: "fresh_ids pay_id (payments db) n"
  shows "0 \<le> payment_total sid db"
proof -
  let ?ps = "{p \<in> set (payments db). pay_sub_project_id p = sid}"
  let ?N = "{p \<in> ?ps. pay_payment_type p = payment_type.normal}"
  let ?R = "{p \<in> ?ps. pay_payment_type p = payment_type.reversal}"
  have dist: "distinct (payments db)" using ids by (simp add: fresh_ids_def distinct_map)
  have "\<forall>p \<in> ?R. \<exists>q. q \<in> ?N \<and> reverses_exactly p q"
  proof
    fix p assume p: "p \<in> ?R"
    with ok obtain q where q: "q \<in> set (payments db)" "reverses_exactly p q"
      unfolding reversals_ok_def by blast
    with p have "q \<in> ?N" by (simp add: reverses_exactly_def)
    with q(2) show "\<exists>q. q \<in> ?N \<and> reverses_exactly p q" by blast
  qed
  from bchoice [OF this] obtain orig where
    all: "\<forall>p \<in> ?R. orig p \<in> ?N \<and> reverses_exactly p (orig p)" ..
  note orig = bspec [OF all]
  have inj: "inj_on orig ?R"
  proof (rule inj_onI)
    fix p q assume p: "p \<in> ?R" and q: "q \<in> ?R" and "orig p = orig q"
    with orig [OF p] orig [OF q] have "pay_reverses_payment_id p = pay_reverses_payment_id q"
      by (simp add: reverses_exactly_def)
    with p q ok show "p = q" unfolding reversals_ok_def by blast
  qed
  have "payment_total sid db = sum pay_amount ?ps"
    unfolding payment_total_def using dist by (simp add: sum_list_distinct_conv_sum_set)
  also have "?ps = ?N \<union> ?R" by (auto intro: payment_type.exhaust)
  also have "sum pay_amount (?N \<union> ?R) = sum pay_amount ?N + sum pay_amount ?R"
    by (rule sum.union_disjoint) auto
  also have "sum pay_amount ?R = - sum pay_amount (orig ` ?R)"
  proof -
    have "sum pay_amount (orig ` ?R) = sum (\<lambda>p. pay_amount (orig p)) ?R"
      using inj by (simp add: sum.reindex)
    also have "\<dots> = sum (\<lambda>p. - pay_amount p) ?R"
      by (rule sum.cong) (use orig in \<open>auto simp: reverses_exactly_def\<close>)
    finally show ?thesis by (simp add: sum_negf)
  qed
  finally have total: "payment_total sid db = sum pay_amount ?N - sum pay_amount (orig ` ?R)" by simp
  have "sum pay_amount (orig ` ?R) \<le> sum pay_amount ?N"
    using orig ok by (intro sum_mono2) (auto simp: reversals_ok_def intro: less_imp_le)
  with total show ?thesis by simp
qed

subsection \<open>Payment numbers\<close>

definition payment_nos :: "uuid \<Rightarrow> database \<Rightarrow> string list" where
  "payment_nos sid db = map pay_payment_no (filter (\<lambda>p. pay_sub_project_id p = sid) (payments db))"

definition payment_nos_distinct :: "database \<Rightarrow> bool" where
  "payment_nos_distinct db \<longleftrightarrow> (\<forall>sid. distinct (payment_nos sid db))"

lemma payment_nos_recorded:
  assumes "payment_nos_distinct db" and "payments db' = payments db @ [p]"
    and "pay_payment_no p = payment_number base (next_payment_sequence (pay_sub_project_id p) db)"
  shows "payment_nos_distinct db'"
  unfolding payment_nos_distinct_def
proof
  fix sid
  show "distinct (payment_nos sid db')"
    using assms payment_numbers.distinct_issue [of "payment_nos sid db" base]
    by (auto simp: payment_nos_distinct_def payment_nos_def next_payment_sequence_def)
qed

lemma payment_nos_move:
  assumes "payment_nos_distinct db" and "step db db'"
  shows "payment_nos_distinct db'"
  using assms(2)
proof (cases rule: step.cases)
  case (do_create_payment e actor policy k payload fs r fs')
  then show ?thesis
    by (rule create_payment_effect)
      (rule payment_nos_recorded [OF assms(1)], assumption, simp add: new_payment_def)
next
  case (do_reverse_payment e actor sid k remark r)
  then show ?thesis
    by (rule reverse_payment_effect)
      (rule payment_nos_recorded [OF assms(1)], assumption, simp add: new_payment_def)
next
qed (insert assms(1), unfold payment_nos_distinct_def payment_nos_def,
    (subst unwritten_column(3), erule move_writes, simp, assumption)+)

interpretation payment_register: invariant initial step "\<lambda>_. True" payment_nos_distinct
proof unfold_locales
  show "initial db \<Longrightarrow> payment_nos_distinct db" for db
    by (simp add: initial_def payment_nos_distinct_def payment_nos_def)
  show "payment_nos_distinct db \<Longrightarrow> step db db' \<Longrightarrow> payment_nos_distinct db'" for db db'
    by (rule payment_nos_move)
qed simp

end
