(* ===== verification/Scenario.thy ===== *)
theory Scenario
  imports Ledger
begin

text \<open>
  A run of the system on concrete data: two projects are created and approved, payments are
  made and reversed, a task is created, goes overdue and is completed, a document is uploaded
  twice and deleted, a phase is promoted and revoked, and the manager of the sub project changes
  twice.  Each state is written out (\<open>world1\<close>, \<open>world2\<close>, \<dots>), each lemma
  \<open>run<k>\<close> evaluates one call of the services on it, and \<open>reach<k>\<close> states that the
  state is reachable.  The witnesses of the properties are taken from here.
\<close>

definition demo_env :: env where
  "demo_env = \<lparr> clock = 1000, today = Date 2026 3 2, business_date = Date 2026 3 2,
     notifier = False, channels = [], auditing = False, audit_ctx = None \<rparr>"

definition staff :: "uuid \<Rightarrow> user_role \<Rightarrow> user" where
  "staff i r = \<lparr> u_id = i, u_username = ''user'', u_role = r, u_dept_id = Some 10,
     u_status = user_status.active, u_timezone = ''UTC'' \<rparr>"

definition the_admin :: user where "the_admin = staff 0 user_role.admin"
definition the_manager :: user where "the_manager = staff 1 user_role.dept_manager"
definition the_leader :: user where "the_leader = staff 2 user_role.proj_leader"
definition the_cashier :: user where "the_cashier = staff 3 user_role.finance_manager"
definition the_worker :: user where "the_worker = staff 4 user_role.proj_member"
definition the_deputy :: user where "the_deputy = staff 5 user_role.proj_leader"

definition later_env :: env where
  "later_env = demo_env\<lparr>clock := 700000000000, today := Date 2026 3 20,
     business_date := Date 2026 3 20\<rparr>"

definition demo_start :: database where
  "demo_start = \<lparr> users = [the_admin, the_manager, the_leader, the_cashier, the_worker,
     the_deputy],
     project_types = [], workflow_templates = [], workflow_versions = [], main_projects = [],
     sub_projects = [], members = [], handovers = [], reviews = [], phases = [],
     phase_doc_templates = [], histories = [], documents = [], acceptance_steps = [],
     payments = [], payment_vouchers = [], revoke_requests = [], handover_requests = [],
     request_projects = [], tasks = [], executors = [], notifications = [],
     preferences = (\<lambda>_. None), outbox = [], audit_log = [], main_sequence = 1,
     sub_sequences = (\<lambda>_. None), next_uuid = 100 \<rparr>"

definition demo_policy :: upload_policy where
  "demo_policy = \<lparr> max_file_size = 1000, zip_reader = (\<lambda>_. None) \<rparr>"

definition demo_voucher :: voucher_upload where
  "demo_voucher = \<lparr> vu_file_name = ''invoice.pdf'',
     vu_content_type = Some ''application/pdf'',
     vu_content = ''%PDF-1.7'' \<rparr>"

definition demo_payment :: "int \<Rightarrow> string option \<Rightarrow> payment_create" where
  "demo_payment amount reason = \<lparr> pc_amount = Dec amount (-2),
     pc_payment_date = Date 2026 3 1,
     pc_voucher_files = [demo_voucher], pc_remark = None,
     pc_confirm_over_budget = (reason \<noteq> None), pc_over_budget_reason = reason \<rparr>"

definition demo_upload :: document_upload where
  "demo_upload = \<lparr> du_phase_id = 104, du_doc_type = ''contract'',
     du_file_name = ''contract.pdf'',
     du_display_name = None, du_content_type = Some ''application/pdf'',
        du_content = ''%PDF-1.7'',
     du_acceptance_step_id = None \<rparr>"

definition demo_phases :: "phase_definition list" where
  "demo_phases = [\<lparr> pd_key = ''plan'', pd_name = ''Plan'', pd_order = 1,
     pd_required_documents = [] \<rparr>]"

definition empty_store :: file_store where
  "empty_store = \<lparr> stored_files = (\<lambda>_. None), next_file_uuid = 7 \<rparr>"

definition saved_store :: "string \<Rightarrow> file_store" where
  "saved_store key = \<lparr> stored_files = [key \<mapsto> ''%PDF-1.7''],
     next_file_uuid = 8 \<rparr>"


lemma demo_numbers:
  "format_project_no demo_env 1 = ''Z-2026-0001''" "format_padded 3 1 = ''001''"
  "format_padded 3 2 = ''002''"
  by code_simp+

lemma demo_payment_numbers:
  "next_sequence_from_payment_numbers [] = 1"
  "next_sequence_from_payment_numbers [''Z-2026-0001-ZX-001-PAY-001''] = 2"
  "next_sequence_from_payment_numbers [''Z-2026-0001-ZX-001-PAY-001'',
     ''Z-2026-0001-ZX-001-PAY-002''] = 3"
  "payment_number ''Z-2026-0001-ZX-001'' 1 = ''Z-2026-0001-ZX-001-PAY-001''"
  "payment_number ''Z-2026-0001-ZX-001'' 2 = ''Z-2026-0001-ZX-001-PAY-002''"
  "payment_number ''Z-2026-0001-ZX-001'' 3 = ''Z-2026-0001-ZX-001-PAY-003''"
  "clean_amount (Dec 1200 (-2)) = Inr 1200" "clean_amount (Dec 4500 (-2)) = Inr 4500"
  "requantize 1200 = Inr 1200" "requantize 5700 = Inr 5700" "requantize 4500 = Inr 4500" "requantize 0 = Inr 0"
  by code_simp+

lemma demo_checks:
  "vu_file_name demo_voucher = ''invoice.pdf''" "vu_content demo_voucher = ''%PDF-1.7''"
  "clean_voucher_uploads demo_policy [demo_voucher] = Inr [demo_voucher]"
  "clean_file_name ''contract.pdf'' = Inr ''contract.pdf''"
  "validate_file (\<lambda>_. None) ''contract.pdf'' (Some ''application/pdf'') ''%PDF-1.7'' = Inr ()"
  "clean_doc_type ''contract'' = Inr ''contract''"
  "clean_display_name None ''contract.pdf'' = ''contract.pdf''"
  "clean_optional_text None = None"
  "clean_revoke_reason ''wrong file'' = Inr ''wrong file''"
  "days_between (Date 2026 3 20) (Date 2026 3 10) = 10" "Date 2026 3 10 < Date 2026 3 20"
  "max_file_size demo_policy = 1000"
  "clean_optional_text (Some ''price'') = Some ''price''"
  "clean_optional_text (Some ''wrong'') = Some ''wrong''"
  by code_simp+

lemma demo_storage:
  "build_storage_key (str_uuid 102) (str_uuid 104) 7 ''pdf'' =
     ''00000000-0000-0000-0000-000000000066/00000000-0000-0000-0000-000000000068/00000000-0000-0000-0000-000000000007.pdf''"
  "build_storage_key (str_uuid 102) (str_uuid 108) 7 ''pdf'' =
     ''00000000-0000-0000-0000-000000000066/00000000-0000-0000-0000-00000000006c/00000000-0000-0000-0000-000000000007.pdf''"
  "safe_key ''00000000-0000-0000-0000-000000000066/00000000-0000-0000-0000-000000000068/00000000-0000-0000-0000-000000000007.pdf'' = Inr
     [''00000000-0000-0000-0000-000000000066'', ''00000000-0000-0000-0000-000000000068'',
        ''00000000-0000-0000-0000-000000000007.pdf'']"
  "safe_key ''00000000-0000-0000-0000-000000000066/00000000-0000-0000-0000-00000000006c/00000000-0000-0000-0000-000000000007.pdf'' = Inr
     [''00000000-0000-0000-0000-000000000066'', ''00000000-0000-0000-0000-00000000006c'',
        ''00000000-0000-0000-0000-000000000007.pdf'']"
  "safe_segment (str_uuid 102) = Inr (str_uuid 102)"
  "safe_segment (str_uuid 104) = Inr (str_uuid 104)"
  "safe_segment (str_uuid 108) = Inr (str_uuid 108)"
  "safe_extension ''contract.pdf'' = Inr ''pdf''" "safe_extension ''invoice.pdf'' = Inr ''pdf''"
  by code_simp+

lemma demo_save:
  "save_content 102 104 ''contract.pdf'' ''%PDF-1.7'' empty_store =
     Inr (''00000000-0000-0000-0000-000000000066/00000000-0000-0000-0000-000000000068/00000000-0000-0000-0000-000000000007.pdf'',
       saved_store ''00000000-0000-0000-0000-000000000066/00000000-0000-0000-0000-000000000068/00000000-0000-0000-0000-000000000007.pdf'')"
  "save_content 102 108 ''invoice.pdf'' ''%PDF-1.7'' empty_store =
     Inr (''00000000-0000-0000-0000-000000000066/00000000-0000-0000-0000-00000000006c/00000000-0000-0000-0000-000000000007.pdf'',
       saved_store ''00000000-0000-0000-0000-000000000066/00000000-0000-0000-0000-00000000006c/00000000-0000-0000-0000-000000000007.pdf'')"
  by (simp_all add: save_content_def storage_save_def empty_store_def saved_store_def
    demo_storage
       Let_def)

lemma demo_definitions: "validate_phase_definitions demo_phases = Inr demo_phases"
  by code_simp

lemma policy_reader: "zip_reader demo_policy = (\<lambda>_. None)"
  by (simp add: demo_policy_def)

lemmas run_simps = demo_env_def later_env_def staff_def the_admin_def the_manager_def
  the_leader_def the_cashier_def the_worker_def the_deputy_def demo_payment_def demo_upload_def
  demo_numbers [unfolded demo_env_def] demo_payment_numbers demo_checks demo_save
  demo_definitions [unfolded demo_phases_def] demo_phases_def policy_reader
  repository_defs find_row_def sorted_desc_def update_rows_def notify_def record_audit_def Let_def
  get_main_project_def get_sub_project_def get_phase_def get_existing_project_def
  get_existing_sub_project_def list_active_user_ids_by_role_def dedup_def

text \<open>A promotion that leaves a phase open, without a notifier.\<close>

lemma promote_run:
  assumes "check_promotion actor k db = Inr (p, s)"
    and "next_phase_to_activate p (list_phases (sp_id s) db) = activated"
    and "complete_phase e p = p'" and "map_option (activate_phase e) activated = q'"
    and "(case activated of None \<Rightarrow> id | Some q \<Rightarrow> save_phase (ph_id q) (activate_phase e))
      (add_history \<lparr> hist_id = next_uuid db, hist_phase_id = k,
           hist_from_status = ph_status p, hist_to_status = phase_status.completed,
           hist_changed_by_id = u_id actor, hist_changed_at = clock e,
              hist_note = ''promoted'' \<rparr>
         ((save_phase k (complete_phase e) db)\<lparr>next_uuid := Suc (next_uuid db)\<rparr>)) = db1"
    and "\<exists>q \<in> set (list_phases (sp_id s) db1). ph_status q \<noteq> phase_status.completed"
    and "\<not> notifier e"
  shows "promote_phase e actor k db = Inr ((p', q'), db1)"
proof -
  have n: "next_uuid (save_phase k (complete_phase e) db) = next_uuid db" by (simp add: save_phase_def)
  have "\<not> (\<forall>q \<in> set (list_phases (sp_id s) db1). ph_status q = phase_status.completed)"
    using assms(6) by blast
  note no = if_not_P [OF this]
  show ?thesis
    using assms(5)
    unfolding promote_phase_def assms(1) attempt_simps prod.case assms(2) uuid4_def n notify_def
      if_not_P [OF assms(7)] Let_def
    by (cases activated) (simp_all only: option.case id_apply no assms(3) assms(4) [symmetric] option.map)
qed

subsection \<open>The run\<close>

definition world1 :: database where
  "world1 = demo_start\<lparr>main_projects := [\<lparr>mp_id = 100,
     mp_project_no = ''Z-2026-0001'', mp_name = ''Plant'', mp_dept_id = 10,
     mp_status = main_project_status.pending_review, mp_total_budget = 100000,
     mp_expected_finish_date = Date 2026 12 31, mp_spent_amount = 0, mp_remark = None,
     mp_closed_at = None, mp_creator_id = Some 1, mp_project_type_id = None, mp_created_at = 1000,
     mp_updated_at = 1000\<rparr>],
     main_sequence := 2,
     next_uuid := 101\<rparr>"

lemma run1:
  "create_project demo_env the_manager \<lparr> mpc_name = ''Plant'', mpc_dept_id = 10,
     mpc_total_budget = 100000, mpc_expected_finish_date = Date 2026 12 31,
     mpc_remark = None \<rparr> demo_start =
     Inr (\<lparr>mp_id = 100, mp_project_no = ''Z-2026-0001'', mp_name = ''Plant'',
        mp_dept_id = 10, mp_status = main_project_status.pending_review, mp_total_budget = 100000,
        mp_expected_finish_date = Date 2026 12 31, mp_spent_amount = 0, mp_remark = None,
        mp_closed_at = None, mp_creator_id = Some 1, mp_project_type_id = None, mp_created_at = 1000,
        mp_updated_at = 1000\<rparr>, world1)"
  by (simp add: run_simps demo_start_def world1_def create_project_def
    next_project_sequence_def)

definition world2 :: database where
  "world2 = world1\<lparr>main_projects := [\<lparr>mp_id = 100, mp_project_no = ''Z-2026-0001'',
     mp_name = ''Plant'', mp_dept_id = 10, mp_status = main_project_status.not_started,
     mp_total_budget = 100000, mp_expected_finish_date = Date 2026 12 31, mp_spent_amount = 0,
     mp_remark = None, mp_closed_at = None, mp_creator_id = Some 1, mp_project_type_id = None,
     mp_created_at = 1000, mp_updated_at = 1000\<rparr>],
     reviews := [\<lparr>rev_id = 101, rev_main_project_id = Some 100, rev_sub_project_id = None,
        rev_reviewer_id = 0, rev_decision = project_review_decision.approve,
        rev_from_status = main_project_status.pending_review,
        rev_to_status = main_project_status.not_started, rev_comment = None,
        rev_modified_fields = [], rev_admin_override = True, rev_reviewed_at = 1000\<rparr>],
     next_uuid := 102\<rparr>"

lemma run2:
  "review_project demo_env the_admin 100 \<lparr> mrr_decision = project_review_decision.approve,
     mrr_review_comment = None, mrr_updates = None \<rparr> world1 =
     Inr (\<lparr>mp_id = 100, mp_project_no = ''Z-2026-0001'', mp_name = ''Plant'',
        mp_dept_id = 10, mp_status = main_project_status.not_started, mp_total_budget = 100000,
        mp_expected_finish_date = Date 2026 12 31, mp_spent_amount = 0, mp_remark = None,
        mp_closed_at = None, mp_creator_id = Some 1, mp_project_type_id = None, mp_created_at = 1000,
        mp_updated_at = 1000\<rparr>, world2)"
  by (simp add: run_simps demo_start_def world1_def world2_def apply_review_updates_def
    encode_optional_text_def get_existing_project_def invalid_main_status_def
    list_active_user_ids_by_role_def review_field_def review_project_def)

definition world3 :: database where
  "world3 = world2\<lparr>sub_projects := [\<lparr>sp_id = 102,
     sp_project_no = ''Z-2026-0001-ZX-001'', sp_name = ''Pumps'', sp_main_project_id = 100,
     sp_dept_id = 10, sp_budget = 5000, sp_manager_id = 2, sp_creator_id = Some 2,
     sp_status = sub_project_status.pending_review, sp_plan_end_date = None,
     sp_actual_end_date = None, sp_spent_amount = 0, sp_remark = None, sp_closed_at = None,
     sp_workflow_version_id = None, sp_created_at = 1000, sp_updated_at = 1000\<rparr>],
     members := [\<lparr>mem_id = 103, mem_sub_project_id = 102, mem_user_id = 2,
        mem_role = member_role.proj_leader, mem_joined_at = 1000, mem_updated_at = 1000\<rparr>],
     next_uuid := 104,
     sub_sequences := (\<lambda>_. None)(100 := Some 2)\<rparr>"

lemma run3:
  "create_sub_project demo_env the_leader \<lparr> spc_name = ''Pumps'',
     spc_main_project_id = 100, spc_dept_id = 10, spc_budget = 5000, spc_plan_end_date = None,
     spc_workflow_version_id = None, spc_remark = None \<rparr> world2 =
     Inr (\<lparr>sp_id = 102, sp_project_no = ''Z-2026-0001-ZX-001'', sp_name = ''Pumps'',
        sp_main_project_id = 100, sp_dept_id = 10, sp_budget = 5000, sp_manager_id = 2,
        sp_creator_id = Some 2, sp_status = sub_project_status.pending_review,
        sp_plan_end_date = None, sp_actual_end_date = None, sp_spent_amount = 0, sp_remark = None,
        sp_closed_at = None, sp_workflow_version_id = None, sp_created_at = 1000,
        sp_updated_at = 1000\<rparr>, world3)"
  by (simp add: run_simps demo_start_def world1_def world2_def world3_def
    choose_workflow_version_def create_sub_project_def format_sub_project_no_def
    get_default_workflow_version_def get_existing_project_def get_workflow_version_def
    invalid_sub_status_def next_sub_project_sequence_def open_main_project_statuses_def)

definition world4 :: database where
  "world4 = world3\<lparr>main_projects := [\<lparr>mp_id = 100, mp_project_no = ''Z-2026-0001'',
     mp_name = ''Plant'', mp_dept_id = 10, mp_status = main_project_status.in_progress,
     mp_total_budget = 100000, mp_expected_finish_date = Date 2026 12 31, mp_spent_amount = 0,
     mp_remark = None, mp_closed_at = None, mp_creator_id = Some 1, mp_project_type_id = None,
     mp_created_at = 1000, mp_updated_at = 1000\<rparr>],
     sub_projects := [\<lparr>sp_id = 102, sp_project_no = ''Z-2026-0001-ZX-001'',
        sp_name = ''Pumps'', sp_main_project_id = 100, sp_dept_id = 10, sp_budget = 5000,
        sp_manager_id = 2, sp_creator_id = Some 2, sp_status = sub_project_status.in_progress,
        sp_plan_end_date = None, sp_actual_end_date = None, sp_spent_amount = 0, sp_remark = None,
        sp_closed_at = None, sp_workflow_version_id = None, sp_created_at = 1000,
        sp_updated_at = 1000\<rparr>],
     reviews := [\<lparr>rev_id = 101, rev_main_project_id = Some 100, rev_sub_project_id = None,
        rev_reviewer_id = 0, rev_decision = project_review_decision.approve,
        rev_from_status = main_project_status.pending_review,
        rev_to_status = main_project_status.not_started, rev_comment = None,
        rev_modified_fields = [], rev_admin_override = True, rev_reviewed_at = 1000\<rparr>,
        \<lparr>rev_id = 110, rev_main_project_id = None, rev_sub_project_id = Some 102,
        rev_reviewer_id = 0, rev_decision = project_review_decision.approve,
        rev_from_status = main_project_status.pending_review,
        rev_to_status = main_project_status.in_progress, rev_comment = None,
        rev_modified_fields = [], rev_admin_override = True, rev_reviewed_at = 1000\<rparr>],
     phases := [\<lparr>ph_id = 104, ph_sub_project_id = 102, ph_phase_no = 1,
        ph_code = ''initiation'', ph_name = [CHR 0xE7, CHR 0xAB, CHR 0x8B, CHR 0xE9, CHR 0xA1,
        CHR 0xB9], ph_status = phase_status.in_progress, ph_enter_at = Some 1000,
        ph_finish_at = None, ph_procurement_type = None, ph_created_at = 1000,
        ph_updated_at = 1000\<rparr>, \<lparr>ph_id = 105, ph_sub_project_id = 102, ph_phase_no = 2,
        ph_code = ''procurement'', ph_name = [CHR 0xE9, CHR 0x87, CHR 0x87, CHR 0xE8, CHR 0xB4,
        CHR 0xAD], ph_status = waiting, ph_enter_at = None, ph_finish_at = None,
        ph_procurement_type = None, ph_created_at = 1000, ph_updated_at = 1000\<rparr>,
        \<lparr>ph_id = 106, ph_sub_project_id = 102, ph_phase_no = 3, ph_code = ''contract'',
        ph_name = [CHR 0xE5, CHR 0x90, CHR 0x88, CHR 0xE5, CHR 0x90, CHR 0x8C], ph_status = waiting,
        ph_enter_at = None, ph_finish_at = None, ph_procurement_type = None, ph_created_at = 1000,
        ph_updated_at = 1000\<rparr>, \<lparr>ph_id = 107, ph_sub_project_id = 102, ph_phase_no = 4,
        ph_code = ''acceptance'', ph_name = [CHR 0xE9, CHR 0xAA, CHR 0x8C, CHR 0xE6, CHR 0x94,
        CHR 0xB6], ph_status = waiting, ph_enter_at = None, ph_finish_at = None,
        ph_procurement_type = None, ph_created_at = 1000, ph_updated_at = 1000\<rparr>,
        \<lparr>ph_id = 108, ph_sub_project_id = 102, ph_phase_no = 5, ph_code = ''payment'',
        ph_name = [CHR 0xE4, CHR 0xBB, CHR 0x98, CHR 0xE6, CHR 0xAC, CHR 0xBE],
        ph_status = phase_status.in_progress, ph_enter_at = Some 1000, ph_finish_at = None,
        ph_procurement_type = None, ph_created_at = 1000, ph_updated_at = 1000\<rparr>,
        \<lparr>ph_id = 109, ph_sub_project_id = 102, ph_phase_no = 6, ph_code = ''post_review'',
        ph_name = [CHR 0xE5, CHR 0x90, CHR 0x8E, CHR 0xE8, CHR 0xAF, CHR 0x84, CHR 0xE4, CHR 0xBB,
        CHR 0xB7], ph_status = phase_status.in_progress, ph_enter_at = Some 1000,
        ph_finish_at = None, ph_procurement_type = None, ph_created_at = 1000,
        ph_updated_at = 1000\<rparr>],
     next_uuid := 111\<rparr>"

lemma run4:
  "review_sub_project demo_env the_admin 102 \<lparr> srr_decision = project_review_decision.approve,
     srr_review_comment = None, srr_confirm_over_budget = False,
     srr_over_budget_reason = None \<rparr> world3 =
     Inr (\<lparr>sp_id = 102, sp_project_no = ''Z-2026-0001-ZX-001'', sp_name = ''Pumps'',
        sp_main_project_id = 100, sp_dept_id = 10, sp_budget = 5000, sp_manager_id = 2,
        sp_creator_id = Some 2, sp_status = sub_project_status.in_progress, sp_plan_end_date = None,
        sp_actual_end_date = None, sp_spent_amount = 0, sp_remark = None, sp_closed_at = None,
        sp_workflow_version_id = None, sp_created_at = 1000, sp_updated_at = 1000\<rparr>, world4)"
  by (simp add: run_simps demo_start_def world1_def world2_def world3_def world4_def
    approved_sub_project_statuses_def create_default_phases_def
    create_phases_for_sub_project_def default_phases_def encode_optional_text_def
    get_existing_project_def get_existing_sub_project_def get_workflow_version_def
    invalid_sub_status_def main_phase_definitions_def new_phase_def parallel_phase_nos_def
    review_sub_project_def start_main_project_def sum_approved_budget_def
    validate_over_budget_def)

definition world5 :: database where
  "world5 = world4\<lparr>main_projects := [\<lparr>mp_id = 100, mp_project_no = ''Z-2026-0001'',
     mp_name = ''Plant'', mp_dept_id = 10, mp_status = main_project_status.in_progress,
     mp_total_budget = 100000, mp_expected_finish_date = Date 2026 12 31, mp_spent_amount = 1200,
     mp_remark = None, mp_closed_at = None, mp_creator_id = Some 1, mp_project_type_id = None,
     mp_created_at = 1000, mp_updated_at = 1000\<rparr>],
     sub_projects := [\<lparr>sp_id = 102, sp_project_no = ''Z-2026-0001-ZX-001'',
        sp_name = ''Pumps'', sp_main_project_id = 100, sp_dept_id = 10, sp_budget = 5000,
        sp_manager_id = 2, sp_creator_id = Some 2, sp_status = sub_project_status.in_progress,
        sp_plan_end_date = None, sp_actual_end_date = None, sp_spent_amount = 1200, sp_remark = None,
        sp_closed_at = None, sp_workflow_version_id = None, sp_created_at = 1000,
        sp_updated_at = 1000\<rparr>],
     documents := [\<lparr>doc_id = 112, doc_no = 113, doc_sub_project_id = 102,
        doc_phase_id = 108, doc_acceptance_step_id = None, doc_doc_type = ''payment_voucher'',
        doc_file_name = ''invoice.pdf'', doc_display_name = ''invoice.pdf'',
        doc_file_path = ''00000000-0000-0000-0000-000000000066/00000000-0000-0000-0000-00000000006c/00000000-0000-0000-0000-000000000007.pdf'',
        doc_file_size = 8, doc_version = 1, doc_is_latest = True, doc_is_deleted = False,
        doc_scan_status = clean, doc_scan_result = None, doc_scanned_at = None, doc_uploader_id = 3,
        doc_created_at = 1000, doc_updated_at = 1000\<rparr>],
     payments := [\<lparr>pay_id = 111, pay_payment_no = ''Z-2026-0001-ZX-001-PAY-001'',
        pay_sub_project_id = 102, pay_amount = 1200, pay_payment_date = Date 2026 3 1,
        pay_remark = None, pay_payment_type = normal, pay_reverses_payment_id = None,
        pay_operator_id = 3, pay_created_at = 1000\<rparr>],
     payment_vouchers := [\<lparr>pv_id = 114, pv_payment_id = 111, pv_document_id = 112\<rparr>],
     next_uuid := 115\<rparr>"

lemma run5:
  "fst (create_payment demo_env the_cashier demo_policy 102 (demo_payment 1200 None) world4 empty_store) =
     Inr (\<lparr>pay_id = 111, pay_payment_no = ''Z-2026-0001-ZX-001-PAY-001'',
        pay_sub_project_id = 102, pay_amount = 1200, pay_payment_date = Date 2026 3 1,
        pay_remark = None, pay_payment_type = normal, pay_reverses_payment_id = None,
        pay_operator_id = 3, pay_created_at = 1000\<rparr>, world5)"
  by (simp add: run_simps demo_start_def world1_def world2_def world3_def world4_def world5_def
    add_document_def add_payment_def add_payment_voucher_def check_payment_def
    create_payment_def ensure_budget_confirmation_def ensure_can_create_payment_def
    ensure_sub_project_allows_payment_def get_existing_payment_phase_def
    get_existing_project_def get_existing_sub_project_def get_payment_phase_row_def
    latest_version_def list_active_user_ids_by_role_def list_group_documents_def
    locked_payment_sub_project_statuses_def new_payment_def next_payment_sequence_def
    path_parts_def payment_total_def recalculate_spending_def safe_key_def
    send_payment_notifications_def storage_delete_def storage_security_error_def
    sub_spent_total_def sum_payments_def sum_sub_project_spent_def voucher_document_def)

definition world6 :: database where
  "world6 = world5\<lparr>main_projects := [\<lparr>mp_id = 100, mp_project_no = ''Z-2026-0001'',
     mp_name = ''Plant'', mp_dept_id = 10, mp_status = main_project_status.in_progress,
     mp_total_budget = 100000, mp_expected_finish_date = Date 2026 12 31, mp_spent_amount = 5700,
     mp_remark = None, mp_closed_at = None, mp_creator_id = Some 1, mp_project_type_id = None,
     mp_created_at = 1000, mp_updated_at = 1000\<rparr>],
     sub_projects := [\<lparr>sp_id = 102, sp_project_no = ''Z-2026-0001-ZX-001'',
        sp_name = ''Pumps'', sp_main_project_id = 100, sp_dept_id = 10, sp_budget = 5000,
        sp_manager_id = 2, sp_creator_id = Some 2, sp_status = sub_project_status.in_progress,
        sp_plan_end_date = None, sp_actual_end_date = None, sp_spent_amount = 5700, sp_remark = None,
        sp_closed_at = None, sp_workflow_version_id = None, sp_created_at = 1000,
        sp_updated_at = 1000\<rparr>],
     documents := [\<lparr>doc_id = 112, doc_no = 113, doc_sub_project_id = 102,
        doc_phase_id = 108, doc_acceptance_step_id = None, doc_doc_type = ''payment_voucher'',
        doc_file_name = ''invoice.pdf'', doc_display_name = ''invoice.pdf'',
        doc_file_path = ''00000000-0000-0000-0000-000000000066/00000000-0000-0000-0000-00000000006c/00000000-0000-0000-0000-000000000007.pdf'',
        doc_file_size = 8, doc_version = 1, doc_is_latest = True, doc_is_deleted = False,
        doc_scan_status = clean, doc_scan_result = None, doc_scanned_at = None, doc_uploader_id = 3,
        doc_created_at = 1000, doc_updated_at = 1000\<rparr>, \<lparr>doc_id = 116, doc_no = 117,
        doc_sub_project_id = 102, doc_phase_id = 108, doc_acceptance_step_id = None,
        doc_doc_type = ''payment_voucher'', doc_file_name = ''invoice.pdf'',
        doc_display_name = ''invoice.pdf'',
        doc_file_path = ''00000000-0000-0000-0000-000000000066/00000000-0000-0000-0000-00000000006c/00000000-0000-0000-0000-000000000007.pdf'',
        doc_file_size = 8, doc_version = 2, doc_is_latest = True, doc_is_deleted = False,
        doc_scan_status = clean, doc_scan_result = None, doc_scanned_at = None, doc_uploader_id = 3,
        doc_created_at = 1000, doc_updated_at = 1000\<rparr>],
     payments := [\<lparr>pay_id = 111, pay_payment_no = ''Z-2026-0001-ZX-001-PAY-001'',
        pay_sub_project_id = 102, pay_amount = 1200, pay_payment_date = Date 2026 3 1,
        pay_remark = None, pay_payment_type = normal, pay_reverses_payment_id = None,
        pay_operator_id = 3, pay_created_at = 1000\<rparr>, \<lparr>pay_id = 115,
        pay_payment_no = ''Z-2026-0001-ZX-001-PAY-002'', pay_sub_project_id = 102, pay_amount = 4500,
        pay_payment_date = Date 2026 3 1, pay_remark = None, pay_payment_type = normal,
        pay_reverses_payment_id = None, pay_operator_id = 3, pay_created_at = 1000\<rparr>],
     payment_vouchers := [\<lparr>pv_id = 114, pv_payment_id = 111, pv_document_id = 112\<rparr>,
        \<lparr>pv_id = 118, pv_payment_id = 115, pv_document_id = 116\<rparr>],
     next_uuid := 119\<rparr>"

lemma run6:
  "fst (create_payment demo_env the_cashier demo_policy 102 (demo_payment 4500 (Some ''price'')) world5 empty_store) =
     Inr (\<lparr>pay_id = 115, pay_payment_no = ''Z-2026-0001-ZX-001-PAY-002'',
        pay_sub_project_id = 102, pay_amount = 4500, pay_payment_date = Date 2026 3 1,
        pay_remark = None, pay_payment_type = normal, pay_reverses_payment_id = None,
        pay_operator_id = 3, pay_created_at = 1000\<rparr>, world6)"
  by (simp add: run_simps demo_start_def world1_def world2_def world3_def world4_def world5_def
    world6_def add_document_def add_payment_def add_payment_voucher_def check_payment_def
    create_payment_def ensure_budget_confirmation_def ensure_can_create_payment_def
    ensure_sub_project_allows_payment_def get_existing_payment_phase_def
    get_existing_project_def get_existing_sub_project_def get_payment_phase_row_def
    latest_version_def list_active_user_ids_by_role_def list_group_documents_def
    locked_payment_sub_project_statuses_def new_payment_def next_payment_sequence_def
    path_parts_def payment_total_def recalculate_spending_def safe_key_def
    send_payment_notifications_def storage_delete_def storage_security_error_def
    sub_spent_total_def sum_payments_def sum_sub_project_spent_def voucher_document_def)

definition world7 :: database where
  "world7 = world6\<lparr>main_projects := [\<lparr>mp_id = 100, mp_project_no = ''Z-2026-0001'',
     mp_name = ''Plant'', mp_dept_id = 10, mp_status = main_project_status.in_progress,
     mp_total_budget = 100000, mp_expected_finish_date = Date 2026 12 31, mp_spent_amount = 4500,
     mp_remark = None, mp_closed_at = None, mp_creator_id = Some 1, mp_project_type_id = None,
     mp_created_at = 1000, mp_updated_at = 1000\<rparr>],
     sub_projects := [\<lparr>sp_id = 102, sp_project_no = ''Z-2026-0001-ZX-001'',
        sp_name = ''Pumps'', sp_main_project_id = 100, sp_dept_id = 10, sp_budget = 5000,
        sp_manager_id = 2, sp_creator_id = Some 2, sp_status = sub_project_status.in_progress,
        sp_plan_end_date = None, sp_actual_end_date = None, sp_spent_amount = 4500, sp_remark = None,
        sp_closed_at = None, sp_workflow_version_id = None, sp_created_at = 1000,
        sp_updated_at = 1000\<rparr>],
     payments := [\<lparr>pay_id = 111, pay_payment_no = ''Z-2026-0001-ZX-001-PAY-001'',
        pay_sub_project_id = 102, pay_amount = 1200, pay_payment_date = Date 2026 3 1,
        pay_remark = None, pay_payment_type = normal, pay_reverses_payment_id = None,
        pay_operator_id = 3, pay_created_at = 1000\<rparr>, \<lparr>pay_id = 115,
        pay_payment_no = ''Z-2026-0001-ZX-001-PAY-002'', pay_sub_project_id = 102, pay_amount = 4500,
        pay_payment_date = Date 2026 3 1, pay_remark = None, pay_payment_type = normal,
        pay_reverses_payment_id = None, pay_operator_id = 3, pay_created_at = 1000\<rparr>,
        \<lparr>pay_id = 119, pay_payment_no = ''Z-2026-0001-ZX-001-PAY-003'',
        pay_sub_project_id = 102, pay_amount = - 1200, pay_payment_date = Date 2026 3 2,
        pay_remark = Some ''wrong'', pay_payment_type = reversal, pay_reverses_payment_id = Some 111,
        pay_operator_id = 3, pay_created_at = 1000\<rparr>],
     next_uuid := 120\<rparr>"

lemma run7:
  "reverse_payment demo_env the_cashier 102 111 (Some ''wrong'') world6 =
     Inr (\<lparr>pay_id = 119, pay_payment_no = ''Z-2026-0001-ZX-001-PAY-003'',
        pay_sub_project_id = 102, pay_amount = - 1200, pay_payment_date = Date 2026 3 2,
        pay_remark = Some ''wrong'', pay_payment_type = reversal, pay_reverses_payment_id = Some 111,
        pay_operator_id = 3, pay_created_at = 1000\<rparr>, world7)"
  by (simp add: run_simps demo_start_def world1_def world2_def world3_def world4_def world5_def
    world6_def world7_def add_payment_def ensure_can_create_payment_def ensure_not_reversed_def
    get_existing_project_def get_existing_sub_project_def get_payment_row_def
    get_reversal_for_payment_def get_reversible_payment_def new_payment_def
    next_payment_sequence_def payment_total_def recalculate_spending_def reverse_payment_def
    sub_spent_total_def sum_payments_def sum_sub_project_spent_def)

definition world8 :: database where
  "world8 = world7\<lparr>members := [\<lparr>mem_id = 103, mem_sub_project_id = 102,
     mem_user_id = 2, mem_role = member_role.proj_leader, mem_joined_at = 1000,
     mem_updated_at = 1000\<rparr>, \<lparr>mem_id = 120, mem_sub_project_id = 102, mem_user_id = 4,
     mem_role = member_role.proj_member, mem_joined_at = 1000, mem_updated_at = 1000\<rparr>],
     next_uuid := 121\<rparr>"

lemma run8:
  "add_sub_project_member demo_env the_leader 102 4 world7 =
     Inr (\<lparr>mem_id = 120, mem_sub_project_id = 102, mem_user_id = 4,
        mem_role = member_role.proj_member, mem_joined_at = 1000, mem_updated_at = 1000\<rparr>,
        world8)"
  by (simp add: run_simps demo_start_def world1_def world2_def world3_def world4_def world5_def
    world6_def world7_def world8_def add_sub_project_member_def
    ensure_member_changes_allowed_def ensure_project_leader_def get_existing_sub_project_def
    get_member_def get_user_def invalid_sub_status_def locked_member_change_statuses_def
    record_member_audit_def)

definition world9 :: database where
  "world9 = world8\<lparr>tasks := [\<lparr>task_id = 121,
     task_task_no = ''Z-2026-0001-ZX-001-T-001'', task_sub_project_id = 102, task_phase_id = 104,
     task_name = ''Survey'', task_plan_end_date = Date 2026 3 15,
     task_status = task_status.in_progress, task_created_at = 1000, task_updated_at = 1000\<rparr>],
     executors := [\<lparr>ex_id = 122, ex_task_id = 121, ex_user_id = 4,
        ex_plan_end_date = Date 2026 3 10, ex_actual_end_date = None,
        ex_status = task_status.in_progress, ex_updated_at = 1000\<rparr>],
     next_uuid := 123\<rparr>"

lemma run9:
  "create_task demo_env the_leader \<lparr> tc_sub_project_id = 102, tc_phase_id = 104,
     tc_name = ''Survey'', tc_plan_end_date = Date 2026 3 15,
     tc_executors = [\<lparr> ea_user_id = 4,
     ea_plan_end_date = Date 2026 3 10 \<rparr>] \<rparr> world8 =
     Inr (\<lparr>task_id = 121, task_task_no = ''Z-2026-0001-ZX-001-T-001'',
        task_sub_project_id = 102, task_phase_id = 104, task_name = ''Survey'',
        task_plan_end_date = Date 2026 3 15, task_status = task_status.in_progress,
        task_created_at = 1000, task_updated_at = 1000\<rparr>, world9)"
  by (simp add: run_simps demo_start_def world1_def world2_def world3_def world4_def world5_def
    world6_def world7_def world8_def world9_def add_executor_def add_task_def
    aggregate_task_status_def create_task_def ensure_can_assign_def executors_of_def
    get_existing_phase_def get_existing_sub_project_def get_member_def get_task_scope_def
    new_executor_def next_sequence_from_task_numbers_def next_task_sequence_def
    send_task_assigned_def task_number_def task_sequence_of_def validate_assignments_def)

definition world10 :: database where
  "world10 = world9\<lparr>tasks := [\<lparr>task_id = 121,
     task_task_no = ''Z-2026-0001-ZX-001-T-001'', task_sub_project_id = 102, task_phase_id = 104,
     task_name = ''Survey'', task_plan_end_date = Date 2026 3 15, task_status = overdue,
     task_created_at = 1000, task_updated_at = 700000000000\<rparr>],
     executors := [\<lparr>ex_id = 122, ex_task_id = 121, ex_user_id = 4,
        ex_plan_end_date = Date 2026 3 10, ex_actual_end_date = None, ex_status = overdue,
        ex_updated_at = 700000000000\<rparr>],
     notifications := [\<lparr>nt_id = 123, nt_receiver_id = 4, nt_scenario = ''task_overdue'',
        nt_source_id = 122, nt_payload = [(''task_id'', PUuid 121), (''task_no'',
        PStr ''Z-2026-0001-ZX-001-T-001''), (''executor_id'', PUuid 122), (''user_id'', PUuid 4),
        (''plan_end_date'', PDate (Date 2026 3 10)), (''days_overdue'', PInt 10)],
        nt_dedup_key = (''task_overdue'', 4, 122, Date 2026 3 20), nt_delivery_mode = real_time,
        nt_digest_sent_at = None, nt_read_at = None, nt_created_at = 700000000000,
        nt_updated_at = 700000000000\<rparr>, \<lparr>nt_id = 124, nt_receiver_id = 0,
        nt_scenario = ''task_overdue_escalation'', nt_source_id = 122, nt_payload = [(''task_id'',
        PUuid 121), (''task_no'', PStr ''Z-2026-0001-ZX-001-T-001''), (''executor_id'', PUuid 122),
        (''user_id'', PUuid 4), (''plan_end_date'', PDate (Date 2026 3 10)), (''days_overdue'',
        PInt 10)], nt_dedup_key = (''task_overdue_escalation'', 0, 122, Date 2026 3 20),
        nt_delivery_mode = real_time, nt_digest_sent_at = None, nt_read_at = None,
        nt_created_at = 700000000000, nt_updated_at = 700000000000\<rparr>],
     next_uuid := 125\<rparr>"

lemma run10:
  "scan_deadlines later_env None None world9 =
     (\<lparr>sr_due_today = 0, sr_marked_overdue = 1, sr_due_notifications = 0,
        sr_overdue_notifications = 1, sr_overdue_escalations = 1\<rparr>, world10)"
  by (simp add: run_simps demo_start_def world1_def world2_def world3_def world4_def world5_def
    world6_def world7_def world8_def world9_def world10_def active_deadline_statuses_def
    add_many_def aggregate_task_status_def build_dedup_key_def channel_enabled_def
    days_overdue_def deadline_payload_def default_notification_channels_def
    default_preference_def executors_of_def existing_dedup_keys_def external_messages_def
    get_task_row_def has_enabled_channel_def list_admin_ids_def list_due_today_executors_def
    list_overdue_executors_def new_notification_def normalize_channel_settings_def
    notify_due_today_def notify_escalations_def notify_overdue_def preference_of_def
    refresh_task_status_def save_executor_def save_task_def scan_deadlines_def selected_user_def
    send_def)
    (rule exI, rule conjI, rule disjI1, rule refl, simp)

definition world11 :: database where
  "world11 = world10\<lparr>tasks := [\<lparr>task_id = 121,
     task_task_no = ''Z-2026-0001-ZX-001-T-001'', task_sub_project_id = 102, task_phase_id = 104,
     task_name = ''Survey'', task_plan_end_date = Date 2026 3 15,
     task_status = task_status.completed, task_created_at = 1000, task_updated_at = 1000\<rparr>],
     executors := [\<lparr>ex_id = 122, ex_task_id = 121, ex_user_id = 4,
        ex_plan_end_date = Date 2026 3 10, ex_actual_end_date = Some (Date 2026 3 2),
        ex_status = task_status.completed, ex_updated_at = 1000\<rparr>]\<rparr>"

lemma run11:
  "complete_task demo_env the_worker 121 world10 =
     Inr (\<lparr>task_id = 121, task_task_no = ''Z-2026-0001-ZX-001-T-001'',
        task_sub_project_id = 102, task_phase_id = 104, task_name = ''Survey'',
        task_plan_end_date = Date 2026 3 15, task_status = task_status.completed,
        task_created_at = 1000, task_updated_at = 1000\<rparr>, world11)"
  by (simp add: run_simps demo_start_def world1_def world2_def world3_def world4_def world5_def
    world6_def world7_def world8_def world9_def world10_def world11_def
    aggregate_task_status_def complete_executor_def complete_task_def executors_of_def
    get_existing_task_def get_task_row_def refresh_task_status_def save_executor_def
    save_task_def)

definition world12 :: database where
  "world12 = world11\<lparr>documents := [\<lparr>doc_id = 112, doc_no = 113,
     doc_sub_project_id = 102, doc_phase_id = 108, doc_acceptance_step_id = None,
     doc_doc_type = ''payment_voucher'', doc_file_name = ''invoice.pdf'',
     doc_display_name = ''invoice.pdf'',
     doc_file_path = ''00000000-0000-0000-0000-000000000066/00000000-0000-0000-0000-00000000006c/00000000-0000-0000-0000-000000000007.pdf'',
     doc_file_size = 8, doc_version = 1, doc_is_latest = True, doc_is_deleted = False,
     doc_scan_status = clean, doc_scan_result = None, doc_scanned_at = None, doc_uploader_id = 3,
     doc_created_at = 1000, doc_updated_at = 1000\<rparr>, \<lparr>doc_id = 116, doc_no = 117,
     doc_sub_project_id = 102, doc_phase_id = 108, doc_acceptance_step_id = None,
     doc_doc_type = ''payment_voucher'', doc_file_name = ''invoice.pdf'',
     doc_display_name = ''invoice.pdf'',
     doc_file_path = ''00000000-0000-0000-0000-000000000066/00000000-0000-0000-0000-00000000006c/00000000-0000-0000-0000-000000000007.pdf'',
     doc_file_size = 8, doc_version = 2, doc_is_latest = True, doc_is_deleted = False,
     doc_scan_status = clean, doc_scan_result = None, doc_scanned_at = None, doc_uploader_id = 3,
     doc_created_at = 1000, doc_updated_at = 1000\<rparr>, \<lparr>doc_id = 125, doc_no = 126,
     doc_sub_project_id = 102, doc_phase_id = 104, doc_acceptance_step_id = None,
     doc_doc_type = ''contract'', doc_file_name = ''contract.pdf'',
     doc_display_name = ''contract.pdf'',
     doc_file_path = ''00000000-0000-0000-0000-000000000066/00000000-0000-0000-0000-000000000068/00000000-0000-0000-0000-000000000007.pdf'',
     doc_file_size = 8, doc_version = 1, doc_is_latest = True, doc_is_deleted = False,
     doc_scan_status = scan_status.pending, doc_scan_result = None, doc_scanned_at = None,
     doc_uploader_id = 2, doc_created_at = 1000, doc_updated_at = 1000\<rparr>],
     next_uuid := 127\<rparr>"

lemma run12:
  "(case upload_document demo_env the_leader demo_policy None 102 demo_upload world11 empty_store of (r,
     db, fs) \<Rightarrow> (r, db)) =
     (Inr (\<lparr>doc_id = 125, doc_no = 126, doc_sub_project_id = 102, doc_phase_id = 104,
        doc_acceptance_step_id = None, doc_doc_type = ''contract'', doc_file_name = ''contract.pdf'',
        doc_display_name = ''contract.pdf'',
        doc_file_path = ''00000000-0000-0000-0000-000000000066/00000000-0000-0000-0000-000000000068/00000000-0000-0000-0000-000000000007.pdf'',
        doc_file_size = 8, doc_version = 1, doc_is_latest = True, doc_is_deleted = False,
        doc_scan_status = scan_status.pending, doc_scan_result = None, doc_scanned_at = None,
        doc_uploader_id = 2, doc_created_at = 1000, doc_updated_at = 1000\<rparr>), world12)"
  by (simp add: run_simps demo_start_def world1_def world2_def world3_def world4_def world5_def
    world6_def world7_def world8_def world9_def world10_def world11_def world12_def
    add_document_def check_upload_def clear_latest_def enqueue_audit_def enqueue_scan_def
    ensure_file_size_allowed_def ensure_scope_allows_upload_def ensure_visible_def
    get_existing_phase_def get_existing_scope_def get_existing_sub_project_def get_member_def
    is_multi_instance_document_def latest_version_def list_group_documents_def
    locked_sub_project_statuses_def multi_instance_document_types_def record_context_audit_def
    record_document_audit_def rejection_reason_def save_document_def to_audit_context_def
    upload_document_def uploaded_document_def view_all_phase_roles_def)

definition world13 :: database where
  "world13 = world12\<lparr>documents := [\<lparr>doc_id = 112, doc_no = 113,
     doc_sub_project_id = 102, doc_phase_id = 108, doc_acceptance_step_id = None,
     doc_doc_type = ''payment_voucher'', doc_file_name = ''invoice.pdf'',
     doc_display_name = ''invoice.pdf'',
     doc_file_path = ''00000000-0000-0000-0000-000000000066/00000000-0000-0000-0000-00000000006c/00000000-0000-0000-0000-000000000007.pdf'',
     doc_file_size = 8, doc_version = 1, doc_is_latest = True, doc_is_deleted = False,
     doc_scan_status = clean, doc_scan_result = None, doc_scanned_at = None, doc_uploader_id = 3,
     doc_created_at = 1000, doc_updated_at = 1000\<rparr>, \<lparr>doc_id = 116, doc_no = 117,
     doc_sub_project_id = 102, doc_phase_id = 108, doc_acceptance_step_id = None,
     doc_doc_type = ''payment_voucher'', doc_file_name = ''invoice.pdf'',
     doc_display_name = ''invoice.pdf'',
     doc_file_path = ''00000000-0000-0000-0000-000000000066/00000000-0000-0000-0000-00000000006c/00000000-0000-0000-0000-000000000007.pdf'',
     doc_file_size = 8, doc_version = 2, doc_is_latest = True, doc_is_deleted = False,
     doc_scan_status = clean, doc_scan_result = None, doc_scanned_at = None, doc_uploader_id = 3,
     doc_created_at = 1000, doc_updated_at = 1000\<rparr>, \<lparr>doc_id = 125, doc_no = 126,
     doc_sub_project_id = 102, doc_phase_id = 104, doc_acceptance_step_id = None,
     doc_doc_type = ''contract'', doc_file_name = ''contract.pdf'',
     doc_display_name = ''contract.pdf'',
     doc_file_path = ''00000000-0000-0000-0000-000000000066/00000000-0000-0000-0000-000000000068/00000000-0000-0000-0000-000000000007.pdf'',
     doc_file_size = 8, doc_version = 1, doc_is_latest = False, doc_is_deleted = False,
     doc_scan_status = scan_status.pending, doc_scan_result = None, doc_scanned_at = None,
     doc_uploader_id = 2, doc_created_at = 1000, doc_updated_at = 1000\<rparr>, \<lparr>doc_id = 127,
     doc_no = 128, doc_sub_project_id = 102, doc_phase_id = 104, doc_acceptance_step_id = None,
     doc_doc_type = ''contract'', doc_file_name = ''contract.pdf'',
     doc_display_name = ''contract.pdf'',
     doc_file_path = ''00000000-0000-0000-0000-000000000066/00000000-0000-0000-0000-000000000068/00000000-0000-0000-0000-000000000007.pdf'',
     doc_file_size = 8, doc_version = 2, doc_is_latest = True, doc_is_deleted = False,
     doc_scan_status = scan_status.pending, doc_scan_result = None, doc_scanned_at = None,
     doc_uploader_id = 2, doc_created_at = 1000, doc_updated_at = 1000\<rparr>],
     next_uuid := 129\<rparr>"

lemma run13:
  "(case upload_document demo_env the_leader demo_policy None 102 demo_upload world12 empty_store of (r,
     db, fs) \<Rightarrow> (r, db)) =
     (Inr (\<lparr>doc_id = 127, doc_no = 128, doc_sub_project_id = 102, doc_phase_id = 104,
        doc_acceptance_step_id = None, doc_doc_type = ''contract'', doc_file_name = ''contract.pdf'',
        doc_display_name = ''contract.pdf'',
        doc_file_path = ''00000000-0000-0000-0000-000000000066/00000000-0000-0000-0000-000000000068/00000000-0000-0000-0000-000000000007.pdf'',
        doc_file_size = 8, doc_version = 2, doc_is_latest = True, doc_is_deleted = False,
        doc_scan_status = scan_status.pending, doc_scan_result = None, doc_scanned_at = None,
        doc_uploader_id = 2, doc_created_at = 1000, doc_updated_at = 1000\<rparr>), world13)"
  by (simp add: run_simps demo_start_def world1_def world2_def world3_def world4_def world5_def
    world6_def world7_def world8_def world9_def world10_def world11_def world12_def world13_def
    add_document_def check_upload_def clear_latest_def enqueue_audit_def enqueue_scan_def
    ensure_file_size_allowed_def ensure_scope_allows_upload_def ensure_visible_def
    get_existing_phase_def get_existing_scope_def get_existing_sub_project_def get_member_def
    is_multi_instance_document_def latest_version_def list_group_documents_def
    locked_sub_project_statuses_def multi_instance_document_types_def record_context_audit_def
    record_document_audit_def rejection_reason_def save_document_def to_audit_context_def
    upload_document_def uploaded_document_def view_all_phase_roles_def)

definition world14 :: database where
  "world14 = world13\<lparr>documents := [\<lparr>doc_id = 112, doc_no = 113,
     doc_sub_project_id = 102, doc_phase_id = 108, doc_acceptance_step_id = None,
     doc_doc_type = ''payment_voucher'', doc_file_name = ''invoice.pdf'',
     doc_display_name = ''invoice.pdf'',
     doc_file_path = ''00000000-0000-0000-0000-000000000066/00000000-0000-0000-0000-00000000006c/00000000-0000-0000-0000-000000000007.pdf'',
     doc_file_size = 8, doc_version = 1, doc_is_latest = True, doc_is_deleted = False,
     doc_scan_status = clean, doc_scan_result = None, doc_scanned_at = None, doc_uploader_id = 3,
     doc_created_at = 1000, doc_updated_at = 1000\<rparr>, \<lparr>doc_id = 116, doc_no = 117,
     doc_sub_project_id = 102, doc_phase_id = 108, doc_acceptance_step_id = None,
     doc_doc_type = ''payment_voucher'', doc_file_name = ''invoice.pdf'',
     doc_display_name = ''invoice.pdf'',
     doc_file_path = ''00000000-0000-0000-0000-000000000066/00000000-0000-0000-0000-00000000006c/00000000-0000-0000-0000-000000000007.pdf'',
     doc_file_size = 8, doc_version = 2, doc_is_latest = True, doc_is_deleted = False,
     doc_scan_status = clean, doc_scan_result = None, doc_scanned_at = None, doc_uploader_id = 3,
     doc_created_at = 1000, doc_updated_at = 1000\<rparr>, \<lparr>doc_id = 125, doc_no = 126,
     doc_sub_project_id = 102, doc_phase_id = 104, doc_acceptance_step_id = None,
     doc_doc_type = ''contract'', doc_file_name = ''contract.pdf'',
     doc_display_name = ''contract.pdf'',
     doc_file_path = ''00000000-0000-0000-0000-000000000066/00000000-0000-0000-0000-000000000068/00000000-0000-0000-0000-000000000007.pdf'',
     doc_file_size = 8, doc_version = 1, doc_is_latest = True, doc_is_deleted = False,
     doc_scan_status = scan_status.pending, doc_scan_result = None, doc_scanned_at = None,
     doc_uploader_id = 2, doc_created_at = 1000, doc_updated_at = 1000\<rparr>, \<lparr>doc_id = 127,
     doc_no = 128, doc_sub_project_id = 102, doc_phase_id = 104, doc_acceptance_step_id = None,
     doc_doc_type = ''contract'', doc_file_name = ''contract.pdf'',
     doc_display_name = ''contract.pdf'',
     doc_file_path = ''00000000-0000-0000-0000-000000000066/00000000-0000-0000-0000-000000000068/00000000-0000-0000-0000-000000000007.pdf'',
     doc_file_size = 8, doc_version = 2, doc_is_latest = False, doc_is_deleted = True,
     doc_scan_status = scan_status.pending, doc_scan_result = None, doc_scanned_at = None,
     doc_uploader_id = 2, doc_created_at = 1000, doc_updated_at = 1000\<rparr>]\<rparr>"

lemma run14:
  "delete_document demo_env the_leader 127 world13 =
     Inr (\<lparr>doc_id = 127, doc_no = 128, doc_sub_project_id = 102, doc_phase_id = 104,
        doc_acceptance_step_id = None, doc_doc_type = ''contract'', doc_file_name = ''contract.pdf'',
        doc_display_name = ''contract.pdf'',
        doc_file_path = ''00000000-0000-0000-0000-000000000066/00000000-0000-0000-0000-000000000068/00000000-0000-0000-0000-000000000007.pdf'',
        doc_file_size = 8, doc_version = 2, doc_is_latest = False, doc_is_deleted = True,
        doc_scan_status = scan_status.pending, doc_scan_result = None, doc_scanned_at = None,
        doc_uploader_id = 2, doc_created_at = 1000, doc_updated_at = 1000\<rparr>, world14)"
  by (simp add: run_simps demo_start_def world1_def world2_def world3_def world4_def world5_def
    world6_def world7_def world8_def world9_def world10_def world11_def world12_def world13_def
    world14_def delete_document_def delete_document_roles_def ensure_can_delete_document_def
    ensure_scope_allows_upload_def ensure_visible_def get_authorized_document_def
    get_document_def get_existing_phase_def get_existing_scope_def get_existing_sub_project_def
    get_member_def is_multi_instance_document_def list_group_documents_def
    locked_sub_project_statuses_def mark_deleted_def multi_instance_document_types_def
    replacement_document_def restore_latest_def restore_replacement_def save_document_def
    view_all_phase_roles_def)

definition world15 :: database where
  "world15 = world14\<lparr>phases := [\<lparr>ph_id = 104, ph_sub_project_id = 102,
     ph_phase_no = 1, ph_code = ''initiation'', ph_name = [CHR 0xE7, CHR 0xAB, CHR 0x8B, CHR 0xE9,
     CHR 0xA1, CHR 0xB9], ph_status = phase_status.completed, ph_enter_at = Some 1000,
     ph_finish_at = Some 1000, ph_procurement_type = None, ph_created_at = 1000,
     ph_updated_at = 1000\<rparr>, \<lparr>ph_id = 105, ph_sub_project_id = 102, ph_phase_no = 2,
     ph_code = ''procurement'', ph_name = [CHR 0xE9, CHR 0x87, CHR 0x87, CHR 0xE8, CHR 0xB4,
     CHR 0xAD], ph_status = phase_status.in_progress, ph_enter_at = Some 1000, ph_finish_at = None,
     ph_procurement_type = None, ph_created_at = 1000, ph_updated_at = 1000\<rparr>,
     \<lparr>ph_id = 106, ph_sub_project_id = 102, ph_phase_no = 3, ph_code = ''contract'',
     ph_name = [CHR 0xE5, CHR 0x90, CHR 0x88, CHR 0xE5, CHR 0x90, CHR 0x8C], ph_status = waiting,
     ph_enter_at = None, ph_finish_at = None, ph_procurement_type = None, ph_created_at = 1000,
     ph_updated_at = 1000\<rparr>, \<lparr>ph_id = 107, ph_sub_project_id = 102, ph_phase_no = 4,
     ph_code = ''acceptance'', ph_name = [CHR 0xE9, CHR 0xAA, CHR 0x8C, CHR 0xE6, CHR 0x94,
     CHR 0xB6], ph_status = waiting, ph_enter_at = None, ph_finish_at = None,
     ph_procurement_type = None, ph_created_at = 1000, ph_updated_at = 1000\<rparr>,
     \<lparr>ph_id = 108, ph_sub_project_id = 102, ph_phase_no = 5, ph_code = ''payment'',
     ph_name = [CHR 0xE4, CHR 0xBB, CHR 0x98, CHR 0xE6, CHR 0xAC, CHR 0xBE],
     ph_status = phase_status.in_progress, ph_enter_at = Some 1000, ph_finish_at = None,
     ph_procurement_type = None, ph_created_at = 1000, ph_updated_at = 1000\<rparr>,
     \<lparr>ph_id = 109, ph_sub_project_id = 102, ph_phase_no = 6, ph_code = ''post_review'',
     ph_name = [CHR 0xE5, CHR 0x90, CHR 0x8E, CHR 0xE8, CHR 0xAF, CHR 0x84, CHR 0xE4, CHR 0xBB,
     CHR 0xB7], ph_status = phase_status.in_progress, ph_enter_at = Some 1000, ph_finish_at = None,
     ph_procurement_type = None, ph_created_at = 1000, ph_updated_at = 1000\<rparr>],
     histories := [\<lparr>hist_id = 129, hist_phase_id = 104,
        hist_from_status = phase_status.in_progress, hist_to_status = phase_status.completed,
        hist_changed_by_id = 2, hist_changed_at = 1000, hist_note = ''promoted''\<rparr>],
     next_uuid := 130\<rparr>"

lemma check15:
  "check_promotion the_leader 104 world14 = Inr (
     \<lparr>ph_id = 104, ph_sub_project_id = 102, ph_phase_no = 1,
        ph_code = ''initiation'', ph_name = [CHR 0xE7, CHR 0xAB, CHR 0x8B, CHR 0xE9, CHR 0xA1,
        CHR 0xB9], ph_status = phase_status.in_progress, ph_enter_at = Some 1000,
        ph_finish_at = None, ph_procurement_type = None, ph_created_at = 1000,
        ph_updated_at = 1000\<rparr>,
     \<lparr>sp_id = 102, sp_project_no = ''Z-2026-0001-ZX-001'',
        sp_name = ''Pumps'', sp_main_project_id = 100, sp_dept_id = 10, sp_budget = 5000,
        sp_manager_id = 2, sp_creator_id = Some 2, sp_status = sub_project_status.in_progress,
  sp_plan_end_date = None, sp_actual_end_date = None, sp_spent_amount = 4500, sp_remark = None,
        sp_closed_at = None, sp_workflow_version_id = None, sp_created_at = 1000,
        sp_updated_at = 1000\<rparr>)"
  by (simp add: run_simps demo_start_def world1_def world2_def world3_def world4_def world5_def
    world6_def world7_def world8_def world9_def world10_def world11_def world12_def world13_def
  world14_def activate_phase_def active_voucher_count_def check_promotion_def complete_phase_def
    counts_vouchers_def coverage_is_satisfied_def ensure_acceptance_steps_completed_def
    ensure_can_operate_phase_def ensure_phase_dependencies_completed_def
    ensure_procurement_type_selected_def ensure_required_documents_uploaded_def
    get_existing_phase_def get_existing_sub_project_def get_member_def
    get_payment_voucher_coverage_def get_workflow_version_def incomplete_phase_nos_def
    invalid_phase_status_def is_per_payment_rule_def list_acceptance_steps_def
    list_latest_documents_def list_phases_def list_required_doc_templates_def
    matches_qty_rule_def missing_document_entry_def next_phase_to_activate_def
    normalize_rule_def parse_quantity_def payment_voucher_coverage_for_phase_def phase_by_no_def
    required_document_is_satisfied_def required_documents_for_phase_def
    required_documents_from_version_def required_from_definition_def uploaded_count_def)

lemma run15:
  "promote_phase demo_env the_leader 104 world14 =
     Inr ((\<lparr>ph_id = 104, ph_sub_project_id = 102, ph_phase_no = 1,
        ph_code = ''initiation'', ph_name = [CHR 0xE7, CHR 0xAB, CHR 0x8B, CHR 0xE9, CHR 0xA1,
        CHR 0xB9], ph_status = phase_status.completed, ph_enter_at = Some 1000,
        ph_finish_at = Some 1000, ph_procurement_type = None, ph_created_at = 1000,
        ph_updated_at = 1000\<rparr>, Some \<lparr>ph_id = 105, ph_sub_project_id = 102,
        ph_phase_no = 2, ph_code = ''procurement'', ph_name = [CHR 0xE9, CHR 0x87, CHR 0x87,
        CHR 0xE8, CHR 0xB4, CHR 0xAD], ph_status = phase_status.in_progress, ph_enter_at = Some 1000,
        ph_finish_at = None, ph_procurement_type = None, ph_created_at = 1000,
        ph_updated_at = 1000\<rparr>), world15)"
  by (rule promote_run [OF check15])
  (simp add: run_simps demo_start_def world1_def world2_def world3_def world4_def world5_def
    world6_def world7_def world8_def world9_def world10_def world11_def world12_def world13_def
    world14_def world15_def list_phases_def next_phase_to_activate_def complete_phase_def
    activate_phase_def; fail)+

definition world16 :: database where
  "world16 = world15\<lparr>revoke_requests := [\<lparr>rr_id = 130, rr_phase_id = 104,
     rr_sub_project_id = 102, rr_requester_id = 2, rr_reason = ''wrong file'',
     rr_keep_documents = False, rr_status = revoke_status.pending, rr_reviewer_id = None,
     rr_review_comment = None, rr_reviewed_at = None, rr_created_at = 1000,
     rr_updated_at = 1000\<rparr>],
     next_uuid := 131\<rparr>"

lemma run16:
  "submit_revoke_request demo_env the_leader 104 ''wrong file'' False world15 =
     Inr (\<lparr>rr_id = 130, rr_phase_id = 104, rr_sub_project_id = 102, rr_requester_id = 2,
        rr_reason = ''wrong file'', rr_keep_documents = False, rr_status = revoke_status.pending,
        rr_reviewer_id = None, rr_review_comment = None, rr_reviewed_at = None, rr_created_at = 1000,
        rr_updated_at = 1000\<rparr>, world16)"
  by (simp add: run_simps demo_start_def world1_def world2_def world3_def world4_def world5_def
    world6_def world7_def world8_def world9_def world10_def world11_def world12_def world13_def
    world14_def world15_def world16_def add_revoke_request_def ensure_phase_can_be_revoked_def
    ensure_project_leader_def get_existing_phase_def get_existing_sub_project_def
    get_pending_request_by_phase_def list_active_user_ids_by_role_def
    locked_revoke_sub_project_statuses_def send_revoke_pending_notification_def
    submit_revoke_request_def unique_receivers_def)

definition world17 :: database where
  "world17 = world16\<lparr>phases := [\<lparr>ph_id = 104, ph_sub_project_id = 102,
     ph_phase_no = 1, ph_code = ''initiation'', ph_name = [CHR 0xE7, CHR 0xAB, CHR 0x8B, CHR 0xE9,
     CHR 0xA1, CHR 0xB9], ph_status = phase_status.in_progress, ph_enter_at = Some 1000,
     ph_finish_at = None, ph_procurement_type = None, ph_created_at = 1000,
     ph_updated_at = 1000\<rparr>, \<lparr>ph_id = 105, ph_sub_project_id = 102, ph_phase_no = 2,
     ph_code = ''procurement'', ph_name = [CHR 0xE9, CHR 0x87, CHR 0x87, CHR 0xE8, CHR 0xB4,
     CHR 0xAD], ph_status = phase_status.in_progress, ph_enter_at = Some 1000, ph_finish_at = None,
     ph_procurement_type = None, ph_created_at = 1000, ph_updated_at = 1000\<rparr>,
     \<lparr>ph_id = 106, ph_sub_project_id = 102, ph_phase_no = 3, ph_code = ''contract'',
     ph_name = [CHR 0xE5, CHR 0x90, CHR 0x88, CHR 0xE5, CHR 0x90, CHR 0x8C], ph_status = waiting,
     ph_enter_at = None, ph_finish_at = None, ph_procurement_type = None, ph_created_at = 1000,
     ph_updated_at = 1000\<rparr>, \<lparr>ph_id = 107, ph_sub_project_id = 102, ph_phase_no = 4,
     ph_code = ''acceptance'', ph_name = [CHR 0xE9, CHR 0xAA, CHR 0x8C, CHR 0xE6, CHR 0x94,
     CHR 0xB6], ph_status = waiting, ph_enter_at = None, ph_finish_at = None,
     ph_procurement_type = None, ph_created_at = 1000, ph_updated_at = 1000\<rparr>,
     \<lparr>ph_id = 108, ph_sub_project_id = 102, ph_phase_no = 5, ph_code = ''payment'',
     ph_name = [CHR 0xE4, CHR 0xBB, CHR 0x98, CHR 0xE6, CHR 0xAC, CHR 0xBE],
     ph_status = phase_status.in_progress, ph_enter_at = Some 1000, ph_finish_at = None,
     ph_procurement_type = None, ph_created_at = 1000, ph_updated_at = 1000\<rparr>,
     \<lparr>ph_id = 109, ph_sub_project_id = 102, ph_phase_no = 6, ph_code = ''post_review'',
     ph_name = [CHR 0xE5, CHR 0x90, CHR 0x8E, CHR 0xE8, CHR 0xAF, CHR 0x84, CHR 0xE4, CHR 0xBB,
     CHR 0xB7], ph_status = phase_status.in_progress, ph_enter_at = Some 1000, ph_finish_at = None,
     ph_procurement_type = None, ph_created_at = 1000, ph_updated_at = 1000\<rparr>],
     histories := [\<lparr>hist_id = 129, hist_phase_id = 104,
        hist_from_status = phase_status.in_progress, hist_to_status = phase_status.completed,
        hist_changed_by_id = 2, hist_changed_at = 1000, hist_note = ''promoted''\<rparr>,
        \<lparr>hist_id = 131, hist_phase_id = 104, hist_from_status = phase_status.completed,
        hist_to_status = phase_status.in_progress, hist_changed_by_id = 1, hist_changed_at = 1000,
        hist_note = ''revoked''\<rparr>],
     documents := [\<lparr>doc_id = 112, doc_no = 113, doc_sub_project_id = 102,
        doc_phase_id = 108, doc_acceptance_step_id = None, doc_doc_type = ''payment_voucher'',
        doc_file_name = ''invoice.pdf'', doc_display_name = ''invoice.pdf'',
        doc_file_path = ''00000000-0000-0000-0000-000000000066/00000000-0000-0000-0000-00000000006c/00000000-0000-0000-0000-000000000007.pdf'',
        doc_file_size = 8, doc_version = 1, doc_is_latest = True, doc_is_deleted = False,
        doc_scan_status = clean, doc_scan_result = None, doc_scanned_at = None, doc_uploader_id = 3,
        doc_created_at = 1000, doc_updated_at = 1000\<rparr>, \<lparr>doc_id = 116, doc_no = 117,
        doc_sub_project_id = 102, doc_phase_id = 108, doc_acceptance_step_id = None,
        doc_doc_type = ''payment_voucher'', doc_file_name = ''invoice.pdf'',
        doc_display_name = ''invoice.pdf'',
        doc_file_path = ''00000000-0000-0000-0000-000000000066/00000000-0000-0000-0000-00000000006c/00000000-0000-0000-0000-000000000007.pdf'',
        doc_file_size = 8, doc_version = 2, doc_is_latest = True, doc_is_deleted = False,
        doc_scan_status = clean, doc_scan_result = None, doc_scanned_at = None, doc_uploader_id = 3,
        doc_created_at = 1000, doc_updated_at = 1000\<rparr>, \<lparr>doc_id = 125, doc_no = 126,
        doc_sub_project_id = 102, doc_phase_id = 104, doc_acceptance_step_id = None,
        doc_doc_type = ''contract'', doc_file_name = ''contract.pdf'',
        doc_display_name = ''contract.pdf'',
        doc_file_path = ''00000000-0000-0000-0000-000000000066/00000000-0000-0000-0000-000000000068/00000000-0000-0000-0000-000000000007.pdf'',
        doc_file_size = 8, doc_version = 1, doc_is_latest = True, doc_is_deleted = True,
        doc_scan_status = scan_status.pending, doc_scan_result = None, doc_scanned_at = None,
        doc_uploader_id = 2, doc_created_at = 1000, doc_updated_at = 1000\<rparr>,
        \<lparr>doc_id = 127, doc_no = 128, doc_sub_project_id = 102, doc_phase_id = 104,
        doc_acceptance_step_id = None, doc_doc_type = ''contract'', doc_file_name = ''contract.pdf'',
        doc_display_name = ''contract.pdf'',
        doc_file_path = ''00000000-0000-0000-0000-000000000066/00000000-0000-0000-0000-000000000068/00000000-0000-0000-0000-000000000007.pdf'',
        doc_file_size = 8, doc_version = 2, doc_is_latest = False, doc_is_deleted = True,
        doc_scan_status = scan_status.pending, doc_scan_result = None, doc_scanned_at = None,
        doc_uploader_id = 2, doc_created_at = 1000, doc_updated_at = 1000\<rparr>],
     revoke_requests := [\<lparr>rr_id = 130, rr_phase_id = 104, rr_sub_project_id = 102,
        rr_requester_id = 2, rr_reason = ''wrong file'', rr_keep_documents = False,
        rr_status = revoke_status.approved, rr_reviewer_id = Some 1, rr_review_comment = None,
        rr_reviewed_at = Some 1000, rr_created_at = 1000, rr_updated_at = 1000\<rparr>],
     next_uuid := 132\<rparr>"

lemma run17:
  "review_revoke_request demo_env the_manager 130 revoke_review_decision.approve None world16 =
     Inr (\<lparr>rr_id = 130, rr_phase_id = 104, rr_sub_project_id = 102, rr_requester_id = 2,
        rr_reason = ''wrong file'', rr_keep_documents = False, rr_status = revoke_status.approved,
        rr_reviewer_id = Some 1, rr_review_comment = None, rr_reviewed_at = Some 1000,
        rr_created_at = 1000, rr_updated_at = 1000\<rparr>, world17)"
  by (simp add: run_simps demo_start_def world1_def world2_def world3_def world4_def world5_def
    world6_def world7_def world8_def world9_def world10_def world11_def world12_def world13_def
    world14_def world15_def world16_def world17_def apply_approval_def
    build_revoke_audit_state_def decide_revoke_def enqueue_audit_def
    ensure_can_review_revoke_def ensure_phase_can_be_revoked_def get_existing_phase_def
    get_existing_revoke_request_def get_existing_sub_project_def get_revoke_request_def
    list_latest_documents_for_update_def list_phase_tasks_def
    locked_revoke_sub_project_statuses_def record_context_audit_def reopen_phase_def
    review_revoke_request_def revoke_review_extra_def save_document_def save_revoke_request_def
    send_revoke_result_notification_def soft_delete_document_def to_audit_context_def
    unique_receivers_def view_all_revoke_roles_def)

definition world18 :: database where
  "world18 = world17\<lparr>sub_projects := [\<lparr>sp_id = 102,
     sp_project_no = ''Z-2026-0001-ZX-001'', sp_name = ''Pumps'', sp_main_project_id = 100,
     sp_dept_id = 10, sp_budget = 5000, sp_manager_id = 5, sp_creator_id = Some 2,
     sp_status = sub_project_status.in_progress, sp_plan_end_date = None, sp_actual_end_date = None,
     sp_spent_amount = 4500, sp_remark = None, sp_closed_at = None, sp_workflow_version_id = None,
     sp_created_at = 1000, sp_updated_at = 1000\<rparr>],
     members := [\<lparr>mem_id = 103, mem_sub_project_id = 102, mem_user_id = 2,
        mem_role = member_role.proj_member, mem_joined_at = 1000, mem_updated_at = 1000\<rparr>,
        \<lparr>mem_id = 120, mem_sub_project_id = 102, mem_user_id = 4,
        mem_role = member_role.proj_member, mem_joined_at = 1000, mem_updated_at = 1000\<rparr>,
        \<lparr>mem_id = 132, mem_sub_project_id = 102, mem_user_id = 5,
        mem_role = member_role.proj_leader, mem_joined_at = 1000, mem_updated_at = 1000\<rparr>],
     handovers := [\<lparr>ho_id = 133, ho_sub_project_id = 102, ho_from_user_id = 2,
        ho_to_user_id = 5, ho_reason = ''leave'', ho_operator_id = 0, ho_operated_at = 1000\<rparr>],
     next_uuid := 134\<rparr>"

lemma run18:
  "handover_sub_project demo_env the_admin 102 5 ''leave'' None world17 =
     Inr (\<lparr>sp_id = 102, sp_project_no = ''Z-2026-0001-ZX-001'', sp_name = ''Pumps'',
        sp_main_project_id = 100, sp_dept_id = 10, sp_budget = 5000, sp_manager_id = 5,
        sp_creator_id = Some 2, sp_status = sub_project_status.in_progress, sp_plan_end_date = None,
        sp_actual_end_date = None, sp_spent_amount = 4500, sp_remark = None, sp_closed_at = None,
        sp_workflow_version_id = None, sp_created_at = 1000, sp_updated_at = 1000\<rparr>, world18)"
  by (simp add: run_simps demo_start_def world1_def world2_def world3_def world4_def world5_def
    world6_def world7_def world8_def world9_def world10_def world11_def world12_def world13_def
    world14_def world15_def world16_def world17_def world18_def active_handover_statuses_def
    active_member_ids_def get_existing_sub_project_def get_member_def get_user_def
    handover_sub_project_def invalid_sub_status_def list_members_def
    upsert_handover_members_def)

definition world19 :: database where
  "world19 = world18\<lparr>handover_requests := [\<lparr>hr_id = 134, hr_from_user_id = 5,
     hr_to_user_id = 2, hr_reason = ''back'', hr_status = pending_candidate,
     hr_candidate_comment = None, hr_candidate_responded_at = None, hr_reviewer_id = None,
     hr_review_comment = None, hr_reviewed_at = None, hr_forced_by_id = None, hr_forced_at = None,
     hr_created_at = 1000, hr_updated_at = 1000\<rparr>],
     request_projects := [\<lparr>hrp_id = 135, hrp_request_id = 134,
        hrp_sub_project_id = 102\<rparr>],
     next_uuid := 136\<rparr>"

lemma run19:
  "submit_handover_request demo_env the_deputy [102] 2 ''back'' world18 =
     Inr (\<lparr>hd_request = \<lparr>hr_id = 134, hr_from_user_id = 5, hr_to_user_id = 2,
        hr_reason = ''back'', hr_status = pending_candidate, hr_candidate_comment = None,
        hr_candidate_responded_at = None, hr_reviewer_id = None, hr_review_comment = None,
        hr_reviewed_at = None, hr_forced_by_id = None, hr_forced_at = None, hr_created_at = 1000,
        hr_updated_at = 1000\<rparr>, hd_sub_project_ids = [102]\<rparr>, world19)"
  by (simp add: run_simps demo_start_def world1_def world2_def world3_def world4_def world5_def
    world6_def world7_def world8_def world9_def world10_def world11_def world12_def world13_def
    world14_def world15_def world16_def world17_def world18_def world19_def
    active_handover_statuses_def add_handover_request_def add_request_project_def
    deduplicate_ids_def enqueue_audit_def ensure_active_project_def
    get_active_project_leader_def get_existing_sub_project_def get_user_def notify_handover_def
    record_handover_audit_def submit_handover_request_def to_audit_context_def)

definition world20 :: database where
  "world20 = world19\<lparr>handover_requests := [\<lparr>hr_id = 134, hr_from_user_id = 5,
     hr_to_user_id = 2, hr_reason = ''back'', hr_status = handover_status.pending_review,
     hr_candidate_comment = None, hr_candidate_responded_at = Some 1000, hr_reviewer_id = None,
     hr_review_comment = None, hr_reviewed_at = None, hr_forced_by_id = None, hr_forced_at = None,
     hr_created_at = 1000, hr_updated_at = 1000\<rparr>]\<rparr>"

lemma run20:
  "review_candidate demo_env the_leader 134 handover_candidate_decision.confirm None world19 =
     Inr (\<lparr>hd_request = \<lparr>hr_id = 134, hr_from_user_id = 5, hr_to_user_id = 2,
        hr_reason = ''back'', hr_status = handover_status.pending_review,
        hr_candidate_comment = None, hr_candidate_responded_at = Some 1000, hr_reviewer_id = None,
        hr_review_comment = None, hr_reviewed_at = None, hr_forced_by_id = None, hr_forced_at = None,
        hr_created_at = 1000, hr_updated_at = 1000\<rparr>, hd_sub_project_ids = [102]\<rparr>,
        world20)"
  by (simp add: run_simps demo_start_def world1_def world2_def world3_def world4_def world5_def
    world6_def world7_def world8_def world9_def world10_def world11_def world12_def world13_def
    world14_def world15_def world16_def world17_def world18_def world19_def world20_def
    answer_request_def get_existing_handover_request_def get_existing_sub_project_def
    get_handover_request_def invalid_request_status_def list_active_user_ids_by_role_def
    list_request_project_ids_def notify_handover_def review_candidate_def reviewer_receivers_def
    save_handover_request_def)

definition world21 :: database where
  "world21 = world20\<lparr>sub_projects := [\<lparr>sp_id = 102,
     sp_project_no = ''Z-2026-0001-ZX-001'', sp_name = ''Pumps'', sp_main_project_id = 100,
     sp_dept_id = 10, sp_budget = 5000, sp_manager_id = 2, sp_creator_id = Some 2,
     sp_status = sub_project_status.in_progress, sp_plan_end_date = None, sp_actual_end_date = None,
     sp_spent_amount = 4500, sp_remark = None, sp_closed_at = None, sp_workflow_version_id = None,
     sp_created_at = 1000, sp_updated_at = 1000\<rparr>],
     members := [\<lparr>mem_id = 103, mem_sub_project_id = 102, mem_user_id = 2,
        mem_role = member_role.proj_leader, mem_joined_at = 1000, mem_updated_at = 1000\<rparr>,
        \<lparr>mem_id = 120, mem_sub_project_id = 102, mem_user_id = 4,
        mem_role = member_role.proj_member, mem_joined_at = 1000, mem_updated_at = 1000\<rparr>,
        \<lparr>mem_id = 132, mem_sub_project_id = 102, mem_user_id = 5,
        mem_role = member_role.proj_member, mem_joined_at = 1000, mem_updated_at = 1000\<rparr>],
     handovers := [\<lparr>ho_id = 133, ho_sub_project_id = 102, ho_from_user_id = 2,
        ho_to_user_id = 5, ho_reason = ''leave'', ho_operator_id = 0, ho_operated_at = 1000\<rparr>,
        \<lparr>ho_id = 136, ho_sub_project_id = 102, ho_from_user_id = 5, ho_to_user_id = 2,
        ho_reason = ''back'', ho_operator_id = 0, ho_operated_at = 1000\<rparr>],
     handover_requests := [\<lparr>hr_id = 134, hr_from_user_id = 5, hr_to_user_id = 2,
        hr_reason = ''back'', hr_status = handover_status.approved, hr_candidate_comment = None,
        hr_candidate_responded_at = Some 1000, hr_reviewer_id = Some 0, hr_review_comment = None,
        hr_reviewed_at = Some 1000, hr_forced_by_id = None, hr_forced_at = None,
        hr_created_at = 1000, hr_updated_at = 1000\<rparr>],
     next_uuid := 137\<rparr>"

lemma run21:
  "review_handover_request demo_env the_admin 134 handover_review_decision.approve None world20 =
     Inr (\<lparr>hd_request = \<lparr>hr_id = 134, hr_from_user_id = 5, hr_to_user_id = 2,
        hr_reason = ''back'', hr_status = handover_status.approved, hr_candidate_comment = None,
        hr_candidate_responded_at = Some 1000, hr_reviewer_id = Some 0, hr_review_comment = None,
        hr_reviewed_at = Some 1000, hr_forced_by_id = None, hr_forced_at = None,
        hr_created_at = 1000, hr_updated_at = 1000\<rparr>, hd_sub_project_ids = [102]\<rparr>,
        world21)"
  by (simp add: run_simps demo_start_def world1_def world2_def world3_def world4_def world5_def
    world6_def world7_def world8_def world9_def world10_def world11_def world12_def world13_def
    world14_def world15_def world16_def world17_def world18_def world19_def world20_def
    world21_def active_handover_statuses_def apply_transfer_def decide_request_def
    enqueue_audit_def ensure_active_project_def ensure_can_review_handover_def
    get_active_project_leader_def get_existing_handover_request_def get_existing_sub_project_def
    get_handover_request_def get_member_def get_user_def handover_list_members_def
    invalid_request_status_def list_request_project_ids_def notify_handover_def
    record_handover_audit_def review_handover_request_def save_handover_request_def
    to_audit_context_def transfer_project_def upsert_request_members_def)

definition world22 :: database where
  "world22 = world21\<lparr>project_types := [\<lparr>pt_id = 137, pt_code = ''civil'',
     pt_name = ''Civil'', pt_description = None, pt_is_builtin = False, pt_is_active = True\<rparr>],
     next_uuid := 138\<rparr>"

lemma run22:
  "create_project_type demo_env the_admin ''civil'' ''Civil'' None world21 =
     Inr (\<lparr>pt_id = 137, pt_code = ''civil'', pt_name = ''Civil'', pt_description = None,
        pt_is_builtin = False, pt_is_active = True\<rparr>, world22)"
  by (simp add: run_simps demo_start_def world1_def world2_def world3_def world4_def world5_def
    world6_def world7_def world8_def world9_def world10_def world11_def world12_def world13_def
    world14_def world15_def world16_def world17_def world18_def world19_def world20_def
    world21_def world22_def add_project_type_def create_project_type_def
    get_project_type_by_code_def)

definition world23 :: database where
  "world23 = world22\<lparr>workflow_templates := [\<lparr>wt_id = 138, wt_project_type_id = 137,
     wt_name = ''Short'', wt_description = None, wt_status = draft, wt_created_by_id = Some 0,
     wt_created_at = 1000\<rparr>],
     workflow_versions := [\<lparr>wv_id = 139, wv_template_id = 138, wv_version_no = 1,
        wv_status = draft, wv_phase_definitions = [], wv_published_at = None\<rparr>],
     next_uuid := 140\<rparr>"

lemma run23:
  "create_template demo_env the_admin 137 ''Short'' None world22 =
     Inr (\<lparr>wt_id = 138, wt_project_type_id = 137, wt_name = ''Short'',
        wt_description = None, wt_status = draft, wt_created_by_id = Some 0,
        wt_created_at = 1000\<rparr>, world23)"
  by (simp add: run_simps demo_start_def world1_def world2_def world3_def world4_def world5_def
    world6_def world7_def world8_def world9_def world10_def world11_def world12_def world13_def
    world14_def world15_def world16_def world17_def world18_def world19_def world20_def
    world21_def world22_def world23_def add_template_def add_template_version_def
    create_template_def get_project_type_def next_template_version_no_def)

definition world24 :: database where
  "world24 = world23\<lparr>workflow_versions := [\<lparr>wv_id = 139, wv_template_id = 138,
     wv_version_no = 1, wv_status = draft, wv_phase_definitions = [\<lparr>pd_key = ''plan'',
     pd_name = ''Plan'', pd_order = 1, pd_required_documents = []\<rparr>],
     wv_published_at = None\<rparr>]\<rparr>"

lemma run24:
  "update_phase_definitions demo_env the_admin 139 demo_phases world23 =
     Inr (\<lparr>wv_id = 139, wv_template_id = 138, wv_version_no = 1, wv_status = draft,
        wv_phase_definitions = [\<lparr>pd_key = ''plan'', pd_name = ''Plan'', pd_order = 1,
        pd_required_documents = []\<rparr>], wv_published_at = None\<rparr>, world24)"
  by (simp add: run_simps demo_start_def world1_def world2_def world3_def world4_def world5_def
    world6_def world7_def world8_def world9_def world10_def world11_def world12_def world13_def
    world14_def world15_def world16_def world17_def world18_def world19_def world20_def
    world21_def world22_def world23_def world24_def dump_phase_definition_def
    dump_required_document_def get_version_or_raise_def get_workflow_version_def
    replace_phase_definitions_def save_template_version_def update_phase_definitions_def)

definition world25 :: database where
  "world25 = world24\<lparr>workflow_versions := [\<lparr>wv_id = 139, wv_template_id = 138,
     wv_version_no = 1, wv_status = published, wv_phase_definitions = [\<lparr>pd_key = ''plan'',
     pd_name = ''Plan'', pd_order = 1, pd_required_documents = []\<rparr>],
     wv_published_at = Some 1000\<rparr>]\<rparr>"

lemma run25:
  "publish_template_version demo_env the_admin 139 world24 =
     Inr (\<lparr>wv_id = 139, wv_template_id = 138, wv_version_no = 1, wv_status = published,
        wv_phase_definitions = [\<lparr>pd_key = ''plan'', pd_name = ''Plan'', pd_order = 1,
        pd_required_documents = []\<rparr>], wv_published_at = Some 1000\<rparr>, world25)"
  by (simp add: run_simps demo_start_def world1_def world2_def world3_def world4_def world5_def
    world6_def world7_def world8_def world9_def world10_def world11_def world12_def world13_def
    world14_def world15_def world16_def world17_def world18_def world19_def world20_def
    world21_def world22_def world23_def world24_def world25_def get_version_or_raise_def
    get_workflow_version_def publication_state_def publish_template_version_def
    save_template_version_def)

definition world26 :: database where
  "world26 = world25\<lparr>sub_projects := [\<lparr>sp_id = 102,
     sp_project_no = ''Z-2026-0001-ZX-001'', sp_name = ''Pumps'', sp_main_project_id = 100,
     sp_dept_id = 10, sp_budget = 5000, sp_manager_id = 2, sp_creator_id = Some 2,
     sp_status = terminated, sp_plan_end_date = None, sp_actual_end_date = Some (Date 2026 3 2),
     sp_spent_amount = 4500, sp_remark = None, sp_closed_at = Some 1000,
     sp_workflow_version_id = None, sp_created_at = 1000, sp_updated_at = 1000\<rparr>]\<rparr>"

lemma run26:
  "terminate_sub_project demo_env the_manager 102 ''cancelled'' world25 =
     Inr (\<lparr>sp_id = 102, sp_project_no = ''Z-2026-0001-ZX-001'', sp_name = ''Pumps'',
        sp_main_project_id = 100, sp_dept_id = 10, sp_budget = 5000, sp_manager_id = 2,
        sp_creator_id = Some 2, sp_status = terminated, sp_plan_end_date = None,
        sp_actual_end_date = Some (Date 2026 3 2), sp_spent_amount = 4500, sp_remark = None,
        sp_closed_at = Some 1000, sp_workflow_version_id = None, sp_created_at = 1000,
        sp_updated_at = 1000\<rparr>, world26)"
  by (simp add: run_simps demo_start_def world1_def world2_def world3_def world4_def world5_def
    world6_def world7_def world8_def world9_def world10_def world11_def world12_def world13_def
    world14_def world15_def world16_def world17_def world18_def world19_def world20_def
    world21_def world22_def world23_def world24_def world25_def world26_def
    get_existing_sub_project_def invalid_sub_status_def terminate_sub_project_def)

definition world27 :: database where
  "world27 = world26\<lparr>main_projects := [\<lparr>mp_id = 100,
     mp_project_no = ''Z-2026-0001'', mp_name = ''Plant'', mp_dept_id = 10,
     mp_status = main_project_status.closed, mp_total_budget = 100000,
     mp_expected_finish_date = Date 2026 12 31, mp_spent_amount = 4500, mp_remark = None,
     mp_closed_at = Some 1000, mp_creator_id = Some 1, mp_project_type_id = None,
     mp_created_at = 1000, mp_updated_at = 1000\<rparr>]\<rparr>"

lemma run27:
  "close_project demo_env the_manager 100 world26 =
     Inr (\<lparr>mp_id = 100, mp_project_no = ''Z-2026-0001'', mp_name = ''Plant'',
        mp_dept_id = 10, mp_status = main_project_status.closed, mp_total_budget = 100000,
        mp_expected_finish_date = Date 2026 12 31, mp_spent_amount = 4500, mp_remark = None,
        mp_closed_at = Some 1000, mp_creator_id = Some 1, mp_project_type_id = None,
        mp_created_at = 1000, mp_updated_at = 1000\<rparr>, world27)"
  by (simp add: run_simps demo_start_def world1_def world2_def world3_def world4_def world5_def
    world6_def world7_def world8_def world9_def world10_def world11_def world12_def world13_def
    world14_def world15_def world16_def world17_def world18_def world19_def world20_def
    world21_def world22_def world23_def world24_def world25_def world26_def world27_def
    close_project_def count_open_sub_projects_def get_existing_project_def
    invalid_main_status_def)

definition world28 :: database where
  "world28 = world27\<lparr>phases := [\<lparr>ph_id = 104, ph_sub_project_id = 102,
     ph_phase_no = 1, ph_code = ''initiation'', ph_name = [CHR 0xE7, CHR 0xAB, CHR 0x8B, CHR 0xE9,
     CHR 0xA1, CHR 0xB9], ph_status = phase_status.completed, ph_enter_at = Some 1000,
     ph_finish_at = Some 1000, ph_procurement_type = None, ph_created_at = 1000,
     ph_updated_at = 1000\<rparr>, \<lparr>ph_id = 105, ph_sub_project_id = 102, ph_phase_no = 2,
     ph_code = ''procurement'', ph_name = [CHR 0xE9, CHR 0x87, CHR 0x87, CHR 0xE8, CHR 0xB4,
     CHR 0xAD], ph_status = phase_status.in_progress, ph_enter_at = Some 1000, ph_finish_at = None,
     ph_procurement_type = None, ph_created_at = 1000, ph_updated_at = 1000\<rparr>,
     \<lparr>ph_id = 106, ph_sub_project_id = 102, ph_phase_no = 3, ph_code = ''contract'',
     ph_name = [CHR 0xE5, CHR 0x90, CHR 0x88, CHR 0xE5, CHR 0x90, CHR 0x8C], ph_status = waiting,
     ph_enter_at = None, ph_finish_at = None, ph_procurement_type = None, ph_created_at = 1000,
     ph_updated_at = 1000\<rparr>, \<lparr>ph_id = 107, ph_sub_project_id = 102, ph_phase_no = 4,
     ph_code = ''acceptance'', ph_name = [CHR 0xE9, CHR 0xAA, CHR 0x8C, CHR 0xE6, CHR 0x94,
     CHR 0xB6], ph_status = waiting, ph_enter_at = None, ph_finish_at = None,
     ph_procurement_type = None, ph_created_at = 1000, ph_updated_at = 1000\<rparr>,
     \<lparr>ph_id = 108, ph_sub_project_id = 102, ph_phase_no = 5, ph_code = ''payment'',
     ph_name = [CHR 0xE4, CHR 0xBB, CHR 0x98, CHR 0xE6, CHR 0xAC, CHR 0xBE],
     ph_status = phase_status.in_progress, ph_enter_at = Some 1000, ph_finish_at = None,
     ph_procurement_type = None, ph_created_at = 1000, ph_updated_at = 1000\<rparr>,
     \<lparr>ph_id = 109, ph_sub_project_id = 102, ph_phase_no = 6, ph_code = ''post_review'',
     ph_name = [CHR 0xE5, CHR 0x90, CHR 0x8E, CHR 0xE8, CHR 0xAF, CHR 0x84, CHR 0xE4, CHR 0xBB,
     CHR 0xB7], ph_status = phase_status.in_progress, ph_enter_at = Some 1000, ph_finish_at = None,
     ph_procurement_type = None, ph_created_at = 1000, ph_updated_at = 1000\<rparr>],
     histories := [\<lparr>hist_id = 129, hist_phase_id = 104,
        hist_from_status = phase_status.in_progress, hist_to_status = phase_status.completed,
        hist_changed_by_id = 2, hist_changed_at = 1000, hist_note = ''promoted''\<rparr>,
        \<lparr>hist_id = 131, hist_phase_id = 104, hist_from_status = phase_status.completed,
        hist_to_status = phase_status.in_progress, hist_changed_by_id = 1, hist_changed_at = 1000,
        hist_note = ''revoked''\<rparr>, \<lparr>hist_id = 140, hist_phase_id = 104,
        hist_from_status = phase_status.in_progress, hist_to_status = phase_status.completed,
        hist_changed_by_id = 2, hist_changed_at = 1000, hist_note = ''promoted''\<rparr>],
     next_uuid := 141\<rparr>"

lemma check28:
  "check_promotion the_leader 104 world27 = Inr (
     \<lparr>ph_id = 104, ph_sub_project_id = 102, ph_phase_no = 1,
        ph_code = ''initiation'', ph_name = [CHR 0xE7, CHR 0xAB, CHR 0x8B, CHR 0xE9, CHR 0xA1,
        CHR 0xB9], ph_status = phase_status.in_progress, ph_enter_at = Some 1000,
        ph_finish_at = None, ph_procurement_type = None, ph_created_at = 1000,
        ph_updated_at = 1000\<rparr>,
     \<lparr>sp_id = 102, sp_project_no = ''Z-2026-0001-ZX-001'',
        sp_name = ''Pumps'', sp_main_project_id = 100, sp_dept_id = 10, sp_budget = 5000,
        sp_manager_id = 2, sp_creator_id = Some 2, sp_status = sub_project_status.terminated,
  sp_plan_end_date = None, sp_actual_end_date = Some (Date 2026 3 2), sp_spent_amount = 4500,
  sp_remark = None, sp_closed_at = Some 1000, sp_workflow_version_id = None, sp_created_at =
    1000,
        sp_updated_at = 1000\<rparr>)"
  by (simp add: run_simps demo_start_def world1_def world2_def world3_def world4_def world5_def
    world6_def world7_def world8_def world9_def world10_def world11_def world12_def world13_def
  world14_def world15_def world16_def world17_def world18_def world19_def world20_def
    world21_def world22_def world23_def world24_def world25_def world26_def world27_def
    activate_phase_def active_voucher_count_def check_promotion_def complete_phase_def
    counts_vouchers_def coverage_is_satisfied_def ensure_acceptance_steps_completed_def
    ensure_can_operate_phase_def ensure_phase_dependencies_completed_def
    ensure_procurement_type_selected_def ensure_required_documents_uploaded_def
    get_existing_phase_def get_existing_sub_project_def get_member_def
    get_payment_voucher_coverage_def get_workflow_version_def incomplete_phase_nos_def
    invalid_phase_status_def is_per_payment_rule_def list_acceptance_steps_def
    list_latest_documents_def list_phases_def list_required_doc_templates_def
    matches_qty_rule_def missing_document_entry_def next_phase_to_activate_def
    normalize_rule_def parse_quantity_def payment_voucher_coverage_for_phase_def phase_by_no_def
    required_document_is_satisfied_def required_documents_for_phase_def
    required_documents_from_version_def required_from_definition_def uploaded_count_def)

lemma run28:
  "promote_phase demo_env the_leader 104 world27 =
     Inr ((\<lparr>ph_id = 104, ph_sub_project_id = 102, ph_phase_no = 1,
        ph_code = ''initiation'', ph_name = [CHR 0xE7, CHR 0xAB, CHR 0x8B, CHR 0xE9, CHR 0xA1,
        CHR 0xB9], ph_status = phase_status.completed, ph_enter_at = Some 1000,
        ph_finish_at = Some 1000, ph_procurement_type = None, ph_created_at = 1000,
        ph_updated_at = 1000\<rparr>, None), world28)"
  by (rule promote_run [OF check28])
  (simp add: run_simps demo_start_def world1_def world2_def world3_def world4_def world5_def
    world6_def world7_def world8_def world9_def world10_def world11_def world12_def world13_def
    world14_def world15_def world16_def world17_def world18_def world19_def world20_def
    world21_def world22_def world23_def world24_def world25_def world26_def world27_def
    world28_def list_phases_def next_phase_to_activate_def complete_phase_def
    activate_phase_def; fail)+

subsection \<open>Reachability\<close>

lemma payment_step:
  "fst (create_payment e actor policy k payload db fs) = Inr (r,
     db') \<Longrightarrow> step db db'"
  by (metis prod.collapse do_create_payment)

lemma upload_step:
  "(case upload_document e actor policy scheduler k u db fs of (r, db, fs) \<Rightarrow> (r,
     db)) = (r, db') \<Longrightarrow>
     step db db'"
  by (auto split: prod.splits intro: do_upload)

lemma reach0: "reachable demo_start"
  unfolding reachable_def by (rule reaches_init) (simp add: initial_def demo_start_def)

lemma reach1: "reachable world1"
  by (rule reachable_step [OF reach0 do_create_project [OF run1]])

lemma reach2: "reachable world2"
  by (rule reachable_step [OF reach1 do_review_project [OF run2]])

lemma reach3: "reachable world3"
  by (rule reachable_step [OF reach2 do_create_sub_project [OF run3]])

lemma reach4: "reachable world4"
  by (rule reachable_step [OF reach3 do_review_sub_project [OF run4]])

lemma reach5: "reachable world5"
  by (rule reachable_step [OF reach4 payment_step [OF run5]])

lemma reach6: "reachable world6"
  by (rule reachable_step [OF reach5 payment_step [OF run6]])

lemma reach7: "reachable world7"
  by (rule reachable_step [OF reach6 do_reverse_payment [OF run7]])

lemma reach8: "reachable world8"
  by (rule reachable_step [OF reach7 do_add_member [OF run8]])

lemma reach9: "reachable world9"
  by (rule reachable_step [OF reach8 do_create_task [OF run9]])

lemma reach10: "reachable world10"
  by (rule reachable_step [OF reach9 do_scan [OF run10]])

lemma reach11: "reachable world11"
  by (rule reachable_step [OF reach10 do_complete_task [OF run11]])

lemma reach12: "reachable world12"
  by (rule reachable_step [OF reach11 upload_step [OF run12]])

lemma reach13: "reachable world13"
  by (rule reachable_step [OF reach12 upload_step [OF run13]])

lemma reach14: "reachable world14"
  by (rule reachable_step [OF reach13 do_delete_document [OF run14]])

lemma reach15: "reachable world15"
  by (rule reachable_step [OF reach14 do_promote [OF run15]])

lemma reach16: "reachable world16"
  by (rule reachable_step [OF reach15 do_submit_revoke [OF run16]])

lemma reach17: "reachable world17"
  by (rule reachable_step [OF reach16 do_review_revoke [OF run17]])

lemma reach18: "reachable world18"
  by (rule reachable_step [OF reach17 do_handover [OF run18]])

lemma reach19: "reachable world19"
  by (rule reachable_step [OF reach18 do_submit_handover [OF run19]])

lemma reach20: "reachable world20"
  by (rule reachable_step [OF reach19 do_review_candidate [OF run20]])

lemma reach21: "reachable world21"
  by (rule reachable_step [OF reach20 do_review_handover [OF run21]])

lemma reach22: "reachable world22"
  by (rule reachable_step [OF reach21 do_create_project_type [OF run22]])

lemma reach23: "reachable world23"
  by (rule reachable_step [OF reach22 do_create_template [OF run23]])

lemma reach24: "reachable world24"
  by (rule reachable_step [OF reach23 do_update_definitions [OF run24]])

lemma reach25: "reachable world25"
  by (rule reachable_step [OF reach24 do_publish [OF run25]])

lemma reach26: "reachable world26"
  by (rule reachable_step [OF reach25 do_terminate_sub_project [OF run26]])

lemma reach27: "reachable world27"
  by (rule reachable_step [OF reach26 do_close_project [OF run27]])

lemma reach28: "reachable world28"
  by (rule reachable_step [OF reach27 do_promote [OF run28]])

end
