(* ===== verification/TaskBoard.thy ===== *)
theory TaskBoard
  imports Integrity
begin

text \<open>
  The task board: the stored status of each task is the aggregate of its executors, a task has
  each user at most once, and task numbers are unique within their sub project.
\<close>

definition task_nos :: "uuid \<Rightarrow> task list \<Rightarrow> string list" where
  "task_nos sid ts = map task_task_no (filter (\<lambda>t. task_sub_project_id t = sid) ts)"

definition task_board_ok :: "database \<Rightarrow> bool" where
  "task_board_ok db \<longleftrightarrow>
     fresh_ids task_id (tasks db) (next_uuid db) \<and>
     fresh_ids ex_id (executors db) (next_uuid db) \<and>
     (\<forall>x \<in> set (executors db). ex_task_id x < next_uuid db) \<and>
     (\<forall>t \<in> set (tasks db). task_status_ok db t) \<and>
     (\<forall>k. distinct (map ex_user_id (executors_of k db))) \<and>
     (\<forall>sid. distinct (task_nos sid (tasks db)))"

lemma unwritten_tasks:
  assumes "evolves W db db'"
  shows "Tasks \<notin> W \<Longrightarrow> tasks db' = tasks db" and "Executors \<notin> W \<Longrightarrow> executors db' = executors db"
    and "next_uuid db \<le> next_uuid db'"
  using assms by (simp_all add: evolves_iff writes_iff)

lemma task_board_same:
  assumes "tasks db' = tasks db" and "executors db' = executors db" and "next_uuid db \<le> next_uuid db'"
    and "task_board_ok db"
  shows "task_board_ok db'"
proof -
  note ok = assms(4) [unfolded task_board_ok_def]
  have "executors_of k db' = executors_of k db" for k by (simp add: executors_of_def assms(2))
  then show ?thesis
    unfolding task_board_ok_def assms(1,2) task_status_ok_def using ok assms(3)
    by (intro conjI) (auto intro: fresh_ids_mono simp: task_status_ok_def)
qed

lemma unwritten_board:
  "evolves W db db' \<Longrightarrow> Tasks \<notin> W \<Longrightarrow> Executors \<notin> W \<Longrightarrow> task_board_ok db \<Longrightarrow> task_board_ok db'"
  by (rule task_board_same) (rule unwritten_tasks; assumption)+

lemma task_nos_keys:
  assumes "map task_task_no ts' = map task_task_no ts"
    and "map task_sub_project_id ts' = map task_sub_project_id ts"
  shows "task_nos sid ts' = task_nos sid ts"
proof -
  have "task_nos sid us = map fst (filter (\<lambda>(n, s). s = sid)
      (zip (map task_task_no us) (map task_sub_project_id us)))" for us
    by (induction us) (simp_all add: task_nos_def)
  with assms show ?thesis by simp
qed

text \<open>A move that keeps the keys of the tasks and the owners of the executors.\<close>

lemma task_board_rows:
  assumes ok: "task_board_ok db" and n: "next_uuid db \<le> next_uuid db'"
    and ids: "map task_id (tasks db') = map task_id (tasks db)"
    and nos: "map task_task_no (tasks db') = map task_task_no (tasks db)"
    and subs: "map task_sub_project_id (tasks db') = map task_sub_project_id (tasks db)"
    and status: "\<forall>t \<in> set (tasks db'). task_status_ok db' t"
    and fresh: "fresh_ids ex_id (executors db') (next_uuid db')"
    and bound: "\<forall>x \<in> set (executors db'). ex_task_id x < next_uuid db'"
    and users: "\<And>k. distinct (map ex_user_id (executors_of k db'))"
  shows "task_board_ok db'"
proof -
  note parts = ok [unfolded task_board_ok_def]
  have "fresh_ids task_id (tasks db) (next_uuid db)" using parts by blast
  then have "fresh_ids task_id (tasks db') (next_uuid db')"
    by (rule grows_fresh [OF grows_same [OF ids n]])
  moreover have "distinct (task_nos sid (tasks db'))" for sid
    using parts task_nos_keys [OF nos subs, of sid] by simp
  ultimately show ?thesis unfolding task_board_ok_def using status fresh bound users by blast
qed

lemma executors_of_users:
  assumes "map ex_task_id xs' = map ex_task_id xs" and "map ex_user_id xs' = map ex_user_id xs"
  shows "map ex_user_id (filter (\<lambda>x. ex_task_id x = k) xs') =
    map ex_user_id (filter (\<lambda>x. ex_task_id x = k) xs)"
proof -
  have "map ex_user_id (filter (\<lambda>x. ex_task_id x = k) ys) =
      map snd (filter (\<lambda>(t, u). t = k) (zip (map ex_task_id ys) (map ex_user_id ys)))" for ys
    by (induction ys) simp_all
  note columns = this [of xs'] this [of xs]
  show ?thesis unfolding columns assms ..
qed

lemma task_bound_columns:
  assumes "map ex_task_id xs' = map ex_task_id xs" and "\<forall>x \<in> set xs. ex_task_id x < n" and "n \<le> n'"
  shows "\<forall>x \<in> set xs'. ex_task_id x < (n' :: uuid)"
proof -
  have "\<forall>i \<in> set (map ex_task_id xs'). i < n'"
    unfolding assms(1) using assms(2,3) by auto
  then show ?thesis by simp
qed

subsection \<open>The moves\<close>

lemma create_task_board:
  assumes "task_board_ok db" and run: "create_task e actor payload db = Inr (t, db')"
  shows "task_board_ok db'"
  using run
proof (rule create_task_effect)
  fix s p xs
  assume t: "tasks db' = tasks db @ [t]" "task_id t = next_uuid db" "task_sub_project_id t = sp_id s"
      "task_task_no t = task_number (sp_project_no s) (next_task_sequence (sp_id s) db)"
    and xs: "executors db' = executors db @ xs" "distinct (map ex_user_id xs)"
      "\<forall>x \<in> set xs. ex_task_id x = task_id t \<and> get_member (sp_id s) (ex_user_id x) db \<noteq> None"
      "map ex_id xs = [Suc (next_uuid db) ..< Suc (next_uuid db) + length xs]"
      "Suc (next_uuid db) + length xs \<le> next_uuid db'"
    and ok: "task_status_ok db' t"
  note parts = assms(1) [unfolded task_board_ok_def]
  have none: "executors_of (next_uuid db) db = []"
    using parts by (fastforce simp: executors_of_def filter_empty_conv)
  have others: "executors_of k db' = executors_of k db" if "k \<noteq> next_uuid db" for k
    using xs(1,3) t(2) that by (auto simp: executors_of_def filter_empty_conv)
  have own: "executors_of (next_uuid db) db' = xs"
  proof -
    have "filter (\<lambda>x. ex_task_id x = next_uuid db) xs = xs" using xs(3) t(2) by (simp add: filter_id_conv)
    with none show ?thesis by (simp add: executors_of_def xs(1))
  qed
  have ids: "map ex_id (executors db') = map ex_id (executors db) @ [Suc (next_uuid db) ..< Suc (next_uuid db) + length xs]"
    by (simp only: xs(1,4) map_append)
  show ?thesis
    unfolding task_board_ok_def
  proof (intro conjI allI)
    show "fresh_ids task_id (tasks db') (next_uuid db')"
      unfolding t(1) using parts t(2) xs(5) by (intro fresh_ids_append [of _ _ "next_uuid db"]) simp_all
    have "grows ex_id (executors db) (executors db') (next_uuid db) (next_uuid db')"
      unfolding grows_def using ids xs(5)
      by (intro conjI exI [of _ "[Suc (next_uuid db) ..< Suc (next_uuid db) + length xs]"]) (auto simp del: upt_Suc)
    then show "fresh_ids ex_id (executors db') (next_uuid db')"
      using parts by (blast intro: grows_fresh)
    show "\<forall>x \<in> set (executors db'). ex_task_id x < next_uuid db'"
      using parts xs t(2) by fastforce
    show "\<forall>u \<in> set (tasks db'). task_status_ok db' u"
    proof
      fix u assume "u \<in> set (tasks db')"
      then have "u = t \<or> u \<in> set (tasks db)" using t(1) by auto
      then show "task_status_ok db' u"
      proof
        assume u: "u \<in> set (tasks db)"
        then have "task_id u \<noteq> next_uuid db" "task_status_ok db u"
          using parts by (auto simp: fresh_ids_def)
        with others show ?thesis by (simp add: task_status_ok_def)
      qed (use ok in simp)
    qed
    show "distinct (map ex_user_id (executors_of k db'))" for k
      using parts xs(2) own others by (cases "k = next_uuid db") simp_all
    show "distinct (task_nos sid (tasks db'))" for sid
      using parts t(1,3,4) task_numbers.distinct_issue [of "task_nos sid (tasks db)" "sp_project_no s"]
      by (auto simp: task_nos_def next_task_sequence_def)
  qed
qed

lemma complete_task_board:
  assumes ok: "task_board_ok db" and run: "complete_task e actor k db = Inr (t, db')"
  shows "task_board_ok db'"
  using run
proof (rule complete_task_effect)
  fix x
  assume x: "x \<in> set (executors db)" "ex_task_id x = k"
    and db': "db' = refresh_task_status e k (save_executor (ex_id x) (complete_executor e) db)"
  note parts = ok [unfolded task_board_ok_def]
  have ids: "distinct (map ex_id (executors db))" using parts by (simp add: fresh_ids_def)
  have f: "ex_id (complete_executor e y) = ex_id y" "ex_task_id (complete_executor e y) = ex_task_id y"
    "ex_user_id (complete_executor e y) = ex_user_id y" for y by (simp_all add: complete_executor_def)
  have rows: "executors db' = update_rows ex_id (ex_id x) (complete_executor e) (executors db)"
    by (simp add: db' save_executor_def)
  show ?thesis
  proof (rule task_board_rows [OF ok])
    show "next_uuid db \<le> next_uuid db'" by (simp add: db')
    show "map task_id (tasks db') = map task_id (tasks db)"
      "map task_task_no (tasks db') = map task_task_no (tasks db)"
      "map task_sub_project_id (tasks db') = map task_sub_project_id (tasks db)" by (simp_all add: db')
    show "\<forall>t \<in> set (tasks db'). task_status_ok db' t"
      unfolding db' using parts distinct_key_eqD [OF ids _ x(1)] x(2) f
      by (intro save_refresh_ok) auto
    show "fresh_ids ex_id (executors db') (next_uuid db')"
    proof -
      have "next_uuid db' = next_uuid db" by (simp add: db')
      with parts show ?thesis by (simp add: rows f)
    qed
    show "\<forall>y \<in> set (executors db'). ex_task_id y < next_uuid db'"
    proof -
      have "map ex_task_id (executors db') = map ex_task_id (executors db)"
        by (simp add: rows map_update_rows f)
      moreover have "next_uuid db \<le> next_uuid db'" by (simp add: db')
      moreover have "\<forall>x \<in> set (executors db). ex_task_id x < next_uuid db" using parts by blast
      ultimately show ?thesis using task_bound_columns by blast
    qed
    show "distinct (map ex_user_id (executors_of j db'))" for j
      unfolding executors_of_def
      by (subst executors_of_users [of _ "executors db"])
        (use parts in \<open>simp_all add: rows map_update_rows f executors_of_def\<close>)
  qed
qed (use ok in simp)

lemma update_task_board:
  assumes ok: "task_board_ok db" and run: "update_task e actor k payload db = Inr (t, db')"
  shows "task_board_ok db'"
proof -
  note parts = ok [unfolded task_board_ok_def]
  have known: "get_task_row k db \<noteq> None"
    using run unfolding update_task_def get_existing_task_def by (auto elim!: result_elims)
  have n: "next_uuid db \<le> next_uuid db'"
    using update_task_writes [THEN yieldsD, OF run] by (simp add: evolves_iff)
  have k: "k < next_uuid db"
    using known parts task_rows.get_SomeD by (fastforce simp: fresh_ids_def)
  have pre: "fresh_ids ex_id (executors db) (next_uuid db)" "\<forall>t \<in> set (tasks db). task_status_ok db t"
    using parts by blast+
  note U = update_task_effect [OF run pre]
  have users: "distinct (map ex_user_id (executors_of j db'))" for j
  proof (cases "j = k")
    case True
    show ?thesis
    proof (cases "tu_executors payload")
      case None
      with U(8) parts show ?thesis by (simp add: executors_of_def)
    next
      case (Some as)
      with U(7) True show ?thesis by blast
    qed
  next
    case False
    from U(2) [OF this] parts show ?thesis unfolding exec_view_users by metis
  qed
  have "ex_task_id x < next_uuid db'" if "x \<in> set (executors db')" for x
  proof (cases "ex_task_id x = k")
    case False
    have "executor_view x \<in> set (view_of (ex_task_id x) db')"
      using that by (auto simp: view_of_executors executors_of_def)
    then have "executor_view x \<in> set (view_of (ex_task_id x) db)" using U(2) [OF False] by simp
    then obtain y where "y \<in> set (executors db)" "ex_task_id y = ex_task_id x"
      by (auto simp: view_of_executors executors_of_def)
    with parts n show ?thesis by fastforce
  qed (use k n in simp)
  then show ?thesis
    by (intro task_board_rows [OF ok n U(4,5,6,3,1) _ users]) blast
qed

lemma scan_board:
  assumes ok: "task_board_ok db" and run: "scan_deadlines e d ids db = (r, db')"
  shows "task_board_ok db'"
proof -
  note parts = ok [unfolded task_board_ok_def]
  have db': "db' = snd (scan_deadlines e d ids db)" using run by simp
  have n: "next_uuid db \<le> next_uuid db'"
    using scan_deadlines_writes [of db e d ids] by (simp add: db' evolves_iff)
  have pre: "\<forall>t \<in> set (tasks db). task_status_ok db t" "fresh_ids ex_id (executors db) (next_uuid db)"
    using parts by blast+
  note K = scan_deadlines_keeps [OF pre db']
  have "\<forall>x \<in> set (executors db'). ex_task_id x < next_uuid db'"
    using parts by (intro task_bound_columns [OF K(6) _ n]) blast
  moreover have "distinct (map ex_user_id (executors_of j db'))" for j
    using parts executors_of_users [OF K(6,7), of j] by (simp add: executors_of_def)
  ultimately show ?thesis by (rule task_board_rows [OF ok n K(3,4,5,1,2)])
qed

lemma task_board_move:
  assumes "task_board_ok db" and "step db db'"
  shows "task_board_ok db'"
  using assms(2)
proof (cases rule: step.cases)
  case (do_create_task e actor payload r)
  then show ?thesis by (rule create_task_board [OF assms(1)])
next
  case (do_update_task e actor k payload r)
  then show ?thesis by (rule update_task_board [OF assms(1)])
next
  case (do_complete_task e actor k r)
  then show ?thesis by (rule complete_task_board [OF assms(1)])
next
  case (do_scan e d ids r)
  then show ?thesis by (rule scan_board [OF assms(1)])
qed (rule unwritten_board [OF _ _ _ assms(1)], erule move_writes, simp, simp)+

interpretation task_board: invariant initial step "\<lambda>_. True" task_board_ok
proof unfold_locales
  show "initial db \<Longrightarrow> task_board_ok db" for db
    by (simp add: initial_def task_board_ok_def executors_of_def task_nos_def)
  show "task_board_ok db \<Longrightarrow> step db db' \<Longrightarrow> task_board_ok db'" for db db' by (rule task_board_move)
qed simp

end
