(* ===== verification/DocumentGroups.thy ===== *)
theory DocumentGroups
  imports Integrity
begin

text \<open>
  Versions of documents.  The documents of one sub project, phase and type form a group.  In a
  group no version occurs twice.  Where a type holds one document at a time, the live document
  that is marked latest has the greatest version of the live ones, so there is at most one;
  payment vouchers, supplier quotes and acceptance reports may have several.
\<close>

subsection \<open>The invariant\<close>

definition group_of :: "document \<Rightarrow> uuid \<times> uuid \<times> string" where
  "group_of d = (doc_sub_project_id d, doc_phase_id d, doc_doc_type d)"

definition single_type :: "string \<Rightarrow> bool" where
  "single_type t \<longleftrightarrow> t \<notin> {''payment_voucher'', ''supplier_quote'', ''acceptance_report''}"

definition versions_distinct :: "document list \<Rightarrow> bool" where
  "versions_distinct ds \<longleftrightarrow> distinct (map (\<lambda>d. (group_of d, doc_version d)) ds)"

definition newest_ok :: "document list \<Rightarrow> bool" where
  "newest_ok ds \<longleftrightarrow> (\<forall>d \<in> set ds. \<forall>x \<in> set ds. doc_is_latest d \<longrightarrow> \<not> doc_is_deleted d \<longrightarrow>
     \<not> doc_is_deleted x \<longrightarrow> group_of x = group_of d \<longrightarrow> single_type (doc_doc_type d) \<longrightarrow>
     doc_version x \<le> doc_version d)"

definition documents_ok :: "database \<Rightarrow> bool" where
  "documents_ok db \<longleftrightarrow> versions_distinct (documents db) \<and> newest_ok (documents db)"

lemma same_group_iff: "same_group sid pid t d \<longleftrightarrow> group_of d = (sid, pid, t)"
  by (auto simp: same_group_def group_of_def)

lemma single_type_multi: "single_type t \<Longrightarrow> \<not> is_multi_instance_document t k"
  by (simp add: single_type_def is_multi_instance_document_def multi_instance_document_types_def)

lemma newest_okD:
  "newest_ok ds \<Longrightarrow> d \<in> set ds \<Longrightarrow> x \<in> set ds \<Longrightarrow> doc_is_latest d \<Longrightarrow> \<not> doc_is_deleted d \<Longrightarrow>
     \<not> doc_is_deleted x \<Longrightarrow> group_of x = group_of d \<Longrightarrow> single_type (doc_doc_type d) \<Longrightarrow>
     doc_version x \<le> doc_version d"
  unfolding newest_ok_def by blast

lemma versions_distinctD:
  "versions_distinct ds \<Longrightarrow> d \<in> set ds \<Longrightarrow> x \<in> set ds \<Longrightarrow> group_of d = group_of x \<Longrightarrow>
     doc_version d = doc_version x \<Longrightarrow> d = x"
  unfolding versions_distinct_def by (auto dest: distinct_key_eqD)

text \<open>Rows are demoted: some lose the latest mark or are deleted.\<close>

definition demotes :: "(document \<Rightarrow> document) \<Rightarrow> bool" where
  "demotes f \<longleftrightarrow> (\<forall>d. group_of (f d) = group_of d \<and> doc_version (f d) = doc_version d \<and>
     (doc_is_latest (f d) \<longrightarrow> doc_is_latest d) \<and> (\<not> doc_is_deleted (f d) \<longrightarrow> \<not> doc_is_deleted d))"

lemma versions_distinct_map:
  assumes "\<And>d. d \<in> set ds \<Longrightarrow> group_of (f d) = group_of d \<and> doc_version (f d) = doc_version d"
    and "versions_distinct ds"
  shows "versions_distinct (map f ds)"
proof -
  have "map (\<lambda>d. (group_of d, doc_version d)) (map f ds) = map (\<lambda>d. (group_of d, doc_version d)) ds"
    using assms(1) by simp
  with assms(2) show ?thesis unfolding versions_distinct_def by (simp only:)
qed

lemma demoted_ok:
  assumes "demotes f" and "versions_distinct ds \<and> newest_ok ds"
  shows "versions_distinct (map f ds) \<and> newest_ok (map f ds)"
proof
  show "versions_distinct (map f ds)"
    using assms by (intro versions_distinct_map) (auto simp: demotes_def)
  have t: "doc_doc_type (f d) = doc_doc_type d" for d
    using assms(1) by (simp add: demotes_def group_of_def)
  show "newest_ok (map f ds)"
    using assms unfolding newest_ok_def demotes_def by (simp add: t)
qed

lemma demotes_if: "demotes f \<Longrightarrow> demotes (\<lambda>d. if P d then f d else d)"
  by (simp add: demotes_def)

lemma demotes_writes:
  "demotes clear_latest" "demotes (clear_latest_at e)" "demotes (mark_deleted e)"
  "demotes (soft_delete_document e)"
  "demotes (\<lambda>d. d\<lparr>doc_is_deleted := True, doc_updated_at := t\<rparr>)"
  by (simp_all add: demotes_def group_of_def clear_latest_def clear_latest_at_def mark_deleted_def
      soft_delete_document_def)

text \<open>A document joins its group with a greater version than any other.\<close>

lemma join_ok:
  assumes "versions_distinct ds \<and> newest_ok ds"
    and "\<forall>x \<in> set ds. group_of x = group_of d \<longrightarrow> doc_version x < doc_version d"
    and "single_type (doc_doc_type d) \<Longrightarrow>
      \<forall>x \<in> set ds. group_of x = group_of d \<longrightarrow> \<not> doc_is_latest x"
  shows "versions_distinct (ds @ [d]) \<and> newest_ok (ds @ [d])"
proof
  show "versions_distinct (ds @ [d])"
    using assms(1,2) by (fastforce simp: versions_distinct_def)
  show "newest_ok (ds @ [d])"
    unfolding newest_ok_def
  proof (intro ballI impI)
    fix y x assume mem: "y \<in> set (ds @ [d])" "x \<in> set (ds @ [d])"
      and live: "doc_is_latest y" "\<not> doc_is_deleted y" "\<not> doc_is_deleted x"
        "group_of x = group_of y" "single_type (doc_doc_type y)"
    show "doc_version x \<le> doc_version y"
    proof (cases "y \<in> set ds")
      case True
      show ?thesis
      proof (cases "x \<in> set ds")
        case x: True
        show ?thesis by (rule newest_okD [OF conjunct2 [OF assms(1)] True x live])
      next
        case False
        with mem live(4) have "group_of y = group_of d" by simp
        then have "doc_doc_type y = doc_doc_type d" by (simp add: group_of_def)
        with assms(3) live(1,5) True \<open>group_of y = group_of d\<close> show ?thesis by simp
      qed
    next
      case False
      with mem(1) have "y = d" by simp
      with mem(2) live(4) assms(2) show ?thesis by (auto intro: less_imp_le)
    qed
  qed
qed

subsection \<open>Deleting a document\<close>

text \<open>The replacement is the live document of greatest version beside the deleted one.\<close>

lemma sorted_desc_find:
  assumes "find P (sorted_desc key xs) = Some x" and "y \<in> set xs" and "P y"
  shows "key y \<le> (key x :: int)"
proof -
  have s: "sorted (map key (rev (sorted_desc key xs)))" by (simp add: sorted_desc_def)
  from assms(1) obtain i where i: "i < length (sorted_desc key xs)" "sorted_desc key xs ! i = x"
    "\<forall>j < i. \<not> P (sorted_desc key xs ! j)"
    by (auto simp: find_Some_iff)
  from assms(2) obtain j where j: "j < length (sorted_desc key xs)" "sorted_desc key xs ! j = y"
    by (metis in_set_conv_nth set_sorted_desc)
  with i(3) assms(3) have "i \<le> j" by (meson linorder_not_le)
  have "sorted_wrt (\<ge>) (map key (sorted_desc key xs))"
    using s unfolding rev_map [symmetric] sorted_wrt_rev .
  with \<open>i \<le> j\<close> i(1) j(1) have "map key (sorted_desc key xs) ! j \<le> map key (sorted_desc key xs) ! i"
    by (cases "i = j") (auto simp: sorted_wrt_iff_nth_less)
  with i j show ?thesis by simp
qed

lemma replacement_newest:
  assumes "replacement_document k (list_group_documents sid pid t db) = Some q"
  shows "q \<in> set (documents db) \<and> group_of q = (sid, pid, t) \<and> doc_id q \<noteq> k \<and> \<not> doc_is_deleted q \<and>
    (\<forall>x \<in> set (documents db). group_of x = (sid, pid, t) \<longrightarrow> doc_id x \<noteq> k \<longrightarrow> \<not> doc_is_deleted x \<longrightarrow>
       doc_version x \<le> doc_version q)"
proof -
  note found = assms [unfolded replacement_document_def]
  from find_SomeD [OF found] have q: "q \<in> set (list_group_documents sid pid t db)" "doc_id q \<noteq> k"
    "\<not> doc_is_deleted q" by simp_all
  have "doc_version x \<le> doc_version q"
    if "x \<in> set (documents db)" "group_of x = (sid, pid, t)" "doc_id x \<noteq> k" "\<not> doc_is_deleted x" for x
    by (rule sorted_desc_find [OF found [unfolded list_group_documents_def]])
      (use that in \<open>auto simp: group_of_def\<close>)
  with q show ?thesis by (auto simp: set_list_group_documents same_group_iff)
qed

text \<open>A live document becomes the latest one when no other live document is newer.\<close>

lemma restored_ok:
  assumes ok: "versions_distinct ds \<and> newest_ok ds" and ids: "distinct (map doc_id ds)"
    and q: "q \<in> set ds" "\<forall>x \<in> set ds. group_of x = group_of q \<longrightarrow> \<not> doc_is_deleted x \<longrightarrow>
      doc_version x \<le> doc_version q"
  shows "versions_distinct (update_rows doc_id (doc_id q) (restore_latest e) ds) \<and>
    newest_ok (update_rows doc_id (doc_id q) (restore_latest e) ds)"
proof -
  let ?f = "\<lambda>d. if doc_id d = doc_id q then restore_latest e d else d"
  have rows: "update_rows doc_id (doc_id q) (restore_latest e) ds = map ?f ds"
    by (simp add: update_rows_def)
  have keep: "group_of (?f d) = group_of d" "doc_version (?f d) = doc_version d"
    "doc_is_deleted (?f d) = doc_is_deleted d" "doc_doc_type (?f d) = doc_doc_type d" for d
    by (simp_all add: restore_latest_def group_of_def)
  have only: "d = q" if "d \<in> set ds" "doc_id d = doc_id q" for d
    using distinct_key_eqD [OF ids that(1) q(1) that(2)] .
  have latest: "doc_is_latest d \<or> d = q" if "d \<in> set ds" "doc_is_latest (?f d)" for d
    using that only by (auto split: if_splits)
  have "newest_ok (map ?f ds)"
    unfolding newest_ok_def
  proof (intro ballI impI)
    fix d' x' assume d': "d' \<in> set (map ?f ds)" and x': "x' \<in> set (map ?f ds)"
      and live: "doc_is_latest d'" "\<not> doc_is_deleted d'" "\<not> doc_is_deleted x'"
        "group_of x' = group_of d'" "single_type (doc_doc_type d')"
    from d' x' obtain d x where d: "d \<in> set ds" "d' = ?f d" and x: "x \<in> set ds" "x' = ?f x" by auto
    note live = live [unfolded d(2) x(2) keep]
    have "doc_version x \<le> doc_version d"
      using latest [OF d(1) live(1)] live newest_okD [OF conjunct2 [OF ok] d(1) x(1)] q(2) x(1) by blast
    then show "doc_version x' \<le> doc_version d'" by (simp only: d(2) x(2) keep)
  qed
  moreover have "versions_distinct (map ?f ds)"
    by (rule versions_distinct_map) (use ok keep in auto)
  ultimately show ?thesis unfolding rows by blast
qed

lemma delete_document_ok:
  assumes ids: "distinct (map doc_id (documents db))" and ok: "documents_ok db"
    and run: "delete_document e actor k db = Inr (r, db')"
  shows "documents_ok db'"
  using run
proof (rule delete_document_effect)
  fix d :: document and s :: sub_project and p :: phase
  let ?rows = "update_rows doc_id k (mark_deleted e) (documents db)"
  let ?docs = "list_group_documents (doc_sub_project_id d) (doc_phase_id d) (doc_doc_type d) db"
  assume d: "get_document k db = Some d"
    and docs: "documents db' = (let rows = ?rows; docs = ?docs
       in if is_multi_instance_document (doc_doc_type d) (doc_acceptance_step_id d) then rows
          else case replacement_document k docs of None \<Rightarrow> rows
            | Some q \<Rightarrow> update_rows doc_id (doc_id q) (restore_latest e) rows)"
  have marked: "versions_distinct ?rows \<and> newest_ok ?rows"
    unfolding update_rows_def using ok
    by (intro demoted_ok demotes_if demotes_writes) (simp add: documents_ok_def)
  have "versions_distinct (update_rows doc_id (doc_id q) (restore_latest e) ?rows) \<and>
      newest_ok (update_rows doc_id (doc_id q) (restore_latest e) ?rows)"
    if q: "replacement_document k ?docs = Some q" for q
  proof (rule restored_ok [OF marked])
    show "distinct (map doc_id ?rows)" using ids by (simp add: map_update_rows)
    note Q = replacement_newest [OF q]
    show "q \<in> set ?rows" using Q by (auto simp: set_update_rows)
    have "x \<in> set (documents db) \<and> doc_id x \<noteq> k" if "x \<in> set ?rows" "\<not> doc_is_deleted x" for x
      using that by (auto simp: update_rows_def mark_deleted_def split: if_splits)
    with Q show "\<forall>x \<in> set ?rows. group_of x = group_of q \<longrightarrow> \<not> doc_is_deleted x \<longrightarrow>
        doc_version x \<le> doc_version q" by simp
  qed
  with marked show ?thesis
    unfolding documents_ok_def docs by (simp add: Let_def split: option.split)
qed (use ok in \<open>simp add: documents_ok_def\<close>)

subsection \<open>Reclassifying a document\<close>

lemma latest_version_group:
  "x \<in> set (documents db) \<Longrightarrow> group_of x = (sid, pid, t) \<Longrightarrow>
     doc_version x \<le> latest_version (list_group_documents sid pid t db)"
  by (rule latest_version_upper) (simp add: set_list_group_documents same_group_iff)

lemma foldl_update_rows:
  fixes ds :: "document list" and f :: "document \<Rightarrow> document"
  assumes "distinct (map doc_id ds)" and "\<And>d. doc_id (f d) = doc_id d"
  shows "foldl (\<lambda>rs x. update_rows doc_id (doc_id x) f rs) rows ds =
    map (\<lambda>d. if doc_id d \<in> doc_id ` set ds then f d else d) rows"
  using save_documents_map [where ds = ds and f = f and db = "empty_database\<lparr>documents := rows\<rparr>"]
    assms by (simp add: save_documents_foldl)

text \<open>
  The rows after the move: the moved document, the document put back in the old group, the
  cleared ones of the new group, and the rest.
\<close>

definition moved_row ::
  "env \<Rightarrow> document \<Rightarrow> string \<Rightarrow> int \<Rightarrow> document option \<Rightarrow> document \<Rightarrow> document" where
  "moved_row e d t v q x =
     (if doc_id x = doc_id d then retype_document e t v x
      else if q \<noteq> None \<and> doc_id x = doc_id (the q) then restore_latest e x
      else if group_of x = (doc_sub_project_id d, doc_phase_id d, t) \<and> doc_is_latest x
        then clear_latest_at e x else x)"

lemma moved_documents_map:
  assumes ids: "distinct (map doc_id (documents db))" and d: "d \<in> set (documents db)"
    and t: "doc_doc_type d \<noteq> t"
    and old: "old = list_group_documents (doc_sub_project_id d) (doc_phase_id d) (doc_doc_type d) db"
    and new: "new = list_group_documents (doc_sub_project_id d) (doc_phase_id d) t db"
  shows "moved_documents e d t old new (documents db) =
    map (moved_row e d t (latest_version new + 1) (replacement_document (doc_id d) old)) (documents db)"
proof -
  let ?q = "replacement_document (doc_id d) old"
  have same: "x = y" if "x \<in> set (documents db)" "y \<in> set (documents db)" "doc_id x = doc_id y" for x y
    using distinct_key_eqD [OF ids that] .
  have in_new: "doc_id x \<in> doc_id ` set (filter doc_is_latest new) \<longleftrightarrow>
      group_of x = (doc_sub_project_id d, doc_phase_id d, t) \<and> doc_is_latest x"
    if "x \<in> set (documents db)" for x
    using that same by (auto simp: new set_list_group_documents same_group_iff)
  have q: "q \<in> set (documents db) \<and> group_of q = group_of d" if "?q = Some q" for q
    using replacement_newest [OF that [unfolded old]] by (simp add: group_of_def)
  have new_ids: "distinct (map doc_id (filter doc_is_latest new))"
    unfolding new by (rule distinct_ids_group [OF ids])
  have "moved_documents e d t old new (documents db) =
      map (\<lambda>x. if doc_id x = doc_id d then retype_document e t (latest_version new + 1) x else x)
        (map (\<lambda>x. if doc_id x \<in> doc_id ` set (filter doc_is_latest new) then clear_latest_at e x else x)
          (map (\<lambda>x. if ?q \<noteq> None \<and> doc_id x = doc_id (the ?q) then restore_latest e x else x)
            (documents db)))"
    unfolding moved_documents_def foldl_update_rows [OF new_ids clear_latest_fields(2)]
    by (auto simp: update_rows_def split: option.split)
  also have "\<dots> = map (moved_row e d t (latest_version new + 1) ?q) (documents db)"
    unfolding map_map comp_def
  proof (rule map_cong [OF refl])
    fix x assume x: "x \<in> set (documents db)"
    have other: "\<not> (?q \<noteq> None \<and> doc_id x = doc_id (the ?q) \<and>
        doc_id x \<in> doc_id ` set (filter doc_is_latest new))"
    proof
      assume a: "?q \<noteq> None \<and> doc_id x = doc_id (the ?q) \<and> doc_id x \<in> doc_id ` set (filter doc_is_latest new)"
      then obtain q where "?q = Some q" "doc_id x = doc_id q" by auto
      with q same [OF x] have "group_of x = group_of d" by metis
      moreover have "group_of x = (doc_sub_project_id d, doc_phase_id d, t)" using a in_new [OF x] by blast
      ultimately show False using t by (simp add: group_of_def)
    qed
    have d_other: "doc_id d \<notin> doc_id ` set (filter doc_is_latest new)"
      using in_new [OF d] t by (simp add: group_of_def)
    have q_other: "doc_id q \<noteq> doc_id d" if "?q = Some q" for q
      using replacement_newest [OF that [unfolded old]] by simp
    let ?r = "if ?q \<noteq> None \<and> doc_id x = doc_id (the ?q) then restore_latest e x else x"
    let ?c = "if doc_id ?r \<in> doc_id ` set (filter doc_is_latest new) then clear_latest_at e ?r else ?r"
    show "(if doc_id ?c = doc_id d then retype_document e t (latest_version new + 1) ?c else ?c) =
        moved_row e d t (latest_version new + 1) ?q x"
    proof (cases "?q \<noteq> None \<and> doc_id x = doc_id (the ?q)")
      case True
      with other have "doc_id x \<notin> doc_id ` set (filter doc_is_latest new)" by blast
      with True q_other show ?thesis by (auto simp: moved_row_def)
    next
      case False
      show ?thesis
      proof (cases "doc_id x = doc_id d")
        case True
        with False d_other show ?thesis by (auto simp: moved_row_def)
      next
        case x_other: False
        from in_new [OF x] x_other show ?thesis
          unfolding moved_row_def if_not_P [OF False] if_not_P [OF x_other] by auto
      qed
    qed
  qed
  finally show ?thesis .
qed

lemma moved_row_fields [simp]:
  "doc_id (moved_row e d t v q x) = doc_id x"
  "doc_is_deleted (moved_row e d t v q x) = doc_is_deleted x"
  by (simp_all add: moved_row_def retype_document_def restore_latest_def clear_latest_at_def)

lemma moved_row_cases:
  assumes "doc_id x \<noteq> doc_id d"
  shows "group_of (moved_row e d t v q x) = group_of x"
    and "doc_version (moved_row e d t v q x) = doc_version x"
    and "doc_is_latest (moved_row e d t v q x) \<Longrightarrow> (q \<noteq> None \<and> doc_id x = doc_id (the q)) \<or>
      doc_is_latest x \<and> group_of x \<noteq> (doc_sub_project_id d, doc_phase_id d, t)"
  using assms by (auto simp: moved_row_def restore_latest_def clear_latest_at_def group_of_def
      split: if_splits)

lemma moved_row_moved:
  assumes "doc_id x = doc_id d"
  shows "group_of (moved_row e d t v q x) = (doc_sub_project_id x, doc_phase_id x, t)"
    and "doc_version (moved_row e d t v q x) = v" and "doc_is_latest (moved_row e d t v q x)"
  using assms by (simp_all add: moved_row_def retype_document_def group_of_def)

lemma moved_ok:
  fixes db :: database and d :: document
  assumes ids: "distinct (map doc_id (documents db))" and ok: "documents_ok db"
    and d: "d \<in> set (documents db)" "doc_is_latest d" "\<not> doc_is_deleted d"
    and t: "doc_doc_type d \<noteq> t"
    and q: "\<And>r. q = Some r \<Longrightarrow> r \<in> set (documents db) \<and> group_of r = group_of d \<and>
      (\<forall>x \<in> set (documents db). group_of x = group_of d \<longrightarrow> doc_id x \<noteq> doc_id d \<longrightarrow>
         \<not> doc_is_deleted x \<longrightarrow> doc_version x \<le> doc_version r)"
    and v: "\<And>x. x \<in> set (documents db) \<Longrightarrow> group_of x = (doc_sub_project_id d, doc_phase_id d, t) \<Longrightarrow>
      doc_version x < v"
  shows "versions_distinct (map (moved_row e d t v q) (documents db)) \<and>
    newest_ok (map (moved_row e d t v q) (documents db))"
proof -
  let ?m = "moved_row e d t v q"
  let ?new = "(doc_sub_project_id d, doc_phase_id d, t)"
  note D = ok [unfolded documents_ok_def]
  have same: "x = d" if "x \<in> set (documents db)" "doc_id x = doc_id d" for x
    using distinct_key_eqD [OF ids that(1) d(1) that(2)] .
  have moved: "group_of (?m x) = ?new" "doc_version (?m x) = v"
    if "x \<in> set (documents db)" "doc_id x = doc_id d" for x
    using moved_row_moved(1,2) [OF that(2), of e t v q] same [OF that] by simp_all
  have key: "x = y" if "x \<in> set (documents db)" "y \<in> set (documents db)"
    "group_of (?m x) = group_of (?m y)" "doc_version (?m x) = doc_version (?m y)" for x y
  proof (cases "doc_id x = doc_id d"; cases "doc_id y = doc_id d")
    assume "doc_id x \<noteq> doc_id d" "doc_id y \<noteq> doc_id d"
    with that moved_row_cases(1,2) versions_distinctD [OF conjunct1 [OF D] that(1,2)] show ?thesis by metis
  next
    assume a: "doc_id x = doc_id d" "doc_id y \<noteq> doc_id d"
    with that moved [OF that(1)] v [OF that(2)] moved_row_cases(1,2) [OF a(2), of e t v q]
    show ?thesis by simp
  next
    assume a: "doc_id x \<noteq> doc_id d" "doc_id y = doc_id d"
    with that moved [OF that(2)] v [OF that(1)] moved_row_cases(1,2) [OF a(1), of e t v q]
    show ?thesis by simp
  qed (use same [OF that(1)] same [OF that(2)] in simp)
  have "versions_distinct (map ?m (documents db))"
    using ids key unfolding versions_distinct_def map_map distinct_map by (auto simp: inj_on_def)
  moreover have "newest_ok (map ?m (documents db))"
    unfolding newest_ok_def
  proof (intro ballI impI)
    fix y' x' assume y': "y' \<in> set (map ?m (documents db))" and x': "x' \<in> set (map ?m (documents db))"
      and live: "doc_is_latest y'" "\<not> doc_is_deleted y'" "\<not> doc_is_deleted x'"
        "group_of x' = group_of y'" "single_type (doc_doc_type y')"
    from y' x' obtain y x where y: "y \<in> set (documents db)" "y' = ?m y"
      and x: "x \<in> set (documents db)" "x' = ?m x" by auto
    note live = live [unfolded y(2) x(2) moved_row_fields]
    have "doc_version (?m x) \<le> doc_version (?m y)"
    proof (cases "doc_id y = doc_id d")
      case True
      show ?thesis
      proof (cases "doc_id x = doc_id d")
        case x_moved: True
        with moved y(1) x(1) True show ?thesis by simp
      next
        case False
        note X = moved_row_cases(1,2) [OF False, of e t v q]
        have "group_of x = ?new" using live(4) X(1) moved(1) [OF y(1) True] by simp
        with v [OF x(1)] X(2) moved(2) [OF y(1) True] show ?thesis by simp
      qed
    next
      case False
      note Y = moved_row_cases(1,2) [OF False, of e t v q]
      have not_new: "group_of y \<noteq> ?new"
      proof
        assume new: "group_of y = ?new"
        with moved_row_cases(3) [OF False live(1)] have "q \<noteq> None \<and> doc_id y = doc_id (the q)" by blast
        then obtain r where r: "q = Some r" "doc_id y = doc_id r" by auto
        then have "y = r" using q [OF r(1)] distinct_key_eqD [OF ids y(1)] by blast
        with q [OF r(1)] new t show False by (simp add: group_of_def)
      qed
      have x_same: "doc_id x \<noteq> doc_id d"
        using moved(1) [OF x(1)] live(4) Y(1) not_new by auto
      note X = moved_row_cases(1,2) [OF x_same, of e t v q]
      have grp: "group_of x = group_of y" using live(4) X(1) Y(1) by simp
      have ty: "single_type (doc_doc_type y)"
        using live(5) Y(1) by (simp add: group_of_def)
      from moved_row_cases(3) [OF False live(1)] have "doc_version x \<le> doc_version y"
      proof
        assume "q \<noteq> None \<and> doc_id y = doc_id (the q)"
        then obtain r where r: "q = Some r" "doc_id y = doc_id r" by auto
        then have "y = r" using q [OF r(1)] distinct_key_eqD [OF ids y(1)] by blast
        with q [OF r(1)] grp x(1) x_same live(3) show ?thesis by simp
      next
        assume "doc_is_latest y \<and> group_of y \<noteq> ?new"
        then show ?thesis
          using newest_okD [OF conjunct2 [OF D] y(1) x(1)] live(2,3) grp ty by blast
      qed
      with X(2) Y(2) show ?thesis by simp
    qed
    then show "doc_version x' \<le> doc_version y'" by (simp only: x(2) y(2))
  qed
  ultimately show ?thesis by blast
qed

lemma confirm_type_ok:
  assumes ids: "distinct (map doc_id (documents db))" and ok: "documents_ok db"
    and run: "confirm_document_type e actor k t db = Inr (r, db')"
  shows "documents_ok db'"
  using run
proof (rule confirm_document_type_effect)
  fix cleaned :: string and d :: document
  let ?old = "list_group_documents (doc_sub_project_id d) (doc_phase_id d) (doc_doc_type d) db"
  let ?new = "list_group_documents (doc_sub_project_id d) (doc_phase_id d) cleaned db"
  assume d: "get_document k db = Some d" "\<not> doc_is_deleted d" "doc_is_latest d"
    and docs: "documents db' = (if doc_doc_type d = cleaned then documents db
      else moved_documents e d cleaned ?old ?new (documents db))"
  have d_in: "d \<in> set (documents db)" using document_rows.get_SomeD [OF d(1)] by simp
  show ?thesis
  proof (cases "doc_doc_type d = cleaned")
    case True
    with docs ok show ?thesis by (simp add: documents_ok_def)
  next
    case False
    have "versions_distinct (map (moved_row e d cleaned (latest_version ?new + 1)
          (replacement_document (doc_id d) ?old)) (documents db)) \<and>
        newest_ok (map (moved_row e d cleaned (latest_version ?new + 1)
          (replacement_document (doc_id d) ?old)) (documents db))"
    proof (rule moved_ok [OF ids ok d_in d(3,2) False])
      show "r \<in> set (documents db) \<and> group_of r = group_of d \<and>
          (\<forall>x \<in> set (documents db). group_of x = group_of d \<longrightarrow> doc_id x \<noteq> doc_id d \<longrightarrow>
             \<not> doc_is_deleted x \<longrightarrow> doc_version x \<le> doc_version r)"
        if "replacement_document (doc_id d) ?old = Some r" for r
        using replacement_newest [OF that] by (simp add: group_of_def)
      show "doc_version x < latest_version ?new + 1"
        if "x \<in> set (documents db)" "group_of x = (doc_sub_project_id d, doc_phase_id d, cleaned)" for x
        using latest_version_group [OF that] by simp
    qed
    then show ?thesis
      unfolding documents_ok_def docs if_not_P [OF False]
        moved_documents_map [OF ids d_in False refl refl] .
  qed
qed

subsection \<open>The moves\<close>

lemma upload_ok:
  assumes ids: "integrity db" and ok: "documents_ok db"
    and run: "upload_document e actor policy scheduler sid u db fs = (Inr d, db', fs')"
  shows "documents_ok db'"
proof -
  have fresh: "distinct (map doc_id (documents db))" "\<forall>d \<in> set (documents db). doc_id d < next_uuid db"
    using ids by (auto simp: integrity_def fresh_ids_def)
  from run fresh show ?thesis
  proof (rule upload_document_effect)
    fix t name display :: string and s :: sub_project and p :: phase
    let ?multi = "is_multi_instance_document t (du_acceptance_step_id u)"
    let ?rows = "if ?multi then documents db
      else clear_group clear_latest sid (du_phase_id u) t (documents db)"
    assume docs: "documents db' = ?rows @ [d]" and d: "same_group sid (du_phase_id u) t d"
      "doc_version d = latest_version (list_group_documents sid (du_phase_id u) t db) + 1"
    have grp: "group_of d = (sid, du_phase_id u, t)" using d(1) by (simp add: same_group_iff)
    have rows_ok: "versions_distinct ?rows \<and> newest_ok ?rows"
      using ok demoted_ok [OF demotes_if [OF demotes_writes(1)]]
      unfolding documents_ok_def clear_group_def by presburger
    have newer: "doc_version x < doc_version d" if x: "x \<in> set ?rows" "group_of x = group_of d" for x
    proof -
      obtain y where y: "y \<in> set (documents db)" "group_of y = group_of x" "doc_version y = doc_version x"
        using x(1) by (auto simp: clear_group_def clear_latest_def group_of_def split: if_splits)
      have "doc_version y \<le> latest_version (list_group_documents sid (du_phase_id u) t db)"
        by (rule latest_version_group) (use y x(2) grp in simp_all)
      with d(2) y(3) show ?thesis by simp
    qed
    have cleared: "\<not> doc_is_latest x" if "single_type (doc_doc_type d)" "x \<in> set ?rows"
      "group_of x = group_of d" for x
    proof -
      have "doc_doc_type d = t" using grp by (simp add: group_of_def)
      with that(1) have "\<not> ?multi" using single_type_multi by simp
      then have "x \<in> (\<lambda>y. if same_group sid (du_phase_id u) t y \<and> doc_is_latest y then clear_latest y
          else y) ` set (documents db)"
        using that(2) unfolding clear_group_def by simp
      then obtain y where
        y: "x = (if same_group sid (du_phase_id u) t y \<and> doc_is_latest y then clear_latest y else y)"
        by (rule imageE)
      have "same_group sid (du_phase_id u) t x" using that(3) grp by (simp add: same_group_iff)
      then show ?thesis
        unfolding y by (simp add: clear_latest_def split: if_splits)
    qed
    show ?thesis
      unfolding documents_ok_def docs by (rule join_ok [OF rows_ok]) (use newer cleared in blast)+
  qed
qed

text \<open>Vouchers get the versions after the latest one, in the order of their files.\<close>

lemma vouchers_ok:
  assumes "versions_distinct rows \<and> newest_ok rows"
    and "\<forall>d \<in> set ds. group_of d = g" and "\<not> single_type (snd (snd g))"
    and "map doc_version ds = map (\<lambda>i. v + int i) [0 ..< length ds]"
    and "\<forall>x \<in> set rows. group_of x = g \<longrightarrow> doc_version x < v"
  shows "versions_distinct (rows @ ds) \<and> newest_ok (rows @ ds)"
  using assms
proof (induction ds arbitrary: rows v)
  case (Cons d ds)
  have vs: "doc_version d = v" "map doc_version ds = map (\<lambda>i. v + 1 + int i) [0 ..< length ds]"
    using Cons.prems(4) by (simp_all add: upt_conv_Cons map_Suc_upt [symmetric] comp_def del: upt_Suc)
  have g: "group_of d = g" using Cons.prems(2) by simp
  then have "doc_doc_type d = snd (snd g)" by (auto simp: group_of_def)
  then have "versions_distinct (rows @ [d]) \<and> newest_ok (rows @ [d])"
    using Cons.prems(1,3,5) vs(1) g by (intro join_ok) auto
  moreover have "\<forall>x \<in> set (rows @ [d]). group_of x = g \<longrightarrow> doc_version x < v + 1"
    using Cons.prems(5) vs(1) by fastforce
  ultimately have "versions_distinct ((rows @ [d]) @ ds) \<and> newest_ok ((rows @ [d]) @ ds)"
    using Cons.prems(2,3) vs(2) by (intro Cons.IH [of "rows @ [d]" "v + 1"]) simp_all
  then show ?case by simp
qed simp

lemma unwritten_documents: "evolves W db db' \<Longrightarrow> Documents \<notin> W \<Longrightarrow> documents db' = documents db"
  by (simp add: evolves_iff writes_iff)

lemma unwritten_documents_ok:
  "evolves W db db' \<Longrightarrow> Documents \<notin> W \<Longrightarrow> documents_ok db \<Longrightarrow> documents_ok db'"
  by (simp add: documents_ok_def unwritten_documents)

lemma documents_move:
  assumes ids: "integrity db" and ok: "documents_ok db" and move: "step db db'"
  shows "documents_ok db'"
proof -
  have doc_ids: "distinct (map doc_id (documents db))" using ids by (simp add: integrity_def fresh_ids_def)
  note rows_ok = ok [unfolded documents_ok_def]
  have saved: "documents_ok b"
    if "documents b = documents (save_documents ds f db)" "demotes f" "distinct (map doc_id ds)"
      "\<And>d. doc_id (f d) = doc_id d" for ds f b
    unfolding documents_ok_def that(1) save_documents_map [OF that(3,4)]
    by (rule demoted_ok [OF demotes_if [OF that(2)] rows_ok])
  from move show ?thesis
  proof (cases rule: step.cases)
    case (do_create_payment e actor policy k payload fs r fs')
    then show ?thesis
    proof (rule create_payment_effect)
      fix amount uploads s main ph over
      assume "\<exists>ds. documents db' = documents db @ ds \<and> length ds = length uploads \<and>
        (\<forall>d \<in> set ds. voucher_of (sp_id s) (ph_id ph) d) \<and>
        fresh_ids doc_id ds (next_uuid db') \<and> (\<forall>d \<in> set ds. next_uuid db < doc_id d) \<and>
        map doc_version ds = map (\<lambda>i. latest_version (list_group_documents (sp_id s) (ph_id ph)
          ''payment_voucher'' db) + 1 + int i) [0 ..< length uploads]"
      then obtain ds where ds: "documents db' = documents db @ ds" "length ds = length uploads"
        "\<forall>d \<in> set ds. group_of d = (sp_id s, ph_id ph, ''payment_voucher'')"
        "map doc_version ds = map (\<lambda>i. latest_version (list_group_documents (sp_id s) (ph_id ph)
          ''payment_voucher'' db) + 1 + int i) [0 ..< length uploads]"
        by (auto simp: voucher_of_def group_of_def)
      show ?thesis
        unfolding documents_ok_def ds(1)
        by (rule vouchers_ok [OF rows_ok ds(3) _ ds(4) [folded ds(2)]])
          (use latest_version_group in \<open>auto simp: single_type_def\<close>)
    qed
  next
    case (do_upload e actor policy scheduler k u fs r fs')
    show ?thesis
    proof (cases r)
      case (Inl err)
      then have "documents db' = documents db"
        using do_upload upload_document_failed by metis
      with ok show ?thesis by (simp add: documents_ok_def)
    next
      case (Inr d)
      with do_upload show ?thesis by (blast intro: upload_ok [OF ids ok])
    qed
  next
    case (do_delete_document e actor k r)
    then show ?thesis by (rule delete_document_ok [OF doc_ids ok])
  next
    case (do_soft_delete_documents e k r)
    then have "documents db' = documents (save_documents (list_latest_phase_documents k db)
        (\<lambda>d. d\<lparr>doc_is_deleted := True, doc_updated_at := clock e\<rparr>) db)"
      by (auto simp: soft_delete_phase_documents_def Let_def elim!: attempt_InrE)
    then show ?thesis
      by (rule saved) (use doc_ids in \<open>simp_all add: demotes_writes list_latest_phase_documents_def
        distinct_map distinct_map_filter inj_on_def\<close>)
  next
    case (do_confirm_type e actor k t r)
    then show ?thesis by (rule confirm_type_ok [OF doc_ids ok])
  next
    case (do_review_revoke e actor k decision comment r)
    then show ?thesis
    proof (rule review_revoke_request_effect)
      fix q p s status
      assume docs: "documents db' =
        (if decision = revoke_review_decision.reject \<or> rr_keep_documents q then documents db
         else documents (save_documents (list_latest_documents_for_update (rr_phase_id q) db)
           (soft_delete_document e) db))"
      show ?thesis
      proof (cases "decision = revoke_review_decision.reject \<or> rr_keep_documents q")
        case True
        with docs ok show ?thesis by (simp add: documents_ok_def)
      next
        case False
        show ?thesis
          by (rule saved [OF docs [unfolded if_not_P [OF False]]])
            (use doc_ids in \<open>simp_all add: demotes_writes list_latest_documents_for_update_def
              distinct_map_filter soft_delete_document_def\<close>)
      qed
    qed
  qed (rule unwritten_documents_ok [OF _ _ ok], erule move_writes, simp)+
qed

interpretation document_groups: invariant initial step integrity documents_ok
proof unfold_locales
  show "reaches initial step db \<Longrightarrow> integrity db" for db by (rule integrity.reachable_inv)
  show "initial db \<Longrightarrow> documents_ok db" for db
    by (simp add: initial_def documents_ok_def versions_distinct_def newest_ok_def)
  show "integrity db \<Longrightarrow> documents_ok db \<Longrightarrow> step db db' \<Longrightarrow> documents_ok db'" for db db'
    by (rule documents_move)
qed

end
