(* ===== verification/Contracts.thy ===== *)
theory Contracts
  imports Scenario TaskBoard DocumentGroups
begin

text \<open>
  What single operations promise: payments and their files, promotions of phases, reviews, deadline scans,
  uploads, revocations, forced handovers, task updates, notifications and batches.  Each property is
  stated over the operation as the service runs it, for every reachable database where it needs
  the invariants; the witnesses apply it to the run of \<open>Scenario\<close>.
\<close>

subsection \<open>Payments\<close>

lemma reachable_total:
  assumes "reachable db" and "get_sub_project k db = Some s"
  shows "sp_spent_amount s = payment_total k db"
  using books.reachable_inv [OF assms(1) [unfolded reachable_def]] sub_rows.get_SomeD [OF assms(2)]
  by (auto simp: balanced_def)

text \<open>
  C13: A payment that succeeds is made by an administrator or a finance manager, has the
  positive amount of the request rounded to cents, is appended to the payments, and raises the
  spent amount of its sub project by exactly its amount; if the budget is exceeded by it, the
  request confirms this and gives a reason.
\<close>
theorem payment_is_recorded:
  assumes "reachable db"
    and "create_payment e actor policy sid payload db fs = (Inr (p, db'), fs')"
  shows "u_role actor \<in> {user_role.admin, user_role.finance_manager} \<and>
    to_money (pc_amount payload) = Inr (pay_amount p) \<and> 0 < pay_amount p \<and>
    payments db' = payments db @ [p] \<and>
    (\<exists>s s'. get_sub_project sid db = Some s \<and> get_sub_project sid db' = Some s' \<and>
       sp_spent_amount s' = sp_spent_amount s + pay_amount p \<and>
       (sp_budget s < sp_spent_amount s' \<longrightarrow> pc_confirm_over_budget payload \<and>
          clean_optional_text (pc_over_budget_reason payload) \<noteq> None))"
  using assms(2)
proof (rule create_payment_effect)
  fix amount uploads s main ph over
  assume chk: "check_payment actor policy sid payload db = Inr (amount, uploads, s, main, ph, over)"
    and p: "p = new_payment e actor s amount (pc_payment_date payload)
      (clean_optional_text (pc_remark payload)) payment_type.normal None (next_uuid db) db"
    and pays: "payments db' = payments db @ [p]"
    and subs: "sub_projects db' = update_rows sp_id sid (\<lambda>r. r\<lparr>sp_spent_amount :=
      payment_total sid db', sp_updated_at := clock e\<rparr>) (sub_projects db)"
  note c = check_payment_effect [OF chk]
  have s: "get_sub_project sid db = Some s" using c by blast
  then have id: "sp_id s = sid" using sub_rows.get_SomeD by blast
  have amount: "pay_amount p = amount" "pay_sub_project_id p = sid" by (simp_all add: p new_payment_def id)
  have spent: "payment_total sid db' = sp_spent_amount s + amount"
    using reachable_total [OF assms(1) s] payment_total_append [OF pays, of sid] amount by simp
  have "get_sub_project sid db' = Some (s\<lparr>sp_spent_amount := sp_spent_amount s + amount,
      sp_updated_at := clock e\<rparr>)"
    using s unfolding get_sub_project_def subs spent by (simp add: find_row_update_same)
  moreover have "sp_budget s < sp_spent_amount s + amount \<longrightarrow> pc_confirm_over_budget payload \<and>
      clean_optional_text (pc_over_budget_reason payload) \<noteq> None"
    using ensure_budget_confirmation_effect c by blast
  ultimately show ?thesis using c s pays amount(1) by simp
qed

lemma payment_is_recorded_witness:
  "\<exists>p. payments world6 = payments world5 @ [p] \<and> pay_amount p = 4500"
proof -
  obtain p fs' where run: "create_payment demo_env the_cashier demo_policy 102
      (demo_payment 4500 (Some ''price'')) world5 empty_store = (Inr (p, world6), fs')"
    using run6 by (metis prod.collapse)
  from payment_is_recorded [OF reach5 run] show ?thesis
    by (auto simp: demo_payment_def to_money_def quantize_cents_def Let_def)
qed

text \<open>
  C14: A payment that fails leaves no new file in the storage: every file that is there
  afterwards was there before with the same content.
\<close>
theorem failed_payment_leaves_no_file:
  assumes "create_payment e actor policy sid payload db fs = (Inl err, fs')"
    and "stored_files fs' name = Some content"
  shows "stored_files fs name = Some content"
proof (cases "check_payment actor policy sid payload db")
  case (Inl x)
  with assms show ?thesis by (simp add: create_payment_def)
next
  case (Inr c)
  obtain amount uploads s main ph over where c: "c = (amount, uploads, s, main, ph, over)"
    by (cases c) auto
  define db1 where "db1 = snd (uuid4 db)"
  define version where
    "version = latest_version (list_group_documents (sp_id s) (ph_id ph) ''payment_voucher'' db1)"
  obtain ds saved fs1 where run: "create_voucher_documents e actor (sp_id s) (ph_id ph) version
      uploads [] db1 fs = (ds, saved, fs1)" by (metis prod_cases3)
  have fs': "fs' = delete_saved_contents saved fs1"
    using assms(1) unfolding create_payment_def Inr c sum.case prod.case uuid4_def Let_def
    using run [unfolded version_def db1_def uuid4_def snd_conv]
    by (auto split: sum.splits)
  from assms(2) fs' have kept: "stored_files fs1 name = Some content"
    using delete_saved_subset [of saved fs1] by (metis domI map_le_def)
  from create_voucher_documents_saved [OF run] kept consider "stored_files fs name = Some content"
    | key parts where "key \<in> set saved" "safe_key key = Inr parts" "join_parts parts = name" by blast
  then show ?thesis
  proof cases
    case 2
    with delete_saved_removes [of key saved parts fs1] assms(2) fs' show ?thesis by simp
  qed simp
qed

lemma failed_payment_leaves_no_file_witness:
  "\<exists>err fs'. create_payment demo_env the_cashier demo_policy 102 (demo_payment 4500 None) world5
     (saved_store ''k'') = (Inl err, fs') \<and> stored_files fs' ''k'' = Some ''%PDF-1.7'' \<and>
     stored_files (saved_store ''k'') ''k'' = Some ''%PDF-1.7''"
proof -
  have "\<exists>err. check_payment the_cashier demo_policy 102 (demo_payment 4500 None) world5 = Inl err"
    by (simp add: run_simps demo_start_def world1_def world2_def world3_def world4_def world5_def
        check_payment_def ensure_can_create_payment_def ensure_budget_confirmation_def
        ensure_sub_project_allows_payment_def get_existing_payment_phase_def
        get_payment_phase_row_def locked_payment_sub_project_statuses_def)
  then obtain err where run: "create_payment demo_env the_cashier demo_policy 102
      (demo_payment 4500 None) world5 (saved_store ''k'') = (Inl err, saved_store ''k'')"
    by (auto simp: create_payment_def)
  have "stored_files (saved_store ''k'') ''k'' = Some ''%PDF-1.7''" by (simp add: saved_store_def)
  with run failed_payment_leaves_no_file [OF run this] show ?thesis by blast
qed

subsection \<open>Phases, reviews and deadlines\<close>

lemma missing_templates_none:
  "missing_templates docs coverage ts = Inr [] \<longleftrightarrow> (\<forall>t \<in> set ts.
     required_document_is_satisfied t (uploaded_count docs (pdt_doc_type t)) coverage = Inr True)"
  by (induction ts) (auto simp: result_simps split: if_splits)

lemma phases_before_completed:
  assumes "ensure_phase_dependencies_completed p (list_phases sid db) = Inr ()"
    and "ph_phase_no p \<in> {2, 3, 4}" and "1 \<le> no" "no < ph_phase_no p"
  shows "\<exists>q \<in> set (phases db). ph_sub_project_id q = sid \<and> ph_phase_no q = no \<and>
    ph_status q = phase_status.completed"
proof -
  have "incomplete_phase_nos p (list_phases sid db) = []"
    using assms(1,2) by (simp add: ensure_phase_dependencies_completed_def result_simps)
  with assms(3,4) have "\<not> (case phase_by_no (list_phases sid db) no of None \<Rightarrow> True
      | Some q \<Rightarrow> ph_status q \<noteq> phase_status.completed)"
    by (simp add: incomplete_phase_nos_def filter_empty_conv)
  then obtain q where "phase_by_no (list_phases sid db) no = Some q" "ph_status q = phase_status.completed"
    by (auto split: option.splits)
  then show ?thesis
    using find_SomeD [of "\<lambda>p. ph_phase_no p = no" "rev (list_phases sid db)" q]
    by (auto simp: phase_by_no_def list_phases_def)
qed

text \<open>
  C15: A phase is promoted only when it is in progress and its conditions hold: the procurement
  phase has a procurement type; before phases two to four every earlier phase of the sub
  project is completed; all acceptance steps of the acceptance phase are completed; and every
  document the workflow or the templates require is there in the required quantity, where
  completed acceptance steps stand for the acceptance report.  The promoted phase is completed.
\<close>
theorem promotion_requires:
  assumes "promote_phase e actor k db = Inr ((p', q'), db')"
  shows "\<exists>p needed. get_phase k db = Some p \<and> ph_status p = phase_status.in_progress \<and>
    p' = complete_phase e p \<and> required_documents_for_phase p db = Inr needed \<and>
    (ph_phase_no p = 2 \<longrightarrow> ph_procurement_type p \<noteq> None) \<and>
    (ph_phase_no p \<in> {2, 3, 4} \<longrightarrow> (\<forall>no. 1 \<le> no \<and> no < ph_phase_no p \<longrightarrow>
       (\<exists>q \<in> set (phases db). ph_sub_project_id q = ph_sub_project_id p \<and> ph_phase_no q = no \<and>
          ph_status q = phase_status.completed))) \<and>
    (ph_phase_no p = 4 \<longrightarrow> (\<forall>st \<in> set (acceptance_steps db). step_phase_id st = k \<longrightarrow>
       step_step_status st = step_status.completed)) \<and>
    (\<forall>t \<in> set needed. required_document_is_satisfied t
         (uploaded_count (list_latest_documents k db) (pdt_doc_type t))
         (payment_voucher_coverage_for_phase p db) = Inr True \<or>
       pdt_doc_type t = ''acceptance_report'' \<and> ph_phase_no p = 4 \<and> list_acceptance_steps k db \<noteq> [])"
proof -
  from promote_phase_effect [OF assms] obtain p and s :: sub_project where
    chk: "check_promotion actor k db = Inr (p, s)" and p': "p' = complete_phase e p" by blast
  note row = check_promotion_effect [OF chk] and g = check_promotion_guards [OF chk]
  from g obtain needed by_steps where
    needed: "required_documents_for_phase p db = Inr needed" and
    steps: "ensure_acceptance_steps_completed p (list_acceptance_steps k db) = Inr by_steps" and
    docs: "ensure_required_documents_uploaded
        (if by_steps then filter (\<lambda>t. pdt_doc_type t \<noteq> ''acceptance_report'') needed else needed)
        (list_latest_documents k db) (payment_voucher_coverage_for_phase p db) = Inr ()" by blast
  have by_steps: "by_steps \<longleftrightarrow> ph_phase_no p = 4 \<and> list_acceptance_steps k db \<noteq> []"
    and all_steps: "ph_phase_no p = 4 \<longrightarrow> (\<forall>st \<in> set (acceptance_steps db). step_phase_id st = k \<longrightarrow>
       step_step_status st = step_status.completed)"
    using steps by (auto simp: ensure_acceptance_steps_completed_def result_simps Let_def
        filter_empty_conv list_acceptance_steps_def split: if_splits)
  have "\<forall>t \<in> set (if by_steps then filter (\<lambda>t. pdt_doc_type t \<noteq> ''acceptance_report'') needed else needed).
      required_document_is_satisfied t (uploaded_count (list_latest_documents k db) (pdt_doc_type t))
        (payment_voucher_coverage_for_phase p db) = Inr True"
    using docs unfolding ensure_required_documents_uploaded_def
    by (auto simp: result_simps missing_templates_none)
  then have all_docs: "\<forall>t \<in> set needed. required_document_is_satisfied t
         (uploaded_count (list_latest_documents k db) (pdt_doc_type t))
         (payment_voucher_coverage_for_phase p db) = Inr True \<or>
       pdt_doc_type t = ''acceptance_report'' \<and> ph_phase_no p = 4 \<and> list_acceptance_steps k db \<noteq> []"
    unfolding by_steps by (auto split: if_splits)
  have kind: "ph_phase_no p = 2 \<longrightarrow> ph_procurement_type p \<noteq> None"
    using g by (simp add: ensure_procurement_type_selected_def result_simps)
  have "ensure_phase_dependencies_completed p (list_phases (ph_sub_project_id p) db) = Inr ()"
    using g row by metis
  from phases_before_completed [OF this] row p' needed all_steps all_docs kind show ?thesis by blast
qed

lemma promotion_requires_witness:
  "\<exists>p. get_phase 104 world14 = Some p \<and> ph_status p = phase_status.in_progress"
  using promotion_requires [OF run15] by blast

text \<open>
  The payment phase is only promoted with vouchers: where the rules require one payment
  voucher per payment, the sub project has a payment, and every normal payment has a voucher
  whose document is not deleted.
\<close>
theorem payment_phase_has_vouchers:
  assumes "promote_phase e actor k db = Inr ((p', q'), db')" and "ph_phase_no p' = 5"
    and "required_documents_for_phase p db = Inr needed" and "get_phase k db = Some p"
    and "t \<in> set needed" and "pdt_doc_type t = ''payment_voucher''"
    and "is_per_payment_rule (pdt_qty_rule t)"
  defines "own \<equiv> filter (\<lambda>x. pay_sub_project_id x = ph_sub_project_id p \<and>
    pay_payment_type x = payment_type.normal) (payments db)"
  shows "own \<noteq> [] \<and> (\<forall>x \<in> set own. \<exists>v \<in> set (payment_vouchers db). pv_payment_id v = pay_id x \<and>
    (\<exists>d \<in> set (documents db). doc_id d = pv_document_id v \<and> \<not> doc_is_deleted d))"
proof -
  from promote_phase_effect [OF assms(1)] obtain q and s :: sub_project where
    chk: "check_promotion actor k db = Inr (q, s)" and p': "p' = complete_phase e q" by blast
  have "q = p" using check_promotion_effect [OF chk] assms(4) by simp
  with p' assms(2) have five: "ph_phase_no p = 5" by simp
  from check_promotion_guards [OF chk] assms(3) \<open>q = p\<close> obtain by_steps where
    steps: "ensure_acceptance_steps_completed p (list_acceptance_steps k db) = Inr by_steps" and
    docs: "ensure_required_documents_uploaded
        (if by_steps then filter (\<lambda>t. pdt_doc_type t \<noteq> ''acceptance_report'') needed else needed)
        (list_latest_documents k db) (payment_voucher_coverage_for_phase p db) = Inr ()" by auto
  have "\<not> by_steps" using steps five by (simp add: ensure_acceptance_steps_completed_def)
  with docs assms(5) have sat: "required_document_is_satisfied t
      (uploaded_count (list_latest_documents k db) (pdt_doc_type t))
      (payment_voucher_coverage_for_phase p db) = Inr True"
    unfolding ensure_required_documents_uploaded_def
    by (auto simp: result_simps missing_templates_none)
  let ?c = "get_payment_voucher_coverage (ph_sub_project_id p) db"
  have "coverage_is_satisfied ?c"
    using sat five assms(6,7)
    by (simp add: required_document_is_satisfied_def payment_voucher_coverage_for_phase_def
        counts_vouchers_def)
  then have "own \<noteq> []" and all_counted: "\<forall>x \<in> set own. 1 \<le> active_voucher_count db (pay_id x)"
    unfolding coverage_is_satisfied_def get_payment_voucher_coverage_def Let_def own_def
    by (auto simp: filter_empty_conv not_less)
  have "\<exists>v \<in> set (payment_vouchers db). pv_payment_id v = pay_id x \<and>
    (\<exists>d \<in> set (documents db). doc_id d = pv_document_id v \<and> \<not> doc_is_deleted d)" if "x \<in> set own" for x
  proof -
    have "filter (\<lambda>v. pv_payment_id v = pay_id x \<and> (\<exists>d \<in> set (documents db).
        doc_id d = pv_document_id v \<and> \<not> doc_is_deleted d)) (payment_vouchers db) \<noteq> []"
      using all_counted that unfolding active_voucher_count_def by fastforce
    then show ?thesis by (auto simp: filter_empty_conv)
  qed
  with \<open>own \<noteq> []\<close> show ?thesis by blast
qed

definition voucher_rule :: phase_doc_template where
  "voucher_rule = \<lparr> pdt_phase_no = 5, pdt_doc_type = ''payment_voucher'',
     pdt_requirement = doc_requirement.required, pdt_qty_rule = ''per_payment'',
     pdt_procurement_type = None, pdt_is_active = True \<rparr>"

definition voucher_world :: database where
  "voucher_world = world6\<lparr>phase_doc_templates := [voucher_rule]\<rparr>"

lemmas voucher_world_simps = run_simps demo_start_def world1_def world2_def world3_def world4_def
  world5_def world6_def voucher_world_def voucher_rule_def

lemma voucher_rule_reads: "is_per_payment_rule ''per_payment''"
  by code_simp

lemma voucher_phase:
  "\<exists>p s. check_promotion the_admin 108 voucher_world = Inr (p, s) \<and> get_phase 108 voucher_world = Some p \<and>
     ph_phase_no p = 5 \<and> required_documents_for_phase p voucher_world = Inr [voucher_rule]"
  by (simp add: voucher_world_simps check_promotion_def get_existing_phase_def voucher_rule_reads
      ensure_can_operate_phase_def ensure_procurement_type_selected_def
      ensure_phase_dependencies_completed_def required_documents_for_phase_def
      list_required_doc_templates_def ensure_acceptance_steps_completed_def
      ensure_required_documents_uploaded_def required_document_is_satisfied_def
      payment_voucher_coverage_for_phase_def get_payment_voucher_coverage_def counts_vouchers_def
      coverage_is_satisfied_def active_voucher_count_def)

lemma payment_phase_has_vouchers_witness:
  "\<exists>v \<in> set (payment_vouchers voucher_world). pv_payment_id v = 111 \<and>
     (\<exists>d \<in> set (documents voucher_world). doc_id d = pv_document_id v \<and> \<not> doc_is_deleted d)"
proof -
  from voucher_phase obtain p s where p: "check_promotion the_admin 108 voucher_world = Inr (p, s)"
    "get_phase 108 voucher_world = Some p" "ph_phase_no p = 5"
    "required_documents_for_phase p voucher_world = Inr [voucher_rule]" by blast
  then obtain p' q' db' where run: "promote_phase demo_env the_admin 108 voucher_world = Inr ((p', q'), db')"
    by (auto simp: promote_phase_def Let_def uuid4_def)
  have sid: "ph_sub_project_id p = 102"
    using p(2) by (auto simp: voucher_world_simps)
  from promote_phase_effect [OF run] p(1,3) have "ph_phase_no p' = 5" by auto
  from payment_phase_has_vouchers [OF run this p(4,2), of voucher_rule] show ?thesis
    by (auto simp: sid voucher_rule_def voucher_rule_reads voucher_world_simps)
qed



text \<open>
  C22: A scan marks exactly the late executors: an active executor with a date before the target
  day becomes overdue, every other row is unchanged, and a second scan of the same users for a day
  that is not later marks and escalates nothing.
\<close>
theorem scan_marks_late_executors:
  assumes "reachable db" and "scan_deadlines e (Some d) ids db = (result, db')"
  shows "executors db' = map (\<lambda>x.
      if ex_plan_end_date x < d \<and> ex_status x \<in> active_deadline_statuses \<and> selected_user ids x
      then x\<lparr>ex_status := task_status.overdue, ex_updated_at := clock e\<rparr> else x) (executors db) \<and>
    (d' \<le> d \<longrightarrow> list_overdue_executors d' ids db' = [])"
proof -
  have ids: "distinct (map ex_id (executors db))"
    using task_board.reachable_inv [OF assms(1) [unfolded reachable_def]]
    by (simp add: task_board_ok_def fresh_ids_def)
  let ?late = "\<lambda>x. ex_plan_end_date x < d \<and> ex_status x \<in> active_deadline_statuses \<and> selected_user ids x"
  have "mark_late e (list_overdue_executors d ids db) x = (if ?late x
      then x\<lparr>ex_status := task_status.overdue, ex_updated_at := clock e\<rparr> else x)"
    if "x \<in> set (executors db)" for x
    using distinct_key_eqD [OF ids _ that] that by (auto simp: mark_late_def list_overdue_executors_def)
  then have marked: "executors db' = map (\<lambda>x. if ?late x
      then x\<lparr>ex_status := task_status.overdue, ex_updated_at := clock e\<rparr> else x) (executors db)"
    using scan_deadlines_tables(2) [of e "Some d" ids db] assms(2) by simp
  moreover have "list_overdue_executors d' ids db' = []" if "d' \<le> d"
    unfolding list_overdue_executors_def marked filter_empty_conv
    using that by (auto simp: active_deadline_statuses_def selected_user_def split: if_splits)
  ultimately show ?thesis by blast
qed

lemma scan_marks_late_executors_witness:
  "\<exists>r db'. scan_deadlines later_env (Some (Date 2026 3 20)) None world9 = (r, db') \<and>
     list_overdue_executors (Date 2026 3 20) None db' = []"
proof -
  obtain r db' where run: "scan_deadlines later_env (Some (Date 2026 3 20)) None world9 = (r, db')"
    by (cases "scan_deadlines later_env (Some (Date 2026 3 20)) None world9")
  from scan_marks_late_executors [OF reach9 run, of "Date 2026 3 20"] run show ?thesis by blast
qed

subsection \<open>Documents, requests, tasks and notifications\<close>

text \<open>
  C23: An upload that succeeds adds one document, with a version above every version of its sub
  project, phase and type, live and marked latest, and, where the type holds one document at a
  time, unmarks all others of that group; the file has passed the validator.
\<close>
theorem upload_adds_next_version:
  assumes "reachable db" and "upload_document e actor policy scheduler sid u db fs = (Inr d, db', fs')"
  shows "d \<in> set (documents db') \<and> doc_is_latest d \<and> \<not> doc_is_deleted d \<and>
    doc_sub_project_id d = sid \<and> doc_phase_id d = du_phase_id u \<and>
    map doc_id (documents db') = map doc_id (documents db) @ [doc_id d] \<and>
    (\<forall>x \<in> set (documents db). group_of x = group_of d \<longrightarrow> doc_version x < doc_version d) \<and>
    (\<not> is_multi_instance_document (doc_doc_type d) (du_acceptance_step_id u) \<longrightarrow>
       (\<forall>x \<in> set (documents db'). group_of x = group_of d \<longrightarrow> doc_is_latest x \<longrightarrow> x = d)) \<and>
    (\<exists>name. validate_file (zip_reader policy) name (du_content_type u) (du_content u) = Inr ())"
proof -
  have fresh: "fresh_ids doc_id (documents db) (next_uuid db)"
    using reachable_integrity [OF assms(1)] by (simp add: integrity_def)
  then have ids: "distinct (map doc_id (documents db))" and new: "\<forall>d \<in> set (documents db). doc_id d < next_uuid db"
    by (auto simp: fresh_ids_def)
  from assms(2) ids new show ?thesis
  proof (rule upload_document_effect)
    fix doc_type name display and s :: sub_project and p :: phase
    assume val: "validate_file (zip_reader policy) name (du_content_type u) (du_content u) = Inr ()"
      and docs: "documents db' = (if is_multi_instance_document doc_type (du_acceptance_step_id u)
         then documents db else clear_group clear_latest sid (du_phase_id u) doc_type (documents db)) @ [d]"
      and d: "same_group sid (du_phase_id u) doc_type d"
        "doc_version d = latest_version (list_group_documents sid (du_phase_id u) doc_type db) + 1"
        "doc_is_latest d" "\<not> doc_is_deleted d"
    have place: "doc_sub_project_id d = sid" "doc_phase_id d = du_phase_id u" "doc_doc_type d = doc_type"
      "group_of d = (sid, du_phase_id u, doc_type)"
      using d(1) by (simp_all add: same_group_def group_of_def)
    have "doc_version x < doc_version d" if "x \<in> set (documents db)" "group_of x = group_of d" for x
    proof -
      have "x \<in> set (list_group_documents sid (du_phase_id u) doc_type db)"
        using that by (auto simp: set_list_group_documents same_group_iff place(4))
      from latest_version_upper [OF this] d(2) show ?thesis by simp
    qed
    moreover have "x = d" if "x \<in> set (documents db')" "group_of x = group_of d" "doc_is_latest x"
      "\<not> is_multi_instance_document doc_type (du_acceptance_step_id u)" for x
    proof (rule ccontr)
      assume "x \<noteq> d"
      with that(1,4) have "x \<in> set (clear_group clear_latest sid (du_phase_id u) doc_type (documents db))"
        unfolding docs by simp
      then obtain y where x: "x = (if same_group sid (du_phase_id u) doc_type y \<and> doc_is_latest y
          then clear_latest y else y)" unfolding clear_group_def set_map by (elim imageE)
      show False
      proof (cases "same_group sid (du_phase_id u) doc_type y \<and> doc_is_latest y")
        case True
        with x that(3) show False by (simp add: clear_latest_def)
      next
        case False
        have "x = y" using x unfolding if_not_P [OF False] .
        with False that(2,3) show False by (simp add: same_group_iff place(4))
      qed
    qed
    moreover have "map doc_id (documents db') = map doc_id (documents db) @ [doc_id d]"
      unfolding docs by simp
    ultimately show ?thesis using d(3,4) place val docs by auto
  qed
qed

lemma upload_adds_next_version_witness:
  "\<exists>d \<in> set (documents world13). doc_is_latest d \<and> doc_phase_id d = 104"
proof -
  obtain r fs' where run: "upload_document demo_env the_leader demo_policy None 102 demo_upload world12
      empty_store = (r, world13, fs')" and "\<not> isl r"
    using run13 by (auto split: prod.splits)
  then obtain d where "r = Inr d" by (cases r) simp_all
  from upload_adds_next_version [OF reach12 run [unfolded this]] show ?thesis
    by (auto simp: demo_upload_def)
qed

text \<open>
  Only an administrator forces a handover, only while the candidate has not answered, and
  only when seven days have passed since the request; every sub project of the request was led
  by the requester until then.
\<close>
theorem forced_handover_waits_seven_days:
  assumes "force_handover_request e actor k db = Inr (r, db')"
  shows "\<exists>q. get_handover_request k db = Some q \<and> u_role actor = user_role.admin \<and>
    hr_status q = handover_status.pending_candidate \<and>
    hr_created_at q + 7 * 86400 * 1000000 \<le> clock e"
  using assms unfolding force_handover_request_def get_existing_handover_request_def
  by (elim attempt_InrE guard_InrE present_InrE) (auto simp: admin_force_after_def)

definition overdue_request :: database where
  "overdue_request = world19\<lparr>handover_requests := map (\<lambda>r. r\<lparr>hr_created_at := 0\<rparr>)
     (handover_requests world19)\<rparr>"

lemma forced_handover_waits_seven_days_witness:
  "\<exists>q. get_handover_request 134 overdue_request = Some q \<and> hr_created_at q + 7 * 86400 * 1000000 \<le>
     clock later_env"
proof -
  have "\<exists>r db'. force_handover_request later_env the_admin 134 overdue_request = Inr (r, db')"
    by (simp add: run_simps demo_start_def world1_def world2_def world3_def world4_def world5_def
        world6_def world7_def world8_def world9_def world10_def world11_def world12_def world13_def
        world14_def world15_def world16_def world17_def world18_def world19_def overdue_request_def
        force_handover_request_def admin_force_after_def active_handover_statuses_def
        apply_transfer_def force_mark_def enqueue_audit_def ensure_active_project_def
        get_active_project_leader_def get_existing_handover_request_def get_handover_request_def
        get_member_def get_user_def handover_list_members_def invalid_request_status_def
        list_request_project_ids_def notify_handover_def record_handover_audit_def
        save_handover_request_def to_audit_context_def transfer_project_def upsert_request_members_def)
  then obtain r db' where "force_handover_request later_env the_admin 134 overdue_request = Inr (r, db')"
    by blast
  from forced_handover_waits_seven_days [OF this] show ?thesis by blast
qed

text \<open>
  C25: The answer of the review of a revoke request: the reviewer has a reviewing role, the
  request was pending, an approval reopens exactly the phase of the request and deletes its latest
  documents unless they are kept, and a rejection changes neither phases nor documents.
\<close>
theorem revoke_review_effects:
  assumes "reachable db" and "review_revoke_request e actor k decision comment db = Inr (r, db')"
  shows "u_role actor \<in> view_all_revoke_roles \<and> rr_status r \<noteq> revoke_status.pending \<and>
    (if decision = revoke_review_decision.reject
     then phases db' = phases db \<and> documents db' = documents db
     else phases db' = map (\<lambda>p. if ph_id p = rr_phase_id r then reopen_phase e p else p) (phases db) \<and>
       documents db' = map (\<lambda>d. if \<not> rr_keep_documents r \<and> doc_phase_id d = rr_phase_id r \<and>
           doc_is_latest d \<and> \<not> doc_is_deleted d then soft_delete_document e d else d) (documents db))"
  using assms(2)
proof (rule review_revoke_request_effect)
  fix q and p :: phase and s :: sub_project and status
  assume role: "u_role actor \<in> view_all_revoke_roles"
    and status: "status = (if decision = revoke_review_decision.reject then revoke_status.rejected
      else revoke_status.approved)" and r: "r = decide_revoke e actor status comment q"
    and ps: "phases db' = (if decision = revoke_review_decision.reject then phases db
      else update_rows ph_id (rr_phase_id q) (reopen_phase e) (phases db))"
    and ds: "documents db' =
      (if decision = revoke_review_decision.reject \<or> rr_keep_documents q then documents db
       else documents (save_documents (list_latest_documents_for_update (rr_phase_id q) db)
         (soft_delete_document e) db))"
  have ids: "distinct (map doc_id (documents db))"
    using reachable_integrity [OF assms(1)] by (simp add: integrity_def fresh_ids_def)
  have row: "rr_phase_id r = rr_phase_id q" "rr_keep_documents r = rr_keep_documents q" "rr_status r = status"
    by (simp_all add: r)
  let ?hit = "\<lambda>d. doc_phase_id d = rr_phase_id q \<and> doc_is_latest d \<and> \<not> doc_is_deleted d"
  have "documents (save_documents (list_latest_documents_for_update (rr_phase_id q) db)
      (soft_delete_document e) db) =
      map (\<lambda>d. if ?hit d then soft_delete_document e d else d) (documents db)"
  proof -
    have keep: "doc_id (soft_delete_document e d) = doc_id d" for d by (simp add: soft_delete_document_def)
    have hit: "doc_id d \<in> doc_id ` set (list_latest_documents_for_update (rr_phase_id q) db) \<longleftrightarrow> ?hit d"
      if "d \<in> set (documents db)" for d
      using distinct_key_eqD [OF ids _ that] that by (auto simp: list_latest_documents_for_update_def)
    have "distinct (map doc_id (list_latest_documents_for_update (rr_phase_id q) db))"
      using ids by (simp add: list_latest_documents_for_update_def distinct_map_filter)
    from save_documents_map [OF this keep] show ?thesis by (simp add: hit cong: map_cong)
  qed
  then show ?thesis
    using role ps ds status unfolding row by (auto simp: update_rows_def)
qed

lemma revoke_review_effects_witness:
  "phases world17 = map (\<lambda>p. if ph_id p = 104 then reopen_phase demo_env p else p) (phases world16)"
  using revoke_review_effects [OF reach16 run17] by simp

text \<open>
  A task update with a list of assignments makes exactly the listed users the executors of
  the task, each once; it leaves the executors of other tasks alone.  A task update without one
  changes no executor.
\<close>
theorem task_update_assigns:
  assumes "reachable db" and "update_task e actor k payload db = Inr (t, db')"
  shows "(case tu_executors payload of
      Some as \<Rightarrow> distinct (map ex_user_id (executors_of k db')) \<and>
        set (map ex_user_id (executors_of k db')) = set (map ea_user_id as)
    | None \<Rightarrow> executors db' = executors db) \<and>
    (k' \<noteq> k \<longrightarrow> map ex_user_id (executors_of k' db') = map ex_user_id (executors_of k' db))"
proof -
  have "fresh_ids ex_id (executors db) (next_uuid db)" "\<forall>t \<in> set (tasks db). task_status_ok db t"
    using task_board.reachable_inv [OF assms(1) [unfolded reachable_def]] by (simp_all add: task_board_ok_def)
  note u = update_task_effect [OF assms(2) this]
  have "map ex_user_id (executors_of k' db') = map ex_user_id (executors_of k' db)" if "k' \<noteq> k"
    using u(2) [OF that] by (simp add: exec_view_users)
  with u(7,8) show ?thesis by (auto split: option.split)
qed

definition demo_reassignment :: task_update where
  "demo_reassignment = \<lparr> tu_name = None, tu_plan_end_date = None,
     tu_executors = Some [\<lparr> ea_user_id = 2, ea_plan_end_date = Date 2026 3 12 \<rparr>] \<rparr>"

lemma task_update_assigns_witness:
  "\<exists>t db'. update_task demo_env the_leader 121 demo_reassignment world9 = Inr (t, db') \<and>
     set (map ex_user_id (executors_of 121 db')) = {2}"
proof -
  have "\<exists>t db'. update_task demo_env the_leader 121 demo_reassignment world9 = Inr (t, db')"
    by (simp add: run_simps demo_start_def world1_def world2_def world3_def world4_def world5_def
        world6_def world7_def world8_def world9_def update_task_def demo_reassignment_def
        get_existing_task_def get_task_row_def ensure_can_assign_def validate_assignments_def
        get_member_def executors_of_def split: prod.split)
  then obtain t db' where run: "update_task demo_env the_leader 121 demo_reassignment world9 = Inr (t, db')"
    by blast
  from task_update_assigns [OF reach9 run, of 0] run show ?thesis by (auto simp: demo_reassignment_def)
qed

lemma complete_task_own:
  assumes "complete_task e actor k db = Inr (t, db')"
  shows "\<exists>x. x \<in> set (executors db) \<and> ex_task_id x = k \<and> ex_user_id x = u_id actor \<and>
    (ex_status x = task_status.completed \<and> db' = db \<or>
     executors db' = update_rows ex_id (ex_id x) (complete_executor e) (executors db))"
proof -
  from assms obtain r x where found: "find (\<lambda>x. ex_user_id x = u_id actor) (executors_of k db) = Some x" and
    run: "(if ex_status x = task_status.completed then Inr (r, db)
     else
       let db = refresh_task_status e k (save_executor (ex_id x) (complete_executor e) db)
       in Inr (case get_task_row k db of None \<Rightarrow> r | Some row \<Rightarrow> row, db)) =
       (Inr (t, db') :: py_error + (task \<times> database))"
    unfolding complete_task_def get_existing_task_def
    apply (elim attempt_InrE present_InrE)
    apply (rule that)
      apply assumption+
    done
  from found have "x \<in> set (executors db)" "ex_task_id x = k" "ex_user_id x = u_id actor"
    by (auto simp: executors_of_def dest!: find_SomeD)
  then show ?thesis
    using run by (intro exI [of _ x]) (auto simp: Let_def save_executor_def split: if_splits)
qed

text \<open>
  Completing a task completes the own executor row of the actor: the actor is an executor of
  the task, and afterwards this row is completed and every executor row of other users is unchanged.
\<close>
theorem completing_a_task:
  assumes "reachable db" and "complete_task e actor k db = Inr (t, db')"
  shows "(\<exists>x \<in> set (executors_of k db'). ex_user_id x = u_id actor \<and> ex_status x = task_status.completed) \<and>
    filter (\<lambda>x. ex_task_id x \<noteq> k \<or> ex_user_id x \<noteq> u_id actor) (executors db') =
      filter (\<lambda>x. ex_task_id x \<noteq> k \<or> ex_user_id x \<noteq> u_id actor) (executors db)"
proof -
  from complete_task_own [OF assms(2)] obtain x where
    x: "x \<in> set (executors db)" "ex_task_id x = k" "ex_user_id x = u_id actor" and
    cases: "ex_status x = task_status.completed \<and> db' = db \<or>
      executors db' = update_rows ex_id (ex_id x) (complete_executor e) (executors db)" by blast
  have ids: "distinct (map ex_id (executors db))"
    using task_board.reachable_inv [OF assms(1) [unfolded reachable_def]]
    by (simp add: task_board_ok_def fresh_ids_def)
  from cases show ?thesis
  proof
    assume "ex_status x = task_status.completed \<and> db' = db"
    with x show ?thesis by (auto simp: executors_of_def)
  next
    assume rows: "executors db' = update_rows ex_id (ex_id x) (complete_executor e) (executors db)"
    have own: "complete_executor e x \<in> set (executors db')"
      unfolding rows update_rows_def using x(1) by force
    have same: "y = x" if "y \<in> set (executors db)" "ex_id y = ex_id x" for y
      using distinct_key_eqD [OF ids that(1) x(1) that(2)] .
    let ?other = "\<lambda>x. ex_task_id x \<noteq> k \<or> ex_user_id x \<noteq> u_id actor"
    have "filter ?other (map (\<lambda>y. if ex_id y = ex_id x then complete_executor e y else y) ys) = filter ?other ys"
      if "set ys \<subseteq> set (executors db)" for ys
      using that same x(2,3) by (induction ys) (auto simp: complete_executor_def)
    then have "filter ?other (executors db') = filter ?other (executors db)"
      unfolding rows update_rows_def by blast
    moreover have "\<exists>y \<in> set (executors_of k db'). ex_user_id y = u_id actor \<and> ex_status y = task_status.completed"
      using own x(2,3) by (auto simp: executors_of_def complete_executor_def)
    ultimately show ?thesis by blast
  qed
qed

lemma completing_a_task_witness:
  "\<exists>x \<in> set (executors_of 121 world11). ex_user_id x = 4 \<and> ex_status x = task_status.completed"
  using completing_a_task [OF reach10 run11] by (simp add: the_worker_def staff_def)

text \<open>
  A notification is not repeated on the same day: sending the same scenario for the same
  source to the same receivers again, on the same business date, creates no notification.
\<close>
theorem resending_creates_nothing:
  assumes "business_date e' = business_date e" and "set rs' \<subseteq> set rs"
  shows "fst (send e' sc rs' src p' (snd (send e sc rs src p db))) = []"
proof -
  have "in_app_targets e' sc rs' src (snd (send e sc rs src p db)) = []"
    unfolding resend_targets [OF assms(1)] filter_empty_conv
    using assms(2) by (auto simp: in_app_targets_def)
  then show ?thesis using send_receivers [of e' sc rs' src p' "snd (send e sc rs src p db)"] by simp
qed

lemma resending_creates_nothing_witness:
  "fst (send later_env ''task_overdue'' [4] 122 [] (snd (send later_env ''task_overdue'' [4] 122 [] world9))) = []"
  by (rule resending_creates_nothing) simp_all

text \<open>
  After a user has marked all notifications as read, the user has no unread one, and the
  unread notifications of every other user are the same.
\<close>
theorem mark_all_read_clears:
  assumes "mark_all_read e actor db = (n, db')"
  shows "list_unread_for_update (u_id actor) db' = [] \<and>
    (r \<noteq> u_id actor \<longrightarrow> list_unread_for_update r db' = list_unread_for_update r db)"
  using unread_after_mark_all [of _ e actor db] assms by simp

lemma mark_all_read_clears_witness:
  "list_unread_for_update (u_id the_worker) (snd (mark_all_read later_env the_worker world10)) = []"
proof -
  obtain n db' where run: "mark_all_read later_env the_worker world10 = (n, db')"
    by (cases "mark_all_read later_env the_worker world10")
  from mark_all_read_clears [OF run] show ?thesis unfolding run by simp
qed

lemma batch_items_stop:
  "batch_handover_items e actor from_id items db = (Inl err, db') \<Longrightarrow>
     \<exists>before item rest ss. items = before @ item # rest \<and>
       batch_handover_items e actor from_id before db = (Inr ss, db') \<and>
       handover_sub_project e actor (bhi_sub_project_id item) (bhi_to_user_id item) (bhi_reason item)
         (Some from_id) db' = Inl err"
proof (induction items arbitrary: db)
  case (Cons item items)
  show ?case
  proof (cases "handover_sub_project e actor (bhi_sub_project_id item) (bhi_to_user_id item)
      (bhi_reason item) (Some from_id) db")
    case (Inl x)
    with Cons.prems show ?thesis
      by (intro exI [of _ "[]"] exI [of _ item] exI [of _ items]) simp
  next
    case (Inr r)
    obtain s db1 where r: "r = (s, db1)" by (cases r)
    have "batch_handover_items e actor from_id items db1 = (Inl err, db')"
      using Cons.prems Inr r by (auto split: prod.splits sum.splits)
    from Cons.IH [OF this] obtain before item' rest ss where
      stop: "items = before @ item' # rest" "batch_handover_items e actor from_id before db1 = (Inr ss, db')"
      "handover_sub_project e actor (bhi_sub_project_id item') (bhi_to_user_id item') (bhi_reason item')
         (Some from_id) db' = Inl err" by blast
    then show ?thesis
      using Inr r by (intro exI [of _ "item # before"] exI [of _ item'] exI [of _ rest]) simp
  qed
qed simp

lemma batch_items_all:
  "batch_handover_items e actor from_id items db = (Inr ss, db') \<Longrightarrow> length ss = length items"
  by (induction items arbitrary: db ss) (auto split: prod.splits sum.splits)

text \<open>
  C26: A batch of handovers is a run of single handovers: it gives one result per item, or it
  stops at the first item that fails, and then the database is the one after the items before it,
  which were committed.  Without the administrator role nothing happens.
\<close>
theorem batch_handover_is_a_run:
  assumes "batch_handover_sub_projects e actor from_id items db = (result, db')"
  shows "step\<^sup>*\<^sup>* db db' \<and>
    (case result of
       Inr ss \<Rightarrow> u_role actor = user_role.admin \<and> length ss = length items
     | Inl err \<Rightarrow> (if u_role actor \<noteq> user_role.admin then db' = db \<and> err = PermissionDenied
         else \<exists>before item rest ss. items = before @ item # rest \<and>
           batch_handover_sub_projects e actor from_id before db = (Inr ss, db') \<and>
           handover_sub_project e actor (bhi_sub_project_id item) (bhi_to_user_id item)
             (bhi_reason item) (Some from_id) db' = Inl err))"
proof -
  have "step\<^sup>*\<^sup>* db db'" using batch_handover_steps [of db e actor from_id items] assms by simp
  then show ?thesis
    using assms batch_items_stop [of e actor from_id items db _ db']
      batch_items_all [of e actor from_id items db _ db']
    by (auto simp: batch_handover_sub_projects_def split: sum.split if_splits)
qed

lemma batch_handover_is_a_run_witness:
  "\<exists>result db'. batch_handover_sub_projects demo_env the_admin 2
     [\<lparr> bhi_sub_project_id = 102, bhi_to_user_id = 5, bhi_reason = ''leave'' \<rparr>] world17 = (result, db') \<and>
     step\<^sup>*\<^sup>* world17 db'"
proof -
  obtain result db' where run: "batch_handover_sub_projects demo_env the_admin 2
     [\<lparr> bhi_sub_project_id = 102, bhi_to_user_id = 5, bhi_reason = ''leave'' \<rparr>] world17 = (result, db')"
    by (rule prod.exhaust)
  with batch_handover_is_a_run [OF run] show ?thesis by blast
qed

text \<open>
  The promotion of a phase does not look at the status of its sub project: in a reachable
  state with a terminated sub project and a closed main project, the leader still completes the
  first phase.
\<close>
theorem terminated_project_is_promoted:
  "reachable world27 \<and>
   map_option sp_status (get_sub_project 102 world27) = Some sub_project_status.terminated \<and>
   map_option mp_status (get_main_project 100 world27) = Some main_project_status.closed \<and>
   (\<exists>p q db'. promote_phase demo_env the_leader 104 world27 = Inr ((p, q), db') \<and>
      ph_sub_project_id p = 102 \<and> ph_status p = phase_status.completed)"
proof (intro conjI)
  show "reachable world27" by (rule reach27)
  show "\<exists>p q db'. promote_phase demo_env the_leader 104 world27 = Inr ((p, q), db') \<and>
      ph_sub_project_id p = 102 \<and> ph_status p = phase_status.completed"
    using run28 by (intro exI conjI) (assumption | simp)+
qed (simp_all add: world27_def world26_def repository_defs find_row_def get_main_project_def
  get_sub_project_def)

subsection \<open>The journal of payments\<close>

text \<open>Moves only append to the payments: a row that is there is neither changed nor removed.\<close>

definition journal_grows :: "database \<Rightarrow> database \<Rightarrow> bool" where
  "journal_grows db db' \<longleftrightarrow> (\<exists>new. payments db' = payments db @ new)"

lemma unwritten_payments: "evolves W db db' \<Longrightarrow> Payments \<notin> W \<Longrightarrow> payments db' = payments db @ []"
  by (simp add: evolves_iff writes_iff)

lemma journal_move:
  assumes "step db db'"
  shows "journal_grows db db'"
  using assms
proof (cases rule: step.cases)
  case (do_create_payment e actor policy k payload fs r fs')
  then show ?thesis by (rule create_payment_effect) (unfold journal_grows_def, blast)
next
  case (do_reverse_payment e actor sid k remark r)
  then show ?thesis by (rule reverse_payment_effect) (unfold journal_grows_def, blast)
qed (unfold journal_grows_def, (rule exI [of _ "[]"], rule unwritten_payments, erule move_writes, simp)+)

interpretation journal: monotone_relation initial step "\<lambda>_. True" journal_grows
proof unfold_locales
  show "journal_grows db db" for db by (simp add: journal_grows_def)
  show "journal_grows db db' \<Longrightarrow> journal_grows db' db'' \<Longrightarrow> journal_grows db db''" for db db' db''
    unfolding journal_grows_def by (metis append_assoc)
  show "step db db' \<Longrightarrow> journal_grows db db'" for db db' by (rule journal_move)
qed simp


text \<open>
  A payment is never changed or removed: from every reachable state on, the payments of every
  later state begin with the payments that were there, so a correction is a new reversal row.
\<close>
theorem payments_are_a_journal:
  assumes "reachable db" and "step\<^sup>*\<^sup>* db db'"
  shows "take (length (payments db)) (payments db') = payments db"
  using journal.run_rel [OF assms(2) assms(1) [unfolded reachable_def]]
  by (auto simp: journal_grows_def)

lemma payments_are_a_journal_witness:
  "take 1 (payments world7) = payments world5"
proof -
  have "step\<^sup>*\<^sup>* world5 world7"
    using payment_step [OF run6] do_reverse_payment [OF run7] by (blast intro: rtranclp_trans)
  from payments_are_a_journal [OF reach5 this] show ?thesis by (simp add: world5_def)
qed



end
