(* ===== verification/Foundations.thy ===== *)
theory Foundations
  imports Scenario
begin

text \<open>
  What the layers below the services promise: the file storage and the upload validator, phase
  definitions, rounding of amounts, dates, payment numbers and stored permissions.
\<close>

subsection \<open>Paths of the storage\<close>

lemma split_on_parts: "p \<in> set (split_on c s) \<Longrightarrow> c \<notin> set p"
  by (induction c s arbitrary: p rule: split_on.induct) (fastforce split: if_splits list.splits)+

lemma split_on_nonempty [simp]: "split_on c s \<noteq> []"
  by (induction c s rule: split_on.induct) (simp_all split: list.split)

lemma split_on_append:
  "c \<notin> set p \<Longrightarrow> split_on c (p @ c # s) = p # split_on c s"
  by (induction p) auto

lemma split_on_single: "c \<notin> set p \<Longrightarrow> split_on c p = [p]"
  by (induction p) auto

lemma contains_char: "contains [c] s \<longleftrightarrow> c \<in> set s"
  by (induction s) auto

text \<open>
  The storage never leaves its root: a key that it accepts is a relative path each of
  whose parts is not empty, is neither the current nor the parent directory, and contains no
  separator.
\<close>
theorem storage_keys_stay_below_root:
  assumes "safe_key key = Inr parts" and "part \<in> set parts"
  shows "hd key \<noteq> CHR ''/'' \<and> part \<notin> {[], ''.'', ''..''} \<and> CHR ''/'' \<notin> set part \<and>
    \<not> contains ''..'' part"
proof -
  have parts: "parts = path_parts key" "hd key \<noteq> CHR ''/''" "\<not> contains ''..'' part"
    using assms by (auto simp: safe_key_def split: if_splits)
  moreover have "part \<in> set (split_on CHR ''/'' key)" "part \<noteq> []" "part \<noteq> ''.''"
    using assms(2) by (auto simp: parts path_parts_def)
  moreover have "part \<noteq> ''..''" using parts(3) by (auto simp: prefix_def)
  ultimately show ?thesis using split_on_parts by blast
qed

lemma storage_keys_stay_below_root_witness:
  "''b.pdf'' \<notin> {[], ''.'', ''..''} \<and> safe_key ''a/b.pdf'' = Inr [''a'', ''b.pdf'']"
proof -
  have key: "safe_key ''a/b.pdf'' = Inr [''a'', ''b.pdf'']" by code_simp
  with storage_keys_stay_below_root [OF key, of "''b.pdf''"] show ?thesis by simp
qed

lemma split_on_concat: "split_on c (p @ c # s) = split_on c p @ split_on c s"
proof (induction p)
  case (Cons x p)
  obtain w ws where "split_on c p = w # ws" by (cases "split_on c p") simp_all
  with Cons show ?case by simp
qed simp

lemma last_split_on_join:
  assumes "CHR ''/'' \<notin> set f"
  shows "last (split_on CHR ''/'' (join_parts (ps @ [f]))) = f"
proof (induction ps rule: join_parts.induct)
  case (2 p)
  show ?case using assms by (simp add: split_on_concat split_on_single)
next
  case (3 p q ps)
  then show ?case by (simp add: split_on_concat)
qed (simp add: split_on_single [OF assms])

lemma set_after_last: "after_last sep s = Some t \<Longrightarrow> set t \<subseteq> set s"
  by (induction s) (auto split: option.splits if_splits dest: in_set_dropD)

lemma lower_char_slash: "CHR ''/'' \<in> set (lower s) \<Longrightarrow> CHR ''/'' \<in> set s"
proof -
  have "n \<le> 90 \<Longrightarrow> 65 \<le> n \<Longrightarrow> char_of (n + 32) \<noteq> CHR ''/''" for n :: nat
  proof
    assume "n \<le> 90" "65 \<le> n" "char_of (n + 32) = CHR ''/''"
    then have "(of_char (char_of (n + 32) :: char) :: nat) = 47" by simp
    with \<open>n \<le> 90\<close> \<open>65 \<le> n\<close> show False by simp
  qed
  note other = this
  show "CHR ''/'' \<in> set (lower s) \<Longrightarrow> CHR ''/'' \<in> set s"
    using other [symmetric] unfolding lower_def Let_def by (fastforce split: if_splits)
qed

lemma safe_extension_plain:
  assumes "safe_extension name = Inr ext"
  shows "CHR ''/'' \<notin> set ext"
proof -
  have name: "CHR ''/'' \<notin> set name" and suffix: "path_suffix name \<noteq> []"
    and ext: "ext = lower (dropWhile (\<lambda>c. c = CHR ''.'') (path_suffix name))"
    using assms by (auto simp: safe_extension_def contains_char Let_def split: if_splits)
  have "set (path_name name) \<subseteq> set name"
    using split_on_single [OF name] by (auto simp: path_name_def path_parts_def)
  moreover obtain t where "after_last ''.'' (path_name name) = Some t" "path_suffix name = CHR ''.'' # t"
    using suffix by (auto simp: path_suffix_def Let_def split: option.splits if_splits)
  ultimately have "CHR ''/'' \<notin> set (path_suffix name)"
    using name set_after_last by fastforce
  then show ?thesis
    unfolding ext using lower_char_slash set_dropWhileD by metis
qed

text \<open>The file that a save writes carries the identifier it was issued.\<close>

definition file_mark :: "string \<Rightarrow> string" where
  "file_mark name = take 36 (last (split_on CHR ''/'' name))"

definition issued_names :: "file_store \<Rightarrow> bool" where
  "issued_names fs \<longleftrightarrow> (\<forall>name. stored_files fs name \<noteq> None \<longrightarrow>
     (\<exists>i < next_file_uuid fs. file_mark name = str_uuid i))"

lemma storage_save_effect:
  assumes "storage_save sub place name content fs = Inr (key, fs')"
  shows "\<exists>parts. safe_key key = Inr parts \<and>
    fs' = fs\<lparr> stored_files := (stored_files fs)(join_parts parts \<mapsto> content),
      next_file_uuid := Suc (next_file_uuid fs) \<rparr> \<and>
    file_mark (join_parts parts) = str_uuid (next_file_uuid fs)"
proof -
  from assms obtain sub' place' ext parts where
    segs: "safe_segment sub = Inr sub'" "safe_segment place = Inr place'" and
    ext: "safe_extension name = Inr ext" and
    key: "key = build_storage_key sub' place' (next_file_uuid fs) ext" and
    parts: "safe_key key = Inr parts" and
    fs': "fs' = fs\<lparr> stored_files := (stored_files fs)(join_parts parts \<mapsto> content),
      next_file_uuid := Suc (next_file_uuid fs) \<rparr>"
    unfolding storage_save_def Let_def by (auto elim!: attempt_InrE)
  let ?file = "str_uuid (next_file_uuid fs) @ ''.'' @ ext"
  have plain: "CHR ''/'' \<notin> set ?file" using safe_extension_plain [OF ext] str_uuid_plain by simp
  have "?file \<noteq> []" "?file \<noteq> ''.''"
    using str_uuid_plain(3) [of "next_file_uuid fs"] by (auto simp: append_eq_Cons_conv)
  then have "path_parts key = filter (\<lambda>p. p \<noteq> [] \<and> p \<noteq> ''.'')
      (split_on CHR ''/'' sub' @ split_on CHR ''/'' place') @ [?file]"
    using split_on_single [OF plain]
    by (simp add: key build_storage_key_def path_parts_def split_on_concat)
  moreover have "parts = path_parts key" using parts by (auto simp: safe_key_def split: if_splits)
  ultimately have tail: "parts = filter (\<lambda>p. p \<noteq> [] \<and> p \<noteq> ''.'')
      (split_on CHR ''/'' sub' @ split_on CHR ''/'' place') @ [?file]" by (simp only:)
  have "file_mark (join_parts parts) = take 36 ?file"
    unfolding file_mark_def tail last_split_on_join [OF plain] ..
  with parts fs' show ?thesis using str_uuid_plain(3) by simp
qed

text \<open>
  C28: What is saved can be read back, and a save never overwrites a file: in a store whose
  files carry identifiers issued before, a save issues a new key, adds the content under it,
  and every other file stays as it is, as long as fewer than 16^32 identifiers were issued.
\<close>
theorem storage_save_then_read:
  assumes "storage_save sub place name content fs = Inr (key, fs')"
    and "issued_names fs" and "next_file_uuid fs < 16 ^ 32"
  shows "storage_read key fs' = Inr content \<and> issued_names fs' \<and>
    stored_files fs \<subseteq>\<^sub>m stored_files fs' \<and>
    (\<forall>other old. storage_read other fs = Inr old \<longrightarrow> storage_read other fs' = Inr old)"
proof -
  from storage_save_effect [OF assms(1)] obtain parts where
    parts: "safe_key key = Inr parts" and
    fs': "fs' = fs\<lparr> stored_files := (stored_files fs)(join_parts parts \<mapsto> content),
      next_file_uuid := Suc (next_file_uuid fs) \<rparr>" and
    mark: "file_mark (join_parts parts) = str_uuid (next_file_uuid fs)" by blast
  have new: "stored_files fs (join_parts parts) = None"
  proof (rule ccontr)
    assume "stored_files fs (join_parts parts) \<noteq> None"
    with assms(2) mark obtain i where "i < next_file_uuid fs" "str_uuid (next_file_uuid fs) = str_uuid i"
      unfolding issued_names_def by metis
    with str_uuid_inject [of "next_file_uuid fs" i] assms(3) show False by simp
  qed
  then have kept: "stored_files fs \<subseteq>\<^sub>m stored_files fs'" by (auto simp: fs' map_le_def)
  then have "storage_read other fs' = Inr old" if "storage_read other fs = Inr old" for other old
    using that unfolding storage_read_def by (auto simp: result_simps map_le_def dom_def)
  moreover have "issued_names fs'"
    using assms(2) mark unfolding issued_names_def fs' by (auto simp: less_Suc_eq)
  moreover have "storage_read key fs' = Inr content" by (simp add: storage_read_def parts fs')
  ultimately show ?thesis using kept by blast
qed

lemma storage_save_then_read_witness:
  "\<exists>key fs'. storage_save (str_uuid 102) (str_uuid 104) ''contract.pdf'' ''%PDF-1.7'' empty_store =
     Inr (key, fs') \<and> storage_read key fs' = Inr ''%PDF-1.7''"
proof -
  obtain key fs' where run: "storage_save (str_uuid 102) (str_uuid 104) ''contract.pdf'' ''%PDF-1.7''
      empty_store = Inr (key, fs')"
    using demo_storage unfolding storage_save_def by (simp add: Let_def empty_store_def)
  have "issued_names empty_store" "next_file_uuid empty_store < 16 ^ 32"
    by (simp_all add: issued_names_def empty_store_def)
  from storage_save_then_read [OF run this] run show ?thesis by blast
qed

subsection \<open>Archives, definitions, values and permissions\<close>








text \<open>
  Amounts are rounded to the nearest cent: an amount with more than two decimals is off by
  at most half a cent, an amount with at most two is kept exactly, and an accepted amount has at
  most 28 digits.
\<close>
theorem amounts_are_rounded_to_cents:
  assumes "to_money (Dec c x) = Inr cents"
  shows "\<bar>cents\<bar> < 10 ^ 28 \<and>
    (- 2 \<le> x \<longrightarrow> cents = c * 10 ^ nat (x + 2)) \<and>
    (x < - 2 \<longrightarrow> \<bar>2 * (cents * 10 ^ nat (- x - 2) - c)\<bar> \<le> 10 ^ nat (- x - 2))"
  using assms div_half_even_error [of "10 ^ nat (- x - 2)" c]
  by (auto simp: to_money_def quantize_cents_def Let_def split: if_splits)

lemma amounts_are_rounded_to_cents_witness:
  "to_money (Dec 12345 (-3)) = Inr 1234 \<and> \<bar>2 * (1234 * 10 ^ 1 - 12345)\<bar> \<le> (10 :: int) ^ 1"
proof -
  have run: "to_money (Dec 12345 (-3)) = Inr 1234" by code_simp
  from amounts_are_rounded_to_cents [OF run] run show ?thesis by simp
qed

text \<open>
  Days overdue agree with the comparison of dates: for valid dates an executor has a positive
  number of overdue days exactly when its date is before the target, otherwise none, and a later
  target does not have fewer.
\<close>
theorem overdue_days_agree_with_dates:
  assumes "valid_date (ex_plan_end_date x)" and "valid_date d" and "valid_date d'" and "d \<le> d'"
  shows "(0 < days_overdue x d \<longleftrightarrow> ex_plan_end_date x < d) \<and> 0 \<le> days_overdue x d \<and>
    days_overdue x d \<le> days_overdue x d'"
proof -
  have order: "a < b \<longleftrightarrow> to_ordinal a < to_ordinal b" if "valid_date a" "valid_date b" for a b
    using to_ordinal_less [OF that] to_ordinal_less [OF that(2,1)] less_linear [of a b] by auto
  have "to_ordinal d \<le> to_ordinal d'"
    using order [OF assms(3,2)] assms(4) by (simp add: linorder_not_less [symmetric])
  then show ?thesis
    using order [OF assms(1,2)] by (simp add: days_overdue_def days_between_def less_max_iff_disj)
qed

lemma overdue_days_agree_with_dates_witness:
  "\<exists>x \<in> set (executors world9). 0 < days_overdue x (Date 2026 3 20)"
proof -
  have "\<exists>x \<in> set (executors world9). ex_plan_end_date x = Date 2026 3 10" by (simp add: world9_def)
  then obtain x where x: "x \<in> set (executors world9)" "ex_plan_end_date x = Date 2026 3 10" by blast
  have dates: "valid_date (Date 2026 3 10)" "valid_date (Date 2026 3 20)" "Date 2026 3 10 < Date 2026 3 20"
    by code_simp+
  have "0 < days_overdue x (Date 2026 3 20) \<longleftrightarrow> ex_plan_end_date x < Date 2026 3 20"
    using overdue_days_agree_with_dates [of x "Date 2026 3 20" "Date 2026 3 20"] dates(1,2)
    unfolding x(2) by blast
  with dates(3) have "0 < days_overdue x (Date 2026 3 20)" unfolding x(2) by blast
  with x(1) show ?thesis by blast
qed

text \<open>
  The number of a payment determines its project number and its sequence, the sequence is
  read back from it, and the number that follows a list of numbers is not among them, whatever
  texts the list holds.
\<close>
theorem payment_numbers_round_trip:
  assumes "0 < n"
  shows "payment_sequence_of (payment_number base n) = Some n \<and>
    (0 < m \<longrightarrow> payment_number base n = payment_number base' m \<longrightarrow> base = base' \<and> n = m) \<and>
    payment_number base (next_sequence_from_payment_numbers issued) \<notin> set issued"
  using payment_numbers.sequence_number [OF assms] payment_numbers.number_inject [OF assms]
    payment_numbers.next_number_fresh by blast

lemma payment_numbers_round_trip_witness:
  "payment_sequence_of (payment_number ''Z-2026-0001'' 1234) = Some 1234"
  using payment_numbers_round_trip [of 1234 "''Z-2026-0001''"] by simp

text \<open>
  The stored permissions of a role are read back as they were granted: after an
  administrator replaced the permissions of a role, the effective permissions of that role are
  the granted codes, and those of the other roles are the same as before.
\<close>
theorem granted_permissions_are_effective:
  assumes "update_role_permissions actor role codes stored = Inr (granted, stored')"
  shows "u_role actor = user_role.admin \<and>
    (has_permission stored' role code \<longleftrightarrow> code \<in> set codes) \<and>
    (r \<noteq> role \<longrightarrow> has_permission stored' r code = has_permission stored r code)"
proof -
  note u = update_role_permissions_InrD [OF assms]
  let ?rows = "map (\<lambda>c. \<lparr> rp_role = role, rp_permission_code = c, rp_enabled = (c \<in> set codes) \<rparr>)
    permission_codes"
  have rows: "set (list_role_permissions r' stored') = (if r' = role then set ?rows
      else set (list_role_permissions r' stored))" for r'
    unfolding u(4) by (rule list_role_permissions_replace) auto
  have "list_role_permissions role stored' \<noteq> []"
    using rows [of role] permission_codes_nonempty by auto
  note stored = effective_permissions_stored [OF this]
  have "(\<exists>r \<in> set stored'. rp_role r = role \<and> rp_permission_code r = c \<and> rp_enabled r) \<longleftrightarrow>
      (\<exists>r \<in> set (list_role_permissions role stored'). rp_permission_code r = c \<and> rp_enabled r)" for c
    by (auto simp: set_list_role_permissions)
  then have "set (effective_permissions stored' role) = {c \<in> set permission_codes. c \<in> set codes}"
    unfolding stored rows by auto
  then have "set (effective_permissions stored' role) = set codes" using u(2) by blast
  moreover have "list_role_permissions r stored' = list_role_permissions r stored" if "r \<noteq> role"
    using that unfolding u(4) list_role_permissions_def replace_role_permissions_def
    by (auto simp: filter_empty_conv intro!: arg_cong [where f = "sort_key rp_permission_code"] filter_cong)
  then have "effective_permissions stored' r = effective_permissions stored r" if "r \<noteq> role"
    using that by (simp add: effective_permissions_def)
  ultimately show ?thesis using u(1) by (simp add: has_permission_def)
qed

lemma granted_permissions_are_effective_witness:
  "\<exists>granted stored'. update_role_permissions the_admin user_role.proj_leader [''payment.create''] [] =
     Inr (granted, stored') \<and> has_permission stored' user_role.proj_leader ''payment.create''"
proof -
  have "\<not> isl (update_role_permissions the_admin user_role.proj_leader [''payment.create''] [])"
    by code_simp
  then obtain granted stored' where run: "update_role_permissions the_admin user_role.proj_leader
      [''payment.create''] [] = Inr (granted, stored')" by (auto simp: isl_def)
      (metis Inl_Inr_False obj_sumE surj_pair)
  from granted_permissions_are_effective [OF run, of "''payment.create''"] run show ?thesis by auto
qed

end
