(* ===== verification/Publication.thy ===== *)
theory Publication
  imports Integrity
begin

text \<open>
  Published workflow versions: a published version has phases, and no move changes or removes
  a version once it is published, so the sub projects that were created from it can rely on
  its phase definitions.
\<close>

definition versions_ok :: "database \<Rightarrow> bool" where
  "versions_ok db \<longleftrightarrow> (\<forall>v \<in> set (workflow_versions db).
     wv_status v = workflow_status.published \<longrightarrow> wv_phase_definitions v \<noteq> [])"

definition keeps_published :: "database \<Rightarrow> database \<Rightarrow> bool" where
  "keeps_published db db' \<longleftrightarrow> (\<forall>v \<in> set (workflow_versions db).
     wv_status v = workflow_status.published \<longrightarrow> v \<in> set (workflow_versions db'))"

lemma unwritten_versions:
  "evolves W db db' \<Longrightarrow> Versions \<notin> W \<Longrightarrow> workflow_versions db' = workflow_versions db"
  by (simp add: evolves_iff writes_iff)

text \<open>A version that is not published is rewritten; the published ones stay as they are.\<close>

lemma keeps_published_update:
  assumes "distinct (map wv_id (workflow_versions db))" and "get_workflow_version k db = Some w"
    and "wv_status w \<noteq> workflow_status.published"
    and "workflow_versions db' = update_rows wv_id k f (workflow_versions db)"
  shows "keeps_published db db'"
  unfolding keeps_published_def
proof (intro ballI impI)
  fix v assume v: "v \<in> set (workflow_versions db)" "wv_status v = workflow_status.published"
  have w: "w \<in> set (workflow_versions db)" "wv_id w = k"
    using assms(2) by (auto simp: get_workflow_version_def dest: find_row_SomeD)
  have "wv_id v \<noteq> k"
  proof
    assume "wv_id v = k"
    with w v(1) have "v = w" using distinct_key_eqD [OF assms(1)] by blast
    with v(2) assms(3) show False by simp
  qed
  with v(1) show "v \<in> set (workflow_versions db')"
    unfolding assms(4) update_rows_def set_map by (intro image_eqI [of _ _ v]) simp_all
qed

lemma keeps_published_move:
  assumes "integrity db" and "step db db'"
  shows "keeps_published db db'"
proof -
  have ids: "distinct (map wv_id (workflow_versions db))"
    using assms(1) by (simp add: integrity_def fresh_ids_def)
  show ?thesis
    using assms(2)
  proof (cases rule: step.cases)
    case (do_create_template e actor k name description r)
    then show ?thesis
      by (rule create_template_effect) (simp add: keeps_published_def)
  next
    case (do_update_definitions e actor k ds r)
    from update_phase_definitions_effect [OF this] show ?thesis
      by (blast intro: keeps_published_update [OF ids])
  next
    case (do_publish e actor k r)
    then show ?thesis
      by (rule publish_template_version_effect) (rule keeps_published_update [OF ids], assumption, simp)
  qed (unfold keeps_published_def, (subst unwritten_versions, erule move_writes, simp, simp)+)
qed

interpretation published: monotone_relation initial step integrity keeps_published
proof unfold_locales
  show "reaches initial step db \<Longrightarrow> integrity db" for db by (rule integrity.reachable_inv)
  show "keeps_published db db" for db by (simp add: keeps_published_def)
  show "keeps_published db db' \<Longrightarrow> keeps_published db' db'' \<Longrightarrow> keeps_published db db''" for db db' db''
    by (simp add: keeps_published_def)
  show "integrity db \<Longrightarrow> step db db' \<Longrightarrow> keeps_published db db'" for db db'
    by (rule keeps_published_move)
qed

lemma versions_ok_move:
  assumes "versions_ok db" and "integrity db" and "step db db'"
  shows "versions_ok db'"
  using assms(3)
proof (cases rule: step.cases)
  case (do_create_template e actor k name description r)
  then show ?thesis
    by (rule create_template_effect) (use assms(1) in \<open>auto simp: versions_ok_def\<close>)
next
  case (do_update_definitions e actor k ds r)
  from update_phase_definitions_effect [OF this] obtain w where
    w: "get_workflow_version k db = Some w" "wv_status w \<noteq> workflow_status.published"
    "workflow_versions db' =
      update_rows wv_id k (\<lambda>r. r\<lparr>wv_phase_definitions := ds\<rparr>) (workflow_versions db)" by blast
  have ids: "distinct (map wv_id (workflow_versions db))"
    using assms(2) by (simp add: integrity_def fresh_ids_def)
  have "wv_status v \<noteq> workflow_status.published" if "v \<in> set (workflow_versions db)" "wv_id v = k" for v
    using w(1,2) that distinct_key_eqD [OF ids]
    by (auto simp: get_workflow_version_def dest!: find_row_SomeD)
  with assms(1) show ?thesis unfolding versions_ok_def w(3) by (auto simp: update_rows_def)
next
  case (do_publish e actor k r)
  then show ?thesis
  proof (rule publish_template_version_effect)
    fix w assume w: "get_workflow_version k db = Some w" "wv_phase_definitions w \<noteq> []"
      and v': "workflow_versions db' = update_rows wv_id k (\<lambda>r. r\<lparr>wv_status :=
        workflow_status.published, wv_published_at := Some (clock e)\<rparr>) (workflow_versions db)"
    have ids: "distinct (map wv_id (workflow_versions db))"
      using assms(2) by (simp add: integrity_def fresh_ids_def)
    have "wv_phase_definitions v \<noteq> []" if "v \<in> set (workflow_versions db)" "wv_id v = k" for v
      using w that distinct_key_eqD [OF ids]
      by (auto simp: get_workflow_version_def dest!: find_row_SomeD)
    with assms(1) show ?thesis unfolding versions_ok_def v' by (auto simp: update_rows_def)
  qed
qed (insert assms(1), unfold versions_ok_def, (subst unwritten_versions, erule move_writes, simp, assumption)+)

interpretation versions: invariant initial step integrity versions_ok
proof unfold_locales
  show "reaches initial step db \<Longrightarrow> integrity db" for db by (rule integrity.reachable_inv)
  show "initial db \<Longrightarrow> versions_ok db" for db by (simp add: initial_def versions_ok_def)
  show "integrity db \<Longrightarrow> versions_ok db \<Longrightarrow> step db db' \<Longrightarrow> versions_ok db'" for db db'
    by (rule versions_ok_move)
qed

end
