(* ===== verification/Teams.thy ===== *)
theory Teams
  imports Integrity
begin

text \<open>
  The team of a sub project: nobody is a member twice, the manager is a member, and the
  manager's row is the one with the leader role.  The columns that decide this are the pair of
  identifier and manager of a sub project and the whole member row; the operations change them
  by creating a sub project with its first member, by adding and removing members, and by
  changing the manager.
\<close>

subsection \<open>The invariant\<close>

definition team_row :: "sub_project \<Rightarrow> uuid \<times> uuid" where
  "team_row s = (sp_id s, sp_manager_id s)"

definition member_key :: "sub_project_member \<Rightarrow> uuid \<times> uuid" where
  "member_key m = (mem_sub_project_id m, mem_user_id m)"

definition leads :: "uuid \<times> uuid \<Rightarrow> sub_project_member list \<Rightarrow> bool" where
  "leads t ms \<longleftrightarrow> t \<in> member_key ` set ms \<and>
     (\<forall>m \<in> set ms. mem_sub_project_id m = fst t \<longrightarrow>
        (mem_role m = member_role.proj_leader \<longleftrightarrow> mem_user_id m = snd t))"

definition roster_ok :: "(uuid \<times> uuid) list \<Rightarrow> sub_project_member list \<Rightarrow> bool" where
  "roster_ok ts ms \<longleftrightarrow> distinct (map member_key ms) \<and> (\<forall>t \<in> set ts. leads t ms)"

definition teams_ok :: "database \<Rightarrow> bool" where
  "teams_ok db \<longleftrightarrow> roster_ok (map team_row (sub_projects db)) (members db) \<and>
     fresh_ids sp_id (sub_projects db) (next_uuid db) \<and>
     fresh_ids mem_id (members db) (next_uuid db) \<and>
     (\<forall>m \<in> set (members db). mem_sub_project_id m < next_uuid db)"

lemma teams_ok_cong:
  assumes "map team_row (sub_projects db') = map team_row (sub_projects db)"
    and "members db' = members db" and "next_uuid db \<le> next_uuid db'" and "teams_ok db"
  shows "teams_ok db'"
proof -
  have ids: "map sp_id ss = map fst (map team_row ss)" for ss by (simp add: team_row_def)
  have "map sp_id (sub_projects db') = map sp_id (sub_projects db)"
    unfolding ids assms(1) ..
  then have "fresh_ids sp_id (sub_projects db') (next_uuid db')"
    using assms(4) grows_fresh [OF grows_same [OF _ assms(3)]] unfolding teams_ok_def by blast
  moreover have "fresh_ids mem_id (members db) (next_uuid db')"
    using assms(3,4) unfolding teams_ok_def by (blast intro: fresh_ids_mono)
  moreover have "\<forall>m \<in> set (members db). mem_sub_project_id m < next_uuid db'"
    using assms(3,4) unfolding teams_ok_def by (meson order_less_le_trans)
  moreover have "roster_ok (map team_row (sub_projects db)) (members db)"
    using assms(4) unfolding teams_ok_def by blast
  ultimately show ?thesis unfolding teams_ok_def assms(1,2) by blast
qed

subsection \<open>Changes of the members\<close>

lemma roster_add:
  assumes "roster_ok ts ms" and "member_key m \<notin> member_key ` set ms"
    and "mem_role m = member_role.proj_member" and "mem_sub_project_id m \<in> fst ` set ts"
  shows "roster_ok ts (ms @ [m])"
proof -
  have "mem_user_id m \<noteq> snd t" if "t \<in> set ts" "mem_sub_project_id m = fst t" for t
    using assms(1,2) that by (auto simp: roster_ok_def leads_def member_key_def)
  with assms show ?thesis
    by (auto simp: roster_ok_def leads_def)
qed

lemma roster_remove:
  assumes "roster_ok ts ms" and "m \<in> set ms" "mem_role m \<noteq> member_role.proj_leader"
    and "distinct (map mem_id ms)"
  shows "roster_ok ts (filter (\<lambda>r. mem_id r \<noteq> mem_id m) ms)"
proof -
  have same: "r = m" if "r \<in> set ms" "mem_id r = mem_id m" for r
    using distinct_key_eqD [OF assms(4)] that assms(2) by blast
  have "leads t (filter (\<lambda>r. mem_id r \<noteq> mem_id m) ms)" if "t \<in> set ts" for t
  proof -
    have t: "leads t ms" using assms(1) that by (simp add: roster_ok_def)
    then obtain l where l: "l \<in> set ms" "t = member_key l" by (auto simp: leads_def)
    then have "mem_role l = member_role.proj_leader"
      using t by (auto simp: leads_def member_key_def)
    with assms(3) same l(1) have "mem_id l \<noteq> mem_id m" by metis
    with l t show ?thesis by (auto simp: leads_def)
  qed
  then show ?thesis
    using assms(1) by (auto simp: roster_ok_def distinct_map_filter)
qed

lemma roster_create:
  assumes "roster_ok ts ms" and "sid \<notin> fst ` set ts"
    and "\<forall>m \<in> set ms. mem_sub_project_id m \<noteq> sid"
    and "member_key m = (sid, uid)" "mem_role m = member_role.proj_leader"
  shows "roster_ok (ts @ [(sid, uid)]) (ms @ [m])"
proof -
  have m: "mem_sub_project_id m = sid" "mem_user_id m = uid" using assms(4) by (simp_all add: member_key_def)
  have "(sid, uid) \<notin> member_key ` set ms" using assms(3) by (auto simp: member_key_def)
  moreover have "fst t \<noteq> sid" if "t \<in> set ts" for t using assms(2) that by blast
  ultimately show ?thesis
    using assms m by (auto simp: roster_ok_def leads_def)
qed

text \<open>Writing the role of the row of one user.\<close>

definition write_role ::
  "uuid \<times> uuid \<Rightarrow> (sub_project_member \<Rightarrow> sub_project_member) \<Rightarrow> sub_project_member list
     \<Rightarrow> sub_project_member list" where
  "write_role k f ms = map (\<lambda>m. if member_key m = k then f m else m) ms"

lemma no_member_write_role: "no_member sid uid ms \<Longrightarrow> write_role (sid, uid) f ms = ms"
  unfolding no_member_def write_role_def find_None_iff
  by (intro map_idI) (auto simp: member_key_def)

lemma no_member_iff: "no_member sid uid ms \<longleftrightarrow> (sid, uid) \<notin> member_key ` set ms"
  by (auto simp: no_member_def find_None_iff member_key_def)

lemma role_saved_write_role:
  assumes "role_saved sid uid role ms ms'" and "distinct (map mem_id ms)"
    and "distinct (map member_key ms)"
  obtains f where "sets_role role f" and "ms' = write_role (sid, uid) f ms"
    and "(sid, uid) \<in> member_key ` set ms"
proof -
  from assms(1) obtain m f where
    m: "find (\<lambda>m. mem_sub_project_id m = sid \<and> mem_user_id m = uid) ms = Some m" and
    f: "sets_role role f" "ms' = update_rows mem_id (mem_id m) f ms"
    by (auto simp: role_saved_def)
  from m have in_ms: "m \<in> set ms" "member_key m = (sid, uid)"
    by (auto simp: find_Some_iff member_key_def)
  have "mem_id x = mem_id m \<longleftrightarrow> member_key x = (sid, uid)" if "x \<in> set ms" for x
    using distinct_key_eqD [OF assms(2) that in_ms(1)] distinct_key_eqD [OF assms(3) that in_ms(1)]
      in_ms(2) by auto
  then have "ms' = write_role (sid, uid) f ms"
    unfolding f(2) update_rows_def write_role_def by (intro map_cong) auto
  moreover have "(sid, uid) \<in> member_key ` set ms" using in_ms by (metis imageI)
  ultimately show ?thesis using f(1) that by blast
qed

lemma write_role_keys:
  assumes "sets_role role f"
  shows "map member_key (write_role k f ms) = map member_key ms"
    and "map mem_id (write_role k f ms) = map mem_id ms"
    and "map mem_sub_project_id (write_role k f ms) = map mem_sub_project_id ms"
  using assms by (auto simp: write_role_def sets_role_def member_key_def)

text \<open>Nobody of the sub project leads once the old manager's row is demoted.\<close>

definition leaderless :: "uuid \<Rightarrow> sub_project_member list \<Rightarrow> bool" where
  "leaderless sid ms \<longleftrightarrow>
     (\<forall>m \<in> set ms. mem_sub_project_id m = sid \<longrightarrow> mem_role m \<noteq> member_role.proj_leader)"

lemma demoted_leaderless:
  assumes "leads (sid, old) ms" and "sets_role member_role.proj_member f"
  shows "leaderless sid (write_role (sid, old) f ms)"
  using assms by (auto simp: leaderless_def leads_def write_role_def sets_role_def member_key_def)

lemma write_role_other:
  assumes "leads t ms" and "fst t \<noteq> sid" and "sets_role role f"
  shows "leads t (write_role (sid, uid) f ms)"
proof -
  have "member_key ` set (write_role (sid, uid) f ms) = member_key ` set ms"
    using write_role_keys(1) [OF assms(3), of "(sid, uid)" ms] by (metis list.set_map)
  with assms show ?thesis
    by (auto simp: leads_def write_role_def sets_role_def member_key_def)
qed

lemma promoted_leads:
  assumes "leaderless sid ms" and "sets_role member_role.proj_leader g"
    and "(sid, new) \<in> member_key ` set ms"
  shows "leads (sid, new) (write_role (sid, new) g ms)"
proof -
  have "member_key ` set (write_role (sid, new) g ms) = member_key ` set ms"
    using write_role_keys(1) [OF assms(2), of "(sid, new)" ms] by (metis list.set_map)
  with assms show ?thesis
    by (auto simp: leads_def leaderless_def write_role_def sets_role_def member_key_def)
qed

lemma joined_leads:
  assumes "leaderless sid ms" and "(sid, new) \<notin> member_key ` set ms"
    and "member_key m = (sid, new)" "mem_role m = member_role.proj_leader"
  shows "leads (sid, new) (ms @ [m])"
  using assms by (auto simp: leads_def leaderless_def member_key_def image_iff)

lemma joined_other: "leads t ms \<Longrightarrow> fst t \<noteq> mem_sub_project_id m \<Longrightarrow> leads t (ms @ [m])"
  by (auto simp: leads_def)

subsection \<open>A change of manager\<close>

definition retarget :: "uuid \<Rightarrow> uuid \<Rightarrow> uuid \<times> uuid \<Rightarrow> uuid \<times> uuid" where
  "retarget sid new t = (if fst t = sid then (sid, new) else t)"

text \<open>The two role writes of a change of manager, as a case distinction of the new manager.\<close>

lemma leader_changed_writes:
  assumes "leader_changed sid old new a b" and "distinct (map mem_id (members a))"
    and "distinct (map member_key (members a))" and "(sid, old) \<in> member_key ` set (members a)"
  obtains f ms where "sets_role member_role.proj_member f"
    and "ms = write_role (sid, old) f (members a)" and "next_uuid a \<le> next_uuid b"
    and "(\<exists>g. sets_role member_role.proj_leader g \<and> (sid, new) \<in> member_key ` set ms \<and>
        members b = write_role (sid, new) g ms) \<or>
      (sid, new) \<notin> member_key ` set ms \<and> next_uuid a < next_uuid b \<and>
        (\<exists>m. members b = ms @ [m] \<and> mem_id m = next_uuid a \<and> member_key m = (sid, new) \<and>
           mem_role m = member_role.proj_leader)"
proof -
  from assms(1) obtain ms where
    ms: "no_member sid old (members a) \<and> ms = members a \<or>
      role_saved sid old member_role.proj_member (members a) ms" and
    b: "role_saved sid new member_role.proj_leader ms (members b) \<and> next_uuid a \<le> next_uuid b \<or>
      no_member sid new ms \<and> next_uuid a < next_uuid b \<and>
        (\<exists>m. members b = ms @ [m] \<and> mem_id m = next_uuid a \<and> mem_sub_project_id m = sid \<and>
           mem_user_id m = new \<and> mem_role m = member_role.proj_leader)"
    unfolding leader_changed_def by blast
  from ms assms(4) have "role_saved sid old member_role.proj_member (members a) ms"
    by (auto simp: no_member_iff)
  then obtain f where f: "sets_role member_role.proj_member f" "ms = write_role (sid, old) f (members a)"
    by (rule role_saved_write_role [OF _ assms(2,3)])
  have ids: "distinct (map mem_id ms)" "distinct (map member_key ms)"
    unfolding f(2) write_role_keys [OF f(1)] by (rule assms(2), rule assms(3))
  show ?thesis
  proof (rule that [OF f])
    show "next_uuid a \<le> next_uuid b" using b by auto
    show "(\<exists>g. sets_role member_role.proj_leader g \<and> (sid, new) \<in> member_key ` set ms \<and>
        members b = write_role (sid, new) g ms) \<or>
      (sid, new) \<notin> member_key ` set ms \<and> next_uuid a < next_uuid b \<and>
        (\<exists>m. members b = ms @ [m] \<and> mem_id m = next_uuid a \<and> member_key m = (sid, new) \<and>
           mem_role m = member_role.proj_leader)"
      using b
    proof (elim disjE conjE)
      assume "role_saved sid new member_role.proj_leader ms (members b)"
      then show ?thesis by (rule role_saved_write_role [OF _ ids]) blast
    qed (auto simp: no_member_iff member_key_def)
  qed
qed

lemma leader_changed_roster:
  assumes change: "leader_changed sid old new a b" and ok: "roster_ok ts (members a)"
    and ids: "distinct (map mem_id (members a))"
    and old: "(sid, old) \<in> set ts"
  shows "roster_ok (map (retarget sid new) ts) (members b)"
proof -
  have leads: "leads (sid, old) (members a)" "\<And>t. t \<in> set ts \<Longrightarrow> leads t (members a)"
    and keys: "distinct (map member_key (members a))"
    using ok old by (auto simp: roster_ok_def)
  have "(sid, old) \<in> member_key ` set (members a)" using leads(1) by (simp add: leads_def)
  with change ids keys show ?thesis
  proof (rule leader_changed_writes)
    fix f ms
    assume f: "sets_role member_role.proj_member f" and ms: "ms = write_role (sid, old) f (members a)"
      and b: "(\<exists>g. sets_role member_role.proj_leader g \<and> (sid, new) \<in> member_key ` set ms \<and>
          members b = write_role (sid, new) g ms) \<or>
        (sid, new) \<notin> member_key ` set ms \<and> next_uuid a < next_uuid b \<and>
          (\<exists>m. members b = ms @ [m] \<and> mem_id m = next_uuid a \<and> member_key m = (sid, new) \<and>
             mem_role m = member_role.proj_leader)"
    have none: "leaderless sid ms" unfolding ms by (rule demoted_leaderless [OF leads(1) f])
    have others: "leads t ms" if "t \<in> set ts" "fst t \<noteq> sid" for t
      unfolding ms by (rule write_role_other [OF leads(2) [OF that(1)] that(2) f])
    have keys_ms: "distinct (map member_key ms)" unfolding ms write_role_keys [OF f] by (rule keys)
    have "distinct (map member_key (members b)) \<and> leads (sid, new) (members b) \<and>
        (\<forall>t \<in> set ts. fst t \<noteq> sid \<longrightarrow> leads t (members b))"
      using b
    proof (elim disjE conjE exE)
      fix g assume g: "sets_role member_role.proj_leader g" "(sid, new) \<in> member_key ` set ms"
        "members b = write_role (sid, new) g ms"
      show ?thesis
        unfolding g(3) write_role_keys [OF g(1)]
        using keys_ms promoted_leads [OF none g(1,2)] write_role_other [OF others _ g(1)] by blast
    next
      fix m assume m: "(sid, new) \<notin> member_key ` set ms" "members b = ms @ [m]"
        "member_key m = (sid, new)" "mem_role m = member_role.proj_leader"
      have "mem_sub_project_id m = sid" using m(3) by (simp add: member_key_def)
      then show ?thesis
        unfolding m(2) using keys_ms m(1,3) joined_leads [OF none m(1,3,4)] joined_other [OF others]
        by auto
    qed
    then show ?thesis by (auto simp: roster_ok_def retarget_def)
  qed
qed

lemma manager_change_teams_ok:
  assumes "manager_change a b" and ok: "teams_ok a"
  shows "teams_ok b"
proof -
  from assms(1) obtain sid s new f where
    s: "get_sub_project sid a = Some s" and
    b: "sub_projects b = update_rows sp_id sid f (sub_projects a)" and
    f: "\<forall>q. forget_manager (f q) = forget_manager q \<and> sp_manager_id (f q) = new" and
    change: "leader_changed sid (sp_manager_id s) new a b"
    unfolding manager_change_def by blast
  note parts = ok [unfolded teams_ok_def]
  have id: "sp_id (f q) = sp_id q" for q
    using f by (metis forget_manager_def sub_project.select_convs(1) sub_project.surjective
        sub_project.update_convs(7,17))
  have s_in: "s \<in> set (sub_projects a)" "sp_id s = sid" using sub_rows.get_SomeD [OF s] by simp_all
  have rows: "map team_row (sub_projects b) = map (retarget sid new) (map team_row (sub_projects a))"
    using f id by (simp add: b update_rows_def team_row_def retarget_def)
  have in_ts: "(sid, sp_manager_id s) \<in> set (map team_row (sub_projects a))"
    using s_in by (force simp: team_row_def)
  have ids: "distinct (map mem_id (members a))" using parts by (simp add: fresh_ids_def)
  have roster: "roster_ok (map team_row (sub_projects b)) (members b)"
    unfolding rows using parts by (intro leader_changed_roster [OF change _ ids in_ts]) simp
  have keys: "distinct (map member_key (members a))" and lead: "leads (sid, sp_manager_id s) (members a)"
    using parts in_ts by (auto simp: roster_ok_def)
  then have "(sid, sp_manager_id s) \<in> member_key ` set (members a)" by (simp add: leads_def)
  with change ids keys show ?thesis
  proof (rule leader_changed_writes)
    fix g ms
    assume g: "sets_role member_role.proj_member g"
      and ms: "ms = write_role (sid, sp_manager_id s) g (members a)"
      and le: "next_uuid a \<le> next_uuid b"
      and cases: "(\<exists>h. sets_role member_role.proj_leader h \<and> (sid, new) \<in> member_key ` set ms \<and>
          members b = write_role (sid, new) h ms) \<or>
        (sid, new) \<notin> member_key ` set ms \<and> next_uuid a < next_uuid b \<and>
          (\<exists>m. members b = ms @ [m] \<and> mem_id m = next_uuid a \<and> member_key m = (sid, new) \<and>
             mem_role m = member_role.proj_leader)"
    have "grows mem_id (members a) (members b) (next_uuid a) (next_uuid b)"
    proof -
      have "map mem_id (members b) = map mem_id (members a) \<or>
          next_uuid a < next_uuid b \<and> map mem_id (members b) = map mem_id (members a) @ [next_uuid a]"
        using cases write_role_keys(2) [OF g] ms by (auto simp: write_role_keys)
      then show ?thesis unfolding grows_def using le
        by (elim disjE) (rule conjI, assumption, rule exI [of _ "[]"], simp,
          rule conjI, assumption, rule exI [of _ "[next_uuid a]"], simp)
    qed
    then have "fresh_ids mem_id (members b) (next_uuid b)"
      using parts by (blast intro: grows_fresh)
    moreover have "map mem_sub_project_id (members b) = map mem_sub_project_id (members a) \<or>
        map mem_sub_project_id (members b) = map mem_sub_project_id (members a) @ [sid]"
      using cases write_role_keys(3) [OF g] ms by (auto simp: write_role_keys member_key_def)
    moreover have "sid < next_uuid a" using parts s_in by (auto simp: fresh_ids_def)
    ultimately have "\<forall>i \<in> set (map mem_sub_project_id (members b)). i < next_uuid b"
      using parts le by (elim disjE) auto
    then have "\<forall>m \<in> set (members b). mem_sub_project_id m < next_uuid b" by simp
    moreover have "fresh_ids sp_id (sub_projects b) (next_uuid b)"
      unfolding b fresh_ids_update_rows [of sp_id f, OF id] using parts le by (blast intro: fresh_ids_mono)
    moreover note roster \<open>fresh_ids mem_id (members b) (next_uuid b)\<close>
    ultimately show ?thesis unfolding teams_ok_def by blast
  qed
qed

subsection \<open>The moves\<close>

lemma team_move_teams_ok: "team_move\<^sup>*\<^sup>* a b \<Longrightarrow> teams_ok a \<Longrightarrow> teams_ok b"
proof (induction rule: rtranclp_induct)
  case (step b c)
  from step(2) have "manager_change b c \<or> team_same b c" by (simp add: team_move_def)
  then show ?case
  proof
    assume "manager_change b c"
    then show ?thesis by (rule manager_change_teams_ok) (rule step(3) [OF step(4)])
  next
    assume "team_same b c"
    then show ?thesis
      unfolding team_same_def by (intro teams_ok_cong [OF _ _ _ step(3) [OF step(4)]]) simp_all
  qed
qed

text \<open>A move that writes no member and neither identifiers nor managers.\<close>

lemma teams_ok_unwritten:
  assumes "evolves W db db'" and "Members \<notin> W"
    and "map team_row (sub_projects db') = map team_row (sub_projects db)" and "teams_ok db"
  shows "teams_ok db'"
  using assms by (intro teams_ok_cong [OF assms(3)]) (simp_all add: evolves_iff writes_iff)

lemma teams_ok_subs_unwritten:
  "evolves W db db' \<Longrightarrow> Members \<notin> W \<Longrightarrow> Subs \<notin> W \<Longrightarrow> teams_ok db \<Longrightarrow> teams_ok db'"
  by (rule teams_ok_unwritten) (simp_all add: unwritten_column(1))

lemma teams_move:
  assumes "teams_ok db" and "step db db'"
  shows "teams_ok db'"
  using assms(2)
proof (cases rule: step.cases)
  case (do_create_sub_project e actor payload r)
  from create_sub_project_effect [OF this] obtain m where
    r: "sub_projects db' = sub_projects db @ [r]" "sp_id r = next_uuid db" "sp_manager_id r = u_id actor" and
    m: "members db' = members db @ [m]" "mem_id m = Suc (next_uuid db)"
      "mem_sub_project_id m = sp_id r" "mem_user_id m = u_id actor" "mem_role m = member_role.proj_leader"
      "next_uuid db' = Suc (Suc (next_uuid db))" by blast
  note parts = assms(1) [unfolded teams_ok_def]
  have "roster_ok (map team_row (sub_projects db) @ [(next_uuid db, u_id actor)]) (members db @ [m])"
    using parts m r by (intro roster_create) (auto simp: fresh_ids_def team_row_def member_key_def)
  moreover have "fresh_ids sp_id (sub_projects db') (next_uuid db')"
    "fresh_ids mem_id (members db') (next_uuid db')"
    unfolding r(1) m(1) using parts r(2) m(2,6) by (auto intro: fresh_ids_append)
  moreover have "\<forall>x \<in> set (members db'). mem_sub_project_id x < next_uuid db'"
    using parts r(2) m by auto
  ultimately show ?thesis
    unfolding teams_ok_def by (simp add: r m(1) team_row_def)
next
  case (do_add_member e actor sid uid r)
  from add_sub_project_member_effect [OF this] obtain s where
    s: "get_sub_project sid db = Some s" "get_member sid uid db = None" and
    m: "members db' = members db @ [r]" "mem_id r = next_uuid db" "mem_sub_project_id r = sid"
      "mem_user_id r = uid" "mem_role r = member_role.proj_member" "next_uuid db' = Suc (next_uuid db)"
    by blast
  have subs: "sub_projects db' = sub_projects db"
    using add_sub_project_member_writes [THEN yieldsD, OF do_add_member]
    by (simp add: evolves_iff writes_iff)
  note parts = assms(1) [unfolded teams_ok_def]
  have s_in: "s \<in> set (sub_projects db)" "sp_id s = sid" using sub_rows.get_SomeD [OF s(1)] by simp_all
  have "member_key r \<notin> member_key ` set (members db)"
    using s(2) m(3,4) by (auto simp: get_member_def find_None_iff member_key_def)
  then have "roster_ok (map team_row (sub_projects db)) (members db @ [r])"
    using parts m(3,5) s_in by (intro roster_add) (auto simp: team_row_def image_comp intro: rev_image_eqI)
  moreover have "sid < next_uuid db" using parts s_in by (auto simp: fresh_ids_def)
  moreover have "fresh_ids sp_id (sub_projects db) (next_uuid db')"
    "fresh_ids mem_id (members db') (next_uuid db')"
    unfolding m(1) using parts m(2,6) by (auto intro: fresh_ids_append fresh_ids_mono)
  ultimately show ?thesis
    using parts m unfolding teams_ok_def by (auto simp: subs intro: less_SucI)
next
  case (do_remove_member e actor sid uid r)
  from remove_sub_project_member_effect [OF this] have
    r: "get_member sid uid db = Some r" "mem_role r \<noteq> member_role.proj_leader"
      "members db' = filter (\<lambda>x. mem_id x \<noteq> mem_id r) (members db)" by auto
  have same: "sub_projects db' = sub_projects db" "next_uuid db \<le> next_uuid db'"
    using remove_sub_project_member_writes [THEN yieldsD, OF do_remove_member]
    by (simp_all add: evolves_iff writes_iff)
  note parts = assms(1) [unfolded teams_ok_def]
  have "r \<in> set (members db)" using r(1) by (auto simp: get_member_def find_Some_iff)
  then have "roster_ok (map team_row (sub_projects db)) (members db')"
    unfolding r(3) using parts r(2) by (intro roster_remove) (auto simp: fresh_ids_def)
  moreover have "fresh_ids mem_id (members db') (next_uuid db')"
    "fresh_ids sp_id (sub_projects db') (next_uuid db')"
    unfolding r(3) same(1) using parts same(2) by (auto intro: fresh_ids_mono fresh_ids_filter)
  moreover have "\<forall>m \<in> set (members db'). mem_sub_project_id m < next_uuid db'"
    using parts same(2) by (auto simp: r(3))
  ultimately show ?thesis unfolding teams_ok_def by (simp add: same(1))
next
  case (do_update_sub_project actor k payload r)
  from update_sub_project_effect [OF this]
  have "map team_row (sub_projects db') = map team_row (sub_projects db)"
    by (auto simp: map_update_rows team_row_def apply_sub_project_update_def)
  with assms(1) teams_ok_unwritten move_writes(7) [OF do_update_sub_project] show ?thesis by blast
next
  case (do_submit_sub_project e actor k r)
  from submit_sub_project_effect [OF this]
  have "map team_row (sub_projects db') = map team_row (sub_projects db)"
    by (auto simp: map_update_rows team_row_def)
  with assms(1) teams_ok_unwritten move_writes(8) [OF do_submit_sub_project] show ?thesis by blast
next
  case (do_review_sub_project e actor k payload r)
  from review_sub_project_effect [OF this]
  have "map team_row (sub_projects db') = map team_row (sub_projects db)"
    by (auto simp: map_update_rows team_row_def split: if_splits)
  with assms(1) teams_ok_unwritten move_writes(9) [OF do_review_sub_project] show ?thesis by blast
next
  case (do_close_sub_project e actor k r)
  from close_sub_project_effect [OF this]
  have "map team_row (sub_projects db') = map team_row (sub_projects db)"
    by (auto simp: map_update_rows team_row_def split: if_splits)
  with assms(1) teams_ok_unwritten move_writes(10) [OF do_close_sub_project] show ?thesis by blast
next
  case (do_terminate_sub_project e actor k reason r)
  from terminate_sub_project_effect [OF this]
  have "map team_row (sub_projects db') = map team_row (sub_projects db)"
    by (auto simp: map_update_rows team_row_def)
  with assms(1) teams_ok_unwritten move_writes(11) [OF do_terminate_sub_project] show ?thesis by blast
next
  case (do_handover e actor k to_id reason expected r)
  from handover_manager_change [OF this] show ?thesis
    by (rule manager_change_teams_ok) (rule assms(1))
next
  case (do_promote e actor k r)
  obtain p q where "r = (p, q)" by (cases r)
  with do_promote promote_phase_effect [of e actor k db p q db']
  have "map team_row (sub_projects db') = map team_row (sub_projects db)"
    by (auto simp: map_update_rows team_row_def split: if_splits)
  with assms(1) teams_ok_unwritten promote_phase_writes [THEN yieldsD, OF do_promote]
  show ?thesis by blast
next
  case (do_create_payment e actor policy k payload fs r fs')
  then have "map team_row (sub_projects db') = map team_row (sub_projects db)"
    by (rule create_payment_effect) (simp add: map_update_rows team_row_def)
  with assms(1) teams_ok_unwritten create_payment_evolves [OF do_create_payment] show ?thesis by blast
next
  case (do_reverse_payment e actor sid k remark r)
  then have "map team_row (sub_projects db') = map team_row (sub_projects db)"
    by (rule reverse_payment_effect) (simp add: map_update_rows team_row_def)
  with assms(1) teams_ok_unwritten reverse_payment_evolves [OF do_reverse_payment] show ?thesis by blast
next
  case (do_review_handover e actor k decision comment r)
  from review_handover_moves [OF this] show ?thesis by (rule team_move_teams_ok) (rule assms(1))
next
  case (do_force_handover e actor k r)
  from force_handover_moves [OF this] show ?thesis by (rule team_move_teams_ok) (rule assms(1))
qed (rule teams_ok_subs_unwritten [OF _ _ _ assms(1)], erule move_writes, simp, simp)+

interpretation teams: invariant initial step "\<lambda>_. True" teams_ok
proof unfold_locales
  show "initial db \<Longrightarrow> teams_ok db" for db by (simp add: initial_def teams_ok_def roster_ok_def)
  show "teams_ok db \<Longrightarrow> step db db' \<Longrightarrow> teams_ok db'" for db db' by (rule teams_move)
qed simp

end
