(* ===== verification/Lifecycle.thy ===== *)
theory Lifecycle
  imports Integrity
begin

text \<open>
  The life cycle of a sub project against its phases: a sub project that waits for its review
  or was rejected has no phase, a completed or closed one has only completed phases, and a
  closed one has exactly six.  The invariant speaks of two columns, the status of a sub project
  and the status of a phase beside the sub project it belongs to.
\<close>

subsection \<open>The invariant\<close>

definition life_row :: "sub_project \<Rightarrow> uuid \<times> sub_project_status" where
  "life_row s = (sp_id s, sp_status s)"

definition phase_life :: "phase \<Rightarrow> uuid \<times> phase_status" where
  "phase_life p = (ph_sub_project_id p, ph_status p)"

definition own_phases :: "uuid \<Rightarrow> phase list \<Rightarrow> phase_status list" where
  "own_phases sid ps = map ph_status (filter (\<lambda>p. ph_sub_project_id p = sid) ps)"

definition settled :: "sub_project_status \<Rightarrow> phase_status list \<Rightarrow> bool" where
  "settled st ps \<longleftrightarrow>
     (st \<in> {sub_project_status.completed, sub_project_status.closed} \<longrightarrow>
        (\<forall>p \<in> set ps. p = phase_status.completed)) \<and>
     (st = sub_project_status.closed \<longrightarrow> length ps = 6) \<and>
     (st \<in> {sub_project_status.pending_review, sub_project_status.rejected} \<longrightarrow> ps = [])"

definition lifecycle_ok :: "database \<Rightarrow> bool" where
  "lifecycle_ok db \<longleftrightarrow>
     (\<forall>s \<in> set (sub_projects db). settled (sp_status s) (own_phases (sp_id s) (phases db)))"

lemma own_phases_life:
  "own_phases sid ps = map snd (filter (\<lambda>x. fst x = sid) (map phase_life ps))"
  by (simp add: own_phases_def phase_life_def filter_map comp_def)

lemma own_phases_cong:
  "map phase_life ps' = map phase_life ps \<Longrightarrow> own_phases sid ps' = own_phases sid ps"
  unfolding own_phases_life by simp

lemma lifecycle_rows:
  "lifecycle_ok db \<longleftrightarrow> (\<forall>(i, st) \<in> set (map life_row (sub_projects db)). settled st (own_phases i (phases db)))"
  by (simp add: lifecycle_ok_def life_row_def)

lemma lifecycle_cong:
  assumes "map life_row (sub_projects db') = map life_row (sub_projects db)"
    and "map phase_life (phases db') = map phase_life (phases db)" and "lifecycle_ok db"
  shows "lifecycle_ok db'"
  using assms(3) unfolding lifecycle_rows assms(1) own_phases_cong [OF assms(2)] .

lemma settled_open [simp]:
  "settled sub_project_status.in_progress ps" "settled sub_project_status.terminated ps"
  by (simp_all add: settled_def)

subsection \<open>Changing the status of a sub project or of its phases\<close>

text \<open>The row of one sub project changes; its phases still fit the new status.\<close>

lemma status_change:
  assumes "lifecycle_ok db" and "phases db' = phases db"
    and "sub_projects db' = update_rows sp_id k f (sub_projects db)"
    and "\<And>s. s \<in> set (sub_projects db) \<Longrightarrow> sp_id s = k \<Longrightarrow>
      sp_id (f s) = k \<and> settled (sp_status (f s)) (own_phases k (phases db))"
  shows "lifecycle_ok db'"
  using assms(1,4) unfolding lifecycle_ok_def assms(2,3) by (auto simp: update_rows_def)

text \<open>The phases of one sub project change, which is neither completed nor closed.\<close>

lemma phase_change:
  assumes "lifecycle_ok db" and "map life_row (sub_projects db') = map life_row (sub_projects db)"
    and "phases db' = map g (phases db)"
    and "\<And>p. p \<in> set (phases db) \<Longrightarrow> ph_sub_project_id (g p) = ph_sub_project_id p"
    and "\<And>p. p \<in> set (phases db) \<Longrightarrow> ph_sub_project_id p \<noteq> k \<Longrightarrow> ph_status (g p) = ph_status p"
    and "\<And>s. s \<in> set (sub_projects db) \<Longrightarrow> sp_id s = k \<Longrightarrow>
      sp_status s \<notin> {sub_project_status.completed, sub_project_status.closed}"
  shows "lifecycle_ok db'"
proof -
  have other: "own_phases i (phases db') = own_phases i (phases db)" if "i \<noteq> k" for i
    unfolding own_phases_def assms(3) filter_map
    using assms(4,5) that by (auto simp: comp_def intro!: map_cong filter_cong)
  have empty: "own_phases k (phases db') = []" if "own_phases k (phases db) = []"
    using that assms(4) unfolding own_phases_def assms(3)
    by (auto simp: filter_empty_conv)
  have "settled (sp_status s) (own_phases (sp_id s) (phases db'))" if s: "s \<in> set (sub_projects db)" for s
  proof (cases "sp_id s = k")
    case True
    have "settled (sp_status s) (own_phases k (phases db))"
      using assms(1) s True by (auto simp: lifecycle_ok_def)
    with assms(6) [OF s True] empty True show ?thesis by (auto simp: settled_def)
  next
    case False
    with other assms(1) s show ?thesis by (simp add: lifecycle_ok_def)
  qed
  then show ?thesis unfolding lifecycle_rows assms(2) by (simp add: life_row_def)
qed

subsection \<open>Promotion\<close>

text \<open>A promotion as a change of the rows of one sub project.\<close>

lemma promoted_phases_map:
  "promoted_phases e k activated ps = map (\<lambda>p.
     let p = (if ph_id p = k then complete_phase e p else p)
     in case activated of None \<Rightarrow> p | Some q \<Rightarrow> if ph_id p = ph_id q then activate_phase e p else p) ps"
  by (auto simp: promoted_phases_def update_rows_def Let_def split: option.split)

lemma next_phase_sub_project:
  "next_phase_to_activate p (list_phases sid db) = Some q \<Longrightarrow>
     q \<in> set (phases db) \<and> ph_sub_project_id q = sid"
  by (auto simp: next_phase_to_activate_def list_phases_def split: if_splits option.splits
      dest!: find_SomeD)

lemma own_phase_settled:
  assumes "lifecycle_ok db" and "s \<in> set (sub_projects db)" and "p \<in> set (phases db)"
    and "ph_sub_project_id p = sp_id s"
  shows "sp_status s \<notin> {sub_project_status.pending_review, sub_project_status.rejected}"
    and "ph_status p \<noteq> phase_status.completed \<Longrightarrow>
      sp_status s \<notin> {sub_project_status.completed, sub_project_status.closed}"
proof -
  have "ph_status p \<in> set (own_phases (sp_id s) (phases db))"
    using assms(3,4) by (auto simp: own_phases_def)
  moreover have "settled (sp_status s) (own_phases (sp_id s) (phases db))"
    using assms(1,2) by (simp add: lifecycle_ok_def)
  ultimately show "sp_status s \<notin> {sub_project_status.pending_review, sub_project_status.rejected}"
    "ph_status p \<noteq> phase_status.completed \<Longrightarrow>
      sp_status s \<notin> {sub_project_status.completed, sub_project_status.closed}"
    by (auto simp: settled_def)
qed

lemma promote_lifecycle:
  assumes ids: "integrity db" and ok: "lifecycle_ok db"
    and run: "promote_phase e actor k db = Inr (r, db')"
  shows "lifecycle_ok db'"
proof -
  obtain p' q' where r: "r = (p', q')" by (cases r)
  from promote_phase_effect [OF run [unfolded r]] obtain p s activated where
    chk: "check_promotion actor k db = Inr (p, s)" and
    act: "activated = next_phase_to_activate p (list_phases (sp_id s) db)" and
    ph: "phases db' = promoted_phases e k activated (phases db)" and
    subs: "sub_projects db' =
      (if \<forall>q \<in> set (phases db'). ph_sub_project_id q = sp_id s \<longrightarrow> ph_status q = phase_status.completed
       then update_rows sp_id (sp_id s) (\<lambda>r. r\<lparr>sp_status := sub_project_status.completed,
              sp_actual_end_date := Some (today e), sp_updated_at := clock e\<rparr>) (sub_projects db)
       else sub_projects db)" by blast
  from check_promotion_effect [OF chk] have
    p: "get_phase k db = Some p" "sp_id s = ph_sub_project_id p" "ph_status p = phase_status.in_progress" and
    s: "get_sub_project (ph_sub_project_id p) db = Some s" by simp_all
  have p_in: "p \<in> set (phases db)" "ph_id p = k" using phase_rows.get_SomeD [OF p(1)] by simp_all
  have phase_ids: "distinct (map ph_id (phases db))" and sub_ids: "distinct (map sp_id (sub_projects db))"
    using ids by (simp_all add: integrity_def fresh_ids_def)
  have own: "ph_sub_project_id x = sp_id s"
    if "x \<in> set (phases db)" "ph_id x = k \<or> (\<exists>q. activated = Some q \<and> ph_id x = ph_id q)" for x
    using that(2)
  proof
    assume "ph_id x = k"
    then have "x = p" using distinct_key_eqD [OF phase_ids that(1) p_in(1)] p_in(2) by simp
    then show ?thesis by (simp add: p(2))
  next
    assume "\<exists>q. activated = Some q \<and> ph_id x = ph_id q"
    then obtain q where q: "activated = Some q" "ph_id x = ph_id q" by blast
    with next_phase_sub_project act have "q \<in> set (phases db)" "ph_sub_project_id q = sp_id s" by metis+
    with distinct_key_eqD [OF phase_ids that(1)] q(2) show ?thesis by metis
  qed
  define mid where "mid = db\<lparr>phases := phases db'\<rparr>"
  have mid: "lifecycle_ok mid"
  proof (rule phase_change [OF ok, where k = "sp_id s"])
    show "map life_row (sub_projects mid) = map life_row (sub_projects db)" by (simp add: mid_def)
    show "phases mid = map (\<lambda>p. let p = (if ph_id p = k then complete_phase e p else p)
     in case activated of None \<Rightarrow> p | Some q \<Rightarrow> if ph_id p = ph_id q then activate_phase e p else p)
     (phases db)"
      by (simp add: mid_def ph promoted_phases_map)
    show "sp_status x \<notin> {sub_project_status.completed, sub_project_status.closed}"
      if "x \<in> set (sub_projects db)" "sp_id x = sp_id s" for x
      using own_phase_settled(2) [OF ok that(1) p_in(1)] p that(2) by simp
  qed (use own in \<open>auto simp: Let_def split: option.split\<close>)
  show ?thesis
  proof (cases "\<forall>q \<in> set (phases db'). ph_sub_project_id q = sp_id s \<longrightarrow>
      ph_status q = phase_status.completed")
    case True
    then have "\<forall>st \<in> set (own_phases (sp_id s) (phases db')). st = phase_status.completed"
      by (auto simp: own_phases_def)
    moreover have "sub_projects db' = update_rows sp_id (sp_id s) (\<lambda>r. r\<lparr>sp_status :=
        sub_project_status.completed, sp_actual_end_date := Some (today e), sp_updated_at := clock e\<rparr>)
      (sub_projects mid)"
      unfolding subs if_P [OF True] by (simp add: mid_def)
    ultimately show ?thesis
      by (intro status_change [OF mid]) (auto simp: mid_def settled_def)
  next
    case False
    show ?thesis using mid unfolding lifecycle_ok_def subs if_not_P [OF False] by (simp add: mid_def)
  qed
qed

subsection \<open>Revoking\<close>

lemma revoke_lifecycle:
  assumes ids: "integrity db" and ok: "lifecycle_ok db"
    and run: "review_revoke_request e actor k decision comment db = Inr (r, db')"
  shows "lifecycle_ok db'"
  using run
proof (rule review_revoke_request_effect)
  fix q p s
  assume q: "get_revoke_request k db = Some q" and p: "get_phase (rr_phase_id q) db = Some p"
    and s: "get_sub_project (rr_sub_project_id q) db = Some s"
    and can: "decision = revoke_review_decision.reject \<or> ensure_phase_can_be_revoked p s = Inr ()"
    and ph: "phases db' = (if decision = revoke_review_decision.reject then phases db
      else update_rows ph_id (rr_phase_id q) (reopen_phase e) (phases db))"
  have subs: "sub_projects db' = sub_projects db"
    using review_revoke_request_writes [THEN yieldsD, OF run] by (simp add: evolves_iff writes_iff)
  have phase_ids: "distinct (map ph_id (phases db))" and sub_ids: "distinct (map sp_id (sub_projects db))"
    using ids by (simp_all add: integrity_def fresh_ids_def)
  have "revoke_place q \<in> phase_place ` set (phases db)"
    using ids revoke_rows.get_SomeD [OF q] unfolding integrity_def by blast
  then have place: "ph_sub_project_id x = rr_sub_project_id q"
    if "x \<in> set (phases db)" "ph_id x = rr_phase_id q" for x
    using distinct_key_eqD [OF phase_ids that(1)] that(2)
    by (auto simp: revoke_place_def phase_place_def)
  show ?thesis
  proof (cases "decision = revoke_review_decision.reject")
    case True
    with ph subs ok show ?thesis by (simp add: lifecycle_ok_def)
  next
    case False
    with can have open_sub: "sp_status s \<notin> locked_revoke_sub_project_statuses"
      unfolding ensure_phase_can_be_revoked_def by (auto elim!: result_elims)
    show ?thesis
    proof (rule phase_change [OF ok, where k = "rr_sub_project_id q"])
      show "phases db' = map (\<lambda>x. if ph_id x = rr_phase_id q then reopen_phase e x else x) (phases db)"
        using ph False by (simp add: update_rows_def)
      show "sp_status x \<notin> {sub_project_status.completed, sub_project_status.closed}"
        if "x \<in> set (sub_projects db)" "sp_id x = rr_sub_project_id q" for x
      proof -
        have "x = s" using distinct_key_eqD [OF sub_ids that(1)] sub_rows.get_SomeD [OF s] that(2) by simp
        with open_sub show ?thesis by (simp add: locked_revoke_sub_project_statuses_def)
      qed
    qed (use place subs in auto)
  qed
qed

subsection \<open>The moves\<close>

lemma forget_manager_life_row:
  "map forget_manager rows' = map forget_manager rows \<Longrightarrow> map life_row rows' = map life_row rows"
proof -
  assume same: "map forget_manager rows' = map forget_manager rows"
  have "map life_row xs = map life_row (map forget_manager xs)" for xs
    by (simp add: life_row_def forget_manager_def)
  with same show ?thesis by metis
qed

text \<open>A move that writes no phase and no status.\<close>

lemma life_rows_same:
  assumes "map life_row (sub_projects db') = map life_row (sub_projects db)"
    and "evolves W db db'" and "Phases \<notin> W" and "lifecycle_ok db"
  shows "lifecycle_ok db'"
  using lifecycle_cong [OF assms(1) _ assms(4)] unwritten_column(2) [OF assms(2,3)] by simp

lemma unwritten_lifecycle:
  "evolves W db db' \<Longrightarrow> Subs \<notin> W \<Longrightarrow> Phases \<notin> W \<Longrightarrow> lifecycle_ok db \<Longrightarrow> lifecycle_ok db'"
  by (rule life_rows_same) (simp_all add: unwritten_column(1))

lemma approval_lifecycle:
  assumes "lifecycle_ok db" and "sub_projects db' = update_rows sp_id k
      (\<lambda>r. r\<lparr>sp_status := sub_project_status.in_progress\<rparr>) (sub_projects db)"
    and "phases db' = phases db @ new" and "\<forall>p \<in> set new. ph_sub_project_id p = k"
  shows "lifecycle_ok db'"
proof -
  have "own_phases i (phases db') = own_phases i (phases db)" if "i \<noteq> k" for i
    unfolding own_phases_def assms(3) using assms(4) that by (auto simp: filter_empty_conv)
  with assms(1) show ?thesis unfolding lifecycle_ok_def assms(2) by (auto simp: update_rows_def)
qed

lemma lifecycle_move:
  assumes ids: "integrity db" and ok: "lifecycle_ok db" and move: "step db db'"
  shows "lifecycle_ok db'"
proof -
  have sub_ids: "distinct (map sp_id (sub_projects db))"
    using ids by (simp add: integrity_def fresh_ids_def)
  note same_row = distinct_key_eqD [OF sub_ids]
  from move show ?thesis
  proof (cases rule: step.cases)
    case (do_create_sub_project e actor payload r)
    from create_sub_project_effect [OF this] have r: "sub_projects db' = sub_projects db @ [r]"
      "sp_id r = next_uuid db" "sp_status r = sub_project_status.pending_review" by auto
    have ph: "phases db' = phases db"
      using move_writes(6) [OF do_create_sub_project] by (simp add: evolves_iff writes_iff)
    have "own_phases (next_uuid db) (phases db) = []"
      using integrity_bounds(3) [OF ids] by (fastforce simp: own_phases_def filter_empty_conv)
    then have "settled (sp_status r) (own_phases (sp_id r) (phases db))" by (simp add: r settled_def)
    with ok show ?thesis by (simp add: lifecycle_ok_def r(1) ph)
  next
    case (do_update_sub_project actor k payload r)
    from update_sub_project_effect [OF this]
    have "map life_row (sub_projects db') = map life_row (sub_projects db)"
      by (auto simp: map_update_rows life_row_def apply_sub_project_update_def)
    with ok life_rows_same move_writes(7) [OF do_update_sub_project] show ?thesis by blast
  next
    case (do_submit_sub_project e actor k r)
    from submit_sub_project_effect [OF this] obtain s where s: "get_sub_project k db = Some s"
      "sp_status s \<in> {sub_project_status.pending_review, sub_project_status.rejected}"
      "sub_projects db' = update_rows sp_id k (\<lambda>r. r\<lparr>sp_status := sub_project_status.pending_review\<rparr>)
        (sub_projects db)" by blast
    have ph: "phases db' = phases db"
      using move_writes(8) [OF do_submit_sub_project] by (simp add: evolves_iff writes_iff)
    have "settled (sp_status s) (own_phases (sp_id s) (phases db))"
      using ok sub_rows.get_SomeD [OF s(1)] unfolding lifecycle_ok_def by blast
    with s(2) sub_rows.get_SomeD [OF s(1)] show ?thesis
      by (intro status_change [OF ok ph s(3)]) (auto simp: settled_def)
  next
    case (do_review_sub_project e actor k payload r)
    from review_sub_project_effect [OF this] obtain s where s: "get_sub_project k db = Some s"
      "sp_status s = sub_project_status.pending_review" and
      cases: "if srr_decision payload = project_review_decision.approve
        then sub_projects db' = update_rows sp_id k
            (\<lambda>r. r\<lparr>sp_status := sub_project_status.in_progress\<rparr>) (sub_projects db) \<and>
          phases db' = phases db @ new_phases e (sp_id s) (phase_specs s db) (next_uuid db)
        else sub_projects db' = update_rows sp_id k
            (\<lambda>r. r\<lparr>sp_status := sub_project_status.rejected\<rparr>) (sub_projects db) \<and> phases db' = phases db"
      by (metis (no_types, lifting))
    have k: "sp_id s = k" "s \<in> set (sub_projects db)" using sub_rows.get_SomeD [OF s(1)] by simp_all
    show ?thesis
    proof (cases "srr_decision payload = project_review_decision.approve")
      case True
      with cases have "sub_projects db' = update_rows sp_id k
          (\<lambda>r. r\<lparr>sp_status := sub_project_status.in_progress\<rparr>) (sub_projects db)"
        "phases db' = phases db @ new_phases e k (phase_specs s db) (next_uuid db)" by (simp_all add: k)
      then show ?thesis
        by (rule approval_lifecycle [OF ok]) (use new_phases_ids in blast)
    next
      case False
      with cases have r: "sub_projects db' = update_rows sp_id k
          (\<lambda>r. r\<lparr>sp_status := sub_project_status.rejected\<rparr>) (sub_projects db)" "phases db' = phases db"
        by simp_all
      have "settled (sp_status s) (own_phases k (phases db))" using ok k by (auto simp: lifecycle_ok_def)
      then show ?thesis by (intro status_change [OF ok r(2,1)]) (simp add: settled_def s(2))
    qed
  next
    case (do_close_sub_project e actor k r)
    have ph: "phases db' = phases db"
      using move_writes(10) [OF do_close_sub_project] by (simp add: evolves_iff writes_iff)
    from close_sub_project_effect [OF do_close_sub_project] obtain s where
      s: "get_sub_project k db = Some s" and
      cases: "if sp_status s = sub_project_status.closed
        then sub_projects db' = sub_projects db \<or> sub_projects db' =
          update_rows sp_id k (\<lambda>r. r\<lparr>sp_closed_at := Some (clock e)\<rparr>) (sub_projects db)
        else phase_completion_counts k db = (6, 0) \<and>
          sub_projects db' = update_rows sp_id k (\<lambda>r. r\<lparr>sp_status := sub_project_status.closed,
            sp_actual_end_date := Some (today e), sp_closed_at := Some (clock e),
            sp_updated_at := clock e\<rparr>) (sub_projects db)"
      by (metis (no_types, lifting))
    show ?thesis
    proof (cases "sp_status s = sub_project_status.closed")
      case True
      with cases have "map life_row (sub_projects db') = map life_row (sub_projects db)"
        by (auto simp: map_update_rows life_row_def)
      with ok life_rows_same move_writes(10) [OF do_close_sub_project] show ?thesis by blast
    next
      case False
      with cases have r: "sub_projects db' = update_rows sp_id k (\<lambda>r. r\<lparr>sp_status :=
          sub_project_status.closed, sp_actual_end_date := Some (today e),
          sp_closed_at := Some (clock e), sp_updated_at := clock e\<rparr>) (sub_projects db)"
        "phase_completion_counts k db = (6, 0)" by simp_all
      from r(2) have "length (own_phases k (phases db)) = 6 \<and>
          (\<forall>st \<in> set (own_phases k (phases db)). st = phase_status.completed)"
        by (auto simp: phase_completion_counts_def Let_def own_phases_def filter_empty_conv)
      then show ?thesis by (intro status_change [OF ok ph r(1)]) (simp add: settled_def)
    qed
  next
    case (do_terminate_sub_project e actor k reason r)
    have ph: "phases db' = phases db"
      using move_writes(11) [OF do_terminate_sub_project] by (simp add: evolves_iff writes_iff)
    from terminate_sub_project_effect [OF do_terminate_sub_project] have
      "sub_projects db' = update_rows sp_id k (\<lambda>r. r\<lparr>sp_status := sub_project_status.terminated,
        sp_actual_end_date := Some (today e), sp_closed_at := Some (clock e),
        sp_updated_at := clock e\<rparr>) (sub_projects db)" by blast
    then show ?thesis by (rule status_change [OF ok ph]) simp
  next
    case (do_handover e actor k to_id reason expected r)
    from forget_manager_life_row [OF handover_forgets [OF this]] move_writes(14) [OF this] ok
    show ?thesis using life_rows_same by blast
  next
    case (do_update_procurement e actor k t r)
    from update_procurement_type_effect [OF this]
    have "map phase_life (phases db') = map phase_life (phases db)"
      by (auto simp: map_update_rows phase_life_def)
    moreover have "sub_projects db' = sub_projects db"
      using update_procurement_type_writes [THEN yieldsD, OF do_update_procurement]
      by (simp add: evolves_iff writes_iff)
    ultimately show ?thesis by (intro lifecycle_cong [OF _ _ ok]) simp_all
  next
    case (do_promote e actor k r)
    then show ?thesis by (rule promote_lifecycle [OF ids ok])
  next
    case (do_create_payment e actor policy k payload fs r fs')
    then have "map life_row (sub_projects db') = map life_row (sub_projects db)"
      by (rule create_payment_effect) (simp add: map_update_rows life_row_def)
    with ok life_rows_same create_payment_evolves [OF do_create_payment] show ?thesis by blast
  next
    case (do_reverse_payment e actor sid k remark r)
    then have "map life_row (sub_projects db') = map life_row (sub_projects db)"
      by (rule reverse_payment_effect) (simp add: map_update_rows life_row_def)
    with ok life_rows_same reverse_payment_evolves [OF do_reverse_payment] show ?thesis by blast
  next
    case (do_review_revoke e actor k decision comment r)
    then show ?thesis by (rule revoke_lifecycle [OF ids ok])
  next
    case (do_review_handover e actor k decision comment r)
    from forget_manager_life_row [OF team_move_forgets [OF review_handover_moves [OF this]]]
      review_handover_request_writes [THEN yieldsD, OF this] ok
    show ?thesis using life_rows_same by blast
  next
    case (do_force_handover e actor k r)
    from forget_manager_life_row [OF team_move_forgets [OF force_handover_moves [OF this]]]
      force_handover_request_writes [THEN yieldsD, OF this] ok
    show ?thesis using life_rows_same by blast
  qed (rule unwritten_lifecycle [OF _ _ _ ok], erule move_writes, simp, simp)+
qed

interpretation lifecycle: invariant initial step integrity lifecycle_ok
proof unfold_locales
  show "reaches initial step db \<Longrightarrow> integrity db" for db by (rule integrity.reachable_inv)
  show "initial db \<Longrightarrow> lifecycle_ok db" for db by (simp add: initial_def lifecycle_ok_def)
  show "integrity db \<Longrightarrow> lifecycle_ok db \<Longrightarrow> step db db' \<Longrightarrow> lifecycle_ok db'" for db db'
    by (rule lifecycle_move)
qed

end
