(* ===== verification/Revocations.thy ===== *)
theory Revocations
  imports Integrity
begin

text \<open>
  Revoke requests: of the requests for one phase at most one is pending, and a decision is
  final, since a request is only rewritten while it is pending.
\<close>

definition pending_places :: "revoke_request list \<Rightarrow> uuid list" where
  "pending_places rs = map rr_phase_id (filter (\<lambda>r. rr_status r = revoke_status.pending) rs)"

definition one_pending :: "database \<Rightarrow> bool" where
  "one_pending db \<longleftrightarrow> distinct (pending_places (revoke_requests db))"

lemma unwritten_revokes: "evolves W db db' \<Longrightarrow> Revokes \<notin> W \<Longrightarrow> revoke_requests db' = revoke_requests db"
  by (rule unwritten_column(4))

text \<open>A decision takes the request out of the pending ones.\<close>

lemma pending_places_decided:
  assumes "\<And>r. rr_status (f r) \<noteq> revoke_status.pending"
  shows "pending_places (update_rows rr_id k f rs) =
    map rr_phase_id (filter (\<lambda>r. rr_status r = revoke_status.pending \<and> rr_id r \<noteq> k) rs)"
  by (induction rs) (simp_all add: pending_places_def update_rows_def assms)

lemma one_pending_move:
  assumes "one_pending db" and "step db db'"
  shows "one_pending db'"
  using assms(2)
proof (cases rule: step.cases)
  case (do_submit_revoke e actor k reason keep r)
  then show ?thesis
  proof (rule submit_revoke_request_effect)
    assume r: "get_pending_request_by_phase k db = None"
      "revoke_requests db' = revoke_requests db @ [r]" "rr_phase_id r = k"
    then have "k \<notin> set (pending_places (revoke_requests db))"
      by (auto simp: get_pending_request_by_phase_def find_None_iff pending_places_def)
    with assms(1) r(2,3) show ?thesis by (simp add: one_pending_def pending_places_def)
  qed
next
  case (do_review_revoke e actor k decision comment r)
  then show ?thesis
  proof (rule review_revoke_request_effect)
    fix q p s status
    assume st: "status = (if decision = revoke_review_decision.reject then revoke_status.rejected
        else revoke_status.approved)"
      and rows: "revoke_requests db' =
        update_rows rr_id k (decide_revoke e actor status comment) (revoke_requests db)"
    have "pending_places (revoke_requests db') = map rr_phase_id (filter (\<lambda>r. rr_id r \<noteq> k)
        (filter (\<lambda>r. rr_status r = revoke_status.pending) (revoke_requests db)))"
      unfolding rows by (subst pending_places_decided) (simp_all add: st conj_commute)
    then show ?thesis
      using assms(1) unfolding one_pending_def pending_places_def
      by (simp only: distinct_map_filter)
  qed
qed (insert assms(1), unfold one_pending_def, (subst unwritten_revokes, erule move_writes, simp, assumption)+)

interpretation revocations: invariant initial step "\<lambda>_. True" one_pending
proof unfold_locales
  show "initial db \<Longrightarrow> one_pending db" for db by (simp add: initial_def one_pending_def pending_places_def)
  show "one_pending db \<Longrightarrow> step db db' \<Longrightarrow> one_pending db'" for db db' by (rule one_pending_move)
qed simp

text \<open>A request that is decided stays as it is.\<close>

definition keeps_decisions :: "database \<Rightarrow> database \<Rightarrow> bool" where
  "keeps_decisions db db' \<longleftrightarrow> (\<forall>r \<in> set (revoke_requests db).
     rr_status r \<noteq> revoke_status.pending \<longrightarrow> r \<in> set (revoke_requests db'))"

lemma keeps_decisions_move:
  assumes "integrity db" and "step db db'"
  shows "keeps_decisions db db'"
  using assms(2)
proof (cases rule: step.cases)
  case (do_submit_revoke e actor k reason keep r)
  then show ?thesis
    by (rule submit_revoke_request_effect) (simp add: keeps_decisions_def)
next
  case (do_review_revoke e actor k decision comment r)
  then show ?thesis
  proof (rule review_revoke_request_effect)
    fix q p s status
    assume q: "get_revoke_request k db = Some q" "rr_status q = revoke_status.pending"
      and rows: "revoke_requests db' =
        update_rows rr_id k (decide_revoke e actor status comment) (revoke_requests db)"
    have ids: "distinct (map rr_id (revoke_requests db))"
      using assms(1) by (simp add: integrity_def fresh_ids_def)
    have "rr_id r \<noteq> k" if "r \<in> set (revoke_requests db)" "rr_status r \<noteq> revoke_status.pending" for r
      using distinct_key_eqD [OF ids that(1)] revoke_rows.get_SomeD [OF q(1)] q(2) that(2) by auto
    then show ?thesis
      unfolding keeps_decisions_def rows update_rows_def set_map
      by (auto intro!: image_eqI [where f = "\<lambda>r. if rr_id r = k then f r else r" for f])
  qed
qed (unfold keeps_decisions_def, (subst unwritten_revokes, erule move_writes, simp, simp)+)

interpretation decisions: monotone_relation initial step integrity keeps_decisions
proof unfold_locales
  show "reaches initial step db \<Longrightarrow> integrity db" for db by (rule integrity.reachable_inv)
  show "keeps_decisions db db" for db by (simp add: keeps_decisions_def)
  show "keeps_decisions db db' \<Longrightarrow> keeps_decisions db' db'' \<Longrightarrow> keeps_decisions db db''" for db db' db''
    by (simp add: keeps_decisions_def)
  show "integrity db \<Longrightarrow> step db db' \<Longrightarrow> keeps_decisions db db'" for db db'
    by (rule keeps_decisions_move)
qed

end
