(* ===== verification/Closure.thy ===== *)
theory Closure
  imports Integrity
begin

text \<open>
  A closed main project has no open sub project: each of its sub projects is completed, closed
  or terminated, and none of them becomes open again.
\<close>

definition ended :: "sub_project_status \<Rightarrow> bool" where
  "ended st \<longleftrightarrow> st \<in> {sub_project_status.completed, sub_project_status.closed,
     sub_project_status.terminated}"

definition closed_ids :: "main_project list \<Rightarrow> uuid set" where
  "closed_ids ms = mp_id ` {m \<in> set ms. mp_status m = main_project_status.closed}"

definition closure_ok :: "database \<Rightarrow> bool" where
  "closure_ok db \<longleftrightarrow> (\<forall>s \<in> set (sub_projects db).
     sp_main_project_id s \<in> closed_ids (main_projects db) \<longrightarrow> ended (sp_status s))"

definition ending_row :: "sub_project \<Rightarrow> uuid \<times> sub_project_status" where
  "ending_row s = (sp_main_project_id s, sp_status s)"

lemma closure_rows:
  "closure_ok db \<longleftrightarrow> (\<forall>(i, st) \<in> set (map ending_row (sub_projects db)).
     i \<in> closed_ids (main_projects db) \<longrightarrow> ended st)"
  by (simp add: closure_ok_def ending_row_def)

lemma closure_mono:
  assumes "closure_ok db" and "map ending_row (sub_projects db') = map ending_row (sub_projects db)"
    and "closed_ids (main_projects db') \<subseteq> closed_ids (main_projects db)"
  shows "closure_ok db'"
  using assms(1,3) unfolding closure_rows assms(2) by blast

text \<open>One sub project row changes: it stays ended, or its main project was not closed.\<close>

lemma closure_sub_change:
  assumes "closure_ok db" and "closed_ids (main_projects db') \<subseteq> closed_ids (main_projects db)"
    and "sub_projects db' = update_rows sp_id k f (sub_projects db)"
    and "\<And>s. s \<in> set (sub_projects db) \<Longrightarrow> sp_id s = k \<Longrightarrow>
      sp_main_project_id (f s) = sp_main_project_id s \<and> (ended (sp_status s) \<longrightarrow> ended (sp_status (f s)))"
  shows "closure_ok db'"
  using assms(1,2,4) unfolding closure_ok_def assms(3) by (auto simp: update_rows_def)

lemma closed_ids_update:
  assumes "\<And>m. m \<in> set ms \<Longrightarrow> mp_id m = k \<Longrightarrow>
    mp_id (f m) = k \<and> (mp_status (f m) = main_project_status.closed \<longrightarrow> mp_status m = main_project_status.closed)"
  shows "closed_ids (update_rows mp_id k f ms) \<subseteq> closed_ids ms"
  using assms unfolding closed_ids_def by (force simp: update_rows_def)

lemma unwritten_closure:
  assumes "evolves W db db'" and "Subs \<notin> W" and "Mains \<notin> W" and "closure_ok db"
  shows "closure_ok db'"
  using assms by (simp add: closure_ok_def evolves_iff writes_iff)

lemma forget_manager_ending_row:
  "map forget_manager rows' = map forget_manager rows \<Longrightarrow> map ending_row rows' = map ending_row rows"
proof -
  assume same: "map forget_manager rows' = map forget_manager rows"
  have "map ending_row xs = map ending_row (map forget_manager xs)" for xs
    by (simp add: ending_row_def forget_manager_def)
  with same show ?thesis by metis
qed

lemma closure_mains_unwritten:
  assumes "evolves W db db'" and "Mains \<notin> W" and "closure_ok db"
    and "map ending_row (sub_projects db') = map ending_row (sub_projects db)"
  shows "closure_ok db'"
  using assms by (intro closure_mono [OF assms(3,4)]) (simp add: evolves_iff writes_iff)

lemma closure_subs_unwritten:
  assumes "evolves W db db'" and "Subs \<notin> W" and "closure_ok db"
    and "closed_ids (main_projects db') \<subseteq> closed_ids (main_projects db)"
  shows "closure_ok db'"
  using assms by (intro closure_mono [OF assms(3) _ assms(4)]) (simp add: evolves_iff writes_iff)

text \<open>Closing: the count of open sub projects is zero.\<close>

lemma count_open_zero:
  "count_open_sub_projects k db = 0 \<longleftrightarrow>
     (\<forall>s \<in> set (sub_projects db). sp_main_project_id s = k \<longrightarrow> ended (sp_status s))"
  by (auto simp: count_open_sub_projects_def filter_empty_conv ended_def)

lemma close_project_closure:
  assumes "closure_ok db" and run: "close_project e actor k db = Inr (r, db')"
  shows "closure_ok db'"
proof -
  have subs: "sub_projects db' = sub_projects db"
    using close_project_writes [THEN yieldsD, OF run] by (simp add: evolves_iff writes_iff)
  let ?stamp = "\<lambda>p. p\<lparr>mp_closed_at := Some (clock e)\<rparr>"
  let ?close = "\<lambda>p. p\<lparr>mp_status := main_project_status.closed, mp_closed_at := Some (clock e),
    mp_updated_at := clock e\<rparr>"
  from close_project_effect [OF run] have "main_projects db' = main_projects db \<or>
      main_projects db' = update_rows mp_id k ?stamp (main_projects db) \<or>
      count_open_sub_projects k db = 0 \<and> main_projects db' = update_rows mp_id k ?close (main_projects db)"
    by (auto split: if_splits)
  then show ?thesis
  proof (elim disjE conjE)
    assume "main_projects db' = main_projects db"
    with assms(1) subs show ?thesis by (simp add: closure_ok_def)
  next
    assume rows: "main_projects db' = update_rows mp_id k ?stamp (main_projects db)"
    have "closed_ids (main_projects db') \<subseteq> closed_ids (main_projects db)"
      unfolding rows by (rule closed_ids_update) simp
    then show ?thesis by (intro closure_mono [OF assms(1)]) (simp_all add: subs)
  next
    assume zero: "count_open_sub_projects k db = 0"
      and rows: "main_projects db' = update_rows mp_id k ?close (main_projects db)"
    have "closed_ids (main_projects db') \<subseteq> insert k (closed_ids (main_projects db))"
      unfolding rows closed_ids_def by (auto simp: update_rows_def)
    with zero assms(1) show ?thesis unfolding count_open_zero closure_ok_def subs by blast
  qed
qed

lemma review_sub_project_ending:
  assumes "review_sub_project e actor k payload db = Inr (r, db')"
  shows "\<exists>s (main :: main_project) st. get_sub_project k db = Some s \<and> sp_status s = sub_project_status.pending_review \<and>
    sub_projects db' = update_rows sp_id k (\<lambda>r. r\<lparr>sp_status := st\<rparr>) (sub_projects db) \<and>
    (main_projects db' = (if mp_status main = main_project_status.not_started
         then update_rows mp_id (mp_id main) (\<lambda>p. p\<lparr>mp_status := main_project_status.in_progress,
            mp_updated_at := clock e\<rparr>) (main_projects db)
         else main_projects db) \<or> main_projects db' = main_projects db)"
proof (cases "srr_decision payload = project_review_decision.approve")
  case True
  from review_sub_project_effect [OF assms] show ?thesis
    unfolding if_P [OF True] by (elim exE conjE)
      (rule exI, rule exI, rule exI [of _ sub_project_status.in_progress], intro conjI, assumption, assumption,
       assumption, rule disjI1, assumption)
next
  case False
  from review_sub_project_effect [OF assms] show ?thesis
    unfolding if_not_P [OF False] by (elim exE conjE)
      (rule exI, rule exI, rule exI [of _ sub_project_status.rejected], intro conjI, assumption, assumption,
       assumption, rule disjI2, assumption)
qed

lemma closure_move:
  assumes ids: "integrity db" and ok: "closure_ok db" and move: "step db db'"
  shows "closure_ok db'"
proof -
  have main_ids: "distinct (map mp_id (main_projects db))" and sub_ids: "distinct (map sp_id (sub_projects db))"
    using ids by (simp_all add: integrity_def fresh_ids_def)
  from move show ?thesis
  proof (cases rule: step.cases)
    case (do_create_project e actor payload r)
    from create_project_effect [OF this] have "main_projects db' = main_projects db @ [r]"
      "mp_status r = main_project_status.pending_review" by simp_all
    then have "closed_ids (main_projects db') \<subseteq> closed_ids (main_projects db)"
      by (auto simp: closed_ids_def)
    then show ?thesis by (rule closure_subs_unwritten [OF move_writes(1) [OF do_create_project] _ ok, rotated]) simp
  next
    case (do_import_projects w actor departments content r)
    from import_projects_effect [OF this] have "main_projects db' = main_projects db @ ir_created_projects r"
      "\<forall>p \<in> set (ir_created_projects r). mp_status p = main_project_status.not_started"
      by (elim conjE, simp)+
    then have "closed_ids (main_projects db') \<subseteq> closed_ids (main_projects db)"
      by (auto simp: closed_ids_def)
    then show ?thesis
      by (rule closure_subs_unwritten [OF import_projects_evolves [OF do_import_projects] _ ok, rotated]) simp
  next
    case (do_update_project actor k payload r)
    from update_project_effect [OF this] have
      rows: "main_projects db' = update_rows mp_id k (apply_project_update payload) (main_projects db)" by blast
    have "closed_ids (main_projects db') \<subseteq> closed_ids (main_projects db)"
      unfolding rows by (rule closed_ids_update) (simp add: apply_project_update_def)
    then show ?thesis by (rule closure_subs_unwritten [OF move_writes(2) [OF do_update_project] _ ok, rotated]) simp
  next
    case (do_submit_project e actor k r)
    from submit_project_effect [OF this] have rows: "main_projects db' = update_rows mp_id k
        (\<lambda>p. p\<lparr>mp_status := main_project_status.pending_review\<rparr>) (main_projects db)" by blast
    have "closed_ids (main_projects db') \<subseteq> closed_ids (main_projects db)"
      unfolding rows by (rule closed_ids_update) simp
    then show ?thesis by (rule closure_subs_unwritten [OF move_writes(3) [OF do_submit_project] _ ok, rotated]) simp
  next
    case (do_review_project e actor k payload r)
    from review_project_effect [OF this] obtain p where p: "get_main_project k db = Some p"
      "main_projects db' = update_rows mp_id k (\<lambda>_. r) (main_projects db)" "mp_id r = mp_id p"
      "mp_status r = (if mrr_decision payload = project_review_decision.approve
         then main_project_status.not_started else main_project_status.rejected)" by (elim exE conjE)
    have kept: "mp_id r = k" "mp_status r \<noteq> main_project_status.closed"
      using p(3) main_rows.get_SomeD [OF p(1)] by (simp, simp add: p(4))
    have "closed_ids (main_projects db') \<subseteq> closed_ids (main_projects db)"
      unfolding p(2) by (rule closed_ids_update) (simp add: kept)
    then show ?thesis by (rule closure_subs_unwritten [OF move_writes(4) [OF do_review_project] _ ok, rotated]) simp
  next
    case (do_close_project e actor k r)
    then show ?thesis by (rule close_project_closure [OF ok])
  next
    case (do_create_sub_project e actor payload r)
    from create_sub_project_effect [OF this] obtain main where
      main: "get_main_project (spc_main_project_id payload) db = Some main"
        "mp_status main \<in> open_main_project_statuses" and
      r: "sub_projects db' = sub_projects db @ [r]" "sp_main_project_id r = mp_id main" by blast
    have mains: "main_projects db' = main_projects db"
      using move_writes(6) [OF do_create_sub_project] by (simp add: evolves_iff writes_iff)
    have open_main: "mp_status main \<noteq> main_project_status.closed"
      using main(2) by (auto simp: open_main_project_statuses_def)
    have same: "m = main" if "m \<in> set (main_projects db)" "mp_id m = mp_id main" for m
      using distinct_key_eqD [OF main_ids that(1)] main_rows.get_SomeD [OF main(1)] that(2) by simp
    have "mp_id main \<notin> closed_ids (main_projects db)"
    proof
      assume "mp_id main \<in> closed_ids (main_projects db)"
      then obtain m where m: "m \<in> set (main_projects db)" "mp_id m = mp_id main"
        "mp_status m = main_project_status.closed" unfolding closed_ids_def by auto
      show False using m(3) unfolding same [OF m(1,2)] by (rule notE [OF open_main])
    qed
    then have new: "sp_main_project_id r \<notin> closed_ids (main_projects db)" by (simp only: r(2) not_False_eq_True)
    from ok show ?thesis unfolding closure_ok_def mains r(1) by (simp add: new)
  next
    case (do_update_sub_project actor k payload r)
    from update_sub_project_effect [OF this]
    have "map ending_row (sub_projects db') = map ending_row (sub_projects db)"
      by (auto simp: map_update_rows ending_row_def apply_sub_project_update_def)
    then show ?thesis by (rule closure_mains_unwritten [OF move_writes(7) [OF do_update_sub_project] _ ok, rotated]) simp
  next
    case (do_submit_sub_project e actor k r)
    from submit_sub_project_effect [OF this] obtain s where s: "get_sub_project k db = Some s"
      "sp_status s \<in> {sub_project_status.pending_review, sub_project_status.rejected}"
      "sub_projects db' = update_rows sp_id k (\<lambda>r. r\<lparr>sp_status := sub_project_status.pending_review\<rparr>)
        (sub_projects db)" by blast
    have mains: "main_projects db' = main_projects db"
      using move_writes(8) [OF do_submit_sub_project] by (simp add: evolves_iff writes_iff)
    have "x = s" if "x \<in> set (sub_projects db)" "sp_id x = k" for x
      using distinct_key_eqD [OF sub_ids that(1)] sub_rows.get_SomeD [OF s(1)] that(2) by simp
    with s(2) show ?thesis
      by (intro closure_sub_change [OF ok _ s(3)]) (auto simp: mains ended_def)
  next
    case (do_review_sub_project e actor k payload r)
    from review_sub_project_ending [OF this] obtain s st and main :: main_project where
      s: "get_sub_project k db = Some s" "sp_status s = sub_project_status.pending_review" and
      rows: "sub_projects db' = update_rows sp_id k (\<lambda>r. r\<lparr>sp_status := st\<rparr>) (sub_projects db)"
        "main_projects db' = (if mp_status main = main_project_status.not_started
         then update_rows mp_id (mp_id main) (\<lambda>p. p\<lparr>mp_status := main_project_status.in_progress,
            mp_updated_at := clock e\<rparr>) (main_projects db)
         else main_projects db) \<or> main_projects db' = main_projects db"
      by (elim exE conjE)
    have "closed_ids (main_projects db') \<subseteq> closed_ids (main_projects db)"
      using rows(2) closed_ids_update [of "main_projects db" "mp_id main"
        "\<lambda>p. p\<lparr>mp_status := main_project_status.in_progress, mp_updated_at := clock e\<rparr>"]
      by (auto split: if_splits)
    moreover have "x = s" if "x \<in> set (sub_projects db)" "sp_id x = k" for x
      using distinct_key_eqD [OF sub_ids that(1)] sub_rows.get_SomeD [OF s(1)] that(2) by simp
    ultimately show ?thesis
      using s(2) by (intro closure_sub_change [OF ok _ rows(1)]) (auto simp: ended_def)
  next
    case (do_close_sub_project e actor k r)
    have mains: "main_projects db' = main_projects db"
      using move_writes(10) [OF do_close_sub_project] by (simp add: evolves_iff writes_iff)
    from close_sub_project_effect [OF do_close_sub_project] have
      "sub_projects db' = sub_projects db \<or> sub_projects db' =
         update_rows sp_id k (\<lambda>r. r\<lparr>sp_closed_at := Some (clock e)\<rparr>) (sub_projects db) \<or>
       sub_projects db' = update_rows sp_id k (\<lambda>r. r\<lparr>sp_status := sub_project_status.closed,
         sp_actual_end_date := Some (today e), sp_closed_at := Some (clock e),
         sp_updated_at := clock e\<rparr>) (sub_projects db)"
      by (metis (no_types, lifting))
    then show ?thesis
    proof (elim disjE)
      assume "sub_projects db' = sub_projects db"
      with ok mains show ?thesis by (simp add: closure_ok_def)
    qed (rule closure_sub_change [OF ok], simp add: mains, assumption, simp add: ended_def)+
  next
    case (do_terminate_sub_project e actor k reason r)
    have mains: "main_projects db' = main_projects db"
      using move_writes(11) [OF do_terminate_sub_project] by (simp add: evolves_iff writes_iff)
    from terminate_sub_project_effect [OF do_terminate_sub_project] have
      "sub_projects db' = update_rows sp_id k (\<lambda>r. r\<lparr>sp_status := sub_project_status.terminated,
        sp_actual_end_date := Some (today e), sp_closed_at := Some (clock e),
        sp_updated_at := clock e\<rparr>) (sub_projects db)" by blast
    then show ?thesis by (rule closure_sub_change [OF ok, rotated]) (simp_all add: mains ended_def)
  next
    case (do_handover e actor k to_id reason expected r)
    show ?thesis
      by (rule closure_mains_unwritten [OF move_writes(14) [OF do_handover] _ ok
            forget_manager_ending_row [OF handover_forgets [OF do_handover]]]) simp
  next
    case (do_promote e actor k r)
    have mains: "main_projects db' = main_projects db"
      using promote_phase_writes [THEN yieldsD, OF do_promote] by (simp add: evolves_iff writes_iff)
    obtain p q where "r = (p, q)" by (cases r)
    from promote_phase_effect [OF do_promote [unfolded this]] obtain s :: sub_project where
      "sub_projects db' = sub_projects db \<or> sub_projects db' = update_rows sp_id (sp_id s)
         (\<lambda>r. r\<lparr>sp_status := sub_project_status.completed, sp_actual_end_date := Some (today e),
            sp_updated_at := clock e\<rparr>) (sub_projects db)"
      by (metis (no_types, lifting))
    then show ?thesis
    proof
      assume "sub_projects db' = sub_projects db"
      with ok mains show ?thesis by (simp add: closure_ok_def)
    qed (rule closure_sub_change [OF ok, rotated], assumption, simp_all add: mains ended_def)
  next
    case (do_create_payment e actor policy k payload fs r fs')
    then show ?thesis
    proof (rule create_payment_effect)
      fix main :: main_project
      assume rows: "sub_projects db' = update_rows sp_id k (\<lambda>r. r\<lparr>sp_spent_amount := payment_total k db',
          sp_updated_at := clock e\<rparr>) (sub_projects db)"
        "main_projects db' = update_rows mp_id (mp_id main) (\<lambda>r. r\<lparr>mp_spent_amount :=
          sub_spent_total (mp_id main) db', mp_updated_at := clock e\<rparr>) (main_projects db)"
      show ?thesis
        by (rule closure_sub_change [OF ok _ rows(1)]) (unfold rows(2), rule closed_ids_update, simp_all)
    qed
  next
    case (do_reverse_payment e actor sid k remark r)
    then show ?thesis
    proof (rule reverse_payment_effect)
      fix main :: main_project
      assume rows: "sub_projects db' = update_rows sp_id sid (\<lambda>r. r\<lparr>sp_spent_amount :=
          payment_total sid db', sp_updated_at := clock e\<rparr>) (sub_projects db)"
        "main_projects db' = update_rows mp_id (mp_id main) (\<lambda>r. r\<lparr>mp_spent_amount :=
          sub_spent_total (mp_id main) db', mp_updated_at := clock e\<rparr>) (main_projects db)"
      show ?thesis
        by (rule closure_sub_change [OF ok _ rows(1)]) (unfold rows(2), rule closed_ids_update, simp_all)
    qed
  next
    case (do_review_handover e actor k decision comment r)
    show ?thesis
      by (rule closure_mains_unwritten [OF review_handover_request_writes [THEN yieldsD, OF do_review_handover] _ ok
            forget_manager_ending_row [OF team_move_forgets [OF review_handover_moves [OF do_review_handover]]]]) simp
  next
    case (do_force_handover e actor k r)
    show ?thesis
      by (rule closure_mains_unwritten [OF force_handover_request_writes [THEN yieldsD, OF do_force_handover] _ ok
            forget_manager_ending_row [OF team_move_forgets [OF force_handover_moves [OF do_force_handover]]]]) simp
  qed (rule unwritten_closure [OF _ _ _ ok], erule move_writes, simp, simp)+
qed

interpretation closure: invariant initial step integrity closure_ok
proof unfold_locales
  show "reaches initial step db \<Longrightarrow> integrity db" for db by (rule integrity.reachable_inv)
  show "initial db \<Longrightarrow> closure_ok db" for db by (simp add: initial_def closure_ok_def)
  show "integrity db \<Longrightarrow> closure_ok db \<Longrightarrow> step db db' \<Longrightarrow> closure_ok db'" for db db'
    by (rule closure_move)
qed

end
