(* ===== verification/Retries.thy ===== *)
theory Retries
  imports PyValues
begin

text \<open>
  Deliveries that are attempted until they succeed or their attempts are used up.  The locale
  states what an attempt promises; the webhook and the notification delivery services are its
  two instances.  A schedule of delays is read as the services do, its last entry repeated.
\<close>

datatype delivery_status = pending | retry_scheduled | delivered | dead_letter

definition delay_index :: "int \<Rightarrow> int list \<Rightarrow> nat" where
  "delay_index attempt_count delays = nat (min (attempt_count - 1) (int (length delays) - 1))"

lemma delay_index_less: "delays \<noteq> [] \<Longrightarrow> delay_index k delays < length delays"
  by (cases delays) (auto simp: delay_index_def)

text \<open>Slices of a sorted table.\<close>

lemma set_py_slice_all:
  "int (length xs) \<le> k \<Longrightarrow> set (py_slice xs 0 k) = set xs"
  by (simp add: py_slice_def slice_bound_def)

lemma py_slice_distinct: "distinct (map f xs) \<Longrightarrow> distinct (map f (py_slice xs a b))"
  by (simp add: py_slice_def Let_def flip: take_map drop_map)

locale retry_queue =
  fixes finished :: "'d \<Rightarrow> bool"
    and attempts :: "'d \<Rightarrow> int"
    and limit :: "'d \<Rightarrow> int"
    and attempted :: "'o \<Rightarrow> 'd \<Rightarrow> 'd"
  assumes attempt_finished: "finished d \<Longrightarrow> attempted out d = d"
    and attempt_counts: "\<not> finished d \<Longrightarrow> attempts (attempted out d) = attempts d + 1"
    and attempt_limit: "limit (attempted out d) = limit d"
    and attempt_open: "\<not> finished (attempted out d) \<Longrightarrow> attempts (attempted out d) < limit d"
begin

lemma finished_stays: "finished d \<Longrightarrow> fold attempted outs d = d"
  by (induction outs) (simp_all add: attempt_finished)

text \<open>An open delivery has used as many attempts as were made.\<close>

lemma open_counts:
  "\<not> finished (fold attempted outs d) \<Longrightarrow>
     attempts (fold attempted outs d) = attempts d + int (length outs)"
proof (induction outs arbitrary: d)
  case (Cons out outs)
  have "\<not> finished d"
  proof
    assume "finished d"
    with Cons.prems show False using finished_stays [of d "out # outs"] by simp
  qed
  then show ?case using Cons.IH [of "attempted out d"] Cons.prems by (simp add: attempt_counts)
qed simp

lemma limit_stays: "limit (fold attempted outs d) = limit d"
  by (induction outs arbitrary: d) (simp_all add: attempt_limit)

lemma open_below_limit:
  "outs \<noteq> [] \<Longrightarrow> \<not> finished (fold attempted outs d) \<Longrightarrow>
     attempts (fold attempted outs d) < limit d"
proof (induction outs arbitrary: d rule: rev_induct)
  case (snoc out outs)
  then show ?case
    using attempt_open [of out "fold attempted outs d"] by (simp add: limit_stays)
qed simp

theorem settles:
  assumes "outs \<noteq> []" and "limit d \<le> attempts d + int (length outs)"
  shows "finished (fold attempted outs d)"
  using open_below_limit [OF assms(1)] open_counts [of outs d] assms(2) by fastforce

text \<open>No delivery is attempted beyond its limit.\<close>

lemma attempts_bounded:
  assumes "finished d \<or> attempts d < limit d" and "attempts d \<le> limit d"
  shows "attempts (attempted out d) \<le> limit d \<and>
    (finished (attempted out d) \<or> attempts (attempted out d) < limit d)"
  using assms attempt_finished [of d out] attempt_counts [of d out] attempt_open [of out d]
  by fastforce

end

end
