(* ===== verification/Webhooks.thy ===== *)
theory Webhooks
  imports Retries Calendar FileStore
begin

text \<open>
  Webhooks (\<open>app/services/webhooks.py\<close>, \<open>app/models/webhooks.py\<close>): endpoints that subscribe
  to events, one delivery per endpoint and event, signed attempts with a retry schedule, and
  dead letters that can be replayed.

  What one call sees of the outside is a record: the clock, read once per reading, the answer
  of the transport to a request, and the HMAC function.  The readings of one call are
  numbered; every operation returns how many it made.
\<close>

subsection \<open>Data\<close>

datatype webhook_event_type =
  project_status_changed | payment_created | phase_promoted | revoke_request_reviewed

fun event_value :: "webhook_event_type \<Rightarrow> string" where
  "event_value project_status_changed = ''project.status_changed''"
| "event_value payment_created = ''payment.created''"
| "event_value phase_promoted = ''phase.promoted''"
| "event_value revoke_request_reviewed = ''revoke_request.reviewed''"

record webhook_endpoint =
  we_id :: uuid
  we_name :: string
  we_url :: string
  we_secret :: string
  we_event_types :: "string list"
  we_is_active :: bool
  we_created_by_id :: uuid
  we_created_at :: datetime
  we_updated_at :: datetime

record webhook_delivery =
  wd_id :: uuid
  wd_endpoint_id :: uuid
  wd_event_id :: uuid
  wd_event_type :: string
  wd_source_id :: string
  wd_payload :: payload
  wd_status :: delivery_status
  wd_attempt_count :: int
  wd_max_attempts :: int
  wd_last_error :: "string option"
  wd_response_status :: "int option"
  wd_next_retry_at :: "datetime option"
  wd_last_attempt_at :: "datetime option"
  wd_delivered_at :: "datetime option"
  wd_created_at :: datetime
  wd_updated_at :: datetime

record webhook_store =
  wh_endpoints :: "webhook_endpoint list"
  wh_deliveries :: "webhook_delivery list"
  wh_next_uuid :: uuid

record webhook_request =
  rq_url :: string
  rq_body :: string
  rq_headers :: "(string \<times> string) list"

text \<open>A transport returns a response, times out, or raises an exception with a text.\<close>

datatype transport_outcome = Responded int string | TimedOut | TransportError string

record outside =
  now_at :: "nat \<Rightarrow> datetime"
  post_at :: "nat \<Rightarrow> webhook_request \<Rightarrow> transport_outcome"
  hmac_sha256 :: "string \<Rightarrow> string \<Rightarrow> string"

definition webhook_max_attempts :: int where
  "webhook_max_attempts = 6"

definition webhook_retry_delays :: "int list" where
  "webhook_retry_delays =
     [60 * 1000000, 300 * 1000000, 900 * 1000000, 3600 * 1000000, 21600 * 1000000]"

subsection \<open>Repository\<close>

definition get_endpoint :: "uuid \<Rightarrow> webhook_store \<Rightarrow> webhook_endpoint option" where
  "get_endpoint k s = find_row we_id k (wh_endpoints s)"

definition add_endpoint :: "webhook_endpoint \<Rightarrow> webhook_store \<Rightarrow> webhook_store" where
  "add_endpoint r s = s\<lparr>wh_endpoints := wh_endpoints s @ [r]\<rparr>"

definition save_endpoint ::
  "uuid \<Rightarrow> (webhook_endpoint \<Rightarrow> webhook_endpoint) \<Rightarrow> webhook_store \<Rightarrow> webhook_store" where
  "save_endpoint k f s = s\<lparr>wh_endpoints := update_rows we_id k f (wh_endpoints s)\<rparr>"

definition get_delivery :: "uuid \<Rightarrow> webhook_store \<Rightarrow> webhook_delivery option" where
  "get_delivery k s = find_row wd_id k (wh_deliveries s)"

definition add_delivery :: "webhook_delivery \<Rightarrow> webhook_store \<Rightarrow> webhook_store" where
  "add_delivery r s = s\<lparr>wh_deliveries := wh_deliveries s @ [r]\<rparr>"

definition save_delivery ::
  "uuid \<Rightarrow> (webhook_delivery \<Rightarrow> webhook_delivery) \<Rightarrow> webhook_store \<Rightarrow> webhook_store" where
  "save_delivery k f s = s\<lparr>wh_deliveries := update_rows wd_id k f (wh_deliveries s)\<rparr>"

interpretation endpoint_rows: row_store we_id wh_endpoints get_endpoint add_endpoint save_endpoint
  by unfold_locales (simp_all add: get_endpoint_def add_endpoint_def save_endpoint_def)

interpretation delivery_rows: row_store wd_id wh_deliveries get_delivery add_delivery save_delivery
  by unfold_locales (simp_all add: get_delivery_def add_delivery_def save_delivery_def)

definition page_of :: "'a list \<Rightarrow> int \<Rightarrow> int \<Rightarrow> 'a list \<times> int \<times> int \<times> int" where
  "page_of xs page page_size =
     (let start = (page - 1) * page_size
      in (py_slice xs start (start + page_size), page, page_size, int (length xs)))"

definition repo_list_endpoints ::
  "int \<Rightarrow> int \<Rightarrow> webhook_store \<Rightarrow> webhook_endpoint list \<times> int \<times> int \<times> int" where
  "repo_list_endpoints page page_size s =
     page_of (sorted_desc we_created_at (wh_endpoints s)) page page_size"

definition list_active_endpoints_for_event ::
  "string \<Rightarrow> webhook_store \<Rightarrow> webhook_endpoint list" where
  "list_active_endpoints_for_event event s =
     filter (\<lambda>r. we_is_active r \<and> event \<in> set (we_event_types r)) (wh_endpoints s)"

definition delivery_due :: "datetime \<Rightarrow> webhook_delivery \<Rightarrow> bool" where
  "delivery_due now d \<longleftrightarrow> wd_status d \<in> {delivery_status.pending, retry_scheduled} \<and>
     (case wd_next_retry_at d of None \<Rightarrow> False | Some t \<Rightarrow> t \<le> now)"

definition list_due_deliveries ::
  "datetime \<Rightarrow> int \<Rightarrow> webhook_store \<Rightarrow> webhook_delivery list" where
  "list_due_deliveries now limit s =
     py_slice (sort_key (\<lambda>d. (the (wd_next_retry_at d), wd_created_at d))
       (filter (delivery_due now) (wh_deliveries s))) 0 limit"

definition repo_list_dead_letters ::
  "int \<Rightarrow> int \<Rightarrow> webhook_store \<Rightarrow> webhook_delivery list \<times> int \<times> int \<times> int" where
  "repo_list_dead_letters page page_size s =
     page_of (sorted_desc wd_updated_at
       (filter (\<lambda>d. wd_status d = dead_letter) (wh_deliveries s))) page page_size"

subsection \<open>Cleaning\<close>

definition clean_webhook_page :: "int \<Rightarrow> int \<Rightarrow> py_error + (int \<times> int)" where
  "clean_webhook_page page page_size =
     attempt (guard (\<not> page < 1) (ValidationFailed ''Page must be greater than zero'' [])) (\<lambda>_.
     attempt (guard (\<not> (page_size < 1 \<or> 100 < page_size))
       (ValidationFailed ''Page size must be between 1 and 100'' [])) (\<lambda>_.
     Inr (page, page_size)))"

definition clean_text :: "string \<Rightarrow> string \<Rightarrow> nat \<Rightarrow> py_error + string" where
  "clean_text value message max_length =
     (let cleaned = strip value
      in attempt (guard (cleaned \<noteq> []) (ValidationFailed message [])) (\<lambda>_.
         attempt (guard (\<not> max_length < length cleaned)
           (ValidationFailed
             (''Value must be at most '' @ str_int (int max_length) @ '' characters'') [])) (\<lambda>_.
         Inr cleaned)))"

definition clean_url :: "string \<Rightarrow> py_error + string" where
  "clean_url value =
     attempt (clean_text value ''Webhook URL is required'' 500) (\<lambda>cleaned.
     attempt (guard (starts_with cleaned ''https://'' \<or> starts_with cleaned ''http://'')
       (ValidationFailed ''Webhook URL must use http or https'' [])) (\<lambda>_.
     Inr cleaned))"

definition all_event_values :: "string list" where
  "all_event_values = map event_value
     [project_status_changed, payment_created, phase_promoted, revoke_request_reviewed]"

definition clean_event_types :: "string list \<Rightarrow> py_error + string list" where
  "clean_event_types event_types =
     (let cleaned = filter (\<lambda>item. item \<in> set all_event_values) (dedup event_types)
      in attempt (guard (cleaned \<noteq> [])
           (ValidationFailed ''Webhook must subscribe to at least one event'' [])) (\<lambda>_.
         Inr cleaned))"

subsection \<open>The body of a request\<close>

text \<open>
  \<open>json.dumps(payload, ensure_ascii=False, separators=(",", ":"), sort_keys=True,
  default=str)\<close>.
\<close>

definition json_escape :: "char \<Rightarrow> string" where
  "json_escape c =
     (if c = CHR 0x22 then [CHR 0x5C, CHR 0x22]
      else if c = CHR 0x5C then [CHR 0x5C, CHR 0x5C]
      else if c = CHR 0x08 then [CHR 0x5C, CHR ''b'']
      else if c = CHR 0x0C then [CHR 0x5C, CHR ''f'']
      else if c = CHR 0x0A then [CHR 0x5C, CHR ''n'']
      else if c = CHR 0x0D then [CHR 0x5C, CHR ''r'']
      else if c = CHR 0x09 then [CHR 0x5C, CHR ''t'']
      else if (of_char c :: nat) < 32 then CHR 0x5C # ''u'' @ hex_digits 4 (of_char c)
      else [c])"

definition json_string :: "string \<Rightarrow> string" where
  "json_string s = CHR 0x22 # concat (map json_escape s) @ [CHR 0x22]"

fun comma_separated :: "string list \<Rightarrow> string" where
  "comma_separated [] = []"
| "comma_separated [x] = x"
| "comma_separated (x # y # ys) = x @ '','' @ comma_separated (y # ys)"

fun json :: "pyval \<Rightarrow> string" where
  "json PNone = ''null''"
| "json (PBool b) = (if b then ''true'' else ''false'')"
| "json (PInt n) = str_int n"
| "json (PStr s) = json_string s"
| "json (PUuid u) = json_string (str_uuid u)"
| "json (PMoney c) = json_string (str_money c)"
| "json (PDate d) = json_string (iso_date d)"
| "json (PTime t) = json_string (str_datetime t)"
| "json (PList vs) = ''['' @ comma_separated (map json vs) @ '']''"
| "json (PDict kvs) = ''{'' @ comma_separated (map (\<lambda>(k, t). json_string k @ '':'' @ t)
     (sort_key fst (map (map_prod id json) kvs))) @ ''}''"

definition canonical_webhook_body :: "payload \<Rightarrow> string" where
  "canonical_webhook_body p = json (PDict p)"

definition build_webhook_signature ::
  "outside \<Rightarrow> string \<Rightarrow> string \<Rightarrow> string \<Rightarrow> string \<Rightarrow> string" where
  "build_webhook_signature e body event_id secret timestamp =
     ''sha256='' @ hmac_sha256 e secret (timestamp @ ''.'' @ event_id @ ''.'' @ body)"

definition format_webhook_timestamp :: "datetime \<Rightarrow> string" where
  "format_webhook_timestamp t = iso_seconds ''T'' t @ ''Z''"

definition build_webhook_headers ::
  "outside \<Rightarrow> string \<Rightarrow> webhook_endpoint \<Rightarrow> webhook_delivery \<Rightarrow> string \<Rightarrow> (string \<times> string) list" where
  "build_webhook_headers e body endpoint d timestamp =
     (let event_id = str_uuid (wd_event_id d)
      in [(''Content-Type'', ''application/json''),
          (''X-Event-Id'', event_id),
          (''X-Event-Type'', wd_event_type d),
          (''X-Signature'',
             build_webhook_signature e body event_id (we_secret endpoint) timestamp),
          (''X-Timestamp'', timestamp)])"

definition build_webhook_delivery ::
  "uuid \<Rightarrow> webhook_endpoint \<Rightarrow> uuid \<Rightarrow> webhook_event_type \<Rightarrow> string \<Rightarrow> payload \<Rightarrow> datetime \<Rightarrow>
     webhook_delivery" where
  "build_webhook_delivery k endpoint event_id event_type source_id p now =
     \<lparr> wd_id = k, wd_endpoint_id = we_id endpoint, wd_event_id = event_id,
       wd_event_type = event_value event_type, wd_source_id = source_id, wd_payload = p,
       wd_status = delivery_status.pending, wd_attempt_count = 0, wd_max_attempts = webhook_max_attempts,
       wd_last_error = None, wd_response_status = None, wd_next_retry_at = Some now,
       wd_last_attempt_at = None, wd_delivered_at = None, wd_created_at = now,
       wd_updated_at = now \<rparr>"

subsection \<open>The service\<close>

definition list_endpoints ::
  "int \<Rightarrow> int \<Rightarrow> webhook_store \<Rightarrow> py_error + (webhook_endpoint list \<times> int \<times> int \<times> int)" where
  "list_endpoints page page_size s =
     attempt (clean_webhook_page page page_size) (\<lambda>(page, page_size).
     Inr (repo_list_endpoints page page_size s))"

definition create_endpoint ::
  "outside \<Rightarrow> uuid \<Rightarrow> string \<Rightarrow> string \<Rightarrow> string \<Rightarrow> string list \<Rightarrow> webhook_store \<Rightarrow>
     py_error + (webhook_endpoint \<times> webhook_store)" where
  "create_endpoint e actor_id name url secret event_types s =
     attempt (clean_event_types event_types) (\<lambda>cleaned_event_types.
     attempt (clean_text name ''Webhook name is required'' 120) (\<lambda>name.
     attempt (clean_url url) (\<lambda>url.
     attempt (clean_text secret ''Webhook secret is required'' 255) (\<lambda>secret.
     let endpoint = \<lparr> we_id = wh_next_uuid s, we_name = name, we_url = url, we_secret = secret,
           we_event_types = cleaned_event_types, we_is_active = True,
           we_created_by_id = actor_id, we_created_at = now_at e 0, we_updated_at = now_at e 1 \<rparr>
     in Inr (endpoint, add_endpoint endpoint (s\<lparr>wh_next_uuid := Suc (wh_next_uuid s)\<rparr>))))))"

definition set_endpoint_active ::
  "outside \<Rightarrow> uuid \<Rightarrow> bool \<Rightarrow> webhook_store \<Rightarrow> py_error + (webhook_endpoint \<times> webhook_store)" where
  "set_endpoint_active e endpoint_id is_active s =
     attempt (present (get_endpoint endpoint_id s)
       (ResourceNotFound ''Webhook endpoint does not exist'')) (\<lambda>endpoint.
     let change = (\<lambda>r. r\<lparr>we_is_active := is_active, we_updated_at := now_at e 0\<rparr>)
     in Inr (change endpoint, save_endpoint endpoint_id change s))"

text \<open>The list comprehension draws one identifier per endpoint.\<close>

fun build_deliveries ::
  "webhook_endpoint list \<Rightarrow> uuid \<Rightarrow> webhook_event_type \<Rightarrow> string \<Rightarrow> payload \<Rightarrow> datetime \<Rightarrow>
     uuid \<Rightarrow> webhook_delivery list" where
  "build_deliveries [] event_id event_type source_id p now k = []"
| "build_deliveries (r # rs) event_id event_type source_id p now k =
     build_webhook_delivery k r event_id event_type source_id p now #
     build_deliveries rs event_id event_type source_id p now (Suc k)"

definition enqueue_event ::
  "outside \<Rightarrow> webhook_event_type \<Rightarrow> string \<Rightarrow> payload \<Rightarrow> webhook_store \<Rightarrow>
     webhook_delivery list \<times> webhook_store" where
  "enqueue_event e event_type source_id p s =
     (let now = now_at e 0;
          event_id = wh_next_uuid s;
          endpoints = list_active_endpoints_for_event (event_value event_type) s;
          deliveries = build_deliveries endpoints event_id event_type source_id p now (Suc event_id);
          s' = s\<lparr>wh_next_uuid := Suc event_id + length endpoints\<rparr>
      in (deliveries, fold add_delivery deliveries s'))"

definition next_retry_at :: "datetime \<Rightarrow> int \<Rightarrow> datetime" where
  "next_retry_at now attempt_count =
     now + webhook_retry_delays ! delay_index attempt_count webhook_retry_delays"

definition mark_delivered :: "datetime \<Rightarrow> int \<Rightarrow> webhook_delivery \<Rightarrow> webhook_delivery" where
  "mark_delivered now response_status d =
     d\<lparr> wd_attempt_count := wd_attempt_count d + 1, wd_status := delivered,
        wd_last_error := None, wd_response_status := Some response_status,
        wd_next_retry_at := None, wd_last_attempt_at := Some now, wd_delivered_at := Some now,
        wd_updated_at := now \<rparr>"

definition mark_failed_attempt ::
  "datetime \<Rightarrow> string \<Rightarrow> int option \<Rightarrow> webhook_delivery \<Rightarrow> webhook_delivery" where
  "mark_failed_attempt now error_text response_status d =
     (let d = d\<lparr> wd_attempt_count := wd_attempt_count d + 1, wd_last_error := Some error_text,
            wd_response_status := response_status, wd_last_attempt_at := Some now,
            wd_delivered_at := None, wd_updated_at := now \<rparr>
      in if wd_max_attempts d \<le> wd_attempt_count d
         then d\<lparr>wd_status := dead_letter, wd_next_retry_at := None\<rparr>
         else d\<lparr>wd_status := retry_scheduled,
                wd_next_retry_at := Some (next_retry_at now (wd_attempt_count d))\<rparr>)"

definition record_outcome ::
  "datetime \<times> transport_outcome \<Rightarrow> webhook_delivery \<Rightarrow> webhook_delivery" where
  "record_outcome out d =
     (case out of
        (now, TimedOut) \<Rightarrow> mark_failed_attempt now ''request timed out'' None d
      | (now, TransportError text) \<Rightarrow> mark_failed_attempt now text None d
      | (now, Responded code text) \<Rightarrow>
          if 200 \<le> code \<and> code < 300 then mark_delivered now code d
          else mark_failed_attempt now
            (''Webhook returned '' @ str_int code @ '': '' @ text) (Some code) d)"

definition webhook_request_for ::
  "outside \<Rightarrow> webhook_endpoint \<Rightarrow> datetime \<Rightarrow> webhook_delivery \<Rightarrow> webhook_request" where
  "webhook_request_for e endpoint now d =
     (let body = canonical_webhook_body (wd_payload d);
          timestamp = format_webhook_timestamp now
      in \<lparr> rq_url = we_url endpoint, rq_body = body,
           rq_headers = build_webhook_headers e body endpoint d timestamp \<rparr>)"

definition finished :: "webhook_delivery \<Rightarrow> bool" where
  "finished d \<longleftrightarrow> wd_status d \<in> {delivered, dead_letter}"

text \<open>
  An attempt reads the clock for the timestamp, posts, and reads the clock for the record.
  \<open>n\<close> counts the readings and requests made before.
\<close>

definition attempt_delivery ::
  "outside \<Rightarrow> webhook_endpoint \<Rightarrow> nat \<Rightarrow> webhook_delivery \<Rightarrow> webhook_delivery \<times> nat" where
  "attempt_delivery e endpoint n d =
     (if finished d then (d, n)
      else let request = webhook_request_for e endpoint (now_at e n) d
           in (record_outcome (now_at e (n + 2), post_at e (n + 1) request) d, n + 3))"

record delivery_counts =
  dc_processed :: int
  dc_delivered :: int
  dc_retry_scheduled :: int
  dc_dead_letter :: int

definition count_delivery :: "delivery_status \<Rightarrow> delivery_counts \<Rightarrow> delivery_counts" where
  "count_delivery status c =
     (let c = c\<lparr>dc_processed := dc_processed c + 1\<rparr>
      in case status of
           delivered \<Rightarrow> c\<lparr>dc_delivered := dc_delivered c + 1\<rparr>
         | retry_scheduled \<Rightarrow> c\<lparr>dc_retry_scheduled := dc_retry_scheduled c + 1\<rparr>
         | dead_letter \<Rightarrow> c\<lparr>dc_dead_letter := dc_dead_letter c + 1\<rparr>
         | delivery_status.pending \<Rightarrow> c)"

text \<open>
  The endpoint of a delivery is loaded with it (a foreign key that is not nullable).  The
  access to a missing one would raise.
\<close>

fun process_deliveries ::
  "outside \<Rightarrow> webhook_delivery list \<Rightarrow> nat \<Rightarrow> webhook_store \<Rightarrow> delivery_counts \<Rightarrow>
     py_error + (delivery_counts \<times> webhook_store)" where
  "process_deliveries e [] n s c = Inr (c, s)"
| "process_deliveries e (d # ds) n s c =
     attempt (present (get_endpoint (wd_endpoint_id d) s) (RuntimeError ''no endpoint'')) (\<lambda>endpoint.
     let (d', n') = attempt_delivery e endpoint n d
     in process_deliveries e ds n' (save_delivery (wd_id d) (\<lambda>_. d') s)
          (count_delivery (wd_status d') c))"

definition no_deliveries :: delivery_counts where
  "no_deliveries = \<lparr> dc_processed = 0, dc_delivered = 0, dc_retry_scheduled = 0, dc_dead_letter = 0 \<rparr>"

definition process_due ::
  "outside \<Rightarrow> int \<Rightarrow> webhook_store \<Rightarrow> py_error + (delivery_counts \<times> webhook_store)" where
  "process_due e limit s =
     process_deliveries e (list_due_deliveries (now_at e 0) limit s) 1 s no_deliveries"

definition list_dead_letters ::
  "int \<Rightarrow> int \<Rightarrow> webhook_store \<Rightarrow> py_error + (webhook_delivery list \<times> int \<times> int \<times> int)" where
  "list_dead_letters page page_size s =
     attempt (clean_webhook_page page page_size) (\<lambda>(page, page_size).
     Inr (repo_list_dead_letters page page_size s))"

definition replay_dead_letter ::
  "outside \<Rightarrow> uuid \<Rightarrow> webhook_store \<Rightarrow> py_error + (webhook_delivery \<times> webhook_store)" where
  "replay_dead_letter e delivery_id s =
     attempt (present (get_delivery delivery_id s)
       (ResourceNotFound ''Webhook delivery does not exist'')) (\<lambda>d.
     let d' = d\<lparr> wd_status := delivery_status.pending, wd_attempt_count := 0,
           wd_last_error := None, wd_response_status := None,
           wd_next_retry_at := Some (now_at e 0), wd_last_attempt_at := None,
           wd_delivered_at := None, wd_updated_at := now_at e 1 \<rparr>
     in Inr (d', save_delivery delivery_id (\<lambda>_. d') s))"

subsection \<open>The queue\<close>

definition record_attempt ::
  "datetime \<times> transport_outcome \<Rightarrow> webhook_delivery \<Rightarrow> webhook_delivery" where
  "record_attempt out d = (if finished d then d else record_outcome out d)"

lemmas outcome_defs = record_attempt_def record_outcome_def mark_delivered_def
  mark_failed_attempt_def finished_def Let_def

interpretation webhook_queue: retry_queue finished wd_attempt_count wd_max_attempts record_attempt
  by unfold_locales
    (auto simp: outcome_defs split: prod.splits transport_outcome.splits if_splits)

lemma attempt_delivery_record:
  "fst (attempt_delivery e endpoint n d) =
     record_attempt (now_at e (n + 2),
       post_at e (n + 1) (webhook_request_for e endpoint (now_at e n) d)) d"
  by (simp add: attempt_delivery_def record_attempt_def Let_def)

lemma record_attempt_frame [simp]:
  "wd_id (record_attempt out d) = wd_id d"
  "wd_endpoint_id (record_attempt out d) = wd_endpoint_id d"
  by (auto simp: outcome_defs split: prod.splits transport_outcome.splits)

end
