(* ===== verification/WebhookQueue.thy ===== *)
theory WebhookQueue
  imports Webhooks Transition
begin

text \<open>
  The webhook queue as a state machine: its invariant, what a round of processing does to the
  deliveries, and that rounds that are far enough apart finish every delivery.
\<close>

inductive webhook_move :: "webhook_store \<Rightarrow> webhook_store \<Rightarrow> bool" where
  move_create_endpoint:
    "create_endpoint e actor_id name url secret event_types s = Inr (r, s') \<Longrightarrow> webhook_move s s'"
| move_set_endpoint_active: "set_endpoint_active e k b s = Inr (r, s') \<Longrightarrow> webhook_move s s'"
| move_enqueue_event: "enqueue_event e event_type source_id p s = (ds, s') \<Longrightarrow> webhook_move s s'"
| move_process_due: "process_due e limit s = Inr (c, s') \<Longrightarrow> webhook_move s s'"
| move_replay: "replay_dead_letter e k s = Inr (d, s') \<Longrightarrow> webhook_move s s'"

definition webhook_start :: "webhook_store \<Rightarrow> bool" where
  "webhook_start s \<longleftrightarrow> wh_endpoints s = [] \<and> wh_deliveries s = []"

abbreviation webhook_reachable :: "webhook_store \<Rightarrow> bool" where
  "webhook_reachable \<equiv> reaches webhook_start webhook_move"

subsection \<open>The invariant\<close>

definition delivery_ok :: "webhook_delivery \<Rightarrow> bool" where
  "delivery_ok d \<longleftrightarrow> wd_max_attempts d = webhook_max_attempts \<and>
     0 \<le> wd_attempt_count d \<and> wd_attempt_count d \<le> wd_max_attempts d \<and>
     (finished d \<or> wd_attempt_count d < wd_max_attempts d) \<and>
     (wd_status d = delivery_status.pending \<longleftrightarrow> wd_attempt_count d = 0) \<and>
     (wd_next_retry_at d = None \<longleftrightarrow> finished d) \<and>
     (wd_delivered_at d = None \<longleftrightarrow> wd_status d \<noteq> delivered)"

definition endpoint_ok :: "webhook_endpoint \<Rightarrow> bool" where
  "endpoint_ok r \<longleftrightarrow> (starts_with (we_url r) ''https://'' \<or> starts_with (we_url r) ''http://'') \<and>
     we_secret r \<noteq> [] \<and> we_event_types r \<noteq> [] \<and> distinct (we_event_types r) \<and>
     set (we_event_types r) \<subseteq> set all_event_values"

definition webhooks_ok :: "webhook_store \<Rightarrow> bool" where
  "webhooks_ok s \<longleftrightarrow>
     distinct (map we_id (wh_endpoints s)) \<and> distinct (map wd_id (wh_deliveries s)) \<and>
     (\<forall>r \<in> set (wh_endpoints s). we_id r < wh_next_uuid s \<and> endpoint_ok r) \<and>
     (\<forall>d \<in> set (wh_deliveries s). wd_id d < wh_next_uuid s \<and> delivery_ok d \<and>
        wd_endpoint_id d \<in> we_id ` set (wh_endpoints s))"

lemma record_attempt_ok:
  "delivery_ok d \<Longrightarrow> delivery_ok (record_attempt out d)"
  by (auto simp: delivery_ok_def outcome_defs split: prod.splits transport_outcome.splits)

lemma build_deliveries_rows:
  "map wd_id (build_deliveries rs event_id t src p now k) = [k ..< k + length rs]"
  "map wd_endpoint_id (build_deliveries rs event_id t src p now k) = map we_id rs"
  "length (build_deliveries rs event_id t src p now k) = length rs"
  by (induction rs arbitrary: k)
    (simp_all add: build_webhook_delivery_def upt_conv_Cons del: upt_Suc)

lemma build_deliveries_ok:
  "d \<in> set (build_deliveries rs event_id t src p now k) \<Longrightarrow> delivery_ok d"
  by (induction rs arbitrary: k)
    (auto simp: build_webhook_delivery_def delivery_ok_def finished_def webhook_max_attempts_def)

lemma fold_add_delivery:
  "wh_deliveries (fold add_delivery ds s) = wh_deliveries s @ ds"
  "wh_endpoints (fold add_delivery ds s) = wh_endpoints s"
  "wh_next_uuid (fold add_delivery ds s) = wh_next_uuid s"
  by (induction ds arbitrary: s) (simp_all add: add_delivery_def)

lemma enqueue_event_ok:
  assumes "webhooks_ok s" and "enqueue_event e t src p s = (ds, s')"
  shows "webhooks_ok s'"
proof -
  define rs where "rs = list_active_endpoints_for_event (event_value t) s"
  have ds: "ds = build_deliveries rs (wh_next_uuid s) t src p (now_at e 0) (Suc (wh_next_uuid s))"
    and s': "wh_endpoints s' = wh_endpoints s" "wh_deliveries s' = wh_deliveries s @ ds"
      "wh_next_uuid s' = Suc (wh_next_uuid s) + length rs"
    using assms(2) by (auto simp: enqueue_event_def Let_def rs_def fold_add_delivery)
  have ids: "map wd_id ds = [Suc (wh_next_uuid s) ..< Suc (wh_next_uuid s) + length rs]"
    and refs: "map wd_endpoint_id ds = map we_id rs"
    unfolding ds by (rule build_deliveries_rows)+
  have ids': "wd_id d \<in> {Suc (wh_next_uuid s) ..< Suc (wh_next_uuid s) + length rs}"
    if "d \<in> set ds" for d
    using imageI [OF that, of wd_id] arg_cong [OF ids, of set] by (simp del: upt_Suc)
  have refs': "wd_endpoint_id d \<in> we_id ` set (wh_endpoints s)" if "d \<in> set ds" for d
    using arg_cong [OF refs, of set] that
    by (auto simp: rs_def list_active_endpoints_for_event_def)
  have old: "wd_id d < wh_next_uuid s" if "d \<in> set (wh_deliveries s)" for d
    using assms(1) that by (simp add: webhooks_ok_def)
  have "distinct (map wd_id ds)" unfolding ids by (rule distinct_upt)
  moreover have "wd_id ` set (wh_deliveries s) \<inter> wd_id ` set ds = {}"
    using ids' old by fastforce
  ultimately have "distinct (map wd_id (wh_deliveries s'))"
    using assms(1) by (simp add: s' webhooks_ok_def)
  moreover have "delivery_ok d" if "d \<in> set ds" for d
    using that unfolding ds by (rule build_deliveries_ok)
  ultimately show ?thesis
    using assms(1) ids' refs' old by (fastforce simp: webhooks_ok_def s')
qed

subsection \<open>A round of processing\<close>

text \<open>
  A round attempts the deliveries it was given, each once, and changes nothing else.  \<open>outs\<close>
  holds the instant and the answer recorded for each.
\<close>

lemma process_deliveries_rows:
  assumes "process_deliveries e ds n s c = Inr (c', s')"
    and "distinct (map wd_id ds)" and "set ds \<subseteq> set (wh_deliveries s)"
    and "distinct (map wd_id (wh_deliveries s))"
  shows "wh_endpoints s' = wh_endpoints s \<and> wh_next_uuid s' = wh_next_uuid s \<and>
    (\<exists>outs. range (fst \<circ> outs) \<subseteq> range (now_at e) \<and>
      wh_deliveries s' =
        map (\<lambda>d. if d \<in> set ds then record_attempt (outs (wd_id d)) d else d) (wh_deliveries s))"
  using assms
proof (induction ds arbitrary: n s c)
  case Nil
  have "\<exists>outs :: nat \<Rightarrow> datetime \<times> transport_outcome. range (fst \<circ> outs) \<subseteq> range (now_at e)"
    by (rule exI [of _ "\<lambda>_. (now_at e 0, TimedOut)"]) auto
  with Nil show ?case by simp
next
  case (Cons d ds)
  obtain endpoint where "get_endpoint (wd_endpoint_id d) s = Some endpoint"
    using Cons.prems(1) by (auto simp: result_simps)
  define out where "out = (now_at e (n + 2),
    post_at e (n + 1) (webhook_request_for e endpoint (now_at e n) d))"
  define s1 where "s1 = save_delivery (wd_id d) (\<lambda>_. record_attempt out d) s"
  obtain n' c1 where rest: "process_deliveries e ds n' s1 c1 = Inr (c', s')"
    using Cons.prems(1) attempt_delivery_record [of e endpoint n d] \<open>get_endpoint _ s = _\<close>
    by (auto simp: out_def s1_def split: prod.splits)
  have rows1: "wh_deliveries s1 =
      map (\<lambda>r. if r = d then record_attempt out d else r) (wh_deliveries s)"
    using Cons.prems(3,4)
    by (auto simp: s1_def save_delivery_def update_rows_def dest: distinct_key_eqD)
  have s1: "wh_endpoints s1 = wh_endpoints s" "wh_next_uuid s1 = wh_next_uuid s"
    by (simp_all add: s1_def save_delivery_def)
  have ids1: "map wd_id (wh_deliveries s1) = map wd_id (wh_deliveries s)"
    by (simp add: rows1)
  have "d \<notin> set ds" using Cons.prems(2) by auto
  have "set ds \<subseteq> set (wh_deliveries s1)"
    using Cons.prems(3) \<open>d \<notin> set ds\<close> by (auto simp: rows1)
  then have IH: "wh_endpoints s' = wh_endpoints s1 \<and> wh_next_uuid s' = wh_next_uuid s1 \<and>
    (\<exists>outs. range (fst \<circ> outs) \<subseteq> range (now_at e) \<and>
      wh_deliveries s' =
        map (\<lambda>d. if d \<in> set ds then record_attempt (outs (wd_id d)) d else d) (wh_deliveries s1))"
    using Cons.IH [OF rest] Cons.prems(2,4) by (simp add: ids1)
  then obtain outs where outs: "range (fst \<circ> outs) \<subseteq> range (now_at e)"
    and rows': "wh_deliveries s' =
      map (\<lambda>d. if d \<in> set ds then record_attempt (outs (wd_id d)) d else d) (wh_deliveries s1)"
    by blast
  define outs' where "outs' = outs(wd_id d := out)"
  have "range (fst \<circ> outs') \<subseteq> range (now_at e)"
    using outs by (auto simp: outs'_def out_def)
  moreover have "wh_deliveries s' =
      map (\<lambda>r. if r \<in> set (d # ds) then record_attempt (outs' (wd_id r)) r else r) (wh_deliveries s)"
  proof -
    have ne: "record_attempt out d \<notin> set ds"
      using Cons.prems(2) by (metis distinct.simps(2) image_eqI list.set_map list.simps(9)
        record_attempt_frame(1))
    have other: "wd_id r \<noteq> wd_id d" if "r \<in> set ds" for r
      using imageI [OF that, of wd_id] Cons.prems(2) by auto
    show ?thesis
      unfolding rows' rows1 using ne other \<open>d \<notin> set ds\<close> by (auto simp: outs'_def)
  qed
  ultimately show ?case using IH s1 by auto
qed

lemma due_deliveries_distinct:
  assumes "distinct (map wd_id (wh_deliveries s))"
  shows "distinct (map wd_id (list_due_deliveries now limit s))"
proof -
  have "distinct (map wd_id (sort_key f (filter P (wh_deliveries s))))"
    for f :: "webhook_delivery \<Rightarrow> datetime \<times> datetime" and P
    using assms by (simp add: distinct_map inj_on_def)
  then show ?thesis unfolding list_due_deliveries_def by (rule py_slice_distinct)
qed

lemma due_deliveries_subset:
  "set (list_due_deliveries now limit s) \<subseteq> {d \<in> set (wh_deliveries s). delivery_due now d}"
  unfolding list_due_deliveries_def
  by (rule order_trans [OF set_py_slice]) auto

lemma process_due_rows:
  assumes "process_due e limit s = Inr (c, s')" and "webhooks_ok s"
  shows "wh_endpoints s' = wh_endpoints s \<and> wh_next_uuid s' = wh_next_uuid s \<and>
    (\<exists>outs. range (fst \<circ> outs) \<subseteq> range (now_at e) \<and>
      wh_deliveries s' =
        map (\<lambda>d. if d \<in> set (list_due_deliveries (now_at e 0) limit s)
          then record_attempt (outs (wd_id d)) d else d) (wh_deliveries s))"
proof (rule process_deliveries_rows [OF assms(1) [unfolded process_due_def]])
  show ids: "distinct (map wd_id (wh_deliveries s))"
    using assms(2) by (simp add: webhooks_ok_def)
  show "distinct (map wd_id (list_due_deliveries (now_at e 0) limit s))"
    by (rule due_deliveries_distinct [OF ids])
  show "set (list_due_deliveries (now_at e 0) limit s) \<subseteq> set (wh_deliveries s)"
    using due_deliveries_subset [of "now_at e 0" limit s] by blast
qed

text \<open>A round never fails, as the endpoint of each delivery exists.\<close>

lemma process_deliveries_returns:
  assumes "\<And>d. d \<in> set ds \<Longrightarrow> wd_endpoint_id d \<in> we_id ` set (wh_endpoints s)"
  shows "\<exists>c' s'. process_deliveries e ds n s c = Inr (c', s')"
  using assms
proof (induction ds arbitrary: n s c)
  case (Cons d ds)
  then obtain endpoint where "get_endpoint (wd_endpoint_id d) s = Some endpoint"
    using endpoint_rows.get_None_iff by (metis list.set_intros(1) option.exhaust)
  then show ?case
    using Cons by (auto simp: save_delivery_def split: prod.splits)
qed simp

lemma process_due_returns:
  assumes "webhooks_ok s"
  shows "\<exists>c s'. process_due e limit s = Inr (c, s')"
  unfolding process_due_def
  by (rule process_deliveries_returns)
    (use assms due_deliveries_subset in \<open>fastforce simp: webhooks_ok_def\<close>)

lemma webhooks_ok_map:
  assumes "webhooks_ok s" and "wh_endpoints s' = wh_endpoints s"
    and "wh_next_uuid s' = wh_next_uuid s" and "wh_deliveries s' = map f (wh_deliveries s)"
    and "\<And>d. d \<in> set (wh_deliveries s) \<Longrightarrow>
      wd_id (f d) = wd_id d \<and> wd_endpoint_id (f d) = wd_endpoint_id d \<and> delivery_ok (f d)"
  shows "webhooks_ok s'"
proof -
  have "map wd_id (wh_deliveries s') = map wd_id (wh_deliveries s)"
    using assms(5) by (simp add: assms(4))
  then have "distinct (map wd_id (wh_deliveries s'))" using assms(1) by (simp add: webhooks_ok_def)
  moreover have "wd_id d < wh_next_uuid s \<and> delivery_ok d \<and>
      wd_endpoint_id d \<in> we_id ` set (wh_endpoints s)" if "d \<in> set (wh_deliveries s')" for d
    using that assms(1,5) by (auto simp: webhooks_ok_def assms(4))
  ultimately show ?thesis using assms(1) by (simp add: webhooks_ok_def assms(2,3))
qed

lemma process_due_ok:
  assumes "process_due e limit s = Inr (c, s')" and "webhooks_ok s"
  shows "webhooks_ok s'"
proof -
  obtain outs where rows: "wh_deliveries s' =
      map (\<lambda>d. if d \<in> set (list_due_deliveries (now_at e 0) limit s)
        then record_attempt (outs (wd_id d)) d else d) (wh_deliveries s)"
    and s': "wh_endpoints s' = wh_endpoints s" "wh_next_uuid s' = wh_next_uuid s"
    using process_due_rows [OF assms] by blast
  show ?thesis
    by (rule webhooks_ok_map [OF assms(2) s' rows])
      (use assms(2) in \<open>auto simp: webhooks_ok_def intro: record_attempt_ok\<close>)
qed

lemma replay_ok:
  assumes "replay_dead_letter e k s = Inr (d, s')" and "webhooks_ok s"
  shows "webhooks_ok s'"
proof -
  obtain d0 where d0: "get_delivery k s = Some d0"
    and s': "s' = save_delivery k (\<lambda>_. d) s"
    and d: "d = d0\<lparr> wd_status := delivery_status.pending, wd_attempt_count := 0,
           wd_last_error := None, wd_response_status := None,
           wd_next_retry_at := Some (now_at e 0), wd_last_attempt_at := None,
           wd_delivered_at := None, wd_updated_at := now_at e 1 \<rparr>"
    using assms(1) by (auto simp: replay_dead_letter_def Let_def result_simps)
  have row: "d0 \<in> set (wh_deliveries s)" "wd_id d0 = k"
    using delivery_rows.get_SomeD [OF d0] by simp_all
  then have "delivery_ok d0" using assms(2) by (simp add: webhooks_ok_def)
  then have dok: "delivery_ok d"
    by (simp add: d delivery_ok_def finished_def webhook_max_attempts_def)
  have same: "r = d0" if "r \<in> set (wh_deliveries s)" "wd_id r = k" for r
    using that row assms(2) distinct_key_eqD [of wd_id "wh_deliveries s" r d0]
    by (simp add: webhooks_ok_def)
  show ?thesis
  proof (rule webhooks_ok_map [OF assms(2)])
    show "wh_endpoints s' = wh_endpoints s" "wh_next_uuid s' = wh_next_uuid s"
      "wh_deliveries s' = map (\<lambda>r. if wd_id r = k then d else r) (wh_deliveries s)"
      by (simp_all add: s' save_delivery_def update_rows_def)
    show "wd_id (if wd_id r = k then d else r) = wd_id r \<and>
        wd_endpoint_id (if wd_id r = k then d else r) = wd_endpoint_id r \<and>
        delivery_ok (if wd_id r = k then d else r)" if "r \<in> set (wh_deliveries s)" for r
      using that same [OF that] dok assms(2) row by (auto simp: webhooks_ok_def d)
  qed
qed

lemma create_endpoint_ok:
  assumes "create_endpoint e actor_id name url secret ts s = Inr (r, s')" and "webhooks_ok s"
  shows "webhooks_ok s'"
proof -
  have r: "we_id r = wh_next_uuid s" "endpoint_ok r"
    and s': "s' = add_endpoint r (s\<lparr>wh_next_uuid := Suc (wh_next_uuid s)\<rparr>)"
    using assms(1)
    by (auto simp: create_endpoint_def clean_event_types_def clean_text_def clean_url_def
        endpoint_ok_def Let_def result_simps)
  have "we_id q < wh_next_uuid s" if "q \<in> set (wh_endpoints s)" for q
    using that assms(2) by (simp add: webhooks_ok_def)
  then show ?thesis
    using assms(2) r by (fastforce simp: webhooks_ok_def s' add_endpoint_def)
qed

lemma set_endpoint_active_ok:
  assumes "set_endpoint_active e k b s = Inr (r, s')" and "webhooks_ok s"
  shows "webhooks_ok s'"
proof -
  have s': "wh_endpoints s' = update_rows we_id k
      (\<lambda>r. r\<lparr>we_is_active := b, we_updated_at := now_at e 0\<rparr>) (wh_endpoints s)"
    "wh_deliveries s' = wh_deliveries s" "wh_next_uuid s' = wh_next_uuid s"
    using assms(1)
    by (auto simp: set_endpoint_active_def save_endpoint_def Let_def result_simps)
  have same: "endpoint_ok (q\<lparr>we_is_active := b, we_updated_at := t\<rparr>) = endpoint_ok q" for q t
    by (simp add: endpoint_ok_def)
  have "map we_id (wh_endpoints s') = map we_id (wh_endpoints s)"
    unfolding s' by (rule keys_update_rows) simp
  then have keys: "we_id ` set (wh_endpoints s') = we_id ` set (wh_endpoints s)"
    "distinct (map we_id (wh_endpoints s')) = distinct (map we_id (wh_endpoints s))"
    by (metis list.set_map, metis)
  have "we_id q < wh_next_uuid s \<and> endpoint_ok q" if "q \<in> set (wh_endpoints s')" for q
    using that assms(2) unfolding s' by (auto simp: set_update_rows webhooks_ok_def same)
  then show ?thesis using assms(2) by (simp add: webhooks_ok_def keys s'(2,3))
qed

interpretation webhook_inv: invariant webhook_start webhook_move "\<lambda>_. True" webhooks_ok
proof
  show "webhooks_ok s" if "webhook_start s" for s
    using that by (simp add: webhook_start_def webhooks_ok_def)
  show "webhooks_ok s'" if "webhooks_ok s" "webhook_move s s'" for s s'
    using that(2,1)
    by cases (blast intro: create_endpoint_ok set_endpoint_active_ok enqueue_event_ok process_due_ok
        replay_ok)+
qed simp

subsection \<open>Repeated rounds\<close>

text \<open>
  The background job calls \<open>process_due\<close> again and again, each time with a clock of its own.
  Two rounds are far enough apart when no reading of the second is less than the longest delay
  after a reading of the first.
\<close>

definition longest_delay :: int where
  "longest_delay = 21600 * 1000000"

definition process_rounds :: "int \<Rightarrow> outside list \<Rightarrow> webhook_store \<Rightarrow> py_error + webhook_store" where
  "process_rounds limit es s =
     fold_result (\<lambda>e s. attempt (process_due e limit s) (\<lambda>(c, s'). Inr s')) es s"

definition apart :: "outside \<Rightarrow> outside \<Rightarrow> bool" where
  "apart e e' \<longleftrightarrow> (\<forall>n m. now_at e n + longest_delay \<le> now_at e' m)"

definition scheduled_by :: "datetime \<Rightarrow> webhook_store \<Rightarrow> bool" where
  "scheduled_by t s \<longleftrightarrow>
     (\<forall>d \<in> set (wh_deliveries s). case wd_next_retry_at d of None \<Rightarrow> True | Some u \<Rightarrow> u \<le> t)"

definition open_used :: "int \<Rightarrow> webhook_store \<Rightarrow> bool" where
  "open_used k s \<longleftrightarrow> (\<forall>d \<in> set (wh_deliveries s). finished d \<or> k \<le> wd_attempt_count d)"

lemma next_retry_at_bounds:
  "now < next_retry_at now k \<and> next_retry_at now k \<le> now + longest_delay"
proof -
  have "webhook_retry_delays ! delay_index k webhook_retry_delays \<in> set webhook_retry_delays"
    by (rule nth_mem, rule delay_index_less) (simp add: webhook_retry_delays_def)
  then show ?thesis
    unfolding next_retry_at_def longest_delay_def by (auto simp: webhook_retry_delays_def)
qed

lemma record_attempt_open_schedule:
  assumes "\<not> finished d"
  shows "case wd_next_retry_at (record_attempt out d) of None \<Rightarrow> True
    | Some u \<Rightarrow> u \<le> fst out + longest_delay"
  using assms next_retry_at_bounds [of "fst out" "wd_attempt_count d + 1"]
  by (auto simp: outcome_defs split: prod.splits transport_outcome.splits)

lemma round_attempts_all:
  assumes ok: "webhooks_ok s" and sched: "scheduled_by (now_at e 0) s"
    and all: "int (length (wh_deliveries s)) \<le> limit"
    and run: "process_due e limit s = Inr (c, s')"
  shows "\<exists>outs. range (fst \<circ> outs) \<subseteq> range (now_at e) \<and>
    wh_deliveries s' = map (\<lambda>d. record_attempt (outs (wd_id d)) d) (wh_deliveries s)"
proof -
  let ?due = "list_due_deliveries (now_at e 0) limit s"
  obtain outs where outs: "range (fst \<circ> outs) \<subseteq> range (now_at e)"
    and rows: "wh_deliveries s' = map (\<lambda>d. if d \<in> set ?due
        then record_attempt (outs (wd_id d)) d else d) (wh_deliveries s)"
    using process_due_rows [OF run ok] by blast
  have "int (length (sort_key f (filter P (wh_deliveries s)))) \<le> limit"
    for f :: "webhook_delivery \<Rightarrow> datetime \<times> datetime" and P
    unfolding length_sort using all length_filter_le [of P "wh_deliveries s"] by linarith
  then have due: "set ?due = {d \<in> set (wh_deliveries s). delivery_due (now_at e 0) d}"
    unfolding list_due_deliveries_def by (subst set_py_slice_all) auto
  have "delivery_due (now_at e 0) d" if d: "d \<in> set (wh_deliveries s)" and unfinished: "\<not> finished d" for d
  proof -
    have "delivery_ok d" using ok d by (simp add: webhooks_ok_def)
    then obtain u where u: "wd_next_retry_at d = Some u"
      using unfinished by (auto simp: delivery_ok_def)
    then have "u \<le> now_at e 0" using sched d by (fastforce simp: scheduled_by_def)
    moreover have "wd_status d \<in> {delivery_status.pending, retry_scheduled}"
      using unfinished by (cases "wd_status d") (simp_all add: finished_def)
    ultimately show ?thesis by (simp add: delivery_due_def u)
  qed
  then have "map (\<lambda>d. if d \<in> set ?due then record_attempt (outs (wd_id d)) d else d)
      (wh_deliveries s) = map (\<lambda>d. record_attempt (outs (wd_id d)) d) (wh_deliveries s)"
    by (auto simp: due record_attempt_def)
  then show ?thesis using outs rows by metis
qed

lemma round_progress:
  assumes "webhooks_ok s" and "scheduled_by (now_at e 0) s"
    and "int (length (wh_deliveries s)) \<le> limit" and "open_used k s"
    and "process_due e limit s = Inr (c, s')"
  shows "int (length (wh_deliveries s')) \<le> limit \<and> open_used (k + 1) s' \<and>
    (\<forall>e'. apart e e' \<longrightarrow> scheduled_by (now_at e' 0) s')"
proof -
  obtain outs where outs: "range (fst \<circ> outs) \<subseteq> range (now_at e)"
    and rows: "wh_deliveries s' = map (\<lambda>d. record_attempt (outs (wd_id d)) d) (wh_deliveries s)"
    using round_attempts_all [OF assms(1,2,3,5)] by blast
  have "finished (record_attempt (outs (wd_id d)) d) \<or>
      k + 1 \<le> wd_attempt_count (record_attempt (outs (wd_id d)) d)"
    if "d \<in> set (wh_deliveries s)" for d
  proof (cases "finished d")
    case True
    then show ?thesis by (simp add: record_attempt_def)
  next
    case False
    then show ?thesis
      using that assms(4) webhook_queue.attempt_counts [of d "outs (wd_id d)"]
      by (auto simp: open_used_def)
  qed
  then have "open_used (k + 1) s'" by (auto simp: open_used_def rows)
  moreover have "scheduled_by (now_at e' 0) s'" if "apart e e'" for e'
  proof -
    have "case wd_next_retry_at (record_attempt (outs (wd_id d)) d) of None \<Rightarrow> True
        | Some u \<Rightarrow> u \<le> now_at e' 0" if d: "d \<in> set (wh_deliveries s)" for d
    proof (cases "finished d")
      case True
      then show ?thesis using assms(1) d by (auto simp: webhooks_ok_def delivery_ok_def record_attempt_def)
    next
      case False
      obtain n where "fst (outs (wd_id d)) = now_at e n" using outs by (auto simp: image_subset_iff)
      then have "fst (outs (wd_id d)) + longest_delay \<le> now_at e' 0"
        using \<open>apart e e'\<close> by (simp add: apart_def)
      then show ?thesis
        using record_attempt_open_schedule [OF False, of "outs (wd_id d)"]
        by (auto split: option.splits)
    qed
    then show ?thesis by (auto simp: scheduled_by_def rows)
  qed
  ultimately show ?thesis using assms(3) by (simp add: rows)
qed

lemma rounds_progress:
  assumes "webhooks_ok s" and "es \<noteq> [] \<Longrightarrow> scheduled_by (now_at (hd es) 0) s"
    and "int (length (wh_deliveries s)) \<le> limit" and "open_used k s" and "successively apart es"
  shows "\<exists>s'. process_rounds limit es s = Inr s' \<and> webhooks_ok s' \<and>
    open_used (k + int (length es)) s'"
  using assms
proof (induction es arbitrary: s k)
  case Nil
  then show ?case by (simp add: process_rounds_def)
next
  case (Cons e es)
  obtain c t where t: "process_due e limit s = Inr (c, t)"
    using process_due_returns [OF Cons.prems(1)] by blast
  have step: "int (length (wh_deliveries t)) \<le> limit \<and> open_used (k + 1) t \<and>
      (\<forall>e'. apart e e' \<longrightarrow> scheduled_by (now_at e' 0) t)"
    by (rule round_progress [OF _ _ _ _ t]) (use Cons.prems in simp_all)
  have "\<exists>s'. process_rounds limit es t = Inr s' \<and> webhooks_ok s' \<and>
      open_used (k + 1 + int (length es)) s'"
  proof (rule Cons.IH)
    show "webhooks_ok t" by (rule process_due_ok [OF t Cons.prems(1)])
    show "scheduled_by (now_at (hd es) 0) t" if "es \<noteq> []"
      using step Cons.prems(5) that by (cases es) auto
    show "successively apart es" using Cons.prems(5) by (cases es) auto
  qed (use step in simp_all)
  then show ?case using t by (auto simp: process_rounds_def algebra_simps)
qed

lemma all_finished:
  assumes "webhooks_ok s" and "open_used k s" and "webhook_max_attempts \<le> k"
  shows "\<forall>d \<in> set (wh_deliveries s). finished d"
  using assms by (fastforce simp: webhooks_ok_def delivery_ok_def open_used_def)

end
