(* ===== verification/Deliveries.thy ===== *)
theory Deliveries
  imports Retries Calendar FileStore Database Transition
begin

text \<open>
  The delivery of notifications over external channels
  (\<open>app/services/notification_deliveries.py\<close>): a delivery is stored, attempted at once, retried
  by the background job, and becomes a dead letter with an alert to the administrators when its
  attempts are used up.  The channels are arguments: what a channel answers to a message.
\<close>

subsection \<open>Data\<close>

record notification_delivery =
  nd_id :: uuid
  nd_channel :: channel
  nd_scenario :: string
  nd_receiver_id :: uuid
  nd_source_id :: uuid
  nd_payload :: payload
  nd_dedup_key :: dedup_key
  nd_status :: delivery_status
  nd_attempt_count :: int
  nd_max_attempts :: int
  nd_last_error :: "string option"
  nd_next_retry_at :: "datetime option"
  nd_last_attempt_at :: "datetime option"
  nd_delivered_at :: "datetime option"
  nd_created_at :: datetime
  nd_updated_at :: datetime

text \<open>The rows of \<open>notifications\<close> that this service adds; their scenario is fixed.\<close>

record dead_letter_alert =
  al_id :: uuid
  al_receiver_id :: uuid
  al_source_id :: uuid
  al_payload :: payload
  al_dedup_key :: string
  al_created_at :: datetime

record delivery_store =
  ds_users :: "user list"
  ds_deliveries :: "notification_delivery list"
  ds_alerts :: "dead_letter_alert list"
  ds_next_uuid :: uuid

text \<open>A channel returns a result, times out, or raises an exception with a text.\<close>

datatype send_outcome = SendResult bool "string option" | SendTimedOut | SendError string

record channel_world =
  reading_at :: "nat \<Rightarrow> datetime"
  send_at :: "channel \<Rightarrow> (nat \<Rightarrow> channel_message \<Rightarrow> send_outcome) option"

definition dead_letter_scenario :: string where
  "dead_letter_scenario = ''notification_delivery_dead_letter''"

definition notification_max_attempts :: int where
  "notification_max_attempts = 3"

definition notification_retry_delays :: "int list" where
  "notification_retry_delays = [60 * 1000000, 300 * 1000000]"

fun channel_text :: "channel \<Rightarrow> string" where
  "channel_text in_app = ''in_app''"
| "channel_text email = ''email''"
| "channel_text wework = ''wework''"
| "channel_text dingtalk = ''dingtalk''"

subsection \<open>Repository\<close>

definition find_delivery :: "uuid \<Rightarrow> delivery_store \<Rightarrow> notification_delivery option" where
  "find_delivery k s = find_row nd_id k (ds_deliveries s)"

definition insert_delivery :: "notification_delivery \<Rightarrow> delivery_store \<Rightarrow> delivery_store" where
  "insert_delivery r s = s\<lparr>ds_deliveries := ds_deliveries s @ [r]\<rparr>"

definition write_delivery ::
  "uuid \<Rightarrow> (notification_delivery \<Rightarrow> notification_delivery) \<Rightarrow> delivery_store \<Rightarrow> delivery_store" where
  "write_delivery k f s = s\<lparr>ds_deliveries := update_rows nd_id k f (ds_deliveries s)\<rparr>"

interpretation notification_delivery_rows:
  row_store nd_id ds_deliveries find_delivery insert_delivery write_delivery
  by unfold_locales (simp_all add: find_delivery_def insert_delivery_def write_delivery_def)

definition due :: "datetime \<Rightarrow> notification_delivery \<Rightarrow> bool" where
  "due now d \<longleftrightarrow> nd_status d \<in> {delivery_status.pending, retry_scheduled} \<and>
     (case nd_next_retry_at d of None \<Rightarrow> False | Some t \<Rightarrow> t \<le> now)"

definition list_due :: "datetime \<Rightarrow> int \<Rightarrow> delivery_store \<Rightarrow> notification_delivery list" where
  "list_due now limit s =
     py_slice (sort_key (\<lambda>d. (the (nd_next_retry_at d), nd_created_at d))
       (filter (due now) (ds_deliveries s))) 0 limit"

definition admin_user_ids :: "delivery_store \<Rightarrow> uuid list" where
  "admin_user_ids s = map u_id
     (filter (\<lambda>u. u_role u = admin \<and> u_status u = user_status.active) (ds_users s))"

subsection \<open>The service\<close>

definition build_notification_delivery ::
  "uuid \<Rightarrow> channel_message \<Rightarrow> datetime \<Rightarrow> notification_delivery" where
  "build_notification_delivery k message now =
     \<lparr> nd_id = k, nd_channel = msg_channel message, nd_scenario = msg_scenario message,
       nd_receiver_id = msg_receiver_id message, nd_source_id = msg_source_id message,
       nd_payload = msg_payload message, nd_dedup_key = msg_dedup_key message,
       nd_status = delivery_status.pending, nd_attempt_count = 0,
       nd_max_attempts = notification_max_attempts, nd_last_error = None,
       nd_next_retry_at = Some now, nd_last_attempt_at = None, nd_delivered_at = None,
       nd_created_at = now, nd_updated_at = now \<rparr>"

definition message_from_delivery :: "notification_delivery \<Rightarrow> channel_message" where
  "message_from_delivery d =
     \<lparr> msg_channel = nd_channel d, msg_receiver_id = nd_receiver_id d,
       msg_scenario = nd_scenario d, msg_source_id = nd_source_id d,
       msg_payload = nd_payload d, msg_dedup_key = nd_dedup_key d \<rparr>"

definition is_finished :: "notification_delivery \<Rightarrow> bool" where
  "is_finished d \<longleftrightarrow> nd_status d \<in> {delivered, dead_letter}"

definition notification_retry_at :: "datetime \<Rightarrow> int \<Rightarrow> datetime" where
  "notification_retry_at now attempt_count =
     (if notification_retry_delays = [] then now
      else now + notification_retry_delays ! delay_index attempt_count notification_retry_delays)"

definition delivered_mark :: "datetime \<Rightarrow> notification_delivery \<Rightarrow> notification_delivery" where
  "delivered_mark now d =
     d\<lparr> nd_attempt_count := nd_attempt_count d + 1, nd_status := delivered,
        nd_last_error := None, nd_next_retry_at := None, nd_last_attempt_at := Some now,
        nd_delivered_at := Some now, nd_updated_at := now \<rparr>"

definition failed_mark ::
  "datetime \<Rightarrow> string \<Rightarrow> notification_delivery \<Rightarrow> notification_delivery" where
  "failed_mark now error_text d =
     (let d = d\<lparr> nd_attempt_count := nd_attempt_count d + 1, nd_last_error := Some error_text,
            nd_last_attempt_at := Some now, nd_delivered_at := None, nd_updated_at := now \<rparr>
      in if nd_max_attempts d \<le> nd_attempt_count d
         then d\<lparr>nd_status := dead_letter, nd_next_retry_at := None\<rparr>
         else d\<lparr>nd_status := retry_scheduled,
                nd_next_retry_at := Some (notification_retry_at now (nd_attempt_count d))\<rparr>)"

definition build_alert ::
  "uuid \<Rightarrow> uuid \<Rightarrow> notification_delivery \<Rightarrow> datetime \<Rightarrow> dead_letter_alert" where
  "build_alert k admin_id d now =
     \<lparr> al_id = k, al_receiver_id = admin_id, al_source_id = nd_id d,
       al_payload = [(''delivery_id'', PStr (str_uuid (nd_id d))),
         (''channel'', PStr (channel_text (nd_channel d))),
         (''scenario'', PStr (nd_scenario d)),
         (''receiver_id'', PStr (str_uuid (nd_receiver_id d))),
         (''last_error'', case nd_last_error d of None \<Rightarrow> PNone | Some t \<Rightarrow> PStr t),
         (''attempt_count'', PInt (nd_attempt_count d))],
       al_dedup_key = dead_letter_scenario @ '':'' @ str_uuid admin_id @ '':'' @ str_uuid (nd_id d),
       al_created_at = now \<rparr>"

fun build_alerts ::
  "uuid list \<Rightarrow> notification_delivery \<Rightarrow> datetime \<Rightarrow> uuid \<Rightarrow> dead_letter_alert list" where
  "build_alerts [] d now k = []"
| "build_alerts (a # as) d now k = build_alert k a d now # build_alerts as d now (Suc k)"

definition notify_admins ::
  "notification_delivery \<Rightarrow> datetime \<Rightarrow> delivery_store \<Rightarrow> delivery_store" where
  "notify_admins d now s =
     (let ids = admin_user_ids s
      in s\<lparr> ds_alerts := ds_alerts s @ build_alerts ids d now (ds_next_uuid s),
            ds_next_uuid := ds_next_uuid s + length ids \<rparr>)"

text \<open>The operations return the delivery and the number of readings and messages so far.\<close>

definition mark_notification_delivered ::
  "channel_world \<Rightarrow> nat \<Rightarrow> notification_delivery \<Rightarrow> delivery_store \<Rightarrow>
     notification_delivery \<times> nat \<times> delivery_store" where
  "mark_notification_delivered e n d s =
     (let d' = delivered_mark (reading_at e n) d
      in (d', Suc n, write_delivery (nd_id d) (\<lambda>_. d') s))"

definition mark_notification_failed ::
  "channel_world \<Rightarrow> nat \<Rightarrow> string \<Rightarrow> notification_delivery \<Rightarrow> delivery_store \<Rightarrow>
     notification_delivery \<times> nat \<times> delivery_store" where
  "mark_notification_failed e n error_text d s =
     (let now = reading_at e n;
          d' = failed_mark now error_text d;
          s' = write_delivery (nd_id d) (\<lambda>_. d') s
      in (d', Suc n, if nd_status d' = dead_letter then notify_admins d' now s' else s'))"

fun send_result :: "send_outcome \<Rightarrow> bool \<times> string option" where
  "send_result (SendResult success text) = (success, text)"
| "send_result SendTimedOut = (False, Some ''request timed out'')"
| "send_result (SendError text) = (False, Some text)"

text \<open>\<open>result.error or "channel returned failure"\<close>.\<close>

definition failure_text :: "string option \<Rightarrow> string" where
  "failure_text text =
     (case text of None \<Rightarrow> ''channel returned failure''
      | Some t \<Rightarrow> if t = [] then ''channel returned failure'' else t)"

definition attempt_notification ::
  "channel_world \<Rightarrow> (nat \<Rightarrow> channel_message \<Rightarrow> send_outcome) \<Rightarrow> nat \<Rightarrow> notification_delivery \<Rightarrow>
     delivery_store \<Rightarrow> notification_delivery \<times> nat \<times> delivery_store" where
  "attempt_notification e send n d s =
     (if is_finished d then (d, n, s)
      else let (success, text) = send_result (send n (message_from_delivery d))
           in if success then mark_notification_delivered e (Suc n) d s
              else mark_notification_failed e (Suc n) (failure_text text) d s)"

definition enqueue_and_attempt ::
  "channel_world \<Rightarrow> channel_message \<Rightarrow> (nat \<Rightarrow> channel_message \<Rightarrow> send_outcome) \<Rightarrow>
     delivery_store \<Rightarrow> notification_delivery \<times> delivery_store" where
  "enqueue_and_attempt e message send s =
     (let d = build_notification_delivery (ds_next_uuid s) message (reading_at e 0);
          s1 = insert_delivery d (s\<lparr>ds_next_uuid := Suc (ds_next_uuid s)\<rparr>);
          (d', n, s2) = attempt_notification e send 1 d s1
      in (d', s2))"

record process_counts =
  pc_processed :: int
  pc_delivered :: int
  pc_retry_scheduled :: int
  pc_dead_letter :: int

definition count_result :: "delivery_status \<Rightarrow> process_counts \<Rightarrow> process_counts" where
  "count_result status c =
     (let c = c\<lparr>pc_processed := pc_processed c + 1\<rparr>
      in case status of
           delivered \<Rightarrow> c\<lparr>pc_delivered := pc_delivered c + 1\<rparr>
         | retry_scheduled \<Rightarrow> c\<lparr>pc_retry_scheduled := pc_retry_scheduled c + 1\<rparr>
         | dead_letter \<Rightarrow> c\<lparr>pc_dead_letter := pc_dead_letter c + 1\<rparr>
         | delivery_status.pending \<Rightarrow> c)"

definition attempt_over_channel ::
  "channel_world \<Rightarrow> nat \<Rightarrow> notification_delivery \<Rightarrow> delivery_store \<Rightarrow>
     notification_delivery \<times> nat \<times> delivery_store" where
  "attempt_over_channel e n d s =
     (case send_at e (nd_channel d) of
        None \<Rightarrow> mark_notification_failed e n
          (channel_text (nd_channel d) @ '' channel is not configured'') d s
      | Some send \<Rightarrow> attempt_notification e send n d s)"

fun process_notifications ::
  "channel_world \<Rightarrow> notification_delivery list \<Rightarrow> nat \<Rightarrow> delivery_store \<Rightarrow> process_counts \<Rightarrow>
     process_counts \<times> delivery_store" where
  "process_notifications e [] n s c = (c, s)"
| "process_notifications e (d # ds) n s c =
     (let (d', n', s') = attempt_over_channel e n d s
      in process_notifications e ds n' s' (count_result (nd_status d') c))"

definition process_due_notifications ::
  "channel_world \<Rightarrow> int \<Rightarrow> delivery_store \<Rightarrow> process_counts \<times> delivery_store" where
  "process_due_notifications e limit s =
     process_notifications e (list_due (reading_at e 0) limit s) 1 s
       \<lparr> pc_processed = 0, pc_delivered = 0, pc_retry_scheduled = 0, pc_dead_letter = 0 \<rparr>"

subsection \<open>The queue\<close>

text \<open>What one attempt records: the instant and the failure text, if it failed.\<close>

definition recorded ::
  "datetime \<times> string option \<Rightarrow> notification_delivery \<Rightarrow> notification_delivery" where
  "recorded out d =
     (if is_finished d then d
      else case snd out of None \<Rightarrow> delivered_mark (fst out) d
           | Some text \<Rightarrow> failed_mark (fst out) text d)"

lemmas recorded_defs = recorded_def delivered_mark_def failed_mark_def is_finished_def Let_def

interpretation notification_queue: retry_queue is_finished nd_attempt_count nd_max_attempts recorded
  by unfold_locales (auto simp: recorded_defs split: prod.splits option.splits if_splits)

lemma recorded_id [simp]: "nd_id (recorded out d) = nd_id d"
  by (auto simp: recorded_defs split: option.splits)

definition store_after ::
  "notification_delivery \<Rightarrow> datetime \<times> string option \<Rightarrow> delivery_store \<Rightarrow> delivery_store" where
  "store_after d out s =
     (let s' = write_delivery (nd_id d) (\<lambda>_. recorded out d) s
      in if nd_status (recorded out d) = dead_letter then notify_admins (recorded out d) (fst out) s'
         else s')"

lemma attempt_over_channel_recorded:
  assumes "\<not> is_finished d"
  shows "\<exists>out n'. attempt_over_channel e n d s = (recorded out d, n', store_after d out s)"
proof -
  have ok: "mark_notification_delivered e k d s =
      (recorded (reading_at e k, None) d, Suc k, store_after d (reading_at e k, None) s)" for k
    using assms
    by (simp add: mark_notification_delivered_def recorded_def store_after_def Let_def
        delivered_mark_def)
  have failed: "mark_notification_failed e k t d s =
      (recorded (reading_at e k, Some t) d, Suc k, store_after d (reading_at e k, Some t) s)"
    for k t
    using assms by (simp add: mark_notification_failed_def recorded_def store_after_def Let_def)
  show ?thesis
    using assms
    by (cases "send_at e (nd_channel d)")
      (auto simp: attempt_over_channel_def attempt_notification_def ok failed split: prod.splits)
qed

end
