(* ===== verification/DeliveryQueue.thy ===== *)
theory DeliveryQueue
  imports Deliveries
begin

text \<open>
  The queue of notification deliveries as a state machine: which alerts a round of retries
  adds, and that no administrator is alerted twice about one delivery.
\<close>

inductive delivery_move :: "delivery_store \<Rightarrow> delivery_store \<Rightarrow> bool" where
  move_enqueue: "enqueue_and_attempt e message send s = (d, s') \<Longrightarrow> delivery_move s s'"
| move_process: "process_due_notifications e limit s = (c, s') \<Longrightarrow> delivery_move s s'"
| move_users: "distinct (map u_id us) \<Longrightarrow> delivery_move s (s\<lparr>ds_users := us\<rparr>)"

definition delivery_start :: "delivery_store \<Rightarrow> bool" where
  "delivery_start s \<longleftrightarrow> ds_deliveries s = [] \<and> ds_alerts s = [] \<and> distinct (map u_id (ds_users s))"

abbreviation delivery_reachable :: "delivery_store \<Rightarrow> bool" where
  "delivery_reachable \<equiv> reaches delivery_start delivery_move"

definition alert_pair :: "dead_letter_alert \<Rightarrow> uuid \<times> uuid" where
  "alert_pair a = (al_source_id a, al_receiver_id a)"

definition alert_pairs :: "delivery_store \<Rightarrow> (uuid \<times> uuid) list" where
  "alert_pairs s = map alert_pair (ds_alerts s)"

definition pairs_for :: "uuid list \<Rightarrow> notification_delivery \<Rightarrow> (uuid \<times> uuid) list" where
  "pairs_for admins d =
     (if nd_status d = dead_letter then map (Pair (nd_id d)) admins else [])"

definition notification_ok :: "notification_delivery \<Rightarrow> bool" where
  "notification_ok d \<longleftrightarrow> nd_max_attempts d = notification_max_attempts \<and>
     0 \<le> nd_attempt_count d \<and> nd_attempt_count d \<le> nd_max_attempts d \<and>
     (is_finished d \<or> nd_attempt_count d < nd_max_attempts d)"

definition deliveries_ok :: "delivery_store \<Rightarrow> bool" where
  "deliveries_ok s \<longleftrightarrow> distinct (map u_id (ds_users s)) \<and>
     distinct (map nd_id (ds_deliveries s)) \<and>
     (\<forall>d \<in> set (ds_deliveries s). nd_id d < ds_next_uuid s \<and> notification_ok d) \<and>
     distinct (alert_pairs s) \<and>
     (\<forall>p \<in> set (alert_pairs s). \<exists>d \<in> set (ds_deliveries s).
        nd_id d = fst p \<and> nd_status d = dead_letter)"

lemma recorded_ok: "notification_ok d \<Longrightarrow> notification_ok (recorded out d)"
  by (auto simp: notification_ok_def recorded_defs split: option.splits)

lemma build_alerts_pairs: "map alert_pair (build_alerts as d now k) = map (Pair (nd_id d)) as"
  by (induction as arbitrary: k) (simp_all add: build_alert_def alert_pair_def)

lemma admin_user_ids_distinct: "distinct (map u_id (ds_users s)) \<Longrightarrow> distinct (admin_user_ids s)"
  by (simp add: admin_user_ids_def distinct_map_filter)

lemma distinct_pairs_for: "distinct as \<Longrightarrow> distinct (pairs_for as d)"
  by (simp add: pairs_for_def distinct_map inj_on_def)

subsection \<open>One attempt\<close>

lemma store_after_rows:
  assumes "d \<in> set (ds_deliveries s)" and "distinct (map nd_id (ds_deliveries s))"
  shows "ds_deliveries (store_after d out s) =
      map (\<lambda>r. if r = d then recorded out d else r) (ds_deliveries s)"
    and "ds_users (store_after d out s) = ds_users s"
    and "ds_next_uuid s \<le> ds_next_uuid (store_after d out s)"
    and "alert_pairs (store_after d out s) =
      alert_pairs s @ pairs_for (admin_user_ids s) (recorded out d)"
proof -
  have rows: "update_rows nd_id (nd_id d) (\<lambda>_. recorded out d) (ds_deliveries s) =
      map (\<lambda>r. if r = d then recorded out d else r) (ds_deliveries s)"
    using assms by (auto simp: update_rows_def dest: distinct_key_eqD)
  have frame: "admin_user_ids (write_delivery k f s) = admin_user_ids s" for k f
    by (simp add: admin_user_ids_def write_delivery_def)
  show "ds_deliveries (store_after d out s) =
      map (\<lambda>r. if r = d then recorded out d else r) (ds_deliveries s)"
    "ds_users (store_after d out s) = ds_users s"
    "ds_next_uuid s \<le> ds_next_uuid (store_after d out s)"
    by (simp_all add: store_after_def notify_admins_def write_delivery_def Let_def rows)
  show "alert_pairs (store_after d out s) =
      alert_pairs s @ pairs_for (admin_user_ids s) (recorded out d)"
    by (simp add: store_after_def notify_admins_def Let_def alert_pairs_def pairs_for_def
        build_alerts_pairs frame) (simp add: write_delivery_def)
qed

subsection \<open>A round\<close>

lemma process_notifications_rows:
  assumes "process_notifications e ds n s c = (c', s')"
    and "distinct (map nd_id ds)" and "set ds \<subseteq> set (ds_deliveries s)"
    and "\<And>d. d \<in> set ds \<Longrightarrow> \<not> is_finished d" and "distinct (map nd_id (ds_deliveries s))"
  shows "\<exists>outs. ds_deliveries s' =
      map (\<lambda>d. if d \<in> set ds then recorded (outs (nd_id d)) d else d) (ds_deliveries s) \<and>
    ds_users s' = ds_users s \<and> ds_next_uuid s \<le> ds_next_uuid s' \<and>
    alert_pairs s' = alert_pairs s @
      concat (map (\<lambda>d. pairs_for (admin_user_ids s) (recorded (outs (nd_id d)) d)) ds) \<and>
    pc_processed c' = pc_processed c + int (length ds) \<and>
    pc_dead_letter c' = pc_dead_letter c +
      int (length (filter (\<lambda>d. nd_status (recorded (outs (nd_id d)) d) = dead_letter) ds))"
  using assms
proof (induction ds arbitrary: n s c)
  case Nil
  then show ?case by simp
next
  case (Cons d ds)
  have open_d: "\<not> is_finished d" and d_in: "d \<in> set (ds_deliveries s)"
    using Cons.prems(3,4) by simp_all
  obtain out n' where att: "attempt_over_channel e n d s = (recorded out d, n', store_after d out s)"
    using attempt_over_channel_recorded [OF open_d] by blast
  define s1 where "s1 = store_after d out s"
  define c1 where "c1 = count_result (nd_status (recorded out d)) c"
  note s1 = store_after_rows [OF d_in Cons.prems(5), of out, folded s1_def]
  have admins1: "admin_user_ids s1 = admin_user_ids s" by (simp add: admin_user_ids_def s1(2))
  have c1: "pc_processed c1 = pc_processed c + 1"
    "pc_dead_letter c1 = pc_dead_letter c + (if nd_status (recorded out d) = dead_letter then 1 else 0)"
    by (auto simp: c1_def count_result_def Let_def split: delivery_status.split)
  have rest: "process_notifications e ds n' s1 c1 = (c', s')"
    using Cons.prems(1) by (simp add: att s1_def c1_def)
  have ids1: "map nd_id (ds_deliveries s1) = map nd_id (ds_deliveries s)" by (simp add: s1(1))
  have "d \<notin> set ds" using Cons.prems(2) by auto
  have "set ds \<subseteq> set (ds_deliveries s1)" using Cons.prems(3) \<open>d \<notin> set ds\<close> by (auto simp: s1(1))
  then obtain outs where rows: "ds_deliveries s' =
      map (\<lambda>d. if d \<in> set ds then recorded (outs (nd_id d)) d else d) (ds_deliveries s1)"
    and frame: "ds_users s' = ds_users s1" "ds_next_uuid s1 \<le> ds_next_uuid s'"
    and pairs: "alert_pairs s' = alert_pairs s1 @
      concat (map (\<lambda>d. pairs_for (admin_user_ids s1) (recorded (outs (nd_id d)) d)) ds)"
    and counts: "pc_processed c' = pc_processed c1 + int (length ds)"
      "pc_dead_letter c' = pc_dead_letter c1 +
        int (length (filter (\<lambda>d. nd_status (recorded (outs (nd_id d)) d) = dead_letter) ds))"
    using Cons.IH [OF rest] Cons.prems(2,4,5) unfolding ids1 by auto
  define outs' where "outs' = outs(nd_id d := out)"
  have other: "nd_id r \<noteq> nd_id d" if "r \<in> set ds" for r
    using imageI [OF that, of nd_id] Cons.prems(2) by auto
  then have outs': "outs' (nd_id r) = outs (nd_id r)" if "r \<in> set ds" for r
    using that by (simp add: outs'_def)
  have new: "recorded out d \<notin> set ds" using other by (metis recorded_id)
  have "ds_deliveries s' = map (\<lambda>r. if r \<in> set (d # ds) then recorded (outs' (nd_id r)) r else r)
      (ds_deliveries s)"
    unfolding rows s1(1) using new other by (auto simp: outs'_def)
  moreover have "concat (map (\<lambda>r. pairs_for (admin_user_ids s) (recorded (outs (nd_id r)) r)) ds) =
      concat (map (\<lambda>r. pairs_for (admin_user_ids s) (recorded (outs' (nd_id r)) r)) ds)"
    using outs' by (intro arg_cong [where f = concat]) simp
  moreover have "filter (\<lambda>r. nd_status (recorded (outs (nd_id r)) r) = dead_letter) ds =
      filter (\<lambda>r. nd_status (recorded (outs' (nd_id r)) r) = dead_letter) ds"
    using outs' by (intro filter_cong) simp_all
  moreover have "outs' (nd_id d) = out" by (simp add: outs'_def)
  ultimately show ?case
    using frame pairs counts s1(2,3,4) c1 by (intro exI [of _ outs']) (simp add: admins1)
qed

lemma list_due_rows:
  assumes "distinct (map nd_id (ds_deliveries s))"
  shows "distinct (map nd_id (list_due now limit s))"
    and "set (list_due now limit s) \<subseteq> set (ds_deliveries s)"
    and "d \<in> set (list_due now limit s) \<Longrightarrow> \<not> is_finished d"
proof -
  have "distinct (map nd_id (sort_key f (filter P (ds_deliveries s))))"
    for f :: "notification_delivery \<Rightarrow> datetime \<times> datetime" and P
    using assms by (simp add: distinct_map inj_on_def)
  then show "distinct (map nd_id (list_due now limit s))"
    unfolding list_due_def by (rule py_slice_distinct)
  have sub: "set (list_due now limit s) \<subseteq> {d \<in> set (ds_deliveries s). due now d}"
    unfolding list_due_def by (rule order_trans [OF set_py_slice]) auto
  then show "set (list_due now limit s) \<subseteq> set (ds_deliveries s)" by blast
  show "\<not> is_finished d" if "d \<in> set (list_due now limit s)"
    using sub that by (auto simp: due_def is_finished_def)
qed

lemma process_due_notifications_rows:
  assumes "process_due_notifications e limit s = (c, s')"
    and "distinct (map nd_id (ds_deliveries s))" and "ds = list_due (reading_at e 0) limit s"
  shows "\<exists>outs. ds_deliveries s' =
      map (\<lambda>d. if d \<in> set ds then recorded (outs (nd_id d)) d else d) (ds_deliveries s) \<and>
    ds_users s' = ds_users s \<and> ds_next_uuid s \<le> ds_next_uuid s' \<and>
    alert_pairs s' = alert_pairs s @
      concat (map (\<lambda>d. pairs_for (admin_user_ids s) (recorded (outs (nd_id d)) d)) ds) \<and>
    pc_processed c = int (length ds) \<and>
    pc_dead_letter c =
      int (length (filter (\<lambda>d. nd_status (recorded (outs (nd_id d)) d) = dead_letter) ds))"
proof -
  have run: "process_notifications e ds 1 s \<lparr> pc_processed = 0, pc_delivered = 0,
      pc_retry_scheduled = 0, pc_dead_letter = 0 \<rparr> = (c, s')"
    using assms(1) by (simp add: process_due_notifications_def assms(3))
  have "distinct (map nd_id ds)" and "set ds \<subseteq> set (ds_deliveries s)"
    and "\<And>d. d \<in> set ds \<Longrightarrow> \<not> is_finished d"
    unfolding assms(3) by (rule list_due_rows [OF assms(2)], assumption?)+
  from process_notifications_rows [OF run this assms(2)] show ?thesis by simp
qed

lemma finished_rows_stay:
  assumes "\<And>d. d \<in> set ds \<Longrightarrow> \<not> is_finished d" and "is_finished q" and "q \<in> set rows"
  shows "q \<in> set (map (\<lambda>d. if d \<in> set ds then f d else d) rows)"
  using assms by (auto intro!: image_eqI [of q _ q])

text \<open>
  The alerts of a round: their pairs are new, since an open delivery has none, and they are
  distinct, since each delivery is attempted once.
\<close>

lemma pairs_of_attempts:
  assumes "distinct (map nd_id ds)" and "distinct as" and "\<And>d. nd_id (f d) = nd_id d"
  shows "distinct (concat (map (\<lambda>d. pairs_for as (f d)) ds))"
    and "set (concat (map (\<lambda>d. pairs_for as (f d)) ds)) =
      {(nd_id d, a) | d a. d \<in> set ds \<and> nd_status (f d) = dead_letter \<and> a \<in> set as}"
proof -
  show s: "set (concat (map (\<lambda>d. pairs_for as (f d)) ds)) =
      {(nd_id d, a) | d a. d \<in> set ds \<and> nd_status (f d) = dead_letter \<and> a \<in> set as}" for ds
    using assms(3) by (auto simp: pairs_for_def split: if_splits)
  show "distinct (concat (map (\<lambda>d. pairs_for as (f d)) ds))"
    using assms(1)
  proof (induction ds)
    case (Cons d ds)
    have "set (pairs_for as (f d)) \<inter> set (concat (map (\<lambda>d. pairs_for as (f d)) ds)) = {}"
      unfolding s using Cons.prems assms(3) by (auto simp: pairs_for_def)
    with Cons show ?case by (simp add: distinct_pairs_for assms(2))
  qed simp
qed

lemma deliveries_ok_step:
  assumes ok: "deliveries_ok s"
    and ds: "distinct (map nd_id ds)" "set ds \<subseteq> set (ds_deliveries s)"
      "\<And>d. d \<in> set ds \<Longrightarrow> \<not> is_finished d"
    and rows: "ds_deliveries s' =
      map (\<lambda>d. if d \<in> set ds then recorded (outs (nd_id d)) d else d) (ds_deliveries s)"
    and frame: "ds_users s' = ds_users s" "ds_next_uuid s \<le> ds_next_uuid s'"
    and pairs: "alert_pairs s' = alert_pairs s @
      concat (map (\<lambda>d. pairs_for (admin_user_ids s) (recorded (outs (nd_id d)) d)) ds)"
  shows "deliveries_ok s'"
proof -
  let ?f = "\<lambda>d. recorded (outs (nd_id d)) d"
  let ?new = "concat (map (\<lambda>d. pairs_for (admin_user_ids s) (?f d)) ds)"
  have admins: "distinct (admin_user_ids s)"
    using ok by (auto simp: deliveries_ok_def intro: admin_user_ids_distinct)
  note new = pairs_of_attempts [where f = ?f, OF ds(1) admins recorded_id]
  have ids: "map nd_id (ds_deliveries s') = map nd_id (ds_deliveries s)" by (simp add: rows)
  have alerted: "\<exists>d \<in> set (ds_deliveries s). nd_id d = fst p \<and> nd_status d = dead_letter"
    if "p \<in> set (alert_pairs s)" for p
    using ok that by (simp add: deliveries_ok_def)
  have "p \<notin> set ?new" if p: "p \<in> set (alert_pairs s)" for p
  proof
    assume "p \<in> set ?new"
    then obtain d where "d \<in> set ds" "nd_id d = fst p" unfolding new(2) by auto
    moreover obtain q where "q \<in> set (ds_deliveries s)" "nd_id q = fst p" "nd_status q = dead_letter"
      using alerted [OF p] by blast
    moreover have "distinct (map nd_id (ds_deliveries s))" using ok by (simp add: deliveries_ok_def)
    ultimately have "d = q" using ds(2) by (metis distinct_key_eqD subsetD)
    with \<open>d \<in> set ds\<close> \<open>nd_status q = dead_letter\<close> ds(3) show False
      by (auto simp: is_finished_def)
  qed
  then have dist: "distinct (alert_pairs s')"
    using ok new(1) by (auto simp: pairs deliveries_ok_def)
  have dead: "\<exists>d \<in> set (ds_deliveries s'). nd_id d = fst p \<and> nd_status d = dead_letter"
    if "p \<in> set (alert_pairs s')" for p
  proof (cases "p \<in> set (alert_pairs s)")
    case True
    then obtain q where "q \<in> set (ds_deliveries s)" "nd_id q = fst p" "nd_status q = dead_letter"
      using alerted by blast
    moreover have "q \<in> set (ds_deliveries s')"
      unfolding rows by (rule finished_rows_stay [OF ds(3)])
        (simp_all add: is_finished_def \<open>nd_status q = _\<close> \<open>q \<in> _\<close>)
    ultimately show ?thesis by blast
  next
    case False
    then have "p \<in> set ?new" using that by (simp add: pairs)
    then obtain d where d: "d \<in> set ds" "nd_id d = fst p" "nd_status (?f d) = dead_letter"
      unfolding new(2) by auto
    then have "?f d \<in> set (ds_deliveries s')"
      unfolding rows set_map using ds(2) by (intro image_eqI [of _ _ d]) auto
    then show ?thesis using d by (intro bexI [of _ "?f d"]) simp_all
  qed
  have row_ok: "nd_id d < ds_next_uuid s' \<and> notification_ok d" if mem: "d \<in> set (ds_deliveries s')" for d
  proof -
    from mem obtain q where "q \<in> set (ds_deliveries s)" "d = (if q \<in> set ds then ?f q else q)"
      unfolding rows set_map by (elim imageE) blast
    then show ?thesis using ok frame(2) by (fastforce simp: deliveries_ok_def intro: recorded_ok)
  qed
  show ?thesis
    using ok dist dead row_ok by (simp add: deliveries_ok_def frame(1) ids)
qed

lemma process_ok:
  assumes "process_due_notifications e limit s = (c, s')" and "deliveries_ok s"
  shows "deliveries_ok s'"
proof -
  have ids: "distinct (map nd_id (ds_deliveries s))" using assms(2) by (simp add: deliveries_ok_def)
  from process_due_notifications_rows [OF assms(1) ids refl] show ?thesis
    by (elim exE conjE) (rule deliveries_ok_step [OF assms(2) list_due_rows [OF ids]])
qed

lemma enqueue_and_attempt_ok:
  assumes "enqueue_and_attempt e message send s = (d, s')" and "deliveries_ok s"
  shows "deliveries_ok s'"
proof -
  define d0 where "d0 = build_notification_delivery (ds_next_uuid s) message (reading_at e 0)"
  define s1 where "s1 = insert_delivery d0 (s\<lparr>ds_next_uuid := Suc (ds_next_uuid s)\<rparr>)"
  have d0: "\<not> is_finished d0" "nd_id d0 = ds_next_uuid s" "notification_ok d0"
    by (simp_all add: d0_def build_notification_delivery_def is_finished_def notification_ok_def
        notification_max_attempts_def)
  have old: "nd_id q < ds_next_uuid s" if "q \<in> set (ds_deliveries s)" for q
    using that assms(2) by (simp add: deliveries_ok_def)
  have s1: "ds_deliveries s1 = ds_deliveries s @ [d0]" "alert_pairs s1 = alert_pairs s"
    "ds_users s1 = ds_users s" "ds_next_uuid s1 = Suc (ds_next_uuid s)"
    by (simp_all add: s1_def insert_delivery_def alert_pairs_def)
  have ok1: "deliveries_ok s1"
    using assms(2) old d0 by (fastforce simp: deliveries_ok_def s1)
  have ids: "distinct (map nd_id (ds_deliveries s1))" using ok1 by (simp add: deliveries_ok_def)
  have mem: "d0 \<in> set (ds_deliveries s1)" by (simp add: s1)
  define e1 where "e1 = e\<lparr>send_at := \<lambda>c. Some send\<rparr>"
  have "attempt_notification e send 1 d0 s1 = attempt_over_channel e1 1 d0 s1"
    by (simp add: attempt_over_channel_def attempt_notification_def e1_def
        mark_notification_delivered_def mark_notification_failed_def split: prod.split)
  then obtain out where "s' = store_after d0 out s1"
    using assms(1) attempt_over_channel_recorded [OF d0(1), of e1 1 s1]
    by (auto simp: enqueue_and_attempt_def Let_def d0_def [symmetric] s1_def [symmetric])
  note rows = store_after_rows [OF mem ids, of out, folded this]
  show ?thesis
  proof (rule deliveries_ok_step [OF ok1, of "[d0]" _ "\<lambda>_. out"])
    show "ds_deliveries s' =
        map (\<lambda>d. if d \<in> set [d0] then recorded out d else d) (ds_deliveries s1)"
      using rows(1) by simp
  qed (use rows mem d0 in simp_all)
qed

interpretation delivery_inv: invariant delivery_start delivery_move "\<lambda>_. True" deliveries_ok
proof
  show "deliveries_ok s" if "delivery_start s" for s
    using that by (simp add: delivery_start_def deliveries_ok_def alert_pairs_def)
  show "deliveries_ok s'" if "deliveries_ok s" "delivery_move s s'" for s s'
    using that(2)
  proof cases
    case (move_users us)
    then show ?thesis using that(1) by (simp add: deliveries_ok_def alert_pairs_def)
  qed (use that(1) in \<open>blast intro: enqueue_and_attempt_ok process_ok\<close>)+
qed simp

text \<open>
  What a round does: each administrator is alerted once about each delivery that this round
  gave up, about no other, and the counts say how many.
\<close>

definition dead_letters :: "delivery_store \<Rightarrow> uuid set" where
  "dead_letters s = nd_id ` {d \<in> set (ds_deliveries s). nd_status d = dead_letter}"

lemma keys_of_image:
  assumes "\<And>d. k (g d) = k d"
  shows "k ` {x \<in> g ` A. P x} = k ` {d \<in> A. P (g d)}"
proof -
  have "{x \<in> g ` A. P x} = g ` {d \<in> A. P (g d)}" by blast
  then show ?thesis using assms by (simp add: image_image)
qed

lemma round_alerts:
  assumes "deliveries_ok s" and "process_due_notifications e limit s = (c, s')"
  shows "\<exists>new. alert_pairs s' = alert_pairs s @ new \<and>
    set new = (dead_letters s' - dead_letters s) \<times> set (admin_user_ids s) \<and>
    pc_dead_letter c = int (card (dead_letters s' - dead_letters s))"
proof -
  define ds where "ds = list_due (reading_at e 0) limit s"
  have ids: "distinct (map nd_id (ds_deliveries s))"
    and admins: "distinct (admin_user_ids s)"
    using assms(1) by (simp_all add: deliveries_ok_def admin_user_ids_distinct)
  note due = list_due_rows [OF ids, where now = "reading_at e 0" and limit = limit, folded ds_def]
  obtain outs where rows: "ds_deliveries s' =
      map (\<lambda>d. if d \<in> set ds then recorded (outs (nd_id d)) d else d) (ds_deliveries s)"
    and pairs: "alert_pairs s' = alert_pairs s @
      concat (map (\<lambda>d. pairs_for (admin_user_ids s) (recorded (outs (nd_id d)) d)) ds)"
    and dead: "pc_dead_letter c =
      int (length (filter (\<lambda>d. nd_status (recorded (outs (nd_id d)) d) = dead_letter) ds))"
    using process_due_notifications_rows [OF assms(2) ids ds_def] by blast
  let ?f = "\<lambda>d. recorded (outs (nd_id d)) d"
  let ?given_up = "filter (\<lambda>d. nd_status (?f d) = dead_letter) ds"
  have "nd_id d \<notin> dead_letters s" if "d \<in> set ds" for d
  proof
    assume "nd_id d \<in> dead_letters s"
    then obtain q where q: "q \<in> set (ds_deliveries s)" "nd_id q = nd_id d" "nd_status q = dead_letter"
      by (auto simp: dead_letters_def)
    then have "q = d" using that due(2) ids by (metis distinct_key_eqD subsetD)
    with q that due(3) show False by (auto simp: is_finished_def)
  qed
  moreover have "dead_letters s' = dead_letters s \<union> nd_id ` set ?given_up"
  proof -
    have "dead_letters s' = nd_id ` {d \<in> set (ds_deliveries s).
        nd_status (if d \<in> set ds then ?f d else d) = dead_letter}"
      unfolding dead_letters_def rows set_map by (rule keys_of_image) simp
    also have "{d \<in> set (ds_deliveries s). nd_status (if d \<in> set ds then ?f d else d) = dead_letter} =
        {d \<in> set (ds_deliveries s). nd_status d = dead_letter} \<union> set ?given_up"
      using due(2,3) by (auto simp: is_finished_def split: if_splits)
    finally show ?thesis by (simp add: dead_letters_def image_Un)
  qed
  ultimately have new_dead: "dead_letters s' - dead_letters s = nd_id ` set ?given_up" by auto
  have "distinct (map nd_id ?given_up)" using due(1) by (simp add: distinct_map_filter)
  from distinct_card [OF this]
  have card: "card (dead_letters s' - dead_letters s) = length ?given_up"
    unfolding new_dead by (simp only: set_map length_map)
  have new: "set (concat (map (\<lambda>d. pairs_for (admin_user_ids s) (?f d)) ds)) =
      (dead_letters s' - dead_letters s) \<times> set (admin_user_ids s)"
    unfolding new_dead pairs_of_attempts(2) [where f = ?f, OF due(1) admins recorded_id]
      set_filter by blast
  show ?thesis by (intro exI conjI) (rule pairs, rule new, simp only: dead card)
qed

end
