(* ===== verification/Messaging.thy ===== *)
theory Messaging
  imports WebhookQueue DeliveryQueue
begin

text \<open>
  What the two delivery queues promise: webhook deliveries come to an end, and a notification
  that could not be delivered is reported to every administrator once.
\<close>

section \<open>Webhooks\<close>

text \<open>A receiver that is down, and a clock that stands still during a round.\<close>

definition down_at :: "datetime \<Rightarrow> outside" where
  "down_at t = \<lparr> now_at = \<lambda>_. t, post_at = \<lambda>_ _. Responded 503 ''down'', hmac_sha256 = \<lambda>k m. k @ m \<rparr>"

definition webhooks0 :: webhook_store where
  "webhooks0 = \<lparr> wh_endpoints = [], wh_deliveries = [], wh_next_uuid = 0 \<rparr>"

definition webhooks1 :: webhook_store where
  "webhooks1 = \<lparr> wh_endpoints =
     [\<lparr> we_id = 0, we_name = ''erp'', we_url = ''https://erp.example/hook'', we_secret = ''s'',
        we_event_types = [''payment.created''], we_is_active = True, we_created_by_id = 7,
        we_created_at = 5, we_updated_at = 5 \<rparr>], wh_deliveries = [], wh_next_uuid = 1 \<rparr>"

definition webhooks2 :: webhook_store where
  "webhooks2 = snd (enqueue_event (down_at 9) payment_created ''31'' [(''amount'', PMoney 2500)] webhooks1)"

lemma webhooks2_reachable: "webhook_reachable webhooks2"
proof -
  have 0: "webhook_reachable webhooks0"
    by (rule reaches_init) (simp add: webhook_start_def webhooks0_def)
  have "\<exists>r. create_endpoint (down_at 5) 7 '' erp '' ''https://erp.example/hook'' ''s''
      [''payment.created'', ''payment.created'', ''x''] webhooks0 = Inr (r, webhooks1)"
  proof
    show "create_endpoint (down_at 5) 7 '' erp '' ''https://erp.example/hook'' ''s''
      [''payment.created'', ''payment.created'', ''x''] webhooks0 = Inr (hd (wh_endpoints webhooks1), webhooks1)"
      by code_simp
  qed
  then have "webhook_reachable webhooks1" by (blast intro: reaches_move [OF 0] move_create_endpoint)
  moreover have "webhook_move webhooks1 webhooks2"
    by (rule move_enqueue_event, unfold webhooks2_def, rule prod.collapse [symmetric])
  ultimately show ?thesis by (rule reaches_move)
qed




text \<open>
  C31: The retry discipline of webhooks: in every reachable store a delivery has used at most six
  attempts, it is open exactly while it is scheduled, an open one has attempts left, and it
  belongs to an endpoint with an http or https address, a secret and known events.
\<close>
theorem webhook_retry_discipline:
  assumes "webhook_reachable s" and "d \<in> set (wh_deliveries s)"
  shows "0 \<le> wd_attempt_count d \<and> wd_attempt_count d \<le> 6 \<and>
    (finished d = (wd_next_retry_at d = None)) \<and> (finished d \<or> wd_attempt_count d < 6) \<and>
    (\<exists>r. get_endpoint (wd_endpoint_id d) s = Some r \<and> endpoint_ok r)"
proof -
  have ok: "webhooks_ok s" by (rule webhook_inv.reachable_inv [OF assms(1)])
  then have d: "delivery_ok d" and ref: "wd_endpoint_id d \<in> we_id ` set (wh_endpoints s)"
    using assms(2) by (simp_all add: webhooks_ok_def)
  obtain r where r: "get_endpoint (wd_endpoint_id d) s = Some r"
    using ref endpoint_rows.get_None_iff by (metis option.exhaust)
  then have "endpoint_ok r"
    using ok endpoint_rows.get_SomeD [OF r] by (simp add: webhooks_ok_def)
  with d r show ?thesis by (auto simp: delivery_ok_def webhook_max_attempts_def)
qed

lemma webhook_retry_discipline_witness:
  "\<exists>d. d \<in> set (wh_deliveries webhooks2) \<and> wd_attempt_count d \<le> 6 \<and>
     (\<exists>r. get_endpoint (wd_endpoint_id d) webhooks2 = Some r \<and> endpoint_ok r)"
proof -
  have "wh_deliveries webhooks2 \<noteq> []" by code_simp
  then have "hd (wh_deliveries webhooks2) \<in> set (wh_deliveries webhooks2)" by simp
  with webhook_retry_discipline [OF webhooks2_reachable this] show ?thesis by blast
qed

section \<open>Notifications over external channels\<close>

definition dead_world :: "datetime \<Rightarrow> channel_world" where
  "dead_world t = \<lparr> reading_at = \<lambda>_. t, send_at = \<lambda>_. None \<rparr>"

definition some_message :: channel_message where
  "some_message = \<lparr> msg_channel = email, msg_receiver_id = 4, msg_scenario = ''task_assigned'',
     msg_source_id = 12, msg_payload = [], msg_dedup_key = (''task_assigned'', 4, 12, Date 2026 1 5) \<rparr>"

definition two_admins :: "user list" where
  "two_admins =
     [\<lparr> u_id = 1, u_username = ''root'', u_role = admin, u_dept_id = None,
        u_status = user_status.active, u_timezone = ''UTC'' \<rparr>,
      \<lparr> u_id = 2, u_username = ''ops'', u_role = admin, u_dept_id = None,
        u_status = user_status.active, u_timezone = ''UTC'' \<rparr>]"

definition deliveries0 :: delivery_store where
  "deliveries0 = \<lparr> ds_users = two_admins, ds_deliveries = [], ds_alerts = [], ds_next_uuid = 10 \<rparr>"

definition deliveries1 :: delivery_store where
  "deliveries1 = snd (enqueue_and_attempt (dead_world 0) some_message
     (\<lambda>_ _. SendTimedOut) deliveries0)"

definition deliveries2 :: delivery_store where
  "deliveries2 = snd (process_due_notifications (dead_world 1000000000) 100 deliveries1)"

definition deliveries3 :: delivery_store where
  "deliveries3 = snd (process_due_notifications (dead_world 2000000000) 100 deliveries2)"

lemma deliveries2_reachable: "delivery_reachable deliveries2"
proof -
  have "delivery_reachable deliveries0"
    by (rule reaches_init) (simp add: delivery_start_def deliveries0_def two_admins_def)
  moreover have "delivery_move deliveries0 deliveries1"
    by (rule move_enqueue, unfold deliveries1_def, rule prod.collapse [symmetric])
  ultimately have "delivery_reachable deliveries1" by (rule reaches_move)
  moreover have "delivery_move deliveries1 deliveries2"
    by (rule move_process, unfold deliveries2_def, rule prod.collapse [symmetric])
  ultimately show ?thesis by (rule reaches_move)
qed

text \<open>
  C32: A notification that is given up is reported: a round of retries in a reachable store adds
  one alert for each active administrator and each delivery that became a dead letter in this
  round, no other, and counts these deliveries; no administrator is ever alerted twice about
  one delivery.
\<close>
theorem dead_letters_are_reported_once:
  assumes "delivery_reachable s" and "process_due_notifications e limit s = (c, s')"
  shows "distinct (alert_pairs s') \<and>
    (\<exists>new. alert_pairs s' = alert_pairs s @ new \<and>
      set new = (dead_letters s' - dead_letters s) \<times> set (admin_user_ids s) \<and>
      pc_dead_letter c = int (card (dead_letters s' - dead_letters s)))"
proof -
  have ok: "deliveries_ok s" by (rule delivery_inv.reachable_inv [OF assms(1)])
  from process_ok [OF assms(2) ok] have "distinct (alert_pairs s')" by (simp add: deliveries_ok_def)
  with round_alerts [OF ok assms(2)] show ?thesis by blast
qed

lemma dead_letters_are_reported_once_witness:
  "distinct (alert_pairs deliveries3) \<and> alert_pairs deliveries3 = [(10, 1), (10, 2)]"
proof -
  have "process_due_notifications (dead_world 2000000000) 100 deliveries2 =
      (fst (process_due_notifications (dead_world 2000000000) 100 deliveries2), deliveries3)"
    unfolding deliveries3_def by simp
  from dead_letters_are_reported_once [OF deliveries2_reachable this]
  have "distinct (alert_pairs deliveries3)" ..
  moreover have "alert_pairs deliveries3 = [(10, 1), (10, 2)]" by code_simp
  ultimately show ?thesis ..
qed

end
