(* ===== verification/ReportDatasets.thy ===== *)
theory ReportDatasets
  imports Database
begin

text \<open>
  The datasets of custom reports (\<open>app/services/report_datasets.py\<close>,
  \<open>app/schemas/custom_reports.py\<close>): tables and joins, fields with the filters and aggregates
  they allow, and the columns that restrict a dataset to an actor.  Expressions are terms; what
  the tables and joins select from the database is defined beside them.  Labels that are
  Chinese in the source are given in English.
\<close>

subsection \<open>Enumerations\<close>

datatype field_type =
  type_uuid | type_string | type_number | type_date | type_datetime | type_enum | type_boolean

datatype filter_operator =
    op_eq | op_ne | op_in | op_not_in | op_contains | op_starts_with | op_gt | op_gte | op_lt
  | op_lte | op_between | op_is_null | op_is_not_null

datatype aggregate = agg_count | agg_count_distinct | agg_sum | agg_avg | agg_min | agg_max

datatype sort_direction = sort_asc | sort_desc

fun operator_value :: "filter_operator \<Rightarrow> string" where
  "operator_value op_eq = ''eq''"
| "operator_value op_ne = ''ne''"
| "operator_value op_in = ''in''"
| "operator_value op_not_in = ''not_in''"
| "operator_value op_contains = ''contains''"
| "operator_value op_starts_with = ''starts_with''"
| "operator_value op_gt = ''gt''"
| "operator_value op_gte = ''gte''"
| "operator_value op_lt = ''lt''"
| "operator_value op_lte = ''lte''"
| "operator_value op_between = ''between''"
| "operator_value op_is_null = ''is_null''"
| "operator_value op_is_not_null = ''is_not_null''"

fun aggregate_value :: "aggregate \<Rightarrow> string" where
  "aggregate_value agg_count = ''count''"
| "aggregate_value agg_count_distinct = ''count_distinct''"
| "aggregate_value agg_sum = ''sum''"
| "aggregate_value agg_avg = ''avg''"
| "aggregate_value agg_min = ''min''"
| "aggregate_value agg_max = ''max''"

subsection \<open>Expressions\<close>

datatype source_table = main_table | sub_table | payments_table | tasks_table | documents_table

type_synonym column = "source_table \<times> string"

text \<open>
  Columns, the \<open>case\<close> expression of the risk dataset, the cycle time of a project, and the
  aggregate functions.
\<close>

datatype sql_expr =
    Column column
  | CaseGreater column column pyval pyval
  | CycleDays column column column
  | Aggregated aggregate sql_expr

datatype sql_predicate =
    EqualsLiteral sql_expr string
  | IsNull sql_expr
  | IsNotNull sql_expr
  | InParameter sql_expr string
  | NotInParameter sql_expr string
  | BetweenParameters sql_expr string string
  | ILikeParameter sql_expr string
  | CompareParameter filter_operator sql_expr string
  | MemberExists column
  | ManagedOrMember column column
  | OwnedSubProjectExists column

datatype from_clause =
    Table source_table
  | Join from_clause source_table column column

record dataset_field =
  df_key :: string
  df_label :: string
  df_type :: field_type
  df_expression :: sql_expr
  df_filter_ops :: "filter_operator list"
  df_aggregates :: "aggregate list"

record dataset =
  ds_key :: string
  ds_label :: string
  ds_description :: string
  ds_default_scope :: string
  ds_from_clause :: from_clause
  ds_default_predicates :: "sql_predicate list"
  ds_scope_sub_project_id :: "column option"
  ds_scope_main_project_id :: "column option"
  ds_scope_manager_id :: "column option"
  ds_fields :: "dataset_field list"

subsection \<open>Looking fields up\<close>

definition require_field :: "dataset \<Rightarrow> string \<Rightarrow> py_error + dataset_field" where
  "require_field d key =
     present (find_row df_key key (ds_fields d))
       (ValidationFailed ''Report field is not registered'' [(''field'', PStr key)])"

definition require_metric :: "dataset \<Rightarrow> string \<Rightarrow> aggregate \<Rightarrow> py_error + dataset_field" where
  "require_metric d key aggr =
     attempt (require_field d key) (\<lambda>field.
     attempt (guard (aggr \<in> set (df_aggregates field))
       (ValidationFailed ''The field does not support this aggregate''
         [(''field'', PStr key), (''aggregate'', PStr (aggregate_value aggr))])) (\<lambda>_.
     Inr field))"

definition require_filter :: "dataset \<Rightarrow> string \<Rightarrow> filter_operator \<Rightarrow> py_error + dataset_field" where
  "require_filter d key operator =
     attempt (require_field d key) (\<lambda>field.
     attempt (guard (operator \<in> set (df_filter_ops field))
       (ValidationFailed ''The field does not support this filter operator''
         [(''field'', PStr key), (''operator'', PStr (operator_value operator))])) (\<lambda>_.
     Inr field))"

definition registry_keys :: "dataset list \<Rightarrow> string list" where
  "registry_keys registry = sort (remdups (map ds_key registry))"

definition require_dataset :: "dataset list \<Rightarrow> string \<Rightarrow> py_error + dataset" where
  "require_dataset registry key =
     present (find_row ds_key key (rev registry))
       (ValidationFailed ''Report dataset is not registered'' [(''dataset'', PStr key)])"

subsection \<open>The registry\<close>

definition text_filters :: "filter_operator list" where
  "text_filters =
     [op_eq, op_ne, op_in, op_not_in, op_contains, op_starts_with, op_is_null, op_is_not_null]"

definition enum_filters :: "filter_operator list" where
  "enum_filters = [op_eq, op_ne, op_in, op_not_in]"

definition id_filters :: "filter_operator list" where
  "id_filters = [op_eq, op_ne, op_in, op_not_in, op_is_null, op_is_not_null]"

definition number_filters :: "filter_operator list" where
  "number_filters =
     [op_eq, op_ne, op_gt, op_gte, op_lt, op_lte, op_between, op_is_null, op_is_not_null]"

definition date_filters :: "filter_operator list" where
  "date_filters =
     [op_eq, op_ne, op_gt, op_gte, op_lt, op_lte, op_between, op_is_null, op_is_not_null]"

definition count_aggregates :: "aggregate list" where
  "count_aggregates = [agg_count, agg_count_distinct]"

definition number_aggregates :: "aggregate list" where
  "number_aggregates = [agg_count, agg_count_distinct, agg_sum, agg_avg, agg_min, agg_max]"

definition dataset_field_of ::
  "string \<Rightarrow> string \<Rightarrow> field_type \<Rightarrow> sql_expr \<Rightarrow> filter_operator list \<Rightarrow> aggregate list \<Rightarrow>
     dataset_field" where
  "dataset_field_of key label t expression ops aggs =
     \<lparr> df_key = key, df_label = label, df_type = t, df_expression = expression,
       df_filter_ops = ops, df_aggregates = aggs \<rparr>"

abbreviation main_c :: "string \<Rightarrow> sql_expr" where "main_c name \<equiv> Column (main_table, name)"
abbreviation sub_c :: "string \<Rightarrow> sql_expr" where "sub_c name \<equiv> Column (sub_table, name)"
abbreviation payments_c :: "string \<Rightarrow> sql_expr" where "payments_c name \<equiv> Column (payments_table, name)"
abbreviation tasks_c :: "string \<Rightarrow> sql_expr" where "tasks_c name \<equiv> Column (tasks_table, name)"
abbreviation documents_c :: "string \<Rightarrow> sql_expr" where "documents_c name \<equiv> Column (documents_table, name)"

text \<open>\<open>x.join(sub, x.sub_project_id == sub.id).join(main, sub.main_project_id == main.id)\<close>.\<close>

definition sub_join_main :: from_clause where
  "sub_join_main =
     Join (Table sub_table) main_table (sub_table, ''main_project_id'') (main_table, ''id'')"

definition joined_to_projects :: "source_table \<Rightarrow> from_clause" where
  "joined_to_projects t =
     Join (Join (Table t) sub_table (t, ''sub_project_id'') (sub_table, ''id''))
       main_table (sub_table, ''main_project_id'') (main_table, ''id'')"

definition risk_score_expr :: sql_expr where
  "risk_score_expr =
     CaseGreater (sub_table, ''spent_amount'') (sub_table, ''budget'') (PInt 70) (PInt 10)"

definition risk_level_expr :: sql_expr where
  "risk_level_expr =
     CaseGreater (sub_table, ''spent_amount'') (sub_table, ''budget'') (PStr ''high'') (PStr ''low'')"

definition project_cycle_days :: sql_expr where
  "project_cycle_days =
     CycleDays (main_table, ''closed_at'') (main_table, ''updated_at'') (main_table, ''created_at'')"

definition project_overview :: dataset where
  "project_overview =
     \<lparr> ds_key = ''project_overview'', ds_label = ''Project overview'',
       ds_description = ''Budget, status and master data of main projects.'',
       ds_default_scope = ''project'', ds_from_clause = Table main_table,
       ds_default_predicates = [], ds_scope_sub_project_id = None,
       ds_scope_main_project_id = Some (main_table, ''id''), ds_scope_manager_id = None,
       ds_fields =
         [dataset_field_of ''id'' ''Main project id'' type_uuid (main_c ''id'') [] count_aggregates,
          dataset_field_of ''project_no'' ''Project number'' type_string (main_c ''project_no'')
            text_filters [],
          dataset_field_of ''name'' ''Project name'' type_string (main_c ''name'') text_filters [],
          dataset_field_of ''dept_id'' ''Department id'' type_uuid (main_c ''dept_id'') id_filters [],
          dataset_field_of ''status'' ''Status'' type_enum (main_c ''status'') enum_filters [],
          dataset_field_of ''total_budget'' ''Total budget'' type_number (main_c ''total_budget'')
            number_filters number_aggregates,
          dataset_field_of ''spent_amount'' ''Spent amount'' type_number (main_c ''spent_amount'')
            number_filters number_aggregates,
          dataset_field_of ''created_at'' ''Created at'' type_datetime (main_c ''created_at'')
            date_filters [],
          dataset_field_of ''cycle_days'' ''Cycle days'' type_number project_cycle_days
            number_filters number_aggregates,
          dataset_field_of ''project_type_id'' ''Project type id'' type_uuid
            (main_c ''project_type_id'') id_filters []] \<rparr>"

text \<open>The fields that the joined datasets share.\<close>

definition owner_fields :: "dataset_field list" where
  "owner_fields =
     [dataset_field_of ''manager_id'' ''Manager id'' type_uuid (sub_c ''manager_id'') id_filters [],
      dataset_field_of ''dept_id'' ''Department id'' type_uuid (sub_c ''dept_id'') id_filters []]"

definition sub_project_dataset ::
  "string \<Rightarrow> string \<Rightarrow> string \<Rightarrow> from_clause \<Rightarrow> sql_predicate list \<Rightarrow> dataset_field list \<Rightarrow> dataset" where
  "sub_project_dataset key label description source predicates fs =
     \<lparr> ds_key = key, ds_label = label, ds_description = description,
       ds_default_scope = ''sub_project'', ds_from_clause = source,
       ds_default_predicates = predicates,
       ds_scope_sub_project_id = Some (sub_table, ''id''),
       ds_scope_main_project_id = Some (main_table, ''id''),
       ds_scope_manager_id = Some (sub_table, ''manager_id''), ds_fields = fs \<rparr>"

definition task_overdue :: dataset where
  "task_overdue =
     sub_project_dataset ''task_overdue'' ''Overdue tasks''
       ''Overdue tasks with their sub project and manager.'' (joined_to_projects tasks_table)
       [EqualsLiteral (tasks_c ''status'') ''overdue'']
       ([dataset_field_of ''id'' ''Task id'' type_uuid (tasks_c ''id'') [] count_aggregates,
         dataset_field_of ''task_no'' ''Task number'' type_string (tasks_c ''task_no'') text_filters [],
         dataset_field_of ''name'' ''Task name'' type_string (tasks_c ''name'') text_filters [],
         dataset_field_of ''status'' ''Task status'' type_enum (tasks_c ''status'') enum_filters [],
         dataset_field_of ''plan_end_date'' ''Planned end date'' type_date (tasks_c ''plan_end_date'')
           date_filters [],
         dataset_field_of ''sub_project_id'' ''Sub project id'' type_uuid (tasks_c ''sub_project_id'')
           id_filters []] @ owner_fields)"

definition payment_execution :: dataset where
  "payment_execution =
     sub_project_dataset ''payment_execution'' ''Payment execution''
       ''Payments with amount, date and project.'' (joined_to_projects payments_table) []
       ([dataset_field_of ''id'' ''Payment id'' type_uuid (payments_c ''id'') [] count_aggregates,
         dataset_field_of ''payment_no'' ''Payment number'' type_string (payments_c ''payment_no'')
           text_filters [],
         dataset_field_of ''payment_date'' ''Payment date'' type_date (payments_c ''payment_date'')
           date_filters [],
         dataset_field_of ''payment_type'' ''Payment type'' type_enum (payments_c ''payment_type'')
           enum_filters [],
         dataset_field_of ''amount'' ''Amount'' type_number (payments_c ''amount'') number_filters
           number_aggregates,
         dataset_field_of ''sub_project_id'' ''Sub project id'' type_uuid
           (payments_c ''sub_project_id'') id_filters []] @ owner_fields)"

definition document_upload_dataset :: dataset where
  "document_upload_dataset =
     sub_project_dataset ''document_upload'' ''Document uploads''
       ''Document type, uploader, size and scan status.'' (joined_to_projects documents_table) []
       ([dataset_field_of ''id'' ''Document id'' type_uuid (documents_c ''id'') [] count_aggregates,
         dataset_field_of ''doc_type'' ''Document type'' type_string (documents_c ''doc_type'')
           text_filters [],
         dataset_field_of ''file_size'' ''File size'' type_number (documents_c ''file_size'')
           number_filters number_aggregates,
         dataset_field_of ''scan_status'' ''Scan status'' type_enum (documents_c ''scan_status'')
           enum_filters [],
         dataset_field_of ''created_at'' ''Uploaded at'' type_datetime (documents_c ''created_at'')
           date_filters [],
         dataset_field_of ''uploader_id'' ''Uploader id'' type_uuid (documents_c ''uploader_id'')
           id_filters [],
         dataset_field_of ''sub_project_id'' ''Sub project id'' type_uuid
           (documents_c ''sub_project_id'') id_filters []] @ owner_fields)"

definition risk_score_dataset :: dataset where
  "risk_score_dataset =
     sub_project_dataset ''risk_score'' ''Risk score'' ''Placeholder for the rule based risk score.''
       sub_join_main []
       ([dataset_field_of ''sub_project_id'' ''Sub project id'' type_uuid (sub_c ''id'') id_filters
           count_aggregates,
         dataset_field_of ''project_no'' ''Sub project number'' type_string (sub_c ''project_no'')
           text_filters [],
         dataset_field_of ''name'' ''Sub project name'' type_string (sub_c ''name'') text_filters []]
        @ owner_fields @
        [dataset_field_of ''risk_score'' ''Risk score'' type_number risk_score_expr number_filters
           number_aggregates,
         dataset_field_of ''risk_level'' ''Risk level'' type_enum risk_level_expr enum_filters []])"

definition default_registry :: "dataset list" where
  "default_registry =
     [project_overview, task_overdue, payment_execution, document_upload_dataset, risk_score_dataset]"

subsection \<open>What a dataset selects from\<close>

text \<open>A row of a join holds at most one row of each table.\<close>

record joined =
  jr_main :: "main_project option"
  jr_sub :: "sub_project option"
  jr_payment :: "payment option"
  jr_task :: "task option"
  jr_document :: "document option"

definition empty_row :: joined where
  "empty_row =
     \<lparr> jr_main = None, jr_sub = None, jr_payment = None, jr_task = None, jr_document = None \<rparr>"

definition pick :: "'a option \<Rightarrow> 'a option \<Rightarrow> 'a option" where
  "pick x y = (case x of None \<Rightarrow> y | Some a \<Rightarrow> x)"

definition merge_rows :: "joined \<Rightarrow> joined \<Rightarrow> joined" where
  "merge_rows r q =
     \<lparr> jr_main = pick (jr_main r) (jr_main q), jr_sub = pick (jr_sub r) (jr_sub q),
       jr_payment = pick (jr_payment r) (jr_payment q), jr_task = pick (jr_task r) (jr_task q),
       jr_document = pick (jr_document r) (jr_document q) \<rparr>"

fun table_rows :: "database \<Rightarrow> source_table \<Rightarrow> joined list" where
  "table_rows db main_table = map (\<lambda>m. empty_row\<lparr>jr_main := Some m\<rparr>) (main_projects db)"
| "table_rows db sub_table = map (\<lambda>s. empty_row\<lparr>jr_sub := Some s\<rparr>) (sub_projects db)"
| "table_rows db payments_table = map (\<lambda>p. empty_row\<lparr>jr_payment := Some p\<rparr>) (payments db)"
| "table_rows db tasks_table = map (\<lambda>t. empty_row\<lparr>jr_task := Some t\<rparr>) (tasks db)"
| "table_rows db documents_table = map (\<lambda>d. empty_row\<lparr>jr_document := Some d\<rparr>) (documents db)"

text \<open>The columns of uuid type that joins and scopes compare; \<open>None\<close> is NULL.\<close>

definition key_column :: "column \<Rightarrow> joined \<Rightarrow> uuid option" where
  "key_column c r =
     (if c = (main_table, ''id'') then map_option mp_id (jr_main r)
      else if c = (sub_table, ''id'') then map_option sp_id (jr_sub r)
      else if c = (sub_table, ''main_project_id'') then map_option sp_main_project_id (jr_sub r)
      else if c = (sub_table, ''manager_id'') then map_option sp_manager_id (jr_sub r)
      else if c = (payments_table, ''sub_project_id'') then map_option pay_sub_project_id (jr_payment r)
      else if c = (tasks_table, ''sub_project_id'') then map_option task_sub_project_id (jr_task r)
      else if c = (documents_table, ''sub_project_id'')
        then map_option doc_sub_project_id (jr_document r)
      else None)"

fun from_rows :: "database \<Rightarrow> from_clause \<Rightarrow> joined list" where
  "from_rows db (Table t) = table_rows db t"
| "from_rows db (Join f t a b) =
     filter (\<lambda>r. key_column a r \<noteq> None \<and> key_column a r = key_column b r)
       (concat (map (\<lambda>r. map (merge_rows r) (table_rows db t)) (from_rows db f)))"

end
