(* ===== verification/ReportCompiler.thy ===== *)
theory ReportCompiler
  imports ReportDatasets PyText
begin

text \<open>
  The compiler of report queries (\<open>app/services/report_query_compiler.py\<close>): a query
  configuration becomes a statement with bound parameters, and an actor without a global role
  gets a predicate that restricts the rows.  The meaning of the predicates the compiler adds
  for the scope is defined; that of the filters is the database engine's, an argument.
\<close>

subsection \<open>Configurations and statements\<close>

record metric_config =
  mc_field :: string
  mc_aggregate :: aggregate
  mc_alias :: "string option"

record filter_config =
  fc_field :: string
  fc_op :: filter_operator
  fc_value :: pyval

record sort_config =
  sc_field :: string
  sc_direction :: sort_direction

record query_config =
  qc_dataset :: string
  qc_dimensions :: "string list"
  qc_metrics :: "metric_config list"
  qc_filters :: "filter_config list"
  qc_sort :: "sort_config list"
  qc_limit :: int

text \<open>What the schema accepts.\<close>

definition valid_metric_config :: "metric_config \<Rightarrow> bool" where
  "valid_metric_config m =
     (case mc_alias m of None \<Rightarrow> True | Some a \<Rightarrow> 1 \<le> length a \<and> length a \<le> 64)"

definition valid_query_config :: "query_config \<Rightarrow> bool" where
  "valid_query_config c \<longleftrightarrow> length (qc_dimensions c) \<le> 20 \<and> length (qc_metrics c) \<le> 20 \<and>
     list_all valid_metric_config (qc_metrics c) \<and> length (qc_filters c) \<le> 50 \<and>
     length (qc_sort c) \<le> 10 \<and> 1 \<le> qc_limit c \<and> qc_limit c \<le> 1000"

record report_column =
  rc_key :: string
  rc_label :: string
  rc_type :: field_type
  rc_aggregate :: "aggregate option"

datatype scope_mode = global_scope | owned_sub_projects | no_scope

record report_scope =
  rs_mode :: scope_mode
  rs_actor_id :: "uuid option"

record statement =
  st_select :: "(string \<times> sql_expr) list"
  st_from :: from_clause
  st_where :: "sql_predicate list"
  st_group_by :: "sql_expr list"
  st_order_by :: "(sql_expr \<times> sort_direction) list"
  st_limit :: int

record compiled_query =
  cq_dataset_key :: string
  cq_statement :: statement
  cq_columns :: "report_column list"
  cq_scope :: report_scope
  cq_limit :: int
  cq_bound_parameters :: "(string \<times> pyval) list"

subsection \<open>Compilation\<close>

definition global_report_roles :: "user_role list" where
  "global_report_roles = [admin, dept_manager, finance_manager]"

text \<open>
  The loops thread the selected columns: the pairs of label and expression in order.  The
  dictionary \<open>selected_by_key\<close> holds the last expression of a label.
\<close>

fun compile_dimensions ::
  "dataset \<Rightarrow> string list \<Rightarrow> py_error + ((string \<times> sql_expr) list \<times> report_column list)" where
  "compile_dimensions d [] = Inr ([], [])"
| "compile_dimensions d (key # keys) =
     attempt (require_field d key) (\<lambda>field.
     attempt (compile_dimensions d keys) (\<lambda>(selected, columns).
     Inr ((df_key field, df_expression field) # selected,
          \<lparr> rc_key = df_key field, rc_label = df_label field, rc_type = df_type field,
            rc_aggregate = None \<rparr> # columns)))"

definition metric_alias :: "metric_config \<Rightarrow> dataset_field \<Rightarrow> string" where
  "metric_alias m field =
     (case mc_alias m of
        Some a \<Rightarrow> if a \<noteq> [] then a
          else aggregate_value (mc_aggregate m) @ ''_'' @ df_key field
      | None \<Rightarrow> aggregate_value (mc_aggregate m) @ ''_'' @ df_key field)"

definition metric_expression :: "dataset_field \<Rightarrow> metric_config \<Rightarrow> sql_expr" where
  "metric_expression field m = Aggregated (mc_aggregate m) (df_expression field)"

fun compile_metrics ::
  "dataset \<Rightarrow> metric_config list \<Rightarrow> (string \<times> sql_expr) list \<Rightarrow> report_column list \<Rightarrow>
     py_error + ((string \<times> sql_expr) list \<times> report_column list)" where
  "compile_metrics d [] selected columns = Inr (selected, columns)"
| "compile_metrics d (m # ms) selected columns =
     attempt (require_metric d (mc_field m) (mc_aggregate m)) (\<lambda>field.
     let alias = metric_alias m field
     in attempt (guard (alias \<notin> fst ` set selected)
          (ValidationFailed ''Report field alias is duplicated'' [(''alias'', PStr alias)])) (\<lambda>_.
        compile_metrics d ms (selected @ [(alias, metric_expression field m)])
          (columns @ [\<lparr> rc_key = alias, rc_label = alias, rc_type = type_number,
             rc_aggregate = Some (mc_aggregate m) \<rparr>])))"

definition parameter_name :: "nat \<Rightarrow> string" where
  "parameter_name index = ''filter_'' @ show_nat index"

text \<open>
  \<open>f"%{value}%"\<close> formats any value; the text of a value that is no string is an argument.
\<close>

definition filter_expression ::
  "(pyval \<Rightarrow> string) \<Rightarrow> dataset \<Rightarrow> filter_config \<Rightarrow> nat \<Rightarrow>
     py_error + (sql_predicate \<times> (string \<times> pyval) list)" where
  "filter_expression str d item index =
     attempt (require_filter d (fc_field item) (fc_op item)) (\<lambda>field.
     let name = parameter_name index; expression = df_expression field
     in case fc_op item of
          op_is_null \<Rightarrow> Inr (IsNull expression, [])
        | op_is_not_null \<Rightarrow> Inr (IsNotNull expression, [])
        | op_in \<Rightarrow>
            (case fc_value item of
               PList vs \<Rightarrow> Inr (InParameter expression name, [(name, fc_value item)])
             | _ \<Rightarrow> Inl (ValidationFailed ''The in filter needs a list''
                 [(''field'', PStr (fc_field item))]))
        | op_not_in \<Rightarrow>
            (case fc_value item of
               PList vs \<Rightarrow> Inr (NotInParameter expression name, [(name, fc_value item)])
             | _ \<Rightarrow> Inl (ValidationFailed ''The in filter needs a list''
                 [(''field'', PStr (fc_field item))]))
        | op_between \<Rightarrow>
            (case fc_value item of
               PList [low, high] \<Rightarrow>
                 Inr (BetweenParameters expression (name @ ''_low'') (name @ ''_high''),
                   [(name @ ''_low'', low), (name @ ''_high'', high)])
             | _ \<Rightarrow> Inl (ValidationFailed ''The between filter needs two bounds''
                 [(''field'', PStr (fc_field item))]))
        | op_contains \<Rightarrow>
            Inr (ILikeParameter expression name,
              [(name, PStr (''%'' @ str (fc_value item) @ ''%''))])
        | op_starts_with \<Rightarrow>
            Inr (ILikeParameter expression name, [(name, PStr (str (fc_value item) @ ''%''))])
        | operator \<Rightarrow>
            Inr (CompareParameter operator expression name, [(name, fc_value item)]))"

fun compile_filters ::
  "(pyval \<Rightarrow> string) \<Rightarrow> dataset \<Rightarrow> filter_config list \<Rightarrow> nat \<Rightarrow>
     py_error + (sql_predicate list \<times> (string \<times> pyval) list)" where
  "compile_filters str d [] index = Inr ([], [])"
| "compile_filters str d (item # items) index =
     attempt (filter_expression str d item index) (\<lambda>(p, bound).
     attempt (compile_filters str d items (Suc index)) (\<lambda>(ps, bounds).
     Inr (p # ps, bound @ bounds)))"

definition sort_expression ::
  "(string \<times> sql_expr) list \<Rightarrow> dataset \<Rightarrow> sort_config \<Rightarrow> py_error + (sql_expr \<times> sort_direction)" where
  "sort_expression selected d item =
     (case map_of (rev selected) (sc_field item) of
        Some expression \<Rightarrow> Inr (expression, sc_direction item)
      | None \<Rightarrow> attempt (require_field d (sc_field item)) (\<lambda>field.
          Inr (df_expression field, sc_direction item)))"

definition scope_predicate :: "dataset \<Rightarrow> user \<Rightarrow> sql_predicate option \<times> report_scope" where
  "scope_predicate d actor =
     (let owned = \<lparr> rs_mode = owned_sub_projects, rs_actor_id = Some (u_id actor) \<rparr>
      in if u_role actor \<in> set global_report_roles
         then (None, \<lparr> rs_mode = global_scope, rs_actor_id = None \<rparr>)
         else case ds_scope_sub_project_id d of
           Some sub_id \<Rightarrow>
             (case ds_scope_manager_id d of
                None \<Rightarrow> (Some (MemberExists sub_id), owned)
              | Some manager_id \<Rightarrow> (Some (ManagedOrMember manager_id sub_id), owned))
         | None \<Rightarrow>
             (case ds_scope_main_project_id d of
                Some main_id \<Rightarrow> (Some (OwnedSubProjectExists main_id), owned)
              | None \<Rightarrow> (None, \<lparr> rs_mode = no_scope, rs_actor_id = None \<rparr>)))"

definition compile_query ::
  "(pyval \<Rightarrow> string) \<Rightarrow> dataset list \<Rightarrow> user \<Rightarrow> query_config \<Rightarrow> py_error + compiled_query" where
  "compile_query str registry actor config =
     attempt (require_dataset registry (qc_dataset config)) (\<lambda>d.
     attempt (guard (\<not> (qc_dimensions config = [] \<and> qc_metrics config = []))
       (ValidationFailed ''A report query needs a dimension or a metric'' [])) (\<lambda>_.
     attempt (compile_dimensions d (qc_dimensions config)) (\<lambda>(dimensions, dimension_columns).
     attempt (compile_metrics d (qc_metrics config) dimensions dimension_columns)
       (\<lambda>(selected, columns).
     attempt (compile_filters str d (qc_filters config) 0) (\<lambda>(filters, bound).
     let (restriction, scope) = scope_predicate d actor;
         predicates = ds_default_predicates d @ filters @
           (case restriction of None \<Rightarrow> [] | Some p \<Rightarrow> [p]);
         parameters = bound @
           (case restriction of None \<Rightarrow> [] | Some p \<Rightarrow> [(''actor_id'', PUuid (u_id actor))])
     in attempt (traverse (sort_expression selected d) (qc_sort config)) (\<lambda>ordering.
        Inr \<lparr> cq_dataset_key = ds_key d,
              cq_statement =
                \<lparr> st_select = selected, st_from = ds_from_clause d, st_where = predicates,
                  st_group_by = (if qc_metrics config \<noteq> [] then map snd dimensions else []),
                  st_order_by = ordering, st_limit = qc_limit config \<rparr>,
              cq_columns = columns, cq_scope = scope, cq_limit = qc_limit config,
              cq_bound_parameters = parameters \<rparr>))))))"

subsection \<open>The rows of a report\<close>

text \<open>
  The two subqueries on members and sub projects, for the actor bound to \<open>actor_id\<close>.
\<close>

definition is_member :: "database \<Rightarrow> uuid \<Rightarrow> uuid \<Rightarrow> bool" where
  "is_member db actor_id sid =
     (\<exists>m \<in> set (members db). mem_sub_project_id m = sid \<and> mem_user_id m = actor_id)"

definition involved :: "database \<Rightarrow> uuid \<Rightarrow> sub_project \<Rightarrow> bool" where
  "involved db actor_id s = (sp_manager_id s = actor_id \<or> is_member db actor_id (sp_id s))"

fun holds ::
  "(sql_predicate \<Rightarrow> (string \<times> pyval) list \<Rightarrow> joined \<Rightarrow> bool) \<Rightarrow> database \<Rightarrow>
     (string \<times> pyval) list \<Rightarrow> joined \<Rightarrow> sql_predicate \<Rightarrow> bool" where
  "holds engine db params r (MemberExists sub_id) =
     (case map_of params ''actor_id'' of
        Some (PUuid a) \<Rightarrow> (case key_column sub_id r of None \<Rightarrow> False | Some sid \<Rightarrow> is_member db a sid)
      | _ \<Rightarrow> False)"
| "holds engine db params r (ManagedOrMember manager_id sub_id) =
     (case map_of params ''actor_id'' of
        Some (PUuid a) \<Rightarrow> key_column manager_id r = Some a \<or>
          (case key_column sub_id r of None \<Rightarrow> False | Some sid \<Rightarrow> is_member db a sid)
      | _ \<Rightarrow> False)"
| "holds engine db params r (OwnedSubProjectExists main_id) =
     (case map_of params ''actor_id'' of
        Some (PUuid a) \<Rightarrow>
          (\<exists>s \<in> set (sub_projects db). key_column main_id r = Some (sp_main_project_id s) \<and> involved db a s)
      | _ \<Rightarrow> False)"
| "holds engine db params r p = engine p params r"

definition report_rows ::
  "(sql_predicate \<Rightarrow> (string \<times> pyval) list \<Rightarrow> joined \<Rightarrow> bool) \<Rightarrow> database \<Rightarrow> compiled_query \<Rightarrow>
     joined list" where
  "report_rows engine db q =
     filter (\<lambda>r. list_all (holds engine db (cq_bound_parameters q) r) (st_where (cq_statement q)))
       (from_rows db (st_from (cq_statement q)))"

end
