(* ===== verification/Reports.thy ===== *)
theory Reports
  imports ReportCompiler Scenario
begin

text \<open>
  What custom reports promise: an actor without a global role sees data of the own sub projects
  only, whatever the configuration, and every value of a configuration reaches the database as
  a bound parameter.
\<close>

subsection \<open>The parts of a compiled query\<close>

lemma compile_query_parts:
  assumes "compile_query str registry actor config = Inr q"
  obtains d dimensions dimension_columns selected columns filters bound restriction scope ordering
  where "require_dataset registry (qc_dataset config) = Inr d"
    and "compile_dimensions d (qc_dimensions config) = Inr (dimensions, dimension_columns)"
    and "compile_metrics d (qc_metrics config) dimensions dimension_columns = Inr (selected, columns)"
    and "compile_filters str d (qc_filters config) 0 = Inr (filters, bound)"
    and "scope_predicate d actor = (restriction, scope)"
    and "q = \<lparr> cq_dataset_key = ds_key d,
              cq_statement =
                \<lparr> st_select = selected, st_from = ds_from_clause d,
                  st_where = ds_default_predicates d @ filters @
                    (case restriction of None \<Rightarrow> [] | Some p \<Rightarrow> [p]),
                  st_group_by = (if qc_metrics config \<noteq> [] then map snd dimensions else []),
                  st_order_by = ordering, st_limit = qc_limit config \<rparr>,
              cq_columns = columns, cq_scope = scope, cq_limit = qc_limit config,
              cq_bound_parameters = bound @
                (case restriction of None \<Rightarrow> [] | Some p \<Rightarrow> [(''actor_id'', PUuid (u_id actor))]) \<rparr>"
  using assms unfolding compile_query_def
  apply (elim result_elims)
  apply (rule that, assumption, assumption, assumption, assumption, rule prod.collapse [symmetric])
  apply (drule sum.inject(2) [THEN iffD1])
  apply (simp only:)
  apply (erule sym)
  done

lemma show_nat_inject: "show_nat i = show_nat j \<longleftrightarrow> i = j"
  by (metis of_nat_eq_iff option.inject parse_show_nat)

lemma takeWhile_show_nat: "rest = [] \<or> \<not> is_digit (hd rest) \<Longrightarrow>
    takeWhile is_digit (show_nat i @ rest) = show_nat i"
  using show_nat_digits [of i] by (cases rest) (auto simp: takeWhile_append)

text \<open>A parameter belongs to one filter: the number in its name.\<close>

definition parameter_number :: "string \<Rightarrow> string" where
  "parameter_number name = takeWhile is_digit (drop 7 name)"

lemma parameter_number_names:
  "parameter_number (parameter_name i) = show_nat i"
  "parameter_number (parameter_name i @ ''_low'') = show_nat i"
  "parameter_number (parameter_name i @ ''_high'') = show_nat i"
  using takeWhile_show_nat [of "[]" i] takeWhile_show_nat [of "''_low''" i]
    takeWhile_show_nat [of "''_high''" i]
  by (simp_all add: parameter_number_def parameter_name_def is_digit_def)

fun predicate_parameters :: "sql_predicate \<Rightarrow> string list" where
  "predicate_parameters (InParameter e n) = [n]"
| "predicate_parameters (NotInParameter e n) = [n]"
| "predicate_parameters (BetweenParameters e low high) = [low, high]"
| "predicate_parameters (ILikeParameter e n) = [n]"
| "predicate_parameters (CompareParameter operator e n) = [n]"
| "predicate_parameters (MemberExists c) = [''actor_id'']"
| "predicate_parameters (ManagedOrMember m c) = [''actor_id'']"
| "predicate_parameters (OwnedSubProjectExists c) = [''actor_id'']"
| "predicate_parameters p = []"

lemma parameter_name_not_actor:
  "parameter_name i \<noteq> ''actor_id''" "parameter_name i @ rest \<noteq> ''actor_id''"
  by (simp_all add: parameter_name_def)

lemma filter_expression_parameters:
  assumes "filter_expression str d item i = Inr (p, bound)"
  shows "map fst bound = predicate_parameters p \<and> distinct (map fst bound) \<and>
    (\<forall>n \<in> set (map fst bound). parameter_number n = show_nat i \<and> n \<noteq> ''actor_id'')"
  using assms unfolding filter_expression_def
  by (elim result_elims)
    (auto simp: parameter_number_names parameter_name_not_actor split: filter_operator.splits
      pyval.splits list.splits)

lemma compile_filters_parameters:
  assumes "compile_filters str d items i = Inr (ps, bound)"
  shows "map fst bound = concat (map predicate_parameters ps) \<and> distinct (map fst bound) \<and>
    (\<forall>n \<in> set (map fst bound). n \<noteq> ''actor_id'' \<and> (\<exists>j \<ge> i. parameter_number n = show_nat j)) \<and>
    length ps = length items"
  using assms
proof (induction items arbitrary: i ps bound)
  case (Cons item items)
  obtain p b qs bs where item: "filter_expression str d item i = Inr (p, b)"
    and items: "compile_filters str d items (Suc i) = Inr (qs, bs)"
    and eq: "ps = p # qs" "bound = b @ bs"
    using Cons.prems by (auto simp: result_simps)
  note first = filter_expression_parameters [OF item] and rest = Cons.IH [OF items]
  have "set (map fst b) \<inter> set (map fst bs) = {}"
  proof (rule ccontr)
    assume "set (map fst b) \<inter> set (map fst bs) \<noteq> {}"
    then obtain n j where "parameter_number n = show_nat i" "parameter_number n = show_nat j" "Suc i \<le> j"
      using first rest by blast
    then show False by (simp add: show_nat_inject)
  qed
  moreover have "\<exists>j \<ge> i. parameter_number n = show_nat j" if "n \<in> set (map fst bs)" for n
    using rest that by (meson Suc_leD)
  ultimately show ?case using first rest by (auto simp: eq simp del: set_map)
qed simp

lemma compile_dimensions_columns:
  "compile_dimensions d keys = Inr (selected, columns) \<Longrightarrow>
     map fst selected = map rc_key columns \<and> map rc_key columns = keys"
proof (induction keys arbitrary: selected columns)
  case (Cons key keys)
  then show ?case
    by (auto simp: result_simps require_field_def dest!: find_row_SomeD)
qed simp

lemma compile_metrics_columns:
  assumes "compile_metrics d ms selected columns = Inr (selected', columns')"
    and "map fst selected = map rc_key columns"
  shows "\<exists>new. map rc_key columns' = map rc_key columns @ new \<and> distinct new \<and>
    set new \<inter> set (map rc_key columns) = {} \<and> length new = length ms \<and>
    map fst selected' = map rc_key columns'"
  using assms
proof (induction ms arbitrary: selected columns)
  case (Cons m ms)
  obtain field where fresh: "metric_alias m field \<notin> fst ` set selected"
    and rest: "compile_metrics d ms
      (selected @ [(metric_alias m field, metric_expression field m)])
      (columns @ [\<lparr> rc_key = metric_alias m field, rc_label = metric_alias m field,
        rc_type = type_number, rc_aggregate = Some (mc_aggregate m) \<rparr>]) = Inr (selected', columns')"
    using Cons.prems(1) by (auto simp: Let_def result_simps)
  obtain new where "map rc_key columns' = map rc_key columns @ metric_alias m field # new"
    "distinct new" "set new \<inter> insert (metric_alias m field) (set (map rc_key columns)) = {}"
    "length new = length ms" "map fst selected' = map rc_key columns'"
    using Cons.IH [OF rest] Cons.prems(2) by auto
  moreover have "metric_alias m field \<notin> set (map rc_key columns)"
    using fresh Cons.prems(2) by (metis list.set_map)
  ultimately show ?case by (intro exI [of _ "metric_alias m field # new"]) auto
qed simp

subsection \<open>The default datasets\<close>

lemma require_dataset_member: "require_dataset registry key = Inr d \<Longrightarrow> d \<in> set registry"
  by (auto simp: require_dataset_def result_simps dest: find_row_SomeD)

lemmas default_datasets = default_registry_def project_overview_def task_overdue_def
  payment_execution_def document_upload_dataset_def risk_score_dataset_def sub_project_dataset_def

lemma default_dataset_shape:
  assumes "d \<in> set default_registry"
  shows "d = project_overview \<or>
    ds_scope_sub_project_id d = Some (sub_table, ''id'') \<and>
    ds_scope_manager_id d = Some (sub_table, ''manager_id'') \<and>
    (ds_from_clause d = sub_join_main \<or> ds_from_clause d = joined_to_projects tasks_table \<or>
     ds_from_clause d = joined_to_projects payments_table \<or>
     ds_from_clause d = joined_to_projects documents_table)"
  using assms unfolding default_registry_def
  by (simp add: task_overdue_def payment_execution_def document_upload_dataset_def risk_score_dataset_def
      sub_project_dataset_def) (elim disjE, simp_all)

text \<open>A row is about a sub project when everything it shows belongs to it.\<close>

definition about :: "joined \<Rightarrow> sub_project \<Rightarrow> bool" where
  "about r s \<longleftrightarrow>
     (case jr_main r of None \<Rightarrow> True | Some m \<Rightarrow> sp_main_project_id s = mp_id m) \<and>
     (case jr_sub r of None \<Rightarrow> True | Some s' \<Rightarrow> s' = s) \<and>
     (case jr_payment r of None \<Rightarrow> True | Some p \<Rightarrow> pay_sub_project_id p = sp_id s) \<and>
     (case jr_task r of None \<Rightarrow> True | Some t \<Rightarrow> task_sub_project_id t = sp_id s) \<and>
     (case jr_document r of None \<Rightarrow> True | Some d \<Rightarrow> doc_sub_project_id d = sp_id s)"

lemma join_rows:
  "r \<in> set (from_rows db (Join f t a b)) \<longleftrightarrow>
     (\<exists>x \<in> set (from_rows db f). \<exists>y \<in> set (table_rows db t). r = merge_rows x y \<and>
       key_column a r \<noteq> None \<and> key_column a r = key_column b r)"
  by auto

lemmas row_defs = key_column_def merge_rows_def empty_row_def pick_def about_def

lemma sub_join_main_about:
  assumes "r \<in> set (from_rows db sub_join_main)"
  shows "\<exists>s \<in> set (sub_projects db). jr_sub r = Some s \<and> about r s"
proof -
  obtain s m where "s \<in> set (sub_projects db)"
    and "r = merge_rows (empty_row\<lparr>jr_sub := Some s\<rparr>) (empty_row\<lparr>jr_main := Some m\<rparr>)"
    and "key_column (sub_table, ''main_project_id'') r = key_column (main_table, ''id'') r"
    using assms by (auto simp: sub_join_main_def join_rows simp del: from_rows.simps(2))
  then show ?thesis by (intro bexI [of _ s]) (simp_all add: row_defs)
qed

lemma joined_to_projects_about:
  assumes "r \<in> set (from_rows db (joined_to_projects t))"
    and t: "t \<in> {payments_table, tasks_table, documents_table}"
  shows "\<exists>s \<in> set (sub_projects db). jr_sub r = Some s \<and> about r s"
proof -
  obtain x s m where x: "x \<in> set (table_rows db t)" and s: "s \<in> set (sub_projects db)"
    and r: "r = merge_rows (merge_rows x (empty_row\<lparr>jr_sub := Some s\<rparr>)) (empty_row\<lparr>jr_main := Some m\<rparr>)"
    and keys: "key_column (t, ''sub_project_id'') (merge_rows x (empty_row\<lparr>jr_sub := Some s\<rparr>)) =
        key_column (sub_table, ''id'') (merge_rows x (empty_row\<lparr>jr_sub := Some s\<rparr>))"
      "key_column (sub_table, ''main_project_id'') r = key_column (main_table, ''id'') r"
    using assms(1) by (auto simp: joined_to_projects_def join_rows simp del: from_rows.simps(2))
  have "jr_sub r = Some s \<and> about r s"
    using t
  proof (elim insertE emptyE)
    assume t: "t = payments_table"
    then obtain p where "x = empty_row\<lparr>jr_payment := Some p\<rparr>" using x by auto
    with keys show ?thesis unfolding r t by (simp add: row_defs)
  next
    assume t: "t = tasks_table"
    then obtain p where "x = empty_row\<lparr>jr_task := Some p\<rparr>" using x by auto
    with keys show ?thesis unfolding r t by (simp add: row_defs)
  next
    assume t: "t = documents_table"
    then obtain p where "x = empty_row\<lparr>jr_document := Some p\<rparr>" using x by auto
    with keys show ?thesis unfolding r t by (simp add: row_defs)
  qed
  with s show ?thesis by blast
qed

lemma joined_rows_about:
  assumes "r \<in> set (from_rows db f)"
    and "f = sub_join_main \<or> f = joined_to_projects tasks_table \<or>
      f = joined_to_projects payments_table \<or> f = joined_to_projects documents_table"
  shows "\<exists>s \<in> set (sub_projects db). jr_sub r = Some s \<and> about r s"
  using assms sub_join_main_about joined_to_projects_about by blast

subsection \<open>Scope\<close>

lemma scope_predicate_local:
  assumes "u_role actor \<notin> set global_report_roles" and "d \<in> set default_registry"
  shows "fst (scope_predicate d actor) =
    Some (if d = project_overview then OwnedSubProjectExists (main_table, ''id'')
      else ManagedOrMember (sub_table, ''manager_id'') (sub_table, ''id''))"
proof -
  have "project_overview \<noteq> task_overdue" "project_overview \<noteq> payment_execution"
    "project_overview \<noteq> document_upload_dataset" "project_overview \<noteq> risk_score_dataset"
    by (simp_all add: default_datasets)
  then have "d = project_overview \<or> d \<noteq> project_overview \<and> ds_scope_sub_project_id d = Some (sub_table, ''id'') \<and>
    ds_scope_manager_id d = Some (sub_table, ''manager_id'')"
    using assms(2) by (auto simp: default_registry_def task_overdue_def payment_execution_def
        document_upload_dataset_def risk_score_dataset_def sub_project_dataset_def)
  then show ?thesis
    using assms(1) by (auto simp: scope_predicate_def Let_def project_overview_def)
qed

lemma actor_parameter:
  assumes "compile_filters str d items 0 = Inr (filters, bound)"
  shows "map_of (bound @ [(''actor_id'', v)]) ''actor_id'' = Some v"
proof -
  have "''actor_id'' \<notin> set (map fst bound)" using compile_filters_parameters [OF assms] by blast
  then have "map_of bound ''actor_id'' = None" by (simp add: map_of_eq_None_iff)
  then show ?thesis by (simp add: map_add_def)
qed

lemma local_rows_are_own:
  assumes "compile_query str default_registry actor config = Inr q"
    and "u_role actor \<notin> set global_report_roles" and "r \<in> set (report_rows engine db q)"
  shows "\<exists>s \<in> set (sub_projects db). about r s \<and> involved db (u_id actor) s"
  using assms(1)
proof (rule compile_query_parts)
  fix d dimensions dimension_columns selected columns filters bound restriction scope ordering
  assume "require_dataset default_registry (qc_dataset config) = Inr d"
    and filters: "compile_filters str d (qc_filters config) 0 = Inr (filters, bound)"
    and scope: "scope_predicate d actor = (restriction, scope)"
    and q: "q = \<lparr> cq_dataset_key = ds_key d,
              cq_statement =
                \<lparr> st_select = selected, st_from = ds_from_clause d,
                  st_where = ds_default_predicates d @ filters @
                    (case restriction of None \<Rightarrow> [] | Some p \<Rightarrow> [p]),
                  st_group_by = (if qc_metrics config \<noteq> [] then map snd dimensions else []),
                  st_order_by = ordering, st_limit = qc_limit config \<rparr>,
              cq_columns = columns, cq_scope = scope, cq_limit = qc_limit config,
              cq_bound_parameters = bound @
                (case restriction of None \<Rightarrow> [] | Some p \<Rightarrow> [(''actor_id'', PUuid (u_id actor))]) \<rparr>"
  then have d: "d \<in> set default_registry" by (simp add: require_dataset_member)
  let ?p = "if d = project_overview then OwnedSubProjectExists (main_table, ''id'')
      else ManagedOrMember (sub_table, ''manager_id'') (sub_table, ''id'')"
  have restriction: "restriction = Some ?p"
    using scope_predicate_local [OF assms(2) d] scope by simp
  have from_d: "r \<in> set (from_rows db (ds_from_clause d))"
    and "holds engine db (bound @ [(''actor_id'', PUuid (u_id actor))]) r ?p"
    using assms(3) unfolding report_rows_def q restriction by simp_all
  moreover note actor_parameter [OF filters, of "PUuid (u_id actor)"]
  ultimately have own: "if d = project_overview
    then \<exists>s \<in> set (sub_projects db). key_column (main_table, ''id'') r = Some (sp_main_project_id s) \<and>
        involved db (u_id actor) s
    else key_column (sub_table, ''manager_id'') r = Some (u_id actor) \<or>
      (case key_column (sub_table, ''id'') r of None \<Rightarrow> False
       | Some sid \<Rightarrow> is_member db (u_id actor) sid)"
    by (simp split: if_splits)
  show ?thesis
  proof (cases "d = project_overview")
    case True
    then obtain m where r: "r = empty_row\<lparr>jr_main := Some m\<rparr>"
      using from_d by (auto simp: project_overview_def)
    show ?thesis using own True by (auto simp: r about_def key_column_def empty_row_def)
  next
    case False
    then obtain s where "s \<in> set (sub_projects db)" "jr_sub r = Some s" "about r s"
      using joined_rows_about [OF from_d] default_dataset_shape [OF d] by blast
    with own False show ?thesis
      by (intro bexI [of _ s]) (simp_all add: involved_def key_column_def)
  qed
qed

subsection \<open>Properties\<close>

definition payment_report :: query_config where
  "payment_report =
     \<lparr> qc_dataset = ''payment_execution'', qc_dimensions = [''payment_no''],
       qc_metrics = [\<lparr> mc_field = ''amount'', mc_aggregate = agg_sum, mc_alias = None \<rparr>],
       qc_filters = [\<lparr> fc_field = ''payment_no'', fc_op = op_contains, fc_value = PStr ''0'' \<rparr>,
         \<lparr> fc_field = ''amount'', fc_op = op_between, fc_value = PList [PInt 0, PInt 100] \<rparr>],
       qc_sort = [\<lparr> sc_field = ''sum_amount'', sc_direction = sort_desc \<rparr>], qc_limit = 50 \<rparr>"

definition the_payment_query :: compiled_query where
  "the_payment_query =
     (case compile_query (\<lambda>v. case v of PStr t \<Rightarrow> t | _ \<Rightarrow> []) default_registry the_leader payment_report of
        Inr q \<Rightarrow> q)"

lemma the_payment_query_compiled:
  "compile_query (\<lambda>v. case v of PStr t \<Rightarrow> t | _ \<Rightarrow> []) default_registry the_leader payment_report =
     Inr the_payment_query"
  by code_simp

text \<open>
  C33: Reports show own projects: whatever the configuration of a report over the default
  datasets asks for, and however the database evaluates its filters, each row that a report of
  an actor without a global role reads is about a sub project that the actor manages or is a
  member of.
\<close>
theorem reports_show_own_projects:
  assumes "compile_query str default_registry actor config = Inr q"
    and "u_role actor \<notin> set global_report_roles" and "r \<in> set (report_rows engine db q)"
  shows "\<exists>s \<in> set (sub_projects db). about r s \<and>
    (sp_manager_id s = u_id actor \<or>
     (\<exists>m \<in> set (members db). mem_sub_project_id m = sp_id s \<and> mem_user_id m = u_id actor))"
  using local_rows_are_own [OF assms] by (simp add: involved_def is_member_def)

lemma reports_show_own_projects_witness:
  "\<exists>r s. r \<in> set (report_rows (\<lambda>p ps r. True) world7 the_payment_query) \<and> jr_payment r \<noteq> None \<and>
     s \<in> set (sub_projects world7) \<and> about r s"
proof -
  have "\<not> list_all (\<lambda>r. jr_payment r = None) (report_rows (\<lambda>p ps r. True) world7 the_payment_query)"
    by code_simp
  then obtain r where r: "r \<in> set (report_rows (\<lambda>p ps r. True) world7 the_payment_query)"
    "jr_payment r \<noteq> None" by (auto simp: list_all_iff)
  have "u_role the_leader \<notin> set global_report_roles" by code_simp
  from reports_show_own_projects [OF the_payment_query_compiled this r(1)] r show ?thesis by blast
qed

text \<open>
  Values are bound, never spliced: a compiled query has one column per dimension and metric
  under the label it selects, the aliases of metrics are distinct, and the parameters its
  predicates mention are exactly the bound ones, each bound once.
\<close>
theorem report_values_are_bound:
  assumes "compile_query str default_registry actor config = Inr q"
  shows "map rc_key (cq_columns q) = map fst (st_select (cq_statement q)) \<and>
    length (cq_columns q) = length (qc_dimensions config) + length (qc_metrics config) \<and>
    distinct (drop (length (qc_dimensions config)) (map rc_key (cq_columns q))) \<and>
    distinct (map fst (cq_bound_parameters q)) \<and>
    map fst (cq_bound_parameters q) =
      concat (map predicate_parameters (st_where (cq_statement q)))"
  using assms
proof (rule compile_query_parts)
  fix d dimensions dimension_columns selected columns filters bound restriction scope ordering
  assume d: "require_dataset default_registry (qc_dataset config) = Inr d"
    and dims: "compile_dimensions d (qc_dimensions config) = Inr (dimensions, dimension_columns)"
    and metrics: "compile_metrics d (qc_metrics config) dimensions dimension_columns =
      Inr (selected, columns)"
    and filters: "compile_filters str d (qc_filters config) 0 = Inr (filters, bound)"
    and scope: "scope_predicate d actor = (restriction, scope)"
    and q: "q = \<lparr> cq_dataset_key = ds_key d,
              cq_statement =
                \<lparr> st_select = selected, st_from = ds_from_clause d,
                  st_where = ds_default_predicates d @ filters @
                    (case restriction of None \<Rightarrow> [] | Some p \<Rightarrow> [p]),
                  st_group_by = (if qc_metrics config \<noteq> [] then map snd dimensions else []),
                  st_order_by = ordering, st_limit = qc_limit config \<rparr>,
              cq_columns = columns, cq_scope = scope, cq_limit = qc_limit config,
              cq_bound_parameters = bound @
                (case restriction of None \<Rightarrow> [] | Some p \<Rightarrow> [(''actor_id'', PUuid (u_id actor))]) \<rparr>"
  note dcols = compile_dimensions_columns [OF dims]
  then have dlen: "length (map rc_key dimension_columns) = length (qc_dimensions config)" by simp
  obtain new where new: "map rc_key columns = map rc_key dimension_columns @ new" "distinct new"
      "length new = length (qc_metrics config)" "map fst selected = map rc_key columns"
    using compile_metrics_columns [OF metrics] dcols by blast
  have defaults: "concat (map predicate_parameters (ds_default_predicates d)) = []"
    using require_dataset_member [OF d] by (auto simp: default_registry_def project_overview_def
        task_overdue_def payment_execution_def document_upload_dataset_def risk_score_dataset_def
        sub_project_dataset_def)
  have restricted: "predicate_parameters p = [''actor_id'']" if "restriction = Some p" for p
    using scope that by (auto simp: scope_predicate_def Let_def split: if_splits option.splits)
  note f = compile_filters_parameters [OF filters]
  then have fresh: "''actor_id'' \<notin> set (concat (map predicate_parameters filters))" by metis
  have "length columns = length (map rc_key columns)" by simp
  then have "length columns = length (qc_dimensions config) + length (qc_metrics config)"
    using new(1,3) dlen by simp
  moreover have "drop (length (qc_dimensions config)) (map rc_key columns) = new"
    using new(1) dlen by simp
  ultimately show ?thesis
    using new(2,4) f fresh defaults restricted by (cases restriction) (auto simp: q)
qed

lemma report_values_are_bound_witness:
  "map fst (cq_bound_parameters the_payment_query) =
     [''filter_0'', ''filter_1_low'', ''filter_1_high'', ''actor_id''] \<and>
   map fst (cq_bound_parameters the_payment_query) =
     concat (map predicate_parameters (st_where (cq_statement the_payment_query)))"
proof -
  have "map fst (cq_bound_parameters the_payment_query) =
     [''filter_0'', ''filter_1_low'', ''filter_1_high'', ''actor_id'']" by code_simp
  with report_values_are_bound [OF the_payment_query_compiled] show ?thesis by blast
qed

end
