(* ===== verification/ReportSchedule.thy ===== *)
theory ReportSchedule
  imports Calendar
begin

text \<open>
  When a scheduled report runs next (\<open>_calculate_next_run_at\<close> of
  \<open>app/services/custom_reports.py\<close>).  The time zone database is an argument: which names it
  knows, the offset of a zone at an instant, and the offset it gives to a local time.  A local
  time counts microseconds from 1970-01-01T00:00 of the local calendar.
\<close>

datatype schedule_frequency = daily | weekly | monthly

record time_zones =
  known_zone :: "string \<Rightarrow> bool"
  offset_at :: "string \<Rightarrow> datetime \<Rightarrow> int"
  offset_of_wall :: "string \<Rightarrow> int \<Rightarrow> int"

definition default_user_timezone :: string where
  "default_user_timezone = ''Asia/Shanghai''"

definition resolve_timezone :: "time_zones \<Rightarrow> string option \<Rightarrow> string" where
  "resolve_timezone tz name =
     (let wanted = (case name of None \<Rightarrow> default_user_timezone
        | Some n \<Rightarrow> if n = [] then default_user_timezone else n)
      in if known_zone tz wanted then wanted else default_user_timezone)"

definition local_date :: "int \<Rightarrow> date" where
  "local_date wall = utc_date wall"

text \<open>\<open>datetime.combine(day, schedule_time, tzinfo=timezone)\<close>.\<close>

definition combine :: "date \<Rightarrow> int \<Rightarrow> int" where
  "combine d time = (to_ordinal d - 719163) * microseconds_per_day + time"

text \<open>\<open>day_of_week or 1\<close>: zero is false.\<close>

definition or_one :: "int option \<Rightarrow> int" where
  "or_one x = (case x of None \<Rightarrow> 1 | Some n \<Rightarrow> if n = 0 then 1 else n)"

definition monthly_candidate :: "int \<Rightarrow> int \<Rightarrow> int \<Rightarrow> int \<Rightarrow> int" where
  "monthly_candidate y m d time = combine (Date y m (min d (days_in_month y m))) time"

text \<open>The next run as a local time; two local times of one zone compare as they read.\<close>

definition next_local_run ::
  "schedule_frequency \<Rightarrow> int \<Rightarrow> int \<Rightarrow> int option \<Rightarrow> int option \<Rightarrow> int" where
  "next_local_run frequency time local_now day_of_week day_of_month =
     (case frequency of
        daily \<Rightarrow>
          (let candidate = combine (local_date local_now) time
           in if candidate \<le> local_now then candidate + microseconds_per_day else candidate)
      | weekly \<Rightarrow>
          (let target_weekday = or_one day_of_week - 1;
               days_until = (target_weekday - (iso_weekday (local_date local_now) - 1)) mod 7;
               candidate = combine (add_days (local_date local_now) days_until) time
           in if candidate \<le> local_now then candidate + 7 * microseconds_per_day else candidate)
      | monthly \<Rightarrow>
          (let target_day = or_one day_of_month;
               y = year (local_date local_now); m = month (local_date local_now);
               candidate = monthly_candidate y m target_day time
           in if candidate \<le> local_now
              then (if m + 1 > 12 then monthly_candidate (y + 1) 1 target_day time
                    else monthly_candidate y (m + 1) target_day time)
              else candidate))"

definition calculate_next_run_at ::
  "time_zones \<Rightarrow> schedule_frequency \<Rightarrow> int option \<Rightarrow> string option \<Rightarrow> datetime \<Rightarrow> int option \<Rightarrow>
     int option \<Rightarrow> py_error + datetime" where
  "calculate_next_run_at tz frequency schedule_time timezone_name from_utc day_of_week day_of_month =
     attempt (present schedule_time (ValueError ''schedule_time is required'')) (\<lambda>time.
     let zone = resolve_timezone tz timezone_name;
         local_now = from_utc + offset_at tz zone from_utc;
         wall = next_local_run frequency time local_now day_of_week day_of_month
     in Inr (wall - offset_of_wall tz zone wall))"

subsection \<open>Local times\<close>

lemma combine_mono: "to_ordinal d \<le> to_ordinal d' \<Longrightarrow> combine d t \<le> combine d' t"
  by (simp add: combine_def)

text \<open>The instants considered: the calendar starts at the first day of year 1.\<close>

definition in_calendar :: "int \<Rightarrow> bool" where
  "in_calendar wall \<longleftrightarrow> 1 \<le> 719163 + wall div microseconds_per_day"

lemma local_date_valid:
  assumes "in_calendar w"
  shows "valid_date (local_date w)" "to_ordinal (local_date w) = 719163 + w div microseconds_per_day"
  using from_ordinal_valid [of "719163 + w div microseconds_per_day"] assms
  by (simp_all add: local_date_def utc_date_def in_calendar_def)

lemma combine_local:
  assumes "in_calendar w"
  shows "combine (local_date w) t = w - w mod microseconds_per_day + t"
proof -
  have "w div microseconds_per_day * microseconds_per_day = w - w mod microseconds_per_day"
    by (simp add: minus_mod_eq_div_mult)
  then show ?thesis by (simp add: combine_def local_date_valid [OF assms])
qed

lemma combine_time:
  assumes "0 \<le> t" and "t < microseconds_per_day"
  shows "combine d t mod microseconds_per_day = t"
    and "valid_date d \<Longrightarrow> local_date (combine d t) = d"
proof -
  show "combine d t mod microseconds_per_day = t"
    unfolding combine_def mod_mult_self3 using assms by (rule mod_pos_pos_trivial)
  have "combine d t div microseconds_per_day = to_ordinal d - 719163"
    unfolding combine_def using assms by (intro int_div_pos_eq) auto
  then show "local_date (combine d t) = d" if "valid_date d"
    using that by (simp add: local_date_def utc_date_def from_to_ordinal)
qed

lemma monthly_date_valid:
  assumes "1 \<le> y" and "1 \<le> m" and "m \<le> 12" and "1 \<le> d"
  shows "valid_date (Date y m (min d (days_in_month y m)))"
  using assms days_in_month_pos [of y m] by (simp add: valid_date_def)

lemma daily_run:
  assumes "in_calendar now" and "0 \<le> t" and "t < microseconds_per_day"
  shows "now < next_local_run daily t now dw dm \<and>
    next_local_run daily t now dw dm \<le> now + microseconds_per_day \<and>
    next_local_run daily t now dw dm mod microseconds_per_day = t"
proof -
  define u where "u = now mod microseconds_per_day"
  have u: "0 \<le> u" "u < microseconds_per_day" by (simp_all add: u_def)
  have c: "combine (local_date now) t = now - u + t"
    unfolding u_def by (rule combine_local [OF assms(1)])
  have "next_local_run daily t now dw dm mod microseconds_per_day = t"
    using combine_time(1) [OF assms(2,3)] by (simp add: next_local_run_def Let_def)
  moreover have "now < next_local_run daily t now dw dm \<and>
      next_local_run daily t now dw dm \<le> now + microseconds_per_day"
    unfolding next_local_run_def Let_def schedule_frequency.case c using assms(2,3) u by simp
  ultimately show ?thesis by blast
qed

lemma weekly_run:
  assumes "in_calendar now" and "0 \<le> t" and "t < microseconds_per_day"
    and "1 \<le> or_one dw" and "or_one dw \<le> 7"
  shows "now < next_local_run weekly t now dw dm \<and>
    next_local_run weekly t now dw dm \<le> now + 7 * microseconds_per_day \<and>
    next_local_run weekly t now dw dm mod microseconds_per_day = t \<and>
    iso_weekday (local_date (next_local_run weekly t now dw dm)) = or_one dw"
proof -
  define k where "k = (or_one dw - 1 - (iso_weekday (local_date now) - 1)) mod 7"
  have k: "0 \<le> k" "k < 7" by (simp_all add: k_def)
  let ?o = "719163 + now div microseconds_per_day"
  have o1: "1 \<le> ?o" using assms(1) by (simp add: in_calendar_def)
  have day: "to_ordinal (add_days (local_date now) k) = ?o + k"
    using k o1 by (simp add: to_ordinal_add_days local_date_valid [OF assms(1)])
  define u where "u = now mod microseconds_per_day"
  have u: "0 \<le> u" "u < microseconds_per_day" by (simp_all add: u_def)
  have "now div microseconds_per_day * microseconds_per_day = now - u"
    by (simp add: u_def minus_mod_eq_div_mult)
  then have c: "combine (add_days (local_date now) k) t = now - u + k * microseconds_per_day + t"
    by (simp add: combine_def day algebra_simps)
  define r where "r = next_local_run weekly t now dw dm"
  have r: "r = (if combine (add_days (local_date now) k) t \<le> now
      then combine (add_days (local_date now) k) t + 7 * microseconds_per_day
      else combine (add_days (local_date now) k) t)"
    by (simp add: r_def next_local_run_def Let_def k_def)
  have bounds: "now < r \<and> r \<le> now + 7 * microseconds_per_day"
  proof (cases "k = 0")
    case True
    then show ?thesis unfolding r c using assms(2,3) u by simp
  next
    case False
    then have "1 \<le> k" "k \<le> 6" using k by simp_all
    then show ?thesis unfolding r c using assms(2,3) u by auto
  qed
  define j where "j = (if combine (add_days (local_date now) k) t \<le> now then k + 7 else k)"
  have "r = combine (add_days (local_date now) j) t"
    using k o1 by (simp add: r j_def combine_def to_ordinal_add_days local_date_valid [OF assms(1)])
  moreover have "valid_date (add_days (local_date now) j)"
    using k o1 from_ordinal_valid [of "?o + j"]
    by (simp add: add_days_def local_date_valid [OF assms(1)] j_def split: if_splits)
  ultimately have date: "local_date r = add_days (local_date now) j"
    and time: "r mod microseconds_per_day = t"
    using combine_time [OF assms(2,3)] by simp_all
  have "iso_weekday (local_date r) = (?o + j - 1) mod 7 + 1"
    using k o1 by (simp add: date iso_weekday_def j_def to_ordinal_add_days local_date_valid [OF assms(1)])
  also have "?o + j - 1 = (?o - 1 + k) + (if j = k then 0 else 7)" by (simp add: j_def)
  also have "((?o - 1 + k) + (if j = k then 0 else 7)) mod 7 = (?o - 1 + k) mod 7"
    by (cases "j = k") (simp_all only: refl if_True if_False add_0_right mod_add_self2)
  also have "k = (or_one dw - 1 - (?o - 1) mod 7) mod 7"
    by (simp add: k_def iso_weekday_def local_date_valid [OF assms(1)])
  also have "(?o - 1 + (or_one dw - 1 - (?o - 1) mod 7) mod 7) mod 7 = or_one dw - 1"
    using assms(4,5) by (simp add: mod_simps)
  finally show ?thesis using bounds time by (simp add: r_def)
qed

text \<open>The day of a monthly candidate, and that the candidate of the next month is later.\<close>

lemma monthly_candidate_parts:
  assumes "0 \<le> t" and "t < microseconds_per_day" and "1 \<le> y" and "1 \<le> m" and "m \<le> 12" and "1 \<le> d"
  shows "monthly_candidate y m d t mod microseconds_per_day = t"
    and "local_date (monthly_candidate y m d t) = Date y m (min d (days_in_month y m))"
  unfolding monthly_candidate_def
  by (rule combine_time(1) [OF assms(1,2)],
      rule combine_time(2) [OF assms(1,2) monthly_date_valid [OF assms(3-6)]])

lemma month_length: "days_in_month y m \<le> 31"
  by (simp add: days_in_month_def)

lemma next_month_ordinal:
  assumes "valid_date d" and "1 \<le> target"
    and "ym = (if month d + 1 > 12 then (year d + 1, 1) else (year d, month d + 1))"
  shows "1 \<le> fst ym \<and> 1 \<le> snd ym \<and> snd ym \<le> 12 \<and>
    to_ordinal d < to_ordinal (Date (fst ym) (snd ym) (min target (days_in_month (fst ym) (snd ym)))) \<and>
    to_ordinal (Date (fst ym) (snd ym) (min target (days_in_month (fst ym) (snd ym)))) \<le> to_ordinal d + 61"
proof -
  let ?d' = "Date (fst ym) (snd ym) (min target (days_in_month (fst ym) (snd ym)))"
  have v: "1 \<le> year d" "1 \<le> month d" "month d \<le> 12" "1 \<le> day d"
    using assms(1) by (simp_all add: valid_date_def)
  then have ym: "1 \<le> fst ym" "1 \<le> snd ym" "snd ym \<le> 12" by (auto simp: assms(3))
  have "d < ?d'" using v by (simp add: less_date_def assms(3))
  then have less: "to_ordinal d < to_ordinal ?d'"
    by (rule to_ordinal_less [OF assms(1) monthly_date_valid [OF ym assms(2)]])
  have start: "days_before_year (fst ym) + days_before_month (fst ym) (snd ym) =
      days_before_year (year d) + days_before_month (year d) (month d) + days_in_month (year d) (month d)"
  proof (cases "month d = 12")
    case True
    then show ?thesis
      by (simp add: assms(3) days_before_year_Suc days_before_month_def days_in_month_def)
  next
    case False
    then show ?thesis using v days_before_month_Suc [of "month d" "year d"] by (simp add: assms(3))
  qed
  have "to_ordinal ?d' \<le> to_ordinal d + 61"
    using start v month_length [of "year d" "month d"] month_length [of "fst ym" "snd ym"]
    unfolding to_ordinal_def date.sel by linarith
  with ym less show ?thesis by blast
qed

lemma monthly_run:
  assumes "in_calendar now" and "0 \<le> t" and "t < microseconds_per_day" and "1 \<le> or_one dm"
  shows "now < next_local_run monthly t now dw dm \<and>
    next_local_run monthly t now dw dm \<le> now + 62 * microseconds_per_day \<and>
    next_local_run monthly t now dw dm mod microseconds_per_day = t \<and>
    (\<exists>y m. local_date (next_local_run monthly t now dw dm) =
      Date y m (min (or_one dm) (days_in_month y m)))"
proof -
  define d where "d = local_date now"
  have vd: "valid_date d" "to_ordinal d = 719163 + now div microseconds_per_day"
    unfolding d_def by (rule local_date_valid [OF assms(1)])+
  then have v: "1 \<le> year d" "1 \<le> month d" "month d \<le> 12" by (simp_all add: valid_date_def)
  define u where "u = now mod microseconds_per_day"
  have u: "0 \<le> u" "u < microseconds_per_day" by (simp_all add: u_def)
  have "now div microseconds_per_day * microseconds_per_day = now - u"
    by (simp add: u_def minus_mod_eq_div_mult)
  then have now: "now = (to_ordinal d - 719163) * microseconds_per_day + u" by (simp add: vd(2))
  define c where "c = monthly_candidate (year d) (month d) (or_one dm) t"
  show ?thesis
  proof (cases "c \<le> now")
    case False
    then have r: "next_local_run monthly t now dw dm = c"
      by (simp add: next_local_run_def Let_def c_def d_def)
    have "to_ordinal (Date (year d) (month d) (min (or_one dm) (days_in_month (year d) (month d))))
        \<le> to_ordinal d + 31"
      using vd(1) month_length [of "year d" "month d"] unfolding to_ordinal_def date.sel valid_date_def
      by linarith
    then have "c \<le> now + 62 * microseconds_per_day"
      unfolding c_def monthly_candidate_def combine_def now using assms(3) u
      by (simp add: algebra_simps)
    with False show ?thesis
      unfolding r c_def using monthly_candidate_parts [OF assms(2,3) v assms(4)] by auto
  next
    case True
    define ym where "ym = (if month d + 1 > 12 then (year d + 1, 1) else (year d, month d + 1))"
    have r: "next_local_run monthly t now dw dm = monthly_candidate (fst ym) (snd ym) (or_one dm) t"
      using True by (simp add: next_local_run_def Let_def c_def d_def ym_def)
    note n = next_month_ordinal [OF vd(1) assms(4) ym_def]
    then have ym: "1 \<le> fst ym" "1 \<le> snd ym" "snd ym \<le> 12" by blast+
    have "now < monthly_candidate (fst ym) (snd ym) (or_one dm) t \<and>
        monthly_candidate (fst ym) (snd ym) (or_one dm) t \<le> now + 62 * microseconds_per_day"
      unfolding monthly_candidate_def combine_def using n now u assms(2,3)
      by (simp add: algebra_simps)
    then show ?thesis
      unfolding r using monthly_candidate_parts [OF assms(2,3) ym assms(4)] by auto
  qed
qed

end
