(* ===== verification/CustomReports.thy ===== *)
theory CustomReports
  imports ReportCompiler ReportSchedule FileStore
begin

text \<open>
  Saved reports (\<open>app/services/custom_reports.py\<close>, \<open>app/models/custom_reports.py\<close>): who may
  create, see and delete them, and their scheduled runs with up to three attempts.  The query
  executor, the renderer of the package and the notification sender are arguments: what they
  answer in each attempt.  Rows are written where the code assigns to them; a call that raises
  keeps what it had written before, so the runs return the state beside their result.
\<close>

subsection \<open>Data\<close>

datatype share_scope = private_share | department_share | global_share

datatype run_status = queued | running | completed | failed

fun run_status_value :: "run_status \<Rightarrow> string" where
  "run_status_value run_status.queued = ''queued''"
| "run_status_value run_status.running = ''running''"
| "run_status_value run_status.completed = ''completed''"
| "run_status_value run_status.failed = ''failed''"

record custom_report =
  cr_id :: uuid
  cr_name :: string
  cr_description :: "string option"
  cr_owner_id :: uuid
  cr_owner_dept_id :: "uuid option"
  cr_dataset :: string
  cr_query_config :: query_config
  cr_chart_type :: string
  cr_share_scope :: share_scope
  cr_schedule_frequency :: "schedule_frequency option"
  cr_schedule_time :: "int option"
  cr_schedule_day_of_week :: "int option"
  cr_schedule_day_of_month :: "int option"
  cr_schedule_timezone :: "string option"
  cr_last_run_at :: "datetime option"
  cr_next_run_at :: "datetime option"
  cr_is_active :: bool
  cr_created_at :: datetime
  cr_updated_at :: datetime

record report_run =
  run_id :: uuid
  run_report_id :: uuid
  run_triggered_by_id :: "uuid option"
  run_status :: run_status
  run_row_count :: int
  run_storage_key :: "string option"
  run_file_format :: "string option"
  run_error_message :: "string option"
  run_started_at :: "datetime option"
  run_finished_at :: "datetime option"
  run_created_at :: datetime
  run_updated_at :: datetime

record report_create =
  cc_name :: string
  cc_description :: "string option"
  cc_query_config :: query_config
  cc_chart_type :: string
  cc_share_scope :: share_scope
  cc_schedule_frequency :: "schedule_frequency option"
  cc_schedule_time :: "int option"
  cc_schedule_day_of_week :: "int option"
  cc_schedule_day_of_month :: "int option"
  cc_schedule_timezone :: "string option"

text \<open>The field bounds of the schema and its validator \<open>validate_schedule\<close>.\<close>

definition validate_schedule :: "report_create \<Rightarrow> bool" where
  "validate_schedule c \<longleftrightarrow>
     (case cc_schedule_frequency c of None \<Rightarrow> True
      | Some frequency \<Rightarrow> cc_schedule_time c \<noteq> None \<and> cc_schedule_timezone c \<noteq> None \<and>
          (frequency = weekly \<longrightarrow> cc_schedule_day_of_week c \<noteq> None) \<and>
          (frequency = monthly \<longrightarrow> cc_schedule_day_of_month c \<noteq> None))"

definition valid_report_create :: "report_create \<Rightarrow> bool" where
  "valid_report_create c \<longleftrightarrow>
     1 \<le> length (cc_name c) \<and> length (cc_name c) \<le> 120 \<and>
     (case cc_description c of None \<Rightarrow> True | Some t \<Rightarrow> length t \<le> 500) \<and>
     valid_query_config (cc_query_config c) \<and> length (cc_chart_type c) \<le> 32 \<and>
     (case cc_schedule_time c of None \<Rightarrow> True | Some t \<Rightarrow> 0 \<le> t \<and> t < microseconds_per_day) \<and>
     (case cc_schedule_day_of_week c of None \<Rightarrow> True | Some d \<Rightarrow> 1 \<le> d \<and> d \<le> 7) \<and>
     (case cc_schedule_day_of_month c of None \<Rightarrow> True | Some d \<Rightarrow> 1 \<le> d \<and> d \<le> 31) \<and>
     (case cc_schedule_timezone c of None \<Rightarrow> True | Some z \<Rightarrow> 1 \<le> length z \<and> length z \<le> 64) \<and>
     validate_schedule c"

record sent_report =
  sr_completed :: bool
  sr_report_id :: uuid
  sr_run_id :: uuid
  sr_receiver_ids :: "uuid list"

datatype report_audit_state = NoReport | ReportState custom_report | PreviewState int string

record report_audit =
  ra_actor_id :: uuid
  ra_action :: string
  ra_target_id :: string
  ra_before_state :: report_audit_state
  ra_after_state :: report_audit_state

record custom_store =
  cs_users :: "user list"
  cs_reports :: "custom_report list"
  cs_runs :: "report_run list"
  cs_storage :: "file_store option"
  cs_sent :: "sent_report list"
  cs_audit :: "report_audit list"
  cs_next_uuid :: uuid

text \<open>
  What one attempt of a run sees: its two readings of the clock and the answers of the query
  executor, the renderer and the sender (\<open>None\<close> is success).
\<close>

record attempt_world =
  aw_started :: datetime
  aw_finished :: datetime
  aw_query :: "compiled_query \<Rightarrow> py_error + payload list"
  aw_render :: "report_column list \<Rightarrow> payload list \<Rightarrow> py_error + string"
  aw_notified :: "py_error option"

record report_world =
  rw_zones :: time_zones
  rw_text :: "pyval \<Rightarrow> string"
  rw_error_text :: "py_error \<Rightarrow> string"
  rw_now :: datetime
  rw_attempt :: "nat \<Rightarrow> attempt_world"
  rw_failed_at :: datetime
  rw_failure_notified :: "py_error option"

definition create_report_roles :: "user_role list" where
  "create_report_roles = [admin, dept_manager]"

subsection \<open>Repository\<close>

definition find_report :: "uuid \<Rightarrow> custom_store \<Rightarrow> custom_report option" where
  "find_report k s = find (\<lambda>r. cr_id r = k \<and> cr_is_active r) (cs_reports s)"

definition add_report :: "custom_report \<Rightarrow> custom_store \<Rightarrow> custom_store" where
  "add_report r s = s\<lparr>cs_reports := cs_reports s @ [r]\<rparr>"

definition save_report ::
  "uuid \<Rightarrow> (custom_report \<Rightarrow> custom_report) \<Rightarrow> custom_store \<Rightarrow> custom_store" where
  "save_report k f s = s\<lparr>cs_reports := update_rows cr_id k f (cs_reports s)\<rparr>"

definition get_run :: "uuid \<Rightarrow> custom_store \<Rightarrow> report_run option" where
  "get_run k s = find_row run_id k (cs_runs s)"

definition add_run :: "report_run \<Rightarrow> custom_store \<Rightarrow> custom_store" where
  "add_run r s = s\<lparr>cs_runs := cs_runs s @ [r]\<rparr>"

definition save_run :: "uuid \<Rightarrow> (report_run \<Rightarrow> report_run) \<Rightarrow> custom_store \<Rightarrow> custom_store" where
  "save_run k f s = s\<lparr>cs_runs := update_rows run_id k f (cs_runs s)\<rparr>"

interpretation run_rows: row_store run_id cs_runs get_run add_run save_run
  by unfold_locales (simp_all add: get_run_def add_run_def save_run_def)

definition repo_list_reports :: "custom_store \<Rightarrow> custom_report list" where
  "repo_list_reports s = sorted_desc cr_created_at (filter cr_is_active (cs_reports s))"

definition list_due_scheduled_reports :: "datetime \<Rightarrow> custom_store \<Rightarrow> custom_report list" where
  "list_due_scheduled_reports due_at s =
     sort_key (\<lambda>r. the (cr_next_run_at r))
       (filter (\<lambda>r. cr_is_active r \<and> cr_schedule_frequency r \<noteq> None \<and>
          (case cr_next_run_at r of None \<Rightarrow> False | Some t \<Rightarrow> t \<le> due_at)) (cs_reports s))"

definition get_enabled_user :: "uuid \<Rightarrow> custom_store \<Rightarrow> user option" where
  "get_enabled_user k s = find (\<lambda>u. u_id u = k \<and> u_status u \<noteq> user_status.disabled) (cs_users s)"

definition list_share_receiver_ids :: "custom_report \<Rightarrow> custom_store \<Rightarrow> uuid list" where
  "list_share_receiver_ids r s =
     (let enabled = filter (\<lambda>u. u_status u \<noteq> user_status.disabled) (cs_users s);
          ids = (case cr_share_scope r of
              global_share \<Rightarrow> map u_id enabled
            | department_share \<Rightarrow> map u_id (filter (\<lambda>u. u_dept_id u = cr_owner_dept_id r) enabled)
            | private_share \<Rightarrow> [cr_owner_id r])
      in if cr_owner_id r \<in> set ids then ids else cr_owner_id r # ids)"

subsection \<open>Seeing and keeping reports\<close>

definition can_view :: "user \<Rightarrow> custom_report \<Rightarrow> bool" where
  "can_view actor r =
     (if u_role actor = admin \<or> cr_owner_id r = u_id actor then True
      else if cr_share_scope r = global_share then True
      else cr_share_scope r = department_share \<and> u_dept_id actor \<noteq> None \<and>
        u_dept_id actor = cr_owner_dept_id r)"

definition get_existing_report :: "uuid \<Rightarrow> custom_store \<Rightarrow> py_error + custom_report" where
  "get_existing_report k s =
     present (find_report k s) (ResourceNotFound ''Custom report does not exist'')"

definition get_visible_report :: "user \<Rightarrow> uuid \<Rightarrow> custom_store \<Rightarrow> py_error + custom_report" where
  "get_visible_report actor k s =
     attempt (get_existing_report k s) (\<lambda>r.
     attempt (guard (can_view actor r) PermissionDenied) (\<lambda>_. Inr r))"

definition record_report_audit ::
  "env \<Rightarrow> user \<Rightarrow> string \<Rightarrow> string \<Rightarrow> report_audit_state \<Rightarrow> report_audit_state \<Rightarrow>
     custom_store \<Rightarrow> custom_store" where
  "record_report_audit e actor action target before after s =
     (if \<not> auditing e then s
      else s\<lparr>cs_audit := cs_audit s @
        [\<lparr> ra_actor_id = (case ctx_actor_id (to_audit_context e actor) of
             Some i \<Rightarrow> i | None \<Rightarrow> u_id actor),
           ra_action = action, ra_target_id = target, ra_before_state = before,
           ra_after_state = after \<rparr>]\<rparr>)"

definition preview_query ::
  "env \<Rightarrow> report_world \<Rightarrow> (compiled_query \<Rightarrow> py_error + payload list) \<Rightarrow> user \<Rightarrow> query_config \<Rightarrow>
     custom_store \<Rightarrow> py_error + ((report_column list \<times> payload list \<times> int \<times> int) \<times> custom_store)" where
  "preview_query e w query actor config s =
     attempt (compile_query (rw_text w) default_registry actor config) (\<lambda>compiled.
     attempt (query compiled) (\<lambda>rows.
     Inr ((cq_columns compiled, rows, int (length rows), cq_limit compiled),
       record_report_audit e actor ''custom_report.preview'' (qc_dataset config) NoReport
         (PreviewState (int (length rows)) (qc_dataset config)) s)))"

definition preview_report ::
  "env \<Rightarrow> report_world \<Rightarrow> (compiled_query \<Rightarrow> py_error + payload list) \<Rightarrow> user \<Rightarrow> uuid \<Rightarrow>
     custom_store \<Rightarrow> py_error + ((report_column list \<times> payload list \<times> int \<times> int) \<times> custom_store)" where
  "preview_report e w query actor report_id s =
     attempt (get_visible_report actor report_id s) (\<lambda>r.
     preview_query e w query actor (cr_query_config r) s)"

definition next_run_at_from_payload ::
  "time_zones \<Rightarrow> report_create \<Rightarrow> datetime \<Rightarrow> py_error + datetime option" where
  "next_run_at_from_payload tz c from_utc =
     (case cc_schedule_frequency c of
        None \<Rightarrow> Inr None
      | Some frequency \<Rightarrow>
          attempt (calculate_next_run_at tz frequency (cc_schedule_time c) (cc_schedule_timezone c)
            from_utc (cc_schedule_day_of_week c) (cc_schedule_day_of_month c)) (\<lambda>t. Inr (Some t)))"

definition next_run_at_for_report ::
  "time_zones \<Rightarrow> custom_report \<Rightarrow> datetime \<Rightarrow> py_error + datetime option" where
  "next_run_at_for_report tz r from_utc =
     (case cr_schedule_frequency r of
        None \<Rightarrow> Inr None
      | Some frequency \<Rightarrow>
          attempt (calculate_next_run_at tz frequency (cr_schedule_time r) (cr_schedule_timezone r)
            (from_utc + 1000000) (cr_schedule_day_of_week r) (cr_schedule_day_of_month r))
            (\<lambda>t. Inr (Some t)))"

definition create_report ::
  "env \<Rightarrow> report_world \<Rightarrow> user \<Rightarrow> report_create \<Rightarrow> custom_store \<Rightarrow>
     py_error + (custom_report \<times> custom_store)" where
  "create_report e w actor c s =
     attempt (guard (u_role actor \<in> set create_report_roles) PermissionDenied) (\<lambda>_.
     attempt (compile_query (rw_text w) default_registry actor (cc_query_config c)) (\<lambda>_.
     attempt (next_run_at_from_payload (rw_zones w) c (rw_now w)) (\<lambda>next_run.
     let r = \<lparr> cr_id = cs_next_uuid s, cr_name = cc_name c, cr_description = cc_description c,
           cr_owner_id = u_id actor, cr_owner_dept_id = u_dept_id actor,
           cr_dataset = qc_dataset (cc_query_config c), cr_query_config = cc_query_config c,
           cr_chart_type = cc_chart_type c, cr_share_scope = cc_share_scope c,
           cr_schedule_frequency = cc_schedule_frequency c, cr_schedule_time = cc_schedule_time c,
           cr_schedule_day_of_week = cc_schedule_day_of_week c,
           cr_schedule_day_of_month = cc_schedule_day_of_month c,
           cr_schedule_timezone = cc_schedule_timezone c, cr_last_run_at = None,
           cr_next_run_at = next_run, cr_is_active = True, cr_created_at = rw_now w,
           cr_updated_at = rw_now w \<rparr>;
         s' = add_report r (s\<lparr>cs_next_uuid := Suc (cs_next_uuid s)\<rparr>)
     in Inr (r, record_report_audit e actor ''custom_report.create'' (str_uuid (cr_id r)) NoReport
          (ReportState r) s'))))"

definition list_reports :: "user \<Rightarrow> custom_store \<Rightarrow> custom_report list" where
  "list_reports actor s = filter (can_view actor) (repo_list_reports s)"

definition delete_report ::
  "env \<Rightarrow> report_world \<Rightarrow> user \<Rightarrow> uuid \<Rightarrow> custom_store \<Rightarrow>
     py_error + (custom_report \<times> custom_store)" where
  "delete_report e w actor report_id s =
     attempt (get_existing_report report_id s) (\<lambda>r.
     attempt (guard (\<not> (u_role actor \<noteq> admin \<and> cr_owner_id r \<noteq> u_id actor)) PermissionDenied) (\<lambda>_.
     let r' = r\<lparr>cr_is_active := False, cr_updated_at := rw_now w\<rparr>
     in Inr (r', record_report_audit e actor ''custom_report.delete'' (str_uuid report_id)
          (ReportState r) (ReportState r') (save_report report_id (\<lambda>_. r') s))))"

subsection \<open>Scheduled runs\<close>

definition storage_missing :: py_error where
  "storage_missing = BusinessError 3033 ''Custom report storage is not configured'' []"

definition write_run :: "report_run \<Rightarrow> custom_store \<Rightarrow> custom_store" where
  "write_run r s = save_run (run_id r) (\<lambda>_. r) s"

definition write_report :: "custom_report \<Rightarrow> custom_store \<Rightarrow> custom_store" where
  "write_report r s = save_report (cr_id r) (\<lambda>_. r) s"

definition send_report ::
  "bool \<Rightarrow> custom_report \<Rightarrow> report_run \<Rightarrow> uuid list \<Rightarrow> custom_store \<Rightarrow> custom_store" where
  "send_report ok r run receivers s =
     s\<lparr>cs_sent := cs_sent s @ [\<lparr> sr_completed = ok, sr_report_id = cr_id r, sr_run_id = run_id run,
        sr_receiver_ids = receivers \<rparr>]\<rparr>"

text \<open>An attempt: the error it raised, if any, and the objects and the state as it left them.\<close>

definition execute_scheduled_run ::
  "report_world \<Rightarrow> attempt_world \<Rightarrow> user \<Rightarrow> uuid list \<Rightarrow> custom_report \<times> report_run \<times> custom_store \<Rightarrow>
     py_error option \<times> custom_report \<times> report_run \<times> custom_store" where
  "execute_scheduled_run w a owner receivers start =
     (let (r, run, s) = start;
          run = run\<lparr> run_status := run_status.running,
            run_started_at := (case run_started_at run of Some t \<Rightarrow> Some t | None \<Rightarrow> Some (aw_started a)),
            run_error_message := None, run_updated_at := aw_started a \<rparr>;
          s = write_run run s
      in case cs_storage s of
           None \<Rightarrow> (Some storage_missing, start)
         | Some fs \<Rightarrow>
      case compile_query (rw_text w) default_registry owner (cr_query_config r) of
        Inl err \<Rightarrow> (Some err, r, run, s)
      | Inr compiled \<Rightarrow>
      case aw_query a compiled of
        Inl err \<Rightarrow> (Some err, r, run, s)
      | Inr rows \<Rightarrow>
      case aw_render a (cq_columns compiled) rows of
        Inl err \<Rightarrow> (Some err, r, run, s)
      | Inr package \<Rightarrow>
      case storage_save ''custom-reports'' (str_uuid (cr_id r)) ''custom_report.zip'' package fs of
        Inl err \<Rightarrow> (Some err, r, run, s)
      | Inr (key, fs') \<Rightarrow>
          let run = run\<lparr> run_storage_key := Some key, run_file_format := Some ''zip'',
                run_status := run_status.completed, run_row_count := int (length rows),
                run_finished_at := Some (aw_finished a), run_updated_at := aw_finished a \<rparr>;
              r = r\<lparr>cr_last_run_at := Some (aw_finished a)\<rparr>;
              s = write_report r (write_run run (s\<lparr>cs_storage := Some fs'\<rparr>))
          in case next_run_at_for_report (rw_zones w) r (aw_finished a) of
               Inl err \<Rightarrow> (Some err, r, run, s)
             | Inr next_run \<Rightarrow>
                 let r = r\<lparr>cr_next_run_at := next_run, cr_updated_at := aw_finished a\<rparr>;
                     s = write_report r s
                 in case aw_notified a of
                      Some err \<Rightarrow> (Some err, r, run, s)
                    | None \<Rightarrow> (None, r, run, send_report True r run receivers s))"

definition mark_scheduled_run_failed ::
  "report_world \<Rightarrow> uuid list \<Rightarrow> py_error \<Rightarrow> custom_report \<times> report_run \<times> custom_store \<Rightarrow>
     (py_error + report_run) \<times> custom_store" where
  "mark_scheduled_run_failed w receivers err start =
     (let (r, run, s) = start;
          now = rw_failed_at w;
          run = run\<lparr> run_status := run_status.failed,
            run_error_message := Some (rw_error_text w err), run_finished_at := Some now,
            run_updated_at := now \<rparr>;
          r = r\<lparr>cr_last_run_at := Some now\<rparr>;
          s = write_report r (write_run run s)
      in case next_run_at_for_report (rw_zones w) r now of
           Inl err \<Rightarrow> (Inl err, s)
         | Inr next_run \<Rightarrow>
             let r = r\<lparr>cr_next_run_at := next_run, cr_updated_at := now\<rparr>;
                 s = write_report r s
             in case rw_failure_notified w of
                  Some err \<Rightarrow> (Inl err, s)
                | None \<Rightarrow> (Inr run, send_report False r run receivers s))"

text \<open>\<open>for attempt in range(1, attempts + 1)\<close>, with the attempts that are left.\<close>

fun run_attempts ::
  "report_world \<Rightarrow> nat \<Rightarrow> nat \<Rightarrow> user \<Rightarrow> uuid list \<Rightarrow> custom_report \<times> report_run \<times> custom_store \<Rightarrow>
     (py_error + report_run) \<times> custom_store" where
  "run_attempts w 0 k owner receivers (r, run, s) = (Inr run, s)"
| "run_attempts w (Suc left) k owner receivers start =
     (let (err, r, run, s) = execute_scheduled_run w (rw_attempt w k) owner receivers start
      in case err of
           None \<Rightarrow> (Inr run, s)
         | Some e \<Rightarrow>
             if left \<noteq> 0 then run_attempts w left (Suc k) owner receivers (r, run, s)
             else mark_scheduled_run_failed w receivers e (r, run, s))"

definition run_scheduled_report ::
  "report_world \<Rightarrow> uuid \<Rightarrow> uuid option \<Rightarrow> int \<Rightarrow> custom_store \<Rightarrow>
     (py_error + report_run) \<times> custom_store" where
  "run_scheduled_report w report_id triggered_by_id max_attempts s =
     (if cs_storage s = None then (Inl storage_missing, s)
      else case get_existing_report report_id s of
        Inl err \<Rightarrow> (Inl err, s)
      | Inr r \<Rightarrow>
      case get_enabled_user (cr_owner_id r) s of
        None \<Rightarrow> (Inl (ResourceNotFound ''Custom report owner does not exist''), s)
      | Some owner \<Rightarrow>
          let run = \<lparr> run_id = cs_next_uuid s, run_report_id = cr_id r,
                run_triggered_by_id = triggered_by_id, run_status = run_status.queued,
                run_row_count = 0, run_storage_key = None, run_file_format = None,
                run_error_message = None, run_started_at = None, run_finished_at = None,
                run_created_at = rw_now w, run_updated_at = rw_now w \<rparr>;
              s = add_run run (s\<lparr>cs_next_uuid := Suc (cs_next_uuid s)\<rparr>)
          in run_attempts w (nat (max 1 max_attempts)) 0 owner (list_share_receiver_ids r s) (r, run, s))"

text \<open>The batch: its \<open>k\<close>-th report runs in the world \<open>ws k\<close>.\<close>

fun run_reports ::
  "(nat \<Rightarrow> report_world) \<Rightarrow> nat \<Rightarrow> int \<Rightarrow> custom_report list \<Rightarrow> int \<times> int \<Rightarrow> custom_store \<Rightarrow>
     (py_error + int \<times> int) \<times> custom_store" where
  "run_reports ws k max_attempts [] counts s = (Inr counts, s)"
| "run_reports ws k max_attempts (r # rs) counts s =
     (case run_scheduled_report (ws k) (cr_id r) (Some (cr_owner_id r)) max_attempts s of
        (Inl err, s') \<Rightarrow> (Inl err, s')
      | (Inr run, s') \<Rightarrow>
          run_reports ws (Suc k) max_attempts rs
            (if run_status run = run_status.completed then (fst counts + 1, snd counts)
             else (fst counts, snd counts + 1)) s')"

definition run_due_scheduled_reports ::
  "(nat \<Rightarrow> report_world) \<Rightarrow> datetime \<Rightarrow> int \<Rightarrow> custom_store \<Rightarrow>
     (py_error + int \<times> int \<times> int) \<times> custom_store" where
  "run_due_scheduled_reports ws now max_attempts s =
     (let reports = list_due_scheduled_reports now s
      in case run_reports ws 0 max_attempts reports (0, 0) s of
           (Inl err, s') \<Rightarrow> (Inl err, s')
         | (Inr (done_count, failed_count), s') \<Rightarrow>
             (Inr (int (length reports), done_count, failed_count), s'))"

definition download_run :: "user \<Rightarrow> uuid \<Rightarrow> custom_store \<Rightarrow> py_error + string" where
  "download_run actor k s =
     (case cs_storage s of
        None \<Rightarrow> Inl storage_missing
      | Some fs \<Rightarrow>
     attempt (present (get_run k s) (ResourceNotFound ''Custom report run does not exist'')) (\<lambda>run.
     attempt (guard (run_status run = run_status.completed)
       (BusinessError 3034 ''Custom report export is not ready''
         [(''status'', PStr (run_status_value (run_status run)))])) (\<lambda>_.
     attempt (present (run_storage_key run)
       (ResourceNotFound ''Custom report export file does not exist'')) (\<lambda>key.
     attempt (get_visible_report actor (run_report_id run) s) (\<lambda>_.
     storage_read key fs)))))"

end
