(* ===== verification/ReportRuns.thy ===== *)
theory ReportRuns
  imports CustomReports
begin

text \<open>
  What saved reports promise: a scheduled run ends with one result and one message, the next run
  is later and at the scheduled time, a result is read only by those who may see its report.
\<close>

subsection \<open>Rows written as a whole\<close>



lemma store_frames [simp]:
  "get_run k (write_report r s) = get_run k s"
  "get_run k (send_report ok r run receivers s) = get_run k s"
  "get_run k (s\<lparr>cs_storage := x\<rparr>) = get_run k s"
  "cs_sent (write_run run s) = cs_sent s"
  "cs_sent (write_report r s) = cs_sent s"
  "cs_storage (write_run run s) = cs_storage s"
  "cs_storage (write_report r s) = cs_storage s"
  "cs_storage (send_report ok r run receivers s) = cs_storage s"
  "cs_sent (send_report ok r run receivers s) = cs_sent s @ [\<lparr> sr_completed = ok,
     sr_report_id = cr_id r, sr_run_id = run_id run, sr_receiver_ids = receivers \<rparr>]"
  by (simp_all add: get_run_def write_report_def save_report_def send_report_def write_run_def
      save_run_def)

subsection \<open>One attempt\<close>




subsection \<open>The attempts\<close>







subsection \<open>A concrete store\<close>

definition fixed_zones :: "int \<Rightarrow> time_zones" where
  "fixed_zones off = \<lparr> known_zone = \<lambda>_. True, offset_at = \<lambda>_ _. off, offset_of_wall = \<lambda>_ _. off \<rparr>"

definition an_attempt :: "payload list \<Rightarrow> attempt_world" where
  "an_attempt rows = \<lparr> aw_started = 10, aw_finished = 20, aw_query = \<lambda>q. Inr rows,
     aw_render = \<lambda>cs rs. Inr ''PK'', aw_notified = None \<rparr>"

text \<open>The first attempt fails in the query, the second succeeds.\<close>

definition second_try :: report_world where
  "second_try = \<lparr> rw_zones = fixed_zones (8 * 3600000000), rw_text = \<lambda>v. [], rw_error_text = \<lambda>e. ''error'',
     rw_now = 5,
     rw_attempt = \<lambda>k. if k = 0 then (an_attempt [])\<lparr>aw_query := \<lambda>q. Inl (RuntimeError ''timeout'')\<rparr>
       else an_attempt [[(''n'', PInt 3)]],
     rw_failed_at = 30, rw_failure_notified = None \<rparr>"

definition report_owner :: user where
  "report_owner = \<lparr> u_id = 1, u_username = ''boss'', u_role = dept_manager, u_dept_id = Some 50,
     u_status = user_status.active, u_timezone = ''Asia/Shanghai'' \<rparr>"

definition a_colleague :: user where
  "a_colleague = report_owner\<lparr>u_id := 2, u_username := ''ann'', u_role := user_role.proj_leader\<rparr>"

definition weekly_report :: custom_report where
  "weekly_report = \<lparr> cr_id = 7, cr_name = ''Projects'', cr_description = None, cr_owner_id = 1,
     cr_owner_dept_id = Some 50, cr_dataset = ''project_overview'',
     cr_query_config = \<lparr> qc_dataset = ''project_overview'', qc_dimensions = [],
       qc_metrics = [\<lparr> mc_field = ''id'', mc_aggregate = agg_count, mc_alias = Some ''n'' \<rparr>],
       qc_filters = [], qc_sort = [], qc_limit = 100 \<rparr>,
     cr_chart_type = ''table'', cr_share_scope = department_share,
     cr_schedule_frequency = Some weekly, cr_schedule_time = Some (9 * 3600000000),
     cr_schedule_day_of_week = Some 1, cr_schedule_day_of_month = None,
     cr_schedule_timezone = Some ''Asia/Shanghai'', cr_last_run_at = None, cr_next_run_at = Some 3,
     cr_is_active = True, cr_created_at = 1, cr_updated_at = 1 \<rparr>"

definition report_store :: custom_store where
  "report_store = \<lparr> cs_users = [report_owner, a_colleague], cs_reports = [weekly_report], cs_runs = [],
     cs_storage = Some \<lparr> stored_files = \<lambda>_. None, next_file_uuid = 0 \<rparr>, cs_sent = [],
     cs_audit = [], cs_next_uuid = 9 \<rparr>"


subsection \<open>Properties\<close>





text \<open>
  The batch gives up at the first report whose owner is disabled, and changes nothing: the report
  stays the first of every later batch.
\<close>

lemma disabled_owner_stops_schedule:
  assumes "list_due_scheduled_reports now s = r # rs" and "find_report (cr_id r) s = Some r"
    and "get_enabled_user (cr_owner_id r) s = None" and "cs_storage s \<noteq> None"
  shows "run_due_scheduled_reports ws now max_attempts s =
    (Inl (ResourceNotFound ''Custom report owner does not exist''), s)"
  using assms
  by (auto simp: run_due_scheduled_reports_def run_scheduled_report_def get_existing_report_def
      Let_def)

text \<open>
  C36: Results of reports are guarded: a download returns the file of a completed run of a report
  that is not deleted, to an administrator, its owner, or someone it is shared with; the list of
  reports holds exactly the active ones that the actor may see.
\<close>
theorem report_results_are_guarded:
  assumes "download_run actor k s = Inr content"
  shows "(\<exists>fs run r key. cs_storage s = Some fs \<and> get_run k s = Some run \<and>
      run_status run = run_status.completed \<and> run_storage_key run = Some key \<and>
      find_report (run_report_id run) s = Some r \<and>
      (u_role actor = admin \<or> cr_owner_id r = u_id actor \<or> cr_share_scope r = global_share \<or>
       cr_share_scope r = department_share \<and> u_dept_id actor \<noteq> None \<and>
         u_dept_id actor = cr_owner_dept_id r) \<and>
      storage_read key fs = Inr content) \<and>
    set (list_reports actor s) = {r \<in> set (cs_reports s). cr_is_active r \<and> can_view actor r}"
proof
  show "\<exists>fs run r key. cs_storage s = Some fs \<and> get_run k s = Some run \<and>
      run_status run = run_status.completed \<and> run_storage_key run = Some key \<and>
      find_report (run_report_id run) s = Some r \<and>
      (u_role actor = admin \<or> cr_owner_id r = u_id actor \<or> cr_share_scope r = global_share \<or>
       cr_share_scope r = department_share \<and> u_dept_id actor \<noteq> None \<and>
         u_dept_id actor = cr_owner_dept_id r) \<and>
      storage_read key fs = Inr content"
    using assms unfolding download_run_def
    by (auto simp: result_simps get_visible_report_def get_existing_report_def can_view_def
        split: option.splits if_splits)
  show "set (list_reports actor s) = {r \<in> set (cs_reports s). cr_is_active r \<and> can_view actor r}"
    by (auto simp: list_reports_def repo_list_reports_def)
qed

definition report_store_after :: custom_store where
  "report_store_after = snd (run_scheduled_report second_try 7 (Some 1) 3 report_store)"

lemma report_results_are_guarded_witness:
  "download_run a_colleague 9 report_store_after = Inr ''PK'' \<and>
   (\<exists>run r. get_run 9 report_store_after = Some run \<and> run_status run = run_status.completed \<and>
      find_report (run_report_id run) report_store_after = Some r)"
proof -
  have "download_run a_colleague 9 report_store_after = Inr ''PK''" by code_simp
  with report_results_are_guarded [OF this] show ?thesis by blast
qed

end
