(* ===== verification/Accounts.thy ===== *)
theory Accounts
  imports Sessions
begin

text \<open>
  The administration of users and departments (\<open>app/services/users.py\<close>,
  \<open>app/services/departments.py\<close>).  The queries are those of the in-memory repositories; where
  these hold given numbers, the count of the SQLAlchemy repository over the same tables.  The foreign key of an account to its department is checked by the
  commit and set to NULL when the department is deleted (\<open>app/models/users.py\<close>).  The number
  of sub projects in flight is counted in the project database.

  The payloads have passed their schemas (lengths and time zone names).  An optional field of
  an update is \<open>None\<close> when it is not set or null; \<open>uu_email\<close> and \<open>uu_dept_id\<close> distinguish a
  field that is set to null.
\<close>

subsection \<open>Data\<close>

record user_create =
  uc_username :: string
  uc_password :: string
  uc_role :: user_role
  uc_email :: "string option"
  uc_dept_id :: "uuid option"
  uc_sso_required :: bool
  uc_timezone :: string

datatype 'a update_field = Unset | SetTo 'a

record user_update =
  uu_username :: "string option update_field"
  uu_email :: "string option update_field"
  uu_role :: "user_role option update_field"
  uu_dept_id :: "uuid option update_field"
  uu_sso_required :: "bool option update_field"
  uu_timezone :: "string option update_field"

fun field_value :: "'a option update_field \<Rightarrow> 'a option" where
  "field_value Unset = None"
| "field_value (SetTo v) = v"

subsection \<open>Repositories\<close>

definition get_by_email :: "string \<Rightarrow> auth_state \<Rightarrow> account option" where
  "get_by_email address s = find (\<lambda>a. ac_email a = Some address) (as_accounts s)"

definition repo_list_users ::
  "user_role option \<Rightarrow> int \<Rightarrow> int \<Rightarrow> auth_state \<Rightarrow> account list \<times> int" where
  "repo_list_users role page page_size s =
     (let filtered = filter (\<lambda>a. role = None \<or> Some (u_role a) = role) (as_accounts s);
          start = (page - 1) * page_size
      in (py_slice filtered start (start + page_size), int (length filtered)))"

definition count_active_sub_projects_for_leader :: "uuid \<Rightarrow> database \<Rightarrow> int" where
  "count_active_sub_projects_for_leader k db =
     int (length (filter (\<lambda>s. sp_manager_id s = k \<and> sp_status s \<in>
       {sub_project_status.not_started, sub_project_status.in_progress,
        sub_project_status.completed}) (sub_projects db)))"

definition get_department :: "uuid \<Rightarrow> auth_state \<Rightarrow> department option" where
  "get_department k s = find_row dp_id k (as_departments s)"

definition add_department :: "department \<Rightarrow> auth_state \<Rightarrow> auth_state" where
  "add_department d s = s\<lparr>as_departments := as_departments s @ [d]\<rparr>"

definition save_department :: "uuid \<Rightarrow> (department \<Rightarrow> department) \<Rightarrow> auth_state \<Rightarrow> auth_state" where
  "save_department k f s = s\<lparr>as_departments := update_rows dp_id k f (as_departments s)\<rparr>"

interpretation department_rows:
  row_store dp_id as_departments get_department add_department save_department
  by unfold_locales
    (simp_all add: get_department_def add_department_def save_department_def)

definition get_by_code :: "string \<Rightarrow> auth_state \<Rightarrow> department option" where
  "get_by_code code s = find (\<lambda>d. dp_code d = code) (as_departments s)"

definition get_by_name :: "string \<Rightarrow> auth_state \<Rightarrow> department option" where
  "get_by_name name s = find (\<lambda>d. dp_name d = name) (as_departments s)"

definition count_active_users :: "uuid \<Rightarrow> auth_state \<Rightarrow> int" where
  "count_active_users k s =
     int (length (filter (\<lambda>a. u_dept_id a = Some k \<and> u_status a \<noteq> user_status.disabled)
       (as_accounts s)))"

text \<open>Deleting a row of \<open>departments\<close> sets the references to it to NULL.\<close>

definition repo_delete_department :: "uuid \<Rightarrow> auth_state \<Rightarrow> auth_state" where
  "repo_delete_department k s =
     s\<lparr>as_departments := filter (\<lambda>d. dp_id d \<noteq> k) (as_departments s),
       as_accounts := map (\<lambda>a. if u_dept_id a = Some k then a\<lparr>u_dept_id := None\<rparr> else a)
         (as_accounts s)\<rparr>"

definition check_department_reference :: "uuid option \<Rightarrow> auth_state \<Rightarrow> py_error + unit" where
  "check_department_reference dept s =
     (case dept of
        None \<Rightarrow> Inr ()
      | Some k \<Rightarrow> guard (get_department k s \<noteq> None) (IntegrityError ''users.dept_id''))"

subsection \<open>Users\<close>

definition ensure_admin :: "'a user_scheme \<Rightarrow> py_error + unit" where
  "ensure_admin actor = guard (u_role actor = user_role.admin) PermissionDenied"

definition validate_password :: "string \<Rightarrow> py_error + unit" where
  "validate_password password =
     (case validate_password_strength password of
        Inl (ValueError message) \<Rightarrow> Inl (PasswordStrength message)
      | r \<Rightarrow> r)"

definition ensure_unique_username :: "string \<Rightarrow> uuid option \<Rightarrow> auth_state \<Rightarrow> py_error + unit" where
  "ensure_unique_username name excluding s =
     (case get_by_username name s of
        None \<Rightarrow> Inr ()
      | Some a \<Rightarrow> guard (Some (u_id a) = excluding) (ResourceConflict ''User name already exists''))"

definition ensure_unique_email :: "string \<Rightarrow> uuid option \<Rightarrow> auth_state \<Rightarrow> py_error + unit" where
  "ensure_unique_email address excluding s =
     (case get_by_email address s of
        None \<Rightarrow> Inr ()
      | Some a \<Rightarrow> guard (Some (u_id a) = excluding) (ResourceConflict ''Email already exists''))"

definition get_existing_user :: "uuid \<Rightarrow> auth_state \<Rightarrow> py_error + account" where
  "get_existing_user k s = present (get_account k s) (ResourceNotFound ''User does not exist'')"

definition list_users ::
  "account \<Rightarrow> user_role option \<Rightarrow> int \<Rightarrow> int \<Rightarrow> auth_state \<Rightarrow> py_error + (account list \<times> int)" where
  "list_users actor role page page_size s =
     attempt (ensure_admin actor) (\<lambda>_. Inr (repo_list_users role page page_size s))"

definition create_user ::
  "'tok crypto \<Rightarrow> moment \<Rightarrow> account \<Rightarrow> user_create \<Rightarrow> auth_state \<Rightarrow>
     py_error + (account \<times> auth_state)" where
  "create_user c t actor payload s =
     attempt (ensure_admin actor) (\<lambda>_.
     attempt (validate_password (uc_password payload)) (\<lambda>_.
     attempt (ensure_unique_username (uc_username payload) None s) (\<lambda>_.
     attempt (case uc_email payload of None \<Rightarrow> Inr () | Some e \<Rightarrow> ensure_unique_email e None s) (\<lambda>_.
     attempt (check_department_reference (uc_dept_id payload) s) (\<lambda>_.
     let a = \<lparr> u_id = as_next_uuid s, u_username = uc_username payload, u_role = uc_role payload,
           u_dept_id = uc_dept_id payload, u_status = user_status.active,
           u_timezone = uc_timezone payload, ac_email = uc_email payload,
           ac_password_hash = password_hash c (as_next_uuid s) (uc_password payload),
           ac_sso_required = uc_sso_required payload, ac_password_changed_at = Some (wall t),
           ac_last_login_at = None, ac_created_at = wall t \<rparr>
     in Inr (a, add_account a (s\<lparr>as_next_uuid := Suc (as_next_uuid s)\<rparr>)))))))"

definition get_user_account :: "account \<Rightarrow> uuid \<Rightarrow> auth_state \<Rightarrow> py_error + account" where
  "get_user_account actor k s =
     attempt (get_existing_user k s) (\<lambda>a.
     attempt (guard (\<not> (u_role actor \<noteq> user_role.admin \<and> u_id actor \<noteq> u_id a)) PermissionDenied)
       (\<lambda>_. Inr a))"

text \<open>
  The checks before the assignments, then the assignments, which the commit writes: in the
  code the assignment of a user name precedes the check of the email, but a request that raises
  is rolled back.  The account is looked up again only through its identifier.
\<close>

definition apply_user_update :: "bool \<Rightarrow> user_update \<Rightarrow> account \<Rightarrow> account" where
  "apply_user_update is_admin payload a =
     a\<lparr>u_username := (case field_value (uu_username payload) of None \<Rightarrow> u_username a | Some v \<Rightarrow> v),
       ac_email := (case uu_email payload of Unset \<Rightarrow> ac_email a | SetTo v \<Rightarrow> v),
       u_role := (case field_value (uu_role payload) of None \<Rightarrow> u_role a
         | Some v \<Rightarrow> if is_admin then v else u_role a),
       u_dept_id := (case uu_dept_id payload of Unset \<Rightarrow> u_dept_id a
         | SetTo v \<Rightarrow> if is_admin then v else u_dept_id a),
       ac_sso_required := (case field_value (uu_sso_required payload) of None \<Rightarrow> ac_sso_required a
         | Some v \<Rightarrow> if is_admin then v else ac_sso_required a),
       u_timezone := (case field_value (uu_timezone payload) of None \<Rightarrow> u_timezone a | Some v \<Rightarrow> v)\<rparr>"

text \<open>
  The audit entry of a changed SSO policy, which the writer queues under the audit context of
  the request, is returned beside the account.
\<close>

record sso_audit =
  sa_target_id :: string
  sa_before :: bool
  sa_after :: bool

definition update_user ::
  "account \<Rightarrow> uuid \<Rightarrow> user_update \<Rightarrow> auth_state \<Rightarrow>
     py_error + (account \<times> sso_audit option \<times> auth_state)" where
  "update_user actor k payload s =
     attempt (get_existing_user k s) (\<lambda>a.
     let is_admin = (u_role actor = user_role.admin) in
     attempt (guard (is_admin \<or> u_id actor = u_id a) PermissionDenied) (\<lambda>_.
     attempt (guard (is_admin \<or> (uu_username payload = Unset \<and> uu_role payload = Unset \<and>
         uu_dept_id payload = Unset \<and> uu_sso_required payload = Unset)) PermissionDenied) (\<lambda>_.
     attempt (case field_value (uu_username payload) of
         None \<Rightarrow> Inr ()
       | Some v \<Rightarrow> if v = u_username a then Inr ()
                 else ensure_unique_username v (Some (u_id a)) s) (\<lambda>_.
     attempt (case uu_email payload of
         Unset \<Rightarrow> Inr ()
       | SetTo None \<Rightarrow> Inr ()
       | SetTo (Some v) \<Rightarrow> if Some v = ac_email a then Inr ()
                         else ensure_unique_email v (Some (u_id a)) s) (\<lambda>_.
     let b = apply_user_update is_admin payload a in
     attempt (check_department_reference (u_dept_id b) s) (\<lambda>_.
     Inr (b,
       (if ac_sso_required b \<noteq> ac_sso_required a
        then Some \<lparr> sa_target_id = str_uuid (u_id a),
                     sa_before = ac_sso_required a, sa_after = ac_sso_required b \<rparr>
        else None),
       save_account k (apply_user_update is_admin payload) s)))))))"

text \<open>The revocation of the tokens is a call of its own store, before the commit.\<close>

definition disable_user ::
  "int \<Rightarrow> moment \<Rightarrow> account \<Rightarrow> uuid \<Rightarrow> database \<Rightarrow> auth_state \<Rightarrow>
     py_error + (account \<times> auth_state)" where
  "disable_user ttl t actor k db s =
     attempt (ensure_admin actor) (\<lambda>_.
     attempt (get_existing_user k s) (\<lambda>a.
     attempt (if u_role a = user_role.proj_leader
        then let in_flight = count_active_sub_projects_for_leader (u_id a) db
             in guard (\<not> 0 < in_flight) (InFlightProjectsBlockDisable in_flight)
        else Inr ()) (\<lambda>_.
     let f = (\<lambda>r. r\<lparr>u_status := user_status.disabled\<rparr>) in
     Inr (f a, save_account k f (revoke_user_tokens t (str_uuid (u_id a)) ttl s)))))"

definition new_password ::
  "'tok crypto \<Rightarrow> moment \<Rightarrow> nat \<Rightarrow> string \<Rightarrow> user_status \<Rightarrow> account \<Rightarrow> account" where
  "new_password c t salt password status a =
     a\<lparr>ac_password_hash := password_hash c salt password, u_status := status,
       ac_password_changed_at := Some (wall t)\<rparr>"

definition reset_password ::
  "'tok crypto \<Rightarrow> int \<Rightarrow> moment \<Rightarrow> account \<Rightarrow> uuid \<Rightarrow> string \<Rightarrow> auth_state \<Rightarrow>
     py_error + (account \<times> auth_state)" where
  "reset_password c ttl t actor k password s =
     attempt (ensure_admin actor) (\<lambda>_.
     attempt (get_existing_user k s) (\<lambda>a.
     attempt (validate_password password) (\<lambda>_.
     let f = new_password c t (as_next_uuid s) password user_status.password_reset_required in
     Inr (f a, save_account k f (revoke_user_tokens t (str_uuid (u_id a)) ttl
       (s\<lparr>as_next_uuid := Suc (as_next_uuid s)\<rparr>))))))"

text \<open>The actor of a password change is the account of the request.\<close>

definition change_own_password ::
  "'tok crypto \<Rightarrow> int \<Rightarrow> moment \<Rightarrow> account \<Rightarrow> string \<Rightarrow> string \<Rightarrow> auth_state \<Rightarrow>
     py_error + (account \<times> auth_state)" where
  "change_own_password c ttl t actor old_password password s =
     attempt (guard (password_verify c old_password (ac_password_hash actor))
       (AuthenticationError ''The old password is wrong'')) (\<lambda>_.
     attempt (validate_password password) (\<lambda>_.
     let f = new_password c t (as_next_uuid s) password user_status.active in
     Inr (f actor, save_account (u_id actor) f (revoke_user_tokens t (str_uuid (u_id actor)) ttl
       (s\<lparr>as_next_uuid := Suc (as_next_uuid s)\<rparr>)))))"

subsection \<open>Departments\<close>

definition list_departments :: "auth_state \<Rightarrow> department list" where
  "list_departments s = sort_key dp_code (as_departments s)"

definition ensure_unique_code :: "string \<Rightarrow> uuid option \<Rightarrow> auth_state \<Rightarrow> py_error + unit" where
  "ensure_unique_code code excluding s =
     (case get_by_code code s of
        None \<Rightarrow> Inr ()
      | Some d \<Rightarrow> guard (Some (dp_id d) = excluding) (ResourceConflict ''Department code already exists''))"

definition ensure_unique_name :: "string \<Rightarrow> uuid option \<Rightarrow> auth_state \<Rightarrow> py_error + unit" where
  "ensure_unique_name name excluding s =
     (case get_by_name name s of
        None \<Rightarrow> Inr ()
      | Some d \<Rightarrow> guard (Some (dp_id d) = excluding) (ResourceConflict ''Department name already exists''))"

definition get_existing_department :: "uuid \<Rightarrow> auth_state \<Rightarrow> py_error + department" where
  "get_existing_department k s =
     present (get_department k s) (ResourceNotFound ''Department does not exist'')"

definition create_department ::
  "moment \<Rightarrow> account \<Rightarrow> string \<Rightarrow> string \<Rightarrow> auth_state \<Rightarrow> py_error + (department \<times> auth_state)" where
  "create_department t actor code name s =
     attempt (ensure_admin actor) (\<lambda>_.
     attempt (ensure_unique_code code None s) (\<lambda>_.
     attempt (ensure_unique_name name None s) (\<lambda>_.
     let d = \<lparr> dp_id = as_next_uuid s, dp_code = code, dp_name = name, dp_created_at = wall t \<rparr>
     in Inr (d, add_department d (s\<lparr>as_next_uuid := Suc (as_next_uuid s)\<rparr>)))))"

definition update_department ::
  "account \<Rightarrow> uuid \<Rightarrow> string option \<Rightarrow> string option \<Rightarrow> auth_state \<Rightarrow>
     py_error + (department \<times> auth_state)" where
  "update_department actor k code name s =
     attempt (ensure_admin actor) (\<lambda>_.
     attempt (get_existing_department k s) (\<lambda>d.
     attempt (case code of None \<Rightarrow> Inr ()
        | Some v \<Rightarrow> if v = dp_code d then Inr () else ensure_unique_code v (Some (dp_id d)) s) (\<lambda>_.
     attempt (case name of None \<Rightarrow> Inr ()
        | Some v \<Rightarrow> if v = dp_name d then Inr () else ensure_unique_name v (Some (dp_id d)) s) (\<lambda>_.
     let f = (\<lambda>r. r\<lparr>dp_code := (case code of None \<Rightarrow> dp_code r | Some v \<Rightarrow> v),
           dp_name := (case name of None \<Rightarrow> dp_name r | Some v \<Rightarrow> v)\<rparr>)
     in Inr (f d, save_department k f s)))))"

definition delete_department ::
  "account \<Rightarrow> uuid \<Rightarrow> auth_state \<Rightarrow> py_error + (department \<times> auth_state)" where
  "delete_department actor k s =
     attempt (ensure_admin actor) (\<lambda>_.
     attempt (get_existing_department k s) (\<lambda>d.
     let active_user_count = count_active_users (dp_id d) s in
     attempt (guard (\<not> 0 < active_user_count) (DepartmentHasActiveUsers active_user_count)) (\<lambda>_.
     Inr (d, repo_delete_department k s))))"

end
