(* ===== verification/Directory.thy ===== *)
theory Directory
  imports Accounts Transition
begin

text \<open>
  The accounts as a timed state machine: a state is the present instant with the accounts, the
  departments and the session stores; time passes between operations, and both clocks advance
  together.  The directory stays consistent, failure counts stay within the limit, and a
  revocation is not forgotten before every token it revokes has expired.
\<close>

definition get_token_revoke_ttl_seconds :: "auth_settings \<Rightarrow> int" where
  "get_token_revoke_ttl_seconds settings = jwt_refresh_token_expire_days settings * 24 * 60 * 60"

definition after :: "int \<Rightarrow> moment \<Rightarrow> moment" where
  "after d t = \<lparr> wall = wall t + d, monotonic = monotonic t + d \<rparr>"

inductive auth_move ::
  "'tok crypto \<Rightarrow> auth_settings \<Rightarrow> moment \<times> auth_state \<Rightarrow> moment \<times> auth_state \<Rightarrow> bool"
  for c :: "'tok crypto" and settings :: auth_settings where
  move_time: "0 \<le> d \<Longrightarrow> auth_move c settings (t, s) (after d t, s)"
| move_login: "login_user c settings t name password s = (r, s') \<Longrightarrow>
    auth_move c settings (t, s) (t, s')"
| move_request: "get_current_token_context c settings t credentials s = (r, s') \<Longrightarrow>
    auth_move c settings (t, s) (t, s')"
| move_refresh: "refresh c settings t cookie s = (r, s') \<Longrightarrow> auth_move c settings (t, s) (t, s')"
| move_logout: "logout c settings t credentials s = (r, s') \<Longrightarrow>
    auth_move c settings (t, s) (t, s')"
| move_create_user: "create_user c t actor payload s = Inr (r, s') \<Longrightarrow>
    auth_move c settings (t, s) (t, s')"
| move_update_user: "update_user actor k changes s = Inr (r, audit, s') \<Longrightarrow>
    auth_move c settings (t, s) (t, s')"
| move_disable_user:
    "disable_user (get_token_revoke_ttl_seconds settings) t actor k db s = Inr (r, s') \<Longrightarrow>
    auth_move c settings (t, s) (t, s')"
| move_reset_password:
    "reset_password c (get_token_revoke_ttl_seconds settings) t actor k password s = Inr (r, s') \<Longrightarrow>
    auth_move c settings (t, s) (t, s')"
| move_change_password:
    "change_own_password c (get_token_revoke_ttl_seconds settings) t actor old password s =
       Inr (r, s') \<Longrightarrow> auth_move c settings (t, s) (t, s')"
| move_create_department: "create_department t actor code name s = Inr (d, s') \<Longrightarrow>
    auth_move c settings (t, s) (t, s')"
| move_update_department: "update_department actor k new_code new_name s = Inr (d, s') \<Longrightarrow>
    auth_move c settings (t, s) (t, s')"
| move_delete_department: "delete_department actor k s = Inr (d, s') \<Longrightarrow>
    auth_move c settings (t, s) (t, s')"

text \<open>The machine starts with empty tables, after 1970.\<close>

definition auth_start :: "moment \<times> auth_state \<Rightarrow> bool" where
  "auth_start ts \<longleftrightarrow> 0 \<le> wall (fst ts) \<and> as_accounts (snd ts) = [] \<and> as_departments (snd ts) = [] \<and>
     as_failures (snd ts) = (\<lambda>_. None) \<and> as_blacklist (snd ts) = (\<lambda>_. None) \<and>
     as_revoked (snd ts) = (\<lambda>_. None)"

abbreviation auth_reachable ::
  "'tok crypto \<Rightarrow> auth_settings \<Rightarrow> moment \<times> auth_state \<Rightarrow> bool" where
  "auth_reachable c settings \<equiv> reaches auth_start (auth_move c settings)"

subsection \<open>Unique columns\<close>

definition unique_column :: "('r \<Rightarrow> 'k) \<Rightarrow> ('r \<Rightarrow> 'v option) \<Rightarrow> 'r list \<Rightarrow> bool" where
  "unique_column key g rows \<longleftrightarrow>
     (\<forall>a \<in> set rows. \<forall>b \<in> set rows. \<forall>v. g a = Some v \<longrightarrow> g b = Some v \<longrightarrow> key a = key b)"

lemma unique_columnI:
  "(\<And>a b v. a \<in> set rows \<Longrightarrow> b \<in> set rows \<Longrightarrow> g a = Some v \<Longrightarrow> g b = Some v \<Longrightarrow> key a = key b) \<Longrightarrow>
     unique_column key g rows"
  unfolding unique_column_def by blast

lemma unique_columnD:
  "unique_column key g rows \<Longrightarrow> a \<in> set rows \<Longrightarrow> b \<in> set rows \<Longrightarrow> g a = Some v \<Longrightarrow> g b = Some v \<Longrightarrow>
     key a = key b"
  unfolding unique_column_def by blast

lemma unique_column_Nil [simp]: "unique_column key g []"
  by (rule unique_columnI) simp

lemma unique_column_add:
  assumes "unique_column key g rows"
    and "\<And>q v. q \<in> set rows \<Longrightarrow> g r = Some v \<Longrightarrow> g q \<noteq> Some v"
  shows "unique_column key g (rows @ [r])"
proof (rule unique_columnI)
  fix a b v
  assume ab: "a \<in> set (rows @ [r])" "b \<in> set (rows @ [r])" and v: "g a = Some v" "g b = Some v"
  show "key a = key b"
  proof (cases "a = r \<or> b = r")
    case True
    then have "a = b" using ab v assms(2) by auto
    then show ?thesis by (rule arg_cong)
  next
    case False
    then have "a \<in> set rows" "b \<in> set rows" using ab by simp_all
    then show ?thesis by (rule unique_columnD [OF assms(1) _ _ v])
  qed
qed

lemma unique_column_update:
  assumes "unique_column key g rows" and "\<And>r. key (f r) = key r"
    and "\<And>r q v. r \<in> set rows \<Longrightarrow> key r = k \<Longrightarrow> g (f r) = Some v \<Longrightarrow> q \<in> set rows \<Longrightarrow>
      g q = Some v \<Longrightarrow> key q = k"
  shows "unique_column key g (update_rows key k f rows)"
proof (rule unique_columnI)
  fix a b v
  assume ab: "a \<in> set (update_rows key k f rows)" "b \<in> set (update_rows key k f rows)"
    and v: "g a = Some v" "g b = Some v"
  obtain p q where p: "p \<in> set rows" "a = (if key p = k then f p else p)"
    and q: "q \<in> set rows" "b = (if key q = k then f q else q)"
    using ab by (auto simp: set_update_rows)
  have keys: "key a = key p" "key b = key q" using p(2) q(2) assms(2) by auto
  have other: "key y = k" if "key x = k" "x \<in> set rows" "y \<in> set rows" "g (f x) = Some v"
    "g y = Some v" for x y
    using assms(3) that by blast
  have "key p = key q"
  proof (cases "key p = k"; cases "key q = k")
    assume "key p = k" "key q \<noteq> k"
    then show ?thesis using other [of p q] p q v by simp
  next
    assume "key p \<noteq> k" "key q = k"
    then show ?thesis using other [of q p] p q v by simp
  next
    assume "key p \<noteq> k" "key q \<noteq> k"
    then show ?thesis using unique_columnD [OF assms(1) p(1) q(1)] p q v by simp
  qed simp
  then show "key a = key b" by (simp only: keys)
qed

lemma unique_column_map:
  assumes "\<And>r. key (f r) = key r" and "\<And>r. g (f r) = g r" and "unique_column key g rows"
  shows "unique_column key g (map f rows)"
proof (rule unique_columnI)
  fix a b v
  assume "a \<in> set (map f rows)" "b \<in> set (map f rows)" and v: "g a = Some v" "g b = Some v"
  then obtain p q where pq: "p \<in> set rows" "q \<in> set rows" "a = f p" "b = f q" by auto
  then have "g p = Some v" "g q = Some v" using v assms(2) by simp_all
  from unique_columnD [OF assms(3) pq(1,2) this] show "key a = key b" by (simp only: pq assms(1))
qed

lemma unique_column_filter: "unique_column key g rows \<Longrightarrow> unique_column key g (filter P rows)"
  unfolding unique_column_def by auto

text \<open>
  A column that a service checks before it writes: the value must be free or belong to the row
  that is being updated.
\<close>

locale checked_column =
  fixes key :: "'r \<Rightarrow> 'k" and g :: "'r \<Rightarrow> 'v option" and rows :: "'s \<Rightarrow> 'r list"
    and get_by :: "'v \<Rightarrow> 's \<Rightarrow> 'r option"
    and check :: "'v \<Rightarrow> 'k option \<Rightarrow> 's \<Rightarrow> 'e + unit"
  assumes get_by_find: "get_by v s = find (\<lambda>r. g r = Some v) (rows s)"
    and check_get_by: "check v excluding s = Inr u \<Longrightarrow>
      (case get_by v s of None \<Rightarrow> True | Some r \<Rightarrow> Some (key r) = excluding)"
begin

lemma checked:
  assumes "check v excluding s = Inr u" and "unique_column key g (rows s)"
    and "q \<in> set (rows s)" and "g q = Some v"
  shows "excluding = Some (key q)"
proof -
  obtain r where r: "get_by v s = Some r"
    using assms(3,4) by (cases "get_by v s") (auto simp: get_by_find find_None_iff)
  then have "r \<in> set (rows s)" "g r = Some v" by (auto simp: get_by_find dest: find_SomeD)
  then have "key r = key q" using assms(3,4) unique_columnD [OF assms(2)] by blast
  then show ?thesis using check_get_by [OF assms(1)] r by simp
qed

lemma checked_free:
  "check v None s = Inr u \<Longrightarrow> unique_column key g (rows s) \<Longrightarrow> q \<in> set (rows s) \<Longrightarrow> g q \<noteq> Some v"
  using checked by fastforce

text \<open>An update keeps the column unique when each new value is the old one or was checked.\<close>

lemma checked_update:
  assumes col: "unique_column key g (rows s)" and f: "\<And>r. key (f r) = key r"
    and a: "a \<in> set (rows s)" "key a = k" and only: "\<And>r. r \<in> set (rows s) \<Longrightarrow> key r = k \<Longrightarrow> r = a"
    and new: "\<And>v. g (f a) = Some v \<Longrightarrow> g a = Some v \<or> check v (Some k) s = Inr ()"
  shows "unique_column key g (update_rows key k f (rows s))"
proof (rule unique_column_update [OF col f])
  fix r q v
  assume r: "r \<in> set (rows s)" "key r = k" and v: "g (f r) = Some v"
    and q: "q \<in> set (rows s)" "g q = Some v"
  from new [of v] v only [OF r] consider "g a = Some v" | "check v (Some k) s = Inr ()" by auto
  then show "key q = k"
  proof cases
    case 1
    then show ?thesis using unique_columnD [OF col q(1) a(1) q(2)] a(2) by simp
  next
    case 2
    from checked [OF this col q] show ?thesis by simp
  qed
qed

end

interpretation usernames: checked_column u_id "\<lambda>a. Some (u_username a)" as_accounts
    get_by_username ensure_unique_username
  by unfold_locales
    (auto simp: get_by_username_def ensure_unique_username_def result_simps split: option.splits)

interpretation emails: checked_column u_id ac_email as_accounts get_by_email ensure_unique_email
  by unfold_locales
    (auto simp: get_by_email_def ensure_unique_email_def result_simps split: option.splits)

interpretation codes: checked_column dp_id "\<lambda>d. Some (dp_code d)" as_departments
    get_by_code ensure_unique_code
  by unfold_locales
    (auto simp: get_by_code_def ensure_unique_code_def result_simps split: option.splits)

interpretation names: checked_column dp_id "\<lambda>d. Some (dp_name d)" as_departments
    get_by_name ensure_unique_name
  by unfold_locales
    (auto simp: get_by_name_def ensure_unique_name_def result_simps split: option.splits)

subsection \<open>The directory\<close>

definition accounts_ok :: "auth_state \<Rightarrow> bool" where
  "accounts_ok s \<longleftrightarrow> distinct (map u_id (as_accounts s)) \<and>
     (\<forall>a \<in> set (as_accounts s). u_id a < as_next_uuid s) \<and>
     unique_column u_id (\<lambda>a. Some (u_username a)) (as_accounts s) \<and>
     unique_column u_id ac_email (as_accounts s)"

definition departments_ok :: "auth_state \<Rightarrow> bool" where
  "departments_ok s \<longleftrightarrow> distinct (map dp_id (as_departments s)) \<and>
     (\<forall>d \<in> set (as_departments s). dp_id d < as_next_uuid s) \<and>
     unique_column dp_id (\<lambda>d. Some (dp_code d)) (as_departments s) \<and>
     unique_column dp_id (\<lambda>d. Some (dp_name d)) (as_departments s)"

definition references_ok :: "auth_state \<Rightarrow> bool" where
  "references_ok s \<longleftrightarrow> (\<forall>a \<in> set (as_accounts s). \<forall>k. u_dept_id a = Some k \<longrightarrow>
     k \<in> dp_id ` set (as_departments s))"

definition failures_ok :: "auth_state \<Rightarrow> bool" where
  "failures_ok s \<longleftrightarrow> (\<forall>key n e. as_failures s key = Some (n, e) \<longrightarrow>
     1 \<le> n \<and> n \<le> auth_failure_limit)"

definition directory_ok :: "auth_state \<Rightarrow> bool" where
  "directory_ok s \<longleftrightarrow> accounts_ok s \<and> departments_ok s \<and> references_ok s \<and> failures_ok s"

text \<open>What the session operations leave alone.\<close>

definition same_directory :: "auth_state \<Rightarrow> auth_state \<Rightarrow> bool" where
  "same_directory s s' \<longleftrightarrow> as_accounts s' = as_accounts s \<and> as_departments s' = as_departments s \<and>
     as_next_uuid s \<le> as_next_uuid s'"

lemma same_directory_trans [trans]:
  "same_directory s s' \<Longrightarrow> same_directory s' s'' \<Longrightarrow> same_directory s s''"
  by (simp add: same_directory_def)

lemma same_directory_ok:
  "same_directory s s' \<Longrightarrow> as_failures s' = as_failures s \<Longrightarrow> directory_ok s \<Longrightarrow> directory_ok s'"
  by (fastforce simp: same_directory_def directory_ok_def accounts_ok_def departments_ok_def
      references_ok_def failures_ok_def)

lemma get_fail_count_frame:
  "get_fail_count t key s = (n, s') \<Longrightarrow> same_directory s s' \<and> as_revoked s' = as_revoked s \<and>
     as_blacklist s' = as_blacklist s \<and> as_next_uuid s' = as_next_uuid s"
  by (auto simp: get_fail_count_def same_directory_def split: option.splits if_splits)

lemma failures_ok_forget: "failures_ok s \<Longrightarrow> failures_ok (s\<lparr>as_failures := (as_failures s)(key := None)\<rparr>)"
  by (simp add: failures_ok_def)

lemma failures_ok_set:
  "failures_ok s \<Longrightarrow> 1 \<le> n \<Longrightarrow> n \<le> auth_failure_limit \<Longrightarrow>
     failures_ok (s\<lparr>as_failures := (as_failures s)(key := Some (n, e))\<rparr>)"
  by (simp add: failures_ok_def)

lemma failures_okD:
  "failures_ok s \<Longrightarrow> as_failures s key = Some (n, e) \<Longrightarrow> 1 \<le> n \<and> n \<le> auth_failure_limit"
  unfolding failures_ok_def by blast

lemma get_fail_count_ok:
  assumes "failures_ok s" and "get_fail_count t key s = (n, s')"
  shows "failures_ok s' \<and> 0 \<le> n"
proof (cases "as_failures s key")
  case None
  with assms show ?thesis by (auto simp: get_fail_count_def)
next
  case (Some x)
  obtain m e where "x = (m, e)" by (cases x)
  with Some failures_okD [OF assms(1), of key m e] assms show ?thesis
    by (auto simp: get_fail_count_def failures_ok_forget split: if_splits)
qed

lemma is_jti_blacklisted_frame:
  "is_jti_blacklisted t jti s = (b, s') \<Longrightarrow> same_directory s s' \<and> as_failures s' = as_failures s \<and>
     as_revoked s' = as_revoked s \<and> as_next_uuid s' = as_next_uuid s"
  by (auto simp: is_jti_blacklisted_def same_directory_def split: option.splits if_splits)

lemma get_user_revoked_after_frame:
  "get_user_revoked_after t k s = (r, s') \<Longrightarrow> same_directory s s' \<and> as_failures s' = as_failures s \<and>
     as_blacklist s' = as_blacklist s \<and> as_next_uuid s' = as_next_uuid s"
  by (auto simp: get_user_revoked_after_def same_directory_def split: option.splits if_splits)

text \<open>How the revocations change: not at all, by a new one, or by an expired one.\<close>

inductive revocation_step :: "auth_settings \<Rightarrow> moment \<Rightarrow> auth_state \<Rightarrow> auth_state \<Rightarrow> bool"
  for settings t s where
  unchanged: "as_revoked s' = as_revoked s \<Longrightarrow> revocation_step settings t s s'"
| expired: "as_revoked s k = Some (r, e) \<Longrightarrow> e \<le> monotonic t \<Longrightarrow>
    as_revoked s' = (as_revoked s)(k := None) \<Longrightarrow> revocation_step settings t s s'"
| revoked: "as_revoked s' = (as_revoked s)(k := Some (int_timestamp (wall t),
      monotonic t + seconds (get_token_revoke_ttl_seconds settings))) \<Longrightarrow>
    revocation_step settings t s s'"

lemma validate_state:
  assumes "P s" and "\<And>jti. P (snd (is_jti_blacklisted t jti s))"
    and "\<And>jti k. P (snd (get_user_revoked_after t k (snd (is_jti_blacklisted t jti s))))"
  shows "P (snd (validate_token_claims c settings t token type s))"
  unfolding validate_token_claims_def
  using assms by (simp add: case_prod_beta split: sum.split option.split bool.split)

lemma revoked_check_step:
  "revocation_step settings t s (snd (get_user_revoked_after t k (snd (is_jti_blacklisted t jti s))))"
proof -
  obtain b s1 where s1: "is_jti_blacklisted t jti s = (b, s1)" by (cases "is_jti_blacklisted t jti s")
  have eq: "as_revoked s1 = as_revoked s" using is_jti_blacklisted_frame [OF s1] by simp
  show ?thesis
  proof (cases "as_revoked s k")
    case None
    then show ?thesis by (simp add: s1 eq get_user_revoked_after_def revocation_step.unchanged)
  next
    case (Some x)
    obtain r e where "x = (r, e)" by (cases x)
    with Some show ?thesis
      by (cases "e \<le> monotonic t")
        (auto simp: s1 eq get_user_revoked_after_def intro: revocation_step.intros)
  qed
qed

lemma session_frames:
  "same_directory s (snd (is_jti_blacklisted t jti s))"
  "same_directory s (snd (get_user_revoked_after t k (snd (is_jti_blacklisted t jti s))))"
  "as_failures (snd (is_jti_blacklisted t jti s)) = as_failures s"
  "as_failures (snd (get_user_revoked_after t k (snd (is_jti_blacklisted t jti s)))) = as_failures s"
  "as_revoked (snd (is_jti_blacklisted t jti s)) = as_revoked s"
  by (auto simp: is_jti_blacklisted_def get_user_revoked_after_def same_directory_def
      split: option.split)

lemma validate_frame:
  "same_directory s (snd (validate_token_claims c settings t token type s)) \<and>
   as_failures (snd (validate_token_claims c settings t token type s)) = as_failures s \<and>
   revocation_step settings t s (snd (validate_token_claims c settings t token type s))"
  by (rule validate_state)
    (simp_all add: session_frames revoked_check_step revocation_step.unchanged,
     simp add: same_directory_def)

text \<open>The claims of a token that is issued, and what issuing does to the state.\<close>

definition token_claims :: "moment \<Rightarrow> string \<Rightarrow> int \<Rightarrow> account \<Rightarrow> uuid \<Rightarrow> claims" where
  "token_claims t token_type expires_delta a jti =
     [(''sub'', CText (str_uuid (u_id a))), (''type'', CText token_type),
      (''iat'', CNumber (int_timestamp (wall t))),
      (''exp'', CNumber (int_timestamp (wall t + seconds expires_delta))),
      (''jti'', CText (str_uuid jti))] @ extra_claims_of a"

lemma create_jwt_token_eq:
  "create_jwt_token c t (str_uuid (u_id a)) signing token_type delta (extra_claims_of a) s =
     (jwt_encode c (token_claims t token_type delta a (as_next_uuid s)) (fst signing) (snd signing),
      s\<lparr>as_next_uuid := Suc (as_next_uuid s)\<rparr>)"
  by (simp add: create_jwt_token_def token_claims_def dict_update_def extra_claims_of_def)

lemma create_access_token_Inr:
  "create_access_token c settings t a s = Inr (access, s') \<longleftrightarrow>
     (\<exists>key alg. get_jwt_signing_config settings = Inr (key, alg) \<and>
        access = jwt_encode c (token_claims t ''access''
          (jwt_access_token_expire_minutes settings * 60) a (as_next_uuid s)) key alg \<and>
        s' = s\<lparr>as_next_uuid := Suc (as_next_uuid s)\<rparr>)"
  by (auto simp: create_access_token_def create_jwt_token_eq result_simps)

lemma create_auth_tokens_InrD:
  assumes "create_auth_tokens c settings t a s = Inr (tokens, s')"
  obtains key alg where "get_jwt_signing_config settings = Inr (key, alg)"
    and "access_token tokens = jwt_encode c (token_claims t ''access''
      (jwt_access_token_expire_minutes settings * 60) a (as_next_uuid s)) key alg"
    and "refresh_token tokens = jwt_encode c (token_claims t ''refresh''
      (jwt_refresh_token_expire_days settings * 24 * 60 * 60) a (Suc (as_next_uuid s))) key alg"
    and "s' = s\<lparr>as_next_uuid := Suc (Suc (as_next_uuid s))\<rparr>"
  using assms
  by (auto simp: create_auth_tokens_def create_access_token_Inr create_jwt_token_eq Let_def
      result_simps)

subsection \<open>Every operation keeps the directory\<close>

lemma update_rows_map: "update_rows key k f rows = map (\<lambda>r. if key r = k then f r else r) rows"
  by (simp add: update_rows_def)

lemma accounts_ok_save:
  assumes "accounts_ok s" and id: "\<And>a. u_id (f a) = u_id a"
    and name: "\<And>a. u_username (f a) = u_username a" and mail: "\<And>a. ac_email (f a) = ac_email a"
  shows "accounts_ok (save_account k f s)"
proof -
  have "unique_column u_id g (update_rows u_id k f (as_accounts s))"
    if "unique_column u_id g (as_accounts s)" "\<And>a. g (f a) = g a" for g :: "account \<Rightarrow> string option"
    unfolding update_rows_map
    by (rule unique_column_map [OF _ _ that(1)]) (simp_all add: id that(2))
  moreover have "\<forall>a \<in> set (update_rows u_id k f (as_accounts s)). u_id a < as_next_uuid s"
    using assms(1) by (auto simp: accounts_ok_def set_update_rows id)
  ultimately show ?thesis
    using assms(1) by (simp add: accounts_ok_def save_account_def id name mail)
qed

lemma references_ok_save:
  "references_ok s \<Longrightarrow> (\<And>a. u_dept_id (f a) = u_dept_id a) \<Longrightarrow> references_ok (save_account k f s)"
  by (auto simp: references_ok_def save_account_def set_update_rows split: if_splits)

lemma directory_ok_save:
  assumes "directory_ok s" and "\<And>a. u_id (f a) = u_id a" and "\<And>a. u_username (f a) = u_username a"
    and "\<And>a. ac_email (f a) = ac_email a" and "\<And>a. u_dept_id (f a) = u_dept_id a"
  shows "directory_ok (save_account k f s)"
  using assms(1) accounts_ok_save [OF _ assms(2-4)] references_ok_save [OF _ assms(5)]
  by (simp add: directory_ok_def departments_ok_def failures_ok_def save_account_def)

lemma directory_ok_fail_count:
  assumes "directory_ok s"
  shows "directory_ok (snd (get_fail_count t key s)) \<and> 0 \<le> fst (get_fail_count t key s)"
proof -
  obtain n s' where eq: "get_fail_count t key s = (n, s')" by (cases "get_fail_count t key s")
  with get_fail_count_frame [OF eq] get_fail_count_ok [OF _ eq] assms show ?thesis
    by (auto simp: directory_ok_def accounts_ok_def departments_ok_def references_ok_def
        same_directory_def)
qed

lemma directory_ok_failures:
  "directory_ok s \<Longrightarrow> failures_ok (s\<lparr>as_failures := f\<rparr>) \<Longrightarrow> directory_ok (s\<lparr>as_failures := f\<rparr>)"
  by (simp add: directory_ok_def accounts_ok_def departments_ok_def references_ok_def)

lemma directory_ok_uuid:
  "directory_ok s \<Longrightarrow> as_next_uuid s \<le> n \<Longrightarrow> directory_ok (s\<lparr>as_next_uuid := n\<rparr>)"
  by (rule same_directory_ok) (simp_all add: same_directory_def)

text \<open>A login counts a wrong password only below the limit, so no count exceeds it.\<close>

lemma wrong_password_state:
  assumes "directory_ok s" and "\<not> auth_failure_limit \<le> fst (get_fail_count t key s)"
  shows "directory_ok (snd (increment_fail_count t key ttl (snd (get_fail_count t key s))))"
proof -
  obtain n s1 where s1: "get_fail_count t key s = (n, s1)" by (cases "get_fail_count t key s")
  obtain m s2 where s2: "get_fail_count t key s1 = (m, s2)" by (cases "get_fail_count t key s1")
  have ok: "directory_ok s1" "directory_ok s2" "0 \<le> m"
    using directory_ok_fail_count [OF assms(1), of t key] directory_ok_fail_count [of s1 t key]
    by (simp_all add: s1 s2)
  have "m = n"
    using s1 s2 by (auto simp: get_fail_count_def split: option.splits if_splits)
  then have "directory_ok (s2\<lparr>as_failures := (as_failures s2)(key :=
      Some (m + 1, monotonic t + seconds ttl))\<rparr>)"
    using ok assms(2) s1
    by (intro directory_ok_failures failures_ok_set) (simp_all add: directory_ok_def)
  then show ?thesis by (simp add: increment_fail_count_def s1 s2 Let_def)
qed

lemma login_state:
  assumes "P s" and fetched: "\<And>key. P (snd (get_fail_count t key s))"
    and wrong: "\<And>key. \<not> auth_failure_limit \<le> fst (get_fail_count t key s) \<Longrightarrow>
      P (snd (increment_fail_count t key auth_failure_ttl_seconds (snd (get_fail_count t key s))))"
    and reset: "\<And>key. P (reset_fail_count key (snd (get_fail_count t key s)))"
    and success: "\<And>key k tokens a s'.
      create_auth_tokens c settings t a (reset_fail_count key (snd (get_fail_count t key s))) =
        Inr (tokens, s') \<Longrightarrow>
      P (save_account k (\<lambda>r. r\<lparr>ac_last_login_at := Some (wall t)\<rparr>) s')"
  shows "P (snd (login_user c settings t name password s))"
  unfolding login_user_def authenticate_user_def Let_def
  using assms by (simp add: case_prod_beta split: option.split sum.split)

lemma login_directory:
  assumes "directory_ok s"
  shows "directory_ok (snd (login_user c settings t name password s))"
proof (rule login_state)
  show "directory_ok s" by (rule assms)
  show got: "directory_ok (snd (get_fail_count t key s))" for key
    using directory_ok_fail_count [OF assms] by simp
  show reset: "directory_ok (reset_fail_count key (snd (get_fail_count t key s)))" for key
    unfolding reset_fail_count_def using got [of key]
    by (intro directory_ok_failures failures_ok_forget) (simp_all add: directory_ok_def)
  show "directory_ok (save_account k (\<lambda>r. r\<lparr>ac_last_login_at := Some (wall t)\<rparr>) s')"
    if "create_auth_tokens c settings t a (reset_fail_count key (snd (get_fail_count t key s))) =
      Inr (tokens, s')" for key k tokens a s'
  proof -
    have "directory_ok s'"
      using that by (elim create_auth_tokens_InrD) (simp only:, rule directory_ok_uuid [OF reset], simp)
    then show ?thesis by (rule directory_ok_save) simp_all
  qed
qed (rule wrong_password_state [OF assms])

lemma login_revoked: "as_revoked (snd (login_user c settings t name password s)) = as_revoked s"
proof (rule login_state)
  show got: "as_revoked (snd (get_fail_count t key s)) = as_revoked s" for s key
    by (simp add: get_fail_count_def split: option.split)
  show "as_revoked (snd (increment_fail_count t key auth_failure_ttl_seconds
      (snd (get_fail_count t key s)))) = as_revoked s" for key
    by (simp add: increment_fail_count_def case_prod_beta Let_def got)
  show reset: "as_revoked (reset_fail_count key (snd (get_fail_count t key s))) = as_revoked s" for key
    by (simp add: reset_fail_count_def got)
  show "as_revoked (save_account k (\<lambda>r. r\<lparr>ac_last_login_at := Some (wall t)\<rparr>) s') = as_revoked s"
    if "create_auth_tokens c settings t a (reset_fail_count key (snd (get_fail_count t key s))) =
      Inr (tokens, s')" for key k tokens a s'
    using that reset [of key] by (elim create_auth_tokens_InrD) (simp add: save_account_def)
qed simp

lemma request_frame:
  "same_directory s (snd (get_current_token_context c settings t credentials s)) \<and>
   as_failures (snd (get_current_token_context c settings t credentials s)) = as_failures s \<and>
   revocation_step settings t s (snd (get_current_token_context c settings t credentials s))"
  using validate_frame [of s c settings t _ "''access''"]
  by (simp add: get_current_token_context_def case_prod_beta same_directory_def
      revocation_step.unchanged split: option.split sum.split)

lemma refresh_frame:
  "same_directory s (snd (refresh c settings t cookie s)) \<and>
   as_failures (snd (refresh c settings t cookie s)) = as_failures s \<and>
   revocation_step settings t s (snd (refresh c settings t cookie s))"
proof (cases cookie)
  case None
  then show ?thesis by (simp add: refresh_def same_directory_def revocation_step.unchanged)
next
  case (Some token)
  obtain r s1 where v: "validate_token_claims c settings t token ''refresh'' s = (r, s1)"
    by (cases "validate_token_claims c settings t token ''refresh'' s")
  have s1: "same_directory s s1" "as_failures s1 = as_failures s" "revocation_step settings t s s1"
    using validate_frame [of s c settings t token "''refresh''"] by (simp_all add: v)
  have step: "revocation_step settings t s s2" if "as_revoked s2 = as_revoked s1" for s2
    using s1(3) that by (auto elim!: revocation_step.cases intro: revocation_step.intros)
  have "snd (refresh c settings t cookie s) \<in>
      {s1, s1\<lparr>as_next_uuid := Suc (as_next_uuid s1)\<rparr>}"
    by (auto simp: refresh_def Some v create_access_token_Inr result_simps split: option.split sum.split)
  then show ?thesis using s1 by (auto simp: step same_directory_def)
qed

lemma logout_frame:
  "same_directory s (snd (logout c settings t credentials s)) \<and>
   as_failures (snd (logout c settings t credentials s)) = as_failures s \<and>
   revocation_step settings t s (snd (logout c settings t credentials s))"
proof -
  obtain r s1 where v: "get_current_token_context c settings t credentials s = (r, s1)"
    by (cases "get_current_token_context c settings t credentials s")
  have s1: "same_directory s s1" "as_failures s1 = as_failures s" "revocation_step settings t s s1"
    using request_frame [of s c settings t credentials] by (simp_all add: v)
  have step: "revocation_step settings t s s2" if "as_revoked s2 = as_revoked s1" for s2
    using s1(3) that by (auto elim!: revocation_step.cases intro: revocation_step.intros)
  have "\<exists>j ttl. snd (logout c settings t credentials s) \<in> {s1, blacklist_jti t j ttl s1}"
    by (auto simp: logout_def v split: option.split sum.split)
  then show ?thesis using s1 by (auto simp: step same_directory_def blacklist_jti_def)
qed

text \<open>The administration.\<close>

lemma revoke_user_tokens_frame:
  "same_directory s (revoke_user_tokens t k ttl s)"
  "as_failures (revoke_user_tokens t k ttl s) = as_failures s"
  by (simp_all add: revoke_user_tokens_def same_directory_def)

lemma revoke_user_tokens_step:
  "revocation_step settings t s
     (revoke_user_tokens t k (get_token_revoke_ttl_seconds settings) s)"
  by (auto simp: revoke_user_tokens_def intro: revocation_step.intros)

lemma check_department_reference_Inr:
  "check_department_reference dept s = Inr u \<longleftrightarrow>
     (\<forall>k. dept = Some k \<longrightarrow> k \<in> dp_id ` set (as_departments s))"
  by (auto simp: check_department_reference_def result_simps get_department_def find_row_None_iff
      split: option.splits)

lemma create_user_directory:
  assumes "create_user c t actor payload s = Inr (a, s')" and "directory_ok s"
  shows "directory_ok s'"
proof -
  have s': "s' = add_account a (s\<lparr>as_next_uuid := Suc (as_next_uuid s)\<rparr>)"
    and a: "u_id a = as_next_uuid s" "u_username a = uc_username payload"
      "ac_email a = uc_email payload" "u_dept_id a = uc_dept_id payload"
    and name: "ensure_unique_username (uc_username payload) None s = Inr ()"
    and mail: "\<And>e. uc_email payload = Some e \<Longrightarrow> ensure_unique_email e None s = Inr ()"
    and dept: "check_department_reference (uc_dept_id payload) s = Inr ()"
    using assms(1) by (auto simp: create_user_def result_simps Let_def)
  have ok: "accounts_ok s" "departments_ok s" "references_ok s" "failures_ok s"
    using assms(2) by (simp_all add: directory_ok_def)
  have "unique_column u_id (\<lambda>a. Some (u_username a)) (as_accounts s @ [a])"
    using ok(1) usernames.checked_free [OF name]
    by (intro unique_column_add) (auto simp: accounts_ok_def a)
  moreover have "unique_column u_id ac_email (as_accounts s @ [a])"
    using ok(1) emails.checked_free [OF mail]
    by (intro unique_column_add) (auto simp: accounts_ok_def a)
  ultimately have "accounts_ok s'"
    using ok(1) by (auto simp: accounts_ok_def s' add_account_def a less_SucI)
  moreover have "departments_ok s'"
    using ok(2) by (auto simp: departments_ok_def s' add_account_def less_SucI)
  moreover have "references_ok s'"
    using ok(3) dept by (auto simp: references_ok_def s' add_account_def a check_department_reference_Inr)
  moreover have "failures_ok s'" using ok(4) by (simp add: failures_ok_def s' add_account_def)
  ultimately show ?thesis by (simp add: directory_ok_def)
qed

lemma apply_user_update_columns:
  "u_id (apply_user_update b payload a) = u_id a"
  "u_username (apply_user_update b payload a) =
     (case field_value (uu_username payload) of None \<Rightarrow> u_username a | Some v \<Rightarrow> v)"
  "ac_email (apply_user_update b payload a) =
     (case uu_email payload of Unset \<Rightarrow> ac_email a | SetTo v \<Rightarrow> v)"
  by (simp_all add: apply_user_update_def)

text \<open>An optional value is checked when it is there and new.\<close>

lemma optional_check:
  "(case x of None \<Rightarrow> Inr () | Some v \<Rightarrow> if P v then Inr () else g v) = Inr u \<longleftrightarrow>
     (\<forall>v. x = Some v \<longrightarrow> P v \<or> g v = Inr ())"
  "(case y of Unset \<Rightarrow> Inr () | SetTo None \<Rightarrow> Inr ()
    | SetTo (Some v) \<Rightarrow> if P v then Inr () else g v) = Inr u \<longleftrightarrow>
     (\<forall>v. y = SetTo (Some v) \<longrightarrow> P v \<or> g v = Inr ())"
  by (auto split: option.split update_field.split)

lemma update_user_directory:
  assumes "update_user actor k payload s = Inr (b, audit, s')" and "directory_ok s"
  shows "directory_ok s'"
proof -
  define is_admin where "is_admin = (u_role actor = user_role.admin)"
  define f where "f = apply_user_update is_admin payload"
  obtain a where a: "get_account k s = Some a" and s': "s' = save_account k f s"
    and name: "\<And>v. field_value (uu_username payload) = Some v \<Longrightarrow> v = u_username a \<or>
      ensure_unique_username v (Some (u_id a)) s = Inr ()"
    and mail: "\<And>v. uu_email payload = SetTo (Some v) \<Longrightarrow> Some v = ac_email a \<or>
      ensure_unique_email v (Some (u_id a)) s = Inr ()"
    and dept: "check_department_reference (u_dept_id (f a)) s = Inr ()"
    using assms(1)
    by (auto simp: update_user_def get_existing_user_def result_simps Let_def f_def is_admin_def
        optional_check)
  have ok: "accounts_ok s" "departments_ok s" "references_ok s" "failures_ok s"
    using assms(2) by (simp_all add: directory_ok_def)
  have row: "a \<in> set (as_accounts s)" "u_id a = k" using account_rows.get_SomeD [OF a] by simp_all
  have only: "r = a" if "r \<in> set (as_accounts s)" "u_id r = k" for r
    using ok(1) that row by (auto simp: accounts_ok_def intro: distinct_key_eqD)
  note f_columns = apply_user_update_columns [of is_admin payload, folded f_def]
  have name_col: "unique_column u_id (\<lambda>a. Some (u_username a)) (as_accounts s)"
    and mail_col: "unique_column u_id ac_email (as_accounts s)"
    using ok(1) by (simp_all add: accounts_ok_def)
  have "unique_column u_id (\<lambda>a. Some (u_username a)) (update_rows u_id k f (as_accounts s))"
    using name row(2) by (intro usernames.checked_update [OF name_col f_columns(1) row only])
      (auto simp: f_columns split: option.splits)
  moreover have "unique_column u_id ac_email (update_rows u_id k f (as_accounts s))"
    using mail row(2) by (intro emails.checked_update [OF mail_col f_columns(1) row only])
      (auto simp: f_columns split: update_field.splits)
  moreover have "\<forall>r \<in> set (update_rows u_id k f (as_accounts s)). u_id r < as_next_uuid s"
    using ok(1) by (auto simp: accounts_ok_def set_update_rows f_columns)
  ultimately have "accounts_ok s'"
    using ok(1) by (simp add: accounts_ok_def s' save_account_def f_columns)
  moreover have "references_ok s'"
    unfolding references_ok_def
  proof (intro ballI allI impI)
    fix r d
    assume "r \<in> set (as_accounts s')" and d: "u_dept_id r = Some d"
    then obtain q where q: "q \<in> set (as_accounts s)" "r = (if u_id q = k then f q else q)"
      by (auto simp: s' save_account_def set_update_rows)
    then show "d \<in> dp_id ` set (as_departments s')"
      using d dept ok(3) only
      by (auto simp: s' save_account_def references_ok_def check_department_reference_Inr
          split: if_splits)
  qed
  ultimately show ?thesis
    using ok by (simp add: directory_ok_def departments_ok_def failures_ok_def s' save_account_def)
qed

lemma disable_user_InrD:
  assumes "disable_user ttl t actor k db s = Inr (b, s')"
  shows "\<exists>a. get_account k s = Some a \<and> u_role actor = user_role.admin \<and>
    (u_role a = user_role.proj_leader \<longrightarrow> count_active_sub_projects_for_leader k db = 0) \<and>
    b = a\<lparr>u_status := user_status.disabled\<rparr> \<and>
    s' = save_account k (\<lambda>r. r\<lparr>u_status := user_status.disabled\<rparr>)
      (revoke_user_tokens t (str_uuid k) ttl s)"
proof -
  obtain a where a: "get_account k s = Some a" and admin: "u_role actor = user_role.admin"
    and idle: "u_role a = user_role.proj_leader \<Longrightarrow>
      \<not> 0 < count_active_sub_projects_for_leader (u_id a) db"
    and b: "b = a\<lparr>u_status := user_status.disabled\<rparr>"
    and s': "s' = save_account k (\<lambda>r. r\<lparr>u_status := user_status.disabled\<rparr>)
      (revoke_user_tokens t (str_uuid (u_id a)) ttl s)"
    using assms
    by (auto simp: disable_user_def ensure_admin_def get_existing_user_def result_simps Let_def
        split: if_splits)
  have "u_id a = k" using account_rows.get_SomeD [OF a] by simp
  moreover have "count_active_sub_projects_for_leader k db \<ge> 0"
    by (simp add: count_active_sub_projects_for_leader_def)
  ultimately show ?thesis using a admin idle b s' by auto
qed

lemma reset_password_InrD:
  assumes "reset_password c ttl t actor k password s = Inr (b, s')"
  shows "\<exists>a. get_account k s = Some a \<and> u_role actor = user_role.admin \<and>
    s' = save_account k
      (new_password c t (as_next_uuid s) password user_status.password_reset_required)
      (revoke_user_tokens t (str_uuid k) ttl (s\<lparr>as_next_uuid := Suc (as_next_uuid s)\<rparr>))"
  using assms account_rows.get_SomeD [of k s]
  by (auto simp: reset_password_def ensure_admin_def get_existing_user_def result_simps Let_def)

lemma change_own_password_InrD:
  assumes "change_own_password c ttl t actor old password s = Inr (b, s')"
  shows "password_verify c old (ac_password_hash actor) \<and>
    s' = save_account (u_id actor)
      (new_password c t (as_next_uuid s) password user_status.active)
      (revoke_user_tokens t (str_uuid (u_id actor)) ttl (s\<lparr>as_next_uuid := Suc (as_next_uuid s)\<rparr>))"
  using assms by (auto simp: change_own_password_def result_simps Let_def)

lemma revoking_directory:
  assumes "directory_ok s" and "as_next_uuid s \<le> n"
    and "\<And>a. u_id (f a) = u_id a" and "\<And>a. u_username (f a) = u_username a"
    and "\<And>a. ac_email (f a) = ac_email a" and "\<And>a. u_dept_id (f a) = u_dept_id a"
  shows "directory_ok (save_account k f (revoke_user_tokens t j ttl (s\<lparr>as_next_uuid := n\<rparr>)))"
proof (rule directory_ok_save [OF _ assms(3-6)])
  show "directory_ok (revoke_user_tokens t j ttl (s\<lparr>as_next_uuid := n\<rparr>))"
    by (rule same_directory_ok [OF revoke_user_tokens_frame])
      (rule directory_ok_uuid [OF assms(1,2)])
qed

lemma new_password_columns:
  "u_id (new_password c t k p st a) = u_id a" "u_username (new_password c t k p st a) = u_username a"
  "ac_email (new_password c t k p st a) = ac_email a"
  "u_dept_id (new_password c t k p st a) = u_dept_id a"
  by (simp_all add: new_password_def)

lemma save_account_revoked: "as_revoked (save_account k f s) = as_revoked s"
  by (simp add: save_account_def)

lemma revoking_step:
  "revocation_step settings t s (save_account k f
     (revoke_user_tokens t j (get_token_revoke_ttl_seconds settings) (s\<lparr>as_next_uuid := n\<rparr>)))"
  by (auto simp: revoke_user_tokens_def save_account_revoked intro: revocation_step.intros)

lemma create_department_directory:
  assumes "create_department t actor code name s = Inr (d, s')" and "directory_ok s"
  shows "directory_ok s'"
proof -
  have s': "s' = add_department d (s\<lparr>as_next_uuid := Suc (as_next_uuid s)\<rparr>)"
    and d: "dp_id d = as_next_uuid s" "dp_code d = code" "dp_name d = name"
    and checks: "ensure_unique_code code None s = Inr ()" "ensure_unique_name name None s = Inr ()"
    using assms(1) by (auto simp: create_department_def result_simps Let_def)
  have ok: "departments_ok s" using assms(2) by (simp add: directory_ok_def)
  have "unique_column dp_id (\<lambda>d. Some (dp_code d)) (as_departments s @ [d])"
    using ok codes.checked_free [OF checks(1)]
    by (intro unique_column_add) (auto simp: departments_ok_def d)
  moreover have "unique_column dp_id (\<lambda>d. Some (dp_name d)) (as_departments s @ [d])"
    using ok names.checked_free [OF checks(2)]
    by (intro unique_column_add) (auto simp: departments_ok_def d)
  ultimately have "departments_ok s'"
    using ok by (auto simp: departments_ok_def s' add_department_def d less_SucI)
  then show ?thesis
    using assms(2)
    by (auto simp: directory_ok_def accounts_ok_def references_ok_def failures_ok_def s'
        add_department_def less_SucI)
qed

lemma update_department_directory:
  assumes "update_department actor k code name s = Inr (b, s')" and "directory_ok s"
  shows "directory_ok s'"
proof -
  define f :: "department \<Rightarrow> department" where "f = (\<lambda>r. r\<lparr>dp_code := (case code of None \<Rightarrow> dp_code r | Some v \<Rightarrow> v),
    dp_name := (case name of None \<Rightarrow> dp_name r | Some v \<Rightarrow> v)\<rparr>)"
  obtain a where a: "get_department k s = Some a" and s': "s' = save_department k f s"
    and code: "\<And>v. code = Some v \<Longrightarrow> v = dp_code a \<or> ensure_unique_code v (Some (dp_id a)) s = Inr ()"
    and name: "\<And>v. name = Some v \<Longrightarrow> v = dp_name a \<or> ensure_unique_name v (Some (dp_id a)) s = Inr ()"
    using assms(1)
    by (auto simp: update_department_def get_existing_department_def result_simps Let_def f_def
        optional_check)
  have ok: "departments_ok s" using assms(2) by (simp add: directory_ok_def)
  have row: "a \<in> set (as_departments s)" "dp_id a = k" using department_rows.get_SomeD [OF a] by simp_all
  have only: "r = a" if "r \<in> set (as_departments s)" "dp_id r = k" for r
    using ok that row by (auto simp: departments_ok_def intro: distinct_key_eqD)
  have f_id: "dp_id (f r) = dp_id r" for r by (simp add: f_def)
  have f_columns: "dp_code (f r) = (case code of None \<Rightarrow> dp_code r | Some v \<Rightarrow> v)"
    "dp_name (f r) = (case name of None \<Rightarrow> dp_name r | Some v \<Rightarrow> v)" for r by (simp_all add: f_def)
  have code_col: "unique_column dp_id (\<lambda>d. Some (dp_code d)) (as_departments s)"
    and name_col: "unique_column dp_id (\<lambda>d. Some (dp_name d)) (as_departments s)"
    using ok by (simp_all add: departments_ok_def)
  have "unique_column dp_id (\<lambda>d. Some (dp_code d)) (update_rows dp_id k f (as_departments s))"
    using code row(2) by (intro codes.checked_update [OF code_col f_id row only])
      (auto simp: f_columns split: option.splits)
  moreover have "unique_column dp_id (\<lambda>d. Some (dp_name d)) (update_rows dp_id k f (as_departments s))"
    using name row(2) by (intro names.checked_update [OF name_col f_id row only])
      (auto simp: f_columns split: option.splits)
  moreover have "\<forall>r \<in> set (update_rows dp_id k f (as_departments s)). dp_id r < as_next_uuid s"
    using ok by (auto simp: departments_ok_def set_update_rows f_id)
  ultimately have "departments_ok s'"
    using ok by (simp add: departments_ok_def s' save_department_def f_id)
  moreover have "dp_id ` set (as_departments s') = dp_id ` set (as_departments s)"
    using arg_cong [OF keys_update_rows [of dp_id f k "as_departments s", OF f_id], of set]
    by (simp add: s' save_department_def)
  ultimately show ?thesis
    using assms(2)
    by (simp add: directory_ok_def accounts_ok_def references_ok_def failures_ok_def s'
        save_department_def)
qed

lemma delete_department_InrD:
  assumes "delete_department actor k s = Inr (d, s')"
  shows "u_role actor = user_role.admin \<and> get_department k s = Some d \<and> count_active_users k s = 0 \<and>
    s' = repo_delete_department k s"
proof -
  have del: "u_role actor = user_role.admin" "get_department k s = Some d"
    "\<not> 0 < count_active_users (dp_id d) s" "s' = repo_delete_department k s"
    using assms
    by (auto simp: delete_department_def ensure_admin_def get_existing_department_def result_simps
        Let_def)
  moreover have "dp_id d = k" using department_rows.get_SomeD [OF del(2)] by simp
  moreover have "0 \<le> count_active_users k s" by (simp add: count_active_users_def)
  ultimately show ?thesis by simp
qed

lemma delete_department_directory:
  assumes "directory_ok s"
  shows "directory_ok (repo_delete_department k s)"
proof -
  define f :: "account \<Rightarrow> account" where
    "f = (\<lambda>a. if u_dept_id a = Some k then a\<lparr>u_dept_id := None\<rparr> else a)"
  have f: "u_id (f a) = u_id a" "u_username (f a) = u_username a" "ac_email (f a) = ac_email a" for a
    by (simp_all add: f_def)
  have del: "repo_delete_department k s = s\<lparr>as_departments := filter (\<lambda>d. dp_id d \<noteq> k) (as_departments s),
      as_accounts := map f (as_accounts s)\<rparr>"
    by (simp add: repo_delete_department_def f_def)
  have ok: "accounts_ok s" "departments_ok s" "references_ok s" "failures_ok s"
    using assms by (simp_all add: directory_ok_def)
  have "map u_id (map f (as_accounts s)) = map u_id (as_accounts s)" by (simp add: f)
  then have "accounts_ok (repo_delete_department k s)"
    using ok(1) by (auto simp: accounts_ok_def del f comp_def intro!: unique_column_map)
  moreover have "departments_ok (repo_delete_department k s)"
    using ok(2) by (simp add: departments_ok_def del unique_column_filter distinct_map_filter)
  moreover have "references_ok (repo_delete_department k s)"
    unfolding references_ok_def
  proof (intro ballI allI impI)
    fix a j
    assume "a \<in> set (as_accounts (repo_delete_department k s))" and j: "u_dept_id a = Some j"
    then obtain b where b: "b \<in> set (as_accounts s)" "a = f b" by (auto simp: del)
    then have "u_dept_id b = Some j" "j \<noteq> k" using j by (auto simp: f_def split: if_splits)
    moreover from this b(1) have "j \<in> dp_id ` set (as_departments s)"
      using ok(3) unfolding references_ok_def by blast
    ultimately show "j \<in> dp_id ` set (as_departments (repo_delete_department k s))"
      by (auto simp: del)
  qed
  moreover have "failures_ok (repo_delete_department k s)" using ok(4) by (simp add: failures_ok_def del)
  ultimately show ?thesis by (simp add: directory_ok_def)
qed

theorem move_directory:
  assumes "auth_move c settings (t, s) (t', s')" and "directory_ok s"
  shows "directory_ok s'"
  using assms(1)
proof cases
  case move_login
  then show ?thesis using login_directory [OF assms(2)] by (metis snd_conv)
next
  case (move_request credentials r)
  then show ?thesis
    using request_frame [of s c settings t credentials] same_directory_ok [OF _ _ assms(2)] by simp
next
  case (move_refresh cookie r)
  then show ?thesis
    using refresh_frame [of s c settings t cookie] same_directory_ok [OF _ _ assms(2)] by simp
next
  case (move_logout credentials r)
  then show ?thesis
    using logout_frame [of s c settings t credentials] same_directory_ok [OF _ _ assms(2)] by simp
next
  case move_create_user
  then show ?thesis using create_user_directory assms(2) by blast
next
  case move_update_user
  then show ?thesis using update_user_directory assms(2) by blast
next
  case (move_disable_user actor k db r)
  from disable_user_InrD [OF move_disable_user(2)] show ?thesis
    using revoking_directory [OF assms(2) order_refl, of "\<lambda>r. r\<lparr>u_status := user_status.disabled\<rparr>"]
    by auto
next
  case (move_reset_password actor k password r)
  from reset_password_InrD [OF move_reset_password(2)] show ?thesis
    by (auto intro!: revoking_directory [OF assms(2)] simp: new_password_columns)
next
  case (move_change_password actor old password r)
  from change_own_password_InrD [OF move_change_password(2)] show ?thesis
    by (auto intro!: revoking_directory [OF assms(2)] simp: new_password_columns)
next
  case move_create_department
  then show ?thesis using create_department_directory assms(2) by blast
next
  case move_update_department
  then show ?thesis using update_department_directory assms(2) by blast
next
  case (move_delete_department actor k d)
  from delete_department_InrD [OF move_delete_department(2)] show ?thesis
    using delete_department_directory [OF assms(2)] by simp
qed (simp add: assms(2))

interpretation directory: invariant auth_start "auth_move c settings" "\<lambda>_. True"
    "\<lambda>ts. directory_ok (snd ts)"
  for c :: "'tok crypto" and settings
proof unfold_locales
  show "directory_ok (snd ts)" if "auth_start ts" for ts
    using that by (simp add: auth_start_def directory_ok_def accounts_ok_def departments_ok_def
        references_ok_def failures_ok_def)
  show "directory_ok (snd ts')" if "directory_ok (snd ts)" "auth_move c settings ts ts'" for ts ts'
    using that by (cases ts; cases ts') (simp, rule move_directory)
qed simp

subsection \<open>Revocations are remembered\<close>

text \<open>
  A stored revocation lies in the past and expires within the time to live that every
  revocation gets; a later one for the same user reaches further on both counts.
\<close>

lemma move_revocations:
  assumes "auth_move c settings (t, s) (t', s')"
  shows "(\<exists>d \<ge> 0. t' = after d t) \<and> (t' = t \<and> revocation_step settings t s s' \<or> s' = s)"
proof -
  have now: "\<exists>d \<ge> 0. t = after d t" by (rule exI [of _ 0]) (simp add: after_def)
  from assms show ?thesis
  proof cases
    case (move_time d)
    then show ?thesis by auto
  next
    case move_login
    then show ?thesis using now login_revoked revocation_step.unchanged by (metis snd_conv)
  next
    case (move_request credentials r)
    then show ?thesis using now request_frame [of s c settings t credentials] by simp
  next
    case (move_refresh cookie r)
    then show ?thesis using now refresh_frame [of s c settings t cookie] by simp
  next
    case (move_logout credentials r)
    then show ?thesis using now logout_frame [of s c settings t credentials] by simp
  next
    case (move_disable_user actor k db r)
    from disable_user_InrD [OF move_disable_user(2)] show ?thesis
      using now revoking_step [of settings t s k _ _ "as_next_uuid s"] by (auto simp: move_disable_user)
  next
    case (move_reset_password actor k password r)
    from reset_password_InrD [OF move_reset_password(2)] show ?thesis
      using now by (auto simp: move_reset_password intro: revoking_step)
  next
    case (move_change_password actor old password r)
    from change_own_password_InrD [OF move_change_password(2)] show ?thesis
      using now by (auto simp: move_change_password intro: revoking_step)
  next
    case move_create_user
    then show ?thesis
      using now by (auto simp: create_user_def result_simps Let_def add_account_def
          intro!: revocation_step.unchanged)
  next
    case move_update_user
    then show ?thesis
      using now by (auto simp: update_user_def result_simps Let_def save_account_revoked
          intro!: revocation_step.unchanged)
  next
    case move_create_department
    then show ?thesis
      using now by (auto simp: create_department_def result_simps Let_def add_department_def
          intro!: revocation_step.unchanged)
  next
    case move_update_department
    then show ?thesis
      using now by (auto simp: update_department_def result_simps Let_def save_department_def
          intro!: revocation_step.unchanged)
  next
    case move_delete_department
    then show ?thesis
      using now by (auto dest!: delete_department_InrD simp: repo_delete_department_def
          intro!: revocation_step.unchanged)
  qed
qed

definition revocations_ok :: "auth_settings \<Rightarrow> moment \<times> auth_state \<Rightarrow> bool" where
  "revocations_ok settings ts \<longleftrightarrow> 0 \<le> wall (fst ts) \<and>
     (\<forall>k r e. as_revoked (snd ts) k = Some (r, e) \<longrightarrow> r \<le> int_timestamp (wall (fst ts)) \<and>
        e \<le> monotonic (fst ts) + seconds (get_token_revoke_ttl_seconds settings))"

definition revocations_last :: "moment \<times> auth_state \<Rightarrow> moment \<times> auth_state \<Rightarrow> bool" where
  "revocations_last ts ts' \<longleftrightarrow> (\<exists>d \<ge> 0. fst ts' = after d (fst ts)) \<and>
     (\<forall>k r e. as_revoked (snd ts) k = Some (r, e) \<longrightarrow> e \<le> monotonic (fst ts') \<or>
        (\<exists>r' e'. as_revoked (snd ts') k = Some (r', e') \<and> r \<le> r' \<and> e \<le> e'))"

lemma int_timestamp_mono: "t \<le> t' \<Longrightarrow> int_timestamp t \<le> int_timestamp t'"
  by (auto simp: int_timestamp_def zdiv_mono1 pos_imp_zdiv_nonneg_iff intro: order_trans [of _ 0])

lemma int_timestamp_add: "0 \<le> t \<Longrightarrow> 0 \<le> n \<Longrightarrow> int_timestamp (t + seconds n) = int_timestamp t + n"
  by (simp add: int_timestamp_def seconds_def)

lemma revocation_step_ok:
  assumes "revocation_step settings t s s'" and "revocations_ok settings (t, s)"
  shows "revocations_ok settings (t, s')"
  using assms by cases (auto simp: revocations_ok_def)

lemma revocations_ok_after:
  "0 \<le> d \<Longrightarrow> revocations_ok settings (t, s) \<Longrightarrow> revocations_ok settings (after d t, s)"
  using int_timestamp_mono [of "wall t" "wall t + d"]
  by (fastforce simp: revocations_ok_def after_def)

interpretation session_revocations: invariant auth_start "auth_move c settings" "\<lambda>_. True"
    "revocations_ok settings"
  for c :: "'tok crypto" and settings
proof unfold_locales
  show "revocations_ok settings ts" if "auth_start ts" for ts
    using that by (simp add: auth_start_def revocations_ok_def)
  show "revocations_ok settings ts'"
    if "revocations_ok settings ts" "auth_move c settings ts ts'" for ts ts'
    using that move_revocations [of c settings "fst ts" "snd ts" "fst ts'" "snd ts'"]
      revocation_step_ok revocations_ok_after
    by (metis prod.collapse)
qed simp

lemma revocations_last_refl: "revocations_last ts ts"
  unfolding revocations_last_def by (intro conjI exI [of _ 0]) (simp_all add: after_def)

lemma revocations_last_trans:
  assumes "revocations_last a b" and "revocations_last b c"
  shows "revocations_last a c"
proof -
  obtain d where d: "0 \<le> d" "fst b = after d (fst a)" using assms(1) by (auto simp: revocations_last_def)
  obtain d' where d': "0 \<le> d'" "fst c = after d' (fst b)" using assms(2) by (auto simp: revocations_last_def)
  have "fst c = after (d + d') (fst a)" using d d' by (simp add: after_def)
  moreover have "e \<le> monotonic (fst c) \<or> (\<exists>r' e'. as_revoked (snd c) k = Some (r', e') \<and> r \<le> r' \<and> e \<le> e')"
    if "as_revoked (snd a) k = Some (r, e)" for k r e
  proof -
    from assms(1) that consider "e \<le> monotonic (fst b)"
      | r' e' where "as_revoked (snd b) k = Some (r', e')" "r \<le> r'" "e \<le> e'"
      unfolding revocations_last_def by blast
    then show ?thesis
    proof cases
      case 1
      then show ?thesis using d' by (simp add: after_def)
    next
      case 2
      with assms(2) have "e' \<le> monotonic (fst c) \<or>
          (\<exists>q f. as_revoked (snd c) k = Some (q, f) \<and> r' \<le> q \<and> e' \<le> f)"
        unfolding revocations_last_def by blast
      then show ?thesis using 2(2,3) by (auto intro: order_trans)
    qed
  qed
  ultimately show ?thesis using d d' unfolding revocations_last_def by (metis add_nonneg_nonneg)
qed

lemma revocation_step_last:
  assumes "revocation_step settings t s s'" and "revocations_ok settings (t, s)"
  shows "revocations_last (t, s) (t, s')"
proof -
  have "\<exists>d \<ge> 0. t = after d t" by (rule exI [of _ 0]) (simp add: after_def)
  with assms show ?thesis by cases (auto simp: revocations_ok_def revocations_last_def)
qed

interpretation remembered: monotone_relation auth_start "auth_move c settings"
    "revocations_ok settings" revocations_last
  for c :: "'tok crypto" and settings
proof unfold_locales
  show "revocations_last ts ts'"
    if "revocations_ok settings ts" "auth_move c settings ts ts'" for ts ts'
  proof -
    obtain t s t' s' where eq: "ts = (t, s)" "ts' = (t', s')" by (cases ts; cases ts')
    from move_revocations [OF that(2) [unfolded eq]]
    consider "t' = t" "revocation_step settings t s s'" | d where "0 \<le> d" "t' = after d t" "s' = s"
      by blast
    then show ?thesis
    proof cases
      case 1
      then show ?thesis using revocation_step_last that(1) by (simp add: eq)
    next
      case 2
      then show ?thesis by (auto simp: eq revocations_last_def)
    qed
  qed
qed (rule session_revocations.reachable_inv revocations_last_refl revocations_last_trans; assumption)+

end
