(* ===== verification/AccountSafety.thy ===== *)
theory AccountSafety
  imports Directory
begin

text \<open>
  What accounts and sessions promise: names are unique and counts bounded, passwords cannot be
  guessed at will, issued tokens are accepted for what they are, and a revoked session does not
  come back.
\<close>

subsection \<open>The directory\<close>

lemma unique_column_distinct:
  assumes "distinct (map key rows)" and "unique_column key (\<lambda>r. Some (g r)) rows"
  shows "distinct (map g rows)"
proof -
  have "inj_on g (set rows)"
  proof (rule inj_onI)
    fix a b
    assume ab: "a \<in> set rows" "b \<in> set rows" "g a = g b"
    then have "key a = key b" using unique_columnD [OF assms(2)] by blast
    with ab show "a = b" using distinct_key_eqD [OF assms(1)] by blast
  qed
  moreover have "distinct rows" using assms(1) by (simp add: distinct_map)
  ultimately show ?thesis by (simp add: distinct_map)
qed

definition demo_crypto :: "(claims \<times> string \<times> string) crypto" where
  "demo_crypto = \<lparr> password_hash = (\<lambda>salt p. p), password_verify = (\<lambda>p h. p = h),
     jwt_encode = (\<lambda>cs key alg. (cs, key, alg)),
     jwt_decode = (\<lambda>(cs, key, alg) key' algs now.
       if key = key' \<and> alg \<in> set algs \<and>
         (case map_of cs ''exp'' of Some (CNumber e) \<Rightarrow> int_timestamp now \<le> e | _ \<Rightarrow> True)
       then Some cs else None) \<rparr>"

definition demo_settings :: auth_settings where
  "demo_settings = \<lparr> app_env = ''development'', jwt_algorithm = ''RS256'', jwt_secret_key = ''key'',
     jwt_private_key = None, jwt_public_key = None, jwt_access_token_expire_minutes = 30,
     jwt_refresh_token_expire_days = 7 \<rparr>"

definition demo_moment :: moment where
  "demo_moment = \<lparr> wall = 1700000000000000, monotonic = 5000000 \<rparr>"

definition demo_admin :: account where
  "demo_admin = \<lparr> u_id = 0, u_username = ''root'', u_role = user_role.admin, u_dept_id = None,
     u_status = user_status.active, u_timezone = ''UTC'', ac_email = None,
     ac_password_hash = ''Secret-1'', ac_sso_required = False, ac_password_changed_at = None,
     ac_last_login_at = None, ac_created_at = 0 \<rparr>"

definition demo_empty :: auth_state where
  "demo_empty = \<lparr> as_accounts = [], as_departments = [], as_failures = (\<lambda>_. None),
     as_blacklist = (\<lambda>_. None), as_revoked = (\<lambda>_. None), as_next_uuid = 0 \<rparr>"

definition demo_ada :: user_create where
  "demo_ada = \<lparr> uc_username = ''ada'', uc_password = ''Lovelace-1815'', uc_role = user_role.proj_leader,
     uc_email = Some ''ada@example.org'', uc_dept_id = Some 0, uc_sso_required = False,
     uc_timezone = ''UTC'' \<rparr>"

definition demo_with_department :: auth_state where
  "demo_with_department = snd (projr (create_department demo_moment demo_admin ''D1'' ''Works'' demo_empty))"

definition demo_directory :: auth_state where
  "demo_directory = snd (projr (create_user demo_crypto demo_moment demo_admin demo_ada demo_with_department))"

lemma Inr_pair_collapse: "\<not> isl r \<Longrightarrow> r = Inr (fst (projr r), snd (projr r))"
  by (cases r) simp_all

lemma demo_directory_made:
  "create_department demo_moment demo_admin ''D1'' ''Works'' demo_empty =
     Inr (fst (projr (create_department demo_moment demo_admin ''D1'' ''Works'' demo_empty)),
       demo_with_department)"
  "create_user demo_crypto demo_moment demo_admin demo_ada demo_with_department =
     Inr (fst (projr (create_user demo_crypto demo_moment demo_admin demo_ada demo_with_department)),
       demo_directory)"
  unfolding demo_directory_def
  by (subst demo_with_department_def, rule Inr_pair_collapse, code_simp)
    (rule Inr_pair_collapse, code_simp)

lemma created_stores:
  "create_user c t actor payload s = Inr (a, s') \<Longrightarrow> as_failures s' = as_failures s \<and>
     as_blacklist s' = as_blacklist s \<and> as_revoked s' = as_revoked s"
  "create_department t actor code name s = Inr (d, s') \<Longrightarrow> as_failures s' = as_failures s \<and>
     as_blacklist s' = as_blacklist s \<and> as_revoked s' = as_revoked s"
  by (auto simp: create_user_def create_department_def result_simps Let_def add_account_def
      add_department_def)

lemma demo_stores:
  "as_failures demo_directory key = None" "as_blacklist demo_directory key = None"
  "as_revoked demo_directory key = None"
  using created_stores(2) [OF demo_directory_made(1)] created_stores(1) [OF demo_directory_made(2)]
  by (simp_all add: demo_empty_def)

lemma demo_reachable: "auth_reachable demo_crypto demo_settings (demo_moment, demo_directory)"
proof -
  have "auth_start (demo_moment, demo_empty)"
    by (simp add: auth_start_def demo_empty_def demo_moment_def)
  then have "auth_reachable demo_crypto demo_settings (demo_moment, demo_empty)"
    by (rule reaches_init)
  then have "auth_reachable demo_crypto demo_settings (demo_moment, demo_with_department)"
    by (rule reaches_move) (rule move_create_department [OF demo_directory_made(1)])
  then show ?thesis
    by (rule reaches_move) (rule move_create_user [OF demo_directory_made(2)])
qed

text \<open>
  C39: The directory is consistent in every reachable state: identifiers, user names, department
  codes and department names are unique, two accounts with the same email are the same, the
  department of an account exists, and a count of failed logins is between one and five.
\<close>
theorem directory_is_consistent:
  assumes "auth_reachable c settings (t, s)"
  shows "distinct (map u_id (as_accounts s)) \<and> distinct (map u_username (as_accounts s)) \<and>
    (\<forall>a \<in> set (as_accounts s). \<forall>b \<in> set (as_accounts s).
       ac_email a \<noteq> None \<and> ac_email a = ac_email b \<longrightarrow> a = b) \<and>
    distinct (map dp_code (as_departments s)) \<and> distinct (map dp_name (as_departments s)) \<and>
    (\<forall>a \<in> set (as_accounts s). \<forall>k. u_dept_id a = Some k \<longrightarrow> get_department k s \<noteq> None) \<and>
    (\<forall>key n e. as_failures s key = Some (n, e) \<longrightarrow> 1 \<le> n \<and> n \<le> 5)"
proof -
  have ok: "accounts_ok s" "departments_ok s" "references_ok s" "failures_ok s"
    using directory.reachable_inv [OF assms] by (simp_all add: directory_ok_def)
  have same: "\<forall>a \<in> set (as_accounts s). \<forall>b \<in> set (as_accounts s).
      ac_email a \<noteq> None \<and> ac_email a = ac_email b \<longrightarrow> a = b"
  proof (intro ballI impI)
    fix a b
    assume that: "a \<in> set (as_accounts s)" "b \<in> set (as_accounts s)"
      "ac_email a \<noteq> None \<and> ac_email a = ac_email b"
    from that(3) obtain v where "ac_email a = Some v" "ac_email b = Some v"
      by (metis not_None_eq)
    then have "u_id a = u_id b" using ok(1) that(1,2) by (auto simp: accounts_ok_def dest: unique_columnD)
    then show "a = b" using ok(1) that(1,2) by (auto simp: accounts_ok_def intro: distinct_key_eqD)
  qed
  show ?thesis
    using ok same unique_column_distinct [of u_id "as_accounts s" u_username]
      unique_column_distinct [of dp_id "as_departments s" dp_code]
      unique_column_distinct [of dp_id "as_departments s" dp_name]
    by (simp add: accounts_ok_def departments_ok_def references_ok_def failures_ok_def
        auth_failure_limit_def get_department_def find_row_None_iff del: not_None_eq)
qed

lemma directory_is_consistent_witness:
  "map u_username (as_accounts demo_directory) = [''ada''] \<and>
   distinct (map u_username (as_accounts demo_directory)) \<and>
   list_all (\<lambda>a. u_dept_id a = Some 0 \<and> get_department 0 demo_directory \<noteq> None)
     (as_accounts demo_directory)"
proof -
  have rows: "map u_username (as_accounts demo_directory) = [''ada'']"
    "map u_dept_id (as_accounts demo_directory) = [Some 0]" by code_simp+
  then obtain a where "as_accounts demo_directory = [a]" "u_dept_id a = Some 0" by (cases "as_accounts demo_directory") auto
  with rows directory_is_consistent [OF demo_reachable] show ?thesis by simp
qed

subsection \<open>Guessing passwords\<close>

fun login_attempts ::
  "'tok crypto \<Rightarrow> auth_settings \<Rightarrow> string \<Rightarrow> (moment \<times> string) list \<Rightarrow> auth_state \<Rightarrow>
     (py_error + 'tok auth_tokens) list" where
  "login_attempts c settings name [] s = []"
| "login_attempts c settings name ((t, password) # tries) s =
     (case login_user c settings t name password s of
        (r, s') \<Rightarrow> r # login_attempts c settings name tries s')"

definition may_log_in :: "string \<Rightarrow> account \<Rightarrow> auth_state \<Rightarrow> bool" where
  "may_log_in name a s \<longleftrightarrow> get_by_username name s = Some a \<and>
     u_status a \<in> set login_allowed_statuses \<and> \<not> ac_sso_required a"

lemma login_locked:
  assumes "may_log_in name a s" and "as_failures s (get_auth_failure_key (u_id a)) = Some (n, e)"
    and "monotonic t < e" and "auth_failure_limit \<le> n"
  shows "login_user c settings t name password s = (Inl locked, s)"
  using assms
  by (simp add: login_user_def authenticate_user_def may_log_in_def get_fail_count_def Let_def)

lemma login_wrong:
  assumes "may_log_in name a s" and "\<not> password_verify c password (ac_password_hash a)"
    and "fst (get_fail_count t (get_auth_failure_key (u_id a)) s) = n" and "n < auth_failure_limit"
  obtains s' where "login_user c settings t name password s =
      (Inl (if n + 1 < auth_failure_limit then wrong_password else locked), s')"
    and "may_log_in name a s'"
    and "as_failures s' (get_auth_failure_key (u_id a)) =
      Some (n + 1, monotonic t + seconds auth_failure_ttl_seconds)"
proof -
  let ?key = "get_auth_failure_key (u_id a)"
  obtain s1 where s1: "get_fail_count t ?key s = (n, s1)"
    using assms(3) by (cases "get_fail_count t ?key s") simp
  have again: "get_fail_count t ?key s1 = (n, s1)"
    using s1 by (auto simp: get_fail_count_def split: option.splits if_splits)
  have "as_accounts s1 = as_accounts s" using get_fail_count_frame [OF s1] by (simp add: same_directory_def)
  then show ?thesis
    using assms(1,2,4)
    by (intro that [of "s1\<lparr>as_failures := (as_failures s1)(?key :=
          Some (n + 1, monotonic t + seconds auth_failure_ttl_seconds))\<rparr>"])
      (auto simp: login_user_def authenticate_user_def may_log_in_def s1 again increment_fail_count_def
        Let_def get_by_username_def)
qed

lemma counted_attempts:
  assumes "may_log_in name a s"
    and "as_failures s (get_auth_failure_key (u_id a)) = Some (int n, e)" and "1 \<le> n" and "n \<le> 5"
    and "limit \<le> e"
    and "\<And>t p. (t, p) \<in> set tries \<Longrightarrow>
      monotonic t < limit \<and> limit \<le> monotonic t + seconds auth_failure_ttl_seconds"
    and "\<And>t p. (t, p) \<in> set (take (5 - n) tries) \<Longrightarrow> \<not> password_verify c p (ac_password_hash a)"
  shows "login_attempts c settings name tries s =
    replicate (min (4 - n) (length tries)) (Inl wrong_password) @
    replicate (length tries - (4 - n)) (Inl locked)"
  using assms
proof (induction tries arbitrary: s n e)
  case (Cons x tries)
  obtain t p where at: "x = (t, p)" by (cases x)
  have time: "monotonic t < limit" "limit \<le> monotonic t + seconds auth_failure_ttl_seconds"
    using Cons.prems(6) [of t p] by (simp_all add: at)
  have counted: "fst (get_fail_count t (get_auth_failure_key (u_id a)) s) = int n"
    using Cons.prems(2,5) time by (simp add: get_fail_count_def)
  show ?case
  proof (cases "n = 5")
    case True
    have "login_attempts c settings name tries s =
        replicate (min (4 - n) (length tries)) (Inl wrong_password) @
        replicate (length tries - (4 - n)) (Inl locked)"
      using Cons.prems(6) by (intro Cons.IH [OF Cons.prems(1-5)]) (auto simp: True)
    moreover have "login_user c settings t name p s = (Inl locked, s)"
      using Cons.prems(5) time True
      by (intro login_locked [OF Cons.prems(1,2)]) (simp_all add: auth_failure_limit_def)
    ultimately show ?thesis by (simp add: at True)
  next
    case False
    with Cons.prems(4) obtain k where k: "5 - n = Suc k" by (cases "5 - n") simp_all
    have wrong: "\<not> password_verify c p (ac_password_hash a)"
      using Cons.prems(7) [of t p] by (simp add: at k)
    obtain s' where s': "login_user c settings t name p s =
        (Inl (if int n + 1 < auth_failure_limit then wrong_password else locked), s')"
      "may_log_in name a s'"
      "as_failures s' (get_auth_failure_key (u_id a)) =
        Some (int n + 1, monotonic t + seconds auth_failure_ttl_seconds)"
      using False Cons.prems(4)
      by (elim login_wrong [OF Cons.prems(1) wrong counted, of settings, rotated])
        (auto simp: auth_failure_limit_def)
    have "login_attempts c settings name tries s' =
        replicate (min (4 - Suc n) (length tries)) (Inl wrong_password) @
        replicate (length tries - (4 - Suc n)) (Inl locked)"
    proof (rule Cons.IH [OF s'(2) _ _ _ time(2)])
      show "as_failures s' (get_auth_failure_key (u_id a)) =
          Some (int (Suc n), monotonic t + seconds auth_failure_ttl_seconds)"
        using s'(3) by (simp add: add.commute)
      show "\<not> password_verify c q (ac_password_hash a)" if "(u, q) \<in> set (take (5 - Suc n) tries)" for u q
      proof -
        have "5 - Suc n = k" using k by simp
        then show ?thesis using Cons.prems(7) [of u q] that k by (simp add: at)
      qed
    qed (use False Cons.prems(4,6) in auto)
    moreover have "n = 1 \<or> n = 2 \<or> n = 3 \<or> n = 4" using False Cons.prems(3,4) by auto
    ultimately show ?thesis
      using s'(1) by (auto simp: at auth_failure_limit_def replicate_app_Cons_same)
  qed
qed simp

definition demo_guesses :: "(moment \<times> string) list" where
  "demo_guesses = map (\<lambda>(d, p). (after d demo_moment, p))
     [(0, ''123456''), (1000000, ''password''), (2000000, ''qwerty''), (3000000, ''ada''),
      (4000000, ''Lovelace''), (5000000, ''Lovelace-1815''), (6000000, ''letmein'')]"

text \<open>
  C38: Guessing is limited: of the attempts to log in to an account within half an hour, once the
  first five have had a wrong password, the first four answer that it was wrong, and the fifth
  and every later one answer that the account is locked, whatever password they try.
\<close>
theorem password_guessing_is_limited:
  assumes "may_log_in name a s"
    and "fst (get_fail_count start (get_auth_failure_key (u_id a)) s) = 0"
    and "\<And>t p. (t, p) \<in> set tries \<Longrightarrow>
      monotonic start \<le> monotonic t \<and> monotonic t < monotonic start + seconds (30 * 60)"
    and "tries \<noteq> []" and "fst (hd tries) = start"
    and "\<And>t p. (t, p) \<in> set (take 5 tries) \<Longrightarrow> \<not> password_verify c p (ac_password_hash a)"
  shows "login_attempts c settings name tries s =
    replicate (min 4 (length tries)) (Inl wrong_password) @ replicate (length tries - 4) (Inl locked)"
proof -
  obtain p rest where tries: "tries = (start, p) # rest" using assms(4,5) by (cases tries) auto
  have wrong: "\<not> password_verify c p (ac_password_hash a)" using assms(6) [of start p] by (simp add: tries)
  obtain s' where s': "login_user c settings start name p s =
      (Inl (if (0::int) + 1 < auth_failure_limit then wrong_password else locked), s')"
    "may_log_in name a s'"
    "as_failures s' (get_auth_failure_key (u_id a)) =
      Some (0 + 1, monotonic start + seconds auth_failure_ttl_seconds)"
    by (rule login_wrong [OF assms(1) wrong assms(2), of settings]) (simp add: auth_failure_limit_def)
  have "login_attempts c settings name rest s' =
      replicate (min (4 - 1) (length rest)) (Inl wrong_password) @
      replicate (length rest - (4 - 1)) (Inl locked)"
  proof (rule counted_attempts [OF s'(2) _ _ _ order_refl])
    show "as_failures s' (get_auth_failure_key (u_id a)) =
        Some (int 1, monotonic start + seconds auth_failure_ttl_seconds)"
      using s'(3) by simp
    show "\<not> password_verify c q (ac_password_hash a)" if "(u, q) \<in> set (take (5 - 1) rest)" for u q
      using assms(6) [of u q] that by (simp add: tries)
    show "monotonic t < monotonic start + seconds auth_failure_ttl_seconds \<and>
        monotonic start + seconds auth_failure_ttl_seconds \<le>
        monotonic t + seconds auth_failure_ttl_seconds" if "(t, q) \<in> set rest" for t q
      using assms(3) [of t q] that by (simp add: tries auth_failure_ttl_seconds_def)
  qed simp_all
  moreover have "replicate (Suc n) x = x # replicate n x" for n and x :: "py_error + 'a auth_tokens"
    by simp
  ultimately show ?thesis using s'(1) by (simp add: tries auth_failure_limit_def min_def eval_nat_numeral)
qed

lemma password_guessing_is_limited_witness:
  "login_attempts demo_crypto demo_settings ''ada'' demo_guesses demo_directory =
     [Inl wrong_password, Inl wrong_password, Inl wrong_password, Inl wrong_password,
      Inl locked, Inl locked, Inl locked]"
proof -
  define a where "a = hd (as_accounts demo_directory)"
  have columns: "map u_username (as_accounts demo_directory) = [''ada'']"
    "map u_status (as_accounts demo_directory) = [user_status.active]"
    "map ac_sso_required (as_accounts demo_directory) = [False]"
    "map ac_password_hash (as_accounts demo_directory) = [''Lovelace-1815'']" by code_simp+
  then have a: "as_accounts demo_directory = [a]" by (cases "as_accounts demo_directory") (auto simp: a_def)
  have login: "may_log_in ''ada'' a demo_directory"
    using columns by (simp add: may_log_in_def get_by_username_def a login_allowed_statuses_def)
  have count: "fst (get_fail_count demo_moment (get_auth_failure_key (u_id a)) demo_directory) = 0"
    by (simp add: get_fail_count_def demo_stores)
  have "hd demo_guesses = (demo_moment, ''123456'')" "demo_guesses \<noteq> []"
    by (simp_all add: demo_guesses_def after_def)
  moreover have "list_all (\<lambda>(t, p). monotonic demo_moment \<le> monotonic t \<and>
      monotonic t < monotonic demo_moment + seconds (30 * 60)) demo_guesses"
    by (simp add: demo_guesses_def after_def seconds_def)
  moreover have "list_all (\<lambda>(t, p). \<not> password_verify demo_crypto p (ac_password_hash a))
      (take 5 demo_guesses)"
    using columns by (simp add: a demo_guesses_def demo_crypto_def)
  ultimately have "login_attempts demo_crypto demo_settings ''ada'' demo_guesses demo_directory =
      replicate (min 4 (length demo_guesses)) (Inl wrong_password) @
      replicate (length demo_guesses - 4) (Inl locked)"
    by (intro password_guessing_is_limited [OF login count]) (auto simp: list_all_iff)
  then show ?thesis by (simp add: demo_guesses_def numeral_eq_Suc)
qed

subsection \<open>Tokens\<close>

text \<open>
  What is relied on of \<open>jose\<close>: a token signed with the signing key decodes, with the
  verification key and algorithm, to its claims before it expires and to an error after it.
\<close>

definition signed_tokens_verify :: "'tok crypto \<Rightarrow> auth_settings \<Rightarrow> bool" where
  "signed_tokens_verify c settings \<longleftrightarrow>
     (\<forall>key alg key' alg' cs e now. get_jwt_signing_config settings = Inr (key, alg) \<longrightarrow>
        get_jwt_verification_config settings = Inr (key', alg') \<longrightarrow>
        map_of cs ''exp'' = Some (CNumber e) \<longrightarrow>
        jwt_decode c (jwt_encode c cs key alg) key' [alg'] now \<in> {None, Some cs} \<and>
        (int_timestamp now < e \<longrightarrow>
           jwt_decode c (jwt_encode c cs key alg) key' [alg'] now = Some cs) \<and>
        (e < int_timestamp now \<longrightarrow>
           jwt_decode c (jwt_encode c cs key alg) key' [alg'] now = None))"

lemma demo_tokens_verify: "signed_tokens_verify demo_crypto demo_settings"
  by (simp add: signed_tokens_verify_def demo_crypto_def demo_settings_def
      get_jwt_signing_config_def get_jwt_verification_config_def key_config_def)

lemma token_claims_simps [simp]:
  "map_of (token_claims t ty d a j) ''type'' = Some (CText ty)"
  "map_of (token_claims t ty d a j) ''exp'' = Some (CNumber (int_timestamp (wall t + seconds d)))"
  "claim_text ''sub'' (token_claims t ty d a j) = Some (str_uuid (u_id a))"
  "claim_text ''jti'' (token_claims t ty d a j) = Some (str_uuid j)"
  "claim_int ''iat'' (token_claims t ty d a j) = Inr (int_timestamp (wall t))"
  by (simp_all add: token_claims_def claim_text_def claim_int_def)

text \<open>A token that is accepted decodes to its claims and was issued after every live revocation.\<close>

lemma validate_InrD:
  assumes "fst (validate_token_claims c settings t token ty s) = Inr cs"
    and "get_jwt_verification_config settings = Inr (key, alg)"
  shows "jwt_decode c token key [alg] (wall t) = Some cs \<and>
    (\<forall>k i r e. claim_text ''sub'' cs = Some k \<longrightarrow> claim_int ''iat'' cs = Inr i \<longrightarrow>
       as_revoked s k = Some (r, e) \<longrightarrow> monotonic t < e \<longrightarrow> r < i)"
proof -
  have revoked: "as_revoked (snd (is_jti_blacklisted t j s)) = as_revoked s" for j
    by (rule session_frames)
  show ?thesis
    using assms
    by (auto simp: validate_token_claims_def case_prod_beta get_user_revoked_after_def revoked
        split: option.splits sum.splits if_splits bool.splits)
qed

text \<open>What a successful login has checked and done.\<close>

definition before_tokens :: "moment \<Rightarrow> account \<Rightarrow> auth_state \<Rightarrow> auth_state" where
  "before_tokens t a s = reset_fail_count (get_auth_failure_key (u_id a))
     (snd (get_fail_count t (get_auth_failure_key (u_id a)) s))"

lemma login_InrD:
  assumes "login_user c settings t name password s = (Inr tokens, s')"
  obtains a s1 where "may_log_in name a s" and "password_verify c password (ac_password_hash a)"
    and "create_auth_tokens c settings t a (before_tokens t a s) = Inr (tokens, s1)"
    and "s' = save_account (u_id a) (\<lambda>r. r\<lparr>ac_last_login_at := Some (wall t)\<rparr>) s1"
  using assms
  by (auto simp: login_user_def authenticate_user_def may_log_in_def before_tokens_def Let_def
      case_prod_beta split: option.splits if_splits sum.splits)

lemma before_tokens_frame:
  "as_accounts (before_tokens t a s) = as_accounts s"
  "as_blacklist (before_tokens t a s) = as_blacklist s"
  "as_revoked (before_tokens t a s) = as_revoked s"
  "as_next_uuid (before_tokens t a s) = as_next_uuid s"
  by (auto simp: before_tokens_def reset_fail_count_def get_fail_count_def split: option.split)

lemma login_succeeds:
  assumes "may_log_in name a s" and "password_verify c password (ac_password_hash a)"
    and "fst (get_fail_count t (get_auth_failure_key (u_id a)) s) < auth_failure_limit"
    and "get_jwt_signing_config settings = Inr signing"
  shows "\<exists>tokens s'. login_user c settings t name password s = (Inr tokens, s')"
proof -
  obtain key alg where keys: "signing = (key, alg)" by (cases signing)
  have "\<exists>tokens s1. create_auth_tokens c settings t a s0 = Inr (tokens, s1)" for s0
    using assms(4) unfolding keys
    by (simp add: create_auth_tokens_def create_access_token_def create_jwt_token_def Let_def)
  from this [of "before_tokens t a s"] show ?thesis
    using assms(1-3)
    by (auto simp: login_user_def authenticate_user_def may_log_in_def before_tokens_def Let_def
        case_prod_beta)
qed

text \<open>An unexpired token that is not revoked is accepted as what it is, and only as that.\<close>

lemma unexpired_token:
  assumes "signed_tokens_verify c settings" and "get_jwt_signing_config settings = Inr (key, alg)"
    and "get_jwt_verification_config settings = Inr (key', alg')"
    and "int_timestamp (wall t') < int_timestamp (wall t + seconds life)"
    and "as_blacklist s (str_uuid j) = None" and "as_revoked s (str_uuid (u_id a)) = None"
  shows "validate_token_claims c settings t' (jwt_encode c (token_claims t ty life a j) key alg) ty' s =
    (if ty' = ty then Inr (token_claims t ty life a j)
     else Inl (AuthenticationError ''Invalid token type''), s)"
proof -
  have "jwt_decode c (jwt_encode c (token_claims t ty life a j) key alg) key' [alg'] (wall t') =
      Some (token_claims t ty life a j)"
    using assms(1-4) unfolding signed_tokens_verify_def by (metis token_claims_simps(2))
  then show ?thesis
    using assms(3,5,6)
    by (simp add: validate_token_claims_def is_jti_blacklisted_def get_user_revoked_after_def)
qed

text \<open>The operations that end the sessions of a user.\<close>

definition ends_sessions ::
  "'tok crypto \<Rightarrow> auth_settings \<Rightarrow> moment \<Rightarrow> uuid \<Rightarrow> auth_state \<Rightarrow> auth_state \<Rightarrow> bool" where
  "ends_sessions c settings t k s s' \<longleftrightarrow> (let ttl = get_token_revoke_ttl_seconds settings in
     (\<exists>actor db a. disable_user ttl t actor k db s = Inr (a, s')) \<or>
     (\<exists>actor password a. reset_password c ttl t actor k password s = Inr (a, s')) \<or>
     (\<exists>actor old password a. u_id actor = k \<and>
        change_own_password c ttl t actor old password s = Inr (a, s')))"

lemma ends_sessions_revokes:
  assumes "ends_sessions c settings t k s s'" and "0 < get_token_revoke_ttl_seconds settings"
  shows "as_revoked s' (str_uuid k) = Some (int_timestamp (wall t),
    monotonic t + seconds (get_token_revoke_ttl_seconds settings))"
  using assms
  by (auto simp: ends_sessions_def Let_def save_account_revoked revoke_user_tokens_def
      dest!: disable_user_InrD reset_password_InrD change_own_password_InrD)

lemma ends_sessions_move:
  "ends_sessions c settings t k s s' \<Longrightarrow> auth_move c settings (t, s) (t, s')"
  by (auto simp: ends_sessions_def Let_def intro: auth_move.intros)

text \<open>
  A token whose life is at most that of a revocation, issued in an earlier second than the
  revocation, is refused from then on: while the revocation is remembered because of it, and
  afterwards because the token has expired.
\<close>

lemma revoked_token_refused:
  assumes "signed_tokens_verify c settings"
    and keys: "get_jwt_signing_config settings = Inr (key, alg)"
      "get_jwt_verification_config settings = Inr (key', alg')"
    and "revocations_last (t2, s2) (t3, s3)"
    and revoked: "as_revoked s2 (str_uuid (u_id a)) = Some (int_timestamp (wall t2),
      monotonic t2 + seconds (get_token_revoke_ttl_seconds settings))"
    and "int_timestamp (wall t1) < int_timestamp (wall t2)" and "0 \<le> wall t1" and "0 \<le> wall t2"
    and "0 \<le> life" and "life \<le> get_token_revoke_ttl_seconds settings"
  shows "fst (validate_token_claims c settings t3
    (jwt_encode c (token_claims t1 ty' life a j) key alg) ty s3) \<noteq> Inr cs"
proof
  let ?ttl = "get_token_revoke_ttl_seconds settings"
  let ?claims = "token_claims t1 ty' life a j"
  let ?token = "jwt_encode c ?claims key alg"
  assume accepted: "fst (validate_token_claims c settings t3 ?token ty s3) = Inr cs"
  obtain d where d: "0 \<le> d" "t3 = after d t2" using assms(4) by (auto simp: revocations_last_def)
  have decoded: "jwt_decode c ?token key' [alg'] (wall t3) = Some cs"
    using validate_InrD [OF accepted keys(2)] by blast
  have exp: "int_timestamp (wall t1 + seconds life) = int_timestamp (wall t1) + life"
    using assms(7,9) by (rule int_timestamp_add)
  have cs: "cs = ?claims"
    using assms(1) keys decoded unfolding signed_tokens_verify_def
    by (metis (no_types, lifting) empty_iff insert_iff option.distinct(1) option.inject
        token_claims_simps(2))
  have in_time: "int_timestamp (wall t3) \<le> int_timestamp (wall t1) + life"
  proof (rule ccontr)
    assume "\<not> int_timestamp (wall t3) \<le> int_timestamp (wall t1) + life"
    then have "int_timestamp (wall t1 + seconds life) < int_timestamp (wall t3)" by (simp add: exp)
    with assms(1) keys decoded show False
      unfolding signed_tokens_verify_def by (metis option.distinct(1) token_claims_simps(2))
  qed
  have "\<not> seconds ?ttl \<le> d"
  proof
    assume "seconds ?ttl \<le> d"
    then have "int_timestamp (wall t2 + seconds ?ttl) \<le> int_timestamp (wall t3)"
      by (intro int_timestamp_mono) (simp add: d after_def)
    then have "int_timestamp (wall t2) + ?ttl \<le> int_timestamp (wall t3)"
      using int_timestamp_add [of "wall t2" ?ttl] assms(8-10) by simp
    with in_time assms(6,10) show False by simp
  qed
  then have "\<not> monotonic t2 + seconds ?ttl \<le> monotonic t3" by (simp add: d after_def)
  with assms(4) revoked obtain r e where re: "as_revoked s3 (str_uuid (u_id a)) = Some (r, e)"
    "int_timestamp (wall t2) \<le> r" "monotonic t2 + seconds ?ttl \<le> e"
    unfolding revocations_last_def by fastforce
  then have "monotonic t3 < e" using \<open>\<not> monotonic t2 + seconds ?ttl \<le> monotonic t3\<close> by simp
  then have "r < int_timestamp (wall t1)"
    using validate_InrD [OF accepted keys(2)] re(1) unfolding cs by simp
  with re(2) assms(6) show False by simp
qed

text \<open>
  C37: Ended sessions stay ended: tokens from a login in an earlier second than the moment the
  user is disabled, gets a new password from an administrator or changes it, are not accepted at
  any later moment, neither as access nor as refresh tokens, provided access tokens do not
  outlive refresh tokens.
\<close>
theorem ended_sessions_stay_ended:
  assumes "signed_tokens_verify c settings" and "get_jwt_verification_config settings = Inr (key', alg')"
    and "auth_reachable c settings (t1, s1)"
    and "login_user c settings t1 name password s1 = (Inr tokens, s1')"
    and "get_by_username name s1 = Some a"
    and "(auth_move c settings)\<^sup>*\<^sup>* (t1, s1') (t2, s2)"
    and "ends_sessions c settings t2 (u_id a) s2 s3"
    and "int_timestamp (wall t1) < int_timestamp (wall t2)"
    and "(auth_move c settings)\<^sup>*\<^sup>* (t2, s3) (t3, s4)"
    and "0 < jwt_refresh_token_expire_days settings" and "0 \<le> jwt_access_token_expire_minutes settings"
    and "jwt_access_token_expire_minutes settings * 60 \<le> get_token_revoke_ttl_seconds settings"
    and "token \<in> {access_token tokens, refresh_token tokens}"
  shows "\<exists>err. fst (validate_token_claims c settings t3 token ty s4) = Inl err"
proof -
  have ttl: "0 < get_token_revoke_ttl_seconds settings"
    using assms(10) by (simp add: get_token_revoke_ttl_seconds_def)
  obtain s0 s1'' where issued: "create_auth_tokens c settings t1 a s0 = Inr (tokens, s1'')"
  proof (rule login_InrD [OF assms(4)])
    fix b s2
    assume "may_log_in name b s1"
      and "create_auth_tokens c settings t1 b (before_tokens t1 b s1) = Inr (tokens, s2)"
    then show ?thesis using that assms(5) by (simp add: may_log_in_def)
  qed
  have reach1: "auth_reachable c settings (t1, s1')"
    by (rule reaches_move [OF assms(3)], rule move_login [OF assms(4)])
  have reach2: "auth_reachable c settings (t2, s3)"
    by (rule reaches_move [OF reaches_moves [OF assms(6) reach1]])
      (rule ends_sessions_move [OF assms(7)])
  have past: "0 \<le> wall t1" "0 \<le> wall t2"
    using session_revocations.reachable_inv [OF reach1] session_revocations.reachable_inv [OF reach2]
    by (simp_all add: revocations_ok_def)
  note refused = revoked_token_refused [OF assms(1) _ assms(2)
      remembered.run_rel [OF assms(9) reach2] ends_sessions_revokes [OF assms(7) ttl] assms(8) past]
  from issued obtain key alg life ty' j where token: "get_jwt_signing_config settings = Inr (key, alg)"
    "token = jwt_encode c (token_claims t1 ty' life a j) key alg"
    "0 \<le> life" "life \<le> get_token_revoke_ttl_seconds settings"
    using assms(10-13) by (elim create_auth_tokens_InrD) (auto simp: get_token_revoke_ttl_seconds_def)
  have "fst (validate_token_claims c settings t3 token ty s4) \<noteq> Inr cs" for cs
    unfolding token(2) by (rule refused [OF token(1,3,4)])
  then show ?thesis by (metis sum.exhaust)
qed

definition demo_login :: "(py_error + (claims \<times> string \<times> string) auth_tokens) \<times> auth_state" where
  "demo_login = login_user demo_crypto demo_settings demo_moment ''ada'' ''Lovelace-1815'' demo_directory"

definition demo_later :: moment where
  "demo_later = after 5000000 demo_moment"

definition demo_tokens :: "(claims \<times> string \<times> string) auth_tokens" where
  "demo_tokens = projr (fst demo_login)"

definition demo_reset :: auth_state where
  "demo_reset = snd (projr (reset_password demo_crypto (get_token_revoke_ttl_seconds demo_settings)
     demo_later demo_admin 1 ''Babbage-1791'' (snd demo_login)))"

lemma demo_account:
  obtains a where "as_accounts demo_directory = [a]" and "u_id a = 1" and "may_log_in ''ada'' a demo_directory"
    and "ac_password_hash a = ''Lovelace-1815''"
proof -
  have columns: "map u_id (as_accounts demo_directory) = [1]"
    "map u_username (as_accounts demo_directory) = [''ada'']"
    "map u_status (as_accounts demo_directory) = [user_status.active]"
    "map ac_sso_required (as_accounts demo_directory) = [False]"
    "map ac_password_hash (as_accounts demo_directory) = [''Lovelace-1815'']" by code_simp+
  then obtain a where "as_accounts demo_directory = [a]" by (cases "as_accounts demo_directory") auto
  with columns show ?thesis
    by (intro that [of a]) (simp_all add: may_log_in_def get_by_username_def login_allowed_statuses_def)
qed

lemma demo_keys:
  "get_jwt_signing_config demo_settings = Inr (''key'', ''HS256'')"
  "get_jwt_verification_config demo_settings = Inr (''key'', ''HS256'')"
  by code_simp+

lemma demo_login_made:
  "login_user demo_crypto demo_settings demo_moment ''ada'' ''Lovelace-1815'' demo_directory =
     (Inr demo_tokens, snd demo_login)"
proof -
  obtain a where a: "u_id a = 1" "may_log_in ''ada'' a demo_directory"
    "ac_password_hash a = ''Lovelace-1815''" by (rule demo_account)
  obtain tokens s' where made: "demo_login = (Inr tokens, s')"
    unfolding demo_login_def
    using login_succeeds [OF a(2) _ _ demo_keys(1), of demo_crypto "''Lovelace-1815''" demo_moment]
    by (auto simp: a(3) demo_crypto_def get_fail_count_def demo_stores auth_failure_limit_def)
  show ?thesis unfolding demo_login_def [symmetric] demo_tokens_def by (simp add: made)
qed

lemma demo_login_state:
  obtains a s1 where "as_accounts demo_directory = [a]" and "u_id a = 1"
    and "create_auth_tokens demo_crypto demo_settings demo_moment a (before_tokens demo_moment a demo_directory) =
      Inr (demo_tokens, s1)"
    and "snd demo_login = save_account 1 (\<lambda>r. r\<lparr>ac_last_login_at := Some (wall demo_moment)\<rparr>) s1"
proof (rule login_InrD [OF demo_login_made])
  fix b s1
  assume b: "may_log_in ''ada'' b demo_directory"
    "create_auth_tokens demo_crypto demo_settings demo_moment b (before_tokens demo_moment b demo_directory) =
      Inr (demo_tokens, s1)"
    "snd demo_login = save_account (u_id b) (\<lambda>r. r\<lparr>ac_last_login_at := Some (wall demo_moment)\<rparr>) s1"
  obtain a where a: "as_accounts demo_directory = [a]" "u_id a = 1" by (rule demo_account)
  with b(1) have "b = a" by (auto simp: may_log_in_def get_by_username_def split: if_splits)
  with a b show thesis using that by simp
qed

lemma demo_reset_made:
  "reset_password demo_crypto (get_token_revoke_ttl_seconds demo_settings) demo_later demo_admin 1
     ''Babbage-1791'' (snd demo_login) =
   Inr (fst (projr (reset_password demo_crypto (get_token_revoke_ttl_seconds demo_settings) demo_later
     demo_admin 1 ''Babbage-1791'' (snd demo_login))), demo_reset)"
proof -
  obtain a s1 where a: "as_accounts demo_directory = [a]" "u_id a = 1"
    and made: "create_auth_tokens demo_crypto demo_settings demo_moment a
      (before_tokens demo_moment a demo_directory) = Inr (demo_tokens, s1)"
    and s1: "snd demo_login = save_account 1 (\<lambda>r. r\<lparr>ac_last_login_at := Some (wall demo_moment)\<rparr>) s1"
    by (rule demo_login_state)
  have "as_accounts s1 = [a]"
    using made by (elim create_auth_tokens_InrD) (simp add: before_tokens_frame a)
  then have "get_account 1 (snd demo_login) \<noteq> None"
    by (simp add: s1 get_account_def save_account_def find_row_def update_rows_def a)
  moreover have "validate_password ''Babbage-1791'' = Inr ()" by code_simp
  ultimately have "\<not> isl (reset_password demo_crypto (get_token_revoke_ttl_seconds demo_settings)
      demo_later demo_admin 1 ''Babbage-1791'' (snd demo_login))"
    by (auto simp: reset_password_def ensure_admin_def demo_admin_def get_existing_user_def Let_def)
  then show ?thesis unfolding demo_reset_def by (rule Inr_pair_collapse)
qed

lemma ended_sessions_stay_ended_witness:
  "isl (fst (validate_token_claims demo_crypto demo_settings (after 60000000 demo_later)
      (access_token demo_tokens) ''access'' demo_reset)) \<and>
   \<not> isl (fst (validate_token_claims demo_crypto demo_settings demo_later
      (access_token demo_tokens) ''access'' (snd demo_login)))"
proof -
  obtain a where a: "get_by_username ''ada'' demo_directory = Some a" "u_id a = 1"
    by (rule demo_account) (simp add: may_log_in_def)
  have wait: "(auth_move demo_crypto demo_settings)\<^sup>*\<^sup>* (t, s) (after d t, s)" if "0 \<le> d" for t s d
    by (rule r_into_rtranclp) (rule move_time [OF that])
  have ended: "ends_sessions demo_crypto demo_settings demo_later (u_id a) (snd demo_login) demo_reset"
    using demo_reset_made unfolding ends_sessions_def a(2) Let_def by blast
  have "\<exists>err. fst (validate_token_claims demo_crypto demo_settings (after 60000000 demo_later)
      (access_token demo_tokens) ''access'' demo_reset) = Inl err"
  proof (rule ended_sessions_stay_ended [OF demo_tokens_verify demo_keys(2) demo_reachable demo_login_made a(1)
        _ ended])
    show "(auth_move demo_crypto demo_settings)\<^sup>*\<^sup>* (demo_moment, snd demo_login)
        (demo_later, snd demo_login)"
      unfolding demo_later_def by (rule wait) simp
    show "(auth_move demo_crypto demo_settings)\<^sup>*\<^sup>* (demo_later, demo_reset)
        (after 60000000 demo_later, demo_reset)"
      by (rule wait) simp
  qed (simp_all add: int_timestamp_def demo_later_def after_def demo_moment_def demo_settings_def
      get_token_revoke_ttl_seconds_def)
  moreover have "\<not> isl (fst (validate_token_claims demo_crypto demo_settings demo_later
      (access_token demo_tokens) ''access'' (snd demo_login)))"
  proof (rule demo_login_state)
    fix b s1
    assume "create_auth_tokens demo_crypto demo_settings demo_moment b
        (before_tokens demo_moment b demo_directory) = Inr (demo_tokens, s1)"
      and "snd demo_login = save_account 1 (\<lambda>r. r\<lparr>ac_last_login_at := Some (wall demo_moment)\<rparr>) s1"
    then obtain key alg where key: "get_jwt_signing_config demo_settings = Inr (key, alg)"
      and token: "access_token demo_tokens = jwt_encode demo_crypto (token_claims demo_moment ''access''
        (jwt_access_token_expire_minutes demo_settings * 60) b (as_next_uuid demo_directory)) key alg"
      and stores: "as_blacklist (snd demo_login) = as_blacklist demo_directory"
        "as_revoked (snd demo_login) = as_revoked demo_directory"
      by (elim create_auth_tokens_InrD) (simp add: before_tokens_frame save_account_def)
    have soon: "int_timestamp (wall demo_later) < int_timestamp (wall demo_moment +
        seconds (jwt_access_token_expire_minutes demo_settings * 60))" by code_simp
    show ?thesis
      unfolding token by (simp add: unexpired_token [OF demo_tokens_verify key demo_keys(2) soon]
        stores demo_stores)
  qed
  ultimately show ?thesis by auto
qed



end
