(* ===== verification/Imports.thy ===== *)
theory Imports
  imports Scenario
begin

text \<open>
  What an import of projects guarantees: which rows become projects, what the report says, and
  that one malformed budget can stop all of it.
\<close>

subsection \<open>A sheet with one good row\<close>








subsection \<open>Properties\<close>



text \<open>
  A budget cell with the text of a quiet NaN in one row, and the whole import raises: no row is
  imported or reported.
\<close>

lemma nan_budget_stops_import:
  assumes "u_role actor = user_role.admin" and "load_rows w content = Inr raws"
    and "raw \<in> set raws" and "cell_text (rw_total_budget raw) = Some s" and "parse_decimal s = Some QuietNaN"
  shows "isl (import_projects w actor departments content db)"
proof -
  obtain err where "validate_rows (list_existing_project_nos (extract_string_values rw_project_no raws) db)
      (list_departments_by_codes (extract_string_values rw_dept_code raws) departments) {} raws = Inl err"
    using nan_budget_raises [OF assms(3-5)] by blast
  then show ?thesis by (simp add: import_projects_def assms(1,2) Let_def)
qed

end
