(* ===== verification/Snapshots.thy ===== *)
theory Snapshots
  imports ProjectImports
begin

text \<open>
  The snapshots of archived projects (\<open>serialize_model\<close> and \<open>*_from_snapshot\<close> of
  \<open>app/services/archives.py\<close>): a row is kept as a JSON object whose values are null or texts, and
  is rebuilt by parsing them.  The texts of the standard library are parsed here as far as a
  snapshot holds them: dates as \<open>YYYY-MM-DD\<close>, instants in UTC as \<open>str\<close> prints them; the other
  formats that \<open>fromisoformat\<close> accepts are refused.
\<close>

subsection \<open>Numbers\<close>

lemma digits_value_append: "digits_value (xs @ [c]) = 10 * digits_value xs + digit_value c"
  by (simp add: digits_value_def)

lemma digits_value_show_nat: "digits_value (show_nat n) = int n"
proof (induction n rule: show_nat.induct)
  case (1 n)
  show ?case
  proof (cases "n < 10")
    case True
    then show ?thesis by (simp add: show_nat.simps [of n] digits_value_def digit_char_value)
  next
    case False
    then have "digits_value (show_nat n) = 10 * int (n div 10) + int (n mod 10)"
      using 1 by (simp add: show_nat.simps [of n] digits_value_append digit_char_value)
    then show ?thesis by presburger
  qed
qed

lemma digits_value_zeros: "digits_value (replicate k CHR ''0'' @ s) = digits_value s"
  by (induction k) (simp_all add: digits_value_def digit_value_def)

lemma digits_value_padded: "0 \<le> n \<Longrightarrow> digits_value (format_padded w n) = n"
  by (simp add: format_padded_def zero_pad_def digits_value_zeros digits_value_show_nat)

lemma length_show_nat: "n < 10 ^ Suc k \<Longrightarrow> length (show_nat n) \<le> Suc k"
proof (induction k arbitrary: n)
  case (Suc k)
  have "n div 10 < 10 ^ Suc k" using Suc.prems by (simp add: less_mult_imp_div_less)
  then show ?case using Suc.IH [of "n div 10"] by (simp add: show_nat.simps [of n])
qed (simp add: show_nat.simps)

lemma length_padded: "0 \<le> n \<Longrightarrow> n < 10 ^ Suc k \<Longrightarrow> length (format_padded (Suc k) n) = Suc k"
  using length_show_nat [of "nat n" k] by (simp add: format_padded_def zero_pad_def nat_less_iff)

lemmas padded_facts = format_padded_digits digits_value_padded

subsection \<open>Dates and instants\<close>

definition date_of_iso :: "string \<Rightarrow> date option" where
  "date_of_iso s =
     (let y = take 4 s; m = take 2 (drop 5 s); d = drop 8 s;
          r = Date (digits_value y) (digits_value m) (digits_value d)
      in if length s = 10 \<and> s ! 4 = CHR ''-'' \<and> s ! 7 = CHR ''-'' \<and>
           list_all is_digit (y @ m @ d) \<and> valid_date r
         then Some r else None)"

definition datetime_of_iso :: "string \<Rightarrow> datetime option" where
  "datetime_of_iso s =
     (let h = take 2 (drop 11 s); m = take 2 (drop 14 s); sec = take 2 (drop 17 s); rest = drop 19 s;
          micro = (if take 1 rest = ''.'' then take 6 (drop 1 rest) else ''0'')
      in case date_of_iso (take 10 s) of
           None \<Rightarrow> None
         | Some d \<Rightarrow>
             if 19 \<le> length s \<and> s ! 13 = CHR '':'' \<and> s ! 16 = CHR '':'' \<and>
               list_all is_digit (h @ m @ sec @ micro) \<and>
               digits_value h < 24 \<and> digits_value m < 60 \<and> digits_value sec < 60 \<and>
               (rest = ''+00:00'' \<or> length micro = 6 \<and> drop 7 rest = ''+00:00'')
             then Some ((to_ordinal d - 719163) * microseconds_per_day +
               (digits_value h * 3600 + digits_value m * 60 + digits_value sec) * 1000000 +
               digits_value micro)
             else None)"

text \<open>The dates of Python's calendar, and the instants on them.\<close>

definition python_date :: "date \<Rightarrow> bool" where
  "python_date d \<longleftrightarrow> valid_date d \<and> year d \<le> 9999"

definition python_instant :: "datetime \<Rightarrow> bool" where
  "python_instant t \<longleftrightarrow>
     1 \<le> 719163 + t div microseconds_per_day \<and> 719163 + t div microseconds_per_day \<le> 3652059"

lemma day_bound: "valid_date d \<Longrightarrow> 1 \<le> day d \<and> day d \<le> 31"
  by (auto simp: valid_date_def days_in_month_def split: if_splits)

lemma iso_date_parts:
  assumes "python_date d"
  shows "iso_date d = format_padded 4 (year d) @ CHR ''-'' # format_padded 2 (month d) @
      CHR ''-'' # format_padded 2 (day d)"
    and "length (format_padded 4 (year d)) = 4" and "length (format_padded 2 (month d)) = 2"
    and "length (format_padded 2 (day d)) = 2" and "length (iso_date d) = 10"
proof -
  have d: "1 \<le> year d" "year d \<le> 9999" "1 \<le> month d" "month d \<le> 12" "1 \<le> day d" "day d \<le> 31"
    using assms day_bound [of d] by (simp_all add: python_date_def valid_date_def)
  show "iso_date d = format_padded 4 (year d) @ CHR ''-'' # format_padded 2 (month d) @
      CHR ''-'' # format_padded 2 (day d)"
    by (simp add: iso_date_def)
  show l: "length (format_padded 4 (year d)) = 4" "length (format_padded 2 (month d)) = 2"
    "length (format_padded 2 (day d)) = 2"
    using d length_padded [of "year d" 3] length_padded [of "month d" 1] length_padded [of "day d" 1]
    by (simp_all add: eval_nat_numeral)
  then show "length (iso_date d) = 10" by (simp add: iso_date_def)
qed

lemma date_of_iso_date:
  assumes "python_date d"
  shows "date_of_iso (iso_date d) = Some d"
proof -
  note parts = iso_date_parts [OF assms]
  have pos: "0 \<le> year d" "0 \<le> month d" "0 \<le> day d" and v: "valid_date d"
    using assms day_bound [of d] by (simp_all add: python_date_def valid_date_def)
  have cut: "take 4 (iso_date d) = format_padded 4 (year d)"
    "take 2 (drop 5 (iso_date d)) = format_padded 2 (month d)"
    "drop 8 (iso_date d) = format_padded 2 (day d)"
    "iso_date d ! 4 = CHR ''-''" "iso_date d ! 7 = CHR ''-''"
    unfolding parts(1) by (simp_all add: parts(2-4) nth_append)
  have digits: "list_all is_digit (format_padded 4 (year d) @ format_padded 2 (month d) @ format_padded 2 (day d))"
    using pos format_padded_digits by (auto simp: list_all_iff)
  show ?thesis
    unfolding date_of_iso_def Let_def cut parts(5) digits_value_padded [OF pos(1)]
      digits_value_padded [OF pos(2)] digits_value_padded [OF pos(3)]
    using digits v by simp
qed

lemma utc_date_python: "python_instant t \<Longrightarrow> python_date (utc_date t) \<and>
    to_ordinal (utc_date t) = 719163 + t div microseconds_per_day"
proof -
  assume t: "python_instant t"
  let ?n = "719163 + t div microseconds_per_day"
  have v: "valid_date (utc_date t)" "to_ordinal (utc_date t) = ?n"
    using t from_ordinal_valid [of ?n] by (simp_all add: utc_date_def python_instant_def)
  have "year (utc_date t) \<le> 9999"
  proof (rule ccontr)
    assume "\<not> year (utc_date t) \<le> 9999"
    then have "days_before_year 10000 \<le> days_before_year (year (utc_date t))"
      by (intro days_before_year_mono) simp
    moreover have "(days_before_year 10000 :: int) = 3652059" by code_simp
    moreover have "1 \<le> days_before_month (year (utc_date t)) (month (utc_date t)) + day (utc_date t)"
      using days_in_year(1) [OF v(1)] .
    ultimately show False using v(2) t by (simp add: to_ordinal_def python_instant_def)
  qed
  then show ?thesis using v by (simp add: python_date_def)
qed

lemma datetime_of_str_datetime:
  assumes "python_instant t"
  shows "datetime_of_iso (str_datetime t) = Some t"
proof -
  define s where "s = t mod microseconds_per_day div 1000000"
  define h m sec us where "h = s div 3600" and "m = s div 60 mod 60" and "sec = s mod 60"
    and "us = t mod 1000000"
  have bounds: "0 \<le> h" "h < 24" "0 \<le> m" "m < 60" "0 \<le> sec" "sec < 60" "0 \<le> us" "us < 1000000"
  proof -
    have "0 \<le> t mod microseconds_per_day" "t mod microseconds_per_day < microseconds_per_day" by simp_all
    then have "0 \<le> s" "s < 86400"
      using mult_div_mod_eq [of 1000000 "t mod microseconds_per_day"]
        pos_mod_bound [of 1000000 "t mod microseconds_per_day"] pos_mod_sign [of 1000000 "t mod microseconds_per_day"]
      unfolding s_def by linarith+
    then show "0 \<le> h" "h < 24"
      using mult_div_mod_eq [of 3600 s] pos_mod_bound [of 3600 s] pos_mod_sign [of 3600 s]
      unfolding h_def by linarith+
    show "0 \<le> m" "m < 60" "0 \<le> sec" "sec < 60" "0 \<le> us" "us < 1000000"
      unfolding m_def sec_def us_def by simp_all
  qed
  have total: "(t div microseconds_per_day) * microseconds_per_day +
      (h * 3600 + m * 60 + sec) * 1000000 + us = t"
  proof -
    have "s div 3600 = s div 60 div 60" using zdiv_zmult2_eq [of 60 s 60] by simp
    then have "h * 3600 + m * 60 + sec = s"
      using mult_div_mod_eq [of 60 s] mult_div_mod_eq [of 60 "s div 60"]
      unfolding h_def m_def sec_def by linarith
    moreover have "us = t mod microseconds_per_day mod 1000000"
      unfolding us_def by (rule mod_mod_cancel [symmetric]) simp
    ultimately show ?thesis unfolding s_def by simp
  qed
  note d = utc_date_python [OF assms]
  let ?d = "iso_date (utc_date t)"
  have ld: "length ?d = 10" using iso_date_parts(5) d by blast
  have l: "length (format_padded 2 h) = 2" "length (format_padded 2 m) = 2"
    "length (format_padded 2 sec) = 2" "length (format_padded 6 us) = 6"
    using bounds length_padded [of h 1] length_padded [of m 1] length_padded [of sec 1] length_padded [of us 5]
    by (simp_all add: eval_nat_numeral)
  let ?rest = "(if us = 0 then [] else CHR ''.'' # format_padded 6 us) @ ''+00:00''"
  have shape: "str_datetime t = ?d @ CHR '' '' # format_padded 2 h @ CHR '':'' # format_padded 2 m @
      CHR '':'' # format_padded 2 sec @ ?rest"
    by (simp add: str_datetime_def iso_seconds_def Let_def s_def h_def m_def sec_def us_def)
  have cut: "take 10 (str_datetime t) = ?d" "take 2 (drop 11 (str_datetime t)) = format_padded 2 h"
    "take 2 (drop 14 (str_datetime t)) = format_padded 2 m"
    "take 2 (drop 17 (str_datetime t)) = format_padded 2 sec" "drop 19 (str_datetime t) = ?rest"
    "str_datetime t ! 13 = CHR '':''" "str_datetime t ! 16 = CHR '':''" "19 \<le> length (str_datetime t)"
    unfolding shape by (simp_all add: ld l nth_append)
  have micro: "(if take 1 ?rest = ''.'' then take 6 (drop 1 ?rest) else ''0'') =
      (if us = 0 then ''0'' else format_padded 6 us)"
    by (simp add: l)
  have digits: "list_all is_digit (format_padded 2 h)" "list_all is_digit (format_padded 2 m)"
    "list_all is_digit (format_padded 2 sec)" "list_all is_digit (format_padded 6 us)"
    "list_all is_digit ''0''"
    using bounds format_padded_digits by (auto simp: list_all_iff is_digit_def)
  have frac: "digits_value (if us = 0 then ''0'' else format_padded 6 us) = us"
    using bounds by (simp add: digits_value_padded) (simp add: digits_value_def digit_value_def)
  have "datetime_of_iso (str_datetime t) = Some ((to_ordinal (utc_date t) - 719163) * microseconds_per_day +
      (h * 3600 + m * 60 + sec) * 1000000 + us)"
    unfolding datetime_of_iso_def Let_def cut micro frac date_of_iso_date [OF conjunct1 [OF d]] option.case
    using bounds digits by (simp add: digits_value_padded l cut)
  then show ?thesis using total d by simp
qed

subsection \<open>Amounts\<close>

definition money_of_text :: "string \<Rightarrow> py_error + money" where
  "money_of_text s =
     (case parse_decimal s of
        Some (Finite d) \<Rightarrow> Inr (quantize_cents d)
      | _ \<Rightarrow> Inl InvalidOperation)"

lemma strip_no_space: "\<forall>c \<in> set s. \<not> is_space c \<Longrightarrow> strip s = s"
proof -
  assume d: "\<forall>c \<in> set s. \<not> is_space c"
  have drop: "dropWhile is_space t = t" if "\<forall>c \<in> set t. \<not> is_space c" for t
    using that by (metis dropWhile_eq_self_iff hd_in_set)
  show ?thesis using d drop [of s] drop [of "rev s"] by (simp add: strip_def)
qed

lemma digits_split:
  "list_all is_digit xs \<Longrightarrow> takeWhile is_digit (xs @ CHR ''.'' # ys) = xs"
  "list_all is_digit xs \<Longrightarrow> dropWhile is_digit (xs @ CHR ''.'' # ys) = CHR ''.'' # ys"
  by (induction xs) (simp_all add: is_digit_def)

lemma parse_number_point:
  assumes "list_all is_digit xs" and "list_all is_digit ys" and "xs \<noteq> []"
  shows "parse_number (xs @ CHR ''.'' # ys) = Some (Dec (digits_value (xs @ ys)) (- int (length ys)))"
proof -
  have ys: "takeWhile is_digit ys = ys" "dropWhile is_digit ys = []"
    using assms(2) by (simp_all add: list_all_iff)
  from assms(3) show ?thesis by (simp add: parse_number_def Let_def digits_split [OF assms(1)] ys)
qed


lemma str_money_digits:
  defines "whole c \<equiv> show_nat (nat (\<bar>c\<bar> div 100))" and "cents c \<equiv> format_padded 2 (\<bar>c\<bar> mod 100)"
  shows "list_all is_digit (whole c)" and "list_all is_digit (cents c)" and "length (cents c) = 2"
    and "digits_value (whole c @ cents c) = \<bar>c\<bar>"
proof -
  have two: "digits_value (xs @ [a, b]) = 100 * digits_value xs + digits_value [a, b]" for xs a b
    using digits_value_append [of "xs @ [a]" b] digits_value_append [of xs a]
    by (simp add: digits_value_def)
  show digits: "list_all is_digit (whole c)" "list_all is_digit (cents c)"
    using show_nat_digits [of "nat (\<bar>c\<bar> div 100)"] format_padded_digits [of "\<bar>c\<bar> mod 100" 2]
    by (simp_all add: list_all_iff whole_def cents_def)
  show l: "length (cents c) = 2"
    unfolding cents_def using length_padded [of "\<bar>c\<bar> mod 100" 1] by (simp add: eval_nat_numeral)
  then obtain a b where ab: "cents c = [a, b]" by (auto simp: length_Suc_conv eval_nat_numeral)
  have "digits_value [a, b] = \<bar>c\<bar> mod 100"
    unfolding ab [symmetric] cents_def by (rule digits_value_padded) simp
  moreover have "digits_value (whole c) = \<bar>c\<bar> div 100"
    by (simp add: whole_def digits_value_show_nat)
  ultimately show "digits_value (whole c @ cents c) = \<bar>c\<bar>"
    unfolding ab two by simp
qed

lemma parse_decimal_plain:
  assumes "list_all is_digit xs" and "list_all is_digit ys" and "xs \<noteq> []"
  shows "parse_decimal (xs @ CHR ''.'' # ys) = Some (Finite (Dec (digits_value (xs @ ys)) (- int (length ys))))"
    and "parse_decimal (CHR ''-'' # xs @ CHR ''.'' # ys) =
      Some (Finite (Dec (- digits_value (xs @ ys)) (- int (length ys))))"
proof -
  let ?s = "xs @ CHR ''.'' # ys"
  obtain c cs where xs: "xs = c # cs" using assms(3) by (auto simp: neq_Nil_conv)
  have c: "is_digit c" using assms(1) by (simp add: xs)
  have plain: "\<forall>c \<in> set ?s. \<not> is_space c \<and> c \<noteq> CHR ''_''"
  proof
    fix c assume "c \<in> set ?s"
    then have "is_digit c \<or> c = CHR ''.''" using assms(1,2) by (auto simp: list_all_iff)
    then show "\<not> is_space c \<and> c \<noteq> CHR ''_''"
      using digit_not_space [of c] by (auto simp: is_digit_def is_space_def)
  qed
  have minus: "\<not> is_space (CHR ''-'')" by (simp add: is_space_def)
  have same: "strip ?s = ?s" "strip (CHR ''-'' # ?s) = CHR ''-'' # ?s"
    using plain minus by (intro strip_no_space; simp)+
  have keep: "filter (\<lambda>c. c \<noteq> CHR ''_'') ?s = ?s" using plain by (intro filter_True) simp
  have first: "c \<noteq> CHR ''-''" "c \<noteq> CHR ''+''" "c \<noteq> CHR ''i''" "c \<noteq> CHR ''n''" "c \<noteq> CHR ''s''"
    using c by (auto simp: is_digit_def)
  have word: "lower ?s = c # lower (cs @ CHR ''.'' # ys)"
    using c by (simp add: is_digit_def xs lower_def Let_def)
  have other: "lower ?s \<noteq> ''inf''" "lower ?s \<noteq> ''infinity''" "\<not> prefix ''nan'' (lower ?s)"
    "\<not> prefix ''snan'' (lower ?s)"
    unfolding word using first by simp_all
  show "parse_decimal ?s = Some (Finite (Dec (digits_value (xs @ ys)) (- int (length ys))))"
    using first other unfolding parse_decimal_def Let_def same keep
    by (simp add: xs parse_number_point [OF assms, unfolded xs, simplified])
  show "parse_decimal (CHR ''-'' # ?s) = Some (Finite (Dec (- digits_value (xs @ ys)) (- int (length ys))))"
    using other keep unfolding parse_decimal_def Let_def same
    by (simp add: parse_number_point [OF assms])
qed

lemma money_of_str_money: "money_of_text (str_money c) = Inr c"
proof -
  note parts = str_money_digits [of c]
  have "parse_decimal (str_money c) = Some (Finite (Dec c (- 2)))"
    using parse_decimal_plain [OF parts(1,2)] parts(3,4) by (auto simp: str_money_def)
  then show ?thesis by (simp add: money_of_text_def quantize_cents_def)
qed


subsection \<open>Snapshots\<close>

text \<open>
  The columns of the two tables hold nulls, texts, enumerations, identifiers, dates, instants
  and amounts: \<open>archive_json_value\<close> makes each of them null or a text.
\<close>

type_synonym snapshot = "(string \<times> string option) list"

definition serialize_main :: "main_project \<Rightarrow> snapshot" where
  "serialize_main p =
     [(''project_no'', Some (mp_project_no p)), (''name'', Some (mp_name p)),
      (''dept_id'', Some (str_uuid (mp_dept_id p))),
      (''status'', Some (main_status_value (mp_status p))),
      (''total_budget'', Some (str_money (mp_total_budget p))),
      (''expected_finish_date'', Some (iso_date (mp_expected_finish_date p))),
      (''spent_amount'', Some (str_money (mp_spent_amount p))),
      (''remark'', mp_remark p),
      (''closed_at'', map_option str_datetime (mp_closed_at p)),
      (''creator_id'', map_option str_uuid (mp_creator_id p)),
      (''project_type_id'', map_option str_uuid (mp_project_type_id p)),
      (''created_at'', Some (str_datetime (mp_created_at p))),
      (''updated_at'', Some (str_datetime (mp_updated_at p))),
      (''id'', Some (str_uuid (mp_id p)))]"

definition serialize_sub :: "sub_project \<Rightarrow> snapshot" where
  "serialize_sub s =
     [(''project_no'', Some (sp_project_no s)), (''name'', Some (sp_name s)),
      (''main_project_id'', Some (str_uuid (sp_main_project_id s))),
      (''dept_id'', Some (str_uuid (sp_dept_id s))),
      (''budget'', Some (str_money (sp_budget s))),
      (''manager_id'', Some (str_uuid (sp_manager_id s))),
      (''creator_id'', map_option str_uuid (sp_creator_id s)),
      (''status'', Some (sub_status_value (sp_status s))),
      (''plan_end_date'', map_option iso_date (sp_plan_end_date s)),
      (''actual_end_date'', map_option iso_date (sp_actual_end_date s)),
      (''spent_amount'', Some (str_money (sp_spent_amount s))),
      (''remark'', sp_remark s),
      (''closed_at'', map_option str_datetime (sp_closed_at s)),
      (''workflow_template_version_id'', map_option str_uuid (sp_workflow_version_id s)),
      (''created_at'', Some (str_datetime (sp_created_at s))),
      (''updated_at'', Some (str_datetime (sp_updated_at s))),
      (''id'', Some (str_uuid (sp_id s)))]"

text \<open>
  \<open>_snapshot_str\<close> and the readers over it.  A missing key is a \<open>KeyError\<close>, which a snapshot of
  \<open>serialize_model\<close> never meets; it is kept as \<open>RuntimeError\<close>.
\<close>

definition snapshot_str :: "snapshot \<Rightarrow> string \<Rightarrow> py_error + string" where
  "snapshot_str s field =
     (case map_of s field of
        None \<Rightarrow> Inl (RuntimeError field)
      | Some None \<Rightarrow> Inr ''None''
      | Some (Some v) \<Rightarrow> Inr v)"

definition snapshot_optional_str :: "snapshot \<Rightarrow> string \<Rightarrow> string option" where
  "snapshot_optional_str s field = (case map_of s field of None \<Rightarrow> None | Some v \<Rightarrow> v)"

definition parsed :: "(string \<Rightarrow> 'a option) \<Rightarrow> string \<Rightarrow> py_error + 'a" where
  "parsed f v = present (f v) (ValueError v)"

definition snapshot_value :: "(string \<Rightarrow> 'a option) \<Rightarrow> snapshot \<Rightarrow> string \<Rightarrow> py_error + 'a" where
  "snapshot_value f s field = attempt (snapshot_str s field) (parsed f)"

definition snapshot_optional :: "(string \<Rightarrow> 'a option) \<Rightarrow> snapshot \<Rightarrow> string \<Rightarrow> py_error + 'a option" where
  "snapshot_optional f s field =
     (case snapshot_optional_str s field of
        None \<Rightarrow> Inr None
      | Some v \<Rightarrow> attempt (parsed f v) (\<lambda>x. Inr (Some x)))"

definition snapshot_money :: "snapshot \<Rightarrow> string \<Rightarrow> py_error + money" where
  "snapshot_money s field = attempt (snapshot_str s field) money_of_text"

text \<open>\<open>MainProjectStatus(value)\<close> and \<open>SubProjectStatus(value)\<close>.\<close>

definition main_status_of :: "string \<Rightarrow> main_project_status option" where
  "main_status_of v = find (\<lambda>st. main_status_value st = v)
     [main_project_status.pending_review, main_project_status.reviewing, main_project_status.rejected,
      main_project_status.not_started, main_project_status.in_progress, main_project_status.completed,
      main_project_status.closed]"

definition sub_status_of :: "string \<Rightarrow> sub_project_status option" where
  "sub_status_of v = find (\<lambda>st. sub_status_value st = v)
     [sub_project_status.pending_review, sub_project_status.reviewing, sub_project_status.rejected,
      sub_project_status.not_started, sub_project_status.in_progress, sub_project_status.completed,
      sub_project_status.closed, sub_project_status.terminated]"

definition main_project_from_snapshot :: "snapshot \<Rightarrow> py_error + main_project" where
  "main_project_from_snapshot s =
     attempt (snapshot_value uuid_of_text s ''id'') (\<lambda>i.
     attempt (snapshot_str s ''project_no'') (\<lambda>no.
     attempt (snapshot_str s ''name'') (\<lambda>name.
     attempt (snapshot_value uuid_of_text s ''dept_id'') (\<lambda>dept.
     attempt (snapshot_value main_status_of s ''status'') (\<lambda>status.
     attempt (snapshot_money s ''total_budget'') (\<lambda>budget.
     attempt (snapshot_value date_of_iso s ''expected_finish_date'') (\<lambda>finish.
     attempt (snapshot_money s ''spent_amount'') (\<lambda>spent.
     attempt (snapshot_optional uuid_of_text s ''creator_id'') (\<lambda>creator.
     attempt (snapshot_optional datetime_of_iso s ''closed_at'') (\<lambda>closed.
     attempt (snapshot_value datetime_of_iso s ''created_at'') (\<lambda>created.
     attempt (snapshot_value datetime_of_iso s ''updated_at'') (\<lambda>updated.
     Inr \<lparr> mp_id = i, mp_project_no = no, mp_name = name, mp_dept_id = dept, mp_status = status,
           mp_total_budget = budget, mp_expected_finish_date = finish, mp_spent_amount = spent,
           mp_remark = snapshot_optional_str s ''remark'', mp_closed_at = closed,
           mp_creator_id = creator, mp_project_type_id = None, mp_created_at = created,
           mp_updated_at = updated \<rparr>))))))))))))"

definition sub_project_from_snapshot :: "snapshot \<Rightarrow> py_error + sub_project" where
  "sub_project_from_snapshot s =
     attempt (snapshot_value uuid_of_text s ''id'') (\<lambda>i.
     attempt (snapshot_str s ''project_no'') (\<lambda>no.
     attempt (snapshot_str s ''name'') (\<lambda>name.
     attempt (snapshot_value uuid_of_text s ''main_project_id'') (\<lambda>main.
     attempt (snapshot_value uuid_of_text s ''dept_id'') (\<lambda>dept.
     attempt (snapshot_money s ''budget'') (\<lambda>budget.
     attempt (snapshot_value uuid_of_text s ''manager_id'') (\<lambda>manager.
     attempt (snapshot_optional uuid_of_text s ''creator_id'') (\<lambda>creator.
     attempt (snapshot_value sub_status_of s ''status'') (\<lambda>status.
     attempt (snapshot_optional date_of_iso s ''plan_end_date'') (\<lambda>plan.
     attempt (snapshot_optional date_of_iso s ''actual_end_date'') (\<lambda>actual.
     attempt (snapshot_money s ''spent_amount'') (\<lambda>spent.
     attempt (snapshot_optional datetime_of_iso s ''closed_at'') (\<lambda>closed.
     attempt (snapshot_value datetime_of_iso s ''created_at'') (\<lambda>created.
     attempt (snapshot_value datetime_of_iso s ''updated_at'') (\<lambda>updated.
     Inr \<lparr> sp_id = i, sp_project_no = no, sp_name = name, sp_main_project_id = main,
           sp_dept_id = dept, sp_budget = budget, sp_manager_id = manager, sp_creator_id = creator,
           sp_status = status, sp_plan_end_date = plan, sp_actual_end_date = actual,
           sp_spent_amount = spent, sp_remark = snapshot_optional_str s ''remark'',
           sp_closed_at = closed, sp_workflow_version_id = None, sp_created_at = created,
           sp_updated_at = updated \<rparr>)))))))))))))))"

subsection \<open>The round trip\<close>

text \<open>Rows the database can hold: identifiers of 128 bits, dates and instants of the calendar.\<close>

definition storable_main :: "main_project \<Rightarrow> bool" where
  "storable_main p \<longleftrightarrow> mp_id p < 16 ^ 32 \<and> mp_dept_id p < 16 ^ 32 \<and>
     pred_option (\<lambda>k. k < 16 ^ 32) (mp_creator_id p) \<and> python_date (mp_expected_finish_date p) \<and>
     pred_option python_instant (mp_closed_at p) \<and>
     python_instant (mp_created_at p) \<and> python_instant (mp_updated_at p)"

definition storable_sub :: "sub_project \<Rightarrow> bool" where
  "storable_sub s \<longleftrightarrow> sp_id s < 16 ^ 32 \<and> sp_main_project_id s < 16 ^ 32 \<and> sp_dept_id s < 16 ^ 32 \<and>
     sp_manager_id s < 16 ^ 32 \<and> pred_option (\<lambda>k. k < 16 ^ 32) (sp_creator_id s) \<and>
     pred_option python_date (sp_plan_end_date s) \<and> pred_option python_date (sp_actual_end_date s) \<and>
     pred_option python_instant (sp_closed_at s) \<and>
     python_instant (sp_created_at s) \<and> python_instant (sp_updated_at s)"

lemma status_of_value [simp]:
  "main_status_of (main_status_value st) = Some st"
  "sub_status_of (sub_status_value st') = Some st'"
  by (cases st; simp add: main_status_of_def) (cases st'; simp add: sub_status_of_def)

lemma snapshot_optional_text:
  assumes "map_of s field = Some (map_option shown x)" and "\<And>y. x = Some y \<Longrightarrow> f (shown y) = Some y"
  shows "snapshot_optional f s field = Inr x"
  using assms by (cases x) (simp_all add: snapshot_optional_def snapshot_optional_str_def parsed_def)

lemma snapshot_value_text:
  "map_of s field = Some (Some v) \<Longrightarrow> f v = Some y \<Longrightarrow> snapshot_value f s field = Inr y"
  by (simp add: snapshot_value_def snapshot_str_def parsed_def)

lemma main_snapshot:
  assumes "storable_main p"
  shows "main_project_from_snapshot (serialize_main p) = Inr (p\<lparr>mp_project_type_id := None\<rparr>)"
proof -
  let ?s = "serialize_main p"
  have "snapshot_value uuid_of_text ?s ''id'' = Inr (mp_id p)"
    "snapshot_value uuid_of_text ?s ''dept_id'' = Inr (mp_dept_id p)"
    "snapshot_value main_status_of ?s ''status'' = Inr (mp_status p)"
    "snapshot_value date_of_iso ?s ''expected_finish_date'' = Inr (mp_expected_finish_date p)"
    "snapshot_value datetime_of_iso ?s ''created_at'' = Inr (mp_created_at p)"
    "snapshot_value datetime_of_iso ?s ''updated_at'' = Inr (mp_updated_at p)"
    using assms by (auto intro!: snapshot_value_text uuid_of_str_uuid date_of_iso_date
      datetime_of_str_datetime simp: storable_main_def serialize_main_def)
  moreover have "snapshot_optional uuid_of_text ?s ''creator_id'' = Inr (mp_creator_id p)"
    "snapshot_optional datetime_of_iso ?s ''closed_at'' = Inr (mp_closed_at p)"
    using assms by (intro snapshot_optional_text [where shown = str_uuid]
      snapshot_optional_text [where shown = str_datetime] uuid_of_str_uuid datetime_of_str_datetime;
      simp add: storable_main_def serialize_main_def)+
  ultimately show ?thesis
    by (simp add: main_project_from_snapshot_def snapshot_money_def)
      (simp add: serialize_main_def snapshot_str_def snapshot_optional_str_def money_of_str_money)
qed

lemma sub_snapshot:
  assumes "storable_sub s"
  shows "sub_project_from_snapshot (serialize_sub s) = Inr (s\<lparr>sp_workflow_version_id := None\<rparr>)"
proof -
  let ?s = "serialize_sub s"
  have "snapshot_value uuid_of_text ?s ''id'' = Inr (sp_id s)"
    "snapshot_value uuid_of_text ?s ''main_project_id'' = Inr (sp_main_project_id s)"
    "snapshot_value uuid_of_text ?s ''dept_id'' = Inr (sp_dept_id s)"
    "snapshot_value uuid_of_text ?s ''manager_id'' = Inr (sp_manager_id s)"
    "snapshot_value sub_status_of ?s ''status'' = Inr (sp_status s)"
    "snapshot_value datetime_of_iso ?s ''created_at'' = Inr (sp_created_at s)"
    "snapshot_value datetime_of_iso ?s ''updated_at'' = Inr (sp_updated_at s)"
    using assms by (auto intro!: snapshot_value_text uuid_of_str_uuid
      datetime_of_str_datetime simp: storable_sub_def serialize_sub_def)
  moreover have "snapshot_optional uuid_of_text ?s ''creator_id'' = Inr (sp_creator_id s)"
    "snapshot_optional datetime_of_iso ?s ''closed_at'' = Inr (sp_closed_at s)"
    "snapshot_optional date_of_iso ?s ''plan_end_date'' = Inr (sp_plan_end_date s)"
    "snapshot_optional date_of_iso ?s ''actual_end_date'' = Inr (sp_actual_end_date s)"
    using assms by (intro snapshot_optional_text [where shown = str_uuid]
      snapshot_optional_text [where shown = str_datetime] snapshot_optional_text [where shown = iso_date]
      uuid_of_str_uuid datetime_of_str_datetime date_of_iso_date;
      simp add: storable_sub_def serialize_sub_def)+
  ultimately show ?thesis
    by (simp add: sub_project_from_snapshot_def snapshot_money_def)
      (simp add: serialize_sub_def snapshot_str_def snapshot_optional_str_def money_of_str_money)
qed

end
