(* ===== verification/Archives.thy ===== *)
theory Archives
  imports Snapshots Integrity
begin

text \<open>
  Archives of closed projects (\<open>app/services/archives.py\<close>): a run moves main projects that were
  closed two years ago, with their sub projects, to the archive tables and deletes everything
  below them; a restore brings a main project and its sub projects back from their snapshots.
  The deletion follows the SQLAlchemy repository with the cascades of the foreign keys, the
  in-memory one knows two tables only.
\<close>

subsection \<open>Data\<close>

definition archive_retention_days :: int where
  "archive_retention_days = 365 * 2"

definition archivable_sub_project_statuses :: "sub_project_status set" where
  "archivable_sub_project_statuses = {sub_project_status.closed, sub_project_status.terminated}"

record archive_candidate =
  ac_main_project_id :: uuid
  ac_project_no :: string
  ac_name :: string
  ac_closed_at :: datetime
  ac_sub_project_count :: int

record archive_run_result =
  arr_batch_id :: uuid
  arr_batch_no :: string
  arr_archived_main_project_count :: int
  arr_archived_sub_project_count :: int
  arr_main_projects_before :: int
  arr_main_projects_after :: int
  arr_duration_ms :: int

record archive_batch =
  ab_id :: uuid
  ab_batch_no :: string
  ab_created_by_id :: "uuid option"
  ab_status :: string
  ab_main_count :: int
  ab_sub_count :: int
  ab_duration_ms :: int
  ab_started_at :: datetime
  ab_finished_at :: datetime
  ab_created_at :: datetime
  ab_updated_at :: datetime

record archive_main_project =
  am_id :: uuid
  am_batch_id :: uuid
  am_original_id :: uuid
  am_project_no :: string
  am_name :: string
  am_status :: string
  am_closed_at :: "datetime option"
  am_snapshot :: snapshot
  am_archived_at :: datetime
  am_created_at :: datetime
  am_updated_at :: datetime

record archive_sub_project =
  asp_id :: uuid
  asp_batch_id :: uuid
  asp_original_id :: uuid
  asp_original_main_project_id :: uuid
  asp_project_no :: string
  asp_name :: string
  asp_status :: string
  asp_closed_at :: "datetime option"
  asp_snapshot :: snapshot
  asp_archived_at :: datetime
  asp_created_at :: datetime
  asp_updated_at :: datetime

record archive_store =
  archive_batches :: "archive_batch list"
  archive_main_projects :: "archive_main_project list"
  archive_sub_projects :: "archive_sub_project list"

record archive_batch_detail =
  abd_batch :: archive_batch
  abd_main_projects :: "archive_main_project list"
  abd_sub_projects :: "archive_sub_project list"

text \<open>
  The two readings of the clock of a run, and the milliseconds between them as the floating
  point arithmetic of \<open>total_seconds() * 1000\<close> has it.
\<close>

record archive_clock =
  acl_started :: datetime
  acl_finished :: datetime
  acl_elapsed_ms :: int

subsection \<open>Queries\<close>

definition cutoff_at :: "datetime \<Rightarrow> datetime" where
  "cutoff_at now = now - archive_retention_days * microseconds_per_day"

definition has_active_sub_project :: "uuid \<Rightarrow> database \<Rightarrow> bool" where
  "has_active_sub_project k db \<longleftrightarrow> (\<exists>s \<in> set (sub_projects db).
     sp_main_project_id s = k \<and> sp_status s \<notin> archivable_sub_project_statuses)"

definition is_candidate :: "datetime \<Rightarrow> database \<Rightarrow> main_project \<Rightarrow> bool" where
  "is_candidate cutoff db p \<longleftrightarrow> mp_status p = main_project_status.closed \<and>
     (\<exists>t \<in> set_option (mp_closed_at p). t \<le> cutoff) \<and> \<not> has_active_sub_project (mp_id p) db"

definition list_candidate_projects :: "datetime \<Rightarrow> database \<Rightarrow> main_project list" where
  "list_candidate_projects cutoff db =
     sort_key (\<lambda>p. (case mp_closed_at p of None \<Rightarrow> 0 | Some t \<Rightarrow> t, mp_project_no p))
       (filter (is_candidate cutoff db) (main_projects db))"

definition list_sub_projects_by_main_project_ids :: "uuid list \<Rightarrow> database \<Rightarrow> sub_project list" where
  "list_sub_projects_by_main_project_ids ids db =
     sort_key sp_project_no (filter (\<lambda>s. sp_main_project_id s \<in> set ids) (sub_projects db))"

definition list_candidates :: "datetime \<Rightarrow> database \<Rightarrow> archive_candidate list" where
  "list_candidates now db =
     (let projects = list_candidate_projects (cutoff_at now) db;
          subs = list_sub_projects_by_main_project_ids (map mp_id projects) db
      in List.map_filter (\<lambda>p. map_option (\<lambda>t.
           \<lparr> ac_main_project_id = mp_id p, ac_project_no = mp_project_no p, ac_name = mp_name p,
             ac_closed_at = t,
             ac_sub_project_count = int (length (filter (\<lambda>s. sp_main_project_id s = mp_id p) subs)) \<rparr>)
           (mp_closed_at p)) projects)"

definition list_batches :: "int \<Rightarrow> int \<Rightarrow> archive_store \<Rightarrow> archive_batch list \<times> int" where
  "list_batches page page_size ar =
     (let ordered = sorted_desc ab_created_at (archive_batches ar)
      in (let start = (page - 1) * page_size in py_slice ordered start (start + page_size), int (length ordered)))"

definition get_batch_detail :: "uuid \<Rightarrow> archive_store \<Rightarrow> py_error + archive_batch_detail" where
  "get_batch_detail k ar =
     attempt (present (find_row ab_id k (archive_batches ar))
       (ResourceNotFound ''The archive batch does not exist'')) (\<lambda>batch.
     Inr \<lparr> abd_batch = batch,
       abd_main_projects = sort_key am_project_no (filter (\<lambda>a. am_batch_id a = ab_id batch)
         (archive_main_projects ar)),
       abd_sub_projects = sort_key asp_project_no (filter (\<lambda>a. asp_batch_id a = ab_id batch)
         (archive_sub_projects ar)) \<rparr>)"

definition list_archive_sub_projects_for_main ::
  "uuid \<Rightarrow> uuid \<Rightarrow> archive_store \<Rightarrow> archive_sub_project list" where
  "list_archive_sub_projects_for_main batch_id original ar =
     sort_key asp_project_no (filter (\<lambda>a. asp_batch_id a = batch_id \<and>
       asp_original_main_project_id a = original) (archive_sub_projects ar))"

definition main_project_no_exists :: "string \<Rightarrow> database \<Rightarrow> bool" where
  "main_project_no_exists no db \<longleftrightarrow> no \<in> mp_project_no ` set (main_projects db)"

definition sub_project_no_conflicts :: "string list \<Rightarrow> database \<Rightarrow> string list" where
  "sub_project_no_conflicts nos db =
     sort_key (\<lambda>no. no) (filter (\<lambda>no. no \<in> set nos) (map sp_project_no (sub_projects db)))"

subsection \<open>Deleting the rows of archived projects\<close>

text \<open>
  The deletes of the repository in their order.  A condition over no identifiers deletes
  nothing, as the guards of the code do.  Reviews and the counter of a main project go with it
  by \<open>ON DELETE CASCADE\<close>, and a document loses a deleted step by \<open>ON DELETE SET NULL\<close>.
\<close>

definition delete_project_graph :: "uuid list \<Rightarrow> database \<Rightarrow> database" where
  "delete_project_graph ids db =
     (let sub_ids = map sp_id (filter (\<lambda>s. sp_main_project_id s \<in> set ids) (sub_projects db));
          phase_ids = map ph_id (filter (\<lambda>p. ph_sub_project_id p \<in> set sub_ids) (phases db));
          task_ids = map task_id (filter (\<lambda>t. task_sub_project_id t \<in> set sub_ids) (tasks db));
          payment_ids = map pay_id (filter (\<lambda>p. pay_sub_project_id p \<in> set sub_ids) (payments db));
          document_ids = map doc_id (filter (\<lambda>d. doc_sub_project_id d \<in> set sub_ids) (documents db));
          step_ids = map step_id (filter (\<lambda>s. step_phase_id s \<in> set phase_ids) (acceptance_steps db))
      in if ids = [] then db
         else db\<lparr>
           payment_vouchers := filter (\<lambda>v. pv_payment_id v \<notin> set payment_ids \<and>
             pv_document_id v \<notin> set document_ids) (payment_vouchers db),
           payments := filter (\<lambda>p. pay_id p \<notin> set payment_ids) (payments db),
           documents := map (\<lambda>d. if \<exists>k \<in> set_option (doc_acceptance_step_id d). k \<in> set step_ids
               then d\<lparr>doc_acceptance_step_id := None\<rparr> else d)
             (filter (\<lambda>d. doc_id d \<notin> set document_ids) (documents db)),
           revoke_requests := filter (\<lambda>r. rr_phase_id r \<notin> set phase_ids \<and>
             rr_sub_project_id r \<notin> set sub_ids) (revoke_requests db),
           acceptance_steps := filter (\<lambda>s. step_phase_id s \<notin> set phase_ids) (acceptance_steps db),
           executors := filter (\<lambda>x. ex_task_id x \<notin> set task_ids) (executors db),
           tasks := filter (\<lambda>t. task_id t \<notin> set task_ids) (tasks db),
           histories := filter (\<lambda>h. hist_phase_id h \<notin> set phase_ids) (histories db),
           phases := filter (\<lambda>p. ph_id p \<notin> set phase_ids) (phases db),
           request_projects := filter (\<lambda>h. hrp_sub_project_id h \<notin> set sub_ids) (request_projects db),
           handovers := filter (\<lambda>h. ho_sub_project_id h \<notin> set sub_ids) (handovers db),
           members := filter (\<lambda>m. mem_sub_project_id m \<notin> set sub_ids) (members db),
           reviews := filter (\<lambda>r. (\<forall>k \<in> set_option (rev_main_project_id r). k \<notin> set ids) \<and>
             (\<forall>k \<in> set_option (rev_sub_project_id r). k \<notin> set sub_ids)) (reviews db),
           sub_sequences := (\<lambda>k. if k \<in> set ids then None else sub_sequences db k),
           sub_projects := filter (\<lambda>s. sp_id s \<notin> set sub_ids) (sub_projects db),
           main_projects := filter (\<lambda>p. mp_id p \<notin> set ids) (main_projects db)\<rparr>)"

subsection \<open>A run\<close>

definition archived_main :: "uuid \<Rightarrow> datetime \<Rightarrow> uuid \<Rightarrow> main_project \<Rightarrow> archive_main_project" where
  "archived_main batch_id finished k p =
     \<lparr> am_id = k, am_batch_id = batch_id, am_original_id = mp_id p, am_project_no = mp_project_no p,
       am_name = mp_name p, am_status = main_status_value (mp_status p), am_closed_at = mp_closed_at p,
       am_snapshot = serialize_main p, am_archived_at = finished, am_created_at = finished,
       am_updated_at = finished \<rparr>"

definition archived_sub :: "uuid \<Rightarrow> datetime \<Rightarrow> uuid \<Rightarrow> sub_project \<Rightarrow> archive_sub_project" where
  "archived_sub batch_id finished k s =
     \<lparr> asp_id = k, asp_batch_id = batch_id, asp_original_id = sp_id s,
       asp_original_main_project_id = sp_main_project_id s, asp_project_no = sp_project_no s,
       asp_name = sp_name s, asp_status = sub_status_value (sp_status s), asp_closed_at = sp_closed_at s,
       asp_snapshot = serialize_sub s, asp_archived_at = finished, asp_created_at = finished,
       asp_updated_at = finished \<rparr>"

text \<open>A loop over rows that gives each a new identifier.\<close>

fun with_new_ids :: "(uuid \<Rightarrow> 'r \<Rightarrow> 'a) \<Rightarrow> 'r list \<Rightarrow> database \<Rightarrow> 'a list \<times> database" where
  "with_new_ids f [] db = ([], db)"
| "with_new_ids f (r # rs) db =
     (let (k, db) = uuid4 db; (xs, db) = with_new_ids f rs db in (f k r # xs, db))"

text \<open>\<open>uuid4().hex[:8].upper()\<close>.\<close>

definition batch_token :: "uuid \<Rightarrow> string" where
  "batch_token k = map (\<lambda>c. let n = (of_char c :: nat) in if 97 \<le> n \<and> n \<le> 122 then char_of (n - 32) else c)
     (take 8 (filter (\<lambda>c. c \<noteq> CHR ''-'') (str_uuid k)))"

definition archive_batch_no :: "datetime \<Rightarrow> uuid \<Rightarrow> string" where
  "archive_batch_no now token =
     ''ARCH-'' @ filter (\<lambda>c. c \<noteq> CHR ''-'') (iso_date (utc_date now)) @ ''-'' @ batch_token token"

definition archive_audit_row ::
  "env \<Rightarrow> uuid option \<Rightarrow> string \<Rightarrow> string \<Rightarrow> uuid \<Rightarrow> audit_state \<Rightarrow> audit_state \<Rightarrow> payload \<Rightarrow>
     database \<Rightarrow> database" where
  "archive_audit_row e actor_id action target_type target_id old_state new_state extra db =
     (if \<not> auditing e then db
      else let c = (case audit_ctx e of Some c \<Rightarrow> c
            | None \<Rightarrow> \<lparr> ctx_actor_id = actor_id, ctx_ip_address = None, ctx_user_agent = None,
                        ctx_request_id = None \<rparr>)
      in enqueue_audit
        \<lparr> ae_actor_id = (case ctx_actor_id c of Some i \<Rightarrow> Some i | None \<Rightarrow> actor_id),
          ae_action = action, ae_target_type = target_type, ae_target_id = target_id,
          ae_before_state = old_state, ae_after_state = new_state,
          ae_ip_address = ctx_ip_address c, ae_user_agent = ctx_user_agent c,
          ae_extra = extra, ae_request_id = ctx_request_id c \<rparr> db)"

definition run_result_payload :: "archive_run_result \<Rightarrow> payload" where
  "run_result_payload r =
     [(''batch_id'', PUuid (arr_batch_id r)), (''batch_no'', PStr (arr_batch_no r)),
      (''archived_main_project_count'', PInt (arr_archived_main_project_count r)),
      (''archived_sub_project_count'', PInt (arr_archived_sub_project_count r)),
      (''main_projects_before'', PInt (arr_main_projects_before r)),
      (''main_projects_after'', PInt (arr_main_projects_after r)),
      (''duration_ms'', PInt (arr_duration_ms r))]"

definition archive_eligible_projects ::
  "env \<Rightarrow> archive_clock \<Rightarrow> uuid option \<Rightarrow> database \<Rightarrow> archive_store \<Rightarrow>
     archive_run_result \<times> database \<times> archive_store" where
  "archive_eligible_projects e t actor_id db ar =
     (let before_count = int (length (main_projects db));
          projects = list_candidate_projects (cutoff_at (acl_started t)) db;
          project_ids = map mp_id projects;
          subs = list_sub_projects_by_main_project_ids project_ids db;
          (batch_id, db) = uuid4 db;
          (token, db) = uuid4 db;
          batch_no = archive_batch_no (acl_started t) token;
          duration_ms = max (acl_elapsed_ms t) 0;
          batch = \<lparr> ab_id = batch_id, ab_batch_no = batch_no, ab_created_by_id = actor_id,
            ab_status = ''completed'', ab_main_count = int (length projects),
            ab_sub_count = int (length subs), ab_duration_ms = duration_ms,
            ab_started_at = acl_started t, ab_finished_at = acl_finished t,
            ab_created_at = acl_started t, ab_updated_at = acl_finished t \<rparr>;
          (main_rows, db) = with_new_ids (archived_main batch_id (acl_finished t)) projects db;
          (sub_rows, db) = with_new_ids (archived_sub batch_id (acl_finished t)) subs db;
          ar = \<lparr> archive_batches = archive_batches ar @ [batch],
            archive_main_projects = archive_main_projects ar @ main_rows,
            archive_sub_projects = archive_sub_projects ar @ sub_rows \<rparr>;
          db = delete_project_graph project_ids db;
          result = \<lparr> arr_batch_id = batch_id, arr_batch_no = batch_no,
            arr_archived_main_project_count = int (length projects),
            arr_archived_sub_project_count = int (length subs),
            arr_main_projects_before = before_count,
            arr_main_projects_after = int (length (main_projects db)),
            arr_duration_ms = duration_ms \<rparr>;
          db = archive_audit_row e actor_id ''archive.create_batch'' ''archive_batch'' batch_id
            (DictState []) (DictState (run_result_payload result))
            [(''archived_main_project_ids'', PList (map (PStr \<circ> str_uuid) project_ids)),
             (''archived_sub_project_count'', PInt (int (length subs)))] db
      in (result, db, ar))"

subsection \<open>A restore\<close>

definition snapshot_payload :: "snapshot \<Rightarrow> payload" where
  "snapshot_payload s = map (\<lambda>(k, v). (k, case v of None \<Rightarrow> PNone | Some x \<Rightarrow> PStr x)) s"

definition restore_main_project ::
  "env \<Rightarrow> user \<Rightarrow> uuid \<Rightarrow> database \<Rightarrow> archive_store \<Rightarrow>
     py_error + main_project \<times> database \<times> archive_store" where
  "restore_main_project e actor k db ar =
     attempt (guard (u_role actor = user_role.admin) PermissionDenied) (\<lambda>_.
     attempt (present (find_row am_id k (archive_main_projects ar))
       (ResourceNotFound ''The archived main project does not exist'')) (\<lambda>a.
     attempt (guard (\<not> main_project_no_exists (am_project_no a) db)
       (ResourceConflict ''The project number is in use'')) (\<lambda>_.
     let sub_archives = list_archive_sub_projects_for_main (am_batch_id a) (am_original_id a) ar
     in attempt (guard (sub_project_no_conflicts (map asp_project_no sub_archives) db = [])
       (ResourceConflict ''Sub project numbers are in use'')) (\<lambda>_.
     attempt (main_project_from_snapshot (am_snapshot a)) (\<lambda>project.
     attempt (traverse (\<lambda>s. sub_project_from_snapshot (asp_snapshot s)) sub_archives) (\<lambda>subs.
     let db = db\<lparr>main_projects := main_projects db @ [project],
           sub_projects := sub_projects db @ subs\<rparr>;
         ar = ar\<lparr>archive_sub_projects := filter (\<lambda>s. asp_id s \<notin> set (map asp_id sub_archives))
             (archive_sub_projects ar),
           archive_main_projects := filter (\<lambda>m. am_id m \<noteq> am_id a) (archive_main_projects ar)\<rparr>;
         db = archive_audit_row e (Some (u_id actor)) ''archive.restore_main_project'' ''main_project''
           (mp_id project) (DictState (snapshot_payload (am_snapshot a)))
           (DictState (snapshot_payload (serialize_main project)))
           [(''archive_main_project_id'', PStr (str_uuid (am_id a))),
            (''archive_batch_id'', PStr (str_uuid (am_batch_id a))),
            (''restored_sub_project_count'', PInt (int (length subs)))] db
     in Inr (project, db, ar)))))))"


subsection \<open>What they do to the tables\<close>

lemma with_new_ids_eq:
  "with_new_ids f rs db = (map (\<lambda>(k, r). f k r) (zip [next_uuid db ..< next_uuid db + length rs] rs),
     db\<lparr>next_uuid := next_uuid db + length rs\<rparr>)"
  by (induction rs arbitrary: db) (simp_all add: uuid4_def upt_conv_Cons del: upt_Suc)

lemma with_new_ids_columns:
  assumes "with_new_ids f rs db = (xs, db')"
  shows "db' = db\<lparr>next_uuid := next_uuid db + length rs\<rparr>" and "length xs = length rs"
    and "(\<And>k r. g (f k r) = h r) \<Longrightarrow> map g xs = map h rs"
    and "(\<And>k r. g' (f k r) = k) \<Longrightarrow> map g' xs = [next_uuid db ..< next_uuid db + length rs]"
    and "x \<in> set xs \<Longrightarrow> \<exists>k. \<exists>r \<in> set rs. x = f k r"
    and "r \<in> set rs \<Longrightarrow> \<exists>k. f k r \<in> set xs"
proof -
  note eq = assms [unfolded with_new_ids_eq, THEN Pair_inject]
  have pairs: "map h (map (\<lambda>(k, r). f k r) (zip ks rs)) = map h' rs"
    if "\<And>k r. h (f k r) = h' r" "length ks = length rs" for h h' ks
    using that(2) by (induction ks rs rule: list_induct2) (simp_all add: that(1))
  have keys: "map h (map (\<lambda>(k, r). f k r) (zip ks rs)) = ks"
    if "\<And>k r. h (f k r) = k" "length ks = length rs" for h ks
    using that(2) by (induction ks rs rule: list_induct2) (simp_all add: that(1))
  show "db' = db\<lparr>next_uuid := next_uuid db + length rs\<rparr>" and "length xs = length rs"
    using assms by (auto simp: with_new_ids_eq)
  show "(\<And>k r. g (f k r) = h r) \<Longrightarrow> map g xs = map h rs"
    using assms pairs [of g h] by (auto simp: with_new_ids_eq)
  show "(\<And>k r. g' (f k r) = k) \<Longrightarrow> map g' xs = [next_uuid db ..< next_uuid db + length rs]"
    using assms keys [of g'] by (auto simp: with_new_ids_eq)
  show "x \<in> set xs \<Longrightarrow> \<exists>k. \<exists>r \<in> set rs. x = f k r"
    using assms unfolding with_new_ids_eq by (fastforce dest: set_zip_rightD)
  show "\<exists>k. f k r \<in> set xs" if r: "r \<in> set rs"
  proof -
    obtain i where i: "i < length rs" "r = rs ! i" using r by (auto simp: in_set_conv_nth)
    then have "(next_uuid db + i, r) \<in> set (zip [next_uuid db ..< next_uuid db + length rs] rs)"
      by (auto simp: in_set_zip intro!: exI [of _ i])
    then show ?thesis using assms unfolding with_new_ids_eq by (force intro: rev_image_eqI)
  qed
qed

lemma archive_audit_row_tables: "\<exists>log. archive_audit_row e i a t k x y extra db = db\<lparr>audit_log := log\<rparr>"
proof (cases "auditing e")
  case False
  then have "archive_audit_row e i a t k x y extra db = db\<lparr>audit_log := audit_log db\<rparr>"
    by (simp add: archive_audit_row_def)
  then show ?thesis by blast
qed (auto simp: archive_audit_row_def enqueue_audit_def Let_def)

text \<open>
  With distinct identifiers, the deletion keeps the rows of the other projects: a row is deleted
  exactly when its sub project is.
\<close>

definition graph_subs :: "uuid list \<Rightarrow> database \<Rightarrow> uuid set" where
  "graph_subs ids db = {sp_id s | s. s \<in> set (sub_projects db) \<and> sp_main_project_id s \<in> set ids}"

lemma graph_subs_iff:
  assumes "distinct (map sp_id (sub_projects db))" and "s \<in> set (sub_projects db)"
  shows "sp_id s \<in> graph_subs ids db \<longleftrightarrow> sp_main_project_id s \<in> set ids"
  using distinct_key_eqD [OF assms(1) _ assms(2)] assms(2) by (auto simp: graph_subs_def)

lemma filter_by_column:
  assumes "distinct (map key rows)"
  shows "filter (\<lambda>r. key r \<notin> set (map key (filter P rows))) rows = filter (\<lambda>r. \<not> P r) rows"
proof (rule filter_cong [OF refl])
  fix r assume r: "r \<in> set rows"
  have "P r" if key: "key r \<in> set (map key (filter P rows))"
  proof -
    obtain x where "x \<in> set rows" "P x" "key x = key r" using key by auto
    then show ?thesis using distinct_key_eqD [OF assms _ r] by metis
  qed
  then show "(key r \<notin> set (map key (filter P rows))) = (\<not> P r)" using r by auto
qed

lemma delete_project_graph_tables:
  assumes "integrity db"
  shows "main_projects (delete_project_graph ids db) = filter (\<lambda>p. mp_id p \<notin> set ids) (main_projects db)"
    and "sub_projects (delete_project_graph ids db) = filter (\<lambda>s. sp_main_project_id s \<notin> set ids) (sub_projects db)"
    and "phases (delete_project_graph ids db) = filter (\<lambda>p. ph_sub_project_id p \<notin> graph_subs ids db) (phases db)"
    and "payments (delete_project_graph ids db) = filter (\<lambda>p. pay_sub_project_id p \<notin> graph_subs ids db) (payments db)"
    and "members (delete_project_graph ids db) =
      filter (\<lambda>m. mem_sub_project_id m \<notin> graph_subs ids db) (members db)"
    and "next_uuid (delete_project_graph ids db) = next_uuid db"
    and "workflow_versions (delete_project_graph ids db) = workflow_versions db"
    and "map (\<lambda>d. (doc_id d, doc_sub_project_id d)) (documents (delete_project_graph ids db)) =
      map (\<lambda>d. (doc_id d, doc_sub_project_id d))
        (filter (\<lambda>d. doc_sub_project_id d \<notin> graph_subs ids db) (documents db))"
    and "revoke_requests (delete_project_graph ids db) = filter (\<lambda>r.
      rr_phase_id r \<notin> ph_id ` {p \<in> set (phases db). ph_sub_project_id p \<in> graph_subs ids db} \<and>
      rr_sub_project_id r \<notin> graph_subs ids db) (revoke_requests db)"
proof -
  have d: "distinct (map sp_id (sub_projects db))" "distinct (map ph_id (phases db))"
    "distinct (map pay_id (payments db))" "distinct (map doc_id (documents db))"
    using assms by (simp_all add: integrity_def fresh_ids_def)
  have subs: "set (map sp_id (filter (\<lambda>s. sp_main_project_id s \<in> set ids) (sub_projects db))) = graph_subs ids db"
    by (auto simp: graph_subs_def)
  have none: "graph_subs [] db = {}" by (simp add: graph_subs_def)
  show "main_projects (delete_project_graph ids db) = filter (\<lambda>p. mp_id p \<notin> set ids) (main_projects db)"
    "members (delete_project_graph ids db) = filter (\<lambda>m. mem_sub_project_id m \<notin> graph_subs ids db) (members db)"
    "next_uuid (delete_project_graph ids db) = next_uuid db"
    "workflow_versions (delete_project_graph ids db) = workflow_versions db"
    by (cases "ids = []"; simp add: delete_project_graph_def Let_def subs none del: set_map set_filter)+
  show "sub_projects (delete_project_graph ids db) = filter (\<lambda>s. sp_main_project_id s \<notin> set ids) (sub_projects db)"
    using filter_by_column [OF d(1)]
    by (cases "ids = []"; simp add: delete_project_graph_def Let_def none del: set_map set_filter)
  show "phases (delete_project_graph ids db) = filter (\<lambda>p. ph_sub_project_id p \<notin> graph_subs ids db) (phases db)"
    using filter_by_column [OF d(2)]
    by (cases "ids = []"; simp add: delete_project_graph_def Let_def subs none del: set_map set_filter)
  show "payments (delete_project_graph ids db) = filter (\<lambda>p. pay_sub_project_id p \<notin> graph_subs ids db) (payments db)"
    using filter_by_column [OF d(3)]
    by (cases "ids = []"; simp add: delete_project_graph_def Let_def subs none del: set_map set_filter)
  show "map (\<lambda>d. (doc_id d, doc_sub_project_id d)) (documents (delete_project_graph ids db)) =
      map (\<lambda>d. (doc_id d, doc_sub_project_id d))
        (filter (\<lambda>d. doc_sub_project_id d \<notin> graph_subs ids db) (documents db))"
    using filter_by_column [OF d(4)]
    by (cases "ids = []"; simp add: delete_project_graph_def Let_def subs none comp_def if_distrib
      cong: if_cong del: set_map set_filter)
  show "revoke_requests (delete_project_graph ids db) = filter (\<lambda>r.
      rr_phase_id r \<notin> ph_id ` {p \<in> set (phases db). ph_sub_project_id p \<in> graph_subs ids db} \<and>
      rr_sub_project_id r \<notin> graph_subs ids db) (revoke_requests db)"
    unfolding delete_project_graph_def Let_def subs by (cases "ids = []"; simp add: none)
qed

end
