(* ===== verification/ArchiveRuns.thy ===== *)
theory ArchiveRuns
  imports Archives Ledger Closure Teams Lifecycle Revocations
begin

text \<open>
  The database under moves and archive runs.  A run deletes whole projects, so the invariants of
  the rows that stay are kept: each of them speaks of the rows of one sub project, or of a main
  project and its sub projects.  The archive itself is consistent as well: every project is in
  one place, and what is archived can be found.
\<close>

subsection \<open>Invariants and the deletion\<close>

definition hot_ok :: "database \<Rightarrow> bool" where
  "hot_ok db \<longleftrightarrow> integrity db \<and> balanced db \<and> reversals_ok (payments db) \<and> payment_nos_distinct db \<and>
     teams_ok db \<and> lifecycle_ok db \<and> closure_ok db \<and> one_pending db"

lemma hot_initial: "initial db \<Longrightarrow> hot_ok db"
  by (simp add: hot_ok_def integrity.inv_init books.inv_init reversals.inv_init
      payment_register.inv_init teams.inv_init lifecycle.inv_init closure.inv_init revocations.inv_init)

lemma hot_move:
  assumes "hot_ok db" and "step db db'"
  shows "hot_ok db'"
proof -
  have old: "integrity db" "balanced db" "reversals_ok (payments db)" "payment_nos_distinct db"
    "teams_ok db" "lifecycle_ok db" "closure_ok db" "one_pending db"
    using assms(1) by (simp_all add: hot_ok_def)
  show ?thesis
    unfolding hot_ok_def
    using integrity.inv_move [OF TrueI old(1) assms(2)] books.inv_move [OF old(1,2) assms(2)]
      reversals.inv_move [OF TrueI old(3) assms(2)] payment_register.inv_move [OF TrueI old(4) assms(2)]
      teams.inv_move [OF TrueI old(5) assms(2)] lifecycle.inv_move [OF old(1,6) assms(2)]
      closure.inv_move [OF old(1,7) assms(2)] revocations.inv_move [OF TrueI old(8) assms(2)]
    by (intro conjI)
qed

lemma fresh_ids_columns:
  "map key rows' = map key rows \<Longrightarrow> fresh_ids key rows n \<Longrightarrow> fresh_ids key rows' n"
  unfolding fresh_ids_def by (metis (mono_tags, lifting) imageE imageI list.set_map)

lemma filter_column:
  "filter (\<lambda>x. g x = k) (filter (\<lambda>x. g x \<notin> A) xs) = (if k \<in> A then [] else filter (\<lambda>x. g x = k) xs)"
  unfolding filter_filter by (auto simp: filter_empty_conv intro!: filter_cong)

lemma distinct_filters:
  "distinct (map f (filter P xs)) \<Longrightarrow> distinct (map f (filter P (filter Q xs)))"
  using distinct_map_filter [of f "filter P xs" Q] by (simp add: filter_filter conj_commute)

lemma leads_filter:
  "leads t ms \<Longrightarrow> fst t \<notin> A \<Longrightarrow> leads t (filter (\<lambda>m. mem_sub_project_id m \<notin> A) ms)"
  by (cases t) (force simp: leads_def member_key_def image_iff)

lemma integrity_delete:
  assumes "integrity db"
  shows "integrity (delete_project_graph ids db)"
proof -
  note tables = delete_project_graph_tables [OF assms, of ids]
  have i: "fresh_ids mp_id (main_projects db) (next_uuid db)" "fresh_ids sp_id (sub_projects db) (next_uuid db)"
    "fresh_ids ph_id (phases db) (next_uuid db)" "fresh_ids pay_id (payments db) (next_uuid db)"
    "fresh_ids doc_id (documents db) (next_uuid db)" "fresh_ids wv_id (workflow_versions db) (next_uuid db)"
    "fresh_ids rr_id (revoke_requests db) (next_uuid db)"
    "sp_main_project_id ` set (sub_projects db) \<subseteq> mp_id ` set (main_projects db)"
    "ph_sub_project_id ` set (phases db) \<subseteq> sp_id ` set (sub_projects db)"
    "pay_sub_project_id ` set (payments db) \<subseteq> sp_id ` set (sub_projects db)"
    "revoke_place ` set (revoke_requests db) \<subseteq> phase_place ` set (phases db)"
    using assms by (simp_all add: integrity_def)
  have sub_ids: "distinct (map sp_id (sub_projects db))" using i(2) by (simp add: fresh_ids_def)
  have kept: "k \<in> sp_id ` set (sub_projects (delete_project_graph ids db))"
    if "k \<in> sp_id ` set (sub_projects db)" "k \<notin> graph_subs ids db" for k
    using that graph_subs_iff [OF sub_ids] by (auto simp: tables(2))
  have docs: "map doc_id (documents (delete_project_graph ids db)) =
      map doc_id (filter (\<lambda>d. doc_sub_project_id d \<notin> graph_subs ids db) (documents db))"
    using arg_cong [OF tables(8), of "map fst"] by (simp add: comp_def)
  show ?thesis
    unfolding integrity_def
  proof (intro conjI)
    show "fresh_ids doc_id (documents (delete_project_graph ids db)) (next_uuid (delete_project_graph ids db))"
      unfolding tables(6) by (rule fresh_ids_columns [OF docs fresh_ids_filter [OF i(5)]])
    show "sp_main_project_id ` set (sub_projects (delete_project_graph ids db)) \<subseteq>
        mp_id ` set (main_projects (delete_project_graph ids db))"
      using i(8) by (auto simp: tables(1,2))
    show "ph_sub_project_id ` set (phases (delete_project_graph ids db)) \<subseteq>
        sp_id ` set (sub_projects (delete_project_graph ids db))"
      using i(9) kept by (auto simp: tables(3))
    show "pay_sub_project_id ` set (payments (delete_project_graph ids db)) \<subseteq>
        sp_id ` set (sub_projects (delete_project_graph ids db))"
      using i(10) kept by (auto simp: tables(4))
    show "revoke_place ` set (revoke_requests (delete_project_graph ids db)) \<subseteq>
        phase_place ` set (phases (delete_project_graph ids db))"
    proof
      fix x assume "x \<in> revoke_place ` set (revoke_requests (delete_project_graph ids db))"
      then obtain r where r: "r \<in> set (revoke_requests db)" "rr_sub_project_id r \<notin> graph_subs ids db"
        "x = revoke_place r" by (auto simp: tables(9))
      with i(11) obtain p where "p \<in> set (phases db)" "phase_place p = x" by force
      then show "x \<in> phase_place ` set (phases (delete_project_graph ids db))"
        using r(2,3) by (intro image_eqI [of _ _ p]) (auto simp: tables(3) phase_place_def revoke_place_def)
    qed
  qed (simp_all add: tables(1-4,6,7,9) fresh_ids_filter [OF i(1)] fresh_ids_filter [OF i(2)]
      fresh_ids_filter [OF i(3)] fresh_ids_filter [OF i(4)] i(6) fresh_ids_filter [OF i(7)])
qed

lemma hot_delete:
  assumes "hot_ok db"
  shows "hot_ok (delete_project_graph ids db)"
proof -
  have ok: "integrity db" "balanced db" "reversals_ok (payments db)" "payment_nos_distinct db"
    "teams_ok db" "lifecycle_ok db" "closure_ok db" "one_pending db"
    using assms by (simp_all add: hot_ok_def)
  note tables = delete_project_graph_tables [OF ok(1), of ids]
  have sub_ids: "distinct (map sp_id (sub_projects db))" using ok(1) by (simp add: integrity_def fresh_ids_def)
  note kept = graph_subs_iff [OF sub_ids, of _ ids]
  have "balanced (delete_project_graph ids db)"
    using ok(2) kept by (auto simp: balanced_def payment_total_def sub_spent_total_def tables(1,2,4)
      filter_column simp del: filter_filter)
  moreover have "payment_nos_distinct (delete_project_graph ids db)"
    using ok(4) by (simp add: payment_nos_distinct_def payment_nos_def tables(4) filter_column
      del: filter_filter)
  moreover have "lifecycle_ok (delete_project_graph ids db)"
    using ok(6) kept by (auto simp: lifecycle_ok_def own_phases_def tables(2,3) filter_column
      simp del: filter_filter)
  moreover have "closure_ok (delete_project_graph ids db)"
    using ok(7) by (auto simp: closure_ok_def closed_ids_def tables(1,2))
  moreover have "reversals_ok (payments (delete_project_graph ids db))"
    using ok(3) unfolding reversals_ok_def tables(4) by (fastforce simp: reverses_exactly_def)
  moreover have "one_pending (delete_project_graph ids db)"
    using ok(8) unfolding one_pending_def pending_places_def tables(9) by (rule distinct_filters)
  moreover have "teams_ok (delete_project_graph ids db)"
  proof -
    have team: "distinct (map member_key (members db))" "fresh_ids sp_id (sub_projects db) (next_uuid db)"
      "fresh_ids mem_id (members db) (next_uuid db)"
      "\<forall>s \<in> set (sub_projects db). leads (team_row s) (members db)"
      "\<forall>m \<in> set (members db). mem_sub_project_id m < next_uuid db"
      using ok(5) by (simp_all add: teams_ok_def roster_ok_def)
    have "leads (team_row s) (filter (\<lambda>m. mem_sub_project_id m \<notin> graph_subs ids db) (members db))"
      if "s \<in> set (sub_projects db)" "sp_main_project_id s \<notin> set ids" for s
      using team(4) that kept by (intro leads_filter) (auto simp: team_row_def)
    then have led: "\<forall>t \<in> set (map team_row (filter (\<lambda>s. sp_main_project_id s \<notin> set ids) (sub_projects db))).
        leads t (filter (\<lambda>m. mem_sub_project_id m \<notin> graph_subs ids db) (members db))" by auto
    have bound: "\<forall>m \<in> set (filter (\<lambda>m. mem_sub_project_id m \<notin> graph_subs ids db) (members db)).
        mem_sub_project_id m < next_uuid db" using team(5) by auto
    show ?thesis
      unfolding teams_ok_def roster_ok_def tables(2,5,6)
      by (intro conjI led bound distinct_map_filter team(1) fresh_ids_filter [OF team(2)]
        fresh_ids_filter [OF team(3)])
  qed
  ultimately show ?thesis
    using integrity_delete [OF ok(1)] by (simp add: hot_ok_def)
qed


subsection \<open>A run\<close>

text \<open>The projects a run takes, and their sub projects.\<close>

definition taken_projects :: "archive_clock \<Rightarrow> database \<Rightarrow> main_project list" where
  "taken_projects t db = list_candidate_projects (cutoff_at (acl_started t)) db"

definition taken_subs :: "archive_clock \<Rightarrow> database \<Rightarrow> sub_project list" where
  "taken_subs t db = list_sub_projects_by_main_project_ids (map mp_id (taken_projects t db)) db"

lemma set_taken:
  "set (taken_projects t db) = {p \<in> set (main_projects db). is_candidate (cutoff_at (acl_started t)) db p}"
  "set (taken_subs t db) = {s \<in> set (sub_projects db).
     sp_main_project_id s \<in> mp_id ` set (taken_projects t db)}"
  by (simp_all add: taken_projects_def list_candidate_projects_def taken_subs_def
      list_sub_projects_by_main_project_ids_def)

lemma distinct_taken:
  "distinct (map mp_id (main_projects db)) \<Longrightarrow> distinct (map mp_id (taken_projects t db))"
  "distinct (map sp_id (sub_projects db)) \<Longrightarrow> distinct (map sp_id (taken_subs t db))"
proof -
  have sort: "distinct (map key (sort_key g xs)) = distinct (map key xs)"
    for key :: "'r \<Rightarrow> uuid" and g :: "'r \<Rightarrow> 'k::linorder" and xs
    by (simp add: distinct_map)
  show "distinct (map mp_id (main_projects db)) \<Longrightarrow> distinct (map mp_id (taken_projects t db))"
    unfolding taken_projects_def list_candidate_projects_def sort by (rule distinct_map_filter)
  show "distinct (map sp_id (sub_projects db)) \<Longrightarrow> distinct (map sp_id (taken_subs t db))"
    unfolding taken_subs_def list_sub_projects_by_main_project_ids_def sort by (rule distinct_map_filter)
qed

lemma archive_run_effect:
  assumes "archive_eligible_projects e t i db ar = (r, db', ar')"
  defines "n \<equiv> next_uuid db + 2 + length (taken_projects t db) + length (taken_subs t db)"
  shows "\<exists>log mains subs batch.
    db' = (delete_project_graph (map mp_id (taken_projects t db)) (db\<lparr>next_uuid := n\<rparr>))\<lparr>audit_log := log\<rparr> \<and>
    ar' = \<lparr> archive_batches = archive_batches ar @ [batch],
       archive_main_projects = archive_main_projects ar @ mains,
       archive_sub_projects = archive_sub_projects ar @ subs \<rparr> \<and>
    ab_id batch = next_uuid db \<and>
    with_new_ids (archived_main (ab_id batch) (acl_finished t)) (taken_projects t db)
      (db\<lparr>next_uuid := next_uuid db + 2\<rparr>) =
      (mains, db\<lparr>next_uuid := next_uuid db + 2 + length (taken_projects t db)\<rparr>) \<and>
    with_new_ids (archived_sub (ab_id batch) (acl_finished t)) (taken_subs t db)
      (db\<lparr>next_uuid := next_uuid db + 2 + length (taken_projects t db)\<rparr>) = (subs, db\<lparr>next_uuid := n\<rparr>) \<and>
    arr_archived_main_project_count r = int (length (taken_projects t db)) \<and>
    arr_archived_sub_project_count r = int (length (taken_subs t db)) \<and>
    arr_main_projects_before r = int (length (main_projects db)) \<and>
    arr_main_projects_after r = int (length (main_projects db'))"
proof -
  obtain mains db1 where m: "with_new_ids (archived_main (next_uuid db) (acl_finished t)) (taken_projects t db)
      (db\<lparr>next_uuid := next_uuid db + 2\<rparr>) = (mains, db1)" by fastforce
  obtain subs db2 where s: "with_new_ids (archived_sub (next_uuid db) (acl_finished t)) (taken_subs t db) db1 =
      (subs, db2)" by fastforce
  have db1: "db1 = db\<lparr>next_uuid := next_uuid db + 2 + length (taken_projects t db)\<rparr>"
    using with_new_ids_columns(1) [OF m] by simp
  have db2: "db2 = db\<lparr>next_uuid := n\<rparr>"
    using with_new_ids_columns(1) [OF s] by (simp add: db1 n_def)
  have start: "db\<lparr>next_uuid := Suc (next_uuid db), next_uuid := Suc (next_uuid (db\<lparr>next_uuid := Suc (next_uuid db)\<rparr>))\<rparr> =
      db\<lparr>next_uuid := next_uuid db + 2\<rparr>" by simp
  note run = assms(1) [unfolded archive_eligible_projects_def, folded taken_projects_def,
      unfolded uuid4_def Let_def, unfolded prod.case, folded taken_subs_def, unfolded start,
      unfolded m prod.case, unfolded s prod.case, unfolded db2]
  note db' = arg_cong [OF run, of "\<lambda>x. fst (snd x)", unfolded snd_conv fst_conv, symmetric]
  have "\<exists>log. db' = (delete_project_graph (map mp_id (taken_projects t db))
      (db\<lparr>next_uuid := n\<rparr>))\<lparr>audit_log := log\<rparr>"
    unfolding db' by (rule archive_audit_row_tables)
  then obtain log where log: "db' = (delete_project_graph (map mp_id (taken_projects t db))
      (db\<lparr>next_uuid := n\<rparr>))\<lparr>audit_log := log\<rparr>" by blast
  note r = arg_cong [OF run, of fst, unfolded fst_conv, symmetric]
  note ar' = arg_cong [OF run, of "\<lambda>x. snd (snd x)", unfolded snd_conv, symmetric]
  have counts: "arr_archived_main_project_count r = int (length (taken_projects t db))"
    "arr_archived_sub_project_count r = int (length (taken_subs t db))"
    "arr_main_projects_before r = int (length (main_projects db))"
    by (simp_all only: r archive_run_result.select_convs)
  have left_over: "arr_main_projects_after r = int (length (main_projects db'))"
    by (simp only: r archive_run_result.select_convs log) simp
  let ?batch = "last (archive_batches ar')"
  have batch: "ab_id ?batch = next_uuid db" by (simp add: ar')
  have store: "ar' = \<lparr> archive_batches = archive_batches ar @ [?batch],
       archive_main_projects = archive_main_projects ar @ mains,
       archive_sub_projects = archive_sub_projects ar @ subs \<rparr>" by (simp add: ar')
  show ?thesis
    by (rule exI [of _ log], rule exI [of _ mains], rule exI [of _ subs], rule exI [of _ ?batch])
      (unfold batch, intro conjI refl log store counts left_over m [unfolded db1] s [unfolded db1 db2])
qed

lemma integrity_supply: "integrity db \<Longrightarrow> next_uuid db \<le> n \<Longrightarrow> integrity (db\<lparr>next_uuid := n\<rparr>)"
  by (auto simp: integrity_def intro: fresh_ids_mono)

lemma hot_supply:
  assumes "hot_ok db" and "next_uuid db \<le> n"
  shows "hot_ok (db\<lparr>next_uuid := n\<rparr>)"
proof -
  have "teams_ok db" using assms(1) by (simp add: hot_ok_def)
  then have "teams_ok (db\<lparr>next_uuid := n\<rparr>)" by (rule teams_ok_cong [rotated 3]) (simp_all add: assms(2))
  then show ?thesis
    using assms integrity_supply
    by (simp add: hot_ok_def balanced_def payment_total_def sub_spent_total_def
      payment_nos_distinct_def payment_nos_def lifecycle_ok_def closure_ok_def one_pending_def)
qed

lemma hot_audit: "hot_ok db \<Longrightarrow> hot_ok (db\<lparr>audit_log := log\<rparr>)"
  by (simp add: hot_ok_def integrity_def balanced_def payment_total_def sub_spent_total_def
    payment_nos_distinct_def payment_nos_def teams_ok_def lifecycle_ok_def closure_ok_def one_pending_def)

lemma hot_run: "hot_ok db \<Longrightarrow> archive_eligible_projects e t i db ar = (r, db', ar') \<Longrightarrow> hot_ok db'"
proof -
  assume ok: "hot_ok db" and run: "archive_eligible_projects e t i db ar = (r, db', ar')"
  obtain ids n log where "db' = (delete_project_graph ids (db\<lparr>next_uuid := n\<rparr>))\<lparr>audit_log := log\<rparr>"
    and "next_uuid db \<le> n"
    using archive_run_effect [OF run] by (elim exE conjE) simp
  then show ?thesis using hot_audit [OF hot_delete [OF hot_supply [OF ok]]] by simp
qed

lemma integrity_run:
  "integrity db \<Longrightarrow> archive_eligible_projects e t i db ar = (r, db', ar') \<Longrightarrow> integrity db'"
proof -
  assume ok: "integrity db" and run: "archive_eligible_projects e t i db ar = (r, db', ar')"
  obtain ids n log where "db' = (delete_project_graph ids (db\<lparr>next_uuid := n\<rparr>))\<lparr>audit_log := log\<rparr>"
    and "next_uuid db \<le> n"
    using archive_run_effect [OF run] by (elim exE conjE) simp
  then show ?thesis
    using integrity_delete [OF integrity_supply [OF ok], of n ids] by (simp add: integrity_def)
qed

subsection \<open>The database and its archive as a machine\<close>

text \<open>
  \<open>archiving\<close>: moves and archive runs; \<open>archive_move\<close>: restores as well.  A run is a move while
  the identifiers drawn fit into 128 bits.
\<close>

type_synonym archived_database = "database \<times> archive_store"

inductive archiving :: "archived_database \<Rightarrow> archived_database \<Rightarrow> bool" where
  do_step: "step db db' \<Longrightarrow> archiving (db, ar) (db', ar)"
| do_run: "archive_eligible_projects e t i db ar = (r, db', ar') \<Longrightarrow> next_uuid db' \<le> 16 ^ 32 \<Longrightarrow>
    archiving (db, ar) (db', ar')"

inductive archive_move :: "archived_database \<Rightarrow> archived_database \<Rightarrow> bool" where
  do_archive: "archiving s s' \<Longrightarrow> archive_move s s'"
| do_restore: "restore_main_project e actor k db ar = Inr (p, db', ar') \<Longrightarrow> archive_move (db, ar) (db', ar')"

inductive_cases archivingE: "archiving s s'"
inductive_cases archive_moveE: "archive_move s s'"

definition archive_start :: "archived_database \<Rightarrow> bool" where
  "archive_start s \<longleftrightarrow> initial (fst s) \<and>
     snd s = \<lparr> archive_batches = [], archive_main_projects = [], archive_sub_projects = [] \<rparr>"

interpretation hot: invariant archive_start archiving "\<lambda>_. True" "\<lambda>s. hot_ok (fst s)"
proof unfold_locales
  show "archive_start s \<Longrightarrow> hot_ok (fst s)" for s by (simp add: archive_start_def hot_initial)
  show "hot_ok (fst s) \<Longrightarrow> archiving s s' \<Longrightarrow> hot_ok (fst s')" for s s'
    by (auto elim!: archivingE intro: hot_move hot_run)
qed simp

subsection \<open>Every project is in one place\<close>

definition main_filed :: "uuid set \<Rightarrow> uuid \<Rightarrow> archive_main_project \<Rightarrow> bool" where
  "main_filed present_ids n a \<longleftrightarrow> am_original_id a < n \<and> am_original_id a \<notin> present_ids \<and>
     am_original_id a < 16 ^ 32 \<and> (\<exists>p. am_snapshot a = serialize_main p \<and> mp_id p = am_original_id a)"

definition sub_filed :: "uuid set \<Rightarrow> uuid \<Rightarrow> archive_main_project list \<Rightarrow> archive_sub_project \<Rightarrow> bool" where
  "sub_filed present_ids n mains a \<longleftrightarrow> asp_original_id a < n \<and> asp_original_id a \<notin> present_ids \<and>
     asp_original_id a < 16 ^ 32 \<and>
     (\<exists>s. asp_snapshot a = serialize_sub s \<and> sp_id s = asp_original_id a \<and>
        sp_main_project_id s = asp_original_main_project_id a) \<and>
     (\<exists>m \<in> set mains. am_batch_id m = asp_batch_id a \<and> am_original_id m = asp_original_main_project_id a)"

definition archive_ok :: "archived_database \<Rightarrow> bool" where
  "archive_ok s \<longleftrightarrow> (case s of (db, ar) \<Rightarrow>
     fresh_ids am_id (archive_main_projects ar) (next_uuid db) \<and>
     fresh_ids asp_id (archive_sub_projects ar) (next_uuid db) \<and>
     distinct (map am_original_id (archive_main_projects ar)) \<and>
     distinct (map asp_original_id (archive_sub_projects ar)) \<and>
     (\<forall>a \<in> set (archive_main_projects ar). main_filed (mp_id ` set (main_projects db)) (next_uuid db) a) \<and>
     (\<forall>a \<in> set (archive_sub_projects ar).
        sub_filed (sp_id ` set (sub_projects db)) (next_uuid db) (archive_main_projects ar) a))"

lemma archive_ok_step:
  assumes "archive_ok (db, ar)" and "integrity db" and "step db db'"
  shows "archive_ok (db', ar)"
proof -
  have more: "next_uuid db \<le> next_uuid db'" by (rule move_supply [OF assms(3)])
  have mains: "k \<notin> mp_id ` set (main_projects db')" if "k \<notin> mp_id ` set (main_projects db)" "k < next_uuid db" for k
    using main_keys [OF assms(3)] that unfolding grows_def
    by (metis (no_types, lifting) Un_iff linorder_not_le list.set_map set_append)
  have subs: "k \<notin> sp_id ` set (sub_projects db')" if "k \<notin> sp_id ` set (sub_projects db)" "k < next_uuid db" for k
    using sub_keys [OF assms(3)] that unfolding grows_def
    by (metis (no_types, lifting) Un_iff linorder_not_le list.set_map set_append)
  have "main_filed (mp_id ` set (main_projects db)) (next_uuid db) a \<Longrightarrow>
      main_filed (mp_id ` set (main_projects db')) (next_uuid db') a" for a
    using mains [of "am_original_id a"] more unfolding main_filed_def by auto
  moreover have "sub_filed (sp_id ` set (sub_projects db)) (next_uuid db) ms a \<Longrightarrow>
      sub_filed (sp_id ` set (sub_projects db')) (next_uuid db') ms a" for ms a
    using subs [of "asp_original_id a"] more unfolding sub_filed_def by auto
  ultimately show ?thesis
    using assms(1) by (auto simp: archive_ok_def intro: fresh_ids_mono [OF _ more])
qed


lemma fresh_ids_extend:
  assumes "fresh_ids key rows m" and "map key new = [i ..< j]" and "m \<le> i" and "j \<le> n" and "m \<le> n"
  shows "fresh_ids key (rows @ new) n"
proof -
  have keys: "key ` set new = {i ..< j}" using arg_cong [OF assms(2), of set] by simp
  have "key ` set rows \<inter> key ` set new = {}" unfolding keys using assms(1,3) by (auto simp: fresh_ids_def)
  moreover have "key r < n" if "r \<in> set new" for r
    using imageI [OF that, of key] assms(4) unfolding keys by simp
  ultimately show ?thesis
    using assms(1,2,3,5) by (auto simp: fresh_ids_def)
qed

lemma archive_ok_run:
  assumes ok: "archive_ok (db, ar)" and ids: "integrity db"
    and run: "archive_eligible_projects e t i db ar = (r, db', ar')" and width: "next_uuid db' \<le> 16 ^ 32"
  shows "archive_ok (db', ar')"
proof -
  define n where "n = next_uuid db + 2 + length (taken_projects t db) + length (taken_subs t db)"
  define cut where "cut = map mp_id (taken_projects t db)"
  obtain log mains subs batch where
    db': "db' = (delete_project_graph cut (db\<lparr>next_uuid := n\<rparr>))\<lparr>audit_log := log\<rparr>"
    and ar': "ar' = \<lparr> archive_batches = archive_batches ar @ [batch],
       archive_main_projects = archive_main_projects ar @ mains,
       archive_sub_projects = archive_sub_projects ar @ subs \<rparr>"
    and mains: "with_new_ids (archived_main (ab_id batch) (acl_finished t)) (taken_projects t db)
      (db\<lparr>next_uuid := next_uuid db + 2\<rparr>) =
      (mains, db\<lparr>next_uuid := next_uuid db + 2 + length (taken_projects t db)\<rparr>)"
    and subs: "with_new_ids (archived_sub (ab_id batch) (acl_finished t)) (taken_subs t db)
      (db\<lparr>next_uuid := next_uuid db + 2 + length (taken_projects t db)\<rparr>) = (subs, db\<lparr>next_uuid := n\<rparr>)"
    using archive_run_effect [OF run, folded n_def cut_def] by (elim exE conjE) (rule that; assumption)
  have more: "next_uuid db \<le> n" by (simp add: n_def)
  note tables = delete_project_graph_tables [OF integrity_supply [OF ids more], of cut]
  have hot: "main_projects db' = filter (\<lambda>p. mp_id p \<notin> set cut) (main_projects db)"
    "sub_projects db' = filter (\<lambda>s. sp_main_project_id s \<notin> set cut) (sub_projects db)" "next_uuid db' = n"
    using tables(1,2,6) by (simp_all add: db')
  have fresh: "fresh_ids mp_id (main_projects db) (next_uuid db)" "fresh_ids sp_id (sub_projects db) (next_uuid db)"
    using ids by (simp_all add: integrity_def)
  have distinct: "distinct (map mp_id (main_projects db))" "distinct (map sp_id (sub_projects db))"
    using fresh by (simp_all add: fresh_ids_def)
  have main_cols: "map am_original_id mains = cut" "map am_id mains = [next_uuid db + 2 ..< next_uuid db + 2 + length cut]"
    "map am_batch_id mains = map (\<lambda>_. ab_id batch) (taken_projects t db)"
    using with_new_ids_columns(3) [OF mains, of am_original_id mp_id] with_new_ids_columns(4) [OF mains, of am_id]
      with_new_ids_columns(3) [OF mains, of am_batch_id "\<lambda>_. ab_id batch"]
    by (simp_all add: archived_main_def cut_def)
  have sub_cols: "map asp_original_id subs = map sp_id (taken_subs t db)"
    "map asp_id subs = [next_uuid db + 2 + length cut ..< n]"
    using with_new_ids_columns(3) [OF subs, of asp_original_id sp_id] with_new_ids_columns(4) [OF subs, of asp_id]
    by (simp_all add: archived_sub_def n_def cut_def)
  have old: "fresh_ids am_id (archive_main_projects ar) (next_uuid db)"
    "fresh_ids asp_id (archive_sub_projects ar) (next_uuid db)"
    "distinct (map am_original_id (archive_main_projects ar))"
    "distinct (map asp_original_id (archive_sub_projects ar))"
    "\<And>a. a \<in> set (archive_main_projects ar) \<Longrightarrow> main_filed (mp_id ` set (main_projects db)) (next_uuid db) a"
    "\<And>a. a \<in> set (archive_sub_projects ar) \<Longrightarrow>
       sub_filed (sp_id ` set (sub_projects db)) (next_uuid db) (archive_main_projects ar) a"
    using ok by (simp_all add: archive_ok_def)
  have cut: "set cut \<subseteq> mp_id ` set (main_projects db)" "distinct cut"
    using distinct_taken(1) [OF distinct(1)] by (auto simp: cut_def set_taken)
  have small: "k < n" "k < 16 ^ 32" if "k < next_uuid db" for k
    using that more width by (simp_all add: hot(3))
  have new_main: "main_filed (mp_id ` set (main_projects db')) n a" if a: "a \<in> set mains" for a
  proof -
    obtain k p where p: "p \<in> set (taken_projects t db)" "a = archived_main (ab_id batch) (acl_finished t) k p"
      using with_new_ids_columns(5) [OF mains a] by blast
    from p(1) have "mp_id p < next_uuid db" using fresh(1) by (auto simp: set_taken fresh_ids_def)
    moreover have "mp_id p \<in> set cut" using p(1) by (simp add: cut_def)
    then have "mp_id p \<notin> mp_id ` set (main_projects db')" by (auto simp: hot)
    ultimately show ?thesis
      using small [of "mp_id p"] unfolding main_filed_def p(2) archived_main_def by auto
  qed
  have new_sub: "sub_filed (sp_id ` set (sub_projects db')) n (archive_main_projects ar @ mains) a"
    if a: "a \<in> set subs" for a
  proof -
    obtain k s where s: "s \<in> set (taken_subs t db)" "a = archived_sub (ab_id batch) (acl_finished t) k s"
      using with_new_ids_columns(5) [OF subs a] by blast
    then have in_db: "s \<in> set (sub_projects db)" "sp_main_project_id s \<in> set cut"
      by (auto simp: set_taken cut_def)
    have "sp_id s \<notin> sp_id ` set (sub_projects db')"
      using distinct_key_eqD [OF distinct(2) _ in_db(1)] in_db(2) by (auto simp: hot)
    moreover have "sp_id s < next_uuid db" using fresh(2) in_db(1) by (auto simp: fresh_ids_def)
    moreover have "\<exists>m \<in> set mains. am_batch_id m = ab_id batch \<and> am_original_id m = sp_main_project_id s"
    proof -
      have "sp_main_project_id s \<in> set (map am_original_id mains)" using in_db(2) by (simp add: main_cols)
      then obtain m where m: "m \<in> set mains" "am_original_id m = sp_main_project_id s" by auto
      then have "am_batch_id m \<in> set (map am_batch_id mains)" by simp
      then show ?thesis using m unfolding main_cols(3) by auto
    qed
    ultimately show ?thesis using small [of "sp_id s"] by (auto simp: sub_filed_def s(2) archived_sub_def)
  qed
  have main_rows: "fresh_ids am_id (archive_main_projects ar @ mains) n"
    by (rule fresh_ids_extend [OF old(1) main_cols(2)]) (simp_all add: n_def cut_def)
  have sub_rows: "fresh_ids asp_id (archive_sub_projects ar @ subs) n"
    by (rule fresh_ids_extend [OF old(2) sub_cols(2)]) (simp_all add: more)
  have "am_original_id ` set (archive_main_projects ar) \<inter> set cut = {}"
    using old(5) cut(1) by (fastforce simp: main_filed_def)
  then have "distinct (map am_original_id (archive_main_projects ar @ mains))"
    unfolding map_append main_cols(1) using old(3) cut(2) by simp
  moreover have "asp_original_id ` set (archive_sub_projects ar) \<inter> sp_id ` set (taken_subs t db) = {}"
    using old(6) by (fastforce simp: sub_filed_def set_taken)
  then have "distinct (map asp_original_id (archive_sub_projects ar @ subs))"
    unfolding map_append sub_cols(1) using old(4) distinct_taken(2) [OF distinct(2), of t] by simp
  moreover have "main_filed (mp_id ` set (main_projects db')) n a" if "a \<in> set (archive_main_projects ar)" for a
    using old(5) [OF that] more by (auto simp: main_filed_def hot)
  moreover have "sub_filed (sp_id ` set (sub_projects db')) n (archive_main_projects ar @ mains) a"
    if "a \<in> set (archive_sub_projects ar)" for a
    using old(6) [OF that] more by (auto simp: sub_filed_def hot)
  ultimately show ?thesis
    using main_rows sub_rows new_main new_sub by (auto simp: archive_ok_def ar' hot(3))
qed


subsection \<open>A restore\<close>

lemma snapshot_ids:
  "main_project_from_snapshot (serialize_main q) = Inr p \<Longrightarrow> mp_id q < 16 ^ 32 \<Longrightarrow> mp_id p = mp_id q"
  "sub_project_from_snapshot (serialize_sub s) = Inr r \<Longrightarrow> sp_id s < 16 ^ 32 \<Longrightarrow> sp_id r = sp_id s"
  "sub_project_from_snapshot (serialize_sub s) = Inr r \<Longrightarrow> sp_main_project_id s < 16 ^ 32 \<Longrightarrow>
     sp_main_project_id r = sp_main_project_id s"
proof -
  have i: "snapshot_value uuid_of_text (serialize_main q) ''id'' = Inr (mp_id q)" if "mp_id q < 16 ^ 32"
    by (rule snapshot_value_text, simp add: serialize_main_def, rule uuid_of_str_uuid [OF that])
  show "main_project_from_snapshot (serialize_main q) = Inr p \<Longrightarrow> mp_id q < 16 ^ 32 \<Longrightarrow> mp_id p = mp_id q"
    unfolding main_project_from_snapshot_def using i by (auto elim!: attempt_InrE)
  have j: "snapshot_value uuid_of_text (serialize_sub s) ''id'' = Inr (sp_id s)" if "sp_id s < 16 ^ 32"
    by (rule snapshot_value_text, simp add: serialize_sub_def, rule uuid_of_str_uuid [OF that])
  show "sub_project_from_snapshot (serialize_sub s) = Inr r \<Longrightarrow> sp_id s < 16 ^ 32 \<Longrightarrow> sp_id r = sp_id s"
    unfolding sub_project_from_snapshot_def using j by (auto elim!: attempt_InrE)
  have k: "snapshot_value uuid_of_text (serialize_sub s) ''main_project_id'' = Inr (sp_main_project_id s)"
    if "sp_main_project_id s < 16 ^ 32"
    by (rule snapshot_value_text, simp add: serialize_sub_def, rule uuid_of_str_uuid [OF that])
  show "sub_project_from_snapshot (serialize_sub s) = Inr r \<Longrightarrow> sp_main_project_id s < 16 ^ 32 \<Longrightarrow>
      sp_main_project_id r = sp_main_project_id s"
    unfolding sub_project_from_snapshot_def using k by (auto elim!: attempt_InrE)
qed

lemma restore_effect:
  assumes "restore_main_project e actor k db ar = Inr (p, db', ar')"
  shows "\<exists>a qs log. u_role actor = user_role.admin \<and> a \<in> set (archive_main_projects ar) \<and> am_id a = k \<and>
    am_project_no a \<notin> mp_project_no ` set (main_projects db) \<and>
    main_project_from_snapshot (am_snapshot a) = Inr p \<and>
    list_all2 (\<lambda>s q. sub_project_from_snapshot (asp_snapshot s) = Inr q)
      (list_archive_sub_projects_for_main (am_batch_id a) (am_original_id a) ar) qs \<and>
    asp_project_no ` set (list_archive_sub_projects_for_main (am_batch_id a) (am_original_id a) ar) \<inter>
      sp_project_no ` set (sub_projects db) = {} \<and>
    db' = db\<lparr>main_projects := main_projects db @ [p], sub_projects := sub_projects db @ qs, audit_log := log\<rparr> \<and>
    ar' = ar\<lparr>archive_sub_projects := filter (\<lambda>s. asp_id s \<notin> asp_id ` set
        (list_archive_sub_projects_for_main (am_batch_id a) (am_original_id a) ar)) (archive_sub_projects ar),
      archive_main_projects := filter (\<lambda>m. am_id m \<noteq> k) (archive_main_projects ar)\<rparr>"
proof -
  from assms obtain a where admin: "u_role actor = user_role.admin"
    and a: "find_row am_id k (archive_main_projects ar) = Some a"
    and free: "\<not> main_project_no_exists (am_project_no a) db"
    by (auto simp: restore_main_project_def Let_def elim!: attempt_InrE guard_InrE present_InrE)
  define ss where "ss = list_archive_sub_projects_for_main (am_batch_id a) (am_original_id a) ar"
  from assms obtain qs where none: "sub_project_no_conflicts (map asp_project_no ss) db = []"
    and p: "main_project_from_snapshot (am_snapshot a) = Inr p"
    and qs: "traverse (\<lambda>s. sub_project_from_snapshot (asp_snapshot s)) ss = Inr qs"
    by (auto simp: restore_main_project_def Let_def a free ss_def elim!: attempt_InrE guard_InrE)
  note run = assms [unfolded restore_main_project_def, folded ss_def, unfolded Let_def,
      unfolded a present_simps attempt_simps, folded ss_def]
  have row: "a \<in> set (archive_main_projects ar)" "am_id a = k" using find_row_SomeD [OF a] by auto
  have clash: "asp_project_no ` set ss \<inter> sp_project_no ` set (sub_projects db) = {}"
  proof -
    have "\<forall>no \<in> set (map sp_project_no (sub_projects db)). no \<notin> set (map asp_project_no ss)"
      using none unfolding sub_project_no_conflicts_def sort_key_Nil_iff filter_empty_conv .
    then show ?thesis unfolding set_map by blast
  qed
  have "\<exists>log. db' = db\<lparr>main_projects := main_projects db @ [p], sub_projects := sub_projects db @ qs, audit_log := log\<rparr>"
    and ar': "ar' = ar\<lparr>archive_sub_projects := filter (\<lambda>s. asp_id s \<notin> asp_id ` set ss) (archive_sub_projects ar),
      archive_main_projects := filter (\<lambda>m. am_id m \<noteq> k) (archive_main_projects ar)\<rparr>"
    using run archive_audit_row_tables by (auto simp: admin free none p qs row)
  then show ?thesis
    using admin row free p clash traverse_InrD [OF qs] unfolding ss_def main_project_no_exists_def by blast
qed


lemma restored_ids:
  assumes ok: "archive_ok (db, ar)" and a: "a \<in> set (archive_main_projects ar)"
    and p: "main_project_from_snapshot (am_snapshot a) = Inr p"
    and qs: "list_all2 (\<lambda>s q. sub_project_from_snapshot (asp_snapshot s) = Inr q) ss qs"
    and ss: "\<And>s. s \<in> set ss \<Longrightarrow> s \<in> set (archive_sub_projects ar) \<and> asp_original_main_project_id s = am_original_id a"
  shows "mp_id p = am_original_id a" and "map sp_id qs = map asp_original_id ss"
    and "\<forall>q \<in> set qs. sp_main_project_id q = mp_id p"
proof -
  have filed: "\<And>a. a \<in> set (archive_main_projects ar) \<Longrightarrow> main_filed (mp_id ` set (main_projects db)) (next_uuid db) a"
    "\<And>s. s \<in> set (archive_sub_projects ar) \<Longrightarrow>
       sub_filed (sp_id ` set (sub_projects db)) (next_uuid db) (archive_main_projects ar) s"
    using ok by (simp_all add: archive_ok_def)
  have width: "am_original_id a < 16 ^ 32" using filed(1) [OF a] by (simp add: main_filed_def)
  show main: "mp_id p = am_original_id a"
    using filed(1) [OF a] p snapshot_ids(1) unfolding main_filed_def by metis
  have "list_all2 (\<lambda>s q. sp_id q = asp_original_id s \<and> sp_main_project_id q = am_original_id a) ss qs"
  proof (rule list.rel_mono_strong [OF qs])
    fix s q assume s: "s \<in> set ss" and q: "sub_project_from_snapshot (asp_snapshot s) = Inr q"
    then obtain r where r: "asp_snapshot s = serialize_sub r" "sp_id r = asp_original_id s"
      "sp_main_project_id r = am_original_id a" "asp_original_id s < 16 ^ 32"
      using filed(2) [of s] ss [OF s] by (auto simp: sub_filed_def)
    then show "sp_id q = asp_original_id s \<and> sp_main_project_id q = am_original_id a"
      using q snapshot_ids(2,3) [of r q] width unfolding r(1) by simp
  qed
  then have both: "list_all2 (\<lambda>s q. sp_id q = asp_original_id s) ss qs"
    "list_all2 (\<lambda>s q. sp_main_project_id q = am_original_id a) ss qs"
    by (auto elim: list.rel_mono_strong)
  show "map sp_id qs = map asp_original_id ss" using both(1) by (induction rule: list_all2_induct) simp_all
  show "\<forall>q \<in> set qs. sp_main_project_id q = mp_id p"
    unfolding main using both(2) by (induction rule: list_all2_induct) simp_all
qed

lemma archive_ok_restore:
  assumes ok: "archive_ok (db, ar)" and ids: "integrity db"
    and run: "restore_main_project e actor k db ar = Inr (p, db', ar')"
  shows "archive_ok (db', ar') \<and> integrity db'"
proof -
  obtain a qs log where a: "a \<in> set (archive_main_projects ar)" "am_id a = k"
    and p: "main_project_from_snapshot (am_snapshot a) = Inr p"
    and qs: "list_all2 (\<lambda>s q. sub_project_from_snapshot (asp_snapshot s) = Inr q)
      (list_archive_sub_projects_for_main (am_batch_id a) (am_original_id a) ar) qs"
    and db': "db' = db\<lparr>main_projects := main_projects db @ [p], sub_projects := sub_projects db @ qs,
      audit_log := log\<rparr>"
    and ar': "ar' = ar\<lparr>archive_sub_projects := filter (\<lambda>s. asp_id s \<notin> asp_id ` set
        (list_archive_sub_projects_for_main (am_batch_id a) (am_original_id a) ar)) (archive_sub_projects ar),
      archive_main_projects := filter (\<lambda>m. am_id m \<noteq> k) (archive_main_projects ar)\<rparr>"
    using restore_effect [OF run] by (elim exE conjE) (rule that; assumption)
  define ss where "ss = list_archive_sub_projects_for_main (am_batch_id a) (am_original_id a) ar"
  have ss: "s \<in> set ss \<longleftrightarrow> s \<in> set (archive_sub_projects ar) \<and> asp_batch_id s = am_batch_id a \<and>
      asp_original_main_project_id s = am_original_id a" for s
    by (auto simp: ss_def list_archive_sub_projects_for_main_def)
  note qs = qs [folded ss_def] and ar' = ar' [folded ss_def]
  note again = restored_ids [OF ok a(1) p qs, unfolded ss, simplified]
  have old: "fresh_ids am_id (archive_main_projects ar) (next_uuid db)"
    "fresh_ids asp_id (archive_sub_projects ar) (next_uuid db)"
    "distinct (map am_original_id (archive_main_projects ar))"
    "distinct (map asp_original_id (archive_sub_projects ar))"
    and main: "\<And>a. a \<in> set (archive_main_projects ar) \<Longrightarrow> main_filed (mp_id ` set (main_projects db)) (next_uuid db) a"
    and sub: "\<And>a. a \<in> set (archive_sub_projects ar) \<Longrightarrow>
       sub_filed (sp_id ` set (sub_projects db)) (next_uuid db) (archive_main_projects ar) a"
    using ok by (simp_all add: archive_ok_def)
  have rows: "distinct (map am_id (archive_main_projects ar))" "distinct (map asp_id (archive_sub_projects ar))"
    using old(1,2) by (simp_all add: fresh_ids_def)
  have sub_ids: "sp_id ` set qs = asp_original_id ` set ss" using arg_cong [OF again(2), of set] by simp
  have main_kept: "main_filed (mp_id ` set (main_projects db')) (next_uuid db') m"
    if m: "m \<in> set (archive_main_projects ar')" for m
  proof -
    have "m \<in> set (archive_main_projects ar)" "am_id m \<noteq> am_id a" using m a(2) by (auto simp: ar')
    moreover have "am_original_id m \<noteq> am_original_id a"
      using distinct_key_eqD [OF old(3) calculation(1) a(1)] calculation(2) by blast
    ultimately show ?thesis using main by (auto simp: main_filed_def db' again(1))
  qed
  have sub_kept: "sub_filed (sp_id ` set (sub_projects db')) (next_uuid db') (archive_main_projects ar') s"
    if s: "s \<in> set (archive_sub_projects ar')" for s
  proof -
    have s: "s \<in> set (archive_sub_projects ar)" "s \<notin> set ss" using s by (auto simp: ar')
    have "asp_original_id s \<notin> sp_id ` set qs"
      unfolding sub_ids using distinct_key_eqD [OF old(4) _ s(1)] s(2) ss by auto
    moreover obtain m where m: "m \<in> set (archive_main_projects ar)" "am_batch_id m = asp_batch_id s"
      "am_original_id m = asp_original_main_project_id s" using sub [OF s(1)] by (auto simp: sub_filed_def)
    moreover have "am_id m \<noteq> k"
    proof
      assume "am_id m = k"
      then have "m = a" using distinct_key_eqD [OF rows(1) m(1) a(1)] a(2) by simp
      then show False using s m ss by simp
    qed
    then have "m \<in> set (archive_main_projects ar')" using m(1) by (simp add: ar')
    ultimately show ?thesis using sub [OF s(1)] by (auto simp: sub_filed_def db')
  qed
  have "archive_ok (db', ar')"
    using old main_kept sub_kept
    by (auto simp: archive_ok_def ar' db' intro: fresh_ids_filter distinct_map_filter)
  moreover have "integrity db'"
  proof -
    have fresh: "mp_id p \<notin> mp_id ` set (main_projects db)" "mp_id p < next_uuid db"
      using main [OF a(1)] by (simp_all add: again(1) main_filed_def)
    have subs: "sp_id q \<notin> sp_id ` set (sub_projects db)" "sp_id q < next_uuid db" if q: "q \<in> set qs" for q
    proof -
      have "sp_id q \<in> asp_original_id ` set ss" using q sub_ids by blast
      then obtain s where "s \<in> set (archive_sub_projects ar)" "sp_id q = asp_original_id s" using ss by auto
      then show "sp_id q \<notin> sp_id ` set (sub_projects db)" "sp_id q < next_uuid db"
        using sub [of s] by (simp_all add: sub_filed_def)
    qed
    have "distinct (map asp_original_id ss)"
      using distinct_map_filter [OF old(4)] by (auto simp: ss_def list_archive_sub_projects_for_main_def distinct_map)
    then have "distinct (map sp_id qs)" by (simp add: again(2))
    moreover have "sp_id ` set qs \<inter> sp_id ` set (sub_projects db) = {}" using subs(1) by blast
    moreover have old_ids: "fresh_ids mp_id (main_projects db) (next_uuid db)"
      "fresh_ids sp_id (sub_projects db) (next_uuid db)"
      using ids by (simp_all add: integrity_def)
    ultimately have new: "fresh_ids sp_id (sub_projects db @ qs) (next_uuid db)"
      "fresh_ids mp_id (main_projects db @ [p]) (next_uuid db)"
      using subs(2) fresh by (auto simp: fresh_ids_def)
    have refs: "sp_main_project_id ` set (sub_projects db @ qs) \<subseteq> mp_id ` set (main_projects db @ [p])"
      "ph_sub_project_id ` set (phases db) \<subseteq> sp_id ` set (sub_projects db @ qs)"
      "pay_sub_project_id ` set (payments db) \<subseteq> sp_id ` set (sub_projects db @ qs)"
    proof -
      have r: "sp_main_project_id ` set (sub_projects db) \<subseteq> mp_id ` set (main_projects db)"
        "ph_sub_project_id ` set (phases db) \<subseteq> sp_id ` set (sub_projects db)"
        "pay_sub_project_id ` set (payments db) \<subseteq> sp_id ` set (sub_projects db)"
        using ids by (simp_all add: integrity_def)
      have "sp_main_project_id ` set qs \<subseteq> {mp_id p}" using again(3) by blast
      with r(1) show "sp_main_project_id ` set (sub_projects db @ qs) \<subseteq> mp_id ` set (main_projects db @ [p])"
        unfolding set_append image_Un by fastforce
      show "ph_sub_project_id ` set (phases db) \<subseteq> sp_id ` set (sub_projects db @ qs)"
        "pay_sub_project_id ` set (payments db) \<subseteq> sp_id ` set (sub_projects db @ qs)"
        using r(2,3) unfolding set_append image_Un by (blast intro: le_supI1)+
    qed
    have tables: "main_projects db' = main_projects db @ [p]" "sub_projects db' = sub_projects db @ qs"
      "phases db' = phases db" "payments db' = payments db" "documents db' = documents db"
      "workflow_versions db' = workflow_versions db" "revoke_requests db' = revoke_requests db"
      "next_uuid db' = next_uuid db" by (simp_all add: db')
    show ?thesis
      unfolding integrity_def tables
      by (intro conjI new refs) (insert ids, simp_all only: integrity_def)
  qed
  ultimately show ?thesis by blast
qed

interpretation filing: invariant archive_start archive_move "\<lambda>_. True" "\<lambda>s. archive_ok s \<and> integrity (fst s)"
proof unfold_locales
  show "archive_start s \<Longrightarrow> archive_ok s \<and> integrity (fst s)" for s
    by (cases s) (simp add: archive_start_def archive_ok_def integrity.inv_init)
  show "archive_ok s \<and> integrity (fst s) \<Longrightarrow> archive_move s s' \<Longrightarrow> archive_ok s' \<and> integrity (fst s')" for s s'
  proof (elim archive_moveE conjE)
    fix e actor k db ar p db' ar'
    assume "archive_ok s" "integrity (fst s)" "s = (db, ar)" "s' = (db', ar')"
      "restore_main_project e actor k db ar = Inr (p, db', ar')"
    then show "archive_ok s' \<and> integrity (fst s')" using archive_ok_restore [of db ar e actor k p db' ar'] by simp
  next
    assume ok: "archive_ok s" "integrity (fst s)" and move: "archiving s s'"
    from move show "archive_ok s' \<and> integrity (fst s')"
    proof (cases rule: archiving.cases)
      case (do_step db db' ar)
      then show ?thesis using ok archive_ok_step [of db ar db'] integrity_move [of db db'] by simp
    next
      case (do_run e t i db ar r db' ar')
      then show ?thesis using ok archive_ok_run [of db ar e t i r db' ar'] integrity_run [of db e t i ar r db' ar'] by simp
    qed
  qed
qed simp

end
