(* ===== verification/ArchiveSafety.thy ===== *)
theory ArchiveSafety
  imports ArchiveRuns Scenario
begin

text \<open>
  What archiving guarantees and what it loses.  The example archives the project of
  \<open>Scenario\<close> two years after its only sub project was terminated and it was closed.
\<close>

subsection \<open>A run and a restore\<close>

lemma traverse_map:
  "(\<And>x. x \<in> set xs \<Longrightarrow> f x = Inr (g x)) \<Longrightarrow> traverse f xs = Inr (map g xs)"
  by (induction xs) simp_all

lemma archive_audit_row_keeps:
  "main_projects (archive_audit_row e i a t k x y extra db) = main_projects db"
  "sub_projects (archive_audit_row e i a t k x y extra db) = sub_projects db"
  using archive_audit_row_tables [of e i a t k x y extra db] by auto

text \<open>What a run leaves, and the rows it files for a main project it takes.\<close>

lemma run_tables:
  assumes "integrity db" and "archive_eligible_projects e t i db ar = (r, db', ar')"
  shows "main_projects db' = filter (\<lambda>p. mp_id p \<notin> mp_id ` set (taken_projects t db)) (main_projects db)"
    and "sub_projects db' = filter (\<lambda>s. sp_main_project_id s \<notin> mp_id ` set (taken_projects t db)) (sub_projects db)"
proof -
  define cut where "cut = map mp_id (taken_projects t db)"
  obtain n log where db': "db' = (delete_project_graph cut (db\<lparr>next_uuid := n\<rparr>))\<lparr>audit_log := log\<rparr>"
    and n: "next_uuid db \<le> n"
    using archive_run_effect [OF assms(2), folded cut_def] by (elim exE conjE) simp
  show "main_projects db' = filter (\<lambda>p. mp_id p \<notin> mp_id ` set (taken_projects t db)) (main_projects db)"
    "sub_projects db' = filter (\<lambda>s. sp_main_project_id s \<notin> mp_id ` set (taken_projects t db)) (sub_projects db)"
    using delete_project_graph_tables(1,2) [OF integrity_supply [OF assms(1) n], of cut]
    by (simp_all add: db' cut_def)
qed

lemma run_files:
  assumes ok: "archive_ok (db, ar)" and run: "archive_eligible_projects e t i db ar = (r, db', ar')"
    and p: "p \<in> set (taken_projects t db)"
  shows "\<exists>b f k. archived_main b f k p \<in> set (archive_main_projects ar') \<and>
    (\<forall>s \<in> set (sub_projects db). sp_main_project_id s = mp_id p \<longrightarrow>
       (\<exists>k. archived_sub b f k s \<in> set (list_archive_sub_projects_for_main b (mp_id p) ar'))) \<and>
    (\<forall>x \<in> set (list_archive_sub_projects_for_main b (mp_id p) ar').
       \<exists>k. \<exists>s \<in> set (sub_projects db). x = archived_sub b f k s \<and> sp_main_project_id s = mp_id p)"
proof -
  obtain mains subs batch db1 db2 db3 where
    ar': "ar' = \<lparr> archive_batches = archive_batches ar @ [batch],
       archive_main_projects = archive_main_projects ar @ mains,
       archive_sub_projects = archive_sub_projects ar @ subs \<rparr>"
    and mains: "with_new_ids (archived_main (ab_id batch) (acl_finished t)) (taken_projects t db) db1 = (mains, db2)"
    and subs: "with_new_ids (archived_sub (ab_id batch) (acl_finished t)) (taken_subs t db) db2 = (subs, db3)"
    using archive_run_effect [OF run] by (elim exE conjE) (rule that; assumption)
  have rows: "x \<in> set (list_archive_sub_projects_for_main (ab_id batch) (mp_id p) ar') \<longleftrightarrow>
      (x \<in> set (archive_sub_projects ar) \<or> x \<in> set subs) \<and>
      asp_batch_id x = ab_id batch \<and> asp_original_main_project_id x = mp_id p" for x
    by (auto simp: list_archive_sub_projects_for_main_def ar')
  have not_old: "asp_original_main_project_id x \<noteq> mp_id p" if old: "x \<in> set (archive_sub_projects ar)" for x
  proof
    assume main: "asp_original_main_project_id x = mp_id p"
    have sub: "sub_filed (sp_id ` set (sub_projects db)) (next_uuid db) (archive_main_projects ar) x"
      using ok old by (simp add: archive_ok_def)
    then obtain m where "m \<in> set (archive_main_projects ar)" "am_original_id m = mp_id p"
      using main by (auto simp: sub_filed_def)
    then have "mp_id p \<notin> mp_id ` set (main_projects db)" using ok by (auto simp: archive_ok_def main_filed_def)
    then show False using p by (simp add: set_taken(1))
  qed
  have filed: "\<exists>k. archived_sub (ab_id batch) (acl_finished t) k s \<in>
      set (list_archive_sub_projects_for_main (ab_id batch) (mp_id p) ar')"
    if s: "s \<in> set (sub_projects db)" "sp_main_project_id s = mp_id p" for s
  proof -
    have "s \<in> set (taken_subs t db)" using s p by (auto simp: set_taken)
    then obtain k where "archived_sub (ab_id batch) (acl_finished t) k s \<in> set subs"
      using with_new_ids_columns(6) [OF subs] by blast
    then show ?thesis unfolding rows using s(2) by (intro exI [of _ k]) (simp add: archived_sub_def)
  qed
  have origin: "\<exists>k. \<exists>s \<in> set (sub_projects db). x = archived_sub (ab_id batch) (acl_finished t) k s \<and>
      sp_main_project_id s = mp_id p"
    if x: "x \<in> set (list_archive_sub_projects_for_main (ab_id batch) (mp_id p) ar')" for x
  proof -
    have main: "asp_original_main_project_id x = mp_id p" and "x \<in> set subs" using x not_old unfolding rows by blast+
    then obtain k s where "s \<in> set (taken_subs t db)" "x = archived_sub (ab_id batch) (acl_finished t) k s"
      using with_new_ids_columns(5) [OF subs] by blast
    with main show ?thesis by (auto simp: set_taken(2) archived_sub_def)
  qed
  obtain k where "archived_main (ab_id batch) (acl_finished t) k p \<in> set mains"
    using with_new_ids_columns(6) [OF mains p] by blast
  then have "archived_main (ab_id batch) (acl_finished t) k p \<in> set (archive_main_projects ar')" by (simp add: ar')
  then show ?thesis using filed origin by blast
qed

text \<open>
  A restore of the administrator finds them: the row of the project, and exactly the rows of its
  sub projects, whose snapshots can be read.
\<close>

lemma restore_after_run:
  assumes ok: "archive_ok (db, ar)" and ids: "integrity db"
    and run: "archive_eligible_projects e t i db ar = (r, db', ar')" and width: "next_uuid db' \<le> 16 ^ 32"
    and p: "p \<in> set (taken_projects t db)" and sp: "storable_main p"
    and ss: "\<And>s. s \<in> set (sub_projects db) \<Longrightarrow> sp_main_project_id s = mp_id p \<Longrightarrow> storable_sub s"
    and nos: "distinct (map mp_project_no (main_projects db))" "distinct (map sp_project_no (sub_projects db))"
    and admin: "u_role actor = user_role.admin"
  shows "\<exists>a db'' ar'' qs. a \<in> set (archive_main_projects ar') \<and> am_original_id a = mp_id p \<and>
    restore_main_project e' actor (am_id a) db' ar' = Inr (p\<lparr>mp_project_type_id := None\<rparr>, db'', ar'') \<and>
    main_projects db'' = main_projects db' @ [p\<lparr>mp_project_type_id := None\<rparr>] \<and>
    sub_projects db'' = sub_projects db' @ qs \<and>
    set qs = {s\<lparr>sp_workflow_version_id := None\<rparr> | s. s \<in> set (sub_projects db) \<and> sp_main_project_id s = mp_id p}"
proof -
  note hot = run_tables [OF ids run]
  have taken: "mp_id p \<in> mp_id ` set (taken_projects t db)" and row: "p \<in> set (main_projects db)"
    using p by (simp_all add: set_taken)
  obtain b f k where a: "archived_main b f k p \<in> set (archive_main_projects ar')"
    and filed: "\<And>s. s \<in> set (sub_projects db) \<Longrightarrow> sp_main_project_id s = mp_id p \<Longrightarrow>
      \<exists>k. archived_sub b f k s \<in> set (list_archive_sub_projects_for_main b (mp_id p) ar')"
    and origin: "\<And>x. x \<in> set (list_archive_sub_projects_for_main b (mp_id p) ar') \<Longrightarrow>
      \<exists>k. \<exists>s \<in> set (sub_projects db). x = archived_sub b f k s \<and> sp_main_project_id s = mp_id p"
    using run_files [OF ok run p] by blast
  define a where "a = archived_main b f k p"
  have a_fields: "am_batch_id a = b" "am_original_id a = mp_id p" "am_snapshot a = serialize_main p"
    "am_project_no a = mp_project_no p" by (simp_all add: a_def archived_main_def)
  have a_in: "a \<in> set (archive_main_projects ar')" using a by (simp add: a_def)
  have "fresh_ids am_id (archive_main_projects ar') (next_uuid db')"
    using archive_ok_run [OF ok ids run width] by (simp add: archive_ok_def)
  then have found: "find_row am_id (am_id a) (archive_main_projects ar') = Some a"
    by (intro find_row_unique a_in) (simp add: fresh_ids_def)
  have free: "\<not> main_project_no_exists (am_project_no a) db'"
  proof
    assume "main_project_no_exists (am_project_no a) db'"
    then obtain m where m: "m \<in> set (main_projects db)" "mp_id m \<notin> mp_id ` set (taken_projects t db)"
      "mp_project_no m = mp_project_no p" by (auto simp: main_project_no_exists_def hot(1) a_fields)
    have "m = p" by (rule distinct_key_eqD [OF nos(1) m(1) row m(3)])
    then show False using m(2) taken by simp
  qed
  define rows where "rows = list_archive_sub_projects_for_main b (mp_id p) ar'"
  have clash: "sub_project_no_conflicts (map asp_project_no rows) db' = []"
  proof -
    have "no \<notin> set (map asp_project_no rows)"
      if kept: "no \<in> set (map sp_project_no (sub_projects db'))" for no
    proof
      assume "no \<in> set (map asp_project_no rows)"
      then obtain s where s: "s \<in> set (sub_projects db)" "sp_main_project_id s = mp_id p" "sp_project_no s = no"
        by (auto simp: rows_def archived_sub_def dest!: origin)
      obtain s' where s': "s' \<in> set (sub_projects db)" "sp_project_no s' = no"
        "sp_main_project_id s' \<notin> mp_id ` set (taken_projects t db)"
        using kept by (auto simp: hot(2))
      have "s = s'" by (rule distinct_key_eqD [OF nos(2) s(1) s'(1)]) (simp add: s(3) s'(2))
      then show False using s(2) s'(3) taken by simp
    qed
    then show ?thesis unfolding sub_project_no_conflicts_def sort_key_Nil_iff filter_empty_conv by blast
  qed
  define again where "again x = projr (sub_project_from_snapshot (asp_snapshot x))" for x :: archive_sub_project
  have read: "sub_project_from_snapshot (asp_snapshot (archived_sub b f k s)) = Inr (s\<lparr>sp_workflow_version_id := None\<rparr>)"
    if "s \<in> set (sub_projects db)" "sp_main_project_id s = mp_id p" for k s
    using sub_snapshot [OF ss [OF that]] by (simp add: archived_sub_def)
  have again: "\<exists>s \<in> set (sub_projects db). sp_main_project_id s = mp_id p \<and> again x = s\<lparr>sp_workflow_version_id := None\<rparr> \<and>
      sub_project_from_snapshot (asp_snapshot x) = Inr (again x)" if "x \<in> set rows" for x
    using origin [OF that [unfolded rows_def]] read by (auto simp: again_def)
  then have all: "traverse (\<lambda>x. sub_project_from_snapshot (asp_snapshot x)) rows = Inr (map again rows)"
    by (intro traverse_map) blast
  have set_again: "set (map again rows) = {s\<lparr>sp_workflow_version_id := None\<rparr> | s.
      s \<in> set (sub_projects db) \<and> sp_main_project_id s = mp_id p}"
  proof (intro equalityI subsetI)
    fix q assume "q \<in> set (map again rows)"
    then show "q \<in> {s\<lparr>sp_workflow_version_id := None\<rparr> | s.
      s \<in> set (sub_projects db) \<and> sp_main_project_id s = mp_id p}" using again by fastforce
  next
    fix q assume "q \<in> {s\<lparr>sp_workflow_version_id := None\<rparr> | s.
      s \<in> set (sub_projects db) \<and> sp_main_project_id s = mp_id p}"
    then obtain s where s: "q = s\<lparr>sp_workflow_version_id := None\<rparr>" "s \<in> set (sub_projects db)"
      "sp_main_project_id s = mp_id p" by blast
    obtain k where k: "archived_sub b f k s \<in> set rows" using filed [OF s(2,3)] by (auto simp: rows_def)
    have "again (archived_sub b f k s) = q" using read [OF s(2,3)] by (simp add: again_def s(1))
    then show "q \<in> set (map again rows)" using k by force
  qed
  have run2: "\<exists>db'' ar''. restore_main_project e' actor (am_id a) db' ar' =
      Inr (p\<lparr>mp_project_type_id := None\<rparr>, db'', ar'') \<and>
      main_projects db'' = main_projects db' @ [p\<lparr>mp_project_type_id := None\<rparr>] \<and>
      sub_projects db'' = sub_projects db' @ map again rows"
    unfolding restore_main_project_def found present_simps attempt_simps Let_def a_fields(1-3)
      rows_def [symmetric] all main_snapshot [OF sp] clash
    by (simp add: admin free archive_audit_row_keeps)
  show ?thesis using run2 a_in a_fields(2) set_again by blast
qed

subsection \<open>A project that is archived and restored\<close>

definition ended_sub :: sub_project where
  "ended_sub = \<lparr>sp_id = 102, sp_project_no = ''Z-2026-0001-ZX-001'',
     sp_name = ''Pumps'', sp_main_project_id = 100, sp_dept_id = 10, sp_budget = 5000,
     sp_manager_id = 2, sp_creator_id = Some 2, sp_status = sub_project_status.terminated,
     sp_plan_end_date = None, sp_actual_end_date = Some (Date 2026 3 2), sp_spent_amount = 4500,
     sp_remark = None, sp_closed_at = Some 1000, sp_workflow_version_id = None, sp_created_at = 1000,
     sp_updated_at = 1000\<rparr>"

definition world_ended :: database where
  "world_ended = world7\<lparr>sub_projects := [ended_sub]\<rparr>"

lemma run_ended:
  "\<exists>s. terminate_sub_project demo_env the_admin 102 ''stopped'' world7 = Inr (s, world_ended)"
  by (simp add: run_simps world7_def world_ended_def ended_sub_def terminate_sub_project_def
    locked_payment_sub_project_statuses_def)

definition closed_main :: main_project where
  "closed_main = \<lparr>mp_id = 100, mp_project_no = ''Z-2026-0001'',
     mp_name = ''Plant'', mp_dept_id = 10, mp_status = main_project_status.closed,
     mp_total_budget = 100000, mp_expected_finish_date = Date 2026 12 31, mp_spent_amount = 4500,
     mp_remark = None, mp_closed_at = Some 1000, mp_creator_id = Some 1, mp_project_type_id = None,
     mp_created_at = 1000, mp_updated_at = 1000\<rparr>"

definition world_closed :: database where
  "world_closed = world_ended\<lparr>main_projects := [closed_main]\<rparr>"

lemma run_closed:
  "\<exists>p. close_project demo_env the_manager 100 world_ended = Inr (p, world_closed)"
  by (simp add: run_simps world7_def world_ended_def world_closed_def closed_main_def ended_sub_def
    close_project_def count_open_sub_projects_def)

lemma reach_closed: "reachable world_closed"
  using run_ended run_closed reach7 by (meson do_close_project do_terminate_sub_project reachable_step)

definition no_archive :: archive_store where
  "no_archive = \<lparr> archive_batches = [], archive_main_projects = [], archive_sub_projects = [] \<rparr>"

definition two_years_later :: archive_clock where
  "two_years_later = \<lparr> acl_started = 63072000001000, acl_finished = 63072000003000, acl_elapsed_ms = 2 \<rparr>"

lemma demo_taken:
  "taken_projects two_years_later world_closed = [closed_main]"
  "taken_subs two_years_later world_closed = [ended_sub]"
proof -
  show main: "taken_projects two_years_later world_closed = [closed_main]"
    by (simp add: taken_projects_def list_candidate_projects_def is_candidate_def world_closed_def
      world_ended_def closed_main_def ended_sub_def two_years_later_def cutoff_at_def
      archive_retention_days_def has_active_sub_project_def archivable_sub_project_statuses_def)
  show "taken_subs two_years_later world_closed = [ended_sub]"
    unfolding taken_subs_def main
    by (simp add: list_sub_projects_by_main_project_ids_def world_closed_def world_ended_def
      closed_main_def ended_sub_def)
qed


lemma reachable_archiving:
  assumes "reachable db"
  shows "reaches archive_start archiving (db, no_archive)"
  using assms unfolding reachable_def
proof (induction rule: reaches.induct)
  case (reaches_init s)
  then show ?case by (intro reaches.intros(1)) (simp add: archive_start_def no_archive_def)
next
  case (reaches_move s s')
  then show ?case by (blast intro: reaches.intros(2) do_step)
qed

lemma archiving_reaches: "reaches archive_start archiving s \<Longrightarrow> reaches archive_start archive_move s"
  by (induction rule: reaches.induct) (blast intro: reaches.intros do_archive)+

definition demo_run :: "archive_run_result \<times> database \<times> archive_store" where
  "demo_run = archive_eligible_projects demo_env two_years_later (Some 0) world_closed no_archive"

definition world_archived :: database where
  "world_archived = fst (snd demo_run)"

definition store_archived :: archive_store where
  "store_archived = snd (snd demo_run)"

lemma demo_runs:
  "archive_eligible_projects demo_env two_years_later (Some 0) world_closed no_archive =
     (fst demo_run, world_archived, store_archived)"
  by (simp add: demo_run_def world_archived_def store_archived_def)

lemma demo_archived:
  "next_uuid world_archived = 124" "main_projects world_archived = []" "sub_projects world_archived = []"
proof -
  have ok: "integrity world_closed" using reach_closed by (rule reachable_integrity)
  have n: "next_uuid world_closed = 120" by (simp add: world_closed_def world_ended_def world7_def)
  from archive_run_effect [OF demo_runs, unfolded demo_taken n] obtain log where
    db: "world_archived = (delete_project_graph [100] (world_closed\<lparr>next_uuid := 124\<rparr>))\<lparr>audit_log := log\<rparr>"
    by (auto simp: closed_main_def)
  note tables = delete_project_graph_tables [OF integrity_supply [OF ok], of 124 "[100]"]
  show "next_uuid world_archived = 124" "main_projects world_archived = []" "sub_projects world_archived = []"
    using tables(1,2,6)
    by (simp_all add: db n) (simp_all add: world_closed_def closed_main_def world_ended_def ended_sub_def)
qed

lemma reach_archived: "reaches archive_start archiving (world_archived, store_archived)"
  by (rule reaches.intros(2) [OF reachable_archiving [OF reach_closed] do_run [OF demo_runs]])
    (simp add: demo_archived)


subsection \<open>What a run takes\<close>

text \<open>The main projects a run is to take.\<close>

definition long_closed :: "datetime \<Rightarrow> database \<Rightarrow> main_project set" where
  "long_closed now db = {m \<in> set (main_projects db). mp_status m = main_project_status.closed \<and>
     (\<exists>c. mp_closed_at m = Some c \<and> c \<le> now - 730 * 86400000000) \<and>
     (\<forall>s \<in> set (sub_projects db). sp_main_project_id s = mp_id m \<longrightarrow>
        sp_status s \<in> {sub_project_status.closed, sub_project_status.terminated})}"

lemma long_closed_taken: "long_closed (acl_started t) db = set (taken_projects t db)"
  by (auto simp: long_closed_def set_taken is_candidate_def cutoff_at_def archive_retention_days_def
    has_active_sub_project_def archivable_sub_project_statuses_def)

text \<open>
  C17: An archive run takes exactly the main projects that were closed at least 730 days ago and
  whose sub projects are all closed or terminated.  Each gets one archive row, it leaves the
  main table with all its sub projects, the others stay as they are, no payment, phase or
  member of a sub project that left remains, those of the others are untouched, and the counts
  in the result are right.
\<close>

theorem archive_runs_take_closed_projects:
  assumes "reaches archive_start archive_move (db, ar)"
    and "archive_eligible_projects e t actor_id db ar = (r, db', ar')"
  defines "old \<equiv> long_closed (acl_started t) db"
  defines "gone \<equiv> {sp_id s | s. s \<in> set (sub_projects db) \<and> sp_main_project_id s \<in> mp_id ` old}"
  shows "main_projects db' = filter (\<lambda>m. m \<notin> old) (main_projects db) \<and>
    sub_projects db' = filter (\<lambda>s. sp_main_project_id s \<notin> mp_id ` old) (sub_projects db) \<and>
    payments db' = filter (\<lambda>p. pay_sub_project_id p \<notin> gone) (payments db) \<and>
    phases db' = filter (\<lambda>p. ph_sub_project_id p \<notin> gone) (phases db) \<and>
    members db' = filter (\<lambda>m. mem_sub_project_id m \<notin> gone) (members db) \<and>
    (\<exists>new. archive_main_projects ar' = archive_main_projects ar @ new \<and>
       distinct (map am_original_id new) \<and> am_original_id ` set new = mp_id ` old) \<and>
    (\<exists>new. archive_sub_projects ar' = archive_sub_projects ar @ new \<and>
       distinct (map asp_original_id new) \<and> asp_original_id ` set new = gone) \<and>
    arr_archived_main_project_count r = int (card old) \<and>
    arr_archived_sub_project_count r = int (card gone) \<and>
    arr_main_projects_before r - arr_main_projects_after r = arr_archived_main_project_count r"
proof -
  have ids: "integrity db" using filing.reachable_inv [OF assms(1)] by simp
  define cut where "cut = map mp_id (taken_projects t db)"
  define n where "n = next_uuid db + 2 + length (taken_projects t db) + length (taken_subs t db)"
  have n: "next_uuid db \<le> n" by (simp add: n_def)
  obtain log mains subs batch where
    db': "db' = (delete_project_graph cut (db\<lparr>next_uuid := n\<rparr>))\<lparr>audit_log := log\<rparr>"
    and ar': "ar' = \<lparr> archive_batches = archive_batches ar @ [batch],
       archive_main_projects = archive_main_projects ar @ mains,
       archive_sub_projects = archive_sub_projects ar @ subs \<rparr>"
    and mains: "with_new_ids (archived_main (ab_id batch) (acl_finished t)) (taken_projects t db)
      (db\<lparr>next_uuid := next_uuid db + 2\<rparr>) =
      (mains, db\<lparr>next_uuid := next_uuid db + 2 + length (taken_projects t db)\<rparr>)"
    and subs: "with_new_ids (archived_sub (ab_id batch) (acl_finished t)) (taken_subs t db)
      (db\<lparr>next_uuid := next_uuid db + 2 + length (taken_projects t db)\<rparr>) = (subs, db\<lparr>next_uuid := n\<rparr>)"
    and counts: "arr_archived_main_project_count r = int (length (taken_projects t db))"
      "arr_archived_sub_project_count r = int (length (taken_subs t db))"
      "arr_main_projects_before r = int (length (main_projects db))"
      "arr_main_projects_after r = int (length (main_projects db'))"
    using archive_run_effect [OF assms(2), folded n_def cut_def] by (elim exE conjE) (rule that; assumption)
  note tables = delete_project_graph_tables [OF integrity_supply [OF ids n], of cut]
  have distinct: "distinct (map mp_id (main_projects db))" "distinct (map sp_id (sub_projects db))"
    using ids by (simp_all add: integrity_def fresh_ids_def)
  have old: "mp_id ` old = set cut" "old = set (taken_projects t db)"
    by (simp_all add: old_def long_closed_taken cut_def)
  have gone: "graph_subs cut (db\<lparr>next_uuid := n\<rparr>) = gone" by (auto simp: graph_subs_def gone_def old(1))
  have in_old: "m \<in> old \<longleftrightarrow> mp_id m \<in> set cut" if m: "m \<in> set (main_projects db)" for m
    using distinct_key_eqD [OF distinct(1) _ m] m unfolding old(1) [symmetric] by (auto simp: old(2) set_taken)
  have taken: "gone = sp_id ` set (taken_subs t db)"
    unfolding gone_def old(1) set_taken(2) cut_def by auto
  have kept: "main_projects db' = filter (\<lambda>m. m \<notin> old) (main_projects db)"
    using tables(1) in_old by (auto simp: db' intro: filter_cong)
  have new_ids: "map am_original_id mains = cut" "map asp_original_id subs = map sp_id (taken_subs t db)"
    using with_new_ids_columns(3) [OF mains, of am_original_id mp_id]
      with_new_ids_columns(3) [OF subs, of asp_original_id sp_id]
    by (simp_all add: cut_def archived_main_def archived_sub_def)
  have card: "card old = length (taken_projects t db)" "card gone = length (taken_subs t db)"
    using distinct_taken(1) [OF distinct(1), of t] distinct_taken(2) [OF distinct(2), of t]
    unfolding old(2) taken by (simp_all add: distinct_map distinct_card card_image)
  have "length (filter (\<lambda>m. m \<in> old) (main_projects db)) = card old"
    unfolding old(2) taken_projects_def list_candidate_projects_def card(1) [unfolded old(2)]
    using distinct(1) by (simp add: distinct_map distinct_card [symmetric])
  then have left_over: "arr_main_projects_before r - arr_main_projects_after r = arr_archived_main_project_count r"
    using sum_length_filter_compl [of "\<lambda>m. m \<in> old" "main_projects db"] counts card by (simp add: kept)
  have hot: "sub_projects db' = filter (\<lambda>s. sp_main_project_id s \<notin> mp_id ` old) (sub_projects db)"
    "payments db' = filter (\<lambda>p. pay_sub_project_id p \<notin> gone) (payments db)"
    "phases db' = filter (\<lambda>p. ph_sub_project_id p \<notin> gone) (phases db)"
    "members db' = filter (\<lambda>m. mem_sub_project_id m \<notin> gone) (members db)"
    using tables(2-5) by (simp_all add: db' gone old(1))
  have "am_original_id ` set mains = mp_id ` old" "asp_original_id ` set subs = gone"
    using arg_cong [OF new_ids(1), of set] arg_cong [OF new_ids(2), of set] by (simp_all add: old(1) taken)
  moreover have "distinct (map am_original_id mains)" "distinct (map asp_original_id subs)"
    unfolding new_ids cut_def by (rule distinct_taken(1) [OF distinct(1)], rule distinct_taken(2) [OF distinct(2)])
  ultimately have "\<exists>new. archive_main_projects ar' = archive_main_projects ar @ new \<and>
       distinct (map am_original_id new) \<and> am_original_id ` set new = mp_id ` old"
    "\<exists>new. archive_sub_projects ar' = archive_sub_projects ar @ new \<and>
       distinct (map asp_original_id new) \<and> asp_original_id ` set new = gone"
    by (simp_all add: ar')
  then show ?thesis
    using kept hot left_over by (intro conjI) (simp_all only: counts card)
qed


theorem archive_runs_take_closed_projects_witness:
  "main_projects world_archived = filter (\<lambda>m. m \<notin> long_closed 63072000001000 world_closed) [closed_main] \<and>
     arr_archived_main_project_count (fst demo_run) = 1"
proof -
  have started: "acl_started two_years_later = 63072000001000" by (simp add: two_years_later_def)
  have one: "card (long_closed 63072000001000 world_closed) = 1"
    using long_closed_taken [of two_years_later world_closed] by (simp add: demo_taken started)
  have mains: "main_projects world_closed = [closed_main]" by (simp add: world_closed_def)
  show ?thesis
    using archive_runs_take_closed_projects [OF archiving_reaches [OF reachable_archiving [OF reach_closed]]
        demo_runs, unfolded started one mains] by simp
qed

subsection \<open>What stays true\<close>

text \<open>
  C3: The database keeps its rules when projects are archived, in any order with all other
  moves: the spent amount of every sub project is the sum of its payments and that of every main
  project the sum over its sub projects, payment numbers are distinct in a sub project, each
  payment, phase and sub project belongs to a row that is there, a closed sub project has exactly
  six phases, all completed, closed main projects have ended sub projects, and the manager of a
  sub project is one of its members.
\<close>

theorem archiving_keeps_the_rules:
  assumes "reaches archive_start archiving (db, ar)"
  shows "(\<forall>s \<in> set (sub_projects db). sp_spent_amount s = payment_total (sp_id s) db) \<and>
    (\<forall>m \<in> set (main_projects db). mp_spent_amount m = sub_spent_total (mp_id m) db) \<and>
    (\<forall>sid. distinct (map pay_payment_no (filter (\<lambda>p. pay_sub_project_id p = sid) (payments db)))) \<and>
    (\<forall>p \<in> set (payments db). \<exists>s \<in> set (sub_projects db). sp_id s = pay_sub_project_id p) \<and>
    (\<forall>p \<in> set (phases db). \<exists>s \<in> set (sub_projects db). sp_id s = ph_sub_project_id p) \<and>
    (\<forall>s \<in> set (sub_projects db). \<exists>m \<in> set (main_projects db). mp_id m = sp_main_project_id s) \<and>
    (\<forall>s \<in> set (sub_projects db). sp_status s = sub_project_status.closed \<longrightarrow>
       length (filter (\<lambda>p. ph_sub_project_id p = sp_id s) (phases db)) = 6 \<and>
       (\<forall>p \<in> set (phases db). ph_sub_project_id p = sp_id s \<longrightarrow> ph_status p = phase_status.completed)) \<and>
    (\<forall>s \<in> set (sub_projects db). \<forall>m \<in> set (main_projects db). mp_id m = sp_main_project_id s \<longrightarrow>
       mp_status m = main_project_status.closed \<longrightarrow>
       sp_status s \<in> {sub_project_status.completed, sub_project_status.closed, sub_project_status.terminated}) \<and>
    (\<forall>s \<in> set (sub_projects db). \<exists>m \<in> set (members db). mem_sub_project_id m = sp_id s \<and>
       mem_user_id m = sp_manager_id s)"
proof -
  have "hot_ok db" using hot.reachable_inv [OF assms] by simp
  then have ok: "integrity db" "balanced db" "payment_nos_distinct db" "teams_ok db" "lifecycle_ok db"
    "closure_ok db" by (simp_all add: hot_ok_def)
  have refs: "sp_main_project_id ` set (sub_projects db) \<subseteq> mp_id ` set (main_projects db)"
    "ph_sub_project_id ` set (phases db) \<subseteq> sp_id ` set (sub_projects db)"
    "pay_sub_project_id ` set (payments db) \<subseteq> sp_id ` set (sub_projects db)"
    using ok(1) by (simp_all add: integrity_def)
  have life: "settled (sp_status s) (own_phases (sp_id s) (phases db))" if "s \<in> set (sub_projects db)" for s
    using ok(5) that by (simp add: lifecycle_ok_def)
  have led: "leads (team_row s) (members db)" if "s \<in> set (sub_projects db)" for s
    using ok(4) that by (simp add: teams_ok_def roster_ok_def)
  show ?thesis
  proof (intro conjI ballI allI impI)
    fix s m assume "s \<in> set (sub_projects db)" "m \<in> set (main_projects db)" "mp_id m = sp_main_project_id s"
      "mp_status m = main_project_status.closed"
    then show "sp_status s \<in> {sub_project_status.completed, sub_project_status.closed, sub_project_status.terminated}"
      using ok(6) unfolding closure_ok_def closed_ids_def ended_def by force
  next
    fix s assume s: "s \<in> set (sub_projects db)"
    show "\<exists>m \<in> set (members db). mem_sub_project_id m = sp_id s \<and> mem_user_id m = sp_manager_id s"
      using led [OF s] by (auto simp: leads_def team_row_def member_key_def)
    show "\<exists>m \<in> set (main_projects db). mp_id m = sp_main_project_id s" using refs(1) s by force
    assume closed: "sp_status s = sub_project_status.closed"
    show "length (filter (\<lambda>p. ph_sub_project_id p = sp_id s) (phases db)) = 6"
      using life [OF s] closed by (simp add: settled_def own_phases_def)
    fix p assume "p \<in> set (phases db)" "ph_sub_project_id p = sp_id s"
    then show "ph_status p = phase_status.completed"
      using life [OF s] closed by (auto simp: settled_def own_phases_def)
  next
    fix p assume "p \<in> set (payments db)"
    then show "\<exists>s \<in> set (sub_projects db). sp_id s = pay_sub_project_id p" using refs(3) by force
  next
    fix p assume "p \<in> set (phases db)"
    then show "\<exists>s \<in> set (sub_projects db). sp_id s = ph_sub_project_id p" using refs(2) by force
  next
    fix sid show "distinct (map pay_payment_no (filter (\<lambda>p. pay_sub_project_id p = sid) (payments db)))"
      using ok(3) by (simp add: payment_nos_distinct_def payment_nos_def)
  qed (use ok(2) in \<open>simp_all add: balanced_def\<close>)
qed

theorem archiving_keeps_the_rules_witness:
  "sp_spent_amount ended_sub = payment_total (sp_id ended_sub) world_closed \<and>
     distinct (map pay_payment_no (filter (\<lambda>p. pay_sub_project_id p = 102) (payments world_archived)))"
proof
  have "\<forall>s \<in> set (sub_projects world_closed). sp_spent_amount s = payment_total (sp_id s) world_closed"
    using archiving_keeps_the_rules [OF reachable_archiving [OF reach_closed]] by (elim conjE)
  moreover have "ended_sub \<in> set (sub_projects world_closed)" by (simp add: world_closed_def world_ended_def)
  ultimately show "sp_spent_amount ended_sub = payment_total (sp_id ended_sub) world_closed" by (rule bspec)
  show "distinct (map pay_payment_no (filter (\<lambda>p. pay_sub_project_id p = 102) (payments world_archived)))"
    using archiving_keeps_the_rules [OF reach_archived] by (elim conjE) (rule spec)
qed

text \<open>
  C20: Every project is in one place, whatever is archived and restored: no main project and no
  sub project is in its table and in the archive, or twice in either; every archived sub project
  is found with the archived main project of its batch; and every sub project in the database
  has its main project there.
\<close>

theorem every_project_is_in_one_place:
  assumes "reaches archive_start archive_move (db, ar)"
  shows "distinct (map mp_id (main_projects db) @ map am_original_id (archive_main_projects ar)) \<and>
    distinct (map sp_id (sub_projects db) @ map asp_original_id (archive_sub_projects ar)) \<and>
    (\<forall>s \<in> set (archive_sub_projects ar). \<exists>m \<in> set (archive_main_projects ar).
       am_batch_id m = asp_batch_id s \<and> am_original_id m = asp_original_main_project_id s) \<and>
    (\<forall>s \<in> set (sub_projects db). \<exists>m \<in> set (main_projects db). mp_id m = sp_main_project_id s)"
proof -
  have ok: "archive_ok (db, ar)" and ids: "integrity db" using filing.reachable_inv [OF assms] by simp_all
  have main: "\<And>a. a \<in> set (archive_main_projects ar) \<Longrightarrow> am_original_id a \<notin> mp_id ` set (main_projects db)"
    and sub: "\<And>a. a \<in> set (archive_sub_projects ar) \<Longrightarrow> asp_original_id a \<notin> sp_id ` set (sub_projects db) \<and>
      (\<exists>m \<in> set (archive_main_projects ar). am_batch_id m = asp_batch_id a \<and>
         am_original_id m = asp_original_main_project_id a)"
    and distinct: "distinct (map am_original_id (archive_main_projects ar))"
      "distinct (map asp_original_id (archive_sub_projects ar))"
    using ok by (auto simp: archive_ok_def main_filed_def sub_filed_def)
  have hot: "distinct (map mp_id (main_projects db))" "distinct (map sp_id (sub_projects db))"
    "sp_main_project_id ` set (sub_projects db) \<subseteq> mp_id ` set (main_projects db)"
    using ids by (simp_all add: integrity_def fresh_ids_def)
  have apart: "mp_id ` set (main_projects db) \<inter> am_original_id ` set (archive_main_projects ar) = {}"
    "sp_id ` set (sub_projects db) \<inter> asp_original_id ` set (archive_sub_projects ar) = {}"
  proof -
    have "\<forall>k \<in> am_original_id ` set (archive_main_projects ar). k \<notin> mp_id ` set (main_projects db)"
      unfolding ball_simps(9) using main by blast
    then show "mp_id ` set (main_projects db) \<inter> am_original_id ` set (archive_main_projects ar) = {}" by blast
    have "\<forall>k \<in> asp_original_id ` set (archive_sub_projects ar). k \<notin> sp_id ` set (sub_projects db)"
      unfolding ball_simps(9) using sub by blast
    then show "sp_id ` set (sub_projects db) \<inter> asp_original_id ` set (archive_sub_projects ar) = {}" by blast
  qed
  show ?thesis
  proof (intro conjI ballI)
    show "distinct (map mp_id (main_projects db) @ map am_original_id (archive_main_projects ar))"
      "distinct (map sp_id (sub_projects db) @ map asp_original_id (archive_sub_projects ar))"
      unfolding distinct_append set_map using hot(1,2) distinct apart by blast+
    show "\<exists>m \<in> set (archive_main_projects ar). am_batch_id m = asp_batch_id s \<and>
        am_original_id m = asp_original_main_project_id s" if "s \<in> set (archive_sub_projects ar)" for s
      using sub [OF that] by (rule conjunct2)
    show "\<exists>m \<in> set (main_projects db). mp_id m = sp_main_project_id s" if "s \<in> set (sub_projects db)" for s
    proof -
      have "sp_main_project_id s \<in> mp_id ` set (main_projects db)" using hot(3) that by blast
      then show ?thesis by force
    qed
  qed
qed

theorem every_project_is_in_one_place_witness:
  "distinct (map mp_id (main_projects world_archived) @ map am_original_id (archive_main_projects store_archived))"
  using every_project_is_in_one_place [OF archiving_reaches [OF reach_archived]] by (elim conjE)

subsection \<open>What a restore brings back\<close>

lemma snapshot_losses:
  "main_project_from_snapshot t = Inr p \<Longrightarrow> mp_project_type_id p = None"
  "sub_project_from_snapshot t = Inr q \<Longrightarrow> sp_workflow_version_id q = None"
  unfolding main_project_from_snapshot_def sub_project_from_snapshot_def by (auto elim!: attempt_InrE)

text \<open>
  C16: What an archive run takes can be restored.  With rows the database can hold and the unique
  project numbers it demands, the archive has a row for each main project of the run, whose
  restore by an administrator succeeds and brings back the main project and exactly its sub
  projects, in every column but the project type and the workflow version.
\<close>

theorem archived_projects_come_back:
  assumes "reaches archive_start archive_move (db, ar)"
    and "archive_eligible_projects e t i db ar = (r, db', ar')" and "next_uuid db' \<le> 16 ^ 32"
    and "p \<in> long_closed (acl_started t) db" and "storable_main p"
    and "\<forall>s \<in> set (sub_projects db). sp_main_project_id s = mp_id p \<longrightarrow> storable_sub s"
    and "distinct (map mp_project_no (main_projects db))" and "distinct (map sp_project_no (sub_projects db))"
    and "u_role actor = user_role.admin"
  shows "\<exists>a db'' ar'' qs. a \<in> set (archive_main_projects ar') \<and> am_original_id a = mp_id p \<and>
    restore_main_project e' actor (am_id a) db' ar' = Inr (p\<lparr>mp_project_type_id := None\<rparr>, db'', ar'') \<and>
    main_projects db'' = main_projects db' @ [p\<lparr>mp_project_type_id := None\<rparr>] \<and>
    sub_projects db'' = sub_projects db' @ qs \<and>
    set qs = {s\<lparr>sp_workflow_version_id := None\<rparr> | s. s \<in> set (sub_projects db) \<and> sp_main_project_id s = mp_id p}"
proof -
  have "archive_ok (db, ar)" and "integrity db" using filing.reachable_inv [OF assms(1)] by simp_all
  moreover have "p \<in> set (taken_projects t db)" using assms(4) by (simp add: long_closed_taken)
  ultimately show ?thesis using assms(2,3,5-9) by (intro restore_after_run) blast+
qed

lemma demo_storable: "storable_main closed_main" "storable_sub ended_sub"
  by (simp_all add: storable_main_def storable_sub_def closed_main_def ended_sub_def python_date_def
    python_instant_def valid_date_def days_in_month_def)

lemma closed_tables: "main_projects world_closed = [closed_main]" "sub_projects world_closed = [ended_sub]"
  by (simp_all add: world_closed_def world_ended_def)

theorem archived_projects_come_back_witness:
  "\<exists>k db' ar'. restore_main_project demo_env the_admin k world_archived store_archived =
     Inr (closed_main, db', ar') \<and> main_projects db' = [closed_main] \<and> set (sub_projects db') = {ended_sub}"
proof -
  have width: "next_uuid world_archived \<le> 16 ^ 32" by (simp add: demo_archived)
  have old: "closed_main \<in> long_closed (acl_started two_years_later) world_closed"
    by (simp add: long_closed_taken demo_taken)
  have same: "closed_main\<lparr>mp_project_type_id := None\<rparr> = closed_main"
    "ended_sub\<lparr>sp_workflow_version_id := None\<rparr> = ended_sub" by (simp_all add: closed_main_def ended_sub_def)
  have main: "sp_main_project_id ended_sub = mp_id closed_main" by (simp add: closed_main_def ended_sub_def)
  have admin: "u_role the_admin = user_role.admin" by (simp add: the_admin_def staff_def)
  obtain k db' ar' where "restore_main_project demo_env the_admin k world_archived store_archived =
      Inr (closed_main, db', ar')" "main_projects db' = [closed_main]"
    "set (sub_projects db') = {ended_sub}"
    using archived_projects_come_back [OF archiving_reaches [OF reachable_archiving [OF reach_closed]]
      demo_runs width old demo_storable(1) _ _ _ admin, of demo_env]
    unfolding closed_tables same demo_archived append_Nil by (auto simp: demo_storable(2) main same)
  then show ?thesis by blast
qed

lemma demo_restored:
  "\<exists>k db' ar'. restore_main_project demo_env the_admin k world_archived store_archived =
     Inr (closed_main, db', ar') \<and> set (sub_projects db') = {ended_sub}"
proof -
  have width: "next_uuid world_archived \<le> 16 ^ 32" by (simp add: demo_archived)
  have taken: "closed_main \<in> set (taken_projects two_years_later world_closed)" by (simp add: demo_taken)
  have admin: "u_role the_admin = user_role.admin" by (simp add: the_admin_def staff_def)
  have same: "closed_main\<lparr>mp_project_type_id := None\<rparr> = closed_main"
    "ended_sub\<lparr>sp_workflow_version_id := None\<rparr> = ended_sub" by (simp_all add: closed_main_def ended_sub_def)
  have main: "sp_main_project_id ended_sub = mp_id closed_main" by (simp add: closed_main_def ended_sub_def)
  have "archive_ok (world_closed, no_archive)" "integrity world_closed"
    using filing.reachable_inv [OF archiving_reaches [OF reachable_archiving [OF reach_closed]]] by simp_all
  then obtain k db' ar' where "restore_main_project demo_env the_admin k world_archived store_archived =
      Inr (closed_main, db', ar')" "set (sub_projects db') = {ended_sub}"
    using restore_after_run [OF _ _ demo_runs width taken demo_storable(1) _ _ _ admin, of demo_env]
    unfolding closed_tables same demo_archived append_Nil by (auto simp: demo_storable(2) main same)
  then show ?thesis by blast
qed

text \<open>
  C21: A restore gives back less than was archived.  The sub projects it brings back have no
  payments and no phases, because a run deletes these without archiving them, and the columns
  for the project type and the workflow version are empty; so whenever a restored sub project
  had spent anything, the books no longer balance.
\<close>

theorem restored_projects_are_hollow:
  assumes "reaches archive_start archive_move (db, ar)"
    and "restore_main_project e actor k db ar = Inr (p, db', ar')"
  shows "\<exists>qs. main_projects db' = main_projects db @ [p] \<and> sub_projects db' = sub_projects db @ qs \<and>
    (\<forall>q \<in> set qs. sp_main_project_id q = mp_id p \<and> payment_total (sp_id q) db' = 0 \<and>
       (\<forall>x \<in> set (payments db'). pay_sub_project_id x \<noteq> sp_id q) \<and>
       (\<forall>x \<in> set (phases db'). ph_sub_project_id x \<noteq> sp_id q) \<and> sp_workflow_version_id q = None) \<and>
    mp_project_type_id p = None \<and>
    ((\<exists>q \<in> set qs. sp_spent_amount q \<noteq> 0) \<longrightarrow>
       \<not> (\<forall>s \<in> set (sub_projects db'). sp_spent_amount s = payment_total (sp_id s) db'))"
proof -
  have ok: "archive_ok (db, ar)" and ids: "integrity db" using filing.reachable_inv [OF assms(1)] by simp_all
  obtain a qs log where a: "a \<in> set (archive_main_projects ar)"
    and p: "main_project_from_snapshot (am_snapshot a) = Inr p"
    and qs: "list_all2 (\<lambda>s q. sub_project_from_snapshot (asp_snapshot s) = Inr q)
      (list_archive_sub_projects_for_main (am_batch_id a) (am_original_id a) ar) qs"
    and db': "db' = db\<lparr>main_projects := main_projects db @ [p], sub_projects := sub_projects db @ qs,
      audit_log := log\<rparr>"
    using restore_effect [OF assms(2)] by (elim exE conjE) (rule that; assumption)
  let ?ss = "list_archive_sub_projects_for_main (am_batch_id a) (am_original_id a) ar"
  have ss: "s \<in> set (archive_sub_projects ar) \<and> asp_original_main_project_id s = am_original_id a"
    if "s \<in> set ?ss" for s
    using that by (auto simp: list_archive_sub_projects_for_main_def)
  note again = restored_ids [OF ok a p qs ss]
  have new: "sp_id q \<notin> sp_id ` set (sub_projects db)" if q: "q \<in> set qs" for q
  proof -
    have "sp_id q \<in> set (map sp_id qs)" using q by simp
    then have "sp_id q \<in> set (map asp_original_id ?ss)" by (simp only: again(2))
    then obtain s where "s \<in> set ?ss" "sp_id q = asp_original_id s" by auto
    then show ?thesis using ok ss by (auto simp: archive_ok_def sub_filed_def)
  qed
  have keys: "pay_sub_project_id ` set (payments db) \<subseteq> sp_id ` set (sub_projects db)"
    "ph_sub_project_id ` set (phases db) \<subseteq> sp_id ` set (sub_projects db)"
    using ids by (simp_all add: integrity_def)
  have pays: "\<forall>x \<in> set (payments db). pay_sub_project_id x \<noteq> sp_id q" if "q \<in> set qs" for q
    using new [OF that] subsetD [OF keys(1) imageI] by metis
  have rests: "\<forall>x \<in> set (phases db). ph_sub_project_id x \<noteq> sp_id q" if "q \<in> set qs" for q
    using new [OF that] subsetD [OF keys(2) imageI] by metis
  have zero: "payment_total (sp_id q) db' = 0" if "q \<in> set qs" for q
    using pays [OF that] by (simp add: payment_total_def db' filter_empty_conv)
  have lost: "sp_workflow_version_id q = None" if q: "q \<in> set qs" for q
  proof -
    obtain i where i: "i < length qs" "qs ! i = q" using q by (auto simp: in_set_conv_nth)
    show ?thesis using list_all2_nthD2 [OF qs i(1)] unfolding i(2) by (rule snapshot_losses)
  qed
  have type: "mp_project_type_id p = None" using p by (rule snapshot_losses)
  have tables: "main_projects db' = main_projects db @ [p]" "sub_projects db' = sub_projects db @ qs"
    "payments db' = payments db" "phases db' = phases db" by (simp_all add: db')
  have broken: "\<not> (\<forall>s \<in> set (sub_projects db'). sp_spent_amount s = payment_total (sp_id s) db')"
    if spent: "\<exists>q \<in> set qs. sp_spent_amount q \<noteq> 0"
  proof -
    from spent obtain q where "q \<in> set qs" "sp_spent_amount q \<noteq> 0" by blast
    then show ?thesis using zero [of q] unfolding tables(2) by (metis UnCI set_append)
  qed
  show ?thesis
  proof (rule exI [of _ qs], intro conjI ballI impI)
    show "\<And>q x. q \<in> set qs \<Longrightarrow> x \<in> set (payments db') \<Longrightarrow> pay_sub_project_id x \<noteq> sp_id q"
      "\<And>q x. q \<in> set qs \<Longrightarrow> x \<in> set (phases db') \<Longrightarrow> ph_sub_project_id x \<noteq> sp_id q"
      using pays rests unfolding tables by blast+
    show "\<And>q. q \<in> set qs \<Longrightarrow> sp_main_project_id q = mp_id p" using again(3) by blast
  qed (fact tables(1) tables(2) zero lost type broken)+
qed

text \<open>The sub project of the example comes back with 4500 cents spent and no payment.\<close>

theorem restored_projects_are_hollow_witness:
  "\<exists>k db' ar'. restore_main_project demo_env the_admin k world_archived store_archived = Inr (closed_main, db', ar') \<and>
     (\<exists>s \<in> set (sub_projects db'). sp_spent_amount s \<noteq> payment_total (sp_id s) db')"
proof -
  obtain k db' ar' where restored: "restore_main_project demo_env the_admin k world_archived store_archived =
      Inr (closed_main, db', ar')" and subs: "set (sub_projects db') = {ended_sub}"
    using demo_restored by blast
  obtain qs where qs: "sub_projects db' = qs" and broken: "(\<exists>q \<in> set qs. sp_spent_amount q \<noteq> 0) \<longrightarrow>
      \<not> (\<forall>s \<in> set (sub_projects db'). sp_spent_amount s = payment_total (sp_id s) db')"
    using restored_projects_are_hollow [OF archiving_reaches [OF reach_archived] restored]
    unfolding demo_archived(3) append_Nil by blast
  have "sp_spent_amount ended_sub \<noteq> 0" by (simp add: ended_sub_def)
  then have "\<exists>q \<in> set qs. sp_spent_amount q \<noteq> 0" using subs unfolding qs by blast
  then show ?thesis using restored broken by blast
qed

end
