(* ===== verification/Spec2Isabelle.thy ===== *)
theory Spec2Isabelle
  imports Contracts Foundations Publication Teams Lifecycle Revocations TaskBoard DocumentGroups Closure
    Messaging Reports ReportRuns AccountSafety Imports ArchiveSafety
begin

text \<open>
  ProjectLifecycle-Manager: a verification library for the Python backend under
  \<open>src/backend/app\<close>.

  \<^bold>\<open>The program.\<close>  The backend keeps the books and the paper trail of projects.  A main project
  with a budget is submitted and reviewed, sub projects are created below it, and each approved
  sub project gets the phases of a published workflow version.  Phases collect documents, phase 4
  has acceptance steps, phase 5 payments with vouchers, and a phase is promoted when its
  conditions hold; a revoke request reopens one.  Tasks have executors with deadlines that a
  daily scan checks.  Handover requests move sub projects to another leader.  Every change
  notifies its receivers over several channels with retries, some raise webhook events, and
  saved reports run on schedules.  The services are classes over a repository (SQLAlchemy, or
  lists in memory); the API layer calls one service method per request and turns exceptions
  into responses.

  \<^bold>\<open>How it is modelled.\<close>  A table is the list of its rows (\<open>row_store\<close> in \<open>Prelude\<close>), the
  database the record of its tables (\<open>Database\<close>), a row the record of its columns, with a prefix
  for its table.  The repositories are modelled after the in-memory ones of the services; where
  these are simplified, after the query of the SQLAlchemy ones.  A service method is a function
  \<open>environment \<Rightarrow> actor \<Rightarrow> arguments \<Rightarrow> state \<Rightarrow> py_error + result \<times> state\<close>: \<open>Inl\<close> is the
  raised exception and, since the request is then rolled back, no new state; methods that commit
  before they raise return the state beside the result.  The guards come in the order of the
  code, so the first exception raised is the one of the code.  Identifiers (\<open>uuid4()\<close>) are drawn
  from a counter in the state; instants are microseconds, amounts of money cents, dates the
  calendar triple.  Messages that are Chinese in the source are given in English.

  \<^bold>\<open>The theories.\<close>
  \<^item> \<open>Prelude\<close> (results, rows, slices, sorting), \<open>PyText\<close> (\<open>strip\<close>, \<open>int\<close>, number formats),
    \<open>PyValues\<close> (dates, \<open>Decimal\<close> to cents, exceptions of \<open>core/exceptions.py\<close>), \<open>Calendar\<close>
    (ordinals, ISO texts), \<open>Transition\<close> (state machines, invariants), \<open>Retries\<close> (the contract of
    a retried delivery).
  \<^item> \<open>Domain\<close> (\<open>models/*.py\<close>), \<open>Database\<close> (tables, audit log, shared queries), \<open>FileStore\<close>
    (\<open>storage/local.py\<close>, \<open>validators/file_validator.py\<close>), \<open>Permissions\<close>
    (\<open>core/permissions.py\<close>, \<open>services/role_permissions.py\<close>), \<open>Notifications\<close>
    (\<open>services/notifications.py\<close>, \<open>notification_channels.py\<close>).
  \<^item> The services of the same names: \<open>MainProjects\<close>, \<open>SubProjects\<close>, \<open>Phases\<close>,
    \<open>AcceptanceSteps\<close>, \<open>Payments\<close>, \<open>Documents\<close>, \<open>RevokeRequests\<close>, \<open>HandoverRequests\<close>,
    \<open>Tasks\<close>, \<open>TaskDeadlines\<close>, \<open>Workflows\<close>, \<open>ProjectImports\<close>.
  \<^item> \<open>System\<close>: the backend as a state machine, one rule per state-changing operation.  Over it
    \<open>Integrity\<close> (identifiers, references), \<open>Ledger\<close> (payments and spent amounts),
    \<open>Lifecycle\<close> and \<open>Closure\<close> (statuses of sub projects, phases and main projects),
    \<open>Teams\<close>, \<open>TaskBoard\<close>, \<open>DocumentGroups\<close>, \<open>Revocations\<close>, \<open>Publication\<close>: one
    invariant or monotone relation each, proved per operation and carried to every reachable
    state by the locales of \<open>Transition\<close>.
  \<^item> \<open>Webhooks\<close>, \<open>WebhookQueue\<close> (\<open>services/webhooks.py\<close>), \<open>Deliveries\<close>, \<open>DeliveryQueue\<close>
    (\<open>services/notification_deliveries.py\<close>): the two retry queues with their own machines.
  \<^item> \<open>ReportDatasets\<close>, \<open>ReportCompiler\<close>, \<open>ReportSchedule\<close>, \<open>CustomReports\<close>
    (\<open>services/report_datasets.py\<close>, \<open>report_query_compiler.py\<close>, \<open>custom_reports.py\<close>).
  \<^item> \<open>Scenario\<close>: a run of the system on concrete data, evaluated call by call; the witnesses
    start from its states.
  \<^item> \<open>Identifiers\<close> (\<open>str(uuid)\<close> and \<open>UUID(text)\<close>), \<open>Sessions\<close> (\<open>services/auth.py\<close>,
    \<open>core/security.py\<close>, \<open>core/deps.py\<close>, \<open>api/v1/auth.py\<close>), \<open>Accounts\<close>
    (\<open>services/users.py\<close>, \<open>departments.py\<close>), \<open>Directory\<close>: accounts, departments and
    sessions as a timed machine whose two clocks advance together.
  \<^item> \<open>Snapshots\<close>, \<open>Archives\<close> (\<open>services/archives.py\<close>), \<open>ArchiveRuns\<close>: the texts a row is
    archived as and how they are read back, the runs and restores, and the database with its
    archive as a machine.

  \<^bold>\<open>The properties.\<close>  Below: the invariants and safety properties of every reachable database
  (the books, teams, life cycles, closure, revoke requests, workflow versions, tasks, document
  versions, references).  \<open>Contracts\<close>: what a single operation does on success and on failure.
  \<open>Foundations\<close>: storage, upload validation, phase definitions, numbering, permissions.
  \<open>Messaging\<close>: deliveries come to an end and dead letters are reported once.  \<open>Reports\<close> and
  \<open>ReportRuns\<close>: what a report may show, how its values reach the database, when it runs and how
  a run ends.  \<open>AccountSafety\<close>: unique names, limited guessing, tokens
  and their revocation.  \<open>Imports\<close>: what an import of projects adds and reports.
  \<open>ArchiveSafety\<close>: what an archive run takes and keeps, and what a restore brings back.

  \<^bold>\<open>Bounds and fuel.\<close>  Recursion is structural or has a measure.  Archives nest without bound in
  the model of the validator; the nesting is the structure of the value the \<open>zipfile\<close> argument
  returns.  A webhook delivery has at most six attempts and its last delay is the longest, so
  six rounds apart by the longest delay finish it.  A scheduled run has \<open>max 1 max_attempts\<close>
  attempts.  A monthly run is looked for in the present month and the next, and calendar facts hold
  for the years 1 to 9999 of Python's \<open>datetime\<close>.  Python integers are unbounded and are \<open>int\<close>;
  nothing in the modelled code computes at a machine width.  The unique columns of the database
  that the services do not check themselves (a generated project number that an import has taken)
  are not enforced: the invariants hold with more moves than the program has.  An archive run and a restore delete and
  insert without the checks of foreign keys that no cascade serves.  Identifiers are unbounded
  except where a snapshot prints them: an archive run is a move while those drawn fit into 128 bits.

  \<^bold>\<open>Arguments.\<close>  What is not under \<open>src/\<close> is an argument of the definitions that use it:
  \<open>zipfile\<close>, the LibreOffice converter, the virus scan scheduler, the HTTP transport, HMAC, the
  channels, the time zone database, the query engine and the renderer of reports,
  password hashing and the coding of tokens, the reader of workbooks.  They
  are unconstrained except where a property names what it relies on.

  \<^bold>\<open>Not modelled.\<close>  The HTTP layer and request parsing beyond the validators that services rely
  on; concurrency between requests and row locks (each request is one step, with a commit per
  item where the code has one); disk failures and symbolic links in the storage; the bodies of
  the e-mail, WeCom and DingTalk channels; database exports and file cleanup; the texts of dates and
  instants in other formats than those \<open>str\<close> prints, which no snapshot holds; the fixed
  reports and dashboards, benchmarks and risk scores; project templates;
  the Redis stores of the sessions (the in-memory ones are modelled), OAuth and API keys; search, text extraction, classification and other calls of
  external models; health checks, metrics and partition management; migrations, seeds and the
  Celery wiring; the Vue frontend.  These are input and output, calls of external systems, or
  read-only queries, and carry no state the theorems here depend on.
\<close>

section \<open>The books\<close>

text \<open>
  C1: In every reachable state the books balance: the spent amount of each sub project is the
  sum of its payments, and the spent amount of each main project is the sum over its sub
  projects.
\<close>
theorem books_balance:
  assumes "reachable db"
  shows "(\<forall>s \<in> set (sub_projects db). sp_spent_amount s = payment_total (sp_id s) db) \<and>
    (\<forall>m \<in> set (main_projects db). mp_spent_amount m = sub_spent_total (mp_id m) db)"
  using books.reachable_inv [OF assms [unfolded reachable_def]] by (simp add: balanced_def)

lemma books_balance_witness:
  "\<exists>s m. s \<in> set (sub_projects world7) \<and> m \<in> set (main_projects world7) \<and>
     sp_spent_amount s = payment_total (sp_id s) world7 \<and>
     mp_spent_amount m = sub_spent_total (mp_id m) world7"
proof -
  have "sub_projects world7 \<noteq> []" "main_projects world7 \<noteq> []" by (simp_all add: world7_def)
  then have "hd (sub_projects world7) \<in> set (sub_projects world7)"
    "hd (main_projects world7) \<in> set (main_projects world7)" by simp_all
  with books_balance [OF reach7] show ?thesis by blast
qed

text \<open>
  C2: Reversals are exact and happen once: in every reachable state a reversal takes back one
  normal payment of the same sub project with exactly its amount, no two reversals take back
  the same payment, and a normal payment is positive; so no sub project has spent less than
  nothing.
\<close>
theorem reversal_discipline:
  assumes "reachable db"
  shows "(\<forall>p \<in> set (payments db). pay_payment_type p = payment_type.normal \<longrightarrow> 0 < pay_amount p) \<and>
    (\<forall>p \<in> set (payments db). pay_payment_type p = payment_type.reversal \<longrightarrow>
       (\<exists>q \<in> set (payments db). pay_reverses_payment_id p = Some (pay_id q) \<and>
          pay_payment_type q = payment_type.normal \<and> pay_sub_project_id q = pay_sub_project_id p \<and>
          pay_amount p = - pay_amount q)) \<and>
    (\<forall>p \<in> set (payments db). \<forall>q \<in> set (payments db).
       pay_payment_type p = payment_type.reversal \<longrightarrow> pay_payment_type q = payment_type.reversal \<longrightarrow>
       pay_reverses_payment_id p = pay_reverses_payment_id q \<longrightarrow> p = q) \<and>
    (\<forall>s \<in> set (sub_projects db). 0 \<le> sp_spent_amount s)"
proof -
  note reach = assms [unfolded reachable_def]
  have ok: "reversals_ok (payments db)" by (rule reversals.reachable_inv [OF reach])
  have "fresh_ids pay_id (payments db) (next_uuid db)"
    using integrity.reachable_inv [OF reach] by (simp add: integrity_def)
  then have "0 \<le> payment_total sid db" for sid by (rule payment_total_nonneg [OF ok])
  moreover have "\<forall>s \<in> set (sub_projects db). sp_spent_amount s = payment_total (sp_id s) db"
    using books.reachable_inv [OF reach] by (simp add: balanced_def)
  ultimately show ?thesis
    using ok unfolding reversals_ok_def reverses_exactly_def by simp
qed

lemma reversal_discipline_witness:
  "\<exists>p \<in> set (payments world7). pay_payment_type p = payment_type.reversal \<and>
     (\<exists>q \<in> set (payments world7). pay_reverses_payment_id p = Some (pay_id q) \<and>
        pay_amount p = - pay_amount q)"
proof -
  have "\<exists>p \<in> set (payments world7). pay_payment_type p = payment_type.reversal"
    by (simp add: world7_def)
  with reversal_discipline [OF reach7] show ?thesis by blast
qed

text \<open>
  Payment numbers are unique within their sub project in every reachable state.
\<close>
theorem payment_numbers_unique:
  assumes "reachable db"
  shows "distinct (map pay_payment_no (filter (\<lambda>p. pay_sub_project_id p = sid) (payments db)))"
  using payment_register.reachable_inv [OF assms [unfolded reachable_def]]
  by (simp add: payment_nos_distinct_def payment_nos_def)

lemma payment_numbers_unique_witness:
  "distinct (map pay_payment_no (filter (\<lambda>p. pay_sub_project_id p = 102) (payments world7)))"
  by (rule payment_numbers_unique [OF reach7])

section \<open>Projects, teams and phases\<close>

text \<open>
  C4: Teams are consistent in every reachable state: nobody is a member of a sub project twice,
  the manager of each sub project is one of its members, and among the members of a sub project
  exactly the row of the manager has the leader role.
\<close>
theorem teams_consistent:
  assumes "reachable db"
  shows "distinct (map (\<lambda>m. (mem_sub_project_id m, mem_user_id m)) (members db)) \<and>
    (\<forall>s \<in> set (sub_projects db).
       (\<exists>m \<in> set (members db). mem_sub_project_id m = sp_id s \<and> mem_user_id m = sp_manager_id s \<and>
          mem_role m = member_role.proj_leader) \<and>
       (\<forall>m \<in> set (members db). mem_sub_project_id m = sp_id s \<longrightarrow>
          mem_role m = member_role.proj_leader \<longrightarrow> mem_user_id m = sp_manager_id s))"
proof -
  have ok: "roster_ok (map team_row (sub_projects db)) (members db)"
    using teams.reachable_inv [OF assms [unfolded reachable_def]] by (simp add: teams_ok_def)
  have "leads (team_row s) (members db)" if "s \<in> set (sub_projects db)" for s
    using ok that by (simp add: roster_ok_def)
  moreover have "distinct (map (\<lambda>m. (mem_sub_project_id m, mem_user_id m)) (members db))"
    using ok unfolding roster_ok_def member_key_def by blast
  ultimately show ?thesis
    by (fastforce simp: leads_def team_row_def member_key_def)
qed

lemma teams_consistent_witness:
  "\<exists>s \<in> set (sub_projects world21). \<exists>m \<in> set (members world21).
     mem_user_id m = sp_manager_id s \<and> mem_role m = member_role.proj_leader"
proof -
  have "\<exists>s. s \<in> set (sub_projects world21)" by (simp add: world21_def)
  with teams_consistent [OF reach21] show ?thesis by blast
qed

text \<open>
  C5: The status of a sub project fits its phases in every reachable state: a completed or closed
  sub project has only completed phases, a closed one has exactly six of them, and a sub project
  that waits for its review or was rejected has none.
\<close>
theorem sub_project_lifecycle:
  assumes "reachable db" and "s \<in> set (sub_projects db)"
  defines "own \<equiv> filter (\<lambda>p. ph_sub_project_id p = sp_id s) (phases db)"
  shows "(sp_status s \<in> {sub_project_status.completed, sub_project_status.closed} \<longrightarrow>
      (\<forall>p \<in> set own. ph_status p = phase_status.completed)) \<and>
    (sp_status s = sub_project_status.closed \<longrightarrow> length own = 6) \<and>
    (sp_status s \<in> {sub_project_status.pending_review, sub_project_status.rejected} \<longrightarrow> own = [])"
proof -
  have "settled (sp_status s) (own_phases (sp_id s) (phases db))"
    using lifecycle.reachable_inv [OF assms(1) [unfolded reachable_def]] assms(2)
    by (simp add: lifecycle_ok_def)
  then show ?thesis unfolding own_def by (simp add: settled_def own_phases_def)
qed

lemma sub_project_lifecycle_witness:
  "filter (\<lambda>p. ph_sub_project_id p = 102) (phases world3) = []"
proof -
  have "\<exists>s \<in> set (sub_projects world3). sp_id s = 102 \<and> sp_status s = sub_project_status.pending_review"
    by (simp add: world3_def)
  then obtain s where s: "s \<in> set (sub_projects world3)" "sp_id s = 102"
    "sp_status s = sub_project_status.pending_review" by blast
  from sub_project_lifecycle [OF reach3 s(1)] s(2,3) show ?thesis by simp
qed

text \<open>
  C6: In every reachable state, the sub projects of a closed main project are completed, closed
  or terminated: nothing opens a sub project again below a closed project.
\<close>
theorem closed_projects_have_ended:
  assumes "reachable db" and "m \<in> set (main_projects db)" and "mp_status m = main_project_status.closed"
    and "s \<in> set (sub_projects db)" and "sp_main_project_id s = mp_id m"
  shows "sp_status s \<in> {sub_project_status.completed, sub_project_status.closed,
    sub_project_status.terminated}"
proof -
  have "mp_id m \<in> closed_ids (main_projects db)" using assms(2,3) by (auto simp: closed_ids_def)
  then have "ended (sp_status s)"
    using closure.reachable_inv [OF assms(1) [unfolded reachable_def]] assms(4,5)
    by (simp add: closure_ok_def)
  then show ?thesis by (simp add: ended_def)
qed

lemma closed_projects_have_ended_witness:
  "\<exists>s \<in> set (sub_projects world28). sp_status s \<in> {sub_project_status.completed,
     sub_project_status.closed, sub_project_status.terminated}"
proof -
  have "\<exists>m \<in> set (main_projects world28). mp_status m = main_project_status.closed \<and>
      (\<exists>s \<in> set (sub_projects world28). sp_main_project_id s = mp_id m)"
    by (simp add: world28_def world27_def world26_def)
  then obtain m s where "m \<in> set (main_projects world28)" "mp_status m = main_project_status.closed"
    and s: "s \<in> set (sub_projects world28)" "sp_main_project_id s = mp_id m" by blast
  from closed_projects_have_ended [OF reach28 this] s(1) show ?thesis by blast
qed

section \<open>Requests, workflows, tasks and documents\<close>

text \<open>
  C7: In every reachable state, at most one revoke request of a phase is pending.
\<close>
theorem one_pending_revoke:
  assumes "reachable db" and "r \<in> set (revoke_requests db)" and "q \<in> set (revoke_requests db)"
    and "rr_status r = revoke_status.pending" and "rr_status q = revoke_status.pending"
    and "rr_phase_id r = rr_phase_id q"
  shows "r = q"
proof -
  let ?pending = "filter (\<lambda>r. rr_status r = revoke_status.pending) (revoke_requests db)"
  have "distinct (map rr_phase_id ?pending)"
    using revocations.reachable_inv [OF assms(1) [unfolded reachable_def]]
    by (simp add: one_pending_def pending_places_def)
  moreover have "r \<in> set ?pending" "q \<in> set ?pending" using assms(2-5) by simp_all
  ultimately show ?thesis using assms(6) by (rule distinct_key_eqD)
qed

lemma one_pending_revoke_witness:
  "hd (revoke_requests world16) = last (revoke_requests world16)"
  by (rule one_pending_revoke [OF reach16]) (simp_all add: world16_def)

text \<open>
  C8: A decision on a revoke request is final: once a request is approved or rejected, its row
  is the same in every later state.
\<close>
theorem revoke_decisions_are_final:
  assumes "reachable db" and "step\<^sup>*\<^sup>* db db'" and "r \<in> set (revoke_requests db)"
    and "rr_status r \<noteq> revoke_status.pending"
  shows "r \<in> set (revoke_requests db')"
  using decisions.run_rel [OF assms(2) assms(1) [unfolded reachable_def]] assms(3,4)
  by (simp add: keeps_decisions_def)

lemma revoke_decisions_are_final_witness:
  "hd (revoke_requests world17) \<in> set (revoke_requests world18)"
proof (rule revoke_decisions_are_final [OF reach17])
  show "step\<^sup>*\<^sup>* world17 world18" by (rule r_into_rtranclp) (rule do_handover [OF run18])
  show "hd (revoke_requests world17) \<in> set (revoke_requests world17)"
    "rr_status (hd (revoke_requests world17)) \<noteq> revoke_status.pending"
    by (simp_all add: world17_def)
qed

text \<open>
  C9: Published workflow versions are immutable: a version that is published has phases, and its
  row is the same in every later state, so the phases and document rules of the sub projects
  that use it do not change under them.
\<close>
theorem published_versions_frozen:
  assumes "reachable db" and "step\<^sup>*\<^sup>* db db'" and "v \<in> set (workflow_versions db)"
    and "wv_status v = workflow_status.published"
  shows "v \<in> set (workflow_versions db') \<and> wv_phase_definitions v \<noteq> []"
  using published.run_rel [OF assms(2) assms(1) [unfolded reachable_def]] assms(3,4)
    versions.reachable_inv [OF assms(1) [unfolded reachable_def]]
  by (simp add: keeps_published_def versions_ok_def)

lemma published_versions_frozen_witness:
  "hd (workflow_versions world25) \<in> set (workflow_versions world26) \<and>
     wv_phase_definitions (hd (workflow_versions world25)) \<noteq> []"
proof (rule published_versions_frozen [OF reach25])
  show "step\<^sup>*\<^sup>* world25 world26" by (rule r_into_rtranclp) (rule do_terminate_sub_project [OF run26])
  show "hd (workflow_versions world25) \<in> set (workflow_versions world25)"
    "wv_status (hd (workflow_versions world25)) = workflow_status.published"
    by (simp_all add: world25_def)
qed

text \<open>
  C10: The task board is consistent in every reachable state: the stored status of a task is the
  aggregate of the statuses of its executors, no user executes a task twice, and the numbers of
  the tasks of a sub project are distinct.
\<close>
theorem task_board_consistent:
  assumes "reachable db"
  shows "(\<forall>t \<in> set (tasks db).
      task_status t = aggregate_task_status (executors_of (task_id t) db) \<and>
      distinct (map ex_user_id (executors_of (task_id t) db))) \<and>
    distinct (map task_task_no (filter (\<lambda>t. task_sub_project_id t = sid) (tasks db)))"
  using task_board.reachable_inv [OF assms [unfolded reachable_def]]
  by (simp add: task_board_ok_def task_status_ok_def task_nos_def)

lemma task_board_consistent_witness:
  "\<exists>t \<in> set (tasks world10). task_status t = aggregate_task_status
     (executors_of (task_id t) world10)"
proof -
  have "\<exists>t. t \<in> set (tasks world10)" by (simp add: world10_def world9_def)
  with task_board_consistent [OF reach10] show ?thesis by blast
qed



text \<open>
  C12: References do not dangle in any reachable state: the main project of each sub project, the
  sub project of each phase and payment and the phase of each revoke request exist.
\<close>
theorem references_resolve:
  assumes "reachable db"
  shows "(\<forall>s \<in> set (sub_projects db). \<exists>m. get_main_project (sp_main_project_id s) db = Some m) \<and>
    (\<forall>p \<in> set (phases db). \<exists>s. get_sub_project (ph_sub_project_id p) db = Some s) \<and>
    (\<forall>p \<in> set (payments db). \<exists>s. get_sub_project (pay_sub_project_id p) db = Some s) \<and>
    (\<forall>r \<in> set (revoke_requests db). \<exists>p. get_phase (rr_phase_id r) db = Some p)"
proof -
  note refs = reachable_integrity [OF assms, unfolded integrity_def]
  have main: "\<exists>m. get_main_project k db = Some m" if "k \<in> mp_id ` set (main_projects db)" for k
    using that main_rows.get_None_iff [of k db] by (cases "get_main_project k db") simp_all
  have sub: "\<exists>s. get_sub_project k db = Some s" if "k \<in> sp_id ` set (sub_projects db)" for k
    using that sub_rows.get_None_iff [of k db] by (cases "get_sub_project k db") simp_all
  have place: "\<exists>p. get_phase k db = Some p" if "k \<in> ph_id ` set (phases db)" for k
    using that phase_rows.get_None_iff [of k db] by (cases "get_phase k db") simp_all
  have request: "rr_phase_id r \<in> ph_id ` set (phases db)" if "r \<in> set (revoke_requests db)" for r
  proof -
    have "revoke_place ` set (revoke_requests db) \<subseteq> phase_place ` set (phases db)"
      using refs by (elim conjE)
    with that have "revoke_place r \<in> phase_place ` set (phases db)" by blast
    then show ?thesis by (auto simp: revoke_place_def phase_place_def)
  qed
  have columns: "sp_main_project_id ` set (sub_projects db) \<subseteq> mp_id ` set (main_projects db)"
    "ph_sub_project_id ` set (phases db) \<subseteq> sp_id ` set (sub_projects db)"
    "pay_sub_project_id ` set (payments db) \<subseteq> sp_id ` set (sub_projects db)"
    by (insert refs, (elim conjE, assumption)+)
  note column = columns [THEN subsetD, OF imageI]
  show ?thesis
    by (intro conjI ballI) (erule main [OF column(1)] sub [OF column(2)] sub [OF column(3)]
        place [OF request])+
qed

lemma references_resolve_witness:
  "\<exists>r \<in> set (revoke_requests world16). \<exists>p. get_phase (rr_phase_id r) world16 = Some p"
proof -
  have "\<exists>r. r \<in> set (revoke_requests world16)" by (simp add: world16_def)
  with references_resolve [OF reach16] show ?thesis by blast
qed

end
